(* ===== verification/Rust_Prelude.thy ===== *)
theory Rust_Prelude
  imports Main "HOL-Library.Word" "HOL-Library.Sublist" "HOL-Library.Multiset"
begin

text \<open>
  The vocabulary the component theories share: machine integers, Rust strings and the part of
  \<open>core::str\<close> and \<open>core::fmt\<close> the sources call, results with early return, and the generic list
  facts the components need.

  \<^item> A Rust \<open>String\<close> is its UTF-8 byte sequence, so a \<open>string\<close> here is a list of bytes and
    \<open>length\<close> is Rust's \<open>len()\<close>. The whitespace that \<open>str::trim\<close> removes is the Unicode property
    White\_Space; its multi-byte members are recognised by their UTF-8 encodings.
  \<^item> \<open>u64\<close>, \<open>u32\<close> and \<open>u8\<close> are words; arithmetic wraps, which is what the release profile of
    the workspace compiles to. \<open>i64\<close> timestamps are integers with the saturation written out.
  \<^item> \<open>Result<T, E>\<close> is the sum \<open>'e + 'a\<close> with \<open>Inl\<close> for \<open>Err\<close>; the question-mark operator
    is \<open>res_bind\<close>.
\<close>

named_theorems res_simps \<open>rewriting of results with early return\<close>
named_theorems eval_simps \<open>equations that evaluate closed terms of the model by rewriting\<close>

type_synonym u8 = "8 word"
type_synonym u32 = "32 word"
type_synonym u64 = "64 word"
type_synonym i64 = int

section \<open>Results with early return\<close>

type_synonym ('e, 'a) result = "'e + 'a"

fun res_bind :: "'e + 'a \<Rightarrow> ('a \<Rightarrow> 'e + 'b) \<Rightarrow> 'e + 'b" where
  "res_bind (Inl e) f = Inl e"
| "res_bind (Inr x) f = f x"

definition guard :: "bool \<Rightarrow> 'e \<Rightarrow> 'e + unit" where
  "guard ok e = (if ok then Inr () else Inl e)"

definition is_ok :: "'e + 'a \<Rightarrow> bool" where
  "is_ok r = (case r of Inl _ \<Rightarrow> False | Inr _ \<Rightarrow> True)"

lemma res_bind_Inr_iff [res_simps]:
  "res_bind r f = Inr y \<longleftrightarrow> (\<exists>x. r = Inr x \<and> f x = Inr y)"
  by (cases r) auto

lemma res_bind_Inl_iff [res_simps]:
  "res_bind r f = Inl e \<longleftrightarrow> r = Inl e \<or> (\<exists>x. r = Inr x \<and> f x = Inl e)"
  by (cases r) auto

lemma guard_Inr_iff [res_simps]: "guard ok e = Inr u \<longleftrightarrow> ok"
  by (simp add: guard_def)

lemma guard_Inl_iff [res_simps]: "guard ok e = Inl e' \<longleftrightarrow> \<not> ok \<and> e' = e"
  by (auto simp: guard_def)

lemma is_ok_iff [res_simps]: "is_ok r \<longleftrightarrow> (\<exists>x. r = Inr x)"
  by (cases r) (auto simp: is_ok_def)

text \<open>Running a fallible step over a list stops at the first error.\<close>

fun res_fold :: "('s \<Rightarrow> 'a \<Rightarrow> 'e + 's) \<Rightarrow> 's \<Rightarrow> 'a list \<Rightarrow> 'e + 's" where
  "res_fold f s [] = Inr s"
| "res_fold f s (x # xs) = res_bind (f s x) (\<lambda>s'. res_fold f s' xs)"

lemma res_fold_append:
  "res_fold f s (xs @ ys) = res_bind (res_fold f s xs) (\<lambda>s'. res_fold f s' ys)"
proof (induction xs arbitrary: s)
  case (Cons x xs)
  then show ?case by (cases "f s x") auto
qed simp

lemma res_fold_invariant:
  assumes "\<And>s x s'. P s \<Longrightarrow> x \<in> set xs \<Longrightarrow> f s x = Inr s' \<Longrightarrow> P s'"
    and "P s" and "res_fold f s xs = Inr s'"
  shows "P s'"
  using assms
proof (induction xs arbitrary: s)
  case (Cons x xs)
  from Cons.prems(3) obtain t where t: "f s x = Inr t" and rest: "res_fold f t xs = Inr s'"
    by (auto simp: res_simps)
  have "P t" using Cons.prems(1) [OF Cons.prems(2) _ t] by simp
  then show ?case using Cons.IH [of t] Cons.prems(1) rest by (meson list.set_intros(2))
qed simp

text \<open>A relation that is reflexive and transitive and holds for every step holds for the run.\<close>

lemma res_fold_relation:
  assumes "\<And>s x s'. x \<in> set xs \<Longrightarrow> f s x = Inr s' \<Longrightarrow> R s s'"
    and "\<And>s. R s s" and "\<And>a b c. R a b \<Longrightarrow> R b c \<Longrightarrow> R a c"
    and "res_fold f s xs = Inr s'"
  shows "R s s'"
  using assms(1,4)
proof (induction xs arbitrary: s)
  case Nil
  then show ?case using assms(2) by simp
next
  case (Cons x xs)
  from Cons.prems(2) obtain t where t: "f s x = Inr t" and rest: "res_fold f t xs = Inr s'"
    by (auto simp: res_simps)
  have "R s t" using Cons.prems(1) [OF _ t] by simp
  moreover have "R t s'"
    using Cons.IH [OF _ rest] Cons.prems(1) by (meson list.set_intros(2))
  ultimately show ?case using assms(3) by blast
qed

text \<open>A \<open>for\<close> loop that checks every element and returns on the first failure.\<close>

fun res_check :: "('a \<Rightarrow> 'e + unit) \<Rightarrow> 'a list \<Rightarrow> 'e + unit" where
  "res_check f [] = Inr ()"
| "res_check f (x # xs) = res_bind (f x) (\<lambda>_. res_check f xs)"

lemma res_check_Inr_iff [res_simps]:
  "res_check f xs = Inr u \<longleftrightarrow> (\<forall>x\<in>set xs. f x = Inr ())"
  by (induction xs) (auto simp: res_simps)

lemma res_bind_cong [fundef_cong]:
  "r = r' \<Longrightarrow> (\<And>x. r' = Inr x \<Longrightarrow> f x = f' x) \<Longrightarrow> res_bind r f = res_bind r' f'"
  by (cases r') auto

lemma res_fold_cong [fundef_cong]:
  "s = s' \<Longrightarrow> xs = ys \<Longrightarrow> (\<And>s x. x \<in> set ys \<Longrightarrow> f s x = g s x) \<Longrightarrow>
     res_fold f s xs = res_fold g s' ys"
proof (induction xs arbitrary: s s' ys)
  case (Cons x xs)
  then show ?case by (cases "g s x") auto
qed simp

lemma res_check_cong [fundef_cong]:
  "xs = ys \<Longrightarrow> (\<And>x. x \<in> set ys \<Longrightarrow> f x = g x) \<Longrightarrow> res_check f xs = res_check g ys"
proof (induction xs arbitrary: ys)
  case (Cons x xs)
  then show ?case by (cases "g x") auto
qed simp

text \<open>Collecting the results of a fallible function over a list.\<close>

fun res_map :: "('a \<Rightarrow> 'e + 'b) \<Rightarrow> 'a list \<Rightarrow> 'e + 'b list" where
  "res_map f [] = Inr []"
| "res_map f (x # xs) = res_bind (f x) (\<lambda>y. res_bind (res_map f xs) (\<lambda>ys. Inr (y # ys)))"

text \<open>\<open>Result::map_err\<close> and \<open>Option::unwrap_or_default\<close> of a collection.\<close>

definition map_err :: "('d \<Rightarrow> 'e) \<Rightarrow> 'd + 'a \<Rightarrow> 'e + 'a" where
  "map_err f r = (case r of Inl e \<Rightarrow> Inl (f e) | Inr x \<Rightarrow> Inr x)"

lemma map_err_Inr [simp]: "map_err f r = Inr x \<longleftrightarrow> r = Inr x"
  by (cases r) (simp_all add: map_err_def)

lemma map_err_Inl: "map_err f r = Inl e \<longleftrightarrow> (\<exists>d. r = Inl d \<and> e = f d)"
  by (cases r) (auto simp: map_err_def)

definition or_default :: "'a list option \<Rightarrow> 'a list" where
  "or_default x = (case x of Some v \<Rightarrow> v | None \<Rightarrow> [])"

text \<open>A fallible action on a world: the world moves on even when the action fails.\<close>

type_synonym ('w, 'e, 'a) action = "'w \<Rightarrow> ('e + 'a) \<times> 'w"

definition act_bind :: "('w, 'e, 'a) action \<Rightarrow> ('a \<Rightarrow> ('w, 'e, 'b) action) \<Rightarrow> ('w, 'e, 'b) action" where
  "act_bind m f = (\<lambda>w. case m w of (Inl e, w') \<Rightarrow> (Inl e, w') | (Inr x, w') \<Rightarrow> f x w')"

definition act_return :: "'a \<Rightarrow> ('w, 'e, 'a) action" where
  "act_return x = (\<lambda>w. (Inr x, w))"

definition act_fail :: "'e \<Rightarrow> ('w, 'e, 'a) action" where
  "act_fail e = (\<lambda>w. (Inl e, w))"

definition act_map_err :: "('d \<Rightarrow> 'e) \<Rightarrow> ('w, 'd, 'a) action \<Rightarrow> ('w, 'e, 'a) action" where
  "act_map_err f m = (\<lambda>w. case m w of (Inl e, w') \<Rightarrow> (Inl (f e), w') | (Inr x, w') \<Rightarrow> (Inr x, w'))"

lemma act_bind_Inr_iff [res_simps]:
  "act_bind m f w = (Inr y, w2) \<longleftrightarrow> (\<exists>x w1. m w = (Inr x, w1) \<and> f x w1 = (Inr y, w2))"
  by (auto simp: act_bind_def split: prod.splits sum.splits)

lemma act_return_iff [res_simps]: "act_return x w = (r, w') \<longleftrightarrow> r = Inr x \<and> w' = w"
  by (auto simp: act_return_def)

lemma act_fail_iff [res_simps]: "act_fail e w = (r, w') \<longleftrightarrow> r = Inl e \<and> w' = w"
  by (auto simp: act_fail_def)

lemma act_map_err_Inr_iff [res_simps]: "act_map_err f m w = (Inr y, w') \<longleftrightarrow> m w = (Inr y, w')"
  by (auto simp: act_map_err_def split: prod.splits sum.splits)

text \<open>
  What every action of a computation keeps, the computation keeps, and an error of the computation
  is an error of one of its actions.
\<close>

definition act_ok :: "('w \<Rightarrow> bool) \<Rightarrow> ('e \<Rightarrow> bool) \<Rightarrow> ('w, 'e, 'a) action \<Rightarrow> bool" where
  "act_ok I E m \<longleftrightarrow> (\<forall>w r w'. I w \<and> m w = (r, w') \<longrightarrow> I w' \<and> (\<forall>e. r = Inl e \<longrightarrow> E e))"

lemma act_ok_bind:
  assumes "act_ok I E m" and "\<And>x. act_ok I E (f x)"
  shows "act_ok I E (act_bind m f)"
  unfolding act_ok_def
proof (intro allI impI)
  fix w r w' assume w: "I w \<and> act_bind m f w = (r, w')"
  obtain r1 w1 where m: "m w = (r1, w1)" by fastforce
  then have w1: "I w1" using assms(1) w unfolding act_ok_def by blast
  show "I w' \<and> (\<forall>e. r = Inl e \<longrightarrow> E e)"
  proof (cases r1)
    case (Inl e)
    with m w have "r = Inl e" "w' = w1" by (simp_all add: act_bind_def)
    then show ?thesis using m w w1 Inl assms(1) unfolding act_ok_def by blast
  next
    case (Inr x)
    with m w have "f x w1 = (r, w')" by (simp add: act_bind_def)
    then show ?thesis using w1 assms(2) [of x] unfolding act_ok_def by blast
  qed
qed

lemma act_ok_return: "act_ok I E (act_return x)"
  by (auto simp: act_ok_def act_return_def)

lemma act_ok_fail: "E e \<Longrightarrow> act_ok I E (act_fail e)"
  by (auto simp: act_ok_def act_fail_def)

lemma act_ok_map_err: "act_ok I (\<lambda>e. E (f e)) m \<Longrightarrow> act_ok I E (act_map_err f m)"
  unfolding act_ok_def act_map_err_def by (fastforce split: prod.splits sum.splits)

lemma act_ok_mono: "act_ok I D m \<Longrightarrow> (\<And>e. D e \<Longrightarrow> E e) \<Longrightarrow> act_ok I E m"
  unfolding act_ok_def by blast

lemmas act_ok_intros = act_ok_bind act_ok_return act_ok_fail act_ok_map_err

text \<open>A loop whose step may not return: the whole loop then does not return.\<close>

fun opt_fold :: "('s \<Rightarrow> 'a \<Rightarrow> 's option) \<Rightarrow> 's \<Rightarrow> 'a list \<Rightarrow> 's option" where
  "opt_fold f s [] = Some s"
| "opt_fold f s (x # xs) = (case f s x of None \<Rightarrow> None | Some s' \<Rightarrow> opt_fold f s' xs)"

lemma opt_fold_cong [fundef_cong]:
  "s = s' \<Longrightarrow> xs = ys \<Longrightarrow> (\<And>s x. x \<in> set ys \<Longrightarrow> f s x = g s x) \<Longrightarrow>
     opt_fold f s xs = opt_fold g s' ys"
proof (induction xs arbitrary: s s' ys)
  case (Cons x xs)
  then show ?case by (cases "g s x") auto
qed simp

lemma opt_fold_invariant:
  assumes "P s" and "\<And>s x. P s \<Longrightarrow> x \<in> set xs \<Longrightarrow> \<exists>s'. f s x = Some s' \<and> P s'"
  shows "\<exists>s'. opt_fold f s xs = Some s' \<and> P s'"
  using assms
proof (induction xs arbitrary: s)
  case (Cons x xs)
  from Cons.prems obtain s1 where "f s x = Some s1" "P s1" by (meson list.set_intros(1))
  then show ?case using Cons.IH [of s1] Cons.prems(2) by simp
qed simp

section \<open>Machine integers\<close>

definition u64_saturating_add :: "u64 \<Rightarrow> u64 \<Rightarrow> u64" where
  "u64_saturating_add a b = (if unat a + unat b < 2 ^ 64 then a + b else - 1)"

definition u32_saturating_add :: "u32 \<Rightarrow> u32 \<Rightarrow> u32" where
  "u32_saturating_add a b = (if unat a + unat b < 2 ^ 32 then a + b else - 1)"

definition i64_max :: i64 where
  "i64_max = 2 ^ 63 - 1"

definition i64_min :: i64 where
  "i64_min = - (2 ^ 63)"

definition i64_saturating_add :: "i64 \<Rightarrow> i64 \<Rightarrow> i64" where
  "i64_saturating_add a b = max i64_min (min i64_max (a + b))"

lemma u64_succ_neq [simp]: "(x :: u64) + 1 \<noteq> x"
  by simp

lemma unat_u64_bound: "unat (a :: u64) \<le> 2 ^ 64 - 1"
  using unsigned_less [of a, where 'a = nat] by simp

lemma unat_u64_saturating_add:
  "unat (u64_saturating_add a b) = min (unat a + unat b) (2 ^ 64 - 1)"
proof (cases "unat a + unat b < 2 ^ 64")
  case True
  then show ?thesis by (simp add: u64_saturating_add_def unat_word_ariths)
next
  case False
  moreover have "unat (- 1 :: u64) = 2 ^ 64 - 1" 
    by (simp add: unsigned_minus_1_eq_mask mask_eq_exp_minus_1)
  ultimately show ?thesis by (simp add: u64_saturating_add_def)
qed

lemma u64_saturating_add_mono: "a \<le> u64_saturating_add a b"
  using unat_u64_bound [of a] by (simp add: word_le_nat_alt unat_u64_saturating_add)

lemma u64_saturating_succ_gt:
  assumes "(g :: u64) \<noteq> - 1"
  shows "g < u64_saturating_add g 1"
proof -
  have "unat g \<noteq> unat (- 1 :: u64)" using assms by (metis word_unat_eq_iff)
  moreover have "unat (- 1 :: u64) = 2 ^ 64 - 1"
    by (simp add: unsigned_minus_1_eq_mask mask_eq_exp_minus_1)
  ultimately show ?thesis
    using unat_u64_bound [of g] by (simp add: word_less_nat_alt unat_u64_saturating_add)
qed

lemma unat_u32_saturating_add:
  "unat (u32_saturating_add a b) = min (unat a + unat b) (2 ^ 32 - 1)"
proof (cases "unat a + unat b < 2 ^ 32")
  case True
  then show ?thesis by (simp add: u32_saturating_add_def unat_word_ariths)
next
  case False
  moreover have "unat (- 1 :: u32) = 2 ^ 32 - 1" 
    by (simp add: unsigned_minus_1_eq_mask mask_eq_exp_minus_1)
  ultimately show ?thesis by (simp add: u32_saturating_add_def)
qed

section \<open>Strings as UTF-8 bytes\<close>

text \<open>
  \<open>ws_len s\<close> is the number of bytes of the White\_Space character at the front of \<open>s\<close>, 0 when
  there is none: U+0009 to U+000D and U+0020 take one byte, U+0085 and U+00A0 two, U+1680,
  U+2000 to U+200A, U+2028, U+2029, U+202F, U+205F and U+3000 three.
\<close>

definition ws2 :: "nat \<Rightarrow> nat \<Rightarrow> bool" where
  "ws2 a b \<longleftrightarrow> a = 194 \<and> (b = 133 \<or> b = 160)"

definition ws3 :: "nat \<Rightarrow> nat \<Rightarrow> nat \<Rightarrow> bool" where
  "ws3 a b c \<longleftrightarrow>
     (a = 225 \<and> b = 154 \<and> c = 128)
   \<or> (a = 226 \<and> b = 128 \<and> (128 \<le> c \<and> c \<le> 138 \<or> c = 168 \<or> c = 169 \<or> c = 175))
   \<or> (a = 226 \<and> b = 129 \<and> c = 159)
   \<or> (a = 227 \<and> b = 128 \<and> c = 128)"

definition ws1 :: "nat \<Rightarrow> bool" where
  "ws1 a \<longleftrightarrow> 9 \<le> a \<and> a \<le> 13 \<or> a = 32"

definition ws_len :: "string \<Rightarrow> nat" where
  "ws_len s = (case s of
     [] \<Rightarrow> 0
   | a # r \<Rightarrow>
       if ws1 (of_char a) then 1
       else (case r of
         [] \<Rightarrow> 0
       | b # r' \<Rightarrow>
           if ws2 (of_char a) (of_char b) then 2
           else (case r' of
             [] \<Rightarrow> 0
           | c # _ \<Rightarrow> if ws3 (of_char a) (of_char b) (of_char c) then 3 else 0)))"

text \<open>The same at the back of a string, given reversed.\<close>

definition ws_end_len :: "string \<Rightarrow> nat" where
  "ws_end_len s = (case s of
     [] \<Rightarrow> 0
   | c # r \<Rightarrow>
       if ws1 (of_char c) then 1
       else (case r of
         [] \<Rightarrow> 0
       | b # r' \<Rightarrow>
           if ws2 (of_char b) (of_char c) then 2
           else (case r' of
             [] \<Rightarrow> 0
           | a # _ \<Rightarrow> if ws3 (of_char a) (of_char b) (of_char c) then 3 else 0)))"

lemma ws_len_le: "ws_len s \<le> length s"
  by (auto simp: ws_len_def split: list.splits)

lemma ws_end_len_le: "ws_end_len s \<le> length s"
  by (auto simp: ws_end_len_def split: list.splits)

function trim_start :: "string \<Rightarrow> string" where
  "trim_start s = (if ws_len s = 0 then s else trim_start (drop (ws_len s) s))"
  by pat_completeness auto
termination
proof (relation "measure length")
  fix s :: string
  assume "ws_len s \<noteq> 0"
  then show "(drop (ws_len s) s, s) \<in> measure length"
    using ws_len_le [of s] by simp
qed simp

function trim_rev :: "string \<Rightarrow> string" where
  "trim_rev s = (if ws_end_len s = 0 then s else trim_rev (drop (ws_end_len s) s))"
  by pat_completeness auto
termination
proof (relation "measure length")
  fix s :: string
  assume "ws_end_len s \<noteq> 0"
  then show "(drop (ws_end_len s) s, s) \<in> measure length"
    using ws_end_len_le [of s] by simp
qed simp

declare trim_start.simps [simp del] trim_rev.simps [simp del]

definition trim_end :: "string \<Rightarrow> string" where
  "trim_end s = rev (trim_rev (rev s))"

definition trim :: "string \<Rightarrow> string" where
  "trim s = trim_end (trim_start s)"

text \<open>The guard \<open>!value.trim().is_empty()\<close> that the authorities put on every text they store.\<close>

definition non_empty :: "string \<Rightarrow> bool" where
  "non_empty value \<longleftrightarrow> trim value \<noteq> []"

lemma trim_start_suffix: "suffix (trim_start s) s"
proof (induction s rule: trim_start.induct)
  case (1 s)
  show ?case
  proof (cases "ws_len s = 0")
    case False
    with "1.IH" have "suffix (trim_start (drop (ws_len s) s)) s"
      by (meson suffix_drop suffix_order.trans)
    with False show ?thesis by (simp add: trim_start.simps [of s])
  qed (simp add: trim_start.simps [of s])
qed

lemma trim_rev_suffix: "suffix (trim_rev s) s"
proof (induction s rule: trim_rev.induct)
  case (1 s)
  show ?case
  proof (cases "ws_end_len s = 0")
    case False
    with "1.IH" have "suffix (trim_rev (drop (ws_end_len s) s)) s"
      by (meson suffix_drop suffix_order.trans)
    with False show ?thesis by (simp add: trim_rev.simps [of s])
  qed (simp add: trim_rev.simps [of s])
qed

lemma ws_len_trim_start: "ws_len (trim_start s) = 0"
proof (induction s rule: trim_start.induct)
  case (1 s)
  then show ?case
    by (cases "ws_len s = 0") (simp_all add: trim_start.simps [of s])
qed

lemma trim_Nil [simp]: "trim [] = []"
  by (simp add: trim_def trim_end_def trim_start.simps trim_rev.simps ws_len_def ws_end_len_def)

lemma non_empty_Nil [simp]: "\<not> non_empty []"
  by (simp add: non_empty_def)

lemma non_empty_imp: "non_empty s \<Longrightarrow> s \<noteq> []"
  by auto

text \<open>\<open>str::strip_prefix\<close>, \<open>starts_with\<close>, \<open>ends_with\<close>, \<open>contains\<close> and \<open>[S]::join\<close>.\<close>

definition strip_prefix :: "string \<Rightarrow> string \<Rightarrow> string option" where
  "strip_prefix p s = (if take (length p) s = p then Some (drop (length p) s) else None)"

definition strip_suffix :: "string \<Rightarrow> string \<Rightarrow> string option" where
  "strip_suffix p s = map_option rev (strip_prefix (rev p) (rev s))"

definition starts_with :: "string \<Rightarrow> string \<Rightarrow> bool" where
  "starts_with s p \<longleftrightarrow> take (length p) s = p"

definition ends_with :: "string \<Rightarrow> string \<Rightarrow> bool" where
  "ends_with s p \<longleftrightarrow> starts_with (rev s) (rev p)"

fun str_contains :: "string \<Rightarrow> string \<Rightarrow> bool" where
  "str_contains [] p \<longleftrightarrow> p = []"
| "str_contains (c # s) p \<longleftrightarrow> starts_with (c # s) p \<or> str_contains s p"

text \<open>An identifier between single quotation marks, as the error messages print it.\<close>

definition quote :: "string \<Rightarrow> string" where
  "quote s = CHR 0x27 # s @ [CHR 0x27]"

text \<open>The number of characters is the number of bytes that do not continue a character.\<close>

definition char_count :: "string \<Rightarrow> nat" where
  "char_count s = length (filter (\<lambda>c. of_char c div (64 :: nat) \<noteq> 2) s)"

fun join :: "string \<Rightarrow> string list \<Rightarrow> string" where
  "join sep [] = []"
| "join sep [x] = x"
| "join sep (x # y # xs) = x @ sep @ join sep (y # xs)"

lemma strip_prefix_Some_iff: "strip_prefix p s = Some r \<longleftrightarrow> s = p @ r"
  by (auto simp: strip_prefix_def) (metis append_take_drop_id)

lemma strip_prefix_append [simp]: "strip_prefix p (p @ r) = Some r"
  by (simp add: strip_prefix_Some_iff)

lemma strip_prefix_None_iff: "strip_prefix p s = None \<longleftrightarrow> (\<forall>r. s \<noteq> p @ r)"
  by (metis not_None_eq strip_prefix_Some_iff)

lemma strip_suffix_Some_iff: "strip_suffix p s = Some r \<longleftrightarrow> s = r @ p"
  by (auto simp: strip_suffix_def strip_prefix_Some_iff)
     (metis rev_append rev_rev_ident)+

lemma starts_with_iff: "starts_with s p \<longleftrightarrow> prefix p s"
  by (metis starts_with_def prefix_def append_eq_conv_conj take_is_prefix)

lemma ends_with_iff: "ends_with s p \<longleftrightarrow> suffix p s"
  by (simp add: ends_with_def starts_with_iff suffix_to_prefix)

lemma str_contains_iff: "str_contains s p \<longleftrightarrow> sublist p s"
  by (induction s) (auto simp: starts_with_iff sublist_Cons_right)

section \<open>Decimal numbers\<close>

text \<open>
  \<open>format!("{n}")\<close> of an unsigned integer, \<open>format!("{n:02}")\<close> (zero padded to width 2) and
  \<open>str::parse::<u32>\<close>, which takes one optional plus sign, at least one digit, leading zeros, and
  fails on a value of 2\<open>^\<close>32 or more.
\<close>

definition digit_char :: "nat \<Rightarrow> char" where
  "digit_char d = char_of (48 + d)"

definition is_digit :: "char \<Rightarrow> bool" where
  "is_digit c \<longleftrightarrow> 48 \<le> (of_char c :: nat) \<and> (of_char c :: nat) \<le> 57"

definition digit_val :: "char \<Rightarrow> nat" where
  "digit_val c = of_char c - 48"

fun show_nat :: "nat \<Rightarrow> string" where
  "show_nat n =
     (if n < 10 then [digit_char n] else show_nat (n div 10) @ [digit_char (n mod 10)])"

declare show_nat.simps [simp del]

definition fmt02 :: "nat \<Rightarrow> string" where
  "fmt02 n = (let s = show_nat n in replicate (2 - length s) (CHR ''0'') @ s)"

definition dec_val :: "string \<Rightarrow> nat" where
  "dec_val s = foldl (\<lambda>a c. a * 10 + digit_val c) 0 s"

definition parse_u32 :: "string \<Rightarrow> nat option" where
  "parse_u32 s =
     (let t = (case s of [] \<Rightarrow> [] | c # r \<Rightarrow> if c = CHR ''+'' then r else s)
      in if t = [] \<or> \<not> list_all is_digit t then None
         else if dec_val t < 2 ^ 32 then Some (dec_val t) else None)"

lemma digit_char_numeral [eval_simps]:
  "digit_char 0 = CHR ''0''" "digit_char 1 = CHR ''1''" "digit_char 2 = CHR ''2''"
  "digit_char 3 = CHR ''3''" "digit_char 4 = CHR ''4''" "digit_char 5 = CHR ''5''"
  "digit_char 6 = CHR ''6''" "digit_char 7 = CHR ''7''" "digit_char 8 = CHR ''8''"
  "digit_char 9 = CHR ''9''" "digit_char (Suc 0) = CHR ''1''"
  by code_simp+

lemmas [eval_simps] = fmt02_def show_nat.simps parse_u32_def strip_prefix_def is_digit_def
  dec_val_def digit_val_def map_filter_simps non_empty_def trim_def trim_end_def
  trim_start.simps trim_rev.simps ws_len_def ws_end_len_def ws1_def ws2_def ws3_def
  res_bind.simps guard_def

lemma of_char_digit_char: "d < 10 \<Longrightarrow> of_char (digit_char d) = (48 + d :: nat)"
  by (simp add: digit_char_def)

lemma is_digit_digit_char: "d < 10 \<Longrightarrow> is_digit (digit_char d)"
  by (simp add: is_digit_def of_char_digit_char)

lemma digit_val_digit_char [simp]: "d < 10 \<Longrightarrow> digit_val (digit_char d) = d"
  by (simp add: digit_val_def of_char_digit_char)

lemma show_nat_nonempty [simp]: "show_nat n \<noteq> []"
  by (subst show_nat.simps) simp

lemma show_nat_digits: "list_all is_digit (show_nat n)"
proof (induction n rule: show_nat.induct)
  case (1 n)
  then show ?case
    by (cases "n < 10") (simp_all add: show_nat.simps [of n] is_digit_digit_char)
qed

lemma dec_val_show_nat: "dec_val (show_nat n) = n"
proof (induction n rule: show_nat.induct)
  case (1 n)
  then show ?case
    by (cases "n < 10") (simp_all add: show_nat.simps [of n] dec_val_def)
qed

lemma dec_val_zeros: "dec_val (replicate k (CHR ''0'') @ s) = dec_val s"
proof -
  have "foldl (\<lambda>a c. a * 10 + digit_val c) 0 (replicate k (CHR ''0'')) = 0"
    by (induction k) (simp_all add: digit_val_def)
  then show ?thesis by (simp add: dec_val_def)
qed

lemma fmt02_nonempty [simp]: "fmt02 n \<noteq> []"
  by (simp add: fmt02_def Let_def)

lemma fmt02_digits: "list_all is_digit (fmt02 n)"
  by (simp add: fmt02_def Let_def show_nat_digits list_all_iff is_digit_def)
     (use show_nat_digits [of n] in \<open>auto simp: list_all_iff is_digit_def\<close>)

lemma dec_val_fmt02: "dec_val (fmt02 n) = n"
  by (simp add: fmt02_def Let_def dec_val_zeros dec_val_show_nat)

lemma parse_u32_digits:
  assumes "s \<noteq> []" and "list_all is_digit s"
  shows "parse_u32 s = (if dec_val s < 2 ^ 32 then Some (dec_val s) else None)"
proof -
  from assms obtain c r where s: "s = c # r" "is_digit c" by (cases s) auto
  then have "c \<noteq> CHR ''+''" by (auto simp: is_digit_def)
  with s assms show ?thesis by (simp add: parse_u32_def)
qed

text \<open>The generated suffixes read back as the number they were generated from.\<close>

lemma parse_fmt02: "n < 2 ^ 32 \<Longrightarrow> parse_u32 (fmt02 n) = Some n"
  by (simp add: parse_u32_digits fmt02_digits dec_val_fmt02)

lemma fmt02_inj: "fmt02 m = fmt02 n \<Longrightarrow> m = n"
  by (metis dec_val_fmt02)

lemma parse_u32_bound: "parse_u32 s = Some n \<Longrightarrow> n < 2 ^ 32"
  by (auto simp: parse_u32_def Let_def split: if_splits)

section \<open>Lists\<close>

text \<open>\<open>slice::iter().position\<close> and \<open>find\<close> with the element they stop at, and \<open>Vec::insert\<close>.\<close>

fun position :: "('a \<Rightarrow> bool) \<Rightarrow> 'a list \<Rightarrow> nat option" where
  "position P [] = None"
| "position P (x # xs) = (if P x then Some 0 else map_option Suc (position P xs))"

definition insert_at :: "nat \<Rightarrow> 'a \<Rightarrow> 'a list \<Rightarrow> 'a list" where
  "insert_at i x xs = take i xs @ x # drop i xs"

definition remove_at :: "nat \<Rightarrow> 'a list \<Rightarrow> 'a list" where
  "remove_at i xs = take i xs @ drop (Suc i) xs"

text \<open>\<open>iter_mut().find(p)\<close> followed by an update of the element found.\<close>

fun update_first :: "('a \<Rightarrow> bool) \<Rightarrow> ('a \<Rightarrow> 'a) \<Rightarrow> 'a list \<Rightarrow> 'a list" where
  "update_first P f [] = []"
| "update_first P f (x # xs) = (if P x then f x # xs else x # update_first P f xs)"

lemma position_Some_iff:
  "position P xs = Some i \<longleftrightarrow> i < length xs \<and> P (xs ! i) \<and> (\<forall>j<i. \<not> P (xs ! j))"
proof (induction xs arbitrary: i)
  case (Cons x xs)
  show ?case
  proof (cases i)
    case 0
    then show ?thesis by auto
  next
    case (Suc k)
    then show ?thesis using Cons by (auto simp: less_Suc_eq_0_disj)
  qed
qed simp

lemma position_None_iff: "position P xs = None \<longleftrightarrow> (\<forall>x\<in>set xs. \<not> P x)"
  by (induction xs) auto

lemma length_insert_at [simp]: "length (insert_at i x xs) = Suc (length xs)"
  by (simp add: insert_at_def)

lemma mset_insert_at [simp]: "mset (insert_at i x xs) = add_mset x (mset xs)"
  by (simp add: insert_at_def) (metis append_take_drop_id mset_append)

lemma set_insert_at [simp]: "set (insert_at i x xs) = insert x (set xs)"
  by (metis mset_insert_at set_mset_add_mset_insert set_mset_mset)

lemma length_remove_at [simp]: "i < length xs \<Longrightarrow> length (remove_at i xs) = length xs - 1"
  by (simp add: remove_at_def)

lemma mset_remove_at: "i < length xs \<Longrightarrow> add_mset (xs ! i) (mset (remove_at i xs)) = mset xs"
  by (subst (2) id_take_nth_drop [of i xs]) (simp_all add: remove_at_def)

lemma filter_insert_at:
  "filter P (insert_at i x xs) =
     filter P (take i xs) @ (if P x then [x] else []) @ filter P (drop i xs)"
  by (simp add: insert_at_def)

lemma map_update_first:
  "(\<And>x. g (f x) = g x) \<Longrightarrow> map g (update_first P f xs) = map g xs"
  by (induction xs) auto

lemma length_update_first [simp]: "length (update_first P f xs) = length xs"
  by (induction xs) auto

lemma find_update_first:
  "find P xs = None \<Longrightarrow> update_first P f xs = xs"
  by (induction xs) (auto split: if_splits)

lemma update_first_append:
  assumes "find P xs = Some x"
  shows "\<exists>ys zs. xs = ys @ x # zs \<and> P x \<and> (\<forall>y\<in>set ys. \<not> P y)
           \<and> update_first P f xs = ys @ f x # zs"
  using assms
proof (induction xs)
  case (Cons a xs)
  show ?case
  proof (cases "P a")
    case True
    with Cons.prems show ?thesis by (intro exI [of _ "[]"] exI [of _ xs]) auto
  next
    case False
    with Cons.prems have "find P xs = Some x" by simp
    then obtain ys zs where "xs = ys @ x # zs" "P x" "\<forall>y\<in>set ys. \<not> P y"
      "update_first P f xs = ys @ f x # zs" using Cons.IH by blast
    with False show ?thesis by (intro exI [of _ "a # ys"] exI [of _ zs]) auto
  qed
qed simp

lemma find_Some_in: "find P xs = Some x \<Longrightarrow> x \<in> set xs \<and> P x"
  by (metis find_Some_iff nth_mem)

lemma set_map_filter_iff: "y \<in> set (List.map_filter f xs) \<longleftrightarrow> (\<exists>x\<in>set xs. f x = Some y)"
  by (induction xs) (auto simp: map_filter_simps split: option.splits)

lemma filter_take_remove_at:
  assumes "q < length xs" "\<not> P (xs ! q)"
  shows "filter P (take i (remove_at q xs)) = filter P (take (if q < i then Suc i else i) xs)"
    and "filter P (drop i (remove_at q xs)) = filter P (drop (if q < i then Suc i else i) xs)"
proof -
  have "xs = take q xs @ xs ! q # drop (Suc q) xs" using assms(1) by (rule id_take_nth_drop)
  then obtain a b where xs: "xs = a @ (xs ! q) # b" "length a = q"
    using assms(1) by (metis length_take min.absorb4)
  define v where "v = xs ! q"
  have v: "\<not> P v" "xs = a @ v # b" using assms xs by (auto simp: v_def)
  then have r: "remove_at q xs = a @ b" using xs(2) by (simp add: remove_at_def)
  show "filter P (take i (remove_at q xs)) = filter P (take (if q < i then Suc i else i) xs)"
    unfolding r using v xs(2) by (auto simp: take_Cons' Suc_diff_le)
  show "filter P (drop i (remove_at q xs)) = filter P (drop (if q < i then Suc i else i) xs)"
    unfolding r using v xs(2) by (auto simp: drop_Cons' Suc_diff_le)
qed

lemma set_update_first: "set (update_first P f xs) \<subseteq> set xs \<union> f ` set xs"
  by (induction xs) auto

lemma nth_update_first:
  "i < length xs \<Longrightarrow> update_first P f xs ! i =
     (if P (xs ! i) \<and> (\<forall>j<i. \<not> P (xs ! j)) then f (xs ! i) else xs ! i)"
proof (induction xs arbitrary: i)
  case (Cons a xs)
  then show ?case by (cases i) (auto simp: less_Suc_eq_0_disj)
qed simp

end
