(* ===== verification/Interfaces.thy ===== *)
theory Interfaces
  imports Rust_Prelude
begin

text \<open>
  The contracts the components rely on, as locales. Each one is interpreted on the model's own
  definitions in the theory of the component that provides it.

  \<^item> \<open>guarded_steps\<close>: a fallible step that keeps an invariant; runs keep it.
  \<^item> \<open>cas_store\<close>: optimistic concurrency. A write carries the revision its author has read; a stale
    one loses and leaves no trace, and of several writers with the same expectation one wins.
    \<open>strict_cas_store\<close> adds that every accepted write moves the revision by exactly one.
  \<^item> \<open>keyed_fifo\<close>, \<open>keyed_fifo_drain\<close> and \<open>keyed_fifo_pop\<close>: one FIFO queue per key, consumed whole or one
    element at a time, with isolation between keys.
\<close>

section \<open>Steps that keep an invariant\<close>

locale guarded_steps =
  fixes step :: "'s \<Rightarrow> 'a \<Rightarrow> 'e + 's"
    and inv :: "'s \<Rightarrow> bool"
  assumes step_inv: "inv s \<Longrightarrow> step s x = Inr s' \<Longrightarrow> inv s'"
begin

lemma run_inv: "inv s \<Longrightarrow> res_fold step s xs = Inr s' \<Longrightarrow> inv s'"
  using step_inv by (rule res_fold_invariant)

end

section \<open>Optimistic concurrency\<close>

locale cas_store =
  fixes revision :: "'s \<Rightarrow> u64"
    and put :: "'s \<Rightarrow> u64 \<Rightarrow> 'w \<Rightarrow> ('e + 'r) \<times> 's"
    and conflict :: "'e \<Rightarrow> bool"
  assumes stale_write: "expected \<noteq> revision s \<Longrightarrow>
            \<exists>e. put s expected w = (Inl e, s) \<and> conflict e"
    and failed_write: "put s expected w = (Inl e, s') \<Longrightarrow> s' = s"
    and accepted_write: "put s expected w = (Inr r, s') \<Longrightarrow>
            s' = s \<or> revision s' = revision s + 1"
begin

text \<open>A sequence of write attempts, each by an author with its own expectation.\<close>

fun attempts :: "'s \<Rightarrow> (u64 \<times> 'w) list \<Rightarrow> 's" where
  "attempts s [] = s"
| "attempts s ((expected, w) # ws) = attempts (snd (put s expected w)) ws"

lemma accepted_expected: "put s expected w = (Inr r, s') \<Longrightarrow> expected = revision s"
  by (metis stale_write Pair_inject sum.distinct(1))

lemma one_winner:
  assumes "put s expected w = (Inr r, s')" and "s' \<noteq> s"
  shows "\<exists>e. put s' expected w' = (Inl e, s') \<and> conflict e"
proof -
  have "revision s' = revision s + 1"
    using accepted_write [OF assms(1)] assms(2) by simp
  moreover have "expected = revision s" using assms(1) by (rule accepted_expected)
  ultimately have "expected \<noteq> revision s'" by simp
  then show ?thesis by (rule stale_write)
qed

lemma write_cases:
  obtains "snd (put s expected w) = s"
  | "revision (snd (put s expected w)) = revision s + 1"
proof (cases "put s expected w")
  case (Pair res s')
  then show ?thesis
    using that failed_write [of s expected w _ s'] accepted_write [of s expected w _ s']
    by (cases res) auto
qed

lemma attempts_revision:
  "\<exists>n \<le> length ws. revision (attempts s ws) = revision s + of_nat n"
proof (induction ws arbitrary: s)
  case Nil
  show ?case by (intro exI [of _ 0]) simp
next
  case (Cons a ws)
  obtain expected w where a: "a = (expected, w)" by (cases a)
  let ?t = "snd (put s expected w)"
  obtain n where n: "n \<le> length ws" "revision (attempts ?t ws) = revision ?t + of_nat n"
    using Cons.IH by blast
  show ?case
  proof (rule write_cases [of s expected w])
    assume "?t = s"
    with n a show ?case by (intro exI [of _ n]) auto
  next
    assume "revision ?t = revision s + 1"
    with n a show ?case by (intro exI [of _ "Suc n"]) (auto simp: add.assoc)
  qed
qed

end

locale strict_cas_store = cas_store +
  assumes accepted_bump: "put s expected w = (Inr r, s') \<Longrightarrow> revision s' = revision s + 1"
begin

lemma accepted_changes: "put s expected w = (Inr r, s') \<Longrightarrow> s' \<noteq> s"
  using accepted_bump by fastforce

lemma strict_one_winner:
  assumes "put s expected w = (Inr r, s')"
  shows "\<exists>e. put s' expected w' = (Inl e, s') \<and> conflict e"
  using one_winner [OF assms] accepted_changes [OF assms] by blast

end

section \<open>Keyed FIFO queues\<close>

locale keyed_fifo =
  fixes content :: "'s \<Rightarrow> 'k \<Rightarrow> 'm list"
    and enq :: "'k \<Rightarrow> 'm \<Rightarrow> 's \<Rightarrow> 's"
  assumes enq_same: "content (enq k m s) k = content s k @ [m]"
    and enq_other: "k' \<noteq> k \<Longrightarrow> content (enq k m s) k' = content s k'"
begin

fun enq_all :: "('k \<times> 'm) list \<Rightarrow> 's \<Rightarrow> 's" where
  "enq_all [] s = s"
| "enq_all ((k, m) # ms) s = enq_all ms (enq k m s)"

lemma content_enq: "content (enq k m s) k' = content s k' @ (if k' = k then [m] else [])"
  using enq_same enq_other by auto

lemma content_enq_all:
  "content (enq_all ms s) k = content s k @ map snd (filter (\<lambda>p. fst p = k) ms)"
proof (induction ms arbitrary: s)
  case (Cons a ms)
  then show ?case by (cases a) (auto simp: content_enq)
qed simp

end

locale keyed_fifo_drain = keyed_fifo content enq
  for content :: "'s \<Rightarrow> 'k \<Rightarrow> 'm list" and enq :: "'k \<Rightarrow> 'm \<Rightarrow> 's \<Rightarrow> 's" +
  fixes drain :: "'k \<Rightarrow> 's \<Rightarrow> 'm list \<times> 's"
  assumes drain_out: "fst (drain k s) = content s k"
    and drain_same: "content (snd (drain k s)) k = []"
    and drain_other: "k' \<noteq> k \<Longrightarrow> content (snd (drain k s)) k' = content s k'"
begin

text \<open>An interleaving of producers and one consumer per key, and what the consumer of \<open>k\<close> gets.\<close>

fun serve :: "('k \<times> 'm option) list \<Rightarrow> 's \<Rightarrow> 'k \<Rightarrow> 'm list \<times> 's" where
  "serve [] s k = ([], s)"
| "serve ((j, Some m) # es) s k = serve es (enq j m s) k"
| "serve ((j, None) # es) s k =
     (let (out, s') = drain j s; (rest, s'') = serve es s' k
      in ((if j = k then out else []) @ rest, s''))"

text \<open>Nothing is lost, duplicated or reordered, whatever the other keys do.\<close>

lemma serve_complete:
  "fst (serve es s k) @ content (snd (serve es s k)) k =
   content s k @ List.map_filter (\<lambda>(j, m). if j = k then m else None) es"
proof (induction es arbitrary: s)
  case (Cons a es)
  obtain j m where a: "a = (j, m)" by (cases a)
  show ?case
  proof (cases m)
    case None
    then show ?thesis
      using Cons [of "snd (drain j s)"] a drain_out [of j s] drain_same [of j s]
        drain_other [of k j s]
      by (auto simp: split_def Let_def map_filter_simps)
  next
    case (Some x)
    then show ?thesis
      using Cons [of "enq j x s"] a by (auto simp: content_enq map_filter_simps)
  qed
qed (simp add: map_filter_simps)

end

locale keyed_fifo_pop = keyed_fifo content enq
  for content :: "'s \<Rightarrow> 'k \<Rightarrow> 'm list" and enq :: "'k \<Rightarrow> 'm \<Rightarrow> 's \<Rightarrow> 's" +
  fixes pop :: "'k \<Rightarrow> 's \<Rightarrow> 'm option \<times> 's"
  assumes pop_out: "fst (pop k s) = (case content s k of [] \<Rightarrow> None | m # _ \<Rightarrow> Some m)"
    and pop_same: "content (snd (pop k s)) k = tl (content s k)"
    and pop_other: "k' \<noteq> k \<Longrightarrow> content (snd (pop k s)) k' = content s k'"
begin

text \<open>Producers and consumers that take one element at a time, and what the consumer of \<open>k\<close> gets.\<close>

fun work :: "('k \<times> 'm option) list \<Rightarrow> 's \<Rightarrow> 'k \<Rightarrow> 'm list \<times> 's" where
  "work [] s k = ([], s)"
| "work ((j, Some m) # es) s k = work es (enq j m s) k"
| "work ((j, None) # es) s k =
     (let (out, s') = pop j s; (rest, s'') = work es s' k
      in ((case out of Some m \<Rightarrow> if j = k then [m] else [] | None \<Rightarrow> []) @ rest, s''))"

lemma work_complete:
  "fst (work es s k) @ content (snd (work es s k)) k =
   content s k @ List.map_filter (\<lambda>(j, m). if j = k then m else None) es"
proof (induction es arbitrary: s)
  case (Cons a es)
  obtain j m where a: "a = (j, m)" by (cases a)
  show ?case
  proof (cases m)
    case None
    define got where "got = (case fst (pop j s) of Some m \<Rightarrow> if j = k then [m] else [] | None \<Rightarrow> [])"
    have head: "got @ content (snd (pop j s)) k = content s k"
      using pop_out [of j s] pop_same [of j s] pop_other [of k j s] unfolding got_def
      by (cases "j = k"; cases "content s j") auto
    have run: "work (a # es) s k = (got @ fst (work es (snd (pop j s)) k), snd (work es (snd (pop j s)) k))"
      using a None by (simp add: got_def split_def Let_def)
    have "fst (work (a # es) s k) @ content (snd (work (a # es) s k)) k =
        got @ content (snd (pop j s)) k @ List.map_filter (\<lambda>(j, m). if j = k then m else None) es"
      unfolding run using Cons [of "snd (pop j s)"] by simp
    then show ?thesis using head a None by (simp add: map_filter_simps flip: append_assoc)
  next
    case (Some x)
    then show ?thesis
      using Cons [of "enq j x s"] a by (auto simp: content_enq map_filter_simps)
  qed
qed (simp add: map_filter_simps)

end

end
