(* ===== verification/Task_Ledger.thy ===== *)
theory Task_Ledger
  imports Interfaces
begin

text \<open>
  The session task ledger of \<^verbatim>\<open>crates/agendao-types/src/task_ledger.rs\<close>: the snapshot types, the
  operations with their errors, the validation of a snapshot and of a completion, and the three
  entry points \<open>apply\<close>, \<open>apply_batch\<close> and \<open>start_goal\<close>. Field names carry the prefix of their
  struct because record fields share one name space. A method that takes \<open>&mut self\<close> returns its
  result together with the ledger it leaves behind, so that \<open>nothing is applied\<close> is a fact to prove
  and not a convention.
\<close>

section \<open>Snapshot types\<close>

definition TASK_LEDGER_METADATA_KEY :: string where
  "TASK_LEDGER_METADATA_KEY = ''task_ledger''"

datatype TaskLedgerStatus = Active | AwaitingUser | Blocked | Interrupted | Completed

datatype AwaitingInteractionKind = Permission | Question

record AwaitingInteractionRef =
  air_kind :: AwaitingInteractionKind
  air_interaction_id :: string

datatype TaskLedgerActor = User | Model | Evaluator | System

record CriterionCheck =
  cc_criterion :: string
  cc_command :: string

record TaskGoal =
  goal_statement :: string
  goal_acceptance_criteria :: "string list"
  goal_criterion_checks :: "CriterionCheck list"
  goal_set_by :: TaskLedgerActor
  goal_set_at :: i64

record CoreConstraint =
  core_id :: string
  core_statement :: string
  core_live :: bool
  core_set_by :: TaskLedgerActor
  core_set_at :: i64

datatype VerifierRef =
    VEvaluator string
  | VDeterministicCheck string
  | VUserConfirmation string

fun describe :: "VerifierRef \<Rightarrow> string" where
  "describe (VEvaluator name) = ''evaluator:'' @ name"
| "describe (VDeterministicCheck description) = ''check:'' @ description"
| "describe (VUserConfirmation actor) = ''user:'' @ actor"

record VerificationCoverage =
  cov_scope :: string

record VerifiedCheckpoint =
  cp_id :: string
  cp_claim :: string
  cp_verifier :: VerifierRef
  cp_coverage :: VerificationCoverage
  cp_goal_generation :: u64
  cp_evidence_artifact_ids :: "string list"
  cp_source_stage_id :: "string option"
  cp_covered_criteria :: "string list"
  cp_supersedes :: "string option"
  cp_superseded_by :: "string option"
  cp_created_at :: i64

record OpenQuestion =
  oq_id :: string
  oq_question :: string
  oq_settled_by :: string
  oq_opened_at :: i64
  oq_closed_by_checkpoint_id :: "string option"

definition is_open :: "OpenQuestion \<Rightarrow> bool" where
  "is_open q \<longleftrightarrow> oq_closed_by_checkpoint_id q = None"

record NextActionProvenance =
  nap_actor :: TaskLedgerActor
  nap_pre_interrupt :: bool
  nap_set_at :: i64

record NextAction =
  na_statement :: string
  na_provenance :: NextActionProvenance

record SessionTaskLedger =
  led_session_id :: string
  led_revision :: u64
  led_goal_generation :: u64
  led_goal :: "TaskGoal option"
  led_core :: "CoreConstraint list"
  led_verified :: "VerifiedCheckpoint list"
  led_open :: "OpenQuestion list"
  led_next :: "NextAction option"
  led_status :: TaskLedgerStatus
  led_awaiting_interactions :: "AwaitingInteractionRef list"
  led_blocked_reason :: "string option"
  led_uncovered_criteria :: "string list"
  led_updated_at :: i64

definition default_status :: TaskLedgerStatus where
  "default_status = Active"

definition ledger_empty :: "string \<Rightarrow> SessionTaskLedger" where
  "ledger_empty session_id =
     \<lparr>led_session_id = session_id, led_revision = 0, led_goal_generation = 0, led_goal = None,
      led_core = [], led_verified = [], led_open = [], led_next = None, led_status = Active,
      led_awaiting_interactions = [], led_blocked_reason = None, led_uncovered_criteria = [],
      led_updated_at = 0\<rparr>"

definition live_core :: "SessionTaskLedger \<Rightarrow> CoreConstraint list" where
  "live_core l = filter core_live (led_core l)"

definition open_questions :: "SessionTaskLedger \<Rightarrow> OpenQuestion list" where
  "open_questions l = filter is_open (led_open l)"

datatype TaskLedgerCause =
    CauseCreated | CauseGoalUpdated | CauseCoreUpdated | CauseCheckpointAdded | CauseOpenAdded
  | CauseOpenClosed | CauseNextUpdated | CauseStatusChanged | CauseRecovery

section \<open>Operations and errors\<close>

datatype TaskLedgerOp =
    Create TaskGoal string
  | SetGoal TaskGoal
  | AddCore string bool "TaskLedgerActor option"
  | SwapCoreLive u8 string "TaskLedgerActor option"
  | AddCheckpoint string VerifierRef VerificationCoverage "string list" "string list"
      "string option" "string option"
  | OpOpenQuestion string string
  | CloseOpenWithCheckpoint string string VerifierRef VerificationCoverage "string list"
      "string list" "string option"
  | ResolveInteraction AwaitingInteractionKind string
  | SetNext string "TaskLedgerActor option"
  | SetStatus TaskLedgerStatus "AwaitingInteractionRef option" "string option"
  | Interrupt
  | Complete "string list"

datatype TaskLedgerError =
    RevisionConflict u64 u64
  | NotCreated
  | AlreadyCreated
  | EmptyGoalStatement
  | EmptyStatement
  | EmptyClaim
  | EmptyCoverageScope
  | EmptyVerifierDetail
  | EmptyQuestion
  | EmptySettledBy
  | EmptyBlockedReason
  | AwaitingRequiresInteraction
  | StatusRequiresNext TaskLedgerStatus
  | UnknownOpenQuestion string
  | OpenQuestionAlreadyClosed string
  | UnknownCheckpoint string
  | LiveSetFull
  | LiveSlotOutOfBounds u8
  | DuplicateSupersede string
  | CompleteWithOpenQuestions nat
  | CompleteWithoutEvidence
  | CriterionNotCovered string
  | UnknownAcceptanceCriterion string
  | StatusConflictsWithAwaitingInteractions TaskLedgerStatus nat
  | CompleteWithAwaitingInteractions nat
  | CompletedWithNext
  | UnknownAwaitingInteraction string

text \<open>\<open>{status:?}\<close> prints the variant's name.\<close>

fun status_debug :: "TaskLedgerStatus \<Rightarrow> string" where
  "status_debug Active = ''Active''"
| "status_debug AwaitingUser = ''AwaitingUser''"
| "status_debug Blocked = ''Blocked''"
| "status_debug Interrupted = ''Interrupted''"
| "status_debug Completed = ''Completed''"

fun error_display :: "TaskLedgerError \<Rightarrow> string" where
  "error_display (RevisionConflict expected actual) =
     ''revision conflict: expected '' @ show_nat (unat expected) @ '', ledger is at ''
       @ show_nat (unat actual)"
| "error_display NotCreated = ''ledger not created for this session''"
| "error_display AlreadyCreated = ''ledger already created for this session''"
| "error_display EmptyGoalStatement = ''goal statement must not be empty''"
| "error_display EmptyStatement = ''statement must not be empty''"
| "error_display EmptyClaim = ''checkpoint claim must not be empty''"
| "error_display EmptyCoverageScope = ''checkpoint coverage scope must not be empty''"
| "error_display EmptyVerifierDetail = ''verifier detail must not be empty''"
| "error_display EmptyQuestion = ''open question must not be empty''"
| "error_display EmptySettledBy = ''open question requires a settling condition''"
| "error_display EmptyBlockedReason = ''blocked status requires a reason''"
| "error_display AwaitingRequiresInteraction =
     ''awaiting_user status requires an interaction kind and id''"
| "error_display (StatusRequiresNext status) =
     ''status '' @ status_debug status @ '' requires a non-empty next action''"
| "error_display (UnknownOpenQuestion open_id) = ''unknown open question '' @ open_id"
| "error_display (OpenQuestionAlreadyClosed open_id) =
     ''open question '' @ open_id @ '' is already closed''"
| "error_display (UnknownCheckpoint checkpoint_id) = ''unknown checkpoint '' @ checkpoint_id"
| "error_display LiveSetFull = ''core live set already holds two entries''"
| "error_display (LiveSlotOutOfBounds slot) =
     ''live core slot must be 1 or 2, got '' @ show_nat (unat slot)"
| "error_display (DuplicateSupersede checkpoint_id) =
     ''checkpoint '' @ checkpoint_id @ '' is already superseded''"
| "error_display (CompleteWithOpenQuestions n) =
     ''cannot complete with '' @ show_nat n
       @ '' open question(s); close them with checkpoints or keep the ledger active''"
| "error_display CompleteWithoutEvidence =
     ''cannot complete a goal with acceptance criteria and no verified checkpoints; pass `uncovered` explicitly instead''"
| "error_display (CriterionNotCovered criterion) =
     ''acceptance criterion not covered by any checkpoint and not declared uncovered: ''
       @ criterion"
| "error_display (UnknownAcceptanceCriterion criterion) =
     ''unknown acceptance criterion: '' @ criterion"
| "error_display (StatusConflictsWithAwaitingInteractions status n) =
     ''status '' @ status_debug status @ '' conflicts with '' @ show_nat n
       @ '' pending interaction(s); resolve them or interrupt the run''"
| "error_display (CompleteWithAwaitingInteractions n) =
     ''cannot complete with '' @ show_nat n @ '' pending interaction(s)''"
| "error_display CompletedWithNext = ''completed status cannot retain a next action''"
| "error_display (UnknownAwaitingInteraction interaction_id) =
     ''no awaited interaction with id '' @ interaction_id"

section \<open>Validation\<close>

definition next_sequential_id :: "string list \<Rightarrow> string \<Rightarrow> string" where
  "next_sequential_id existing p =
     (let tails = List.map_filter (strip_prefix p) existing;
          nums = List.map_filter parse_u32 tails;
          next = (fold max nums 0 + 1) mod 2 ^ 32
      in p @ fmt02 next)"

definition validate_criterion_check ::
    "TaskGoal \<Rightarrow> CriterionCheck \<Rightarrow> TaskLedgerError + unit" where
  "validate_criterion_check g check =
     res_bind (guard (non_empty (cc_command check)) EmptyStatement) (\<lambda>_.
     guard (cc_criterion check \<in> set (goal_acceptance_criteria g))
       (UnknownAcceptanceCriterion (cc_criterion check)))"

definition validate_goal :: "TaskGoal \<Rightarrow> TaskLedgerError + unit" where
  "validate_goal g =
     res_bind (guard (non_empty (goal_statement g)) EmptyGoalStatement) (\<lambda>_.
     res_check (validate_criterion_check g) (goal_criterion_checks g))"

fun verifier_detail :: "VerifierRef \<Rightarrow> string" where
  "verifier_detail (VEvaluator name) = name"
| "verifier_detail (VDeterministicCheck description) = description"
| "verifier_detail (VUserConfirmation actor) = actor"

definition validated_verifier :: "VerifierRef \<Rightarrow> TaskLedgerError + unit" where
  "validated_verifier v = guard (non_empty (verifier_detail v)) EmptyVerifierDetail"

definition validated_checkpoint_fields ::
    "string \<Rightarrow> VerifierRef \<Rightarrow> VerificationCoverage \<Rightarrow> TaskLedgerError + unit" where
  "validated_checkpoint_fields claim verifier coverage =
     res_bind (guard (non_empty claim) EmptyClaim) (\<lambda>_.
     res_bind (validated_verifier verifier) (\<lambda>_.
     guard (non_empty (cov_scope coverage)) EmptyCoverageScope))"

definition has_next :: "SessionTaskLedger \<Rightarrow> bool" where
  "has_next l = (case led_next l of None \<Rightarrow> False | Some n \<Rightarrow> non_empty (na_statement n))"

definition require_next_for_status ::
    "SessionTaskLedger \<Rightarrow> TaskLedgerStatus \<Rightarrow> TaskLedgerError + unit" where
  "require_next_for_status l status =
     (case status of
        Active \<Rightarrow> guard (has_next l) (StatusRequiresNext status)
      | Blocked \<Rightarrow> guard (has_next l) (StatusRequiresNext status)
      | _ \<Rightarrow> Inr ())"

definition validate_criteria_references ::
    "string list \<Rightarrow> string list \<Rightarrow> TaskLedgerError + unit" where
  "validate_criteria_references criteria references =
     res_check (\<lambda>r. guard (r \<in> set criteria) (UnknownAcceptanceCriterion r)) references"

definition is_current :: "SessionTaskLedger \<Rightarrow> VerifiedCheckpoint \<Rightarrow> bool" where
  "is_current l c \<longleftrightarrow>
     cp_goal_generation c = led_goal_generation l \<and> cp_superseded_by c = None"

definition current_checkpoints :: "SessionTaskLedger \<Rightarrow> VerifiedCheckpoint list" where
  "current_checkpoints l = filter (is_current l) (led_verified l)"

definition goal_criteria :: "SessionTaskLedger \<Rightarrow> string list" where
  "goal_criteria l =
     (case led_goal l of None \<Rightarrow> [] | Some g \<Rightarrow> goal_acceptance_criteria g)"

definition covered_by_current :: "SessionTaskLedger \<Rightarrow> string set" where
  "covered_by_current l =
     set (List.concat (map cp_covered_criteria (current_checkpoints l)))"

definition validate_completion ::
    "SessionTaskLedger \<Rightarrow> string list \<Rightarrow> TaskLedgerError + unit" where
  "validate_completion l uncovered =
     (let open = length (open_questions l);
          criteria = goal_criteria l;
          checkpoints = current_checkpoints l
      in res_bind (guard (open = 0) (CompleteWithOpenQuestions open)) (\<lambda>_.
         res_bind (guard (led_awaiting_interactions l = [])
                     (CompleteWithAwaitingInteractions (length (led_awaiting_interactions l)))) (\<lambda>_.
         res_bind (validate_criteria_references criteria uncovered) (\<lambda>_.
         res_bind (res_check (\<lambda>c. validate_criteria_references criteria (cp_covered_criteria c))
                     checkpoints) (\<lambda>_.
         if criteria = [] then guard (checkpoints \<noteq> []) CompleteWithoutEvidence
         else res_check
           (\<lambda>c. guard (c \<in> covered_by_current l \<or> c \<in> set uncovered) (CriterionNotCovered c))
           criteria)))))"

definition completion_ready :: "SessionTaskLedger \<Rightarrow> bool" where
  "completion_ready l = is_ok (validate_completion l [])"

definition missing_acceptance_criteria ::
    "SessionTaskLedger \<Rightarrow> string list \<Rightarrow> string list" where
  "missing_acceptance_criteria l uncovered =
     (case led_goal l of
        None \<Rightarrow> []
      | Some g \<Rightarrow> filter (\<lambda>c. c \<notin> covered_by_current l \<and> c \<notin> set uncovered)
                    (goal_acceptance_criteria g))"

definition validate_snapshot :: "SessionTaskLedger \<Rightarrow> TaskLedgerError + unit" where
  "validate_snapshot l =
     res_bind (require_next_for_status l (led_status l)) (\<lambda>_.
     case led_status l of
       AwaitingUser \<Rightarrow>
         guard (led_awaiting_interactions l \<noteq> []) AwaitingRequiresInteraction
     | Completed \<Rightarrow>
         res_bind (guard (led_next l = None) CompletedWithNext) (\<lambda>_.
         validate_completion l (led_uncovered_criteria l))
     | status \<Rightarrow>
         guard (led_awaiting_interactions l = [])
           (StatusConflictsWithAwaitingInteractions status
              (length (led_awaiting_interactions l))))"

definition ensure_created :: "SessionTaskLedger \<Rightarrow> TaskLedgerError + unit" where
  "ensure_created l = guard (led_goal l \<noteq> None) NotCreated"

definition next_from_statement :: "string \<Rightarrow> TaskLedgerActor \<Rightarrow> i64 \<Rightarrow> NextAction" where
  "next_from_statement statement actor now_ms =
     \<lparr>na_statement = statement,
      na_provenance = \<lparr>nap_actor = actor, nap_pre_interrupt = False, nap_set_at = now_ms\<rparr>\<rparr>"

definition unwrap_or :: "'a option \<Rightarrow> 'a \<Rightarrow> 'a" where
  "unwrap_or x d = (case x of None \<Rightarrow> d | Some v \<Rightarrow> v)"

section \<open>The operations, one definition per arm of \<open>apply_op\<close>\<close>

type_synonym ledger_result = "TaskLedgerError + SessionTaskLedger"

definition op_create :: "SessionTaskLedger \<Rightarrow> TaskGoal \<Rightarrow> string \<Rightarrow> i64 \<Rightarrow> ledger_result" where
  "op_create l g next_statement now_ms =
     res_bind (guard (led_revision l = 0 \<and> led_goal l = None) AlreadyCreated) (\<lambda>_.
     res_bind (validate_goal g) (\<lambda>_.
     res_bind (guard (non_empty next_statement) EmptyStatement) (\<lambda>_.
     Inr (l\<lparr>led_goal := Some g, led_goal_generation := 1,
            led_next := Some (next_from_statement next_statement User now_ms),
            led_status := Active\<rparr>))))"

definition next_generation :: "u64 \<Rightarrow> u64" where
  "next_generation g = max (u64_saturating_add g 1) 1"

definition op_set_goal :: "SessionTaskLedger \<Rightarrow> TaskGoal \<Rightarrow> ledger_result" where
  "op_set_goal l g =
     res_bind (ensure_created l) (\<lambda>_.
     res_bind (validate_goal g) (\<lambda>_.
     Inr (l\<lparr>led_goal := Some g,
            led_goal_generation := next_generation (led_goal_generation l),
            led_uncovered_criteria := []\<rparr>)))"

definition op_add_core ::
    "SessionTaskLedger \<Rightarrow> string \<Rightarrow> bool \<Rightarrow> TaskLedgerActor option \<Rightarrow> i64 \<Rightarrow> ledger_result" where
  "op_add_core l statement live actor now_ms =
     res_bind (ensure_created l) (\<lambda>_.
     res_bind (guard (non_empty statement) EmptyStatement) (\<lambda>_.
     res_bind (guard (\<not> (live \<and> length (live_core l) \<ge> 2)) LiveSetFull) (\<lambda>_.
     let new_id = next_sequential_id (map core_id (led_core l)) ''core-''
     in Inr (l\<lparr>led_core := led_core l @
          [\<lparr>core_id = new_id, core_statement = statement, core_live = live,
            core_set_by = unwrap_or actor System, core_set_at = now_ms\<rparr>]\<rparr>))))"

definition live_positions :: "CoreConstraint list \<Rightarrow> nat list" where
  "live_positions cs = filter (\<lambda>i. core_live (cs ! i)) [0..<length cs]"

definition swap_core ::
    "CoreConstraint list \<Rightarrow> nat \<Rightarrow> string \<Rightarrow> TaskLedgerActor \<Rightarrow> i64 \<Rightarrow> CoreConstraint list" where
  "swap_core cs k statement actor now_ms =
     (let positions = live_positions cs;
          displaced = (if k < length positions then Some (positions ! k) else None);
          cs1 = (case displaced of
                   None \<Rightarrow> cs
                 | Some p \<Rightarrow> cs[p := (cs ! p)\<lparr>core_live := False\<rparr>]);
          insert_pos = (case displaced of None \<Rightarrow> length cs1 | Some p \<Rightarrow> p);
          (cs2, entry) =
            (case position (\<lambda>e. core_statement e = statement) cs1 of
               Some p \<Rightarrow>
                 (remove_at p cs1,
                  (cs1 ! p)\<lparr>core_live := True, core_set_by := actor, core_set_at := now_ms\<rparr>)
             | None \<Rightarrow>
                 (cs1,
                  \<lparr>core_id = next_sequential_id (map core_id cs1) ''core-'',
                   core_statement = statement, core_live = True, core_set_by = actor,
                   core_set_at = now_ms\<rparr>))
      in insert_at (min insert_pos (length cs2)) entry cs2)"

definition op_swap_core_live ::
    "SessionTaskLedger \<Rightarrow> u8 \<Rightarrow> string \<Rightarrow> TaskLedgerActor option \<Rightarrow> i64 \<Rightarrow> ledger_result" where
  "op_swap_core_live l slot statement actor now_ms =
     res_bind (ensure_created l) (\<lambda>_.
     res_bind (guard (non_empty statement) EmptyStatement) (\<lambda>_.
     res_bind (guard (slot = 1 \<or> slot = 2) (LiveSlotOutOfBounds slot)) (\<lambda>_.
     Inr (l\<lparr>led_core :=
          swap_core (led_core l) (unat slot - 1) statement (unwrap_or actor System) now_ms\<rparr>))))"

definition supersede_target ::
    "VerifiedCheckpoint list \<Rightarrow> string \<Rightarrow> string option
       \<Rightarrow> TaskLedgerError + VerifiedCheckpoint list" where
  "supersede_target verified new_id supersedes =
     (case supersedes of
        None \<Rightarrow> Inr verified
      | Some superseded_id \<Rightarrow>
          (case find (\<lambda>c. cp_id c = superseded_id) verified of
             None \<Rightarrow> Inl (UnknownCheckpoint superseded_id)
           | Some target \<Rightarrow>
               if cp_superseded_by target \<noteq> None then Inl (DuplicateSupersede superseded_id)
               else Inr (update_first (\<lambda>c. cp_id c = superseded_id)
                           (\<lambda>c. c\<lparr>cp_superseded_by := Some new_id\<rparr>) verified)))"

definition op_add_checkpoint ::
    "SessionTaskLedger \<Rightarrow> string \<Rightarrow> VerifierRef \<Rightarrow> VerificationCoverage \<Rightarrow> string list
       \<Rightarrow> string list \<Rightarrow> string option \<Rightarrow> string option \<Rightarrow> i64 \<Rightarrow> ledger_result" where
  "op_add_checkpoint l claim verifier coverage covered evidence stage supersedes now_ms =
     res_bind (ensure_created l) (\<lambda>_.
     res_bind (validated_checkpoint_fields claim verifier coverage) (\<lambda>_.
     res_bind (validate_criteria_references (goal_criteria l) covered) (\<lambda>_.
     let new_id = next_sequential_id (map cp_id (led_verified l)) ''chk-''
     in res_bind (supersede_target (led_verified l) new_id supersedes) (\<lambda>verified.
        Inr (l\<lparr>led_verified := verified @
          [\<lparr>cp_id = new_id, cp_claim = claim, cp_verifier = verifier, cp_coverage = coverage,
            cp_goal_generation = led_goal_generation l, cp_evidence_artifact_ids = evidence,
            cp_source_stage_id = stage, cp_covered_criteria = covered,
            cp_supersedes = supersedes, cp_superseded_by = None,
            cp_created_at = now_ms\<rparr>]\<rparr>)))))"

definition op_open_question ::
    "SessionTaskLedger \<Rightarrow> string \<Rightarrow> string \<Rightarrow> i64 \<Rightarrow> ledger_result" where
  "op_open_question l question settled_by now_ms =
     res_bind (ensure_created l) (\<lambda>_.
     res_bind (guard (non_empty question) EmptyQuestion) (\<lambda>_.
     res_bind (guard (non_empty settled_by) EmptySettledBy) (\<lambda>_.
     let new_id = next_sequential_id (map oq_id (led_open l)) ''open-''
     in Inr (l\<lparr>led_open := led_open l @
          [\<lparr>oq_id = new_id, oq_question = question, oq_settled_by = settled_by,
            oq_opened_at = now_ms, oq_closed_by_checkpoint_id = None\<rparr>]\<rparr>))))"

definition op_close_open ::
    "SessionTaskLedger \<Rightarrow> string \<Rightarrow> string \<Rightarrow> VerifierRef \<Rightarrow> VerificationCoverage \<Rightarrow> string list
       \<Rightarrow> string list \<Rightarrow> string option \<Rightarrow> i64 \<Rightarrow> ledger_result" where
  "op_close_open l open_id claim verifier coverage covered evidence stage now_ms =
     res_bind (ensure_created l) (\<lambda>_.
     res_bind (validated_checkpoint_fields claim verifier coverage) (\<lambda>_.
     res_bind (validate_criteria_references (goal_criteria l) covered) (\<lambda>_.
     case find (\<lambda>q. oq_id q = open_id) (led_open l) of
       None \<Rightarrow> Inl (UnknownOpenQuestion open_id)
     | Some target \<Rightarrow>
         res_bind (guard (is_open target) (OpenQuestionAlreadyClosed open_id)) (\<lambda>_.
         let new_id = next_sequential_id (map cp_id (led_verified l)) ''chk-''
         in Inr (l\<lparr>led_verified := led_verified l @
               [\<lparr>cp_id = new_id, cp_claim = claim, cp_verifier = verifier, cp_coverage = coverage,
                 cp_goal_generation = led_goal_generation l, cp_evidence_artifact_ids = evidence,
                 cp_source_stage_id = stage, cp_covered_criteria = covered,
                 cp_supersedes = None, cp_superseded_by = None, cp_created_at = now_ms\<rparr>],
               led_open := update_first (\<lambda>q. oq_id q = open_id)
                 (\<lambda>q. q\<lparr>oq_closed_by_checkpoint_id := Some new_id\<rparr>) (led_open l)\<rparr>)))))"

definition op_set_next ::
    "SessionTaskLedger \<Rightarrow> string \<Rightarrow> TaskLedgerActor option \<Rightarrow> i64 \<Rightarrow> ledger_result" where
  "op_set_next l statement actor now_ms =
     res_bind (ensure_created l) (\<lambda>_.
     res_bind (guard (non_empty statement) EmptyStatement) (\<lambda>_.
     Inr (l\<lparr>led_next := Some (next_from_statement statement (unwrap_or actor User) now_ms)\<rparr>)))"

definition mark_pre_interrupt :: "NextAction \<Rightarrow> NextAction" where
  "mark_pre_interrupt n = n\<lparr>na_provenance := (na_provenance n)\<lparr>nap_pre_interrupt := True\<rparr>\<rparr>"

text \<open>The inner \<open>match status\<close> of the \<open>SetStatus\<close> arm, before the common tail.\<close>

definition set_status_arm ::
    "SessionTaskLedger \<Rightarrow> TaskLedgerStatus \<Rightarrow> AwaitingInteractionRef option \<Rightarrow> string option
       \<Rightarrow> ledger_result" where
  "set_status_arm l status awaiting blocked_reason =
     (case status of
        AwaitingUser \<Rightarrow>
          (case awaiting of
             None \<Rightarrow> Inl AwaitingRequiresInteraction
           | Some a \<Rightarrow>
               res_bind (guard (non_empty (air_interaction_id a)) AwaitingRequiresInteraction) (\<lambda>_.
               let l' = (if a \<in> set (led_awaiting_interactions l) then l
                         else l\<lparr>led_awaiting_interactions := led_awaiting_interactions l @ [a]\<rparr>)
               in res_bind (require_next_for_status l' Active) (\<lambda>_. Inr l')))
      | Blocked \<Rightarrow>
          (case blocked_reason of
             None \<Rightarrow> Inl EmptyBlockedReason
           | Some reason \<Rightarrow>
               res_bind (guard (non_empty reason) EmptyBlockedReason) (\<lambda>_.
               Inr (l\<lparr>led_blocked_reason := blocked_reason\<rparr>)))
      | Active \<Rightarrow>
          res_bind (guard (led_awaiting_interactions l = [])
              (StatusConflictsWithAwaitingInteractions status
                 (length (led_awaiting_interactions l)))) (\<lambda>_.
          Inr (l\<lparr>led_blocked_reason := None\<rparr>))
      | Interrupted \<Rightarrow>
          Inr (l\<lparr>led_next := map_option mark_pre_interrupt (led_next l),
                 led_awaiting_interactions := []\<rparr>)
      | Completed \<Rightarrow>
          res_bind (validate_completion l (led_uncovered_criteria l)) (\<lambda>_.
          Inr (l\<lparr>led_blocked_reason := None, led_next := None\<rparr>)))"

text \<open>Leaving \<open>Completed\<close> drops the criteria the completion had declared uncovered.\<close>

definition reopen_from_completed :: "SessionTaskLedger \<Rightarrow> TaskLedgerStatus \<Rightarrow> SessionTaskLedger" where
  "reopen_from_completed l status =
     (if led_status l = Completed \<and> status \<noteq> Completed
      then l\<lparr>led_uncovered_criteria := []\<rparr> else l)"

definition op_set_status ::
    "SessionTaskLedger \<Rightarrow> TaskLedgerStatus \<Rightarrow> AwaitingInteractionRef option \<Rightarrow> string option
       \<Rightarrow> ledger_result" where
  "op_set_status l status awaiting blocked_reason =
     res_bind (ensure_created l) (\<lambda>_.
     res_bind (set_status_arm l status awaiting blocked_reason) (\<lambda>l1.
     let l2 = reopen_from_completed l1 status
     in res_bind (require_next_for_status l2 status) (\<lambda>_.
        Inr (l2\<lparr>led_status := status\<rparr>))))"

text \<open>Still waiting on something else stays awaiting; otherwise the run resumes.\<close>

definition resume_when_resolved :: "SessionTaskLedger \<Rightarrow> SessionTaskLedger" where
  "resume_when_resolved l =
     (if led_awaiting_interactions l = [] \<and> led_status l = AwaitingUser
      then l\<lparr>led_status := Active\<rparr> else l)"

definition op_resolve_interaction ::
    "SessionTaskLedger \<Rightarrow> AwaitingInteractionKind \<Rightarrow> string \<Rightarrow> ledger_result" where
  "op_resolve_interaction l kind interaction_id =
     res_bind (ensure_created l) (\<lambda>_.
     let kept = filter (\<lambda>a. \<not> (air_kind a = kind \<and> air_interaction_id a = interaction_id))
                  (led_awaiting_interactions l)
     in res_bind (guard (length kept \<noteq> length (led_awaiting_interactions l))
            (UnknownAwaitingInteraction interaction_id)) (\<lambda>_.
        Inr (resume_when_resolved (l\<lparr>led_awaiting_interactions := kept\<rparr>))))"

definition op_interrupt :: "SessionTaskLedger \<Rightarrow> ledger_result" where
  "op_interrupt l =
     res_bind (ensure_created l) (\<lambda>_.
     Inr (l\<lparr>led_next := map_option mark_pre_interrupt (led_next l), led_status := Interrupted,
            led_awaiting_interactions := []\<rparr>))"

definition op_complete :: "SessionTaskLedger \<Rightarrow> string list \<Rightarrow> ledger_result" where
  "op_complete l uncovered =
     res_bind (ensure_created l) (\<lambda>_.
     res_bind (validate_completion l uncovered) (\<lambda>_.
     Inr (l\<lparr>led_uncovered_criteria := uncovered, led_status := Completed,
            led_blocked_reason := None, led_next := None\<rparr>)))"

fun apply_op :: "i64 \<Rightarrow> SessionTaskLedger \<Rightarrow> TaskLedgerOp \<Rightarrow> ledger_result" where
  "apply_op now l (Create g next_statement) = op_create l g next_statement now"
| "apply_op now l (SetGoal g) = op_set_goal l g"
| "apply_op now l (AddCore statement live actor) = op_add_core l statement live actor now"
| "apply_op now l (SwapCoreLive slot statement actor) =
     op_swap_core_live l slot statement actor now"
| "apply_op now l (AddCheckpoint claim verifier coverage covered evidence stage supersedes) =
     op_add_checkpoint l claim verifier coverage covered evidence stage supersedes now"
| "apply_op now l (OpOpenQuestion question settled_by) = op_open_question l question settled_by now"
| "apply_op now l (CloseOpenWithCheckpoint open_id claim verifier coverage covered evidence stage) =
     op_close_open l open_id claim verifier coverage covered evidence stage now"
| "apply_op now l (SetNext statement actor) = op_set_next l statement actor now"
| "apply_op now l (SetStatus status awaiting blocked_reason) =
     op_set_status l status awaiting blocked_reason"
| "apply_op now l (ResolveInteraction kind interaction_id) =
     op_resolve_interaction l kind interaction_id"
| "apply_op now l Interrupt = op_interrupt l"
| "apply_op now l (Complete uncovered) = op_complete l uncovered"

section \<open>Committed writes\<close>

definition apply_batch ::
    "SessionTaskLedger \<Rightarrow> u64 \<Rightarrow> TaskLedgerOp list \<Rightarrow> i64
       \<Rightarrow> (TaskLedgerError + u64) \<times> SessionTaskLedger" where
  "apply_batch l expected ops now_ms =
     (if led_revision l \<noteq> expected
      then (Inl (RevisionConflict expected (led_revision l)), l)
      else case res_fold (apply_op now_ms) l ops of
        Inl e \<Rightarrow> (Inl e, l)
      | Inr staged \<Rightarrow>
          (case validate_snapshot staged of
             Inl e \<Rightarrow> (Inl e, l)
           | Inr _ \<Rightarrow>
               let l' = staged\<lparr>led_revision := led_revision l + 1, led_updated_at := now_ms\<rparr>
               in (Inr (led_revision l'), l')))"

definition ledger_apply ::
    "SessionTaskLedger \<Rightarrow> u64 \<Rightarrow> TaskLedgerOp \<Rightarrow> i64
       \<Rightarrow> (TaskLedgerError + u64) \<times> SessionTaskLedger" where
  "ledger_apply l expected operation now_ms = apply_batch l expected [operation] now_ms"

definition start_goal_staged ::
    "SessionTaskLedger \<Rightarrow> TaskGoal \<Rightarrow> string \<Rightarrow> i64 \<Rightarrow> SessionTaskLedger" where
  "start_goal_staged l g next_statement now_ms =
     l\<lparr>led_goal_generation :=
         (if led_goal l \<noteq> None then next_generation (led_goal_generation l) else 1),
       led_goal := Some g, led_open := [], led_awaiting_interactions := [],
       led_blocked_reason := None, led_uncovered_criteria := [],
       led_next := Some (next_from_statement next_statement User now_ms),
       led_status := Active\<rparr>"

definition start_goal ::
    "SessionTaskLedger \<Rightarrow> u64 \<Rightarrow> TaskGoal \<Rightarrow> string \<Rightarrow> i64
       \<Rightarrow> (TaskLedgerError + u64) \<times> SessionTaskLedger" where
  "start_goal l expected g next_statement now_ms =
     (if led_revision l \<noteq> expected
      then (Inl (RevisionConflict expected (led_revision l)), l)
      else case validate_goal g of
        Inl e \<Rightarrow> (Inl e, l)
      | Inr _ \<Rightarrow>
          if \<not> non_empty next_statement then (Inl EmptyStatement, l)
          else let staged = start_goal_staged l g next_statement now_ms
               in case validate_snapshot staged of
                    Inl e \<Rightarrow> (Inl e, l)
                  | Inr _ \<Rightarrow>
                      let l' = staged\<lparr>led_revision := led_revision l + 1,
                                      led_updated_at := now_ms\<rparr>
                      in (Inr (led_revision l'), l'))"

section \<open>Rendering projections\<close>

record TaskLedgerCheckpointProjection =
  cpp_checkpoint :: VerifiedCheckpoint
  cpp_verifier_label :: string

record TaskLedgerProjection =
  proj_live_core :: "CoreConstraint list"
  proj_open_questions :: "OpenQuestion list"
  proj_current_checkpoints :: "TaskLedgerCheckpointProjection list"
  proj_missing_acceptance_criteria :: "string list"

record SessionTaskLedgerView =
  view_ledger :: SessionTaskLedger
  view_projection :: TaskLedgerProjection

definition projection_from :: "SessionTaskLedger \<Rightarrow> TaskLedgerProjection" where
  "projection_from l =
     \<lparr>proj_live_core = live_core l,
      proj_open_questions = open_questions l,
      proj_current_checkpoints =
        map (\<lambda>c. \<lparr>cpp_checkpoint = c, cpp_verifier_label = describe (cp_verifier c)\<rparr>)
          (current_checkpoints l),
      proj_missing_acceptance_criteria =
        missing_acceptance_criteria l (led_uncovered_criteria l)\<rparr>"

definition view_from :: "SessionTaskLedger \<Rightarrow> SessionTaskLedgerView" where
  "view_from l = \<lparr>view_ledger = l, view_projection = projection_from l\<rparr>"

definition view_deref :: "SessionTaskLedgerView \<Rightarrow> SessionTaskLedger" where
  "view_deref v = view_ledger v"

end
