(* ===== verification/Task_Ledger_Invariants.thy ===== *)
theory Task_Ledger_Invariants
  imports Task_Ledger
begin

text \<open>
  The library of facts about \<^verbatim>\<open>Task_Ledger\<close>: what each operation does when it succeeds, the
  well-formedness every operation keeps, the exact conditions of the snapshot and completion gates,
  the compare-and-swap contract of the committed writes, and the reachable ledgers. The numbered
  invariants of the source's module comment are stated over reachable ledgers in
  \<^verbatim>\<open>Task_Ledger_Properties\<close>.
\<close>

section \<open>Generated identifiers\<close>

definition seq_ids :: "string \<Rightarrow> nat \<Rightarrow> string list" where
  "seq_ids p n = map (\<lambda>i. p @ fmt02 (Suc i)) [0..<n]"

lemma seq_ids_Suc: "seq_ids p (Suc n) = seq_ids p n @ [p @ fmt02 (Suc n)]"
  by (simp add: seq_ids_def)

lemma distinct_seq_ids: "distinct (seq_ids p n)"
  by (auto simp: seq_ids_def distinct_map inj_on_def dest: fmt02_inj)

lemma length_seq_ids [simp]: "length (seq_ids p n) = n"
  by (simp add: seq_ids_def)

lemma next_sequential_id_seq:
  assumes ids: "set existing = set (seq_ids p n)" and n: "Suc n < 2 ^ 32"
  shows "next_sequential_id existing p = p @ fmt02 (Suc n)"
proof -
  let ?nums = "List.map_filter parse_u32 (List.map_filter (strip_prefix p) existing)"
  have parse: "parse_u32 (fmt02 (Suc i)) = Some (Suc i)" if "i < n" for i
    using that n by (intro parse_fmt02) simp
  have tails: "set (List.map_filter (strip_prefix p) existing) = (\<lambda>i. fmt02 (Suc i)) ` {0..<n}"
    by (auto simp: set_map_filter_iff ids seq_ids_def strip_prefix_Some_iff)
  have nums: "set ?nums = Suc ` {0..<n}"
  proof (rule set_eqI)
    fix x
    have "(\<exists>i\<in>{0..<n}. parse_u32 (fmt02 (Suc i)) = Some x) \<longleftrightarrow> (\<exists>i\<in>{0..<n}. x = Suc i)"
      using parse by (intro bex_cong) auto
    then show "x \<in> set ?nums \<longleftrightarrow> x \<in> Suc ` {0..<n}"
      unfolding set_map_filter_iff [of x parse_u32] tails image_iff [of x Suc] by simp
  qed
  have "fold max ?nums 0 = Max (insert 0 (set ?nums))"
    by (metis List.finite_set Max.set_eq_fold list.set(2))
  also have "\<dots> = n"
    unfolding nums by (rule Max_eqI) (auto simp: image_iff less_Suc_eq_0_disj gr0_conv_Suc)
  finally show ?thesis using n by (simp add: next_sequential_id_def)
qed

text \<open>In general a generated identifier is new as long as the counter does not wrap.\<close>

lemma next_sequential_id_Nil: "next_sequential_id [] p = p @ ''01''"
  by (simp add: next_sequential_id_def eval_simps map_filter_simps)

lemma next_sequential_id_fresh:
  assumes "\<And>x i. x \<in> set existing \<Longrightarrow> strip_prefix p x = Some i \<Longrightarrow>
                 parse_u32 i \<noteq> Some (2 ^ 32 - 1)"
  shows "next_sequential_id existing p \<notin> set existing"
proof
  assume mem: "next_sequential_id existing p \<in> set existing"
  let ?nums = "List.map_filter parse_u32 (List.map_filter (strip_prefix p) existing)"
  let ?m = "fold max ?nums 0"
  have max: "?m = Max (insert 0 (set ?nums))"
    by (metis List.finite_set Max.set_eq_fold list.set(2))
  have lt: "?m < 2 ^ 32 - 1"
  proof -
    have "?m \<in> insert 0 (set ?nums)" unfolding max by (rule Max_in) auto
    moreover have "x < 2 ^ 32 - 1" if "x \<in> set ?nums" for x
      using that assms parse_u32_bound
      by (fastforce simp: set_map_filter_iff order.strict_iff_order)
    ultimately show ?thesis by auto
  qed
  then have eq: "next_sequential_id existing p = p @ fmt02 (Suc ?m)"
    by (simp add: next_sequential_id_def)
  have "fmt02 (Suc ?m) \<in> set (List.map_filter (strip_prefix p) existing)"
    using mem unfolding eq set_map_filter_iff by (rule bexI [rotated]) simp
  moreover have "parse_u32 (fmt02 (Suc ?m)) = Some (Suc ?m)"
    using lt by (intro parse_fmt02) simp
  ultimately have "Suc ?m \<in> set ?nums"
    by (subst set_map_filter_iff) blast
  then have "Suc ?m \<le> ?m" unfolding max by (intro Max_ge) auto
  then show False by simp
qed

section \<open>Swapping a live core constraint\<close>

lemma length_live_positions: "length (live_positions cs) = length (filter core_live cs)"
proof -
  have "filter core_live cs = map ((!) cs) (live_positions cs)"
    unfolding live_positions_def
    by (metis (no_types, lifting) filter_map map_nth comp_def filter_cong)
  then show ?thesis by simp
qed

lemma filter_live_map_nth: "filter core_live cs = map ((!) cs) (live_positions cs)"
  unfolding live_positions_def
  by (metis (no_types, lifting) filter_map map_nth comp_def filter_cong)

lemma live_positions_split:
  assumes "k < length (live_positions cs)"
  defines "p \<equiv> live_positions cs ! k"
  shows "p < length cs" and "core_live (cs ! p)"
    and "filter core_live (take p cs) = take k (filter core_live cs)"
    and "filter core_live (drop (Suc p) cs) = drop (Suc k) (filter core_live cs)"
proof -
  have "p \<in> set (live_positions cs)" using assms by simp
  then show p: "p < length cs" and live: "core_live (cs ! p)"
    by (auto simp: live_positions_def)
  let ?a = "take p cs" and ?b = "drop (Suc p) cs"
  have cs: "cs = ?a @ cs ! p # ?b" using p by (rule id_take_nth_drop)
  have up: "[0..<length cs] = [0..<p] @ p # [Suc p..<length cs]"
    using p by (metis upt_add_eq_append upt_rec le_add_diff_inverse less_imp_le_nat zero_le)
  have "live_positions cs =
      filter (\<lambda>i. core_live (cs ! i)) [0..<p] @ p # filter (\<lambda>i. core_live (cs ! i)) [Suc p..<length cs]"
    unfolding live_positions_def up using live by simp
  moreover have d: "distinct (live_positions cs)" by (simp add: live_positions_def)
  ultimately have k: "k = length (filter (\<lambda>i. core_live (cs ! i)) [0..<p])"
    using assms(1) p_def by (metis nth_append_length nth_eq_iff_index_eq length_append
        length_Cons less_add_Suc1 add_Suc_right)
  have "length (filter core_live ?a) = k"
    using filter_live_map_nth [of ?a] p k
    by (simp add: live_positions_def length_live_positions) (smt (verit) filter_cong nth_take
        set_upt atLeastLessThan_iff length_map min.absorb4)
  moreover have "filter core_live cs = filter core_live ?a @ cs ! p # filter core_live ?b"
    using cs live by (metis filter.simps(2) filter_append)
  ultimately show "filter core_live ?a = take k (filter core_live cs)"
    and "filter core_live ?b = drop (Suc k) (filter core_live cs)" by auto
qed


definition slot_position :: "CoreConstraint list \<Rightarrow> nat \<Rightarrow> nat" where
  "slot_position cs k =
     (if k < length (live_positions cs) then live_positions cs ! k else length cs)"

definition park_slot :: "CoreConstraint list \<Rightarrow> nat \<Rightarrow> CoreConstraint list" where
  "park_slot cs k =
     (if k < length (live_positions cs)
      then cs[slot_position cs k := (cs ! slot_position cs k)\<lparr>core_live := False\<rparr>] else cs)"

lemma swap_core_eq:
  "swap_core cs k st actor now =
     (case position (\<lambda>e. core_statement e = st) (park_slot cs k) of
        Some q \<Rightarrow>
          insert_at (min (slot_position cs k) (length (remove_at q (park_slot cs k))))
            ((park_slot cs k ! q)\<lparr>core_live := True, core_set_by := actor, core_set_at := now\<rparr>)
            (remove_at q (park_slot cs k))
      | None \<Rightarrow>
          insert_at (min (slot_position cs k) (length (park_slot cs k)))
            \<lparr>core_id = next_sequential_id (map core_id (park_slot cs k)) ''core-'',
             core_statement = st, core_live = True, core_set_by = actor, core_set_at = now\<rparr>
            (park_slot cs k))"
  by (simp add: swap_core_def park_slot_def slot_position_def Let_def split: option.split)

lemma length_park_slot [simp]: "length (park_slot cs k) = length cs"
  by (simp add: park_slot_def)

lemma map_park_slot [simp]:
  "map core_id (park_slot cs k) = map core_id cs"
  "map core_statement (park_slot cs k) = map core_statement cs"
  by (simp_all add: park_slot_def map_update list_update_same_conv)
     (metis list_update_beyond list_update_id not_le_imp_less nth_map length_map)+

lemma park_slot_live:
  shows "filter core_live (take (slot_position cs k) (park_slot cs k)) =
           take k (filter core_live cs)"
    and "filter core_live (drop (slot_position cs k) (park_slot cs k)) =
           drop (Suc k) (filter core_live cs)"
  using live_positions_split [of k cs] length_live_positions [of cs]
  by (auto simp: park_slot_def slot_position_def upd_conv_take_nth_drop)

lemma length_filter_swap_le:
  assumes "k < 2" and "length (filter core_live cs) \<le> 2"
  shows "length (filter core_live (swap_core cs k st actor now)) \<le> 2"
proof -
  let ?cs1 = "park_slot cs k"
  have "filter core_live ?cs1 = take k (filter core_live cs) @ drop (Suc k) (filter core_live cs)"
    using park_slot_live [of cs k] by (metis append_take_drop_id filter_append)
  then have c1: "length (filter core_live ?cs1) \<le> 1" using assms by auto
  have rem: "length (filter core_live (remove_at q ?cs1)) \<le> 1" if "q < length ?cs1" for q
  proof -
    have "mset (remove_at q ?cs1) \<subseteq># mset ?cs1"
      using mset_remove_at [OF that] by (metis mset_subset_eq_add_right add_mset_add_single
          mset_subset_eq_add_left)
    then have "size (filter_mset core_live (mset (remove_at q ?cs1))) \<le>
        size (filter_mset core_live (mset ?cs1))"
      by (intro size_mset_mono multiset_filter_mono)
    then show ?thesis using c1 by (simp flip: mset_filter)
  qed
  have ins: "length (filter core_live (insert_at i e ys)) \<le> 2"
    if "length (filter core_live ys) \<le> 1" for i e ys
  proof -
    have "length (filter core_live (take i ys)) + length (filter core_live (drop i ys)) =
        length (filter core_live ys)"
      by (metis append_take_drop_id filter_append length_append)
    then show ?thesis using that by (auto simp: filter_insert_at)
  qed
  show ?thesis
    unfolding swap_core_eq using ins c1 rem
    by (auto simp: position_Some_iff split: option.split)
qed

text \<open>
  The slot contract: the incoming statement is live in the slot it was given, or right after the
  live ones when the slot is free, and every other slot keeps its statement, provided the statement
  is not already live in another slot.
\<close>

lemma swap_core_live:
  fixes st :: string
  assumes other: "\<And>j. j < length (filter core_live cs) \<Longrightarrow> j \<noteq> k \<Longrightarrow>
                 core_statement (filter core_live cs ! j) \<noteq> st"
  defines "L \<equiv> map core_statement (filter core_live cs)"
  shows "map core_statement (filter core_live (swap_core cs k st actor now)) =
         (if k < length L then L[k := st] else L @ [st])"
proof -
  let ?F = "filter core_live" and ?cs1 = "park_slot cs k" and ?p = "slot_position cs k"
  note live = park_slot_live [of cs k]
  have gap: "?F (take (Suc ?p) ?cs1) = ?F (take ?p ?cs1)"
    "?F (drop (Suc ?p) ?cs1) = ?F (drop ?p ?cs1)"
  proof -
    have "?p < length ?cs1 \<Longrightarrow> \<not> core_live (?cs1 ! ?p)"
      by (auto simp: park_slot_def slot_position_def)
    then show "?F (take (Suc ?p) ?cs1) = ?F (take ?p ?cs1)"
      "?F (drop (Suc ?p) ?cs1) = ?F (drop ?p ?cs1)"
      by (cases "?p < length ?cs1"; simp add: take_Suc_conv_app_nth flip: Cons_nth_drop_Suc)+
  qed
  have dead: "\<not> core_live (?cs1 ! q)" if q: "q < length ?cs1" "core_statement (?cs1 ! q) = st" for q
  proof
    assume "core_live (?cs1 ! q)"
    then have "?cs1 ! q \<in> set (?F (take ?p ?cs1 @ drop ?p ?cs1))" using q by simp
    then have "?cs1 ! q \<in> set (take k (?F cs)) \<union> set (drop (Suc k) (?F cs))"
      using live by (simp del: append_take_drop_id)
    then have "\<exists>j. j < length (?F cs) \<and> j \<noteq> k \<and> ?cs1 ! q = ?F cs ! j"
    proof
      assume "?cs1 ! q \<in> set (take k (?F cs))"
      then show ?thesis by (auto simp: in_set_conv_nth)
    next
      assume "?cs1 ! q \<in> set (drop (Suc k) (?F cs))"
      then obtain i where "i < length (?F cs) - Suc k" "?cs1 ! q = ?F cs ! (Suc k + i)"
        by (auto simp: in_set_conv_nth)
      then show ?thesis by (intro exI [of _ "Suc k + i"]) auto
    qed
    with other q show False by metis
  qed
  have fill: "map core_statement (?F (insert_at (min ?p (length ys)) e ys)) =
      take k L @ [st] @ drop (Suc k) L"
    if "core_live e" "core_statement e = st" "?F (take ?p ys) = take k (?F cs)"
      "?F (drop ?p ys) = drop (Suc k) (?F cs)" for e ys
  proof -
    have "take (min ?p (length ys)) ys = take ?p ys" "drop (min ?p (length ys)) ys = drop ?p ys"
      by (simp_all add: min_def)
    with that show ?thesis by (simp add: filter_insert_at L_def take_map drop_map)
  qed
  have "map core_statement (?F (swap_core cs k st actor now)) = take k L @ [st] @ drop (Suc k) L"
  proof (cases "position (\<lambda>e. core_statement e = st) ?cs1")
    case None
    show ?thesis unfolding swap_core_eq None option.case by (rule fill) (simp_all add: live)
  next
    case (Some q)
    then have q: "q < length ?cs1" "core_statement (?cs1 ! q) = st" by (auto simp: position_Some_iff)
    note rm = filter_take_remove_at [where P = core_live, OF q(1) dead [OF q]]
    have "?F (take ?p (remove_at q ?cs1)) = take k (?F cs)"
      "?F (drop ?p (remove_at q ?cs1)) = drop (Suc k) (?F cs)"
      using rm [of ?p] gap live by (auto split: if_splits)
    then show ?thesis using Some q(2) fill by (simp add: swap_core_eq)
  qed
  then show ?thesis by (simp add: upd_conv_take_nth_drop)
qed

section \<open>Well-formed ledgers\<close>

definition checkpoint_ok :: "VerifiedCheckpoint \<Rightarrow> bool" where
  "checkpoint_ok c \<longleftrightarrow> non_empty (cp_claim c) \<and> non_empty (verifier_detail (cp_verifier c))
     \<and> non_empty (cov_scope (cp_coverage c))"

definition wf_goal :: "SessionTaskLedger \<Rightarrow> bool" where
  "wf_goal l \<longleftrightarrow>
     (case led_goal l of
        Some g \<Rightarrow> validate_goal g = Inr () \<and> led_goal_generation l \<noteq> 0
      | None \<Rightarrow> led_verified l = [] \<and> led_core l = [] \<and> led_open l = [] \<and> led_next l = None
              \<and> led_awaiting_interactions l = [] \<and> led_status l = Active)"

definition wf_core :: "SessionTaskLedger \<Rightarrow> bool" where
  "wf_core l \<longleftrightarrow> length (live_core l) \<le> 2
     \<and> (\<forall>e\<in>set (led_core l). non_empty (core_statement e))
     \<and> (length (led_core l) < 2 ^ 32 \<longrightarrow>
          mset (map core_id (led_core l)) = mset (seq_ids ''core-'' (length (led_core l))))"

definition wf_verified :: "SessionTaskLedger \<Rightarrow> bool" where
  "wf_verified l \<longleftrightarrow>
     (\<forall>c\<in>set (led_verified l).
        checkpoint_ok c \<and> cp_goal_generation c \<le> led_goal_generation l)
     \<and> (length (led_verified l) < 2 ^ 32 \<longrightarrow>
          map cp_id (led_verified l) = seq_ids ''chk-'' (length (led_verified l)))"

definition wf_open :: "SessionTaskLedger \<Rightarrow> bool" where
  "wf_open l \<longleftrightarrow>
     (\<forall>q\<in>set (led_open l). non_empty (oq_question q) \<and> non_empty (oq_settled_by q)
        \<and> (\<forall>i. oq_closed_by_checkpoint_id q = Some i \<longrightarrow> i \<in> cp_id ` set (led_verified l)))
     \<and> (length (led_open l) < 2 ^ 32 \<longrightarrow>
          map oq_id (led_open l) = seq_ids ''open-'' (length (led_open l)))"

definition wf_status :: "SessionTaskLedger \<Rightarrow> bool" where
  "wf_status l \<longleftrightarrow>
     (\<forall>n. led_next l = Some n \<longrightarrow> non_empty (na_statement n))
     \<and> (led_status l = AwaitingUser \<longrightarrow> led_next l \<noteq> None)
     \<and> (led_status l = Blocked \<longrightarrow> (\<exists>r. led_blocked_reason l = Some r \<and> non_empty r))
     \<and> distinct (led_awaiting_interactions l)
     \<and> (\<forall>a\<in>set (led_awaiting_interactions l). non_empty (air_interaction_id a))"

definition ledger_wf :: "SessionTaskLedger \<Rightarrow> bool" where
  "ledger_wf l \<longleftrightarrow> wf_goal l \<and> wf_core l \<and> wf_verified l \<and> wf_open l \<and> wf_status l"

lemmas op_defs = op_create_def op_set_goal_def op_add_core_def op_swap_core_live_def
  op_add_checkpoint_def op_open_question_def op_close_open_def op_set_next_def op_set_status_def
  op_resolve_interaction_def op_interrupt_def op_complete_def ensure_created_def Let_def

lemma has_next_iff: "has_next l \<longleftrightarrow> (\<exists>n. led_next l = Some n \<and> non_empty (na_statement n))"
  by (simp add: has_next_def split: option.split)

lemma next_generation_ge: "g \<le> next_generation g" "next_generation g \<noteq> 0"
  using u64_saturating_add_mono [of g 1] unfolding next_generation_def
  by (auto simp: max_def)

lemma next_generation_gt: "g \<noteq> - 1 \<Longrightarrow> g < next_generation g"
  unfolding next_generation_def using u64_saturating_succ_gt [of g] by (simp add: less_max_iff_disj)

lemma mark_pre_interrupt_simps [simp]:
  "na_statement (mark_pre_interrupt n) = na_statement n"
  "nap_pre_interrupt (na_provenance (mark_pre_interrupt n))"
  "nap_actor (na_provenance (mark_pre_interrupt n)) = nap_actor (na_provenance n)"
  "nap_set_at (na_provenance (mark_pre_interrupt n)) = nap_set_at (na_provenance n)"
  by (simp_all add: mark_pre_interrupt_def)

text \<open>\<open>SetStatus\<close>: what each requested status changes.\<close>

lemma set_status_arm_Inr:
  "set_status_arm l status awaiting reason = Inr l1 \<longleftrightarrow>
   (case status of
      AwaitingUser \<Rightarrow> \<exists>a. awaiting = Some a \<and> non_empty (air_interaction_id a) \<and> has_next l
        \<and> l1 = (if a \<in> set (led_awaiting_interactions l) then l
                else l\<lparr>led_awaiting_interactions := led_awaiting_interactions l @ [a]\<rparr>)
    | Blocked \<Rightarrow> \<exists>r. reason = Some r \<and> non_empty r \<and> l1 = l\<lparr>led_blocked_reason := Some r\<rparr>
    | Active \<Rightarrow> led_awaiting_interactions l = [] \<and> l1 = l\<lparr>led_blocked_reason := None\<rparr>
    | Interrupted \<Rightarrow> l1 = l\<lparr>led_next := map_option mark_pre_interrupt (led_next l),
                           led_awaiting_interactions := []\<rparr>
    | Completed \<Rightarrow> validate_completion l (led_uncovered_criteria l) = Inr ()
        \<and> l1 = l\<lparr>led_blocked_reason := None, led_next := None\<rparr>)"
  by (cases status; cases awaiting; cases reason)
     (auto simp: set_status_arm_def res_simps require_next_for_status_def Let_def has_next_def)

lemma reopen_from_completed_simps [simp]:
  "led_session_id (reopen_from_completed l st) = led_session_id l"
  "led_revision (reopen_from_completed l st) = led_revision l"
  "led_goal_generation (reopen_from_completed l st) = led_goal_generation l"
  "led_goal (reopen_from_completed l st) = led_goal l"
  "led_core (reopen_from_completed l st) = led_core l"
  "led_verified (reopen_from_completed l st) = led_verified l"
  "led_open (reopen_from_completed l st) = led_open l"
  "led_next (reopen_from_completed l st) = led_next l"
  "led_status (reopen_from_completed l st) = led_status l"
  "led_awaiting_interactions (reopen_from_completed l st) = led_awaiting_interactions l"
  "led_blocked_reason (reopen_from_completed l st) = led_blocked_reason l"
  "led_updated_at (reopen_from_completed l st) = led_updated_at l"
  "has_next (reopen_from_completed l st) = has_next l"
  by (simp_all add: reopen_from_completed_def has_next_def)

lemma resume_when_resolved_simps [simp]:
  "led_session_id (resume_when_resolved l) = led_session_id l"
  "led_revision (resume_when_resolved l) = led_revision l"
  "led_goal_generation (resume_when_resolved l) = led_goal_generation l"
  "led_goal (resume_when_resolved l) = led_goal l"
  "led_core (resume_when_resolved l) = led_core l"
  "led_verified (resume_when_resolved l) = led_verified l"
  "led_open (resume_when_resolved l) = led_open l"
  "led_next (resume_when_resolved l) = led_next l"
  "led_awaiting_interactions (resume_when_resolved l) = led_awaiting_interactions l"
  "led_blocked_reason (resume_when_resolved l) = led_blocked_reason l"
  "led_uncovered_criteria (resume_when_resolved l) = led_uncovered_criteria l"
  "led_updated_at (resume_when_resolved l) = led_updated_at l"
  "led_status (resume_when_resolved l) =
     (if led_awaiting_interactions l = [] \<and> led_status l = AwaitingUser then Active
      else led_status l)"
  by (simp_all add: resume_when_resolved_def)

lemma op_set_status_Inr:
  "op_set_status l status awaiting reason = Inr l' \<longleftrightarrow>
   (led_goal l \<noteq> None \<and> (\<exists>l1. set_status_arm l status awaiting reason = Inr l1
     \<and> (status = Active \<or> status = Blocked \<longrightarrow> has_next l1)
     \<and> l' = (reopen_from_completed l1 status)\<lparr>led_status := status\<rparr>))"
  unfolding op_set_status_def ensure_created_def Let_def res_simps require_next_for_status_def
  by (cases status) (auto simp: res_simps)

lemma op_create_Inr:
  "op_create l g ns now = Inr l' \<longleftrightarrow>
   led_revision l = 0 \<and> led_goal l = None \<and> validate_goal g = Inr () \<and> non_empty ns
   \<and> l' = l\<lparr>led_goal := Some g, led_goal_generation := 1,
            led_next := Some (next_from_statement ns User now), led_status := Active\<rparr>"
  unfolding op_create_def res_simps by auto

lemma op_set_goal_Inr:
  "op_set_goal l g = Inr l' \<longleftrightarrow>
   led_goal l \<noteq> None \<and> validate_goal g = Inr ()
   \<and> l' = l\<lparr>led_goal := Some g, led_goal_generation := next_generation (led_goal_generation l),
            led_uncovered_criteria := []\<rparr>"
  unfolding op_set_goal_def ensure_created_def res_simps by auto

lemma op_add_core_Inr:
  "op_add_core l st live actor now = Inr l' \<longleftrightarrow>
   led_goal l \<noteq> None \<and> non_empty st \<and> (live \<longrightarrow> length (live_core l) < 2)
   \<and> l' = l\<lparr>led_core := led_core l @
        [\<lparr>core_id = next_sequential_id (map core_id (led_core l)) ''core-'',
          core_statement = st, core_live = live, core_set_by = unwrap_or actor System,
          core_set_at = now\<rparr>]\<rparr>"
  unfolding op_add_core_def ensure_created_def Let_def res_simps by auto

lemma op_swap_core_live_Inr:
  "op_swap_core_live l slot st actor now = Inr l' \<longleftrightarrow>
   led_goal l \<noteq> None \<and> non_empty st \<and> (slot = 1 \<or> slot = 2)
   \<and> l' = l\<lparr>led_core := swap_core (led_core l) (unat slot - 1) st (unwrap_or actor System) now\<rparr>"
  unfolding op_swap_core_live_def ensure_created_def res_simps by auto

lemma op_add_checkpoint_Inr:
  "op_add_checkpoint l claim v cov covered evidence stage supersedes now = Inr l' \<longleftrightarrow>
   led_goal l \<noteq> None \<and> validated_checkpoint_fields claim v cov = Inr ()
   \<and> set covered \<subseteq> set (goal_criteria l)
   \<and> (\<exists>vs. supersede_target (led_verified l)
            (next_sequential_id (map cp_id (led_verified l)) ''chk-'') supersedes = Inr vs
        \<and> l' = l\<lparr>led_verified := vs @
             [\<lparr>cp_id = next_sequential_id (map cp_id (led_verified l)) ''chk-'', cp_claim = claim,
               cp_verifier = v, cp_coverage = cov, cp_goal_generation = led_goal_generation l,
               cp_evidence_artifact_ids = evidence, cp_source_stage_id = stage,
               cp_covered_criteria = covered, cp_supersedes = supersedes,
               cp_superseded_by = None, cp_created_at = now\<rparr>]\<rparr>)"
  unfolding op_add_checkpoint_def ensure_created_def Let_def res_simps
    validate_criteria_references_def
  by auto

lemma op_open_question_Inr:
  "op_open_question l q st now = Inr l' \<longleftrightarrow>
   led_goal l \<noteq> None \<and> non_empty q \<and> non_empty st
   \<and> l' = l\<lparr>led_open := led_open l @
        [\<lparr>oq_id = next_sequential_id (map oq_id (led_open l)) ''open-'', oq_question = q,
          oq_settled_by = st, oq_opened_at = now, oq_closed_by_checkpoint_id = None\<rparr>]\<rparr>"
  unfolding op_open_question_def ensure_created_def Let_def res_simps by auto

lemma op_close_open_Inr:
  "op_close_open l open_id claim v cov covered evidence stage now = Inr l' \<longleftrightarrow>
   led_goal l \<noteq> None \<and> validated_checkpoint_fields claim v cov = Inr ()
   \<and> set covered \<subseteq> set (goal_criteria l)
   \<and> (\<exists>q. find (\<lambda>q. oq_id q = open_id) (led_open l) = Some q \<and> is_open q)
   \<and> l' = l\<lparr>led_verified := led_verified l @
             [\<lparr>cp_id = next_sequential_id (map cp_id (led_verified l)) ''chk-'', cp_claim = claim,
               cp_verifier = v, cp_coverage = cov, cp_goal_generation = led_goal_generation l,
               cp_evidence_artifact_ids = evidence, cp_source_stage_id = stage,
               cp_covered_criteria = covered, cp_supersedes = None,
               cp_superseded_by = None, cp_created_at = now\<rparr>],
            led_open := update_first (\<lambda>q. oq_id q = open_id)
              (\<lambda>q. q\<lparr>oq_closed_by_checkpoint_id :=
                  Some (next_sequential_id (map cp_id (led_verified l)) ''chk-'')\<rparr>) (led_open l)\<rparr>"
  unfolding op_close_open_def ensure_created_def Let_def res_simps
    validate_criteria_references_def
  by (auto simp: res_simps split: option.splits)

lemma op_set_next_Inr:
  "op_set_next l st actor now = Inr l' \<longleftrightarrow>
   led_goal l \<noteq> None \<and> non_empty st
   \<and> l' = l\<lparr>led_next := Some (next_from_statement st (unwrap_or actor User) now)\<rparr>"
  unfolding op_set_next_def ensure_created_def res_simps by auto

lemma op_resolve_interaction_Inr:
  "op_resolve_interaction l kind i = Inr l' \<longleftrightarrow>
   led_goal l \<noteq> None
   \<and> (\<exists>a\<in>set (led_awaiting_interactions l). air_kind a = kind \<and> air_interaction_id a = i)
   \<and> l' = resume_when_resolved (l\<lparr>led_awaiting_interactions :=
        filter (\<lambda>a. \<not> (air_kind a = kind \<and> air_interaction_id a = i))
          (led_awaiting_interactions l)\<rparr>)"
proof -
  let ?P = "\<lambda>a. \<not> (air_kind a = kind \<and> air_interaction_id a = i)"
  have len: "length (filter ?P xs) \<noteq> length xs \<longleftrightarrow>
      (\<exists>a\<in>set xs. air_kind a = kind \<and> air_interaction_id a = i)" for xs
    by (induction xs) (auto simp: le_imp_less_Suc order.strict_implies_not_eq)
  show ?thesis
    unfolding op_resolve_interaction_def ensure_created_def Let_def res_simps len
    by (simp add: eq_commute [of _ l'])
qed

lemma op_interrupt_Inr:
  "op_interrupt l = Inr l' \<longleftrightarrow>
   led_goal l \<noteq> None
   \<and> l' = l\<lparr>led_next := map_option mark_pre_interrupt (led_next l), led_status := Interrupted,
            led_awaiting_interactions := []\<rparr>"
  unfolding op_interrupt_def ensure_created_def res_simps by auto

lemma op_complete_Inr:
  "op_complete l uncovered = Inr l' \<longleftrightarrow>
   led_goal l \<noteq> None \<and> validate_completion l uncovered = Inr ()
   \<and> l' = l\<lparr>led_uncovered_criteria := uncovered, led_status := Completed,
            led_blocked_reason := None, led_next := None\<rparr>"
  unfolding op_complete_def ensure_created_def res_simps by auto

lemmas op_Inr = op_create_Inr op_set_goal_Inr op_add_core_Inr op_swap_core_live_Inr
  op_add_checkpoint_Inr op_open_question_Inr op_close_open_Inr op_set_next_Inr
  op_resolve_interaction_Inr op_interrupt_Inr op_complete_Inr

lemma set_status_frame:
  assumes "op_set_status l status awaiting reason = Inr l'"
  shows "led_revision l' = led_revision l" "led_session_id l' = led_session_id l"
    "led_updated_at l' = led_updated_at l" "led_goal l' = led_goal l"
    "led_goal_generation l' = led_goal_generation l" "led_core l' = led_core l"
    "led_verified l' = led_verified l" "led_open l' = led_open l" "led_status l' = status"
  using assms unfolding op_set_status_Inr set_status_arm_Inr
  by (cases status; auto)+

lemma mset_next_sequential_id:
  assumes "mset ids = mset (seq_ids p n)" and "Suc n < 2 ^ 32"
  shows "add_mset (next_sequential_id ids p) (mset ids) = mset (seq_ids p (Suc n))"
proof -
  have "next_sequential_id ids p = p @ fmt02 (Suc n)"
    using assms by (intro next_sequential_id_seq mset_eq_setD)
  with assms(1) show ?thesis by (simp add: seq_ids_Suc)
qed

lemma seq_ids_extend:
  assumes "ids = seq_ids p n" and "Suc n < 2 ^ 32"
  shows "ids @ [next_sequential_id ids p] = seq_ids p (Suc n)"
  using assms next_sequential_id_seq [of ids p n] by (simp add: seq_ids_Suc)

lemma park_slot_statements: "core_statement ` set (park_slot cs k) = core_statement ` set cs"
  by (metis map_park_slot(2) set_map)

lemma position_park_slot:
  "position (\<lambda>e. core_statement e = st) (park_slot cs k) = None \<longleftrightarrow>
     st \<notin> core_statement ` set cs"
  unfolding position_None_iff park_slot_statements [of cs k, symmetric] by auto

lemma image_mset_park_slot [simp]:
  "image_mset core_id (mset (park_slot cs k)) = image_mset core_id (mset cs)"
  by (metis map_park_slot(1) mset_map)

lemma length_swap_core:
  "length (swap_core cs k st actor now) =
     (if st \<in> core_statement ` set cs then length cs else Suc (length cs))"
proof (cases "position (\<lambda>e. core_statement e = st) (park_slot cs k)")
  case None
  then show ?thesis using position_park_slot [of st cs k] by (simp add: swap_core_eq)
next
  case (Some q)
  then have "q < length cs" by (auto simp: position_Some_iff)
  then show ?thesis using Some position_park_slot [of st cs k] by (auto simp: swap_core_eq)
qed

lemma mset_ids_swap_core:
  "mset (map core_id (swap_core cs k st actor now)) =
     (if st \<in> core_statement ` set cs then mset (map core_id cs)
      else add_mset (next_sequential_id (map core_id cs) ''core-'') (mset (map core_id cs)))"
proof (cases "position (\<lambda>e. core_statement e = st) (park_slot cs k)")
  case None
  then show ?thesis using position_park_slot [of st cs k] by (simp add: swap_core_eq)
next
  case (Some q)
  then have q: "q < length (park_slot cs k)" by (auto simp: position_Some_iff)
  have "mset (map core_id (swap_core cs k st actor now)) = mset (map core_id (park_slot cs k))"
    using Some arg_cong [OF mset_remove_at [OF q], of "image_mset core_id"]
    by (simp add: swap_core_eq)
  also have "\<dots> = mset (map core_id cs)" by simp
  finally show ?thesis using Some position_park_slot [of st cs k] by simp
qed

lemma statement_set_swap_core:
  "core_statement ` set (swap_core cs k st actor now) = insert st (core_statement ` set cs)"
proof (cases "position (\<lambda>e. core_statement e = st) (park_slot cs k)")
  case None
  then show ?thesis using park_slot_statements [of cs k] by (simp add: swap_core_eq)
next
  case (Some q)
  then have q: "q < length (park_slot cs k)" "core_statement (park_slot cs k ! q) = st"
    by (auto simp: position_Some_iff)
  have "set (park_slot cs k) = insert (park_slot cs k ! q) (set (remove_at q (park_slot cs k)))"
    by (metis mset_remove_at [OF q(1)] set_mset_add_mset_insert set_mset_mset)
  then show ?thesis
    using Some q(2) park_slot_statements [of cs k] by (auto simp: swap_core_eq)
qed

lemma statements_swap_core:
  "e \<in> set (swap_core cs k st actor now) \<Longrightarrow>
     core_statement e = st \<or> core_statement e \<in> core_statement ` set cs"
  using statement_set_swap_core [of cs k st actor now] by blast

lemma wf_core_step:
  assumes "wf_core l" and "apply_op now l x = Inr l'"
  shows "wf_core l'"
proof (cases x)
  case (AddCore st live actor)
  with assms show ?thesis
    using mset_next_sequential_id [of "map core_id (led_core l)" "''core-''" "length (led_core l)"]
    by (auto simp: op_Inr wf_core_def live_core_def)
next
  case (SwapCoreLive slot st actor)
  let ?cs = "swap_core (led_core l) (unat slot - 1) st (unwrap_or actor System) now"
  from SwapCoreLive assms(2) have l': "l' = l\<lparr>led_core := ?cs\<rparr>" "non_empty st"
      "slot = 1 \<or> slot = 2" by (auto simp: op_Inr)
  have "length (filter core_live ?cs) \<le> 2"
    using assms(1) l'(3) by (intro length_filter_swap_le) (auto simp: wf_core_def live_core_def)
  moreover have "\<forall>e\<in>set ?cs. non_empty (core_statement e)"
    using l'(2) assms(1) by (auto simp: wf_core_def dest!: statements_swap_core)
  moreover have "mset (map core_id ?cs) = mset (seq_ids ''core-'' (length ?cs))"
    if "length ?cs < 2 ^ 32"
    using that assms(1)
      mset_next_sequential_id [of "map core_id (led_core l)" "''core-''" "length (led_core l)"]
    unfolding mset_ids_swap_core length_swap_core wf_core_def
    by (simp del: mset_map split: if_splits)
  ultimately show ?thesis by (simp add: wf_core_def live_core_def l' del: mset_map)
next
  case (SetStatus status awaiting reason)
  with assms show ?thesis by (simp add: wf_core_def live_core_def set_status_frame)
qed (use assms in \<open>auto simp: op_Inr wf_core_def live_core_def\<close>)

lemma supersede_target_keeps:
  assumes "supersede_target vs new_id supersedes = Inr ws"
  shows "map (\<lambda>c. c\<lparr>cp_superseded_by := None\<rparr>) ws = map (\<lambda>c. c\<lparr>cp_superseded_by := None\<rparr>) vs"
    and "map cp_id ws = map cp_id vs"
proof -
  have ws: "ws = vs \<or> (\<exists>P. ws = update_first P (\<lambda>c. c\<lparr>cp_superseded_by := Some new_id\<rparr>) vs)"
    using assms by (auto simp: supersede_target_def split: option.splits if_splits)
  then show "map (\<lambda>c. c\<lparr>cp_superseded_by := None\<rparr>) ws = map (\<lambda>c. c\<lparr>cp_superseded_by := None\<rparr>) vs"
    by (auto simp: map_update_first)
  from ws show "map cp_id ws = map cp_id vs" by (auto simp: map_update_first)
qed

lemma checkpoint_ok_erase: "checkpoint_ok (c\<lparr>cp_superseded_by := b\<rparr>) = checkpoint_ok c"
  by (simp add: checkpoint_ok_def)

lemma wf_verified_extend:
  assumes "wf_verified l"
    and ws: "map (\<lambda>c. c\<lparr>cp_superseded_by := None\<rparr>) ws =
             map (\<lambda>c. c\<lparr>cp_superseded_by := None\<rparr>) (led_verified l)"
    and c: "checkpoint_ok c" "cp_goal_generation c = led_goal_generation l"
      "cp_id c = next_sequential_id (map cp_id (led_verified l)) ''chk-''"
    and l': "led_verified l' = ws @ [c]" "led_goal_generation l' = led_goal_generation l"
  shows "wf_verified l'"
proof -
  have ids: "map cp_id ws = map cp_id (led_verified l)"
    using arg_cong [OF ws, of "map cp_id"] by (simp add: comp_def)
  have len: "length ws = length (led_verified l)" using ids by (metis length_map)
  have "checkpoint_ok d \<and> cp_goal_generation d \<le> led_goal_generation l" if "d \<in> set ws" for d
  proof -
    have "d\<lparr>cp_superseded_by := None\<rparr> \<in> (\<lambda>c. c\<lparr>cp_superseded_by := None\<rparr>) ` set (led_verified l)"
      using that arg_cong [OF ws, of set] by (metis image_eqI list.set_map)
    then obtain e where e: "e \<in> set (led_verified l)"
        "d\<lparr>cp_superseded_by := None\<rparr> = e\<lparr>cp_superseded_by := None\<rparr>" by blast
    then have "checkpoint_ok d = checkpoint_ok e" "cp_goal_generation d = cp_goal_generation e"
      by (metis checkpoint_ok_erase)
         (metis e(2) VerifiedCheckpoint.select_convs(5) VerifiedCheckpoint.surjective
            VerifiedCheckpoint.update_convs(10))
    with e(1) assms(1) show ?thesis by (simp add: wf_verified_def)
  qed
  moreover have "map cp_id (ws @ [c]) = seq_ids ''chk-'' (Suc (length ws))"
    if "Suc (length ws) < 2 ^ 32"
    using that assms(1) c(3) ids len
      seq_ids_extend [of "map cp_id (led_verified l)" "''chk-''" "length (led_verified l)"]
    by (simp add: wf_verified_def)
  ultimately show ?thesis using c by (auto simp: wf_verified_def l')
qed

lemma validated_checkpoint_fields_Inr:
  "validated_checkpoint_fields claim v cov = Inr u \<longleftrightarrow>
   non_empty claim \<and> non_empty (verifier_detail v) \<and> non_empty (cov_scope cov)"
  by (auto simp: validated_checkpoint_fields_def validated_verifier_def res_simps)

lemma wf_verified_step:
  assumes "wf_goal l" "wf_verified l" and "apply_op now l x = Inr l'"
  shows "wf_verified l'"
proof (cases x)
  case (AddCheckpoint claim v cov covered evidence stage supersedes)
  let ?id = "next_sequential_id (map cp_id (led_verified l)) ''chk-''"
  from AddCheckpoint assms(3) obtain vs where
    vs: "supersede_target (led_verified l) ?id supersedes = Inr vs" and
    ok: "validated_checkpoint_fields claim v cov = Inr ()" and
    l': "l' = l\<lparr>led_verified := vs @
             [\<lparr>cp_id = ?id, cp_claim = claim,
               cp_verifier = v, cp_coverage = cov, cp_goal_generation = led_goal_generation l,
               cp_evidence_artifact_ids = evidence, cp_source_stage_id = stage,
               cp_covered_criteria = covered, cp_supersedes = supersedes,
               cp_superseded_by = None, cp_created_at = now\<rparr>]\<rparr>"
    by (auto simp: op_Inr)
  show ?thesis
    by (rule wf_verified_extend [OF assms(2) supersede_target_keeps(1) [OF vs]])
       (use ok in \<open>simp_all add: l' validated_checkpoint_fields_Inr checkpoint_ok_def\<close>)
next
  case (CloseOpenWithCheckpoint open_id claim v cov covered evidence stage)
  with assms(3) show ?thesis
    by (intro wf_verified_extend [OF assms(2) refl])
       (auto simp: op_Inr validated_checkpoint_fields_Inr checkpoint_ok_def)
next
  case (SetStatus status awaiting reason)
  with assms show ?thesis by (simp add: wf_verified_def set_status_frame)
next
  case (SetGoal g)
  with assms show ?thesis
    by (auto simp: op_Inr wf_verified_def intro: order_trans next_generation_ge)
next
  case (Create g ns)
  with assms show ?thesis by (auto simp: op_Inr wf_verified_def wf_goal_def)
qed (use assms in \<open>auto simp: op_Inr wf_verified_def\<close>)

lemma apply_op_frame:
  assumes "apply_op now l x = Inr l'"
  shows "led_revision l' = led_revision l" and "led_session_id l' = led_session_id l"
    and "led_updated_at l' = led_updated_at l"
proof -
  have "led_revision l' = led_revision l \<and> led_session_id l' = led_session_id l
      \<and> led_updated_at l' = led_updated_at l"
  proof (cases x)
    case (SetStatus status awaiting reason)
    with assms show ?thesis by (simp add: set_status_frame)
  qed (use assms in \<open>auto simp: op_Inr\<close>)
  then show "led_revision l' = led_revision l" and "led_session_id l' = led_session_id l"
    and "led_updated_at l' = led_updated_at l" by simp_all
qed

lemma apply_op_goal:
  assumes "apply_op now l x = Inr l'"
  shows "led_goal l \<noteq> None \<and> led_goal l' = led_goal l
           \<and> led_goal_generation l' = led_goal_generation l
       \<or> (\<exists>g. led_goal l' = Some g \<and> validate_goal g = Inr ()
           \<and> (led_goal l = None \<and> led_goal_generation l' = 1
              \<or> led_goal l \<noteq> None
                \<and> led_goal_generation l' = next_generation (led_goal_generation l)))"
proof (cases x)
  case (SetStatus status awaiting reason)
  with assms have st: "op_set_status l status awaiting reason = Inr l'" by simp
  then have "led_goal l \<noteq> None" unfolding op_set_status_Inr by (rule conjunct1)
  then show ?thesis using set_status_frame [OF st] by simp
qed (use assms in \<open>auto simp: op_Inr\<close>)

lemma wf_goal_step:
  assumes "wf_goal l" and "apply_op now l x = Inr l'"
  shows "wf_goal l'"
  using apply_op_goal [OF assms(2)] assms(1) next_generation_ge
  by (auto simp: wf_goal_def split: option.splits)

lemma wf_open_step:
  assumes "wf_open l" and "apply_op now l x = Inr l'"
  shows "wf_open l'"
proof (cases x)
  case (SetStatus status awaiting reason)
  with assms show ?thesis by (simp add: wf_open_def set_status_frame)
next
  case (OpOpenQuestion q st)
  with assms show ?thesis
    using seq_ids_extend [of "map oq_id (led_open l)" "''open-''" "length (led_open l)"]
    by (auto simp: op_Inr wf_open_def)
next
  case (AddCheckpoint claim v cov covered evidence stage supersedes)
  then obtain vs c where "led_verified l' = vs @ [c]" "map cp_id vs = map cp_id (led_verified l)"
      "led_open l' = led_open l"
    using assms(2) by (auto simp: op_Inr dest: supersede_target_keeps(2))
  moreover from this(2) have "cp_id ` set vs = cp_id ` set (led_verified l)" by (metis set_map)
  ultimately show ?thesis using assms(1) by (auto simp: wf_open_def)
next
  case (CloseOpenWithCheckpoint open_id claim v cov covered evidence stage)
  let ?id = "next_sequential_id (map cp_id (led_verified l)) ''chk-''"
  let ?f = "\<lambda>q. q\<lparr>oq_closed_by_checkpoint_id := Some ?id\<rparr>"
  from CloseOpenWithCheckpoint assms(2) have l':
    "led_open l' = update_first (\<lambda>q. oq_id q = open_id) ?f (led_open l)"
    "cp_id ` set (led_verified l') = insert ?id (cp_id ` set (led_verified l))"
    by (auto simp: op_Inr)
  have ids: "map oq_id (led_open l') = map oq_id (led_open l)" by (simp add: l' map_update_first)
  have "q \<in> set (led_open l) \<or> q \<in> ?f ` set (led_open l)" if "q \<in> set (led_open l')" for q
    using that set_update_first [of _ ?f] unfolding l' by blast
  then show ?thesis using assms(1) ids l'(2) unfolding wf_open_def
    by (fastforce simp: l'(1))
qed (use assms in \<open>auto simp: op_Inr wf_open_def wf_goal_def\<close>)

lemma wf_status_step:
  assumes "wf_status l" and "apply_op now l x = Inr l'"
  shows "wf_status l'"
proof (cases x)
  case (SetStatus status awaiting reason)
  with assms(2) obtain l1 where arm: "set_status_arm l status awaiting reason = Inr l1"
      and nx: "status = Active \<or> status = Blocked \<Longrightarrow> has_next l1"
      and l': "l' = (reopen_from_completed l1 status)\<lparr>led_status := status\<rparr>"
    by (auto simp: op_set_status_Inr)
  show ?thesis
    using arm nx assms(1) unfolding l' wf_status_def set_status_arm_Inr
    by (cases status) (auto simp: has_next_iff split: if_splits)
qed (use assms in \<open>auto simp: op_Inr wf_status_def next_from_statement_def\<close>)

lemma ledger_wf_step:
  "ledger_wf l \<Longrightarrow> apply_op now l x = Inr l' \<Longrightarrow> ledger_wf l'"
  unfolding ledger_wf_def
  using wf_goal_step wf_core_step wf_verified_step wf_open_step wf_status_step by blast

interpretation ledger_ops: guarded_steps "apply_op now" ledger_wf for now
  by unfold_locales (rule ledger_wf_step)

section \<open>What the gates accept\<close>

lemma validate_completion_Inr:
  "validate_completion l uncovered = Inr u \<longleftrightarrow>
   open_questions l = [] \<and> led_awaiting_interactions l = []
   \<and> set uncovered \<subseteq> set (goal_criteria l)
   \<and> (\<forall>c\<in>set (current_checkpoints l). set (cp_covered_criteria c) \<subseteq> set (goal_criteria l))
   \<and> (goal_criteria l = [] \<longrightarrow> current_checkpoints l \<noteq> [])
   \<and> (\<forall>c\<in>set (goal_criteria l). c \<in> covered_by_current l \<or> c \<in> set uncovered)"
  unfolding validate_completion_def Let_def res_simps validate_criteria_references_def
  by (auto simp: res_simps)

lemma validate_snapshot_Inr:
  "validate_snapshot l = Inr u \<longleftrightarrow>
   (case led_status l of
      Active \<Rightarrow> has_next l \<and> led_awaiting_interactions l = []
    | Blocked \<Rightarrow> has_next l \<and> led_awaiting_interactions l = []
    | AwaitingUser \<Rightarrow> led_awaiting_interactions l \<noteq> []
    | Interrupted \<Rightarrow> led_awaiting_interactions l = []
    | Completed \<Rightarrow> led_next l = None
        \<and> validate_completion l (led_uncovered_criteria l) = Inr ())"
  by (cases "led_status l")
     (auto simp: validate_snapshot_def require_next_for_status_def res_simps)

lemma covered_by_current_iff:
  "c \<in> covered_by_current l \<longleftrightarrow>
   (\<exists>k\<in>set (led_verified l). cp_goal_generation k = led_goal_generation l
      \<and> cp_superseded_by k = None \<and> c \<in> set (cp_covered_criteria k))"
  by (auto simp: covered_by_current_def current_checkpoints_def is_current_def)

section \<open>Committed writes\<close>

datatype ledger_write = WBatch "TaskLedgerOp list" i64 | WStartGoal TaskGoal string i64

fun commit_write ::
    "SessionTaskLedger \<Rightarrow> u64 \<Rightarrow> ledger_write \<Rightarrow> (TaskLedgerError + u64) \<times> SessionTaskLedger" where
  "commit_write l expected (WBatch ops now_ms) = apply_batch l expected ops now_ms"
| "commit_write l expected (WStartGoal g ns now_ms) = start_goal l expected g ns now_ms"

fun is_conflict :: "TaskLedgerError \<Rightarrow> bool" where
  "is_conflict (RevisionConflict _ _) = True"
| "is_conflict _ = False"

lemma apply_batch_Inr:
  "apply_batch l expected ops now = (Inr r, l') \<longleftrightarrow>
   expected = led_revision l \<and> r = led_revision l + 1
   \<and> (\<exists>s. res_fold (apply_op now) l ops = Inr s \<and> validate_snapshot s = Inr ()
        \<and> l' = s\<lparr>led_revision := led_revision l + 1, led_updated_at := now\<rparr>)"
  by (auto simp: apply_batch_def Let_def split: sum.splits)

lemma apply_batch_Inl: "apply_batch l expected ops now = (Inl e, l') \<Longrightarrow> l' = l"
  by (auto simp: apply_batch_def Let_def split: sum.splits if_splits)

lemma start_goal_Inr:
  "start_goal l expected g ns now = (Inr r, l') \<longleftrightarrow>
   expected = led_revision l \<and> r = led_revision l + 1 \<and> validate_goal g = Inr ()
   \<and> non_empty ns
   \<and> l' = (start_goal_staged l g ns now)\<lparr>led_revision := led_revision l + 1,
                                            led_updated_at := now\<rparr>"
proof -
  have "non_empty ns \<Longrightarrow> validate_snapshot (start_goal_staged l g ns now) = Inr ()"
    by (simp add: validate_snapshot_Inr start_goal_staged_def has_next_def next_from_statement_def)
  then show ?thesis by (auto simp: start_goal_def Let_def split: sum.splits)
qed

lemma start_goal_Inl: "start_goal l expected g ns now = (Inl e, l') \<Longrightarrow> l' = l"
  by (auto simp: start_goal_def Let_def split: sum.splits if_splits)

lemma commit_write_Inl: "commit_write l expected w = (Inl e, l') \<Longrightarrow> l' = l"
  by (cases w) (auto dest: apply_batch_Inl start_goal_Inl)

interpretation ledger_cas: strict_cas_store led_revision commit_write is_conflict
proof unfold_locales
  fix l :: SessionTaskLedger and expected w
  assume "expected \<noteq> led_revision l"
  then show "\<exists>e. commit_write l expected w = (Inl e, l) \<and> is_conflict e"
    by (cases w) (auto simp: apply_batch_def start_goal_def)
next
  fix l l' :: SessionTaskLedger and expected w e
  assume "commit_write l expected w = (Inl e, l')"
  then show "l' = l" by (rule commit_write_Inl)
next
  fix l l' :: SessionTaskLedger and expected w r
  assume ok: "commit_write l expected w = (Inr r, l')"
  show "led_revision l' = led_revision l + 1"
    using ok by (cases w) (auto simp: apply_batch_Inr start_goal_Inr)
  then show "l' = l \<or> led_revision l' = led_revision l + 1" ..
qed

inductive reachable_ledger :: "string \<Rightarrow> SessionTaskLedger \<Rightarrow> bool" for sid where
  reach_empty: "reachable_ledger sid (ledger_empty sid)"
| reach_write: "reachable_ledger sid l \<Longrightarrow> reachable_ledger sid (snd (commit_write l expected w))"

lemma ledger_wf_empty: "ledger_wf (ledger_empty sid)"
  by (simp add: ledger_wf_def ledger_empty_def wf_goal_def wf_core_def wf_verified_def wf_open_def
      wf_status_def live_core_def seq_ids_def)

text \<open>The commit stamps revision and time; no observer of the model reads them.\<close>

abbreviation stamped :: "SessionTaskLedger \<Rightarrow> u64 \<Rightarrow> i64 \<Rightarrow> SessionTaskLedger" where
  "stamped l r t \<equiv> l\<lparr>led_revision := r, led_updated_at := t\<rparr>"

lemma stamped_observers [simp]:
  "live_core (stamped l r t) = live_core l"
  "open_questions (stamped l r t) = open_questions l"
  "has_next (stamped l r t) = has_next l"
  "goal_criteria (stamped l r t) = goal_criteria l"
  "is_current (stamped l r t) = is_current l"
  "current_checkpoints (stamped l r t) = current_checkpoints l"
  "covered_by_current (stamped l r t) = covered_by_current l"
  by (simp_all add: live_core_def open_questions_def has_next_def goal_criteria_def
      current_checkpoints_def is_current_def [abs_def] covered_by_current_def)

lemma ledger_wf_stamp: "ledger_wf (stamped l r t) = ledger_wf l"
  by (simp add: ledger_wf_def wf_goal_def wf_core_def wf_verified_def wf_open_def
      wf_status_def cong: option.case_cong)

lemma validate_snapshot_stamp:
  "validate_snapshot (stamped l r t) = Inr u \<longleftrightarrow> validate_snapshot l = Inr u"
  by (simp add: validate_snapshot_Inr validate_completion_Inr cong: TaskLedgerStatus.case_cong)

lemma start_goal_staged_wf:
  assumes "ledger_wf l" "validate_goal g = Inr ()" "non_empty ns"
  shows "ledger_wf (start_goal_staged l g ns now)"
  using assms next_generation_ge [of "led_goal_generation l"]
  by (auto simp: ledger_wf_def start_goal_staged_def wf_goal_def wf_core_def wf_verified_def
      wf_open_def wf_status_def live_core_def seq_ids_def next_from_statement_def
      split: option.splits intro: order_trans)

lemma apply_batch_wf:
  assumes "ledger_wf l" and "apply_batch l expected ops now = (Inr r, l')"
  shows "ledger_wf l' \<and> validate_snapshot l' = Inr ()"
proof -
  from assms(2) obtain s where s: "res_fold (apply_op now) l ops = Inr s"
      "validate_snapshot s = Inr ()"
      "l' = s\<lparr>led_revision := led_revision l + 1, led_updated_at := now\<rparr>"
    by (auto simp: apply_batch_Inr)
  then show ?thesis
    using ledger_ops.run_inv [OF assms(1) s(1)] by (simp add: ledger_wf_stamp validate_snapshot_stamp)
qed

lemma start_goal_wf:
  assumes "ledger_wf l" and "start_goal l expected g ns now = (Inr r, l')"
  shows "ledger_wf l' \<and> validate_snapshot l' = Inr ()"
proof -
  from assms(2) have ok: "validate_goal g = Inr ()" "non_empty ns"
    and l': "l' = (start_goal_staged l g ns now)\<lparr>led_revision := led_revision l + 1,
                                                   led_updated_at := now\<rparr>"
    by (auto simp: start_goal_Inr)
  have "validate_snapshot (start_goal_staged l g ns now) = Inr ()"
    using ok by (simp add: validate_snapshot_Inr start_goal_staged_def has_next_def
        next_from_statement_def)
  then show ?thesis
    using start_goal_staged_wf [OF assms(1) ok] by (simp add: l' ledger_wf_stamp validate_snapshot_stamp)
qed

lemma wf_valid_created:
  "ledger_wf l \<Longrightarrow> validate_snapshot l = Inr () \<Longrightarrow> led_goal l \<noteq> None"
  by (cases "led_goal l") (auto simp: ledger_wf_def wf_goal_def validate_snapshot_Inr has_next_def)

lemma commit_write_wf:
  "ledger_wf l \<Longrightarrow> commit_write l expected w = (Inr r, l') \<Longrightarrow>
     ledger_wf l' \<and> validate_snapshot l' = Inr ()"
  by (cases w) (auto dest: apply_batch_wf start_goal_wf)

lemma commit_write_session:
  assumes "commit_write l expected w = (res, l')"
  shows "led_session_id l' = led_session_id l"
proof (cases res)
  case (Inl e)
  with assms show ?thesis by (auto dest: commit_write_Inl)
next
  case (Inr r)
  have run: "led_session_id s = led_session_id l" if "res_fold (apply_op now) l ops = Inr s" for now ops s
    by (rule res_fold_relation [where R = "\<lambda>a b. led_session_id b = led_session_id a", OF _ _ _ that])
       (auto dest: apply_op_frame(2))
  show ?thesis
    using Inr assms by (cases w) (auto simp: apply_batch_Inr start_goal_Inr start_goal_staged_def run)
qed

lemma reachable_ledger_wf:
  "reachable_ledger sid l \<Longrightarrow>
     ledger_wf l \<and> led_session_id l = sid \<and> (l = ledger_empty sid \<or> validate_snapshot l = Inr ())"
proof (induction rule: reachable_ledger.induct)
  case reach_empty
  show ?case by (simp add: ledger_wf_empty) (simp add: ledger_empty_def)
next
  case (reach_write l expected w)
  obtain res l' where w: "commit_write l expected w = (res, l')" by (cases "commit_write l expected w")
  show ?case
  proof (cases res)
    case (Inl e)
    with w have "l' = l" by (auto dest: commit_write_Inl)
    with w reach_write.IH show ?thesis by simp
  next
    case (Inr r)
    with w commit_write_wf [of l expected w r l'] commit_write_session [OF w] reach_write.IH
    show ?thesis by simp
  qed
qed

end
