(* ===== verification/Task_Ledger_History.thy ===== *)
theory Task_Ledger_History
  imports Task_Ledger_Invariants
begin

text \<open>
  How the parts of a ledger may change over time, whatever the writes are: the verified history is
  append-only up to the supersede links, an open question is closed at most once and only against a
  checkpoint of the same transaction, and the two ends of every supersede link agree.
\<close>

section \<open>The verified history\<close>

definition erase_link :: "VerifiedCheckpoint \<Rightarrow> VerifiedCheckpoint" where
  "erase_link c = c\<lparr>cp_superseded_by := None\<rparr>"

definition history_extends :: "VerifiedCheckpoint list \<Rightarrow> VerifiedCheckpoint list \<Rightarrow> bool" where
  "history_extends vs ws \<longleftrightarrow> length vs \<le> length ws
     \<and> (\<forall>i<length vs. erase_link (ws ! i) = erase_link (vs ! i)
          \<and> (cp_superseded_by (vs ! i) \<noteq> None \<longrightarrow>
               cp_superseded_by (ws ! i) = cp_superseded_by (vs ! i)))"

lemma erase_link_id: "erase_link c = erase_link d \<Longrightarrow> cp_id c = cp_id d"
  unfolding erase_link_def
  by (metis VerifiedCheckpoint.select_convs(1) VerifiedCheckpoint.surjective
      VerifiedCheckpoint.update_convs(10))

lemma history_extends_refl: "history_extends vs vs"
  by (simp add: history_extends_def)

lemma history_extends_trans:
  "history_extends a b \<Longrightarrow> history_extends b c \<Longrightarrow> history_extends a c"
  by (auto simp: history_extends_def)

lemma history_extends_append: "history_extends vs ws \<Longrightarrow> history_extends vs (ws @ xs)"
  by (auto simp: history_extends_def nth_append)

lemma supersede_target_history:
  assumes "supersede_target vs new_id s = Inr ws"
  shows "history_extends vs ws"
proof -
  have "ws = vs \<or> (\<exists>t i. find (\<lambda>c. cp_id c = i) vs = Some t \<and> cp_superseded_by t = None
      \<and> ws = update_first (\<lambda>c. cp_id c = i) (\<lambda>c. c\<lparr>cp_superseded_by := Some new_id\<rparr>) vs)"
    using assms by (auto simp: supersede_target_def split: option.splits if_splits)
  then show ?thesis
  proof
    assume "ws = vs"
    then show ?thesis by (simp add: history_extends_refl)
  next
    assume "\<exists>t i. find (\<lambda>c. cp_id c = i) vs = Some t \<and> cp_superseded_by t = None
      \<and> ws = update_first (\<lambda>c. cp_id c = i) (\<lambda>c. c\<lparr>cp_superseded_by := Some new_id\<rparr>) vs"
    then obtain t i where t: "find (\<lambda>c. cp_id c = i) vs = Some t" "cp_superseded_by t = None"
      and ws: "ws = update_first (\<lambda>c. cp_id c = i) (\<lambda>c. c\<lparr>cp_superseded_by := Some new_id\<rparr>) vs"
      by blast
    from t obtain k where "k < length vs" "t = vs ! k" "cp_id (vs ! k) = i"
        "\<forall>j<k. cp_id (vs ! j) \<noteq> i" by (auto simp: find_Some_iff)
    then have "cp_superseded_by (vs ! j) = None"
      if "cp_id (vs ! j) = i" "\<forall>m<j. cp_id (vs ! m) \<noteq> i" for j
      using that t(2) by (metis linorder_neqE_nat)
    then show ?thesis by (simp add: history_extends_def ws nth_update_first erase_link_def)
  qed
qed

lemma apply_op_history:
  assumes "apply_op now l x = Inr l'"
  shows "history_extends (led_verified l) (led_verified l')"
proof (cases x)
  case (AddCheckpoint claim v cov covered evidence stage supersedes)
  with assms obtain vs c where "led_verified l' = vs @ [c]"
      "supersede_target (led_verified l)
         (next_sequential_id (map cp_id (led_verified l)) ''chk-'') supersedes = Inr vs"
    by (auto simp: op_Inr)
  then show ?thesis by (simp add: history_extends_append [OF supersede_target_history])
next
  case (SetStatus status awaiting reason)
  with assms show ?thesis by (simp add: set_status_frame history_extends_refl)
qed (use assms in \<open>auto simp: op_Inr history_extends_refl intro: history_extends_append\<close>)

lemma run_history:
  "res_fold (apply_op now) l ops = Inr l' \<Longrightarrow> history_extends (led_verified l) (led_verified l')"
  by (erule res_fold_relation [rotated 3,
        where R = "\<lambda>a b. history_extends (led_verified a) (led_verified b)"])
     (auto intro: apply_op_history history_extends_refl history_extends_trans)

lemma commit_write_history:
  "history_extends (led_verified l) (led_verified (snd (commit_write l expected w)))"
proof (cases "commit_write l expected w")
  case (Pair res l')
  show ?thesis
  proof (cases res)
    case (Inl e)
    with Pair have "l' = l" by (auto dest: commit_write_Inl)
    with Pair show ?thesis by (simp add: history_extends_refl)
  next
    case (Inr r)
    with Pair have "history_extends (led_verified l) (led_verified l')"
      by (cases w) (auto simp: apply_batch_Inr start_goal_Inr start_goal_staged_def
          history_extends_refl dest: run_history)
    with Pair show ?thesis by simp
  qed
qed

section \<open>Open questions\<close>

definition questions_progress :: "SessionTaskLedger \<Rightarrow> SessionTaskLedger \<Rightarrow> bool" where
  "questions_progress l l' \<longleftrightarrow>
     history_extends (led_verified l) (led_verified l')
     \<and> length (led_open l) \<le> length (led_open l')
     \<and> (\<forall>i<length (led_open l).
          led_open l' ! i = led_open l ! i
          \<or> (is_open (led_open l ! i) \<and>
             (\<exists>j. length (led_verified l) \<le> j \<and> j < length (led_verified l')
                \<and> led_open l' ! i =
                   (led_open l ! i)\<lparr>oq_closed_by_checkpoint_id :=
                      Some (cp_id (led_verified l' ! j))\<rparr>)))"

lemma questions_progress_refl: "questions_progress l l"
  by (simp add: questions_progress_def history_extends_refl)

lemma questions_progress_trans:
  assumes "questions_progress a b" "questions_progress b c"
  shows "questions_progress a c"
proof -
  have hab: "history_extends (led_verified a) (led_verified b)"
    and hbc: "history_extends (led_verified b) (led_verified c)"
    using assms by (simp_all add: questions_progress_def)
  have len: "length (led_open a) \<le> length (led_open b)" "length (led_open b) \<le> length (led_open c)"
    using assms by (simp_all add: questions_progress_def)
  have vlen: "length (led_verified a) \<le> length (led_verified b)"
    "length (led_verified b) \<le> length (led_verified c)"
    using hab hbc by (simp_all add: history_extends_def)
  have ids: "cp_id (led_verified c ! j) = cp_id (led_verified b ! j)" if "j < length (led_verified b)" for j
    using hbc that by (intro erase_link_id) (simp add: history_extends_def)
  have step: "led_open c ! i = led_open a ! i \<or> (is_open (led_open a ! i) \<and>
      (\<exists>j. length (led_verified a) \<le> j \<and> j < length (led_verified c) \<and> led_open c ! i =
        (led_open a ! i)\<lparr>oq_closed_by_checkpoint_id := Some (cp_id (led_verified c ! j))\<rparr>))"
    if i: "i < length (led_open a)" for i
  proof -
    from i assms(1) consider (same) "led_open b ! i = led_open a ! i"
      | (closed) j where "is_open (led_open a ! i)" "length (led_verified a) \<le> j"
          "j < length (led_verified b)" "led_open b ! i =
            (led_open a ! i)\<lparr>oq_closed_by_checkpoint_id := Some (cp_id (led_verified b ! j))\<rparr>"
      by (auto simp: questions_progress_def)
    then show ?thesis
    proof cases
      case same
      then show ?thesis
        using assms(2) i len vlen unfolding questions_progress_def by (metis le_trans less_le_trans)
    next
      case closed
      then have "\<not> is_open (led_open b ! i)" by (simp add: is_open_def)
      then have "led_open c ! i = led_open b ! i"
        using assms(2) i len unfolding questions_progress_def by (meson less_le_trans)
      with closed ids vlen show ?thesis by (metis less_le_trans)
    qed
  qed
  show ?thesis unfolding questions_progress_def
    using history_extends_trans [OF hab hbc] len step by (meson le_trans)
qed

lemma apply_op_questions:
  assumes "apply_op now l x = Inr l'"
  shows "questions_progress l l'"
proof (cases x)
  case (CloseOpenWithCheckpoint open_id claim v cov covered evidence stage)
  let ?id = "next_sequential_id (map cp_id (led_verified l)) ''chk-''"
  from CloseOpenWithCheckpoint assms obtain q c where
    q: "find (\<lambda>q. oq_id q = open_id) (led_open l) = Some q" "is_open q" and
    l': "led_verified l' = led_verified l @ [c]" "cp_id c = ?id"
      "led_open l' = update_first (\<lambda>q. oq_id q = open_id)
         (\<lambda>q. q\<lparr>oq_closed_by_checkpoint_id := Some ?id\<rparr>) (led_open l)"
    by (auto simp: op_Inr)
  from q obtain k where k: "k < length (led_open l)" "q = led_open l ! k"
      "oq_id (led_open l ! k) = open_id" "\<forall>j<k. oq_id (led_open l ! j) \<noteq> open_id"
    by (auto simp: find_Some_iff)
  then have "is_open (led_open l ! i)"
    if "oq_id (led_open l ! i) = open_id" "\<forall>j<i. oq_id (led_open l ! j) \<noteq> open_id" for i
    using that q(2) by (metis linorder_neqE_nat)
  then show ?thesis
    by (auto simp: questions_progress_def l' nth_update_first history_extends_append
        history_extends_refl intro!: exI [of _ "length (led_verified l)"])
next
  case (OpOpenQuestion q s)
  with assms show ?thesis
    by (auto simp: op_Inr questions_progress_def history_extends_refl nth_append)
qed (use assms apply_op_history [OF assms] in
    \<open>auto simp: op_Inr questions_progress_def set_status_frame\<close>)

lemma run_questions:
  "res_fold (apply_op now) l ops = Inr l' \<Longrightarrow> questions_progress l l'"
  by (erule res_fold_relation [rotated 3, where R = questions_progress])
     (auto intro: apply_op_questions questions_progress_refl questions_progress_trans)

section \<open>Supersede links\<close>

definition links_ok :: "VerifiedCheckpoint list \<Rightarrow> bool" where
  "links_ok vs \<longleftrightarrow>
     (\<forall>c\<in>set vs. \<forall>i. cp_supersedes c = Some i \<longrightarrow>
        (\<exists>d\<in>set vs. cp_id d = i \<and> cp_superseded_by d = Some (cp_id c)))
   \<and> (\<forall>d\<in>set vs. \<forall>j. cp_superseded_by d = Some j \<longrightarrow>
        (\<exists>c\<in>set vs. cp_id c = j \<and> cp_supersedes c = Some (cp_id d)))"

lemma links_ok_snoc_fresh:
  "links_ok vs \<Longrightarrow> cp_supersedes c = None \<Longrightarrow> cp_superseded_by c = None \<Longrightarrow> links_ok (vs @ [c])"
  by (auto simp: links_ok_def)

lemma links_ok_supersede:
  assumes ok: "links_ok vs"
    and t: "find (\<lambda>c. cp_id c = i) vs = Some t" "cp_superseded_by t = None"
    and c: "cp_supersedes c = Some i" "cp_superseded_by c = None"
  defines "ws \<equiv> update_first (\<lambda>c. cp_id c = i) (\<lambda>d. d\<lparr>cp_superseded_by := Some (cp_id c)\<rparr>) vs"
  shows "links_ok (ws @ [c])"
proof -
  from update_first_append [OF t(1)] obtain ys zs where
    vs: "vs = ys @ t # zs" "cp_id t = i" and
    ws: "ws = ys @ t\<lparr>cp_superseded_by := Some (cp_id c)\<rparr> # zs"
    unfolding ws_def by blast
  show ?thesis
    using ok t(2) c unfolding links_ok_def vs ws
    by (simp add: vs(2)) (metis option.distinct(1))
qed

lemma apply_op_links:
  assumes "links_ok (led_verified l)" and "apply_op now l x = Inr l'"
  shows "links_ok (led_verified l')"
proof (cases x)
  case (AddCheckpoint claim v cov covered evidence stage supersedes)
  let ?id = "next_sequential_id (map cp_id (led_verified l)) ''chk-''"
  from AddCheckpoint assms(2) obtain vs c where
    vs: "supersede_target (led_verified l) ?id supersedes = Inr vs" and
    l': "led_verified l' = vs @ [c]" and
    c: "cp_id c = ?id" "cp_supersedes c = supersedes" "cp_superseded_by c = None"
    by (fastforce simp: op_Inr)
  show ?thesis
  proof (cases supersedes)
    case None
    with vs c assms(1) show ?thesis by (simp add: l' supersede_target_def links_ok_snoc_fresh)
  next
    case (Some i)
    with vs c(1) obtain t where "find (\<lambda>c. cp_id c = i) (led_verified l) = Some t"
        "cp_superseded_by t = None"
        "vs = update_first (\<lambda>c. cp_id c = i) (\<lambda>d. d\<lparr>cp_superseded_by := Some (cp_id c)\<rparr>)
           (led_verified l)"
      by (auto simp: supersede_target_def split: option.splits if_splits)
    with Some c assms(1) show ?thesis
      using links_ok_supersede [of "led_verified l" i t c] by (simp add: l')
  qed
next
  case (SetStatus status awaiting reason)
  with assms show ?thesis by (simp add: set_status_frame)
qed (use assms in \<open>auto simp: op_Inr intro: links_ok_snoc_fresh\<close>)

interpretation ledger_links: guarded_steps "apply_op now" "\<lambda>l. links_ok (led_verified l)" for now
  by unfold_locales (rule apply_op_links)

lemma reachable_links_ok: "reachable_ledger sid l \<Longrightarrow> links_ok (led_verified l)"
proof (induction rule: reachable_ledger.induct)
  case reach_empty
  show ?case by (simp add: ledger_empty_def links_ok_def)
next
  case (reach_write l expected w)
  obtain res l' where w: "commit_write l expected w = (res, l')" by (cases "commit_write l expected w")
  show ?case
  proof (cases res)
    case (Inl e)
    with w have "l' = l" by (auto dest: commit_write_Inl)
    with w reach_write.IH show ?thesis by simp
  next
    case (Inr r)
    with w reach_write.IH have "links_ok (led_verified l')"
      by (cases w) (auto simp: apply_batch_Inr start_goal_Inr start_goal_staged_def
          dest: ledger_links.run_inv)
    with w show ?thesis by simp
  qed
qed

end
