(* ===== verification/Task_Ledger_Properties.thy ===== *)
theory Task_Ledger_Properties
  imports Task_Ledger_History
begin

text \<open>
  The properties of the session task ledger. Most of them speak about every ledger that a session
  can reach: from the empty one, by any sequence of \<open>apply_batch\<close> and \<open>start_goal\<close> calls with any
  expected revisions, accepted or refused.
\<close>

section \<open>A concrete session\<close>

definition demo_goal :: TaskGoal where
  "demo_goal = \<lparr>goal_statement = ''ship'', goal_acceptance_criteria = [''tests pass''],
     goal_criterion_checks = [], goal_set_by = User, goal_set_at = 1\<rparr>"

definition demo_checkpoint_op :: TaskLedgerOp where
  "demo_checkpoint_op = AddCheckpoint ''suite is green'' (VDeterministicCheck ''make test'')
     \<lparr>cov_scope = ''repo''\<rparr> [''tests pass''] [] None None"

definition demo_created :: SessionTaskLedger where
  "demo_created = snd (commit_write (ledger_empty ''ses'') 0
     (WBatch [Create demo_goal ''write the tests''] 10))"

definition demo_completed :: SessionTaskLedger where
  "demo_completed = snd (commit_write demo_created 1
     (WBatch [demo_checkpoint_op, Complete []] 20))"

lemmas demo_eval = eval_simps demo_goal_def demo_checkpoint_op_def op_defs apply_batch_def
  start_goal_def start_goal_staged_def validate_snapshot_Inr validate_completion_Inr
  validate_goal_def validate_criterion_check_def validate_criteria_references_def
  validated_checkpoint_fields_def validated_verifier_def ensure_created_def guard_def
  supersede_target_def has_next_def next_from_statement_def current_checkpoints_def is_current_def
  goal_criteria_def covered_by_current_def open_questions_def live_core_def unwrap_or_def
  require_next_for_status_def

lemma demo_created_eq:
  "demo_created = (ledger_empty ''ses'')\<lparr>led_revision := 1, led_goal_generation := 1,
     led_goal := Some demo_goal, led_next := Some (next_from_statement ''write the tests'' User 10),
     led_updated_at := 10\<rparr>"
  unfolding demo_created_def commit_write.simps
  by (simp add: demo_eval ledger_empty_def validate_snapshot_def)

definition demo_question :: OpenQuestion where
  "demo_question = \<lparr>oq_id = ''open-01'', oq_question = ''keep v1?'', oq_settled_by = ''owner'',
     oq_opened_at = 15, oq_closed_by_checkpoint_id = None\<rparr>"

definition demo_questioned :: SessionTaskLedger where
  "demo_questioned = snd (commit_write demo_created 1
     (WBatch [OpOpenQuestion ''keep v1?'' ''owner''] 15))"

lemma demo_questioned_eq:
  "demo_questioned = demo_created\<lparr>led_revision := 2, led_open := [demo_question],
     led_updated_at := 15\<rparr>"
  unfolding demo_questioned_def commit_write.simps
  by (simp add: demo_created_eq demo_question_def demo_eval ledger_empty_def validate_snapshot_def
      next_sequential_id_Nil)

definition demo_checkpoint :: VerifiedCheckpoint where
  "demo_checkpoint = \<lparr>cp_id = ''chk-01'', cp_claim = ''suite is green'',
     cp_verifier = VDeterministicCheck ''make test'', cp_coverage = \<lparr>cov_scope = ''repo''\<rparr>,
     cp_goal_generation = 1, cp_evidence_artifact_ids = [], cp_source_stage_id = None,
     cp_covered_criteria = [''tests pass''], cp_supersedes = None, cp_superseded_by = None,
     cp_created_at = 20\<rparr>"

lemma demo_completed_eq:
  "demo_completed = demo_created\<lparr>led_revision := 2, led_verified := [demo_checkpoint],
     led_next := None, led_status := Completed, led_updated_at := 20\<rparr>"
  unfolding demo_completed_def commit_write.simps
  by (simp add: demo_created_eq demo_checkpoint_def demo_eval ledger_empty_def validate_snapshot_def
     validate_completion_def next_sequential_id_Nil)

lemma reachable_demo_created: "reachable_ledger ''ses'' demo_created"
  unfolding demo_created_def by (intro reach_write reach_empty)

lemma reachable_demo_completed: "reachable_ledger ''ses'' demo_completed"
  unfolding demo_completed_def by (intro reach_write reachable_demo_created)

section \<open>What every reachable ledger satisfies\<close>

text \<open>
  \<^bold>\<open>C1.\<close> A ledger of status \<open>Completed\<close> is evidenced: the goal exists, no question is open, nothing is
  awaited, no next action is left, and every acceptance criterion of the goal is covered by a
  checkpoint that is not superseded and belongs to the current goal generation, or was declared
  uncovered in the completion; a goal without criteria has at least one such checkpoint.
\<close>

theorem completed_is_evidenced:
  assumes "reachable_ledger sid l" and "led_status l = Completed"
  shows "\<exists>g. led_goal l = Some g \<and> filter is_open (led_open l) = []
    \<and> led_awaiting_interactions l = [] \<and> led_next l = None
    \<and> (\<forall>c\<in>set (goal_acceptance_criteria g).
         c \<in> set (led_uncovered_criteria l)
         \<or> (\<exists>k\<in>set (led_verified l). cp_goal_generation k = led_goal_generation l
               \<and> cp_superseded_by k = None \<and> c \<in> set (cp_covered_criteria k)))
    \<and> (goal_acceptance_criteria g = [] \<longrightarrow>
         (\<exists>k\<in>set (led_verified l). cp_goal_generation k = led_goal_generation l
            \<and> cp_superseded_by k = None))"
proof -
  have "l \<noteq> ledger_empty sid" using assms(2) by (auto simp: ledger_empty_def)
  with reachable_ledger_wf [OF assms(1)]
  have wf: "ledger_wf l" and valid: "validate_snapshot l = Inr ()" by auto
  from wf_valid_created [OF wf valid] obtain g where g: "led_goal l = Some g" by blast
  from valid assms(2) have fin: "led_next l = None"
    and gate: "validate_completion l (led_uncovered_criteria l) = Inr ()"
    by (simp_all add: validate_snapshot_Inr)
  have "goal_acceptance_criteria g = [] \<Longrightarrow> set (current_checkpoints l) \<noteq> {}"
    using gate g by (simp add: validate_completion_Inr goal_criteria_def)
  then show ?thesis
    using gate g fin unfolding validate_completion_Inr covered_by_current_iff
    by (auto simp: goal_criteria_def open_questions_def current_checkpoints_def is_current_def)
qed

theorem completed_is_evidenced_witness:
  "\<exists>g. led_goal demo_completed = Some g \<and> led_next demo_completed = None"
  using completed_is_evidenced [OF reachable_demo_completed]
  by (auto simp: demo_completed_eq)

text \<open>
  \<^bold>\<open>C11.\<close> The status of a reachable ledger agrees with the rest of the snapshot: at most two core
  constraints are live; an active or blocked ledger has a non-blank next action and awaits nothing;
  an awaiting one names a pending interaction and keeps its next action; a blocked one has a
  non-blank reason; an interrupted one awaits nothing; no interaction is listed twice.
\<close>

theorem reachable_ledger_governed:
  assumes "reachable_ledger sid l" and "l \<noteq> ledger_empty sid"
  shows "led_session_id l = sid \<and> length (live_core l) \<le> 2
    \<and> distinct (led_awaiting_interactions l)
    \<and> (case led_status l of
         Active \<Rightarrow> has_next l \<and> led_awaiting_interactions l = []
       | Blocked \<Rightarrow> has_next l \<and> led_awaiting_interactions l = []
           \<and> (\<exists>r. led_blocked_reason l = Some r \<and> non_empty r)
       | AwaitingUser \<Rightarrow> has_next l \<and> led_awaiting_interactions l \<noteq> []
       | Interrupted \<Rightarrow> led_awaiting_interactions l = []
       | Completed \<Rightarrow> led_next l = None \<and> led_awaiting_interactions l = [])"
proof -
  from reachable_ledger_wf [OF assms(1)] assms(2)
  have "ledger_wf l" "led_session_id l = sid" "validate_snapshot l = Inr ()" by auto
  then show ?thesis
    by (cases "led_status l")
       (auto simp: ledger_wf_def wf_core_def wf_status_def validate_snapshot_Inr
          validate_completion_Inr has_next_iff)
qed

theorem reachable_ledger_governed_witness:
  "led_session_id demo_created = ''ses'' \<and> length (live_core demo_created) \<le> 2
   \<and> has_next demo_created"
  using reachable_ledger_governed [OF reachable_demo_created]
  by (auto simp: demo_created_eq ledger_empty_def)

text \<open>
  \<^bold>\<open>C18.\<close> The verified history is append-only. Whatever a write does, accepted or refused, every
  checkpoint of the old ledger is still there at its index, unchanged except that a checkpoint that
  was not superseded may have received its supersede link; links are never changed or removed.
\<close>

theorem verified_history_append_only:
  "length (led_verified l) \<le> length (led_verified (snd (commit_write l expected w)))
   \<and> (\<forall>i<length (led_verified l).
        (led_verified (snd (commit_write l expected w)) ! i)\<lparr>cp_superseded_by := None\<rparr>
          = (led_verified l ! i)\<lparr>cp_superseded_by := None\<rparr>
        \<and> (cp_superseded_by (led_verified l ! i) = None
           \<or> cp_superseded_by (led_verified (snd (commit_write l expected w)) ! i)
               = cp_superseded_by (led_verified l ! i)))"
  using commit_write_history [of l expected w] by (auto simp: history_extends_def erase_link_def)

text \<open>
  \<^bold>\<open>Note.\<close> Within a batch a question is never reopened, edited or dropped, and it is closed only
  against a checkpoint that the same batch has added.
\<close>

theorem questions_close_with_new_evidence:
  assumes "apply_batch l expected ops now = (Inr r, l')" and "i < length (led_open l)"
  shows "i < length (led_open l') \<and>
    (led_open l' ! i = led_open l ! i
     \<or> is_open (led_open l ! i) \<and>
       (\<exists>j. length (led_verified l) \<le> j \<and> j < length (led_verified l')
          \<and> led_open l' ! i = (led_open l ! i)\<lparr>oq_closed_by_checkpoint_id :=
                Some (cp_id (led_verified l' ! j))\<rparr>))"
proof -
  from assms(1) obtain s where s: "res_fold (apply_op now) l ops = Inr s"
      "led_open l' = led_open s" "led_verified l' = led_verified s"
    by (auto simp: apply_batch_Inr)
  show ?thesis
    using run_questions [OF s(1)] assms(2) by (auto simp: questions_progress_def s)
qed

definition demo_close_op :: TaskLedgerOp where
  "demo_close_op = CloseOpenWithCheckpoint ''open-01'' ''yes'' (VUserConfirmation ''ann'')
     \<lparr>cov_scope = ''api''\<rparr> [] [] None"

definition demo_closed :: SessionTaskLedger where
  "demo_closed = demo_questioned\<lparr>led_revision := 3, led_updated_at := 30,
     led_open := [demo_question\<lparr>oq_closed_by_checkpoint_id := Some ''chk-01''\<rparr>],
     led_verified := [\<lparr>cp_id = ''chk-01'', cp_claim = ''yes'', cp_verifier = VUserConfirmation ''ann'',
       cp_coverage = \<lparr>cov_scope = ''api''\<rparr>, cp_goal_generation = 1,
       cp_evidence_artifact_ids = [], cp_source_stage_id = None, cp_covered_criteria = [],
       cp_supersedes = None, cp_superseded_by = None, cp_created_at = 30\<rparr>]\<rparr>"

lemma demo_close_run: "apply_batch demo_questioned 2 [demo_close_op] 30 = (Inr 3, demo_closed)"
  by (simp add: demo_closed_def demo_close_op_def demo_questioned_eq demo_created_eq
      demo_question_def demo_eval ledger_empty_def validate_snapshot_def is_open_def
      next_sequential_id_Nil)

theorem questions_close_with_new_evidence_witness:
  "\<exists>j < length (led_verified demo_closed). led_open demo_closed ! 0 =
     (led_open demo_questioned ! 0)\<lparr>oq_closed_by_checkpoint_id :=
        Some (cp_id (led_verified demo_closed ! j))\<rparr>"
proof -
  have "led_open demo_closed ! 0 \<noteq> led_open demo_questioned ! 0" "0 < length (led_open demo_questioned)"
    by (simp_all add: demo_closed_def demo_questioned_eq demo_question_def)
  then show ?thesis
    using questions_close_with_new_evidence [OF demo_close_run, of 0] by auto
qed

theorem verified_history_append_only_witness:
  "(led_verified (snd (commit_write demo_completed 2 (WBatch [Complete []] 40))) ! 0)
     \<lparr>cp_superseded_by := None\<rparr> = demo_checkpoint"
proof -
  have "0 < length (led_verified demo_completed)" by (simp add: demo_completed_eq)
  with verified_history_append_only [of demo_completed 2 "WBatch [Complete []] 40"] show ?thesis
    by (auto simp: demo_completed_eq demo_checkpoint_def)
qed

text \<open>
  \<^bold>\<open>C19.\<close> Writes are atomic and serialised by their revision. A refused write leaves the ledger as it
  was. An accepted one carried the revision it had read, moved it by exactly one and returns the
  new one; every later write with the same expectation is refused with a revision conflict.
\<close>

theorem ledger_write_atomic:
  "case commit_write l expected w of
     (Inl e, l') \<Rightarrow> l' = l
   | (Inr r, l') \<Rightarrow> expected = led_revision l \<and> r = led_revision l' \<and> r = led_revision l + 1
       \<and> (\<forall>w'. commit_write l' expected w' = (Inl (RevisionConflict expected r), l'))"
proof (cases "commit_write l expected w")
  case (Pair res l')
  show ?thesis
  proof (cases res)
    case (Inl e)
    with Pair show ?thesis using ledger_cas.failed_write by auto
  next
    case (Inr r)
    note ok = Pair [unfolded Inr]
    have rev: "expected = led_revision l" "led_revision l' = led_revision l + 1"
      using ledger_cas.accepted_expected [OF ok] ledger_cas.accepted_bump [OF ok] by simp_all
    have r: "r = led_revision l + 1"
      using ok by (cases w) (simp_all add: apply_batch_Inr start_goal_Inr)
    have "commit_write l' expected w' = (Inl (RevisionConflict expected r), l')" for w'
      using rev r by (cases w') (simp_all add: apply_batch_def start_goal_def)
    then show ?thesis using Pair Inr rev r by simp
  qed
qed

text \<open>
  \<^bold>\<open>Note.\<close> Starting a goal opens a fresh evidence generation. The history and the core constraints are
  kept, the questions, pending interactions and declared gaps of the old goal are dropped, and no
  checkpoint recorded before counts as evidence for the new goal (short of a saturated counter).
\<close>

theorem start_goal_needs_new_evidence:
  assumes "reachable_ledger sid l" and "led_goal_generation l \<noteq> - 1"
    and "start_goal l expected g ns now = (Inr r, l')"
  shows "current_checkpoints l' = [] \<and> led_verified l' = led_verified l \<and> led_core l' = led_core l
    \<and> led_goal l' = Some g \<and> led_status l' = Active \<and> led_open l' = []
    \<and> led_awaiting_interactions l' = [] \<and> led_uncovered_criteria l' = []
    \<and> \<not> completion_ready l'"
proof -
  have wf: "ledger_wf l" using reachable_ledger_wf [OF assms(1)] by simp
  have gen: "cp_goal_generation c \<le> led_goal_generation l" if "c \<in> set (led_verified l)" for c
    using wf that by (simp add: ledger_wf_def wf_verified_def)
  have none: "led_goal l = None \<Longrightarrow> led_verified l = []"
    using wf by (simp add: ledger_wf_def wf_goal_def)
  have up: "led_goal_generation l < next_generation (led_goal_generation l)"
    using assms(2) by (rule next_generation_gt)
  have l': "l' = (start_goal_staged l g ns now)\<lparr>led_revision := led_revision l + 1,
      led_updated_at := now\<rparr>" using assms(3) by (simp add: start_goal_Inr)
  have cur: "current_checkpoints l' = []"
    using gen none up
    by (auto simp: current_checkpoints_def is_current_def l' start_goal_staged_def
        filter_empty_conv dest!: gen)
  then have "\<not> completion_ready l'"
    by (cases "goal_criteria l'")
       (auto simp: completion_ready_def res_simps validate_completion_Inr covered_by_current_def)
  with cur show ?thesis by (simp add: l' start_goal_staged_def)
qed

theorem start_goal_needs_new_evidence_witness:
  "current_checkpoints (snd (start_goal demo_completed 2 demo_goal ''again'' 50)) = []"
proof -
  have run: "start_goal demo_completed 2 demo_goal ''again'' 50 =
      (Inr 3, snd (start_goal demo_completed 2 demo_goal ''again'' 50))"
    by (simp add: demo_completed_eq demo_created_eq demo_eval ledger_empty_def validate_snapshot_def)
  have "led_goal_generation demo_completed \<noteq> - 1"
    by (simp add: demo_completed_eq demo_created_eq)
  from start_goal_needs_new_evidence [OF reachable_demo_completed this run] show ?thesis by blast
qed

text \<open>
  \<^bold>\<open>Note.\<close> A completed ledger cannot be given another goal in place: \<open>SetGoal\<close> bumps the generation, no
  evidence is current in it, and the snapshot check of the commit refuses the batch.
\<close>

theorem set_goal_on_completed_refused:
  assumes "reachable_ledger sid l" and "led_status l = Completed"
    and "led_goal_generation l \<noteq> - 1"
  shows "\<exists>e. ledger_apply l expected (SetGoal g) now = (Inl e, l)"
proof -
  have wf: "ledger_wf l" using reachable_ledger_wf [OF assms(1)] by simp
  have gen: "cp_goal_generation c \<le> led_goal_generation l" if "c \<in> set (led_verified l)" for c
    using wf that by (simp add: ledger_wf_def wf_verified_def)
  let ?s = "l\<lparr>led_goal := Some g, led_goal_generation := next_generation (led_goal_generation l),
      led_uncovered_criteria := []\<rparr>"
  have cur: "current_checkpoints ?s = []"
    using next_generation_gt [OF assms(3)]
    by (auto simp: current_checkpoints_def is_current_def filter_empty_conv dest!: gen)
  then have "validate_completion ?s [] \<noteq> Inr ()"
    by (cases "goal_criteria ?s") (auto simp: validate_completion_Inr covered_by_current_def)
  then have "validate_snapshot ?s \<noteq> Inr ()" using assms(2) by (simp add: validate_snapshot_Inr)
  then have "\<nexists>r l'. ledger_apply l expected (SetGoal g) now = (Inr r, l')"
    by (auto simp: ledger_apply_def apply_batch_Inr op_set_goal_Inr res_simps)
  then show ?thesis
    by (metis apply_batch_Inl ledger_apply_def old.prod.exhaust sum.exhaust)
qed

theorem set_goal_on_completed_refused_witness:
  "\<exists>e. ledger_apply demo_completed 2 (SetGoal demo_goal) 60 = (Inl e, demo_completed)"
proof (rule set_goal_on_completed_refused [OF reachable_demo_completed])
  show "led_status demo_completed = Completed" "led_goal_generation demo_completed \<noteq> - 1"
    by (simp_all add: demo_completed_eq demo_created_eq)
qed

text \<open>
  \<^bold>\<open>Note.\<close> The ids a ledger hands out are \<open>chk-01\<close>, \<open>chk-02\<close> and so on in the order of the history, and
  likewise for the core constraints (in whatever order swaps leave them) and the questions of the
  current goal; so they are pairwise different, as long as the counters stay below 32 bits.
\<close>

theorem reachable_ids_unique:
  assumes "reachable_ledger sid l"
    and "length (led_verified l) < 2 ^ 32" "length (led_core l) < 2 ^ 32" "length (led_open l) < 2 ^ 32"
  shows "map cp_id (led_verified l) =
           map (\<lambda>i. ''chk-'' @ fmt02 (Suc i)) [0..<length (led_verified l)]
    \<and> mset (map core_id (led_core l)) =
           mset (map (\<lambda>i. ''core-'' @ fmt02 (Suc i)) [0..<length (led_core l)])
    \<and> map oq_id (led_open l) = map (\<lambda>i. ''open-'' @ fmt02 (Suc i)) [0..<length (led_open l)]
    \<and> distinct (map cp_id (led_verified l)) \<and> distinct (map core_id (led_core l))
    \<and> distinct (map oq_id (led_open l))"
proof -
  have wf: "ledger_wf l" using reachable_ledger_wf [OF assms(1)] by simp
  then have ids: "map cp_id (led_verified l) = seq_ids ''chk-'' (length (led_verified l))"
    "mset (map core_id (led_core l)) = mset (seq_ids ''core-'' (length (led_core l)))"
    "map oq_id (led_open l) = seq_ids ''open-'' (length (led_open l))"
    using assms(2-) by (simp_all only: ledger_wf_def wf_verified_def wf_core_def wf_open_def)
  have "distinct (map core_id (led_core l))"
    using ids(2) distinct_seq_ids by (metis mset_eq_imp_distinct_iff)
  then show ?thesis
    using ids distinct_seq_ids [of "''chk-''"] distinct_seq_ids [of "''open-''"]
    unfolding seq_ids_def [symmetric] by simp
qed

theorem reachable_ids_unique_witness: "map cp_id (led_verified demo_completed) = [''chk-01'']"
proof -
  have "length (led_verified demo_completed) < 2 ^ 32" "length (led_core demo_completed) < 2 ^ 32"
    "length (led_open demo_completed) < 2 ^ 32"
    by (simp_all add: demo_completed_eq demo_created_eq ledger_empty_def)
  from reachable_ids_unique [OF reachable_demo_completed this] show ?thesis
    by (simp add: demo_completed_eq eval_simps)
qed

text \<open>
  \<^bold>\<open>Note.\<close> Swapping a live core constraint fills exactly the slot it names: on a created ledger, with a
  non-blank statement that is not live in the other slot, the live statements afterwards are the old
  ones with that slot replaced (or the statement appended when the slot is free), and no constraint
  that was recorded is lost.
\<close>

theorem swap_core_fills_slot:
  assumes "led_goal l \<noteq> None" and "non_empty st" and "slot = 1 \<or> slot = 2"
    and "\<And>j. j < length (live_core l) \<Longrightarrow> j \<noteq> unat slot - 1 \<Longrightarrow>
           core_statement (live_core l ! j) \<noteq> st"
  shows "\<exists>l'. apply_op now l (SwapCoreLive slot st actor) = Inr l'
    \<and> map core_statement (live_core l') =
        (let old = map core_statement (live_core l); k = unat slot - 1
         in if k < length old then old[k := st] else old @ [st])
    \<and> core_statement ` set (led_core l') = insert st (core_statement ` set (led_core l))"
proof -
  let ?cs = "swap_core (led_core l) (unat slot - 1) st (unwrap_or actor System) now"
  have "apply_op now l (SwapCoreLive slot st actor) = Inr (l\<lparr>led_core := ?cs\<rparr>)"
    using assms(1-3) by (simp add: op_swap_core_live_Inr)
  then show ?thesis
    using swap_core_live [of "led_core l" "unat slot - 1" st "unwrap_or actor System" now] assms(4)
      statement_set_swap_core [of "led_core l" "unat slot - 1" st "unwrap_or actor System" now]
    by (simp add: live_core_def Let_def)
qed

theorem swap_core_fills_slot_witness:
  "\<exists>l'. apply_op 70 demo_created (SwapCoreLive 1 ''no new deps'' None) = Inr l'
    \<and> map core_statement (live_core l') = [''no new deps'']"
proof -
  have "led_goal demo_created \<noteq> None" "non_empty ''no new deps''" "live_core demo_created = []"
    by (simp_all add: demo_created_eq ledger_empty_def live_core_def eval_simps)
  then show ?thesis
    using swap_core_fills_slot [of demo_created "''no new deps''" 1 70 None] by (auto simp: Let_def)
qed

text \<open>
  \<^bold>\<open>Note.\<close> Supersede links of a reachable ledger are mutual: a checkpoint that names a predecessor finds
  it marked as superseded by itself, and every mark points to a checkpoint that names it.
\<close>

theorem supersede_links_mutual:
  assumes "reachable_ledger sid l" and "c \<in> set (led_verified l)"
  shows "(\<forall>i. cp_supersedes c = Some i \<longrightarrow>
            (\<exists>d\<in>set (led_verified l). cp_id d = i \<and> cp_superseded_by d = Some (cp_id c)))
    \<and> (\<forall>j. cp_superseded_by c = Some j \<longrightarrow>
            (\<exists>d\<in>set (led_verified l). cp_id d = j \<and> cp_supersedes d = Some (cp_id c)))"
  using reachable_links_ok [OF assms(1)] assms(2) unfolding links_ok_def by blast

definition demo_superseded :: SessionTaskLedger where
  "demo_superseded = snd (commit_write demo_completed 2
     (WBatch [AddCheckpoint ''green on main'' (VDeterministicCheck ''make test'')
        \<lparr>cov_scope = ''repo''\<rparr> [''tests pass''] [] None (Some ''chk-01'')] 80))"

theorem supersede_links_mutual_witness:
  "\<exists>d\<in>set (led_verified demo_superseded). cp_superseded_by d = Some ''chk-02''"
proof -
  have r: "reachable_ledger ''ses'' demo_superseded"
    unfolding demo_superseded_def by (intro reach_write reachable_demo_completed)
  have v: "map cp_id (led_verified demo_superseded) = [''chk-01'', ''chk-02'']
      \<and> cp_supersedes (led_verified demo_superseded ! 1) = Some ''chk-01''"
    by (simp add: demo_superseded_def demo_completed_eq demo_created_eq demo_checkpoint_def demo_eval
        ledger_empty_def validate_snapshot_def validate_completion_def next_sequential_id_def
        map_filter_simps numeral_2_eq_2 [symmetric])
  then obtain a b where ab: "led_verified demo_superseded = [a, b]" "cp_id b = ''chk-02''"
      "cp_supersedes b = Some ''chk-01''" by (auto simp: map_eq_Cons_conv)
  with supersede_links_mutual [OF r, of b] show ?thesis by auto
qed

text \<open>
  \<^bold>\<open>Note.\<close> The completion gate says exactly that the work is proved: with no declared gaps it opens if
  and only if no question is open, nothing is awaited, the evidence only cites criteria of the goal,
  no acceptance criterion is missing, and a goal without criteria has a current checkpoint.
\<close>

theorem completion_ready_iff:
  "completion_ready l \<longleftrightarrow>
     open_questions l = [] \<and> led_awaiting_interactions l = []
     \<and> missing_acceptance_criteria l [] = [] \<and> covered_by_current l \<subseteq> set (goal_criteria l)
     \<and> \<not> (goal_criteria l = [] \<and> current_checkpoints l = [])"
proof -
  have cov: "covered_by_current l \<subseteq> set (goal_criteria l) \<longleftrightarrow>
      (\<forall>c\<in>set (current_checkpoints l). set (cp_covered_criteria c) \<subseteq> set (goal_criteria l))"
    by (auto simp: covered_by_current_def)
  have miss: "missing_acceptance_criteria l [] = [] \<longleftrightarrow>
      (\<forall>c\<in>set (goal_criteria l). c \<in> covered_by_current l)"
    by (auto simp: missing_acceptance_criteria_def goal_criteria_def filter_empty_conv
        split: option.split)
  show ?thesis
    unfolding cov miss by (auto simp: completion_ready_def res_simps validate_completion_Inr)
qed

text \<open>
  \<^bold>\<open>Note.\<close> Question ids are reused across goals: after \<open>start_goal\<close>, the first question opened gets
  \<open>open-01\<close> again, whatever ids the earlier goal of the same ledger has handed out.
\<close>

theorem start_goal_restarts_question_ids:
  assumes "start_goal l expected g ns now = (Inr r, l')"
    and "apply_op now' l' (OpOpenQuestion q s) = Inr l''"
  shows "map oq_id (led_open l'') = [''open-01'']"
  using assms by (auto simp: start_goal_Inr op_open_question_Inr start_goal_staged_def
      next_sequential_id_Nil)

theorem start_goal_restarts_question_ids_witness:
  "\<exists>l' l''. start_goal demo_questioned 2 demo_goal ''again'' 50 = (Inr 3, l')
    \<and> apply_op 51 l' (OpOpenQuestion ''drop v1?'' ''owner'') = Inr l''
    \<and> map oq_id (led_open demo_questioned) = map oq_id (led_open l'')"
proof -
  have run: "start_goal demo_questioned 2 demo_goal ''again'' 50 =
      (Inr 3, snd (start_goal demo_questioned 2 demo_goal ''again'' 50))"
    by (simp add: demo_questioned_eq demo_created_eq demo_eval ledger_empty_def validate_snapshot_def)
  let ?l' = "snd (start_goal demo_questioned 2 demo_goal ''again'' 50)"
  have "led_goal ?l' \<noteq> None" using run by (simp add: start_goal_Inr start_goal_staged_def)
  moreover have "non_empty ''drop v1?''" "non_empty ''owner''" by (simp_all add: eval_simps)
  ultimately obtain l'' where op: "apply_op 51 ?l' (OpOpenQuestion ''drop v1?'' ''owner'') = Inr l''"
    by (simp add: op_open_question_Inr)
  have "map oq_id (led_open demo_questioned) = [''open-01'']"
    by (simp add: demo_questioned_eq demo_question_def)
  with start_goal_restarts_question_ids [OF run op] run op show ?thesis by metis
qed

end
