(* ===== verification/Task_Ledger_Stall.thy ===== *)
theory Task_Ledger_Stall
  imports Task_Ledger
begin

text \<open>
  Task-level stall detection of
  \<^verbatim>\<open>crates/agendao-server/src/session_runtime/task_ledger_stall.rs\<close>: the observation window over ledger
  frames, the rules on a full window, the per-session control with its replan budget and deadline,
  and the registry of controls. The part that acts on the ledger (\<open>record_stall_frame\<close>) is in
  \<^verbatim>\<open>Server_State\<close>.
\<close>

section \<open>Window and rules\<close>

definition WINDOW :: nat where
  "WINDOW = 3"

definition MAX_REPLAN_ATTEMPTS :: u32 where
  "MAX_REPLAN_ATTEMPTS = 2"

definition REPLAN_DEADLINE_MS :: i64 where
  "REPLAN_DEADLINE_MS = 120000"

record StallFrame =
  sf_next_statement :: "string option"
  sf_verified_count :: nat
  sf_open_count :: nat

record StallWindow =
  sw_frames :: "StallFrame list"

datatype StallPhase = PhaseHealthy | PhaseSuspected | PhaseStalled | PhaseReplanning | PhaseBlocked

datatype StallAction =
    ActionNone
  | Replan u32 string string
  | Block string

datatype StallObservation =
    NextUnchanged nat
  | NoNewVerification nat
  | OpenCountGrowing nat
  | VerifiedGrowingButNextUnchanged nat

record StallDecision =
  sd_phase :: StallPhase
  sd_observations :: "StallObservation list"
  sd_replan_attempts :: u32
  sd_deadline_at_ms :: i64
  sd_action :: StallAction

record SessionStallControl =
  sc_window :: StallWindow
  sc_phase :: StallPhase
  sc_consecutive_hits :: u32
  sc_replan_attempts :: u32
  sc_deadline_at_ms :: i64

definition control_default :: SessionStallControl where
  "control_default = \<lparr>sc_window = \<lparr>sw_frames = []\<rparr>, sc_phase = PhaseHealthy, sc_consecutive_hits = 0,
     sc_replan_attempts = 0, sc_deadline_at_ms = 0\<rparr>"

definition next_unchanged :: "StallFrame list \<Rightarrow> bool" where
  "next_unchanged frames \<longleftrightarrow>
     (let nexts = map sf_next_statement frames
      in nexts ! 0 \<noteq> None \<and> card (set nexts) = 1)"

definition verified_flat :: "StallFrame list \<Rightarrow> bool" where
  "verified_flat frames \<longleftrightarrow> sf_verified_count (hd frames) = sf_verified_count (last frames)"

fun opens_growing :: "nat list \<Rightarrow> bool" where
  "opens_growing (a # b # opens) \<longleftrightarrow> b > a \<and> opens_growing (b # opens)"
| "opens_growing opens \<longleftrightarrow> True"

definition observe :: "StallFrame list \<Rightarrow> StallObservation list" where
  "observe frames =
     (if length frames < WINDOW then []
      else (if next_unchanged frames then [NextUnchanged WINDOW] else [])
         @ (if verified_flat frames then [NoNewVerification WINDOW] else [])
         @ (if opens_growing (map sf_open_count frames) then [OpenCountGrowing WINDOW] else [])
         @ (if next_unchanged frames \<and> \<not> verified_flat frames
            then [VerifiedGrowingButNextUnchanged WINDOW] else []))"

definition suppressed :: "TaskLedgerStatus \<Rightarrow> bool" where
  "suppressed status \<longleftrightarrow> status = AwaitingUser \<or> status = Interrupted"

definition frame_of :: "SessionTaskLedger \<Rightarrow> StallFrame" where
  "frame_of l = \<lparr>sf_next_statement = map_option na_statement (led_next l),
     sf_verified_count = length (led_verified l), sf_open_count = length (open_questions l)\<rparr>"

definition push_frame :: "StallWindow \<Rightarrow> SessionTaskLedger \<Rightarrow> StallObservation list \<times> StallWindow" where
  "push_frame w l =
     (if suppressed (led_status l) then ([], w)
      else let pushed = sw_frames w @ [frame_of l];
               frames = (if length pushed > WINDOW then tl pushed else pushed)
           in (observe frames, w\<lparr>sw_frames := frames\<rparr>))"

definition window_record :: "StallWindow \<Rightarrow> SessionTaskLedger \<Rightarrow> StallObservation list \<times> StallWindow" where
  "window_record w l = push_frame (w\<lparr>sw_frames := []\<rparr>) l"

section \<open>The control\<close>

definition decision ::
    "SessionStallControl \<Rightarrow> StallObservation list \<Rightarrow> StallAction \<Rightarrow> StallDecision" where
  "decision c observations action =
     \<lparr>sd_phase = sc_phase c, sd_observations = observations,
      sd_replan_attempts = sc_replan_attempts c, sd_deadline_at_ms = sc_deadline_at_ms c,
      sd_action = action\<rparr>"

fun is_no_new_verification :: "StallObservation \<Rightarrow> bool" where
  "is_no_new_verification (NoNewVerification _) = True"
| "is_no_new_verification _ = False"

fun is_repeated_direction :: "StallObservation \<Rightarrow> bool" where
  "is_repeated_direction (NextUnchanged _) = True"
| "is_repeated_direction (OpenCountGrowing _) = True"
| "is_repeated_direction _ = False"

definition stall_evidence :: "StallObservation list \<Rightarrow> bool" where
  "stall_evidence observations \<longleftrightarrow>
     list_ex is_no_new_verification observations \<and> list_ex is_repeated_direction observations"

definition replan_next_statement :: "u32 \<Rightarrow> string" where
  "replan_next_statement attempt =
     ''Replan attempt '' @ show_nat (unat attempt)
       @ '': run one different discriminating check before repeating the prior action''"

definition replan_steering :: "u32 \<Rightarrow> string" where
  "replan_steering attempt =
     ''Task governance detected repeated typed stall evidence. Replan attempt ''
       @ show_nat (unat attempt) @ ''/'' @ show_nat (unat MAX_REPLAN_ATTEMPTS)
       @ '': change strategy now. Run a different discriminating check; then either make concrete progress or name a specific blocker. Do not repeat the previous action unchanged.''"

text \<open>The reaction to a second consecutive hit: silence, block, or one more replan.\<close>

definition evaluate_stalled ::
    "SessionStallControl \<Rightarrow> StallObservation list \<Rightarrow> i64 \<Rightarrow> bool
       \<Rightarrow> StallDecision \<times> SessionStallControl" where
  "evaluate_stalled c observations now_ms cancelled =
     (let c1 = c\<lparr>sc_phase := PhaseStalled\<rparr>
      in if cancelled then (decision c1 observations ActionNone, c1)
         else if now_ms \<ge> sc_deadline_at_ms c1 then
           let c2 = c1\<lparr>sc_phase := PhaseBlocked\<rparr>
           in (decision c2 observations (Block ''automatic replanning deadline exhausted''), c2)
         else if sc_replan_attempts c1 \<ge> MAX_REPLAN_ATTEMPTS then
           let c2 = c1\<lparr>sc_phase := PhaseBlocked\<rparr>
           in (decision c2 observations
                 (Block (''automatic replanning budget exhausted after ''
                    @ show_nat (unat MAX_REPLAN_ATTEMPTS) @ '' attempts'')), c2)
         else
           let c2 = c1\<lparr>sc_replan_attempts := sc_replan_attempts c1 + 1, sc_phase := PhaseReplanning\<rparr>;
               attempt = sc_replan_attempts c2
           in (decision c2 observations
                 (Replan attempt (replan_next_statement attempt) (replan_steering attempt)), c2))"

definition evaluate ::
    "SessionStallControl \<Rightarrow> SessionTaskLedger \<Rightarrow> bool \<Rightarrow> i64 \<Rightarrow> bool \<Rightarrow> bool
       \<Rightarrow> StallDecision \<times> SessionStallControl" where
  "evaluate c l run_started now_ms auto_replan cancelled =
     (if run_started then
        let (observations, w) = window_record (sc_window c) l;
            c1 = c\<lparr>sc_phase := PhaseHealthy, sc_consecutive_hits := 0, sc_replan_attempts := 0,
                    sc_deadline_at_ms := i64_saturating_add now_ms REPLAN_DEADLINE_MS, sc_window := w\<rparr>
        in (decision c1 observations ActionNone, c1)
      else if \<not> auto_replan then
        let c1 = c\<lparr>sc_window := (sc_window c)\<lparr>sw_frames := []\<rparr>, sc_phase := PhaseHealthy,
                    sc_consecutive_hits := 0\<rparr>
        in (decision c1 [] ActionNone, c1)
      else
        let (observations, w) = push_frame (sc_window c) l;
            c1 = c\<lparr>sc_window := w\<rparr>
        in if suppressed (led_status l) then (decision c1 observations ActionNone, c1)
           else if led_status l = Blocked then
             let c2 = c1\<lparr>sc_phase := PhaseBlocked\<rparr>
             in (decision c2 observations ActionNone, c2)
           else if \<not> stall_evidence observations then
             let c2 = c1\<lparr>sc_phase := PhaseHealthy, sc_consecutive_hits := 0\<rparr>
             in (decision c2 observations ActionNone, c2)
           else
             let c2 = c1\<lparr>sc_consecutive_hits := u32_saturating_add (sc_consecutive_hits c1) 1\<rparr>
             in if sc_consecutive_hits c2 = 1 then
                  let c3 = c2\<lparr>sc_phase := PhaseSuspected\<rparr>
                  in (decision c3 observations ActionNone, c3)
                else evaluate_stalled c2 observations now_ms cancelled)"

definition control_rebaseline :: "SessionStallControl \<Rightarrow> SessionTaskLedger \<Rightarrow> SessionStallControl" where
  "control_rebaseline c l =
     c\<lparr>sc_window := snd (push_frame ((sc_window c)\<lparr>sw_frames := []\<rparr>) l), sc_consecutive_hits := 0\<rparr>"

section \<open>The registry\<close>

type_synonym StallWindows = "string \<rightharpoonup> SessionStallControl"

definition control_of :: "StallWindows \<Rightarrow> string \<Rightarrow> SessionStallControl" where
  "control_of ws sid = (case ws sid of None \<Rightarrow> control_default | Some c \<Rightarrow> c)"

definition stall_record ::
    "StallWindows \<Rightarrow> string \<Rightarrow> SessionTaskLedger \<Rightarrow> bool \<Rightarrow> i64 \<Rightarrow> bool \<Rightarrow> bool
       \<Rightarrow> StallDecision \<times> StallWindows" where
  "stall_record ws sid l run_started now_ms auto_replan cancelled =
     (if led_revision l = 0 then
        (\<lparr>sd_phase = PhaseHealthy, sd_observations = [], sd_replan_attempts = 0,
          sd_deadline_at_ms = 0, sd_action = ActionNone\<rparr>, ws)
      else let (d, c) = evaluate (control_of ws sid) l run_started now_ms auto_replan cancelled
           in (d, ws(sid \<mapsto> c)))"

definition stall_rebaseline :: "StallWindows \<Rightarrow> string \<Rightarrow> SessionTaskLedger \<Rightarrow> StallWindows" where
  "stall_rebaseline ws sid l = ws(sid \<mapsto> control_rebaseline (control_of ws sid) l)"

definition stall_forget :: "StallWindows \<Rightarrow> string \<Rightarrow> StallWindows" where
  "stall_forget ws sid = ws(sid := None)"

section \<open>The window\<close>

lemma stall_evidence_observe:
  "stall_evidence (observe fs) \<longleftrightarrow> length fs \<ge> WINDOW \<and> verified_flat fs
     \<and> (next_unchanged fs \<or> opens_growing (map sf_open_count fs))"
  by (auto simp: stall_evidence_def observe_def)

lemma push_frame_bound:
  "length (sw_frames w) \<le> WINDOW \<Longrightarrow> length (sw_frames (snd (push_frame w l))) \<le> WINDOW"
  by (auto simp: push_frame_def Let_def)

lemma push_frame_observe:
  "\<not> suppressed (led_status l) \<Longrightarrow> fst (push_frame w l) = observe (sw_frames (snd (push_frame w l)))"
  by (simp add: push_frame_def Let_def)

section \<open>Runs of a control\<close>

datatype stall_event =
    Observe SessionTaskLedger bool i64 bool bool
  | Rebaseline SessionTaskLedger

fun stall_step :: "SessionStallControl \<Rightarrow> stall_event \<Rightarrow> StallDecision list \<times> SessionStallControl" where
  "stall_step c (Observe l rs now auto canc) =
     (let (d, c') = evaluate c l rs now auto canc in ([d], c'))"
| "stall_step c (Rebaseline l) = ([], control_rebaseline c l)"

fun stall_run :: "SessionStallControl \<Rightarrow> stall_event list \<Rightarrow> StallDecision list \<times> SessionStallControl" where
  "stall_run c [] = ([], c)"
| "stall_run c (e # es) =
     (let (ds, c1) = stall_step c e; (rest, c2) = stall_run c1 es in (ds @ rest, c2))"

fun is_run_start :: "stall_event \<Rightarrow> bool" where
  "is_run_start (Observe l rs now auto canc) = rs"
| "is_run_start (Rebaseline l) = False"

fun is_replan :: "StallAction \<Rightarrow> bool" where
  "is_replan (Replan _ _ _) = True"
| "is_replan _ = False"

definition replans :: "StallDecision list \<Rightarrow> nat" where
  "replans ds = length (filter (\<lambda>d. is_replan (sd_action d)) ds)"

definition control_ok :: "SessionStallControl \<Rightarrow> bool" where
  "control_ok c \<longleftrightarrow> length (sw_frames (sc_window c)) \<le> WINDOW \<and> sc_replan_attempts c \<le> MAX_REPLAN_ATTEMPTS"

lemma control_ok_default: "control_ok control_default"
  by (simp add: control_ok_def control_default_def MAX_REPLAN_ATTEMPTS_def)

lemma attempts_succ:
  assumes "(a :: u32) < MAX_REPLAN_ATTEMPTS"
  shows "a + 1 \<le> MAX_REPLAN_ATTEMPTS \<and> unat (a + 1) = Suc (unat a)"
proof -
  have "unat a = 0 \<or> unat a = 1"
    using assms by (auto simp: MAX_REPLAN_ATTEMPTS_def word_less_nat_alt)
  then have "a = 0 \<or> a = 1" by (auto simp: word_unat_eq_iff)
  then show ?thesis by (auto simp: MAX_REPLAN_ATTEMPTS_def)
qed

lemma evaluate_stalled_spec:
  assumes "evaluate_stalled c obs now canc = (d, c')" and "sc_replan_attempts c \<le> MAX_REPLAN_ATTEMPTS"
  shows "sc_window c' = sc_window c \<and> sc_replan_attempts c' \<le> MAX_REPLAN_ATTEMPTS
    \<and> unat (sc_replan_attempts c') = unat (sc_replan_attempts c) + replans [d]"
  using assms attempts_succ [of "sc_replan_attempts c"]
  by (auto simp: evaluate_stalled_def decision_def replans_def Let_def not_le split: if_splits)

lemma evaluate_spec:
  assumes "evaluate c l rs now auto canc = (d, c')" and "control_ok c"
  shows "control_ok c'"
    and "\<not> rs \<Longrightarrow> unat (sc_replan_attempts c') = unat (sc_replan_attempts c) + replans [d]"
proof -
  have bound: "length (sw_frames (snd (push_frame (sc_window c) l))) \<le> WINDOW"
    "length (sw_frames (snd (window_record (sc_window c) l))) \<le> WINDOW"
    using assms(2) by (simp_all add: control_ok_def window_record_def push_frame_bound)
  have spec: "control_ok c' \<and> (\<not> rs \<longrightarrow>
      unat (sc_replan_attempts c') = unat (sc_replan_attempts c) + replans [d])"
    using assms bound
    by (auto simp: evaluate_def control_ok_def decision_def replans_def Let_def split_def
        dest: evaluate_stalled_spec split: if_splits)
  then show "control_ok c'"
    "\<not> rs \<Longrightarrow> unat (sc_replan_attempts c') = unat (sc_replan_attempts c) + replans [d]" by simp_all
qed

lemma stall_step_spec:
  assumes "stall_step c e = (ds, c')" and "control_ok c"
  shows "control_ok c' \<and> (\<not> is_run_start e \<longrightarrow>
    unat (sc_replan_attempts c') = unat (sc_replan_attempts c) + replans ds)"
proof (cases e)
  case (Observe l rs now auto canc)
  with assms(1) obtain d where ev: "evaluate c l rs now auto canc = (d, c')" "ds = [d]"
    by (auto split: prod.splits)
  with Observe evaluate_spec [OF ev(1) assms(2)] show ?thesis by simp
next
  case (Rebaseline l)
  with assms push_frame_bound [of "(sc_window c)\<lparr>sw_frames := []\<rparr>" l] show ?thesis
    by (auto simp: control_rebaseline_def control_ok_def replans_def)
qed

lemma stall_run_spec:
  assumes "stall_run c es = (ds, c')" and "control_ok c"
  shows "control_ok c' \<and> (\<not> list_ex is_run_start es \<longrightarrow>
    unat (sc_replan_attempts c') = unat (sc_replan_attempts c) + replans ds)"
  using assms
proof (induction es arbitrary: c ds)
  case (Cons e es)
  obtain d1 c1 where s: "stall_step c e = (d1, c1)" by (cases "stall_step c e")
  from Cons.prems(1) s obtain d2 where r: "stall_run c1 es = (d2, c')" "ds = d1 @ d2"
    by (auto split: prod.splits)
  note first = stall_step_spec [OF s Cons.prems(2)]
  with Cons.IH [OF r(1)] r(2) show ?case by (auto simp: replans_def)
qed (simp add: replans_def)

section \<open>Properties\<close>

text \<open>
  \<^bold>\<open>Note.\<close> Automatic replanning is bounded: over any sequence of frames and rebaselines of a fresh
  control the window never exceeds three frames and the attempts never exceed two, and a sequence
  without a new run start yields at most two replan actions, whatever the ledgers show.
\<close>

theorem replanning_is_bounded:
  assumes "stall_run control_default es = (ds, c)"
  shows "length (sw_frames (sc_window c)) \<le> 3 \<and> sc_replan_attempts c \<le> 2
    \<and> (\<not> list_ex is_run_start es \<longrightarrow>
         length (filter (\<lambda>d. is_replan (sd_action d)) ds) \<le> 2)"
proof -
  note spec = stall_run_spec [OF assms control_ok_default]
  then have "length (sw_frames (sc_window c)) \<le> 3" "sc_replan_attempts c \<le> 2"
    by (simp_all add: control_ok_def WINDOW_def MAX_REPLAN_ATTEMPTS_def)
  then show ?thesis
    using spec by (auto simp: control_default_def replans_def word_le_nat_alt)
qed

lemma evaluate_stalled_action:
  assumes "evaluate_stalled c obs now canc = (d, c')" "sd_action d \<noteq> ActionNone"
  shows "\<not> canc \<and> (case sd_action d of
      Replan n _ _ \<Rightarrow> n = sc_replan_attempts c + 1 \<and> sc_replan_attempts c < MAX_REPLAN_ATTEMPTS
        \<and> now < sc_deadline_at_ms c
    | Block _ \<Rightarrow> sc_deadline_at_ms c \<le> now \<or> MAX_REPLAN_ATTEMPTS \<le> sc_replan_attempts c
    | ActionNone \<Rightarrow> False)"
  using assms
  by (auto simp: evaluate_stalled_def decision_def Let_def not_le split: if_splits)

text \<open>
  \<^bold>\<open>C12.\<close> The detector acts only on evidence. If it decides to replan or to block, then the run is one
  that may be replanned, is not starting and not cancelled, the ledger is neither waiting on the
  user nor interrupted nor blocked, the previous frame was already a hit, and the last three frames
  show no new checkpoint together with an unchanged next action or strictly growing open questions;
  a replan is within its budget and deadline, and a block means that one of them is exhausted.
\<close>

theorem stall_action_is_justified:
  assumes "evaluate c l rs now auto canc = (d, c')" and "sd_action d \<noteq> ActionNone"
  shows "\<not> rs \<and> auto \<and> \<not> canc \<and> led_status l \<notin> {AwaitingUser, Interrupted, Blocked}
    \<and> sc_consecutive_hits c \<noteq> 0
    \<and> (let fs = sw_frames (sc_window c') in length fs \<ge> 3 \<and> last fs = frame_of l
         \<and> sf_verified_count (hd fs) = sf_verified_count (last fs)
         \<and> (next_unchanged fs \<or> opens_growing (map sf_open_count fs)))
    \<and> (case sd_action d of
         Replan n _ _ \<Rightarrow> n = sc_replan_attempts c + 1 \<and> sc_replan_attempts c < MAX_REPLAN_ATTEMPTS
           \<and> now < sc_deadline_at_ms c
       | Block _ \<Rightarrow> sc_deadline_at_ms c \<le> now \<or> MAX_REPLAN_ATTEMPTS \<le> sc_replan_attempts c
       | ActionNone \<Rightarrow> False)"
proof -
  let ?w = "snd (push_frame (sc_window c) l)" and ?obs = "fst (push_frame (sc_window c) l)"
  let ?c2 = "c\<lparr>sc_window := ?w, sc_consecutive_hits := u32_saturating_add (sc_consecutive_hits c) 1\<rparr>"
  from assms have gates: "\<not> rs" "auto" "\<not> suppressed (led_status l)" "led_status l \<noteq> Blocked"
      "stall_evidence ?obs" "u32_saturating_add (sc_consecutive_hits c) 1 \<noteq> 1"
    and run: "evaluate_stalled ?c2 ?obs now canc = (d, c')"
    by (auto simp: evaluate_def decision_def Let_def split_def split: if_splits)
  have hits: "sc_consecutive_hits c \<noteq> 0" using gates(6) by (auto simp: u32_saturating_add_def)
  have w: "sc_window c' = ?w"
    using run by (auto simp: evaluate_stalled_def Let_def split: if_splits)
  have "last (sw_frames ?w) = frame_of l"
    using gates(3) by (auto simp: push_frame_def Let_def tl_append WINDOW_def split: list.split)
  then show ?thesis
    using gates hits evaluate_stalled_action [OF run assms(2)] w
    unfolding push_frame_observe [OF gates(3)] stall_evidence_observe
    by (cases "sd_action d") (simp_all add: suppressed_def verified_flat_def WINDOW_def Let_def)
qed

lemma observe_repeated:
  assumes "led_next l = Some n"
  shows "observe [frame_of l, frame_of l, frame_of l] = [NextUnchanged 3, NoNewVerification 3]"
    and "observe [frame_of l] = []" "observe [frame_of l, frame_of l] = []"
  using assms by (simp_all add: observe_def next_unchanged_def verified_flat_def WINDOW_def frame_of_def)

lemma stall_evidence_repeated:
  "stall_evidence [NextUnchanged 3, NoNewVerification 3]" "\<not> stall_evidence []"
  by (simp_all add: stall_evidence_def)

lemmas stall_eval = evaluate_def evaluate_stalled_def window_record_def push_frame_def decision_def
  suppressed_def u32_saturating_add_def stall_evidence_repeated Let_def

text \<open>
  \<^bold>\<open>C40.\<close> A run that stands still is replanned: after its start, three further frames of the same
  active ledger within the deadline lead through a suspicion to the first replan attempt.
\<close>

theorem unchanged_run_is_replanned:
  assumes "led_status l = Active" and "led_next l = Some n"
    and "t3 < i64_saturating_add t0 REPLAN_DEADLINE_MS"
  shows "map sd_action (fst (stall_run c
      [Observe l True t0 a0 c0, Observe l False t1 True False,
       Observe l False t2 True False, Observe l False t3 True False]))
    = [ActionNone, ActionNone, ActionNone, Replan 1 (replan_next_statement 1) (replan_steering 1)]"
  using assms observe_repeated [OF assms(2)] by (simp add: stall_eval WINDOW_def MAX_REPLAN_ATTEMPTS_def)

text \<open>
  \<^bold>\<open>Note.\<close> A control that has not seen a run start (the registry after a server restart, or a ledger
  created in the middle of a run) does not merely re-baseline: its deadline is zero, so the first
  confirmed stall blocks the session without a single replan attempt.
\<close>

theorem stall_without_run_start_blocks:
  assumes "led_status l = Active" and "led_next l = Some n" and "0 \<le> t4"
  shows "map sd_action (fst (stall_run control_default
      [Observe l False t1 True False, Observe l False t2 True False,
       Observe l False t3 True False, Observe l False t4 True False]))
    = [ActionNone, ActionNone, ActionNone, Block ''automatic replanning deadline exhausted'']"
  using assms observe_repeated [OF assms(2)] by (simp add: stall_eval control_default_def WINDOW_def MAX_REPLAN_ATTEMPTS_def)

section \<open>Witnesses\<close>

definition still_ledger :: SessionTaskLedger where
  "still_ledger = (ledger_empty ''ses'')\<lparr>led_revision := 1,
     led_next := Some (next_from_statement ''go'' User 0)\<rparr>"

lemma still_ledger_simps:
  "led_status still_ledger = Active" "led_next still_ledger = Some (next_from_statement ''go'' User 0)"
  by (simp_all add: still_ledger_def ledger_empty_def)

theorem unchanged_run_is_replanned_witness:
  "map sd_action (fst (stall_run control_default
      [Observe still_ledger True 0 True False, Observe still_ledger False 1 True False,
       Observe still_ledger False 2 True False, Observe still_ledger False 3 True False]))
    = [ActionNone, ActionNone, ActionNone, Replan 1 (replan_next_statement 1) (replan_steering 1)]"
  by (rule unchanged_run_is_replanned [OF still_ledger_simps])
     (simp add: i64_saturating_add_def REPLAN_DEADLINE_MS_def i64_max_def i64_min_def)

theorem stall_without_run_start_blocks_witness:
  "map sd_action (fst (stall_run control_default
      [Observe still_ledger False 1 True False, Observe still_ledger False 2 True False,
       Observe still_ledger False 3 True False, Observe still_ledger False 4 True False]))
    = [ActionNone, ActionNone, ActionNone, Block ''automatic replanning deadline exhausted'']"
  by (rule stall_without_run_start_blocks [OF still_ledger_simps]) simp

definition stalled_control :: SessionStallControl where
  "stalled_control = \<lparr>sc_window = \<lparr>sw_frames = [frame_of still_ledger, frame_of still_ledger]\<rparr>,
     sc_phase = PhaseSuspected, sc_consecutive_hits = 1, sc_replan_attempts = 0,
     sc_deadline_at_ms = 100\<rparr>"

lemma stalled_control_replans:
  "sd_action (fst (evaluate stalled_control still_ledger False 5 True False)) =
     Replan 1 (replan_next_statement 1) (replan_steering 1)"
  using observe_repeated [OF still_ledger_simps(2)]
  by (simp add: stall_eval stalled_control_def still_ledger_simps WINDOW_def MAX_REPLAN_ATTEMPTS_def)

theorem stall_action_is_justified_witness:
  "sc_consecutive_hits stalled_control \<noteq> 0 \<and> led_status still_ledger \<noteq> Blocked"
  using stall_action_is_justified [of stalled_control still_ledger False 5 True False
      "fst (evaluate stalled_control still_ledger False 5 True False)"
      "snd (evaluate stalled_control still_ledger False 5 True False)"]
  by (simp add: stalled_control_replans)

theorem replanning_is_bounded_witness:
  "sc_replan_attempts (snd (stall_run control_default [Observe still_ledger True 0 True False])) \<le> 2"
  using replanning_is_bounded [of "[Observe still_ledger True 0 True False]"
      "fst (stall_run control_default [Observe still_ledger True 0 True False])"
      "snd (stall_run control_default [Observe still_ledger True 0 True False])"]
  by (simp del: stall_run.simps)

end
