(* ===== verification/Steering.thy ===== *)
theory Steering
  imports Interfaces
begin

text \<open>
  The owner-session steering queues of
  \<^verbatim>\<open>crates/agendao-server/src/session_runtime/steering.rs\<close>: one FIFO of pending messages per owner
  session, consumed at tool boundaries. The hash map of queues is a partial map; an absent entry and
  an empty queue are read alike.
\<close>

record PendingSteeringMessage =
  psm_id :: string
  psm_owner_session_id :: string
  psm_text :: string
  psm_created_at :: i64
  psm_source_session_id :: "string option"
  psm_deliver_at :: string

record PendingSteeringMessageSummary =
  pss_id :: string
  pss_owner_session_id :: string
  pss_created_at :: i64
  pss_source_session_id :: "string option"
  pss_deliver_at :: string

definition to_summary :: "PendingSteeringMessage \<Rightarrow> PendingSteeringMessageSummary" where
  "to_summary m =
     \<lparr>pss_id = psm_id m, pss_owner_session_id = psm_owner_session_id m,
      pss_created_at = psm_created_at m, pss_source_session_id = psm_source_session_id m,
      pss_deliver_at = psm_deliver_at m\<rparr>"

record SessionSteeringQueueStore =
  steer_queues :: "string \<rightharpoonup> PendingSteeringMessage list"

definition steering_new :: SessionSteeringQueueStore where
  "steering_new = \<lparr>steer_queues = Map.empty\<rparr>"

definition steering_enqueue ::
    "string \<Rightarrow> PendingSteeringMessage \<Rightarrow> SessionSteeringQueueStore \<Rightarrow> SessionSteeringQueueStore" where
  "steering_enqueue owner m s =
     (let queue = (case steer_queues s owner of None \<Rightarrow> [] | Some q \<Rightarrow> q)
      in s\<lparr>steer_queues := (steer_queues s)(owner \<mapsto> queue @ [m])\<rparr>)"

definition steering_drain ::
    "string \<Rightarrow> SessionSteeringQueueStore
       \<Rightarrow> PendingSteeringMessage list \<times> SessionSteeringQueueStore" where
  "steering_drain owner s =
     (let queue = (case steer_queues s owner of None \<Rightarrow> [] | Some q \<Rightarrow> q);
          s' = s\<lparr>steer_queues := (steer_queues s)(owner := None)\<rparr>;
          (drained, rest) = (queue, [])
      in (drained, if rest \<noteq> [] then s'\<lparr>steer_queues := (steer_queues s')(owner \<mapsto> rest)\<rparr> else s'))"

definition pending_count :: "string \<Rightarrow> SessionSteeringQueueStore \<Rightarrow> nat" where
  "pending_count owner s = (case steer_queues s owner of None \<Rightarrow> 0 | Some q \<Rightarrow> length q)"

section \<open>The queue contract\<close>

definition pending :: "SessionSteeringQueueStore \<Rightarrow> string \<Rightarrow> PendingSteeringMessage list" where
  "pending s owner = (case steer_queues s owner of None \<Rightarrow> [] | Some q \<Rightarrow> q)"

lemma pending_count_length: "pending_count owner s = length (pending s owner)"
  by (simp add: pending_count_def pending_def split: option.split)

interpretation steer: keyed_fifo_drain pending steering_enqueue steering_drain
  by unfold_locales
     (auto simp: pending_def steering_enqueue_def steering_drain_def Let_def split: option.split)

text \<open>An interleaving of producers and consumers, and what the consumer of \<open>k\<close> receives.\<close>

fun steering_run ::
    "(string \<times> PendingSteeringMessage option) list \<Rightarrow> SessionSteeringQueueStore \<Rightarrow> string
       \<Rightarrow> PendingSteeringMessage list \<times> SessionSteeringQueueStore" where
  "steering_run [] s k = ([], s)"
| "steering_run ((j, Some m) # es) s k = steering_run es (steering_enqueue j m s) k"
| "steering_run ((j, None) # es) s k =
     (let (out, s') = steering_drain j s; (rest, s'') = steering_run es s' k
      in ((if j = k then out else []) @ rest, s''))"

lemma steering_run_serve: "steering_run es s k = steer.serve es s k"
proof (induction es arbitrary: s)
  case (Cons a es)
  obtain j m where "a = (j, m)" by (cases a)
  then show ?case by (cases m) (simp_all add: Cons split_def Let_def)
qed simp

text \<open>
  \<^bold>\<open>Note.\<close> Steering messages are neither lost, duplicated, reordered nor delivered to another session:
  over any interleaving of enqueues and drains of any owners, what the owner \<open>k\<close> has drained,
  followed by what is still pending for it, is what was pending at the start followed by the
  messages enqueued for \<open>k\<close>, in order.
\<close>

theorem steering_fifo_per_owner:
  "fst (steering_run es s k) @ pending (snd (steering_run es s k)) k =
   pending s k @ List.map_filter (\<lambda>(j, m). if j = k then m else None) es"
  unfolding steering_run_serve by (rule steer.serve_complete)

end
