(* ===== verification/Repair.thy ===== *)
theory Repair
  imports Rust_Prelude
begin

text \<open>
  The repair and tool-batch types of \<^verbatim>\<open>crates/agendao-types/src/repair.rs\<close>: repair events and their
  builder, the tool-batch summary with its model-visible rendering, the sanitizer actions, and the
  canonical repair kinds with their wire names. JSON payloads are opaque to this code, so their
  type is the parameter \<open>'j\<close>.
\<close>

section \<open>Repair events\<close>

record 'j RepairEvent =
  re_repair_kind :: string
  re_layer :: string
  re_tool_name :: string
  re_field :: "string option"
  re_reason :: "string option"
  re_raw_shape :: "'j option"
  re_normalized_shape :: "'j option"
  re_injected_into_model_context :: bool
  re_strict_mode_would_fail :: bool
  re_original_error_kind :: "string option"

definition repair_event_new :: "string \<Rightarrow> string \<Rightarrow> string \<Rightarrow> 'j RepairEvent" where
  "repair_event_new repair_kind layer tool_name =
     \<lparr>re_repair_kind = repair_kind, re_layer = layer, re_tool_name = tool_name, re_field = None,
      re_reason = None, re_raw_shape = None, re_normalized_shape = None,
      re_injected_into_model_context = False, re_strict_mode_would_fail = False,
      re_original_error_kind = None\<rparr>"

record 'j RepairEventBuilder =
  reb_event :: "'j RepairEvent"

definition builder_new :: "string \<Rightarrow> string \<Rightarrow> string \<Rightarrow> 'j RepairEventBuilder" where
  "builder_new repair_kind layer tool_name =
     \<lparr>reb_event = repair_event_new repair_kind layer tool_name\<rparr>"

definition builder_field :: "string \<Rightarrow> 'j RepairEventBuilder \<Rightarrow> 'j RepairEventBuilder" where
  "builder_field v b = b\<lparr>reb_event := (reb_event b)\<lparr>re_field := Some v\<rparr>\<rparr>"

definition builder_reason :: "string \<Rightarrow> 'j RepairEventBuilder \<Rightarrow> 'j RepairEventBuilder" where
  "builder_reason v b = b\<lparr>reb_event := (reb_event b)\<lparr>re_reason := Some v\<rparr>\<rparr>"

definition builder_raw_shape :: "'j \<Rightarrow> 'j RepairEventBuilder \<Rightarrow> 'j RepairEventBuilder" where
  "builder_raw_shape v b = b\<lparr>reb_event := (reb_event b)\<lparr>re_raw_shape := Some v\<rparr>\<rparr>"

definition builder_normalized_shape :: "'j \<Rightarrow> 'j RepairEventBuilder \<Rightarrow> 'j RepairEventBuilder" where
  "builder_normalized_shape v b = b\<lparr>reb_event := (reb_event b)\<lparr>re_normalized_shape := Some v\<rparr>\<rparr>"

definition builder_injected :: "bool \<Rightarrow> 'j RepairEventBuilder \<Rightarrow> 'j RepairEventBuilder" where
  "builder_injected v b = b\<lparr>reb_event := (reb_event b)\<lparr>re_injected_into_model_context := v\<rparr>\<rparr>"

definition builder_strict :: "bool \<Rightarrow> 'j RepairEventBuilder \<Rightarrow> 'j RepairEventBuilder" where
  "builder_strict v b = b\<lparr>reb_event := (reb_event b)\<lparr>re_strict_mode_would_fail := v\<rparr>\<rparr>"

definition builder_original_error_kind ::
    "string \<Rightarrow> 'j RepairEventBuilder \<Rightarrow> 'j RepairEventBuilder" where
  "builder_original_error_kind v b =
     b\<lparr>reb_event := (reb_event b)\<lparr>re_original_error_kind := Some v\<rparr>\<rparr>"

definition builder_build :: "'j RepairEventBuilder \<Rightarrow> 'j RepairEvent" where
  "builder_build b = reb_event b"

section \<open>Tool batch summaries\<close>

datatype ToolBatchGoalStatus = BatchAdvanced | BatchBlocked | BatchMixed | BatchNoProgress

datatype ToolBatchBlockReason =
    BlockInvalidArguments | BlockPermissionDenied | BlockTimeout | BlockProviderRejected
  | BlockToolExecutionError | BlockUserInputRequired | BlockUnknown

fun block_reason_as_str :: "ToolBatchBlockReason \<Rightarrow> string" where
  "block_reason_as_str BlockInvalidArguments = ''invalid_arguments''"
| "block_reason_as_str BlockPermissionDenied = ''permission_denied''"
| "block_reason_as_str BlockTimeout = ''timeout''"
| "block_reason_as_str BlockProviderRejected = ''provider_rejected''"
| "block_reason_as_str BlockToolExecutionError = ''tool_execution_error''"
| "block_reason_as_str BlockUserInputRequired = ''user_input_required''"
| "block_reason_as_str BlockUnknown = ''unknown''"

text \<open>\<open>{reason:?}\<close> prints the variant's name.\<close>

fun block_reason_debug :: "ToolBatchBlockReason \<Rightarrow> string" where
  "block_reason_debug BlockInvalidArguments = ''InvalidArguments''"
| "block_reason_debug BlockPermissionDenied = ''PermissionDenied''"
| "block_reason_debug BlockTimeout = ''Timeout''"
| "block_reason_debug BlockProviderRejected = ''ProviderRejected''"
| "block_reason_debug BlockToolExecutionError = ''ToolExecutionError''"
| "block_reason_debug BlockUserInputRequired = ''UserInputRequired''"
| "block_reason_debug BlockUnknown = ''Unknown''"

record ToolBatchFollowUpItem =
  fu_kind :: string
  fu_text :: string

record 'j ToolBatchSummary =
  tb_tools_used :: "string list"
  tb_success_count :: u32
  tb_error_count :: u32
  tb_error_kinds :: "string list"
  tb_goal_status :: ToolBatchGoalStatus
  tb_blocked_by :: "ToolBatchBlockReason list"
  tb_artifacts_created :: "string list"
  tb_pending_follow_up :: "ToolBatchFollowUpItem list"
  tb_unresolved_items :: "string list"
  tb_recommended_next_step :: "string option"
  tb_repair_events :: "'j RepairEvent list"

definition batch_empty :: "'j ToolBatchSummary" where
  "batch_empty =
     \<lparr>tb_tools_used = [], tb_success_count = 0, tb_error_count = 0, tb_error_kinds = [],
      tb_goal_status = BatchNoProgress, tb_blocked_by = [], tb_artifacts_created = [],
      tb_pending_follow_up = [], tb_unresolved_items = [], tb_recommended_next_step = None,
      tb_repair_events = []\<rparr>"

definition has_meaningful_progress :: "'j ToolBatchSummary \<Rightarrow> bool" where
  "has_meaningful_progress s \<longleftrightarrow> tb_success_count s > 0 \<and> tb_error_count s = 0"

definition is_blocked :: "'j ToolBatchSummary \<Rightarrow> bool" where
  "is_blocked s \<longleftrightarrow> tb_blocked_by s \<noteq> []"

fun goal_status_label :: "ToolBatchGoalStatus \<Rightarrow> string" where
  "goal_status_label BatchAdvanced = ''advanced''"
| "goal_status_label BatchBlocked = ''blocked''"
| "goal_status_label BatchMixed = ''mixed''"
| "goal_status_label BatchNoProgress = ''no_progress''"

definition format_lines :: "'j ToolBatchSummary \<Rightarrow> string list" where
  "format_lines s =
     [''<tool-batch-summary>'']
     @ (if tb_tools_used s \<noteq> [] then [''  tools: '' @ join '', '' (tb_tools_used s)] else [])
     @ [''  goal_status: '' @ goal_status_label (tb_goal_status s)]
     @ (if tb_success_count s > 0 \<or> tb_error_count s > 0
        then [''  success: '' @ show_nat (unat (tb_success_count s)) @ ''  errors: ''
                @ show_nat (unat (tb_error_count s))] else [])
     @ (if tb_blocked_by s \<noteq> []
        then [''  blocked_by: '' @ join '', '' (map block_reason_as_str (tb_blocked_by s))] else [])
     @ (if tb_artifacts_created s \<noteq> []
        then [''  artifacts: '' @ join '', '' (tb_artifacts_created s)] else [])
     @ (case tb_recommended_next_step s of
          Some next_step \<Rightarrow> [''  next_step: '' @ next_step] | None \<Rightarrow> [])
     @ (if tb_unresolved_items s \<noteq> []
        then [''  unresolved: '' @ join ''; '' (tb_unresolved_items s)] else [])
     @ [''</tool-batch-summary>'']"

definition format_for_context :: "'j ToolBatchSummary \<Rightarrow> string" where
  "format_for_context s = join [CHR 10] (format_lines s)"

datatype RepairPolicy = PolicyPermissive | PolicyStrict

fun policy_label :: "RepairPolicy \<Rightarrow> string" where
  "policy_label PolicyPermissive = ''permissive''"
| "policy_label PolicyStrict = ''strict''"

section \<open>Sanitizer actions and canonical kinds\<close>

datatype SanitizerStage = PreRequest | FallbackRetry | SessionResume | PostCompaction

fun stage_label :: "SanitizerStage \<Rightarrow> string" where
  "stage_label PreRequest = ''pre_request''"
| "stage_label FallbackRetry = ''fallback_retry''"
| "stage_label SessionResume = ''session_resume''"
| "stage_label PostCompaction = ''post_compaction''"

datatype SanitizerAction =
    OrphanedToolResult string
  | DuplicateToolId string
  | ThinkingOnlyAssistant
  | TrailingInvalidThinkingBlock
  | FallbackContinuationStrip "string list"
  | CompactionResidue string
  | AssistantMalformedPlaceholder
  | OrphanedContinuationAutoHeal

datatype RepairKind =
    ToolNameRepair
  | ArgumentNormalization
  | ArgumentPrevalidationFallback
  | InvalidToolReroute
  | ExecutionErrorNoReroute
  | BasenameAutoRepair
  | JsonStringObjectParse
  | SanitizerOrphanedToolResult
  | SanitizerDuplicateToolId
  | SanitizerThinkingOnlyAssistant
  | SanitizerTrailingInvalidThinkingBlock
  | SanitizerFallbackContinuationStrip
  | SanitizerCompactionResidue
  | SanitizerAssistantMalformedPlaceholder
  | SanitizerOrphanedContinuationAutoHeal
  | ProviderFallbackRetry
  | ProviderRequestRejected
  | ThinkingReplayBoundaryReset

fun repair_kind_as_str :: "RepairKind \<Rightarrow> string" where
  "repair_kind_as_str ToolNameRepair = ''tool_name_repair''"
| "repair_kind_as_str ArgumentNormalization = ''argument_normalization''"
| "repair_kind_as_str ArgumentPrevalidationFallback = ''argument_prevalidation_fallback''"
| "repair_kind_as_str InvalidToolReroute = ''invalid_tool_reroute''"
| "repair_kind_as_str ExecutionErrorNoReroute = ''execution_error_no_reroute''"
| "repair_kind_as_str BasenameAutoRepair = ''basename_auto_repair''"
| "repair_kind_as_str JsonStringObjectParse = ''json_string_object_parse''"
| "repair_kind_as_str SanitizerOrphanedToolResult = ''orphaned_tool_result''"
| "repair_kind_as_str SanitizerDuplicateToolId = ''duplicate_tool_id''"
| "repair_kind_as_str SanitizerThinkingOnlyAssistant = ''thinking_only_assistant''"
| "repair_kind_as_str SanitizerTrailingInvalidThinkingBlock = ''trailing_invalid_thinking_block''"
| "repair_kind_as_str SanitizerFallbackContinuationStrip = ''fallback_continuation_strip''"
| "repair_kind_as_str SanitizerCompactionResidue = ''compaction_residue''"
| "repair_kind_as_str SanitizerAssistantMalformedPlaceholder = ''assistant_malformed_placeholder''"
| "repair_kind_as_str SanitizerOrphanedContinuationAutoHeal = ''orphaned_continuation_auto_heal''"
| "repair_kind_as_str ProviderFallbackRetry = ''provider_fallback_retry''"
| "repair_kind_as_str ProviderRequestRejected = ''provider_request_rejected''"
| "repair_kind_as_str ThinkingReplayBoundaryReset = ''thinking_replay_boundary_reset''"

definition repair_kind_parse :: "string \<Rightarrow> RepairKind option" where
  "repair_kind_parse value =
     (if value = ''tool_name_repair'' then Some ToolNameRepair
      else if value = ''argument_normalization'' then Some ArgumentNormalization
      else if value = ''argument_prevalidation_fallback'' then Some ArgumentPrevalidationFallback
      else if value = ''invalid_tool_reroute'' then Some InvalidToolReroute
      else if value = ''execution_error_no_reroute'' then Some ExecutionErrorNoReroute
      else if value = ''basename_auto_repair'' then Some BasenameAutoRepair
      else if value = ''json_string_object_parse'' then Some JsonStringObjectParse
      else if value = ''orphaned_tool_result'' then Some SanitizerOrphanedToolResult
      else if value = ''duplicate_tool_id'' then Some SanitizerDuplicateToolId
      else if value = ''thinking_only_assistant'' then Some SanitizerThinkingOnlyAssistant
      else if value = ''trailing_invalid_thinking_block'' then Some SanitizerTrailingInvalidThinkingBlock
      else if value = ''fallback_continuation_strip'' then Some SanitizerFallbackContinuationStrip
      else if value = ''compaction_residue'' then Some SanitizerCompactionResidue
      else if value = ''assistant_malformed_placeholder'' then Some SanitizerAssistantMalformedPlaceholder
      else if value = ''orphaned_continuation_auto_heal'' then Some SanitizerOrphanedContinuationAutoHeal
      else if value = ''provider_fallback_retry'' then Some ProviderFallbackRetry
      else if value = ''provider_request_rejected'' then Some ProviderRequestRejected
      else if value = ''thinking_replay_boundary_reset'' then Some ThinkingReplayBoundaryReset
      else None)"

fun action_repair_kind :: "SanitizerAction \<Rightarrow> RepairKind" where
  "action_repair_kind (OrphanedToolResult _) = SanitizerOrphanedToolResult"
| "action_repair_kind (DuplicateToolId _) = SanitizerDuplicateToolId"
| "action_repair_kind ThinkingOnlyAssistant = SanitizerThinkingOnlyAssistant"
| "action_repair_kind TrailingInvalidThinkingBlock = SanitizerTrailingInvalidThinkingBlock"
| "action_repair_kind (FallbackContinuationStrip _) = SanitizerFallbackContinuationStrip"
| "action_repair_kind (CompactionResidue _) = SanitizerCompactionResidue"
| "action_repair_kind AssistantMalformedPlaceholder = SanitizerAssistantMalformedPlaceholder"
| "action_repair_kind OrphanedContinuationAutoHeal = SanitizerOrphanedContinuationAutoHeal"

definition normalized_kind :: "'j RepairEvent \<Rightarrow> RepairKind option" where
  "normalized_kind e = repair_kind_parse (re_repair_kind e)"

fun action_kind :: "SanitizerAction \<Rightarrow> string" where
  "action_kind (OrphanedToolResult _) = ''orphaned_tool_result''"
| "action_kind (DuplicateToolId _) = ''duplicate_tool_id''"
| "action_kind ThinkingOnlyAssistant = ''thinking_only_assistant''"
| "action_kind TrailingInvalidThinkingBlock = ''trailing_invalid_thinking_block''"
| "action_kind (FallbackContinuationStrip _) = ''fallback_continuation_strip''"
| "action_kind (CompactionResidue _) = ''compaction_residue''"
| "action_kind AssistantMalformedPlaceholder = ''assistant_malformed_placeholder''"
| "action_kind OrphanedContinuationAutoHeal = ''orphaned_continuation_auto_heal''"

fun action_description :: "SanitizerAction \<Rightarrow> string" where
  "action_description (OrphanedToolResult tool_call_id) =
     ''orphaned tool_result without pending tool_use: '' @ tool_call_id"
| "action_description (DuplicateToolId tool_call_id) =
     ''duplicate tool_use id resolved: '' @ tool_call_id"
| "action_description ThinkingOnlyAssistant = ''dropped assistant message with only thinking blocks''"
| "action_description TrailingInvalidThinkingBlock = ''removed trailing invalid thinking block''"
| "action_description (FallbackContinuationStrip removed_keys) =
     ''stripped continuation keys for fallback: '' @ join '', '' removed_keys"
| "action_description (CompactionResidue reason) = ''cleaned compaction residue: '' @ reason"
| "action_description AssistantMalformedPlaceholder =
     ''replaced malformed assistant message with placeholder''"
| "action_description OrphanedContinuationAutoHeal = ''auto-healed orphaned continuation signature''"

section \<open>Wire names\<close>

lemma parse_as_str: "repair_kind_parse (repair_kind_as_str k) = Some k"
  by (cases k; simp add: repair_kind_parse_def)

lemma parse_Some: "repair_kind_parse v = Some k \<Longrightarrow> v = repair_kind_as_str k"
  unfolding repair_kind_parse_def by (simp split: if_split_asm; hypsubst; simp)

text \<open>
  \<^bold>\<open>Note.\<close> The wire names of repair kinds are a bijection onto what the
  parser accepts, and every sanitizer action is recorded under the name of its canonical kind, so an
  event written with \<open>kind()\<close> is found again under \<open>repair_kind()\<close>.
\<close>

theorem repair_kind_wire_roundtrip:
  "(repair_kind_parse v = Some k \<longleftrightarrow> v = repair_kind_as_str k)
   \<and> normalized_kind (builder_build (builder_new (action_kind a) layer tool) :: 'j RepairEvent)
       = Some (action_repair_kind a)"
proof -
  have "repair_kind_parse (action_kind a) = Some (action_repair_kind a)"
    using parse_as_str [of "action_repair_kind a"] by (cases a) simp_all
  then show ?thesis
    using parse_as_str [of k] parse_Some [of v k]
    by (auto simp: normalized_kind_def builder_build_def builder_new_def repair_event_new_def)
qed

end
