(* ===== verification/Server_State.thy ===== *)
theory Server_State
  imports Task_Ledger_Properties Task_Ledger_Stall Steering Repair
begin

text \<open>
  The server-side authority of the task ledger:
  \<^verbatim>\<open>crates/agendao-server/src/session_runtime/task_ledger.rs\<close>, the acting part of
  \<^verbatim>\<open>task_ledger_stall.rs\<close> and \<^verbatim>\<open>steering.rs\<close>. The state keeps, of the server, the sessions with their
  metadata, the events put on the bus in order, the stall controls, the steering queues and the
  order of storage flushes.

  JSON values are a type parameter \<open>'j\<close> and the conversions of serde are the fields of a \<open>serde\<close>
  record; \<open>serde_ok\<close> states what the code relies on. A code section under the session lock is one
  atomic function. Between two sections of a handler other tasks may run: \<open>interfere k\<close> is what they
  do at the handler's \<open>k\<close>-th release of the lock, and \<open>polled k\<close> is the \<open>k\<close>-th reading of the
  cancellation token.
\<close>

section \<open>State\<close>

record 'j serde =
  from_value :: "'j \<Rightarrow> SessionTaskLedger option"
  to_value :: "SessionTaskLedger \<Rightarrow> string + 'j"
  as_u64 :: "'j \<Rightarrow> u64 option"
  json_u64 :: "u64 \<Rightarrow> 'j"
  json_decision :: "StallDecision \<Rightarrow> 'j"

definition serde_ok :: "'j serde \<Rightarrow> bool" where
  "serde_ok sd \<longleftrightarrow> (\<forall>l v. to_value sd l = Inr v \<longrightarrow> from_value sd v = Some l)
     \<and> (\<forall>n. as_u64 sd (json_u64 sd n) = Some n)"

record 'j Session =
  ses_directory :: string
  ses_metadata :: "string \<rightharpoonup> 'j"
  ses_updated_at :: i64

datatype ServerEvent =
    TaskLedgerReplaced string SessionTaskLedger TaskLedgerCause
  | SessionUpdated string string

record 'j ServerState =
  srv_sessions :: "string \<rightharpoonup> 'j Session"
  srv_events :: "ServerEvent list"
  srv_stall_windows :: StallWindows
  srv_steering_store :: SessionSteeringQueueStore
  srv_flushes :: "string list"

datatype ApiError =
    SessionNotFound string
  | NotFound string
  | PermissionDenied string
  | BadRequest string
  | ApiRevisionConflict string u64 u64
  | ProviderError string
  | InvalidRequest string
  | InternalError string

definition TASK_LEDGER_AUTO_CONTINUATION_METADATA_KEY :: string where
  "TASK_LEDGER_AUTO_CONTINUATION_METADATA_KEY = ''task_ledger_auto_continuation''"

definition CONFLICT_COUNT_KEY :: string where
  "CONFLICT_COUNT_KEY = ''task_ledger_revision_conflict_count''"

definition insert_metadata :: "i64 \<Rightarrow> string \<Rightarrow> 'j \<Rightarrow> 'j Session \<Rightarrow> 'j Session" where
  "insert_metadata now key v s =
     s\<lparr>ses_metadata := (ses_metadata s)(key \<mapsto> v), ses_updated_at := now\<rparr>"

definition remove_metadata :: "i64 \<Rightarrow> string \<Rightarrow> 'j Session \<Rightarrow> 'j Session" where
  "remove_metadata now key s =
     s\<lparr>ses_metadata := (ses_metadata s)(key := None), ses_updated_at := now\<rparr>"

definition put_session :: "string \<Rightarrow> 'j Session \<Rightarrow> 'j ServerState \<Rightarrow> 'j ServerState" where
  "put_session sid s st = st\<lparr>srv_sessions := (srv_sessions st)(sid \<mapsto> s)\<rparr>"

definition broadcast_server_event :: "ServerEvent \<Rightarrow> 'j ServerState \<Rightarrow> 'j ServerState" where
  "broadcast_server_event e st = st\<lparr>srv_events := srv_events st @ [e]\<rparr>"

definition persist_session :: "string \<Rightarrow> 'j ServerState \<Rightarrow> 'j ServerState" where
  "persist_session sid st = st\<lparr>srv_flushes := srv_flushes st @ [sid]\<rparr>"

section \<open>Reading and committing\<close>

fun map_ledger_error :: "string \<Rightarrow> TaskLedgerError \<Rightarrow> ApiError" where
  "map_ledger_error sid (RevisionConflict expected actual) =
     ApiRevisionConflict (''task-ledger:'' @ sid) expected actual"
| "map_ledger_error sid other = BadRequest (error_display other)"

definition ledger_snapshot_from_record ::
    "'j serde \<Rightarrow> string \<Rightarrow> 'j option \<Rightarrow> SessionTaskLedger" where
  "ledger_snapshot_from_record sd sid raw =
     (case raw of
        Some v \<Rightarrow>
          (case from_value sd v of
             Some ledger \<Rightarrow> ledger\<lparr>led_session_id := sid\<rparr>
           | None \<Rightarrow> ledger_empty sid)
      | None \<Rightarrow> ledger_empty sid)"

definition session_ledger :: "'j serde \<Rightarrow> string \<Rightarrow> 'j Session \<Rightarrow> SessionTaskLedger" where
  "session_ledger sd sid s =
     ledger_snapshot_from_record sd sid (ses_metadata s TASK_LEDGER_METADATA_KEY)"

definition task_ledger_snapshot ::
    "'j serde \<Rightarrow> 'j ServerState \<Rightarrow> string \<Rightarrow> ApiError + SessionTaskLedger" where
  "task_ledger_snapshot sd st sid =
     (case srv_sessions st sid of
        None \<Rightarrow> Inl (SessionNotFound sid)
      | Some s \<Rightarrow> Inr (session_ledger sd sid s))"

definition commit_snapshot_in_memory ::
    "'j serde \<Rightarrow> i64 \<Rightarrow> string \<Rightarrow> 'j Session \<Rightarrow> SessionTaskLedger \<Rightarrow> TaskLedgerCause
       \<Rightarrow> 'j ServerState \<Rightarrow> (ApiError + unit) \<times> 'j ServerState" where
  "commit_snapshot_in_memory sd now sid s snapshot cause st =
     (case to_value sd snapshot of
        Inl e \<Rightarrow> (Inl (InternalError (''failed to serialize task ledger: '' @ e)), st)
      | Inr v \<Rightarrow>
          (Inr (), broadcast_server_event (TaskLedgerReplaced sid snapshot cause)
             (put_session sid (insert_metadata now TASK_LEDGER_METADATA_KEY v s) st)))"

section \<open>External operations\<close>

definition validate_actor :: "TaskLedgerActor option \<Rightarrow> ApiError + unit" where
  "validate_actor actor =
     guard (actor = Some User) (BadRequest
       ''external task-ledger writes must use actor=user; model/evaluator/system provenance is reserved for internal seams'')"

fun validate_external_verifier :: "VerifierRef \<Rightarrow> ApiError + unit" where
  "validate_external_verifier (VUserConfirmation actor) =
     guard (actor = ''user'') (BadRequest
       ''external user_confirmation verifier actor must be `user`'')"
| "validate_external_verifier _ = Inl (BadRequest
     ''machine verifier types (deterministic_check/evaluator) cannot be submitted over the wire; use user_confirmation or let the server's seams produce them'')"

definition lifecycle_reserved :: "ApiError + unit" where
  "lifecycle_reserved = Inl (BadRequest
     ''task-ledger lifecycle operations are reserved for internal execution seams'')"

fun validate_external_op :: "TaskLedgerOp \<Rightarrow> ApiError + unit" where
  "validate_external_op (Create g _) = validate_actor (Some (goal_set_by g))"
| "validate_external_op (SetGoal g) = validate_actor (Some (goal_set_by g))"
| "validate_external_op (AddCore _ _ actor) = validate_actor actor"
| "validate_external_op (SwapCoreLive _ _ actor) = validate_actor actor"
| "validate_external_op (SetNext _ actor) = validate_actor actor"
| "validate_external_op (AddCheckpoint _ verifier _ _ _ _ _) = validate_external_verifier verifier"
| "validate_external_op (CloseOpenWithCheckpoint _ _ verifier _ _ _ _) =
     validate_external_verifier verifier"
| "validate_external_op (SetStatus _ _ _) = lifecycle_reserved"
| "validate_external_op (ResolveInteraction _ _) = lifecycle_reserved"
| "validate_external_op Interrupt = lifecycle_reserved"
| "validate_external_op (Complete _) = lifecycle_reserved"
| "validate_external_op _ = Inr ()"

fun cause_for_op :: "TaskLedgerOp \<Rightarrow> TaskLedgerCause" where
  "cause_for_op (Create _ _) = CauseCreated"
| "cause_for_op (SetGoal _) = CauseGoalUpdated"
| "cause_for_op (AddCore _ _ _) = CauseCoreUpdated"
| "cause_for_op (SwapCoreLive _ _ _) = CauseCoreUpdated"
| "cause_for_op (AddCheckpoint _ _ _ _ _ _ _) = CauseCheckpointAdded"
| "cause_for_op (OpOpenQuestion _ _) = CauseOpenAdded"
| "cause_for_op (CloseOpenWithCheckpoint _ _ _ _ _ _ _) = CauseOpenClosed"
| "cause_for_op (SetNext _ _) = CauseNextUpdated"
| "cause_for_op (SetStatus _ _ _) = CauseStatusChanged"
| "cause_for_op (ResolveInteraction _ _) = CauseStatusChanged"
| "cause_for_op Interrupt = CauseStatusChanged"
| "cause_for_op (Complete _) = CauseStatusChanged"

section \<open>Committed writes of the authority\<close>

text \<open>A lost revision race is counted on the session and flushed before the error is returned.\<close>

definition note_conflict ::
    "'j serde \<Rightarrow> i64 \<Rightarrow> string \<Rightarrow> 'j Session \<Rightarrow> 'j ServerState \<Rightarrow> 'j ServerState" where
  "note_conflict sd now sid s st =
     (let old = (case ses_metadata s CONFLICT_COUNT_KEY of
                   None \<Rightarrow> 0
                 | Some v \<Rightarrow> (case as_u64 sd v of None \<Rightarrow> 0 | Some n \<Rightarrow> n));
          total = u64_saturating_add old 1
      in persist_session sid
           (put_session sid (insert_metadata now CONFLICT_COUNT_KEY (json_u64 sd total) s) st))"

definition apply_task_ledger_op_unless_cancelled ::
    "'j serde \<Rightarrow> i64 \<Rightarrow> bool \<Rightarrow> string \<Rightarrow> u64 \<Rightarrow> TaskLedgerOp \<Rightarrow> 'j ServerState
       \<Rightarrow> (ApiError + (SessionTaskLedger \<times> TaskLedgerCause) option) \<times> 'j ServerState" where
  "apply_task_ledger_op_unless_cancelled sd now_ms cancelled sid expected operation st =
     (if cancelled then (Inr None, st)
      else case srv_sessions st sid of
        None \<Rightarrow> (Inl (SessionNotFound sid), st)
      | Some s \<Rightarrow>
          (case ledger_apply (session_ledger sd sid s) expected operation now_ms of
             (Inl e, _) \<Rightarrow>
               (Inl (map_ledger_error sid e),
                if is_conflict e then note_conflict sd now_ms sid s st else st)
           | (Inr _, snapshot) \<Rightarrow>
               (case commit_snapshot_in_memory sd now_ms sid s snapshot (cause_for_op operation) st of
                  (Inl e, st1) \<Rightarrow> (Inl e, st1)
                | (Inr _, st1) \<Rightarrow>
                    (Inr (Some (snapshot, cause_for_op operation)), persist_session sid st1))))"

definition apply_task_ledger_op ::
    "'j serde \<Rightarrow> i64 \<Rightarrow> string \<Rightarrow> u64 \<Rightarrow> TaskLedgerOp \<Rightarrow> 'j ServerState
       \<Rightarrow> (ApiError + SessionTaskLedger \<times> TaskLedgerCause) \<times> 'j ServerState" where
  "apply_task_ledger_op sd now_ms sid expected operation st =
     (case apply_task_ledger_op_unless_cancelled sd now_ms False sid expected operation st of
        (Inl e, st1) \<Rightarrow> (Inl e, st1)
      | (Inr None, st1) \<Rightarrow> (Inl (InternalError ''unguarded ledger write was cancelled''), st1)
      | (Inr (Some r), st1) \<Rightarrow> (Inr r, st1))"

definition start_task_goal ::
    "'j serde \<Rightarrow> i64 \<Rightarrow> string \<Rightarrow> string \<Rightarrow> 'j ServerState
       \<Rightarrow> (ApiError + SessionTaskLedger) \<times> 'j ServerState" where
  "start_task_goal sd now_ms sid raw st =
     (let statement = trim raw
      in if statement = [] then (Inl (BadRequest ''goal description must not be empty''), st)
         else case srv_sessions st sid of
           None \<Rightarrow> (Inl (SessionNotFound sid), st)
         | Some s \<Rightarrow>
             let ledger = session_ledger sd sid s
             in if led_awaiting_interactions ledger \<noteq> [] then
                  (Inl (BadRequest
                     ''cannot replace the session goal while permission or question interactions are unresolved''), st)
                else case start_goal ledger (led_revision ledger)
                       \<lparr>goal_statement = statement, goal_acceptance_criteria = [],
                        goal_criterion_checks = [], goal_set_by = User, goal_set_at = now_ms\<rparr>
                       statement now_ms of
                    (Inl e, _) \<Rightarrow> (Inl (map_ledger_error sid e), st)
                  | (Inr _, ledger') \<Rightarrow>
                      let cause = (if led_goal ledger \<noteq> None then CauseGoalUpdated else CauseCreated);
                          s1 = remove_metadata now_ms TASK_LEDGER_AUTO_CONTINUATION_METADATA_KEY s
                      in case commit_snapshot_in_memory sd now_ms sid s1 ledger' cause
                                (put_session sid s1 st) of
                           (Inl e, st1) \<Rightarrow> (Inl e, st1)
                         | (Inr _, st1) \<Rightarrow> (Inr ledger', persist_session sid st1))"

section \<open>Acting on a stall\<close>

definition enqueue_system_steering ::
    "string \<Rightarrow> i64 \<Rightarrow> string \<Rightarrow> string \<Rightarrow> string \<Rightarrow> 'j ServerState \<Rightarrow> nat \<times> 'j ServerState" where
  "enqueue_system_steering uuid now sid text_msg id_prefix st =
     (let message = \<lparr>psm_id = id_prefix @ ''_'' @ uuid, psm_owner_session_id = sid,
                     psm_text = text_msg, psm_created_at = now, psm_source_session_id = None,
                     psm_deliver_at = ''next_tool_boundary''\<rparr>;
          store = steering_enqueue sid message (srv_steering_store st)
      in (pending_count sid store,
          broadcast_server_event (SessionUpdated sid ''steering'')
            (st\<lparr>srv_steering_store := store\<rparr>)))"

text \<open>The decision is recorded on the session, when the session still exists.\<close>

definition note_decision ::
    "'j serde \<Rightarrow> i64 \<Rightarrow> string \<Rightarrow> StallDecision \<Rightarrow> 'j ServerState \<Rightarrow> 'j ServerState" where
  "note_decision sd now sid d st =
     (case srv_sessions st sid of
        None \<Rightarrow> st
      | Some s \<Rightarrow> put_session sid (insert_metadata now ''stall_observation'' (json_decision sd d) s) st)"

definition act_replan ::
    "'j serde \<Rightarrow> string \<Rightarrow> i64 \<Rightarrow> (nat \<Rightarrow> bool) \<Rightarrow> (nat \<Rightarrow> 'j ServerState \<Rightarrow> 'j ServerState)
       \<Rightarrow> SessionTaskLedger \<Rightarrow> string \<Rightarrow> string \<Rightarrow> 'j ServerState \<Rightarrow> bool \<times> 'j ServerState" where
  "act_replan sd uuid now polled interfere l next_statement steering_text st =
     (case apply_task_ledger_op_unless_cancelled sd now (polled 2) (led_session_id l) (led_revision l)
             (SetNext next_statement (Some System)) st of
        (Inr (Some (snapshot, _)), st1) \<Rightarrow>
          let st2 = interfere 2 st1;
              st3 = st2\<lparr>srv_stall_windows :=
                          stall_rebaseline (srv_stall_windows st2) (led_session_id l) snapshot\<rparr>
          in (True,
              if \<not> polled 3
              then snd (enqueue_system_steering uuid now (led_session_id l) steering_text
                          ''steer_replan'' st3)
              else st3)
      | (_, st1) \<Rightarrow> (False, st1))"

definition act_block ::
    "'j serde \<Rightarrow> i64 \<Rightarrow> (nat \<Rightarrow> bool) \<Rightarrow> SessionTaskLedger \<Rightarrow> string \<Rightarrow> 'j ServerState
       \<Rightarrow> bool \<times> 'j ServerState" where
  "act_block sd now polled l reason st =
     (case apply_task_ledger_op_unless_cancelled sd now (polled 2) (led_session_id l) (led_revision l)
             (SetStatus Blocked None (Some reason)) st of
        (Inr (Some _), st1) \<Rightarrow> (True, st1)
      | (_, st1) \<Rightarrow> (False, st1))"

definition record_stall_frame ::
    "'j serde \<Rightarrow> string \<Rightarrow> i64 \<Rightarrow> (nat \<Rightarrow> bool) \<Rightarrow> (nat \<Rightarrow> 'j ServerState \<Rightarrow> 'j ServerState)
       \<Rightarrow> SessionTaskLedger \<Rightarrow> bool \<Rightarrow> bool \<Rightarrow> 'j ServerState \<Rightarrow> 'j ServerState" where
  "record_stall_frame sd uuid now polled interfere l run_started auto_replan st =
     (let (d, ws) = stall_record (srv_stall_windows st) (led_session_id l) l run_started now
                      auto_replan (polled 0);
          st1 = st\<lparr>srv_stall_windows := ws\<rparr>
      in if sd_observations d = [] \<and> sd_action d = ActionNone then st1
         else let st2 = interfere 1 (note_decision sd now (led_session_id l) d (interfere 0 st1));
                  (action_persisted, st3) =
                    (if polled 1 then (False, st2)
                     else case sd_action d of
                        Replan _ next_statement steering_text \<Rightarrow>
                          act_replan sd uuid now polled interfere l next_statement steering_text st2
                      | Block reason \<Rightarrow> act_block sd now polled l reason st2
                      | ActionNone \<Rightarrow> (False, st2))
              in if action_persisted then st3 else persist_session (led_session_id l) st3)"

end
