(* ===== verification/Task_Ledger_Reducer.thy ===== *)
theory Task_Ledger_Reducer
  imports Server_State
begin

text \<open>
  The seam reducer of \<^verbatim>\<open>crates/agendao-server/src/session_runtime/task_ledger_reducer.rs\<close>: typed
  execution facts become ledger operations, one batch per seam; the deterministic verifier of
  acceptance criteria; the delivery gate and the projection that enters the prompt. Running a check
  command is outside the sources' own logic: its result is a parameter.
\<close>

section \<open>Facts to operations\<close>

datatype 'j TaskLedgerSeamFact =
    RunStarted
  | ToolBatchCompleted "'j ToolBatchSummary"
  | RecoveryInterrupted
  | FinalResponseCommitted
  | InteractionAwaiting AwaitingInteractionKind string
  | InteractionResolved AwaitingInteractionKind string
  | EvaluatorGateCompleted string bool u64

definition settled_by_for :: "'j ToolBatchSummary \<Rightarrow> string" where
  "settled_by_for summary =
     (case tb_pending_follow_up summary of
        follow_up # _ \<Rightarrow> fu_text follow_up
      | [] \<Rightarrow> ''next tool batch resolving this item'')"

definition unresolved_ops :: "'j ToolBatchSummary \<Rightarrow> SessionTaskLedger \<Rightarrow> TaskLedgerOp list" where
  "unresolved_ops summary snapshot =
     map (\<lambda>unresolved. OpOpenQuestion unresolved (settled_by_for summary))
       (filter (\<lambda>unresolved. \<not> list_ex (\<lambda>q. oq_question q = unresolved) (open_questions snapshot))
          (tb_unresolved_items summary))"

definition next_step_ops :: "'j ToolBatchSummary \<Rightarrow> TaskLedgerOp list" where
  "next_step_ops summary =
     (case tb_recommended_next_step summary of
        Some next_step \<Rightarrow> if trim next_step \<noteq> [] then [SetNext next_step (Some Model)] else []
      | None \<Rightarrow> [])"

definition blocked_ops :: "'j ToolBatchSummary \<Rightarrow> TaskLedgerOp list" where
  "blocked_ops summary =
     (if tb_goal_status summary = BatchBlocked \<and> tb_blocked_by summary \<noteq> [] then
        [SetStatus Blocked None
           (Some (case tb_blocked_by summary of
                    reason # _ \<Rightarrow> block_reason_debug reason
                  | [] \<Rightarrow> ''tool batch blocked''))]
      else [])"

definition reduce_tool_batch :: "'j ToolBatchSummary \<Rightarrow> SessionTaskLedger \<Rightarrow> TaskLedgerOp list" where
  "reduce_tool_batch summary snapshot =
     unresolved_ops summary snapshot @ next_step_ops summary @ blocked_ops summary"

definition evaluator_checkpoint :: "string \<Rightarrow> TaskLedgerOp" where
  "evaluator_checkpoint node_path =
     AddCheckpoint (''scheduler evaluation passed at `'' @ node_path @ ''`'')
       (VEvaluator ''scheduler-engine'')
       \<lparr>cov_scope = ''scheduler node evaluation: '' @ node_path\<rparr> [] [] (Some node_path) None"

fun reduce_fact :: "'j TaskLedgerSeamFact \<Rightarrow> SessionTaskLedger \<Rightarrow> TaskLedgerOp list" where
  "reduce_fact RunStarted snapshot =
     (if led_status snapshot = Interrupted then [SetStatus Active None None] else [])"
| "reduce_fact (ToolBatchCompleted summary) snapshot = reduce_tool_batch summary snapshot"
| "reduce_fact RecoveryInterrupted snapshot =
     (if led_status snapshot = Interrupted then [] else [Interrupt])"
| "reduce_fact FinalResponseCommitted snapshot =
     (if completion_ready snapshot \<and> led_status snapshot \<noteq> Completed then [Complete []] else [])"
| "reduce_fact (EvaluatorGateCompleted node_path passed goal_generation) snapshot =
     (if passed \<and> goal_generation = led_goal_generation snapshot
      then [evaluator_checkpoint node_path] else [])"
| "reduce_fact (InteractionAwaiting kind interaction_id) snapshot =
     (let reference = \<lparr>air_kind = kind, air_interaction_id = interaction_id\<rparr>
      in if reference \<in> set (led_awaiting_interactions snapshot) then []
         else [SetStatus AwaitingUser (Some reference) None])"
| "reduce_fact (InteractionResolved kind interaction_id) snapshot =
     (if list_ex (\<lambda>current. air_kind current = kind \<and> air_interaction_id current = interaction_id)
           (led_awaiting_interactions snapshot)
      then [ResolveInteraction kind interaction_id] else [])"

definition reduce :: "'j TaskLedgerSeamFact \<Rightarrow> SessionTaskLedger \<Rightarrow> TaskLedgerOp list" where
  "reduce seam snapshot = (if led_goal snapshot = None then [] else reduce_fact seam snapshot)"

fun cause_for_seam :: "'j TaskLedgerSeamFact \<Rightarrow> TaskLedgerCause" where
  "cause_for_seam RunStarted = CauseRecovery"
| "cause_for_seam (ToolBatchCompleted _) = CauseStatusChanged"
| "cause_for_seam RecoveryInterrupted = CauseStatusChanged"
| "cause_for_seam FinalResponseCommitted = CauseStatusChanged"
| "cause_for_seam (InteractionAwaiting _ _) = CauseStatusChanged"
| "cause_for_seam (InteractionResolved _ _) = CauseStatusChanged"
| "cause_for_seam (EvaluatorGateCompleted _ _ _) = CauseCheckpointAdded"

section \<open>Committing a seam\<close>

fun is_run_started :: "'j TaskLedgerSeamFact \<Rightarrow> bool" where
  "is_run_started RunStarted = True"
| "is_run_started _ = False"

fun feeds_window :: "'j TaskLedgerSeamFact \<Rightarrow> bool" where
  "feeds_window (ToolBatchCompleted _) = True"
| "feeds_window RunStarted = True"
| "feeds_window _ = False"

fun defer_persistence :: "'j TaskLedgerSeamFact \<Rightarrow> bool" where
  "defer_persistence RunStarted = True"
| "defer_persistence FinalResponseCommitted = True"
| "defer_persistence RecoveryInterrupted = True"
| "defer_persistence _ = False"

definition dispatch_seam_with_control ::
    "'j serde \<Rightarrow> string \<Rightarrow> i64 \<Rightarrow> (nat \<Rightarrow> bool) \<Rightarrow> (nat \<Rightarrow> 'j ServerState \<Rightarrow> 'j ServerState)
       \<Rightarrow> string \<Rightarrow> 'j TaskLedgerSeamFact \<Rightarrow> bool \<Rightarrow> 'j ServerState
       \<Rightarrow> SessionTaskLedger option \<times> 'j ServerState" where
  "dispatch_seam_with_control sd uuid now_ms polled interfere sid seam auto_replan st =
     (case srv_sessions st sid of
        None \<Rightarrow> (None, st)
      | Some s \<Rightarrow>
          let snapshot = session_ledger sd sid s; ops = reduce seam snapshot
          in if ops = [] then
               (None,
                if feeds_window seam
                then record_stall_frame sd uuid now_ms polled interfere snapshot (is_run_started seam)
                       auto_replan (interfere 3 st)
                else st)
             else case apply_batch snapshot (led_revision snapshot) ops now_ms of
               (Inl _, _) \<Rightarrow> (None, st)
             | (Inr _, staged) \<Rightarrow>
                 (case commit_snapshot_in_memory sd now_ms sid s staged (cause_for_seam seam) st of
                    (Inl _, st1) \<Rightarrow> (None, st1)
                  | (Inr _, st1) \<Rightarrow>
                      let st2 = interfere 3 st1;
                          st3 = (if defer_persistence seam then st2 else persist_session sid st2)
                      in (Some staged,
                          record_stall_frame sd uuid now_ms polled interfere staged
                            (is_run_started seam) auto_replan st3)))"

definition dispatch_seam ::
    "'j serde \<Rightarrow> string \<Rightarrow> i64 \<Rightarrow> (nat \<Rightarrow> 'j ServerState \<Rightarrow> 'j ServerState) \<Rightarrow> string
       \<Rightarrow> 'j TaskLedgerSeamFact \<Rightarrow> 'j ServerState \<Rightarrow> SessionTaskLedger option \<times> 'j ServerState" where
  "dispatch_seam sd uuid now_ms interfere sid seam st =
     dispatch_seam_with_control sd uuid now_ms (\<lambda>_. False) interfere sid seam False st"

definition dispatch_run_seam ::
    "'j serde \<Rightarrow> string \<Rightarrow> i64 \<Rightarrow> (nat \<Rightarrow> bool) \<Rightarrow> (nat \<Rightarrow> 'j ServerState \<Rightarrow> 'j ServerState)
       \<Rightarrow> string \<Rightarrow> 'j TaskLedgerSeamFact \<Rightarrow> bool \<Rightarrow> 'j ServerState
       \<Rightarrow> SessionTaskLedger option \<times> 'j ServerState" where
  "dispatch_run_seam sd uuid now_ms polled interfere sid seam auto_replan st =
     dispatch_seam_with_control sd uuid now_ms polled interfere sid seam auto_replan st"

definition dispatch_interaction ::
    "'j serde \<Rightarrow> string \<Rightarrow> i64 \<Rightarrow> (nat \<Rightarrow> 'j ServerState \<Rightarrow> 'j ServerState) \<Rightarrow> string
       \<Rightarrow> AwaitingInteractionKind \<Rightarrow> string \<Rightarrow> bool \<Rightarrow> 'j ServerState \<Rightarrow> 'j ServerState" where
  "dispatch_interaction sd uuid now_ms interfere sid kind interaction_id resolved st =
     snd (dispatch_seam sd uuid now_ms interfere sid
       (if resolved then InteractionResolved kind interaction_id
        else InteractionAwaiting kind interaction_id) st)"

section \<open>Deterministic verification of criteria\<close>

datatype CriterionVerificationOutcome = NotRequired | Passed | Failed | Cancelled

definition allows_final_commit :: "CriterionVerificationOutcome \<Rightarrow> bool" where
  "allows_final_commit outcome \<longleftrightarrow> outcome = NotRequired \<or> outcome = Passed"

text \<open>
  What one check ends with: the spawn fails, the run is cancelled while it is waited for, the wait
  fails, it exits (with success or not), or it is terminated after 120 seconds.
\<close>

datatype check_result = SpawnFailed | RunCancelled | WaitFailed | Exited bool | TimedOut

definition criterion_checkpoint :: "string \<Rightarrow> CriterionCheck \<Rightarrow> TaskLedgerOp" where
  "criterion_checkpoint workspace_dir check =
     AddCheckpoint (''deterministic check passed: '' @ cc_command check)
       (VDeterministicCheck (cc_command check)) \<lparr>cov_scope = ''exit 0 in '' @ workspace_dir\<rparr>
       [cc_criterion check] [] None None"

text \<open>
  The loop over the checks: the operations collected so far, or the outcome it returns early with.
  \<open>run_check i\<close> is the result of the check at position \<open>i\<close>.
\<close>

fun run_checks ::
    "(nat \<Rightarrow> CriterionCheck \<Rightarrow> check_result) \<Rightarrow> string \<Rightarrow> nat \<Rightarrow> CriterionCheck list
       \<Rightarrow> CriterionVerificationOutcome + TaskLedgerOp list" where
  "run_checks run_check workspace_dir i [] = Inr []"
| "run_checks run_check workspace_dir i (check # checks) =
     (case run_check i check of
        SpawnFailed \<Rightarrow> Inl Failed
      | RunCancelled \<Rightarrow> Inl Cancelled
      | WaitFailed \<Rightarrow> Inl Failed
      | TimedOut \<Rightarrow> Inl Failed
      | Exited False \<Rightarrow> Inl Failed
      | Exited True \<Rightarrow>
          (case run_checks run_check workspace_dir (Suc i) checks of
             Inl e \<Rightarrow> Inl e
           | Inr ops \<Rightarrow> Inr (criterion_checkpoint workspace_dir check # ops)))"

text \<open>The evidence transaction, under the second lock.\<close>

definition commit_evidence ::
    "'j serde \<Rightarrow> i64 \<Rightarrow> string \<Rightarrow> u64 \<Rightarrow> TaskLedgerOp list \<Rightarrow> 'j ServerState
       \<Rightarrow> CriterionVerificationOutcome \<times> 'j ServerState" where
  "commit_evidence sd now_ms sid revision ops st =
     (case srv_sessions st sid of
        None \<Rightarrow> (Failed, st)
      | Some s \<Rightarrow>
          (case apply_batch (session_ledger sd sid s) revision ops now_ms of
             (Inl _, _) \<Rightarrow> (Failed, st)
           | (Inr _, staged) \<Rightarrow>
               (case commit_snapshot_in_memory sd now_ms sid s staged CauseCheckpointAdded st of
                  (Inl _, st1) \<Rightarrow> (Failed, st1)
                | (Inr _, st1) \<Rightarrow> (Passed, persist_session sid st1))))"

definition verify_goal_criteria ::
    "'j serde \<Rightarrow> i64 \<Rightarrow> (nat \<Rightarrow> bool) \<Rightarrow> ('j ServerState \<Rightarrow> 'j ServerState)
       \<Rightarrow> (nat \<Rightarrow> CriterionCheck \<Rightarrow> check_result) \<Rightarrow> string \<Rightarrow> 'j ServerState
       \<Rightarrow> CriterionVerificationOutcome \<times> 'j ServerState" where
  "verify_goal_criteria sd now_ms polled interfere run_check sid st =
     (if polled 0 then (Cancelled, st)
      else case srv_sessions st sid of
        None \<Rightarrow> (NotRequired, st)
      | Some s \<Rightarrow>
          let snapshot = session_ledger sd sid s
          in case led_goal snapshot of
               None \<Rightarrow> (NotRequired, st)
             | Some g \<Rightarrow>
                 if goal_criterion_checks g = [] \<or> led_status snapshot = Completed
                 then (NotRequired, st)
                 else let st1 = interfere st
                      in case run_checks run_check (ses_directory s) 0 (goal_criterion_checks g) of
                           Inl outcome \<Rightarrow> (outcome, st1)
                         | Inr ops \<Rightarrow>
                             if polled 1 \<or> polled 2 then (Cancelled, st1)
                             else commit_evidence sd now_ms sid (led_revision snapshot) ops st1)"

section \<open>Delivery gate and projection\<close>

record DeliveryGateReport =
  gate_open_questions_outstanding :: "string list"
  gate_no_verified_checkpoints :: bool
  gate_missing_acceptance_criteria :: "string list"
  gate_uncovered_criteria :: "string list"

definition final_delivery_gate :: "SessionTaskLedger \<Rightarrow> DeliveryGateReport" where
  "final_delivery_gate snapshot =
     \<lparr>gate_open_questions_outstanding =
        map (\<lambda>q. oq_id q @ '': '' @ oq_question q) (open_questions snapshot),
      gate_no_verified_checkpoints = (current_checkpoints snapshot = []),
      gate_missing_acceptance_criteria =
        missing_acceptance_criteria snapshot (led_uncovered_criteria snapshot),
      gate_uncovered_criteria = led_uncovered_criteria snapshot\<rparr>"

text \<open>The em dash of the \<open>Open\<close> line is the UTF-8 byte sequence E2 80 94.\<close>

definition em_dash :: string where
  "em_dash = [CHR 0xE2, CHR 0x80, CHR 0x94]"

definition projection_header :: "SessionTaskLedger \<Rightarrow> string list" where
  "projection_header snapshot =
     [''<task-ledger revision=\"'' @ show_nat (unat (led_revision snapshot)) @ ''\" status=\"''
        @ status_debug (led_status snapshot) @ ''\" authority=\"server\" writable=\"false\">'',
      ''This typed block is the only task-ledger authority. Do not create or update task-ledger.txt, WORKSPACE.md, or any local mirror; make progress in the requested artifacts instead.'']"

definition projection_goal :: "TaskGoal \<Rightarrow> string list" where
  "projection_goal g =
     [''Goal: '' @ goal_statement g]
     @ (if goal_acceptance_criteria g \<noteq> []
        then [''Accept: '' @ join '' | '' (goal_acceptance_criteria g)] else [])"

definition projection_checkpoint :: "VerifiedCheckpoint \<Rightarrow> string" where
  "projection_checkpoint c =
     ''Verified['' @ cp_id c @ '']: '' @ cp_claim c @ '' (by '' @ describe (cp_verifier c)
       @ '', covered: '' @ cov_scope (cp_coverage c) @ '')''"

definition projection_question :: "OpenQuestion \<Rightarrow> string" where
  "projection_question q =
     ''Open['' @ oq_id q @ '']: '' @ oq_question q @ '' '' @ em_dash @ '' settled by: ''
       @ oq_settled_by q"

definition render_ledger_projection :: "SessionTaskLedger \<Rightarrow> string option" where
  "render_ledger_projection snapshot =
     (if led_revision snapshot = 0 \<or> led_goal snapshot = None then None
      else Some (join [CHR 10]
        (projection_header snapshot
         @ (case led_goal snapshot of Some g \<Rightarrow> projection_goal g | None \<Rightarrow> [])
         @ map (\<lambda>e. ''Core(live): '' @ core_statement e) (live_core snapshot)
         @ (if current_checkpoints snapshot = [] then []
            else [projection_checkpoint (last (current_checkpoints snapshot))])
         @ map projection_question (take 3 (open_questions snapshot))
         @ (case led_next snapshot of Some n \<Rightarrow> [''Next: '' @ na_statement n] | None \<Rightarrow> [])
         @ [''</task-ledger>''])))"

end
