(* ===== verification/Server_Properties.thy ===== *)
theory Server_Properties
  imports Task_Ledger_Reducer
begin

text \<open>
  The ledger authority as a concurrent system. Each write path is one authority step: it changes at
  most one session's ledger, to the result of a committed write, and publishes exactly that ledger.
  Handlers are runs of such steps, whatever other handlers do where they release the lock, so the
  properties hold for every interleaving.
\<close>

section \<open>One authority write\<close>

lemma validate_actor_Inr: "validate_actor a = Inr u \<longleftrightarrow> a = Some User"
  by (simp add: validate_actor_def res_simps)

lemma validate_external_verifier_Inr:
  "validate_external_verifier v = Inr u \<longleftrightarrow> v = VUserConfirmation ''user''"
  by (cases v) (auto simp: res_simps)

lemma session_ledger_put:
  assumes "serde_ok sd" and "to_value sd l = Inr v" and "led_session_id l = sid"
  shows "session_ledger sd sid (insert_metadata now TASK_LEDGER_METADATA_KEY v s) = l"
  using assms by (simp add: session_ledger_def ledger_snapshot_from_record_def insert_metadata_def
      serde_ok_def)

lemma session_ledger_id: "led_session_id (session_ledger sd sid s) = sid"
  by (simp add: session_ledger_def ledger_snapshot_from_record_def ledger_empty_def
      split: option.split)

definition ledger_of :: "'j serde \<Rightarrow> 'j ServerState \<Rightarrow> string \<Rightarrow> SessionTaskLedger option" where
  "ledger_of sd st sid = map_option (session_ledger sd sid) (srv_sessions st sid)"

definition ledger_events :: "'j ServerState \<Rightarrow> string \<Rightarrow> SessionTaskLedger list" where
  "ledger_events st sid = List.map_filter
     (\<lambda>e. case e of TaskLedgerReplaced s l _ \<Rightarrow> if s = sid then Some l else None | _ \<Rightarrow> None)
     (srv_events st)"

lemma session_ledger_other_key:
  "key \<noteq> TASK_LEDGER_METADATA_KEY \<Longrightarrow>
     session_ledger sd sid (insert_metadata now key v s) = session_ledger sd sid s"
  "key \<noteq> TASK_LEDGER_METADATA_KEY \<Longrightarrow>
     session_ledger sd sid (remove_metadata now key s) = session_ledger sd sid s"
  by (simp_all add: session_ledger_def insert_metadata_def remove_metadata_def)

lemma ledger_keys [simp]:
  "CONFLICT_COUNT_KEY \<noteq> TASK_LEDGER_METADATA_KEY"
  "TASK_LEDGER_AUTO_CONTINUATION_METADATA_KEY \<noteq> TASK_LEDGER_METADATA_KEY"
  "''stall_observation'' \<noteq> TASK_LEDGER_METADATA_KEY"
  by (simp_all add: CONFLICT_COUNT_KEY_def TASK_LEDGER_AUTO_CONTINUATION_METADATA_KEY_def
      TASK_LEDGER_METADATA_KEY_def)

lemma ledger_of_simps [simp]:
  "ledger_of sd (persist_session k st) sid = ledger_of sd st sid"
  "ledger_of sd (broadcast_server_event e st) sid = ledger_of sd st sid"
  "ledger_of sd (put_session k s st) sid =
     (if sid = k then Some (session_ledger sd sid s) else ledger_of sd st sid)"
  by (simp_all add: ledger_of_def persist_session_def broadcast_server_event_def put_session_def)

lemma ledger_events_simps [simp]:
  "ledger_events (persist_session k st) sid = ledger_events st sid"
  "ledger_events (put_session k s st) sid = ledger_events st sid"
  "ledger_events (broadcast_server_event (TaskLedgerReplaced k l c) st) sid =
     ledger_events st sid @ (if k = sid then [l] else [])"
  "ledger_events (broadcast_server_event (SessionUpdated k w) st) sid = ledger_events st sid"
  by (simp_all add: ledger_events_def persist_session_def broadcast_server_event_def
      put_session_def map_filter_def)

text \<open>What any write of the authority may do to the ledgers and to the bus.\<close>

definition authority_step ::
    "'j serde \<Rightarrow> 'j ServerState \<Rightarrow> 'j ServerState \<Rightarrow> bool" where
  "authority_step sd st st' \<longleftrightarrow>
     (\<forall>sid. ledger_of sd st' sid = ledger_of sd st sid \<and> ledger_events st' sid = ledger_events st sid)
     \<or> (\<exists>k l l' expected w r. ledger_of sd st k = Some l \<and> commit_write l expected w = (Inr r, l')
          \<and> ledger_of sd st' k = Some l' \<and> ledger_events st' k = ledger_events st k @ [l']
          \<and> (\<forall>sid. sid \<noteq> k \<longrightarrow> ledger_of sd st' sid = ledger_of sd st sid
               \<and> ledger_events st' sid = ledger_events st sid))"

lemma commit_snapshot_step:
  assumes "serde_ok sd" and "srv_sessions st sid = Some s"
    and "commit_write (session_ledger sd sid s) expected w = (Inr r, l')"
    and "session_ledger sd sid s1 = session_ledger sd sid s"
    and "commit_snapshot_in_memory sd now sid s1 l' cause st1 = (Inr u, st')"
    and "\<And>k. k \<noteq> sid \<Longrightarrow> ledger_of sd st1 k = ledger_of sd st k"
    and "\<And>k. ledger_events st1 k = ledger_events st k"
  shows "authority_step sd st st' \<and> ledger_of sd st' sid = Some l'
     \<and> ledger_events st' sid = ledger_events st sid @ [l']"
proof -
  have "led_session_id l' = sid"
    using commit_write_session [OF assms(3)] by (simp add: session_ledger_id)
  moreover from assms(5) obtain v where v: "to_value sd l' = Inr v" and
    st': "st' = broadcast_server_event (TaskLedgerReplaced sid l' cause)
             (put_session sid (insert_metadata now TASK_LEDGER_METADATA_KEY v s1) st1)"
    by (auto simp: commit_snapshot_in_memory_def split: sum.splits)
  ultimately have "ledger_of sd st' sid = Some l'"
    using assms(1) by (simp add: session_ledger_put)
  moreover have "ledger_of sd st sid = Some (session_ledger sd sid s)"
    using assms(2) by (simp add: ledger_of_def)
  ultimately show ?thesis
    using assms(3,6,7) unfolding authority_step_def st' by auto
qed

abbreviation silent :: "'j serde \<Rightarrow> 'j ServerState \<Rightarrow> 'j ServerState \<Rightarrow> bool" where
  "silent sd st st' \<equiv>
     (\<forall>sid. ledger_of sd st' sid = ledger_of sd st sid \<and> ledger_events st' sid = ledger_events st sid)"

lemma silent_step: "silent sd st st' \<Longrightarrow> authority_step sd st st'"
  by (simp add: authority_step_def)

lemma silent_put:
  assumes "srv_sessions st sid = Some s" "session_ledger sd sid s1 = session_ledger sd sid s"
  shows "silent sd st (put_session sid s1 st)"
  using assms by (simp add: ledger_of_def put_session_def ledger_events_def)

lemma silent_note_conflict:
  "srv_sessions st sid = Some s \<Longrightarrow> silent sd st (note_conflict sd now sid s st)"
  by (simp add: note_conflict_def Let_def session_ledger_other_key) (simp add: ledger_of_def)

lemma silent_note_decision: "silent sd st (note_decision sd now sid d st)"
  by (simp add: note_decision_def session_ledger_other_key split: option.split)
     (simp add: ledger_of_def)

lemma silent_stall_windows: "silent sd st (st\<lparr>srv_stall_windows := ws\<rparr>)"
  by (simp add: ledger_of_def ledger_events_def)

lemma silent_steering: "silent sd st (snd (enqueue_system_steering uuid now sid t p st))"
  by (simp add: enqueue_system_steering_def Let_def) (simp add: ledger_of_def ledger_events_def)

lemma commit_snapshot_Inl:
  "commit_snapshot_in_memory sd now sid s l cause st = (Inl e, st') \<Longrightarrow> st' = st"
  by (auto simp: commit_snapshot_in_memory_def split: sum.splits)

lemma authority_step_persist:
  "authority_step sd st (persist_session sid st') = authority_step sd st st'"
  by (simp add: authority_step_def)

text \<open>Every write path ends in the same commit; on failure it leaves the state it started from.\<close>

lemma commit_snapshot_snd_step:
  assumes "serde_ok sd" and "srv_sessions st sid = Some s"
    and "commit_write (session_ledger sd sid s) expected w = (Inr r, l')"
    and "session_ledger sd sid s1 = session_ledger sd sid s" and "silent sd st st1"
  shows "authority_step sd st (snd (commit_snapshot_in_memory sd now sid s1 l' cause st1))"
proof (cases "commit_snapshot_in_memory sd now sid s1 l' cause st1")
  case (Pair c st')
  show ?thesis
  proof (cases c)
    case (Inl e)
    with Pair have "st' = st1" by (auto dest: commit_snapshot_Inl)
    with Pair assms(5) show ?thesis by (simp add: silent_step)
  next
    case (Inr u)
    with commit_snapshot_step [OF assms(1-4) Pair [unfolded Inr]] assms(5) Pair
    show ?thesis by simp
  qed
qed

lemma apply_unless_cancelled_step:
  assumes "serde_ok sd"
  shows "authority_step sd st
    (snd (apply_task_ledger_op_unless_cancelled sd now canc sid expected x st))"
proof (cases "canc \<or> srv_sessions st sid = None")
  case True
  then show ?thesis by (auto simp: apply_task_ledger_op_unless_cancelled_def intro: silent_step)
next
  case False
  then obtain s where s: "srv_sessions st sid = Some s" and live: "\<not> canc" by auto
  obtain res l' where run: "ledger_apply (session_ledger sd sid s) expected x now = (res, l')"
    by (cases "ledger_apply (session_ledger sd sid s) expected x now")
  show ?thesis
  proof (cases res)
    case (Inl e)
    with run s live silent_note_conflict [OF s] show ?thesis
      by (auto simp: apply_task_ledger_op_unless_cancelled_def intro!: silent_step)
  next
    case (Inr r)
    then have w: "commit_write (session_ledger sd sid s) expected (WBatch [x] now) = (Inr r, l')"
      using run by (simp add: ledger_apply_def)
    show ?thesis
      using commit_snapshot_snd_step [OF assms s w refl, of st now "cause_for_op x"] run s live Inr
      by (auto simp: apply_task_ledger_op_unless_cancelled_def authority_step_persist
          split: prod.splits sum.splits)
  qed
qed

lemma start_task_goal_step:
  assumes "serde_ok sd"
  shows "authority_step sd st (snd (start_task_goal sd now sid raw st))"
proof (cases "srv_sessions st sid")
  case None
  then show ?thesis by (simp add: start_task_goal_def Let_def silent_step)
next
  case (Some s)
  let ?l = "session_ledger sd sid s"
  let ?g = "\<lparr>goal_statement = trim raw, goal_acceptance_criteria = [], goal_criterion_checks = [],
      goal_set_by = User, goal_set_at = now\<rparr>"
  let ?s1 = "remove_metadata now TASK_LEDGER_AUTO_CONTINUATION_METADATA_KEY s"
  obtain res l' where run: "start_goal ?l (led_revision ?l) ?g (trim raw) now = (res, l')"
    by (cases "start_goal ?l (led_revision ?l) ?g (trim raw) now")
  show ?thesis
  proof (cases "trim raw = [] \<or> led_awaiting_interactions ?l \<noteq> [] \<or> (\<exists>e. res = Inl e)")
    case True
    then show ?thesis using Some run by (auto simp: start_task_goal_def Let_def intro!: silent_step)
  next
    case False
    then obtain r where res: "res = Inr r" by (cases res) auto
    have w: "commit_write ?l (led_revision ?l) (WStartGoal ?g (trim raw) now) = (Inr r, l')"
      using run res by simp
    have keep: "session_ledger sd sid ?s1 = ?l" by (simp add: session_ledger_other_key)
    have "authority_step sd st
        (snd (commit_snapshot_in_memory sd now sid ?s1 l' cause (put_session sid ?s1 st)))" for cause
      using commit_snapshot_snd_step [OF assms Some w keep silent_put [OF Some keep]] .
    from this [of "if led_goal ?l \<noteq> None then CauseGoalUpdated else CauseCreated"] show ?thesis
      using Some run False res
      by (auto simp: start_task_goal_def Let_def authority_step_persist
          split: prod.splits sum.splits)
  qed
qed

section \<open>Handlers as runs of authority steps\<close>

abbreviation authority_run :: "'j serde \<Rightarrow> 'j ServerState \<Rightarrow> 'j ServerState \<Rightarrow> bool" where
  "authority_run sd \<equiv> (authority_step sd)\<^sup>*\<^sup>*"

lemma run_silent: "authority_run sd st st1 \<Longrightarrow> silent sd st1 st2 \<Longrightarrow> authority_run sd st st2"
  by (meson rtranclp.rtrancl_into_rtrancl silent_step)

lemma act_replan_run:
  assumes "serde_ok sd" and "\<And>k s. authority_run sd s (interfere k s)"
  shows "authority_run sd st (snd (act_replan sd uuid now polled interfere l nxt txt st))"
proof -
  let ?p = "apply_task_ledger_op_unless_cancelled sd now (polled 2) (led_session_id l)
      (led_revision l) (SetNext nxt (Some System)) st"
  have st1: "authority_run sd st (snd ?p)"
    using apply_unless_cancelled_step [OF assms(1)] by blast
  then have st2: "authority_run sd st (interfere 2 (snd ?p))"
    using assms(2) by (rule rtranclp_trans)
  let ?st3 = "(interfere 2 (snd ?p))\<lparr>srv_stall_windows := ws\<rparr>"
  have st3: "authority_run sd st ((interfere 2 (snd ?p))\<lparr>srv_stall_windows := ws\<rparr>)" for ws
    using run_silent [OF st2 silent_stall_windows] .
  have st4: "authority_run sd st (snd (enqueue_system_steering uuid now k t i
      ((interfere 2 (snd ?p))\<lparr>srv_stall_windows := ws\<rparr>)))" for ws k t i
    using run_silent [OF st3 silent_steering] .
  show ?thesis
    using st1 st3 st4
    by (auto simp: act_replan_def Let_def split: prod.splits sum.splits option.splits)
qed

lemma act_block_run:
  assumes "serde_ok sd"
  shows "authority_run sd st (snd (act_block sd now polled l reason st))"
  using apply_unless_cancelled_step [OF assms, of st now "polled 2" "led_session_id l"
      "led_revision l" "SetStatus Blocked None (Some reason)"]
  by (auto simp: act_block_def split: prod.splits sum.splits option.splits)

lemma record_stall_frame_run:
  assumes "serde_ok sd" and env: "\<And>k s. authority_run sd s (interfere k s)"
  shows "authority_run sd st (record_stall_frame sd uuid now polled interfere l rs auto st)"
proof -
  obtain d ws where d: "stall_record (srv_stall_windows st) (led_session_id l) l rs now auto (polled 0)
      = (d, ws)" by (cases "stall_record (srv_stall_windows st) (led_session_id l) l rs now auto (polled 0)")
  let ?st1 = "st\<lparr>srv_stall_windows := ws\<rparr>"
  let ?st2 = "interfere 1 (note_decision sd now (led_session_id l) d (interfere 0 ?st1))"
  have st1: "authority_run sd st ?st1"
    using run_silent [OF rtranclp.rtrancl_refl silent_stall_windows] .
  have "authority_run sd st (interfere 0 ?st1)" using st1 env by (rule rtranclp_trans)
  then have "authority_run sd st (note_decision sd now (led_session_id l) d (interfere 0 ?st1))"
    using run_silent silent_note_decision by blast
  then have st2: "authority_run sd st ?st2" using env by (rule rtranclp_trans)
  have replan: "\<And>nxt txt. authority_run sd st (snd (act_replan sd uuid now polled interfere l nxt txt ?st2))"
    by (rule rtranclp_trans [OF st2 act_replan_run [where interfere = interfere, OF assms]])
  have block: "\<And>reason. authority_run sd st (snd (act_block sd now polled l reason ?st2))"
    by (rule rtranclp_trans [OF st2 act_block_run [OF assms(1)]])
  have flush: "authority_run sd st (persist_session k st')" if "authority_run sd st st'" for k st'
    using run_silent [OF that, of "persist_session k st'"] by simp
  show ?thesis
    using d st1 st2 replan block flush
    by (cases "sd_action d") (simp_all add: record_stall_frame_def Let_def split_def)
qed

lemma dispatch_seam_run:
  assumes "serde_ok sd" and env: "\<And>k s. authority_run sd s (interfere k s)"
  shows "authority_run sd st
    (snd (dispatch_seam_with_control sd uuid now polled interfere sid f auto st))"
proof (cases "srv_sessions st sid")
  case None
  then show ?thesis by (simp add: dispatch_seam_with_control_def)
next
  case (Some s)
  let ?l = "session_ledger sd sid s" and ?ops = "reduce f (session_ledger sd sid s)"
  note frame = record_stall_frame_run [where interfere = interfere, OF assms]
  show ?thesis
  proof (cases "?ops = []")
    case True
    have "authority_run sd st (record_stall_frame sd uuid now polled interfere ?l (is_run_started f)
        auto (interfere 3 st))" by (rule rtranclp_trans [OF env frame])
    then show ?thesis using True Some by (simp add: dispatch_seam_with_control_def Let_def)
  next
    case False
    obtain res l' where run: "apply_batch ?l (led_revision ?l) ?ops now = (res, l')"
      by (cases "apply_batch ?l (led_revision ?l) ?ops now")
    show ?thesis
    proof (cases res)
      case (Inl e)
      then show ?thesis using run False Some by (simp add: dispatch_seam_with_control_def Let_def)
    next
      case (Inr r)
      then have w: "commit_write ?l (led_revision ?l) (WBatch ?ops now) = (Inr r, l')"
        using run by simp
      obtain c st1 where com: "commit_snapshot_in_memory sd now sid s l' (cause_for_seam f) st = (c, st1)"
        by (cases "commit_snapshot_in_memory sd now sid s l' (cause_for_seam f) st")
      have st1: "authority_run sd st st1"
        using commit_snapshot_snd_step [OF assms(1) Some w refl, of st now "cause_for_seam f"] com by auto
      then have st2: "authority_run sd st (interfere 3 st1)" using env by (rule rtranclp_trans)
      then have st3: "authority_run sd st (persist_session sid (interfere 3 st1))"
        using run_silent [OF st2, of "persist_session sid (interfere 3 st1)"] by simp
      show ?thesis
        using run False Some Inr com st1 rtranclp_trans [OF st2 frame] rtranclp_trans [OF st3 frame]
        by (cases c) (simp_all add: dispatch_seam_with_control_def Let_def)
    qed
  qed
qed

lemma commit_evidence_step:
  assumes "serde_ok sd"
  shows "authority_step sd st (snd (commit_evidence sd now sid revision ops st))"
proof (cases "srv_sessions st sid")
  case None
  then show ?thesis by (simp add: commit_evidence_def silent_step)
next
  case (Some s)
  obtain res l' where run: "apply_batch (session_ledger sd sid s) revision ops now = (res, l')"
    by (cases "apply_batch (session_ledger sd sid s) revision ops now")
  show ?thesis
  proof (cases res)
    case (Inl e)
    then show ?thesis using run Some by (simp add: commit_evidence_def silent_step)
  next
    case (Inr r)
    then have w: "commit_write (session_ledger sd sid s) revision (WBatch ops now) = (Inr r, l')"
      using run by simp
    show ?thesis
      using commit_snapshot_snd_step [OF assms Some w refl, of st now CauseCheckpointAdded] run Some Inr
      by (auto simp: commit_evidence_def authority_step_persist split: prod.splits sum.splits)
  qed
qed

lemma verify_goal_criteria_run:
  assumes "serde_ok sd" and env: "\<And>s. authority_run sd s (interfere s)"
  shows "authority_run sd st (snd (verify_goal_criteria sd now polled interfere run_check sid st))"
proof -
  have "authority_run sd st (snd (commit_evidence sd now sid r ops (interfere st)))" for r ops
    using env [of st] commit_evidence_step [OF assms(1)] by (rule rtranclp.rtrancl_into_rtrancl)
  then show ?thesis
    using env [of st]
    by (auto simp: verify_goal_criteria_def Let_def split: option.splits sum.splits)
qed

section \<open>The server\<close>

text \<open>
  What the ledger handlers of a server can do together: any calls, in any order, and inside a call,
  wherever it releases the session lock, anything the other handlers can do.
\<close>

inductive server_run :: "'j serde \<Rightarrow> 'j ServerState \<Rightarrow> 'j ServerState \<Rightarrow> bool" for sd where
  idle: "server_run sd st st"
| apply_call: "server_run sd st st1 \<Longrightarrow>
    server_run sd st (snd (apply_task_ledger_op_unless_cancelled sd now canc sid expected x st1))"
| goal_call: "server_run sd st st1 \<Longrightarrow> server_run sd st (snd (start_task_goal sd now sid raw st1))"
| seam_call: "server_run sd st st1 \<Longrightarrow> (\<And>k s. server_run sd s (interfere k s)) \<Longrightarrow>
    server_run sd st
      (snd (dispatch_seam_with_control sd uuid now polled interfere sid f auto st1))"
| verify_call: "server_run sd st st1 \<Longrightarrow> (\<And>s. server_run sd s (env s)) \<Longrightarrow>
    server_run sd st (snd (verify_goal_criteria sd now polled env run_check sid st1))"

lemma server_run_authority:
  assumes "server_run sd st st'" and "serde_ok sd"
  shows "authority_run sd st st'"
  using assms(1)
proof (induction rule: server_run.induct)
  case (apply_call st st1 now canc sid expected x)
  then show ?case
    using apply_unless_cancelled_step [OF assms(2)] by (meson rtranclp.rtrancl_into_rtrancl)
next
  case (goal_call st st1 now sid raw)
  then show ?case using start_task_goal_step [OF assms(2)] by (meson rtranclp.rtrancl_into_rtrancl)
next
  case (seam_call st st1 interfere uuid now polled sid f auto)
  then show ?case using dispatch_seam_run [where interfere = interfere, OF assms(2)] by (meson rtranclp_trans)
next
  case (verify_call st st1 env now polled run_check sid)
  then show ?case
    using verify_goal_criteria_run [where interfere = env, OF assms(2)] by (meson rtranclp_trans)
qed simp

text \<open>The bus shows a session's ledgers one after the other, each the successor of the one before.\<close>

definition ledger_ok :: "SessionTaskLedger \<Rightarrow> bool" where
  "ledger_ok l \<longleftrightarrow> ledger_wf l \<and> (led_goal l = None \<or> validate_snapshot l = Inr ())"

fun successors :: "SessionTaskLedger \<Rightarrow> SessionTaskLedger list \<Rightarrow> bool" where
  "successors l [] \<longleftrightarrow> True"
| "successors l (l' # ls) \<longleftrightarrow> led_revision l' = led_revision l + 1
     \<and> history_extends (led_verified l) (led_verified l')
     \<and> (ledger_ok l \<longrightarrow> ledger_ok l') \<and> successors l' ls"

lemma successors_snoc:
  "successors l (ls @ [l']) \<longleftrightarrow> successors l ls
     \<and> led_revision l' = led_revision (last (l # ls)) + 1
     \<and> history_extends (led_verified (last (l # ls))) (led_verified l')
     \<and> (ledger_ok (last (l # ls)) \<longrightarrow> ledger_ok l')"
  by (induction ls arbitrary: l) auto

lemma commit_write_successor:
  assumes "commit_write l expected w = (Inr r, l')"
  shows "led_revision l' = led_revision l + 1 \<and> history_extends (led_verified l) (led_verified l')
     \<and> (ledger_ok l \<longrightarrow> ledger_ok l')"
  using ledger_cas.accepted_bump [OF assms] commit_write_history [of l expected w] assms
    commit_write_wf [OF _ assms] by (simp add: ledger_ok_def)

lemma authority_run_events:
  assumes "authority_run sd st st'"
  shows "\<exists>ls. ledger_events st' sid = ledger_events st sid @ ls
    \<and> (case ledger_of sd st sid of
         None \<Rightarrow> ls = [] \<and> ledger_of sd st' sid = None
       | Some l \<Rightarrow> successors l ls \<and> ledger_of sd st' sid = Some (last (l # ls)))"
  using assms
proof (induction rule: rtranclp_induct)
  case base
  show ?case by (intro exI [of _ "[]"]) (simp split: option.split)
next
  case (step st1 st2)
  then obtain ls where ls: "ledger_events st1 sid = ledger_events st sid @ ls"
    "case ledger_of sd st sid of
         None \<Rightarrow> ls = [] \<and> ledger_of sd st1 sid = None
       | Some l \<Rightarrow> successors l ls \<and> ledger_of sd st1 sid = Some (last (l # ls))" by blast
  from step.hyps(2) consider "ledger_of sd st2 sid = ledger_of sd st1 sid"
      "ledger_events st2 sid = ledger_events st1 sid"
    | l l' expected w r where "ledger_of sd st1 sid = Some l" "commit_write l expected w = (Inr r, l')"
      "ledger_of sd st2 sid = Some l'" "ledger_events st2 sid = ledger_events st1 sid @ [l']"
    unfolding authority_step_def by metis
  then show ?case
  proof cases
    case 1
    with ls show ?thesis by (intro exI [of _ ls]) (simp split: option.splits)
  next
    case 2
    with ls commit_write_successor [OF 2(2)] show ?thesis
      by (intro exI [of _ "ls @ [l']"]) (auto simp: successors_snoc split: option.splits)
  qed
qed

section \<open>Running the checks\<close>

lemma run_checks_Inr:
  "run_checks f dir i cs = Inr ops \<longleftrightarrow>
     (\<forall>j<length cs. f (i + j) (cs ! j) = Exited True) \<and> ops = map (criterion_checkpoint dir) cs"
proof (induction cs arbitrary: i ops)
  case (Cons c cs)
  have all: "(\<forall>j<length (c # cs). f (i + j) ((c # cs) ! j) = Exited True) \<longleftrightarrow>
      f i c = Exited True \<and> (\<forall>j<length cs. f (Suc i + j) (cs ! j) = Exited True)"
    by (auto simp: less_Suc_eq_0_disj)
  show ?case
  proof (cases "run_checks f dir (Suc i) cs")
    case (Inl e)
    then show ?thesis
      unfolding all using Cons.IH [of "Suc i"]
      by (simp split: check_result.splits bool.splits) blast
  next
    case (Inr xs)
    then show ?thesis
      unfolding all using Cons.IH [of "Suc i" xs]
      by (auto split: check_result.splits bool.splits)
  qed
qed auto

lemma run_checks_Inl: "run_checks f dir i cs = Inl o' \<Longrightarrow> o' = Failed \<or> o' = Cancelled"
  by (induction cs arbitrary: i) (auto split: check_result.splits bool.splits sum.splits)

definition evidence_for :: "SessionTaskLedger \<Rightarrow> CriterionCheck \<Rightarrow> bool" where
  "evidence_for l check \<longleftrightarrow> (\<exists>k\<in>set (led_verified l). is_current l k
     \<and> cp_verifier k = VDeterministicCheck (cc_command check)
     \<and> cp_covered_criteria k = [cc_criterion check])"

lemma criterion_checkpoint_apply:
  assumes "apply_op now l (criterion_checkpoint dir check) = Inr l'"
  shows "\<exists>k. l' = l\<lparr>led_verified := led_verified l @ [k]\<rparr> \<and> is_current l' k
    \<and> cp_verifier k = VDeterministicCheck (cc_command check)
    \<and> cp_covered_criteria k = [cc_criterion check]"
  using assms by (auto simp: criterion_checkpoint_def op_Inr supersede_target_def is_current_def)

lemma criterion_checkpoints_apply:
  assumes "res_fold (apply_op now) l (map (criterion_checkpoint dir) cs) = Inr l'"
  shows "\<exists>ks. l' = l\<lparr>led_verified := led_verified l @ ks\<rparr> \<and> (\<forall>c\<in>set cs. evidence_for l' c)"
  using assms
proof (induction cs arbitrary: l)
  case Nil
  then show ?case by (intro exI [of _ "[]"]) simp
next
  case (Cons c cs)
  then obtain l1 where l1: "apply_op now l (criterion_checkpoint dir c) = Inr l1"
      "res_fold (apply_op now) l1 (map (criterion_checkpoint dir) cs) = Inr l'"
    by (auto simp: res_simps)
  obtain k where k: "l1 = l\<lparr>led_verified := led_verified l @ [k]\<rparr>" "is_current l1 k"
      "cp_verifier k = VDeterministicCheck (cc_command c)" "cp_covered_criteria k = [cc_criterion c]"
    using criterion_checkpoint_apply [OF l1(1)] by blast
  obtain ks where ks: "l' = l1\<lparr>led_verified := led_verified l1 @ ks\<rparr>" "\<forall>c\<in>set cs. evidence_for l' c"
    using Cons.IH [OF l1(2)] by blast
  have "evidence_for l' c"
    unfolding evidence_for_def using k ks(1) by (intro bexI [of _ k]) (simp_all add: is_current_def)
  then show ?case using k(1) ks by (intro exI [of _ "k # ks"]) simp
qed

section \<open>Properties of the authority\<close>


text \<open>
  \<^bold>\<open>Note.\<close> Governance survives the server: if a session starts with no ledger, then whatever the
  handlers do and however they interleave, its stored ledger is well formed and passes the snapshot
  check once it has a goal; in particular a completed one has its evidence.
\<close>

theorem server_ledgers_stay_governed:
  assumes "server_run sd st st'" and "serde_ok sd" and "srv_sessions st sid = Some s"
    and "ses_metadata s TASK_LEDGER_METADATA_KEY = None"
  shows "\<exists>l. ledger_of sd st' sid = Some l \<and> ledger_wf l
    \<and> (led_goal l \<noteq> None \<longrightarrow> validate_snapshot l = Inr ())
    \<and> (led_status l = Completed \<longrightarrow> missing_acceptance_criteria l (led_uncovered_criteria l) = []
         \<and> open_questions l = [])"
proof -
  have empty: "session_ledger sd sid s = ledger_empty sid"
    using assms(4) by (simp add: session_ledger_def ledger_snapshot_from_record_def)
  have ok: "successors l ls \<Longrightarrow> ledger_ok l \<Longrightarrow> ledger_ok (last (l # ls))" for l ls
    by (induction ls arbitrary: l) auto
  have "ledger_ok (ledger_empty sid)"
    by (simp add: ledger_ok_def ledger_wf_empty) (simp add: ledger_empty_def)
  then obtain l where l: "ledger_of sd st' sid = Some l" "ledger_ok l"
    using authority_run_events [OF server_run_authority [OF assms(1,2)], of sid] assms(3) empty ok
    by (auto simp: ledger_of_def simp del: last.simps)
  have "missing_acceptance_criteria l (led_uncovered_criteria l) = [] \<and> open_questions l = []"
    if "led_status l = Completed"
    using l(2) that
    by (cases "led_goal l")
       (auto simp: ledger_ok_def ledger_wf_def wf_goal_def validate_snapshot_Inr validate_completion_Inr
          missing_acceptance_criteria_def goal_criteria_def filter_empty_conv)
  with l show ?thesis by (auto simp: ledger_ok_def)
qed

text \<open>
  \<^bold>\<open>Note.\<close> What the wire may write. An operation that passes the external check leaves the lifecycle
  status alone (creating the ledger makes it active) and only asserts user provenance: every new
  checkpoint is a confirmation by the user, and a goal, next action or core entry it sets is the
  user's.
\<close>

theorem external_op_provenance:
  assumes "validate_external_op x = Inr ()" and "apply_op now l x = Inr l'"
  shows "(led_status l' = led_status l \<or> led_goal l = None \<and> led_status l' = Active)
    \<and> (\<forall>k\<in>set (drop (length (led_verified l)) (led_verified l')).
         cp_verifier k = VUserConfirmation ''user'')
    \<and> (\<forall>g. led_goal l' = Some g \<longrightarrow> led_goal l = Some g \<or> goal_set_by g = User)
    \<and> (\<forall>n. led_next l' = Some n \<longrightarrow> led_next l = Some n \<or> nap_actor (na_provenance n) = User)"
proof (cases x)
  case (AddCheckpoint claim v cov covered evidence stage supersedes)
  with assms obtain vs k where "led_verified l' = vs @ [k]" "cp_verifier k = v"
      "supersede_target (led_verified l)
         (next_sequential_id (map cp_id (led_verified l)) ''chk-'') supersedes = Inr vs"
      "l' = l\<lparr>led_verified := vs @ [k]\<rparr>"
    by (fastforce simp: op_Inr)
  moreover from this have "length vs = length (led_verified l)"
    by (auto simp: supersede_target_def split: option.splits if_splits)
  ultimately show ?thesis
    using assms(1) AddCheckpoint by (simp add: validate_external_verifier_Inr)
qed (use assms in \<open>auto simp: op_Inr validate_external_verifier_Inr validate_actor_Inr
      lifecycle_reserved_def next_from_statement_def unwrap_or_def\<close>)

definition conflict_count :: "'j serde \<Rightarrow> 'j ServerState \<Rightarrow> string \<Rightarrow> u64" where
  "conflict_count sd st sid =
     (case srv_sessions st sid of
        None \<Rightarrow> 0
      | Some s \<Rightarrow> (case ses_metadata s CONFLICT_COUNT_KEY of
                     None \<Rightarrow> 0
                   | Some v \<Rightarrow> (case as_u64 sd v of None \<Rightarrow> 0 | Some n \<Rightarrow> n)))"

lemma conflict_count_simps [simp]:
  "conflict_count sd (persist_session k st) sid = conflict_count sd st sid"
  "conflict_count sd (broadcast_server_event e st) sid = conflict_count sd st sid"
  by (simp_all add: conflict_count_def persist_session_def broadcast_server_event_def)

lemma conflict_count_commit:
  assumes "srv_sessions st sid = Some s"
    and "commit_snapshot_in_memory sd now sid s l cause st = (res, st')"
  shows "conflict_count sd st' sid = conflict_count sd st sid"
  using assms
  by (auto simp: commit_snapshot_in_memory_def conflict_count_def put_session_def insert_metadata_def
      broadcast_server_event_def split: sum.splits)

lemma conflict_count_note:
  assumes "serde_ok sd" and "srv_sessions st sid = Some s"
  shows "conflict_count sd (note_conflict sd now sid s st) sid =
    u64_saturating_add (conflict_count sd st sid) 1"
  using assms
  by (simp add: note_conflict_def Let_def)
     (simp add: conflict_count_def put_session_def insert_metadata_def serde_ok_def)

fun api_conflict :: "ApiError \<Rightarrow> bool" where
  "api_conflict (ApiRevisionConflict _ _ _) = True"
| "api_conflict _ = False"

lemma api_conflict_map: "api_conflict (map_ledger_error sid e) = is_conflict e"
  by (cases e) simp_all

lemma commit_snapshot_no_conflict:
  "commit_snapshot_in_memory sd now sid s l cause st = (Inl e, st') \<Longrightarrow> \<not> api_conflict e"
  by (auto simp: commit_snapshot_in_memory_def split: sum.splits)

text \<open>
  \<^bold>\<open>Note.\<close> Every branch of an authority write. A cancelled write does nothing. A refused one leaves all
  ledgers and the ledger events as they were, and the session's conflict counter moves, by one, in
  exactly the case that the caller is told of a revision conflict. A committed one carried the
  stored revision, is read back as it was returned, and is published once, to its own session.
\<close>

theorem authority_write_outcome:
  assumes "serde_ok sd" and "srv_sessions st sid = Some s"
    and "apply_task_ledger_op_unless_cancelled sd now canc sid expected x st = (res, st')"
  shows "case res of
      Inr None \<Rightarrow> canc \<and> st' = st
    | Inl e \<Rightarrow> \<not> canc
        \<and> (\<forall>k. ledger_of sd st' k = ledger_of sd st k \<and> ledger_events st' k = ledger_events st k)
        \<and> conflict_count sd st' sid =
            (if api_conflict e then u64_saturating_add (conflict_count sd st sid) 1
             else conflict_count sd st sid)
    | Inr (Some (l', cause)) \<Rightarrow> \<not> canc \<and> cause = cause_for_op x
        \<and> ledger_apply (session_ledger sd sid s) expected x now = (Inr (led_revision l'), l')
        \<and> ledger_of sd st' sid = Some l' \<and> ledger_events st' sid = ledger_events st sid @ [l']
        \<and> conflict_count sd st' sid = conflict_count sd st sid"
proof (cases canc)
  case True
  with assms(3) show ?thesis by (auto simp: apply_task_ledger_op_unless_cancelled_def)
next
  case False
  obtain r l' where run: "ledger_apply (session_ledger sd sid s) expected x now = (r, l')"
    by (cases "ledger_apply (session_ledger sd sid s) expected x now")
  show ?thesis
  proof (cases r)
    case (Inl e)
    then have "res = Inl (map_ledger_error sid e)"
        "st' = (if is_conflict e then note_conflict sd now sid s st else st)"
      using assms(2,3) False run by (simp_all add: apply_task_ledger_op_unless_cancelled_def)
    then show ?thesis
      using False silent_note_conflict [OF assms(2)] conflict_count_note [OF assms(1,2)]
      by (simp add: api_conflict_map)
  next
    case (Inr v)
    then have w: "commit_write (session_ledger sd sid s) expected (WBatch [x] now) = (Inr v, l')"
      and v: "v = led_revision l'"
      using run by (auto simp: ledger_apply_def apply_batch_Inr)
    obtain c st1 where com: "commit_snapshot_in_memory sd now sid s l' (cause_for_op x) st = (c, st1)"
      by (cases "commit_snapshot_in_memory sd now sid s l' (cause_for_op x) st")
    note counter = conflict_count_commit [OF assms(2) com]
    show ?thesis
    proof (cases c)
      case (Inl e)
      then have "res = Inl e" "st' = st" "\<not> api_conflict e"
        using assms(2,3) False run com \<open>r = Inr v\<close> commit_snapshot_Inl [of sd now sid s l']
          commit_snapshot_no_conflict [of sd now sid s l']
        by (auto simp: apply_task_ledger_op_unless_cancelled_def)
      then show ?thesis using False by simp
    next
      case (Inr u)
      have "res = Inr (Some (l', cause_for_op x))" "st' = persist_session sid st1"
        using assms(2,3) False run com \<open>r = Inr v\<close> Inr
        by (auto simp: apply_task_ledger_op_unless_cancelled_def)
      then show ?thesis
        using False run v \<open>r = Inr v\<close> counter
          commit_snapshot_step [OF assms(1,2) w refl com [unfolded Inr]] by simp
    qed
  qed
qed

text \<open>
  \<^bold>\<open>Note.\<close> A failed or cancelled verification leaves no trace of its own: unless the outcome is
  \<open>Passed\<close>, the state is the one it started with, up to what other tasks did while the checks ran.
\<close>

theorem unverified_leaves_no_trace:
  assumes "verify_goal_criteria sd now polled interfere run_check sid st = (outcome, st')"
    and "outcome \<noteq> Passed"
  shows "st' = st \<or> st' = interfere st"
  using assms
  by (auto simp: verify_goal_criteria_def commit_evidence_def Let_def run_checks_Inl
      dest: commit_snapshot_Inl split: if_splits option.splits sum.splits prod.splits)

text \<open>
  \<^bold>\<open>Note.\<close> A passed verification is evidence for each bound criterion and for nothing else. Every check
  command of the goal exited with success; the ledger was not written in the meantime; the new
  ledger extends the history by one current deterministic checkpoint per check and changes neither
  the status nor the open questions, next action or goal.
\<close>

theorem passed_verification_is_evidence:
  assumes "serde_ok sd"
    and "verify_goal_criteria sd now polled interfere run_check sid st = (Passed, st')"
  shows "\<exists>l g s l0 l'. ledger_of sd st sid = Some l \<and> led_goal l = Some g
    \<and> srv_sessions st sid = Some s
    \<and> (\<forall>j<length (goal_criterion_checks g). run_check j (goal_criterion_checks g ! j) = Exited True)
    \<and> ledger_of sd (interfere st) sid = Some l0 \<and> led_revision l0 = led_revision l
    \<and> ledger_of sd st' sid = Some l'
    \<and> (\<exists>ks. l' = l0\<lparr>led_verified := led_verified l0 @ ks, led_revision := led_revision l0 + 1,
                      led_updated_at := now\<rparr>)
    \<and> (\<forall>c\<in>set (goal_criterion_checks g). evidence_for l' c)"
proof -
  from assms(2) obtain s g ops where s: "srv_sessions st sid = Some s"
      and g: "led_goal (session_ledger sd sid s) = Some g"
      and ops: "run_checks run_check (ses_directory s) 0 (goal_criterion_checks g) = Inr ops"
      and com: "commit_evidence sd now sid (led_revision (session_ledger sd sid s)) ops (interfere st)
             = (Passed, st')"
    by (auto simp: verify_goal_criteria_def Let_def dest: run_checks_Inl
        split: if_splits option.splits sum.splits)
  from com obtain s0 r l' u st1 where s0: "srv_sessions (interfere st) sid = Some s0"
      and run: "apply_batch (session_ledger sd sid s0) (led_revision (session_ledger sd sid s)) ops now
             = (Inr r, l')"
      and cm: "commit_snapshot_in_memory sd now sid s0 l' CauseCheckpointAdded (interfere st)
             = (Inr u, st1)" and st': "st' = persist_session sid st1"
    by (auto simp: commit_evidence_def split: option.splits sum.splits prod.splits)
  have w: "commit_write (session_ledger sd sid s0) (led_revision (session_ledger sd sid s))
      (WBatch ops now) = (Inr r, l')" using run by simp
  have stored: "ledger_of sd st' sid = Some l'"
    using commit_snapshot_step [OF assms(1) s0 w refl cm] st' by simp
  from run obtain t where t: "res_fold (apply_op now) (session_ledger sd sid s0) ops = Inr t"
      "l' = t\<lparr>led_revision := led_revision (session_ledger sd sid s0) + 1, led_updated_at := now\<rparr>"
      and "led_revision (session_ledger sd sid s) = led_revision (session_ledger sd sid s0)"
    unfolding apply_batch_Inr by blast
  note rev = this(3) [symmetric]
  from ops have pass: "\<forall>j<length (goal_criterion_checks g).
        run_check j (goal_criterion_checks g ! j) = Exited True"
      and ops': "ops = map (criterion_checkpoint (ses_directory s)) (goal_criterion_checks g)"
    by (auto simp: run_checks_Inr)
  obtain ks where ks: "t = (session_ledger sd sid s0)
        \<lparr>led_verified := led_verified (session_ledger sd sid s0) @ ks\<rparr>"
      "\<forall>c\<in>set (goal_criterion_checks g). evidence_for t c"
    using criterion_checkpoints_apply [OF t(1) [unfolded ops']] by blast
  have ev: "evidence_for t c \<Longrightarrow> evidence_for l' c" for c
    by (simp add: t(2) evidence_for_def)
  have l': "l' = (session_ledger sd sid s0)
      \<lparr>led_verified := led_verified (session_ledger sd sid s0) @ ks,
        led_revision := led_revision (session_ledger sd sid s0) + 1, led_updated_at := now\<rparr>"
    unfolding t(2) ks(1) by simp
  have reads: "ledger_of sd st sid = Some (session_ledger sd sid s)"
    "ledger_of sd (interfere st) sid = Some (session_ledger sd sid s0)"
    using s s0 by (simp_all add: ledger_of_def)
  show ?thesis
    using reads g s pass rev stored l' ks(2) ev by blast
qed

section \<open>Witnesses\<close>

datatype demo_json = JLedger SessionTaskLedger | JNum u64 | JDecision StallDecision

definition demo_serde :: "demo_json serde" where
  "demo_serde = \<lparr>from_value = (\<lambda>v. case v of JLedger l \<Rightarrow> Some l | _ \<Rightarrow> None),
     to_value = (\<lambda>l. Inr (JLedger l)),
     as_u64 = (\<lambda>v. case v of JNum n \<Rightarrow> Some n | _ \<Rightarrow> None),
     json_u64 = JNum, json_decision = JDecision\<rparr>"

lemma serde_ok_demo: "serde_ok demo_serde"
  by (simp add: serde_ok_def demo_serde_def)

definition demo_session :: "demo_json Session" where
  "demo_session = \<lparr>ses_directory = ''/w'', ses_metadata = Map.empty, ses_updated_at = 0\<rparr>"

definition demo_server :: "demo_json ServerState" where
  "demo_server = \<lparr>srv_sessions = [''ses'' \<mapsto> demo_session], srv_events = [],
     srv_stall_windows = Map.empty, srv_steering_store = steering_new, srv_flushes = []\<rparr>"

lemma demo_server_session: "srv_sessions demo_server ''ses'' = Some demo_session"
  by (simp add: demo_server_def)

lemma demo_run:
  "server_run demo_serde demo_server (snd (start_task_goal demo_serde 5 ''ses'' ''ship'' demo_server))"
  by (intro goal_call idle)


theorem server_ledgers_stay_governed_witness:
  "\<exists>l. ledger_of demo_serde (snd (start_task_goal demo_serde 5 ''ses'' ''ship'' demo_server)) ''ses''
     = Some l \<and> ledger_wf l"
proof -
  have "ses_metadata demo_session TASK_LEDGER_METADATA_KEY = None" by (simp add: demo_session_def)
  from server_ledgers_stay_governed [OF demo_run serde_ok_demo demo_server_session this]
  show ?thesis by blast
qed

theorem external_op_provenance_witness:
  "validate_external_op (SetNext ''review'' (Some User)) = Inr ()
   \<and> (\<exists>l'. apply_op 30 demo_created (SetNext ''review'' (Some User)) = Inr l'
        \<and> led_status l' = led_status demo_created)"
proof -
  have ok: "validate_external_op (SetNext ''review'' (Some User)) = Inr ()"
    by (simp add: validate_actor_Inr)
  have "non_empty ''review''" "led_goal demo_created \<noteq> None"
    by (simp_all add: eval_simps demo_created_eq)
  then obtain l' where run: "apply_op 30 demo_created (SetNext ''review'' (Some User)) = Inr l'"
    by (simp add: op_set_next_Inr)
  from external_op_provenance [OF ok run] \<open>led_goal demo_created \<noteq> None\<close> ok run show ?thesis
    by blast
qed

definition demo_conflict ::
    "(ApiError + (SessionTaskLedger \<times> TaskLedgerCause) option) \<times> demo_json ServerState" where
  "demo_conflict = apply_task_ledger_op_unless_cancelled demo_serde 9 False ''ses'' 7 Interrupt demo_server"

lemma demo_conflict_fst: "fst demo_conflict = Inl (ApiRevisionConflict ''task-ledger:ses'' 7 0)"
  by (simp add: demo_conflict_def apply_task_ledger_op_unless_cancelled_def demo_server_session
      session_ledger_def ledger_snapshot_from_record_def demo_session_def ledger_apply_def
      apply_batch_def ledger_empty_def)

theorem authority_write_outcome_witness:
  "conflict_count demo_serde (snd demo_conflict) ''ses'' = u64_saturating_add 0 1
   \<and> ledger_events (snd demo_conflict) ''ses'' = []"
proof -
  have run: "apply_task_ledger_op_unless_cancelled demo_serde 9 False ''ses'' 7 Interrupt demo_server =
      (Inl (ApiRevisionConflict ''task-ledger:ses'' 7 0), snd demo_conflict)"
    using demo_conflict_fst by (metis demo_conflict_def prod.collapse)
  have "conflict_count demo_serde demo_server ''ses'' = 0" "ledger_events demo_server ''ses'' = []"
    by (simp_all add: conflict_count_def demo_server_def demo_session_def ledger_events_def
        map_filter_simps)
  with authority_write_outcome [OF serde_ok_demo demo_server_session run] show ?thesis by simp
qed

theorem unverified_leaves_no_trace_witness:
  "snd (verify_goal_criteria demo_serde 9 (\<lambda>_. False) (\<lambda>s. s) (\<lambda>_ _. TimedOut) ''ses'' demo_server)
     = demo_server"
proof -
  let ?r = "verify_goal_criteria demo_serde 9 (\<lambda>_. False) (\<lambda>s. s) (\<lambda>_ _. TimedOut) ''ses'' demo_server"
  have "fst ?r = NotRequired"
    by (simp add: verify_goal_criteria_def demo_server_session session_ledger_def
        ledger_snapshot_from_record_def demo_session_def ledger_empty_def Let_def)
  then have "?r = (NotRequired, snd ?r)" by (metis prod.collapse)
  from unverified_leaves_no_trace [OF this] show ?thesis by simp
qed

definition checked_goal :: TaskGoal where
  "checked_goal = demo_goal\<lparr>goal_criterion_checks :=
     [\<lparr>cc_criterion = ''tests pass'', cc_command = ''make test''\<rparr>]\<rparr>"

definition checked_server :: "demo_json ServerState" where
  "checked_server = demo_server\<lparr>srv_sessions := [''ses'' \<mapsto> demo_session\<lparr>ses_metadata :=
     [TASK_LEDGER_METADATA_KEY \<mapsto> JLedger (demo_created\<lparr>led_goal := Some checked_goal\<rparr>)]\<rparr>]\<rparr>"

definition checked_result :: "CriterionVerificationOutcome \<times> demo_json ServerState" where
  "checked_result = verify_goal_criteria demo_serde 9 (\<lambda>_. False) (\<lambda>s. s) (\<lambda>_ _. Exited True)
     ''ses'' checked_server"

lemma checked_passed: "fst checked_result = Passed"
  by (simp add: checked_result_def verify_goal_criteria_def checked_server_def demo_session_def
      session_ledger_def ledger_snapshot_from_record_def demo_serde_def demo_created_eq
      checked_goal_def demo_eval ledger_empty_def commit_evidence_def criterion_checkpoint_def
      validate_snapshot_def commit_snapshot_in_memory_def next_sequential_id_Nil Let_def)

theorem passed_verification_is_evidence_witness:
  "\<exists>l' c. ledger_of demo_serde (snd checked_result) ''ses'' = Some l' \<and> evidence_for l' c"
proof -
  have run: "verify_goal_criteria demo_serde 9 (\<lambda>_. False) (\<lambda>s. s) (\<lambda>_ _. Exited True) ''ses''
      checked_server = (Passed, snd checked_result)"
    using checked_passed by (metis checked_result_def prod.collapse)
  from passed_verification_is_evidence [OF serde_ok_demo run] obtain l g l' where
    l: "ledger_of demo_serde checked_server ''ses'' = Some l" "led_goal l = Some g" and
    l': "ledger_of demo_serde (snd checked_result) ''ses'' = Some l'"
      "\<forall>c\<in>set (goal_criterion_checks g). evidence_for l' c" by blast
  have "led_goal l = Some checked_goal"
    using l(1) by (auto simp: ledger_of_def checked_server_def session_ledger_def
        ledger_snapshot_from_record_def demo_session_def demo_serde_def)
  with l(2) l' show ?thesis by (auto simp: checked_goal_def)
qed

end
