(* ===== verification/Reducer_Properties.thy ===== *)
theory Reducer_Properties
  imports Server_Properties
begin

text \<open>
  Properties of the seam reducer: what execution facts may and may not write, and the lifecycle of a
  run through interaction, interruption, resumption and final response.
\<close>

section \<open>What a seam may write\<close>

text \<open>The operations the reducer emits, and what they all have in common.\<close>

definition seam_op :: "TaskLedgerOp \<Rightarrow> bool" where
  "seam_op x \<longleftrightarrow> (case x of
      OpOpenQuestion _ _ \<Rightarrow> True
    | SetNext _ actor \<Rightarrow> actor = Some Model
    | SetStatus status _ _ \<Rightarrow> status \<noteq> Completed
    | AddCheckpoint _ verifier _ covered _ _ supersedes \<Rightarrow>
        verifier = VEvaluator ''scheduler-engine'' \<and> covered = [] \<and> supersedes = None
    | ResolveInteraction _ _ \<Rightarrow> True
    | Interrupt \<Rightarrow> True
    | _ \<Rightarrow> False)"

lemma reduce_seam_op:
  assumes "x \<in> set (reduce f l)"
  shows "seam_op x \<or> f = FinalResponseCommitted \<and> reduce f l = [Complete []] \<and> completion_ready l"
  using assms
  by (cases f)
     (auto simp: reduce_def seam_op_def reduce_tool_batch_def unresolved_ops_def next_step_ops_def
       blocked_ops_def evaluator_checkpoint_def Let_def split: if_splits option.splits)

definition seam_frame :: "SessionTaskLedger \<Rightarrow> SessionTaskLedger \<Rightarrow> bool" where
  "seam_frame l l' \<longleftrightarrow> led_goal l' = led_goal l \<and> led_core l' = led_core l
     \<and> led_goal_generation l' = led_goal_generation l
     \<and> covered_by_current l' = covered_by_current l
     \<and> (led_status l' = Completed \<longrightarrow> led_status l = Completed)"

lemma covered_by_current_cong:
  assumes "led_goal_generation l' = led_goal_generation l"
    and "\<exists>ks. led_verified l' = led_verified l @ ks \<and> (\<forall>k\<in>set ks. cp_covered_criteria k = [])"
  shows "covered_by_current l' = covered_by_current l"
  using assms by (auto simp: set_eq_iff covered_by_current_iff)

lemma seam_op_frame:
  assumes "seam_op x" and "apply_op now l x = Inr l'"
  shows "seam_frame l l'"
proof (cases x)
  case (SetStatus status awaiting reason)
  with assms have "op_set_status l status awaiting reason = Inr l'" "status \<noteq> Completed"
    by (simp_all add: seam_op_def)
  then show ?thesis
    using set_status_frame [of l status awaiting reason l']
    by (auto simp: seam_frame_def intro!: covered_by_current_cong)
next
  case (AddCheckpoint claim v cov covered evidence stage supersedes)
  with assms show ?thesis
    by (auto simp: seam_frame_def seam_op_def op_Inr supersede_target_def
        intro!: covered_by_current_cong)
qed (use assms in \<open>auto simp: seam_frame_def seam_op_def op_Inr intro!: covered_by_current_cong\<close>)

lemma seam_run_frame:
  assumes "\<forall>x\<in>set ops. seam_op x" and "res_fold (apply_op now) l ops = Inr l'"
  shows "seam_frame l l'"
proof (rule res_fold_relation [where R = seam_frame, OF _ _ _ assms(2)])
  show "seam_frame a b" if "x \<in> set ops" "apply_op now a x = Inr b" for a b x
    using assms(1) seam_op_frame that by blast
qed (auto simp: seam_frame_def)

text \<open>
  \<^bold>\<open>C39.\<close> Execution facts are not evidence. Committing any seam, an evaluator's pass included, leaves
  the goal, its generation, the core constraints and the set of covered criteria as they were; and
  the ledger becomes completed through a seam only at the final response, when it was ready.
\<close>

theorem seams_never_cover_criteria:
  assumes "apply_batch l expected (reduce f l) now = (Inr r, l')"
  shows "led_goal l' = led_goal l \<and> led_core l' = led_core l
    \<and> led_goal_generation l' = led_goal_generation l
    \<and> covered_by_current l' = covered_by_current l
    \<and> (led_status l' = Completed \<and> led_status l \<noteq> Completed \<longrightarrow>
         f = FinalResponseCommitted \<and> completion_ready l)"
proof -
  from assms obtain s where s: "res_fold (apply_op now) l (reduce f l) = Inr s"
      "l' = s\<lparr>led_revision := led_revision l + 1, led_updated_at := now\<rparr>"
    by (auto simp: apply_batch_Inr)
  show ?thesis
  proof (cases "\<forall>x\<in>set (reduce f l). seam_op x")
    case True
    from seam_run_frame [OF True s(1)] show ?thesis by (auto simp: s(2) seam_frame_def)
  next
    case False
    then have f: "f = FinalResponseCommitted" "reduce f l = [Complete []]" "completion_ready l"
      using reduce_seam_op by blast+
    with s(1) have s': "s = l\<lparr>led_uncovered_criteria := [], led_status := Completed,
        led_blocked_reason := None, led_next := None\<rparr>" by (auto simp: op_Inr res_simps)
    have "covered_by_current s = covered_by_current l"
      by (rule covered_by_current_cong) (simp_all add: s')
    then show ?thesis using f by (simp add: s(2)) (simp add: s')
  qed
qed

section \<open>Lifecycle of a run\<close>

definition seam_commit ::
    "'j TaskLedgerSeamFact \<Rightarrow> i64 \<Rightarrow> SessionTaskLedger \<Rightarrow> (TaskLedgerError + u64) \<times> SessionTaskLedger" where
  "seam_commit f now l = apply_batch l (led_revision l) (reduce f l) now"

lemma seam_commit_one:
  assumes "reduce f l = [x]" and "apply_op now l x = Inr s" and "validate_snapshot s = Inr ()"
  shows "seam_commit f now l =
    (Inr (led_revision l + 1), s\<lparr>led_revision := led_revision l + 1, led_updated_at := now\<rparr>)"
  using assms by (simp add: seam_commit_def apply_batch_Inr)

text \<open>
  \<^bold>\<open>Note.\<close> Asking the user is transparent. For an active ledger that awaits nothing, a seam that starts
  an interaction and the one that resolves it both commit; in between the ledger awaits exactly that
  interaction and keeps its next action, and afterwards it is the ledger it was, two revisions on.
\<close>

theorem interaction_roundtrip:
  assumes "led_goal l \<noteq> None" and "led_status l = Active" and "has_next l"
    and "led_awaiting_interactions l = []" and "non_empty i"
  shows "\<exists>l1. seam_commit (InteractionAwaiting k i :: 'j TaskLedgerSeamFact) ta l
            = (Inr (led_revision l + 1), l1)
    \<and> led_status l1 = AwaitingUser \<and> led_next l1 = led_next l
    \<and> led_awaiting_interactions l1 = [\<lparr>air_kind = k, air_interaction_id = i\<rparr>]
    \<and> seam_commit (InteractionResolved k i :: 'j TaskLedgerSeamFact) tb l1
        = (Inr (led_revision l + 2), l\<lparr>led_revision := led_revision l + 2, led_updated_at := tb\<rparr>)"
proof -
  let ?a = "\<lparr>air_kind = k, air_interaction_id = i\<rparr>"
  let ?s1 = "l\<lparr>led_awaiting_interactions := [?a], led_status := AwaitingUser\<rparr>"
  let ?l1 = "?s1\<lparr>led_revision := led_revision l + 1, led_updated_at := ta\<rparr>"
  let ?s2 = "?l1\<lparr>led_awaiting_interactions := [], led_status := Active\<rparr>"
  have op1: "apply_op ta l (SetStatus AwaitingUser (Some ?a) None) = Inr ?s1"
    using assms by (simp add: op_set_status_Inr set_status_arm_Inr reopen_from_completed_def)
  have red1: "reduce (InteractionAwaiting k i :: 'j TaskLedgerSeamFact) l
      = [SetStatus AwaitingUser (Some ?a) None]"
    using assms by (simp add: reduce_def Let_def)
  have red2: "reduce (InteractionResolved k i :: 'j TaskLedgerSeamFact) ?l1 = [ResolveInteraction k i]"
    using assms(1) by (simp add: reduce_def)
  have op2: "apply_op tb ?l1 (ResolveInteraction k i) = Inr ?s2"
    using assms(1) by (simp add: op_resolve_interaction_Inr resume_when_resolved_def)
  have "validate_snapshot ?s1 = Inr ()" "validate_snapshot ?s2 = Inr ()"
    using assms by (simp_all add: validate_snapshot_Inr has_next_def)
  then show ?thesis
    using seam_commit_one [OF red1 op1] seam_commit_one [OF red2 op2] assms(2,4)
    by (intro exI [of _ ?l1]) (simp add: add.assoc)
qed

text \<open>
  \<^bold>\<open>Note.\<close> Interrupting and resuming. Interrupting a ledger that is active or blocked commits, keeps
  the next action with its pre-interrupt mark and drops the pending interactions; a second
  interrupt is no write; and the next run start makes the ledger active again.
\<close>

theorem interrupt_then_resume:
  assumes "led_goal l \<noteq> None" and "led_status l = Active \<or> led_status l = Blocked" and "has_next l"
  shows "\<exists>l1 l2. seam_commit (RecoveryInterrupted :: 'j TaskLedgerSeamFact) ta l
            = (Inr (led_revision l + 1), l1)
    \<and> led_status l1 = Interrupted \<and> led_awaiting_interactions l1 = []
    \<and> led_next l1 = map_option mark_pre_interrupt (led_next l)
    \<and> reduce (RecoveryInterrupted :: 'j TaskLedgerSeamFact) l1 = []
    \<and> seam_commit (RunStarted :: 'j TaskLedgerSeamFact) tb l1 = (Inr (led_revision l + 2), l2)
    \<and> led_status l2 = Active \<and> led_next l2 = led_next l1 \<and> led_blocked_reason l2 = None"
proof -
  let ?s1 = "l\<lparr>led_next := map_option mark_pre_interrupt (led_next l), led_status := Interrupted,
      led_awaiting_interactions := []\<rparr>"
  let ?l1 = "?s1\<lparr>led_revision := led_revision l + 1, led_updated_at := ta\<rparr>"
  let ?s2 = "?l1\<lparr>led_blocked_reason := None, led_status := Active\<rparr>"
  have next1: "has_next ?l1" using assms(3) by (auto simp: has_next_iff)
  have c1: "seam_commit (RecoveryInterrupted :: 'j TaskLedgerSeamFact) ta l
      = (Inr (led_revision l + 1), ?l1)"
    by (rule seam_commit_one [of _ _ Interrupt])
       (use assms in \<open>auto simp: reduce_def op_interrupt_Inr validate_snapshot_Inr\<close>)
  have c2: "seam_commit (RunStarted :: 'j TaskLedgerSeamFact) tb ?l1
      = (Inr (led_revision ?l1 + 1), ?s2\<lparr>led_revision := led_revision ?l1 + 1, led_updated_at := tb\<rparr>)"
  proof (rule seam_commit_one [of _ _ "SetStatus Active None None"])
    show "apply_op tb ?l1 (SetStatus Active None None) = Inr ?s2"
      using assms(1) next1
      by (simp add: op_set_status_Inr set_status_arm_Inr reopen_from_completed_def has_next_def)
    show "validate_snapshot ?s2 = Inr ()"
      using next1 by (simp add: validate_snapshot_Inr has_next_def)
  qed (use assms(1) in \<open>simp add: reduce_def\<close>)
  show ?thesis
    using c1 c2 by (intro exI [of _ ?l1] exI conjI) (auto simp: reduce_def add.assoc)
qed

text \<open>
  \<^bold>\<open>Note.\<close> Interrupting a completed ledger loses the completion and cannot be resumed: the seam commits,
  the ledger is interrupted with no next action, and the run start that should make it active again
  is refused for want of one.
\<close>

theorem interrupted_completion_cannot_resume:
  assumes "reachable_ledger sid l" and "led_status l = Completed"
  shows "\<exists>l1. seam_commit (RecoveryInterrupted :: 'j TaskLedgerSeamFact) ta l
            = (Inr (led_revision l + 1), l1)
    \<and> led_status l1 = Interrupted \<and> led_next l1 = None
    \<and> seam_commit (RunStarted :: 'j TaskLedgerSeamFact) tb l1 = (Inl (StatusRequiresNext Active), l1)"
proof -
  have "l \<noteq> ledger_empty sid" using assms(2) by (auto simp: ledger_empty_def)
  with reachable_ledger_wf [OF assms(1)] have wf: "ledger_wf l" and ok: "validate_snapshot l = Inr ()"
    by auto
  have goal: "led_goal l \<noteq> None" using wf_valid_created [OF wf ok] .
  have none: "led_next l = None" using ok assms(2) by (simp add: validate_snapshot_Inr)
  let ?s1 = "l\<lparr>led_status := Interrupted, led_awaiting_interactions := []\<rparr>"
  let ?l1 = "?s1\<lparr>led_revision := led_revision l + 1, led_updated_at := ta\<rparr>"
  have s1: "apply_op ta l Interrupt = Inr ?s1" using goal none by (auto simp: op_interrupt_Inr)
  have c1: "seam_commit (RecoveryInterrupted :: 'j TaskLedgerSeamFact) ta l
      = (Inr (led_revision l + 1), ?l1)"
    by (rule seam_commit_one [OF _ s1]) (use assms(2) goal in \<open>simp_all add: reduce_def validate_snapshot_Inr\<close>)
  have "seam_commit (RunStarted :: 'j TaskLedgerSeamFact) tb ?l1
      = (Inl (StatusRequiresNext Active), ?l1)"
    using goal none
    by (auto simp: seam_commit_def reduce_def apply_batch_def op_set_status_def ensure_created_def
        guard_def set_status_arm_def reopen_from_completed_def require_next_for_status_def
        has_next_def Let_def)
  with c1 none show ?thesis by (intro exI [of _ ?l1]) simp
qed

text \<open>
  \<^bold>\<open>Note.\<close> The final response completes the ledger exactly when the gate is open. For a created ledger
  that is not completed: if it is ready, the seam commits a completed ledger, and the delivery gate
  then reports no outstanding question, no missing and no declared gap; if it is not, the seam
  writes nothing.
\<close>

theorem final_response_completes_when_ready:
  assumes "led_goal l \<noteq> None" and "led_status l \<noteq> Completed"
  shows "if completion_ready l
    then \<exists>l1. seam_commit (FinalResponseCommitted :: 'j TaskLedgerSeamFact) now l
             = (Inr (led_revision l + 1), l1) \<and> led_status l1 = Completed
       \<and> gate_open_questions_outstanding (final_delivery_gate l1) = []
       \<and> gate_missing_acceptance_criteria (final_delivery_gate l1) = []
       \<and> gate_uncovered_criteria (final_delivery_gate l1) = []
    else reduce (FinalResponseCommitted :: 'j TaskLedgerSeamFact) l = []"
proof (cases "completion_ready l")
  case True
  then have gate: "validate_completion l [] = Inr ()" by (simp add: completion_ready_def res_simps)
  let ?s = "l\<lparr>led_uncovered_criteria := [], led_status := Completed, led_blocked_reason := None,
      led_next := None\<rparr>"
  let ?l1 = "?s\<lparr>led_revision := led_revision l + 1, led_updated_at := now\<rparr>"
  have same: "open_questions ?s = open_questions l" "goal_criteria ?s = goal_criteria l"
      "current_checkpoints ?s = current_checkpoints l" "covered_by_current ?s = covered_by_current l"
    by (simp_all add: open_questions_def goal_criteria_def current_checkpoints_def is_current_def
        covered_by_current_def cong: filter_cong)
  then have ok: "validate_completion ?s [] = Inr ()"
    using gate unfolding validate_completion_Inr same by simp
  have c: "seam_commit (FinalResponseCommitted :: 'j TaskLedgerSeamFact) now l
      = (Inr (led_revision l + 1), ?l1)"
    by (rule seam_commit_one [of _ _ "Complete []"])
       (use assms True gate ok in \<open>simp_all add: reduce_def op_complete_Inr validate_snapshot_Inr\<close>)
  have "open_questions ?l1 = []" "missing_acceptance_criteria ?l1 [] = []"
    using gate same
    by (auto simp: validate_completion_Inr missing_acceptance_criteria_def goal_criteria_def
        filter_empty_conv covered_by_current_def current_checkpoints_def is_current_def open_questions_def
        split: option.splits)
  with c True show ?thesis by (auto simp: final_delivery_gate_def)
next
  case False
  then show ?thesis by (simp add: reduce_def)
qed

section \<open>Witnesses\<close>

lemma demo_created_facts:
  "led_goal demo_created \<noteq> None" "led_status demo_created = Active" "has_next demo_created"
  "led_awaiting_interactions demo_created = []" "led_revision demo_created = 1"
  by (simp_all add: demo_created_eq ledger_empty_def has_next_def next_from_statement_def eval_simps)

theorem interaction_roundtrip_witness:
  "\<exists>l1. seam_commit (InteractionResolved Question ''q1'' :: unit TaskLedgerSeamFact) 60 l1
     = (Inr (1 + 2), demo_created\<lparr>led_revision := 1 + 2, led_updated_at := 60\<rparr>)"
proof -
  have "non_empty ''q1''" by (simp add: eval_simps)
  from interaction_roundtrip [where 'j = unit and ta = 50 and tb = 60 and k = Question,
      OF demo_created_facts(1-4) this]
  show ?thesis unfolding demo_created_facts(5) by blast
qed

theorem interrupt_then_resume_witness:
  "\<exists>l1 l2. seam_commit (RunStarted :: unit TaskLedgerSeamFact) 60 l1 = (Inr (1 + 2), l2)
     \<and> led_status l2 = Active"
  using interrupt_then_resume [where 'j = unit and ta = 50 and tb = 60,
      OF demo_created_facts(1) disjI1 [OF demo_created_facts(2)] demo_created_facts(3)]
  unfolding demo_created_facts(5) by blast

lemma demo_completed_status: "led_status demo_completed = Completed"
  by (simp add: demo_completed_eq)

theorem interrupted_completion_cannot_resume_witness:
  "\<exists>l1. seam_commit (RunStarted :: unit TaskLedgerSeamFact) 60 l1
     = (Inl (StatusRequiresNext Active), l1)"
  using interrupted_completion_cannot_resume [where 'j = unit and ta = 50 and tb = 60,
      OF reachable_demo_completed demo_completed_status] by blast

definition demo_ready :: SessionTaskLedger where
  "demo_ready = demo_created\<lparr>led_verified := [demo_checkpoint]\<rparr>"

theorem final_response_completes_when_ready_witness:
  "\<exists>l1. seam_commit (FinalResponseCommitted :: unit TaskLedgerSeamFact) 70 demo_ready
     = (Inr (led_revision demo_ready + 1), l1) \<and> led_status l1 = Completed"
proof -
  have "led_goal demo_ready \<noteq> None" "led_status demo_ready \<noteq> Completed"
    by (simp_all add: demo_ready_def demo_created_eq ledger_empty_def)
  moreover have "completion_ready demo_ready"
    by (simp add: completion_ready_def res_simps validate_completion_Inr demo_ready_def demo_created_eq
        demo_checkpoint_def demo_goal_def ledger_empty_def open_questions_def goal_criteria_def
        current_checkpoints_def is_current_def covered_by_current_def)
  ultimately show ?thesis
    using final_response_completes_when_ready [where 'j = unit, of demo_ready 70] by auto
qed

theorem seams_never_cover_criteria_witness:
  "\<exists>l1. covered_by_current l1 = covered_by_current demo_created
     \<and> snd (seam_commit (EvaluatorGateCompleted ''root'' True 1 :: unit TaskLedgerSeamFact) 80
              demo_created) = l1 \<and> led_verified l1 \<noteq> []"
proof -
  let ?f = "EvaluatorGateCompleted ''root'' True 1 :: unit TaskLedgerSeamFact"
  have run: "apply_batch demo_created 1 (reduce ?f demo_created) 80 =
      (Inr 2, snd (seam_commit ?f 80 demo_created))"
    and some: "led_verified (snd (seam_commit ?f 80 demo_created)) \<noteq> []"
    by (simp_all add: seam_commit_def reduce_def evaluator_checkpoint_def demo_created_eq demo_eval
        ledger_empty_def validate_snapshot_def next_sequential_id_Nil)
  from seams_never_cover_criteria [OF run] some show ?thesis by blast
qed

end
