(* ===== verification/Permission_Rules.thy ===== *)
theory Permission_Rules
  imports Rust_Prelude "HOL-Library.AList" "HOL-Library.List_Lexorder" "HOL-Library.Char_ord"
begin

text \<open>
  The rule side of \<^verbatim>\<open>crates/agendao-permission\<close>: wildcard matching (\<^verbatim>\<open>matching.rs\<close>), the arity
  table that turns a shell command into its approval prefix (\<^verbatim>\<open>arity.rs\<close>), and rulesets with their
  evaluation and the built-in agents' rules (\<^verbatim>\<open>ruleset.rs\<close>). A hash map that the code iterates is
  an association list: the list's order is the iteration order, over which the theorems quantify.
\<close>

section \<open>Wildcards\<close>

definition wildcard_match :: "string \<Rightarrow> string \<Rightarrow> bool" where
  "wildcard_match text pattern =
     (if pattern = ''*'' then True
      else if starts_with pattern ''*'' \<and> ends_with pattern ''*'' then
        str_contains text (butlast (tl pattern))
      else case strip_prefix ''*'' pattern of
        Some suf \<Rightarrow> ends_with text suf
      | None \<Rightarrow>
          (case strip_suffix ''*'' pattern of
             Some pre \<Rightarrow> starts_with text pre
           | None \<Rightarrow> text = pattern))"

section \<open>Command prefixes\<close>

definition ARITY :: "(string \<times> nat) list" where
  "ARITY =
     [(''cat'', 1), (''cd'', 1), (''chmod'', 1), (''chown'', 1),
      (''cp'', 1), (''echo'', 1), (''env'', 1), (''export'', 1),
      (''grep'', 1), (''kill'', 1), (''killall'', 1), (''ln'', 1),
      (''ls'', 1), (''mkdir'', 1), (''mv'', 1), (''ps'', 1),
      (''pwd'', 1), (''rm'', 1), (''rmdir'', 1), (''sleep'', 1),
      (''source'', 1), (''tail'', 1), (''touch'', 1), (''unset'', 1),
      (''which'', 1), (''aws'', 3), (''az'', 3), (''bazel'', 2),
      (''brew'', 2), (''bun'', 2), (''bun run'', 3), (''bun x'', 3),
      (''cargo'', 2), (''cargo add'', 3), (''cargo run'', 3), (''cdk'', 2),
      (''cf'', 2), (''cmake'', 2), (''composer'', 2), (''consul'', 2),
      (''consul kv'', 3), (''crictl'', 2), (''deno'', 2), (''deno task'', 3),
      (''doctl'', 3), (''docker'', 2), (''docker builder'', 3), (''docker compose'', 3),
      (''docker container'', 3), (''docker image'', 3), (''docker network'', 3), (''docker volume'', 3),
      (''eksctl'', 2), (''eksctl create'', 3), (''firebase'', 2), (''flyctl'', 2),
      (''gcloud'', 3), (''gh'', 3), (''git'', 2), (''git config'', 3),
      (''git remote'', 3), (''git stash'', 3), (''go'', 2), (''gradle'', 2),
      (''helm'', 2), (''heroku'', 2), (''hugo'', 2), (''ip'', 2),
      (''ip addr'', 3), (''ip link'', 3), (''ip netns'', 3), (''ip route'', 3),
      (''kind'', 2), (''kind create'', 3), (''kubectl'', 2), (''kubectl kustomize'', 3),
      (''kubectl rollout'', 3), (''kustomize'', 2), (''make'', 2), (''mc'', 2),
      (''mc admin'', 3), (''minikube'', 2), (''mongosh'', 2), (''mysql'', 2),
      (''mvn'', 2), (''ng'', 2), (''npm'', 2), (''npm exec'', 3),
      (''npm init'', 3), (''npm run'', 3), (''npm view'', 3), (''nvm'', 2),
      (''nx'', 2), (''openssl'', 2), (''openssl req'', 3), (''openssl x509'', 3),
      (''pip'', 2), (''pipenv'', 2), (''pnpm'', 2), (''pnpm dlx'', 3),
      (''pnpm exec'', 3), (''pnpm run'', 3), (''poetry'', 2), (''podman'', 2),
      (''podman container'', 3), (''podman image'', 3), (''psql'', 2), (''pulumi'', 2),
      (''pulumi stack'', 3), (''pyenv'', 2), (''python'', 2), (''rake'', 2),
      (''rbenv'', 2), (''redis-cli'', 2), (''rustup'', 2), (''serverless'', 2),
      (''sfdx'', 3), (''skaffold'', 2), (''sls'', 2), (''sst'', 2),
      (''swift'', 2), (''systemctl'', 2), (''terraform'', 2), (''terraform workspace'', 3),
      (''tmux'', 2), (''turbo'', 2), (''ufw'', 2), (''vault'', 2),
      (''vault auth'', 3), (''vault kv'', 3), (''vercel'', 2), (''volta'', 2),
      (''wp'', 2), (''yarn'', 2), (''yarn dlx'', 3), (''yarn run'', 3)]"

datatype bash_panic = SliceOutOfRange nat nat

text \<open>\<open>tokens[..arity]\<close> panics when the index is past the end.\<close>

definition slice_to :: "nat \<Rightarrow> 'a list \<Rightarrow> bash_panic + 'a list" where
  "slice_to n xs = (if n \<le> length xs then Inr (take n xs) else Inl (SliceOutOfRange n (length xs)))"

fun arity_lookup :: "string list \<Rightarrow> nat \<Rightarrow> nat option" where
  "arity_lookup tokens 0 = None"
| "arity_lookup tokens (Suc len) =
     (case map_of ARITY (join '' '' (take (Suc len) tokens)) of
        Some arity \<Rightarrow> Some arity
      | None \<Rightarrow> arity_lookup tokens len)"

definition bash_prefix :: "string list \<Rightarrow> bash_panic + string list" where
  "bash_prefix tokens =
     (case arity_lookup tokens (length tokens) of
        Some arity \<Rightarrow> slice_to arity tokens
      | None \<Rightarrow> if tokens = [] then Inr [] else slice_to 1 tokens)"

section \<open>Rulesets\<close>

datatype PermissionAction = Allow | Deny | Ask

record PermissionRule =
  rule_permission :: string
  rule_pattern :: string
  rule_action :: PermissionAction

type_synonym PermissionRuleset = "PermissionRule list"

datatype ConfigValue =
    Action PermissionAction
  | Patterns "(string \<times> PermissionAction) list"

type_synonym ConfigPermission = "(string \<times> ConfigValue) list"

definition expand :: "string option \<Rightarrow> string \<Rightarrow> string" where
  "expand home_dir pattern =
     (case home_dir of
        Some home \<Rightarrow>
          if starts_with pattern ''~/'' then home @ drop 1 pattern
          else if pattern = ''~'' then home
          else if starts_with pattern ''$HOME/'' then home @ drop 5 pattern
          else pattern
      | None \<Rightarrow> pattern)"

fun rules_of_entry :: "string option \<Rightarrow> string \<times> ConfigValue \<Rightarrow> PermissionRule list" where
  "rules_of_entry home (key, Action action) =
     [\<lparr>rule_permission = key, rule_pattern = ''*'', rule_action = action\<rparr>]"
| "rules_of_entry home (key, Patterns patterns) =
     map (\<lambda>(pattern, action).
       \<lparr>rule_permission = key, rule_pattern = expand home pattern, rule_action = action\<rparr>) patterns"

definition from_config :: "string option \<Rightarrow> ConfigPermission \<Rightarrow> PermissionRuleset" where
  "from_config home permission = List.concat (map (rules_of_entry home) permission)"

definition merge_rulesets :: "PermissionRuleset list \<Rightarrow> PermissionRuleset" where
  "merge_rulesets rulesets = List.concat rulesets"

definition rule_matches :: "string \<Rightarrow> string \<Rightarrow> PermissionRule \<Rightarrow> bool" where
  "rule_matches permission pattern rule \<longleftrightarrow>
     wildcard_match permission (rule_permission rule) \<and> wildcard_match pattern (rule_pattern rule)"

definition evaluate_rules :: "string \<Rightarrow> string \<Rightarrow> PermissionRuleset list \<Rightarrow> PermissionRule" where
  "evaluate_rules permission pattern rulesets =
     (case find (rule_matches permission pattern) (rev (merge_rulesets rulesets)) of
        Some rule \<Rightarrow> rule
      | None \<Rightarrow> \<lparr>rule_permission = permission, rule_pattern = ''*'', rule_action = Ask\<rparr>)"

fun combine_from :: "PermissionAction \<Rightarrow> PermissionAction list \<Rightarrow> PermissionAction" where
  "combine_from combined [] = combined"
| "combine_from combined (Deny # actions) = Deny"
| "combine_from combined (Ask # actions) = combine_from Ask actions"
| "combine_from combined (Allow # actions) = combine_from combined actions"

definition combine_actions :: "PermissionAction list \<Rightarrow> PermissionAction" where
  "combine_actions actions = combine_from Allow actions"

definition evaluate_permission_patterns ::
    "string \<Rightarrow> string list \<Rightarrow> PermissionRuleset list \<Rightarrow> PermissionAction" where
  "evaluate_permission_patterns permission patterns rulesets =
     (if patterns = [] then rule_action (evaluate_rules permission ''*'' rulesets)
      else combine_actions
        (map (\<lambda>pattern. rule_action (evaluate_rules permission pattern rulesets)) patterns))"

definition tool_to_permission :: "string \<Rightarrow> string" where
  "tool_to_permission tool_name =
     (if tool_name \<in> {''write'', ''edit'', ''multiedit'', ''apply_patch'', ''patch''} then ''edit''
      else if tool_name = ''ls'' then ''list''
      else tool_name)"

definition evaluate_tool_with_patterns ::
    "string \<Rightarrow> string list \<Rightarrow> string list \<Rightarrow> PermissionRuleset list \<Rightarrow> PermissionAction" where
  "evaluate_tool_with_patterns tool_name patterns allowed_tools rulesets =
     (if allowed_tools \<noteq> [] \<and> tool_name \<notin> set allowed_tools then Deny
      else evaluate_permission_patterns (tool_to_permission tool_name) patterns rulesets)"

definition evaluate_tool ::
    "string \<Rightarrow> string list \<Rightarrow> PermissionRuleset list \<Rightarrow> PermissionAction" where
  "evaluate_tool tool_name allowed_tools rulesets =
     evaluate_tool_with_patterns tool_name [] allowed_tools rulesets"

definition evaluate_tool_permission ::
    "string \<Rightarrow> string list \<Rightarrow> PermissionRuleset list \<Rightarrow> PermissionAction" where
  "evaluate_tool_permission tool_name allowed_tools rulesets =
     evaluate_tool tool_name allowed_tools rulesets"

definition evaluate_tool_permission_with_patterns ::
    "string \<Rightarrow> string list \<Rightarrow> string list \<Rightarrow> PermissionRuleset list \<Rightarrow> PermissionAction" where
  "evaluate_tool_permission_with_patterns tool_name patterns allowed_tools rulesets =
     evaluate_tool_with_patterns tool_name patterns allowed_tools rulesets"

text \<open>The result is a hash set; the model keeps its members in the order of insertion.\<close>

definition tool_disabled :: "PermissionRuleset \<Rightarrow> string \<Rightarrow> bool" where
  "tool_disabled ruleset tool =
     (case find (\<lambda>r. wildcard_match (tool_to_permission tool) (rule_permission r)) (rev ruleset) of
        Some rule \<Rightarrow> rule_pattern rule = ''*'' \<and> rule_action rule = Deny
      | None \<Rightarrow> False)"

definition disabled :: "string list \<Rightarrow> PermissionRuleset \<Rightarrow> string list" where
  "disabled tools ruleset = remdups (filter (tool_disabled ruleset) tools)"

definition rule :: "string \<Rightarrow> string \<Rightarrow> PermissionAction \<Rightarrow> PermissionRule" where
  "rule permission pattern action =
     \<lparr>rule_permission = permission, rule_pattern = pattern, rule_action = action\<rparr>"

definition default_ruleset :: PermissionRuleset where
  "default_ruleset =
     [rule ''*'' ''*'' Allow,
      rule ''doom_loop'' ''*'' Ask,
      rule ''external_directory'' ''*'' Ask,
      rule ''question'' ''*'' Deny,
      rule ''read'' ''*.env'' Ask,
      rule ''read'' ''*.env.*'' Ask,
      rule ''read'' ''*.env.example'' Allow]"

definition build_specific :: PermissionRuleset where
  "build_specific = [rule ''question'' ''*'' Allow]"

definition plan_specific :: PermissionRuleset where
  "plan_specific = [rule ''question'' ''*'' Allow, rule ''edit'' ''*'' Deny]"

definition explore_specific :: PermissionRuleset where
  "explore_specific =
     [rule ''*'' ''*'' Deny,
      rule ''grep'' ''*'' Allow,
      rule ''glob'' ''*'' Allow,
      rule ''list'' ''*'' Allow,
      rule ''bash'' ''*'' Allow,
      rule ''webfetch'' ''*'' Allow,
      rule ''websearch'' ''*'' Allow,
      rule ''codesearch'' ''*'' Allow,
      rule ''ast_grep_search'' ''*'' Allow,
      rule ''read'' ''*'' Allow]"

definition build_agent_ruleset :: "string \<Rightarrow> PermissionRuleset \<Rightarrow> PermissionRuleset" where
  "build_agent_ruleset agent_name user =
     (if agent_name = ''build'' then merge_rulesets [default_ruleset, build_specific, user]
      else if agent_name = ''plan'' then merge_rulesets [default_ruleset, plan_specific, user]
      else if agent_name = ''explore'' then merge_rulesets [explore_specific, user]
      else merge_rulesets [default_ruleset, user])"

section \<open>Wildcards against a reference\<close>

text \<open>The usual meaning of a pattern: a star stands for any sequence of characters.\<close>

fun glob :: "string \<Rightarrow> string \<Rightarrow> bool" where
  "glob [] t \<longleftrightarrow> t = []"
| "glob (c # p) t \<longleftrightarrow>
     (if c = CHR ''*'' then list_ex (glob p) (suffixes t)
      else case t of [] \<Rightarrow> False | d # t' \<Rightarrow> c = d \<and> glob p t')"

lemma glob_literal: "CHR ''*'' \<notin> set p \<Longrightarrow> glob (p @ q) t \<longleftrightarrow> (\<exists>r. t = p @ r \<and> glob q r)"
  by (induction p arbitrary: t) (auto split: list.splits)

lemma glob_exact: "CHR ''*'' \<notin> set p \<Longrightarrow> glob p t \<longleftrightarrow> t = p"
  using glob_literal [of p "[]"] by auto

lemma glob_star: "glob (CHR ''*'' # p) t \<longleftrightarrow> (\<exists>r. suffix r t \<and> glob p r)"
  by (auto simp: list_ex_iff)

lemma glob_all: "glob ''*'' t"
  unfolding glob_star by auto

lemma starts_star: "starts_with p ''*'' \<longleftrightarrow> p \<noteq> [] \<and> hd p = CHR ''*''"
  by (cases p) (simp_all add: starts_with_def)

lemma ends_star: "ends_with p ''*'' \<longleftrightarrow> p \<noteq> [] \<and> last p = CHR ''*''"
  by (cases p rule: rev_cases) (simp_all add: ends_with_def starts_with_def)

lemma strip_star: "strip_prefix ''*'' (CHR ''*'' # p) = Some p"
  "p \<noteq> [] \<Longrightarrow> hd p \<noteq> CHR ''*'' \<Longrightarrow> strip_prefix ''*'' p = None"
  "strip_suffix ''*'' (p @ ''*'') = Some p"
  by (simp_all add: strip_prefix_def strip_suffix_Some_iff neq_Nil_conv) auto

lemma wildcard_star: "wildcard_match t ''*''"
  by (simp add: wildcard_match_def)

lemma wildcard_middle: "wildcard_match t (CHR ''*'' # m @ ''*'') \<longleftrightarrow> sublist m t"
  by (simp add: wildcard_match_def starts_star ends_star str_contains_iff)

lemma wildcard_suffix:
  "p \<noteq> [] \<Longrightarrow> last p \<noteq> CHR ''*'' \<Longrightarrow> wildcard_match t (CHR ''*'' # p) \<longleftrightarrow> suffix p t"
  by (simp add: wildcard_match_def starts_star ends_star strip_star ends_with_iff [of t p])

lemma wildcard_prefix:
  "p \<noteq> [] \<Longrightarrow> hd p \<noteq> CHR ''*'' \<Longrightarrow> wildcard_match t (p @ ''*'') \<longleftrightarrow> prefix p t"
  by (auto simp: wildcard_match_def starts_star ends_star strip_star starts_with_iff [of t p]
      append_eq_Cons_conv)

lemma wildcard_exact:
  assumes "p = [] \<or> hd p \<noteq> CHR ''*'' \<and> last p \<noteq> CHR ''*''"
  shows "wildcard_match t p \<longleftrightarrow> t = p"
proof -
  have "strip_suffix ''*'' p = None"
    using assms by (cases p rule: rev_cases) (auto simp: strip_suffix_def strip_prefix_def)
  moreover have "strip_prefix ''*'' p = None"
    using assms strip_star(2) [of p] by (cases p) (auto simp: strip_prefix_def)
  ultimately show ?thesis using assms by (auto simp: wildcard_match_def starts_star ends_star)
qed

text \<open>The five shapes of a pattern.\<close>

lemma pattern_shapes:
  obtains (star) "p = ''*''"
  | (middle) m where "p = CHR ''*'' # m @ ''*''"
  | (suf) q where "p = CHR ''*'' # q" "q \<noteq> []" "last q \<noteq> CHR ''*''"
  | (pre) q where "p = q @ ''*''" "q \<noteq> []" "hd q \<noteq> CHR ''*''"
  | (exact) "p = [] \<or> hd p \<noteq> CHR ''*'' \<and> last p \<noteq> CHR ''*''"
proof (cases "p = [] \<or> hd p \<noteq> CHR ''*''")
  case True
  then show ?thesis
    using exact pre by (cases p rule: rev_cases) (auto simp: hd_append split: if_splits)
next
  case False
  then obtain q where q: "p = CHR ''*'' # q" by (cases p) auto
  show ?thesis
    using star middle suf q by (cases q rule: rev_cases) auto
qed

lemma wildcard_refl: "wildcard_match s s"
proof (cases s rule: pattern_shapes)
  case (middle m)
  then show ?thesis by (simp add: wildcard_middle sublist_def) (metis append_Cons append_Nil)
qed (auto simp: wildcard_star wildcard_suffix wildcard_prefix wildcard_exact suffix_ConsI)

text \<open>
  \<^bold>\<open>Note.\<close> On patterns whose stars stand only at the ends, which is what the rules support, wildcard
  matching is the usual globbing, with a star for any sequence of characters.
\<close>

theorem wildcard_match_is_glob:
  assumes "CHR ''*'' \<notin> set (butlast (tl p))"
  shows "wildcard_match t p = glob p t"
proof (cases p rule: pattern_shapes)
  case star
  then show ?thesis by (simp add: wildcard_star glob_all del: glob.simps)
next
  case (middle m)
  then have "CHR ''*'' \<notin> set m" using assms by simp
  then show ?thesis
    unfolding middle wildcard_middle glob_star [of "m @ ''*''"] glob_literal [OF \<open>CHR ''*'' \<notin> set m\<close>]
    by (simp add: sublist_altdef' prefix_def glob_all del: glob.simps)
next
  case (suf q)
  then have "CHR ''*'' \<notin> set q"
    using assms by (metis append_butlast_last_id list.sel(3) rotate1.simps(2) set_ConsD set_rotate1)
  then show ?thesis
    using suf by (auto simp: wildcard_suffix glob_star glob_exact simp del: glob.simps)
next
  case (pre q)
  then obtain c q' where q: "q = c # q'" "c \<noteq> CHR ''*''" by (cases q) auto
  then have "CHR ''*'' \<notin> set q" using assms pre by simp
  then show ?thesis
    using pre by (auto simp: wildcard_prefix glob_literal glob_all prefix_def simp del: glob.simps)
next
  case exact
  then have "CHR ''*'' \<notin> set p"
    using assms by (cases p; cases "tl p" rule: rev_cases) auto
  then show ?thesis using exact by (simp add: wildcard_exact glob_exact del: glob.simps)
qed

theorem wildcard_match_is_glob_witness:
  "wildcard_match ''src/main.rs'' ''*.rs'' = glob ''*.rs'' ''src/main.rs''"
  using wildcard_match_is_glob [of "''*.rs''" "''src/main.rs''"] by simp

section \<open>Evaluation of rules\<close>

lemma evaluate_rules_append:
  "evaluate_rules permission pattern [rs @ [r]] =
     (if rule_matches permission pattern r then r else evaluate_rules permission pattern [rs])"
  by (simp add: evaluate_rules_def merge_rulesets_def)

lemma evaluate_rules_Nil: "rule_action (evaluate_rules permission pattern [[]]) = Ask"
  by (simp add: evaluate_rules_def merge_rulesets_def)

lemma evaluate_rules_merge: "evaluate_rules permission pattern rulesets =
    evaluate_rules permission pattern [List.concat rulesets]"
  by (simp add: evaluate_rules_def merge_rulesets_def)

text \<open>
  \<^bold>\<open>Note.\<close> The last matching rule decides. The evaluation of a permission and pattern is the rule after
  which no other rule of the merged rulesets matches, and it asks when none matches at all; so a
  ruleset later in the list overrides every earlier one wherever it has a matching rule.
\<close>

theorem evaluate_last_match_wins:
  "(\<exists>pre post. List.concat rulesets = pre @ evaluate_rules permission pattern rulesets # post
      \<and> rule_matches permission pattern (evaluate_rules permission pattern rulesets)
      \<and> list_all (\<lambda>r. \<not> rule_matches permission pattern r) post)
   \<or> (list_all (\<lambda>r. \<not> rule_matches permission pattern r) (List.concat rulesets)
      \<and> rule_action (evaluate_rules permission pattern rulesets) = Ask)"
proof -
  have "(\<exists>pre post. rs = pre @ evaluate_rules permission pattern [rs] # post
      \<and> rule_matches permission pattern (evaluate_rules permission pattern [rs])
      \<and> list_all (\<lambda>r. \<not> rule_matches permission pattern r) post)
   \<or> (list_all (\<lambda>r. \<not> rule_matches permission pattern r) rs
      \<and> rule_action (evaluate_rules permission pattern [rs]) = Ask)" for rs
  proof (induction rs rule: rev_induct)
    case Nil
    show ?case by (simp add: evaluate_rules_Nil)
  next
    case (snoc r rs)
    show ?case
    proof (cases "rule_matches permission pattern r")
      case True
      then show ?thesis
        by (intro disjI1 exI [of _ rs] exI [of _ "[]"]) (simp add: evaluate_rules_append)
    next
      case False
      from snoc show ?thesis
      proof (elim disjE exE conjE)
        fix pre post
        assume "rs = pre @ evaluate_rules permission pattern [rs] # post"
          "rule_matches permission pattern (evaluate_rules permission pattern [rs])"
          "list_all (\<lambda>r. \<not> rule_matches permission pattern r) post"
        with False show ?thesis
          by (intro disjI1 exI [of _ pre] exI [of _ "post @ [r]"]) (simp add: evaluate_rules_append)
      qed (simp add: False evaluate_rules_append)
    qed
  qed
  then show ?thesis by (subst (1 2 3) evaluate_rules_merge) simp
qed

lemma combine_from_eq:
  "combine_from c as = (if Deny \<in> set as then Deny else if Ask \<in> set as then Ask else c)"
  by (induction c as rule: combine_from.induct) auto

lemma combine_singleton: "combine_actions [a] = a"
  by (cases a) (simp_all add: combine_actions_def)

lemma evaluate_patterns_eq:
  "evaluate_permission_patterns permission patterns rulesets = combine_actions
     (map (\<lambda>p. rule_action (evaluate_rules permission p rulesets))
       (if patterns = [] then [''*''] else patterns))"
  by (simp add: evaluate_permission_patterns_def combine_singleton)

lemma combine_actions_eq:
  "combine_actions as = (if Deny \<in> set as then Deny else if Ask \<in> set as then Ask else Allow)"
  by (simp add: combine_actions_def combine_from_eq)

text \<open>
  \<^bold>\<open>Note.\<close> A request for several patterns is decided by its strictest part, in whatever order they
  come: denied if one pattern is denied, asked if none is denied but one is asked, and allowed if
  and only if every one is allowed. A tool outside a non-empty allow list is denied by no rule's leave.
\<close>

theorem tool_decision_is_strictest:
  "evaluate_tool_with_patterns tool patterns allowed rulesets =
   (let actions = map (\<lambda>p. rule_action (evaluate_rules (tool_to_permission tool) p rulesets))
                    (if patterns = [] then [''*''] else patterns)
    in if allowed \<noteq> [] \<and> tool \<notin> set allowed then Deny
       else if Deny \<in> set actions then Deny
       else if Ask \<in> set actions then Ask
       else Allow)"
  unfolding evaluate_tool_with_patterns_def evaluate_patterns_eq combine_actions_eq Let_def ..

text \<open>
  \<^bold>\<open>Note.\<close> A tool listed as disabled is denied: whatever patterns it is asked for, the ruleset that
  disables it decides \<open>Deny\<close>.
\<close>

theorem disabled_tools_are_denied:
  assumes "tool \<in> set (disabled tools rs)"
  shows "evaluate_tool_with_patterns tool patterns allowed [rs] = Deny"
proof -
  let ?perm = "tool_to_permission tool"
  have deny: "tool_disabled rs tool \<Longrightarrow> rule_action (evaluate_rules ?perm p [rs]) = Deny" for p
  proof (induction rs rule: rev_induct)
    case (snoc r rs)
    then show ?case
      by (cases "wildcard_match ?perm (rule_permission r)")
         (auto simp: tool_disabled_def evaluate_rules_append rule_matches_def wildcard_star)
  qed (simp add: tool_disabled_def)
  have "tool_disabled rs tool" using assms by (simp add: disabled_def)
  then show ?thesis
    unfolding evaluate_tool_with_patterns_def evaluate_patterns_eq combine_actions_eq
    by (cases patterns) (simp_all add: deny)
qed

lemma evaluate_rules_foldr:
  "evaluate_rules permission pattern [rs] = fold (\<lambda>r acc. if rule_matches permission pattern r then r else acc)
     rs (evaluate_rules permission pattern [[]])"
  by (induction rs rule: rev_induct) (simp_all add: evaluate_rules_append)

lemma wildcard_literal:
  "CHR ''*'' \<notin> set p \<Longrightarrow> wildcard_match t p \<longleftrightarrow> t = p"
  by (rule wildcard_exact) (metis hd_in_set last_in_set)

text \<open>
  \<^bold>\<open>Note.\<close> What the restricted agents may do when the user has no rules: the exploring agent is allowed
  exactly the read-only tools, shell and web lookups and denied everything else, never asked; the
  planning agent is denied every tool of the edit family.
\<close>

theorem restricted_agents:
  "rule_action (evaluate_rules permission pattern [build_agent_ruleset ''explore'' []]) =
     (if permission \<in> {''grep'', ''glob'', ''list'', ''bash'', ''webfetch'', ''websearch'',
         ''codesearch'', ''ast_grep_search'', ''read''} then Allow else Deny)
   \<and> (tool_to_permission tool = ''edit'' \<longrightarrow>
        evaluate_tool_with_patterns tool patterns allowed [build_agent_ruleset ''plan'' []] = Deny)"
proof -
  have explore: "rule_action (evaluate_rules permission pattern [build_agent_ruleset ''explore'' []]) =
     (if permission \<in> {''grep'', ''glob'', ''list'', ''bash'', ''webfetch'', ''websearch'',
         ''codesearch'', ''ast_grep_search'', ''read''} then Allow else Deny)"
    by (subst evaluate_rules_foldr)
       (simp add: build_agent_ruleset_def merge_rulesets_def explore_specific_def rule_def
        rule_matches_def wildcard_star wildcard_literal)
  have "rule_action (evaluate_rules ''edit'' p [build_agent_ruleset ''plan'' []]) = Deny" for p
    using evaluate_rules_append [of "''edit''" p "default_ruleset @ [rule ''question'' ''*'' Allow]"
        "rule ''edit'' ''*'' Deny"]
    by (simp add: build_agent_ruleset_def merge_rulesets_def plan_specific_def rule_matches_def
        rule_def wildcard_star wildcard_literal)
  then have "tool_to_permission tool = ''edit'' \<Longrightarrow>
      evaluate_tool_with_patterns tool patterns allowed [build_agent_ruleset ''plan'' []] = Deny"
    unfolding evaluate_tool_with_patterns_def evaluate_patterns_eq combine_actions_eq
    by (cases patterns) simp_all
  with explore show ?thesis by blast
qed

text \<open>
  \<^bold>\<open>Note.\<close> A configured ruleset depends on the iteration order of the hash map it is read from: with the
  same two patterns for the shell, one order denies \<open>git push\<close> and the other allows it.
\<close>

theorem from_config_depends_on_iteration_order:
  "rule_action (evaluate_rules ''bash'' ''git push''
     [from_config home [(''bash'', Patterns [(''git *'', Allow), (''git push'', Deny)])]]) = Deny
   \<and> rule_action (evaluate_rules ''bash'' ''git push''
     [from_config home [(''bash'', Patterns [(''git push'', Deny), (''git *'', Allow)])]]) = Allow"
proof -
  have "wildcard_match ''git push'' ''git *''"
    using wildcard_prefix [of "''git ''" "''git push''"] by simp
  moreover have "expand home ''git *'' = ''git *''" "expand home ''git push'' = ''git push''"
    by (simp_all add: expand_def starts_with_def split: option.split)
  ultimately show ?thesis
    by (simp add: from_config_def evaluate_rules_def merge_rulesets_def rule_matches_def
        wildcard_literal wildcard_star)
qed

section \<open>Properties of command prefixes\<close>

lemma ARITY_range: "map_of ARITY cmd = Some n \<Longrightarrow> 1 \<le> n \<and> n \<le> 3"
proof -
  have "list_all (\<lambda>p. 1 \<le> snd p \<and> snd p \<le> 3) ARITY" by (simp add: ARITY_def)
  then show "map_of ARITY cmd = Some n \<Longrightarrow> 1 \<le> n \<and> n \<le> 3"
    by (auto simp: list_all_iff dest!: map_of_SomeD)
qed

lemma arity_lookup_range: "arity_lookup tokens n = Some a \<Longrightarrow> 1 \<le> a \<and> a \<le> 3"
  by (induction n) (auto split: option.splits dest: ARITY_range)

text \<open>
  \<^bold>\<open>Note.\<close> For a command of at least three words the approval prefix exists: it is a prefix of the words
  with between one and three of them.
\<close>

theorem bash_prefix_of_long_command:
  assumes "3 \<le> length tokens"
  shows "\<exists>n. 1 \<le> n \<and> n \<le> 3 \<and> bash_prefix tokens = Inr (take n tokens)"
proof (cases "arity_lookup tokens (length tokens)")
  case None
  with assms show ?thesis
    by (intro exI [of _ 1]) (auto simp: bash_prefix_def slice_to_def)
next
  case (Some a)
  with assms arity_lookup_range [OF Some] show ?thesis
    by (intro exI [of _ a]) (simp add: bash_prefix_def slice_to_def)
qed

text \<open>
  \<^bold>\<open>Note.\<close> A command of a single word panics whenever the table expects more words after it, as it does
  for \<open>git\<close> or \<open>make\<close>.
\<close>

theorem bash_prefix_panics_on_bare_command:
  assumes "map_of ARITY cmd = Some n" and "1 < n"
  shows "bash_prefix [cmd] = Inl (SliceOutOfRange n 1)"
  using assms by (simp add: bash_prefix_def slice_to_def)

section \<open>Witnesses\<close>

theorem bash_prefix_panics_on_bare_command_witness:
  "bash_prefix [''make''] = Inl (SliceOutOfRange 2 1)"
  by (rule bash_prefix_panics_on_bare_command) (simp_all add: ARITY_def)

theorem bash_prefix_of_long_command_witness:
  "\<exists>n. 1 \<le> n \<and> n \<le> 3
     \<and> bash_prefix [''git'', ''commit'', ''-m''] = Inr (take n [''git'', ''commit'', ''-m''])"
  by (rule bash_prefix_of_long_command) simp

theorem disabled_tools_are_denied_witness:
  "evaluate_tool_with_patterns ''write'' [''a.txt''] [] [[rule ''edit'' ''*'' Deny]] = Deny"
proof (rule disabled_tools_are_denied)
  show "''write'' \<in> set (disabled [''write''] [rule ''edit'' ''*'' Deny])"
    by (simp add: disabled_def tool_disabled_def tool_to_permission_def rule_def wildcard_literal)
qed

theorem restricted_agents_witness:
  "evaluate_tool_with_patterns ''apply_patch'' [''a.txt''] [] [build_agent_ruleset ''plan'' []] = Deny"
  using restricted_agents [of _ _ "''apply_patch''"] by (simp add: tool_to_permission_def)

end
