(* ===== verification/Permission_Engine.thy ===== *)
theory Permission_Engine
  imports Permission_Rules
begin

text \<open>
  The permission engine of \<^verbatim>\<open>crates/agendao-permission/src/engine.rs\<close>: grant keys, grants for a session
  or a turn, the three phases of a request and the user's responses. Hash maps are association
  lists, so that the code's iterations over them compute. The JSON form of a grant key is a
  parameter \<open>ser\<close> (\<open>None\<close> where serialisation fails and the code falls back to its own format);
  plugin payloads and metadata values have type \<open>'j\<close>.
\<close>

section \<open>Types\<close>

datatype PermissionClass = InspectRead | WorkspaceWrite | ExternalAccess | DangerousExec

fun class_as_str :: "PermissionClass \<Rightarrow> string" where
  "class_as_str InspectRead = ''inspect_read''"
| "class_as_str WorkspaceWrite = ''workspace_write''"
| "class_as_str ExternalAccess = ''external_access''"
| "class_as_str DangerousExec = ''dangerous_exec''"

datatype PermissionLifetime = LifetimeOnce | LifetimeTurn | LifetimeSession

fun lifetime_as_str :: "PermissionLifetime \<Rightarrow> string" where
  "lifetime_as_str LifetimeOnce = ''once''"
| "lifetime_as_str LifetimeTurn = ''turn''"
| "lifetime_as_str LifetimeSession = ''session''"

datatype PermissionMatcherKind = ScopeOnly | ExactInput | StructuredFamily | SemanticPattern

fun matcher_as_str :: "PermissionMatcherKind \<Rightarrow> string" where
  "matcher_as_str ScopeOnly = ''scope_only''"
| "matcher_as_str ExactInput = ''exact_input''"
| "matcher_as_str StructuredFamily = ''structured_family''"
| "matcher_as_str SemanticPattern = ''semantic_pattern''"

record PermissionGrantDescriptor =
  gd_permission_class :: "PermissionClass option"
  gd_scope_key :: "string option"
  gd_matcher_kind :: "PermissionMatcherKind option"
  gd_matcher_key :: "string option"
  gd_origin_tool :: "string option"
  gd_risk_tags :: "string list"

definition descriptor_default :: PermissionGrantDescriptor where
  "descriptor_default = \<lparr>gd_permission_class = None, gd_scope_key = None, gd_matcher_kind = None,
     gd_matcher_key = None, gd_origin_tool = None, gd_risk_tags = []\<rparr>"

datatype Pattern = Single string | Multiple "string list"

record 'j PermissionInfo =
  pi_id :: string
  pi_permission_type :: string
  pi_pattern :: "Pattern option"
  pi_permission_class :: "PermissionClass option"
  pi_scope_key :: "string option"
  pi_matcher_kind :: "PermissionMatcherKind option"
  pi_matcher_key :: "string option"
  pi_origin_tool :: "string option"
  pi_risk_tags :: "string list"
  pi_supported_lifetimes :: "PermissionLifetime list"
  pi_session_id :: string
  pi_message_id :: string
  pi_call_id :: "string option"
  pi_message :: string
  pi_metadata :: "(string \<times> 'j) list"
  pi_created :: u64

definition descriptor_from :: "'j PermissionInfo \<Rightarrow> PermissionGrantDescriptor" where
  "descriptor_from info =
     \<lparr>gd_permission_class = pi_permission_class info, gd_scope_key = pi_scope_key info,
      gd_matcher_kind = pi_matcher_kind info, gd_matcher_key = pi_matcher_key info,
      gd_origin_tool = pi_origin_tool info, gd_risk_tags = pi_risk_tags info\<rparr>"

datatype Response = RespondOnce | RespondTurn | RespondAlways | RespondReject

datatype AskOutcome = Granted | Pending

record PermissionGrantKey =
  gk_permission_class :: "PermissionClass option"
  gk_scope_key :: "string option"
  gk_matcher_kind :: "PermissionMatcherKind option"
  gk_matcher_key :: "string option"

datatype PermissionError =
    PermNotFound string string
  | Rejected string string "string option"

type_synonym ('k, 'v) hash_map = "('k \<times> 'v) list"

record 'j PermissionEngine =
  eng_pending :: "(string, (string, 'j PermissionInfo) hash_map) hash_map"
  eng_approved :: "(string, (string, bool) hash_map) hash_map"
  eng_turn_approved :: "(string, (string, bool) hash_map) hash_map"

definition engine_new :: "'j PermissionEngine" where
  "engine_new = \<lparr>eng_pending = [], eng_approved = [], eng_turn_approved = []\<rparr>"

section \<open>Queries\<close>

definition list_infos :: "'j PermissionEngine \<Rightarrow> 'j PermissionInfo list" where
  "list_infos e = sort_key pi_id (List.concat (map (\<lambda>(_, items). map snd items) (eng_pending e)))"

definition find_info :: "'j PermissionEngine \<Rightarrow> string \<Rightarrow> 'j PermissionInfo option" where
  "find_info e permission_id =
     (case List.map_filter (\<lambda>(_, items). map_of items permission_id) (eng_pending e) of
        [] \<Rightarrow> None
      | info # _ \<Rightarrow> Some info)"

definition find_session :: "'j PermissionEngine \<Rightarrow> string \<Rightarrow> string option" where
  "find_session e permission_id =
     map_option fst (find (\<lambda>(_, items). permission_id \<in> fst ` set items) (eng_pending e))"

section \<open>Grant keys\<close>

type_synonym key_ser = "PermissionGrantKey \<Rightarrow> string option"

definition scope_namespace :: "PermissionClass option \<Rightarrow> string \<Rightarrow> string" where
  "scope_namespace permission_class permission_type =
     (case permission_class of Some c \<Rightarrow> class_as_str c | None \<Rightarrow> permission_type)"

definition serialize_key :: "key_ser \<Rightarrow> PermissionGrantKey \<Rightarrow> string" where
  "serialize_key ser key =
     (case ser key of
        Some s \<Rightarrow> s
      | None \<Rightarrow>
          (case gk_permission_class key of Some c \<Rightarrow> class_as_str c | None \<Rightarrow> ''unknown'') @ ''|''
          @ (case gk_scope_key key of Some s \<Rightarrow> s | None \<Rightarrow> ''*'') @ ''|''
          @ (case gk_matcher_kind key of Some m \<Rightarrow> matcher_as_str m | None \<Rightarrow> ''legacy'') @ ''|''
          @ (case gk_matcher_key key of Some s \<Rightarrow> s | None \<Rightarrow> ''*''))"

definition pattern_list :: "Pattern option \<Rightarrow> string list" where
  "pattern_list pattern =
     (case pattern of None \<Rightarrow> [] | Some (Single s) \<Rightarrow> [s] | Some (Multiple v) \<Rightarrow> v)"

definition legacy_to_keys ::
    "PermissionClass option \<Rightarrow> string option \<Rightarrow> Pattern option \<Rightarrow> string \<Rightarrow> string list" where
  "legacy_to_keys permission_class scope_key pattern permission_type =
     (case scope_key of
        Some scope \<Rightarrow>
          if trim scope \<noteq> [] then
            [scope_namespace permission_class permission_type @ ''|'' @ scope]
          else (case pattern of None \<Rightarrow> [permission_type] | _ \<Rightarrow> pattern_list pattern)
      | None \<Rightarrow> (case pattern of None \<Rightarrow> [permission_type] | _ \<Rightarrow> pattern_list pattern))"

definition trimmed :: "string option \<Rightarrow> string option" where
  "trimmed x = (case x of None \<Rightarrow> None | Some v \<Rightarrow> if trim v = [] then None else Some (trim v))"

definition scope_keys :: "key_ser \<Rightarrow> PermissionGrantDescriptor \<Rightarrow> string list" where
  "scope_keys ser d =
     (case trimmed (gd_scope_key d) of
        Some scope \<Rightarrow>
          if gd_matcher_kind d = None \<or> gd_matcher_kind d = Some ScopeOnly then
            [serialize_key ser \<lparr>gk_permission_class = gd_permission_class d,
               gk_scope_key = Some scope, gk_matcher_kind = Some ScopeOnly,
               gk_matcher_key = Some scope\<rparr>]
          else []
      | None \<Rightarrow> [])"

definition matcher_keys :: "key_ser \<Rightarrow> PermissionGrantDescriptor \<Rightarrow> string list" where
  "matcher_keys ser d =
     (case gd_matcher_kind d of
        Some kind \<Rightarrow>
          if kind = ScopeOnly then []
          else (case trimmed (gd_matcher_key d) of
                  Some matcher \<Rightarrow>
                    [serialize_key ser \<lparr>gk_permission_class = gd_permission_class d,
                       gk_scope_key = gd_scope_key d, gk_matcher_kind = Some kind,
                       gk_matcher_key = Some matcher\<rparr>]
                | None \<Rightarrow> [])
      | None \<Rightarrow> [])"

definition descriptor_to_keys ::
    "key_ser \<Rightarrow> PermissionGrantDescriptor \<Rightarrow> Pattern option \<Rightarrow> string \<Rightarrow> string list" where
  "descriptor_to_keys ser d pattern permission_type =
     (let keys = scope_keys ser d @ matcher_keys ser d;
          legacy = legacy_to_keys (gd_permission_class d) (gd_scope_key d) pattern permission_type
      in if keys = [] then legacy else remdups_adj (sort (keys @ legacy)))"

definition covered :: "string list \<Rightarrow> (string, bool) hash_map \<Rightarrow> bool" where
  "covered keys approved = list_all (\<lambda>k. list_ex (\<lambda>(p, _). wildcard_match k p) approved) keys"

definition is_approved ::
    "key_ser \<Rightarrow> 'j PermissionEngine \<Rightarrow> string \<Rightarrow> PermissionGrantDescriptor \<Rightarrow> Pattern option \<Rightarrow> string
       \<Rightarrow> bool" where
  "is_approved ser e session_id d pattern permission_type =
     covered (descriptor_to_keys ser d pattern permission_type)
       (or_default (map_of (eng_approved e) session_id))"

definition is_turn_approved ::
    "key_ser \<Rightarrow> 'j PermissionEngine \<Rightarrow> string \<Rightarrow> PermissionGrantDescriptor \<Rightarrow> Pattern option \<Rightarrow> string
       \<Rightarrow> bool" where
  "is_turn_approved ser e session_id d pattern permission_type =
     covered (descriptor_to_keys ser d pattern permission_type)
       (or_default (map_of (eng_turn_approved e) session_id))"

section \<open>Grants\<close>

definition insert_keys :: "string list \<Rightarrow> (string, bool) hash_map \<Rightarrow> (string, bool) hash_map" where
  "insert_keys keys approved = fold (\<lambda>k m. AList.update k True m) keys approved"

definition grant ::
    "key_ser \<Rightarrow> string \<Rightarrow> PermissionGrantDescriptor \<Rightarrow> string \<Rightarrow> Pattern option
       \<Rightarrow> 'j PermissionEngine \<Rightarrow> 'j PermissionEngine" where
  "grant ser session_id d permission_type pattern e =
     e\<lparr>eng_approved := AList.update session_id
         (insert_keys (descriptor_to_keys ser d pattern permission_type)
            (or_default (map_of (eng_approved e) session_id))) (eng_approved e)\<rparr>"

definition grant_turn ::
    "key_ser \<Rightarrow> string \<Rightarrow> PermissionGrantDescriptor \<Rightarrow> string \<Rightarrow> Pattern option
       \<Rightarrow> 'j PermissionEngine \<Rightarrow> 'j PermissionEngine" where
  "grant_turn ser session_id d permission_type pattern e =
     e\<lparr>eng_turn_approved := AList.update session_id
         (insert_keys (descriptor_to_keys ser d pattern permission_type)
            (or_default (map_of (eng_turn_approved e) session_id))) (eng_turn_approved e)\<rparr>"

definition grant_patterns ::
    "key_ser \<Rightarrow> string \<Rightarrow> string \<Rightarrow> string list \<Rightarrow> 'j PermissionEngine \<Rightarrow> 'j PermissionEngine" where
  "grant_patterns ser session_id permission_type patterns e =
     (let pattern = (case patterns of
                       [] \<Rightarrow> None
                     | [single] \<Rightarrow> Some (Single single)
                     | _ \<Rightarrow> Some (Multiple patterns))
      in grant ser session_id descriptor_default permission_type pattern e)"

section \<open>Requests and responses\<close>

definition evaluate_ask ::
    "key_ser \<Rightarrow> 'j PermissionInfo \<Rightarrow> PermissionRuleset list \<Rightarrow> 'j PermissionEngine
       \<Rightarrow> PermissionError + AskOutcome option" where
  "evaluate_ask ser info rulesets e =
     (if pi_permission_class info = Some InspectRead then Inr (Some Granted)
      else if is_approved ser e (pi_session_id info) (descriptor_from info) (pi_pattern info)
                (pi_permission_type info) then Inr (Some Granted)
      else if is_turn_approved ser e (pi_session_id info) (descriptor_from info) (pi_pattern info)
                (pi_permission_type info) then Inr (Some Granted)
      else case evaluate_permission_patterns (pi_permission_type info) (pattern_list (pi_pattern info))
                  rulesets of
        Allow \<Rightarrow> Inr (Some Granted)
      | Deny \<Rightarrow> Inl (Rejected (pi_session_id info) (pi_id info) (pi_call_id info))
      | Ask \<Rightarrow> Inr None)"

text \<open>
  The plugin phase: each output that carries a payload may set the status, the last one wins.
  \<open>payload_status\<close> reads the string member \<open>status\<close> of a payload, the way
  \<open>hook_payload_object\<close> finds it.
\<close>

definition extract_permission_status :: "('j \<Rightarrow> string option) \<Rightarrow> 'j \<Rightarrow> string option" where
  "extract_permission_status payload_status payload =
     (case payload_status payload of
        Some s \<Rightarrow> if s \<in> {''ask'', ''deny'', ''allow''} then Some s else None
      | None \<Rightarrow> None)"

fun hook_status :: "('j \<Rightarrow> string option) \<Rightarrow> string \<Rightarrow> 'j option list \<Rightarrow> string" where
  "hook_status payload_status status [] = status"
| "hook_status payload_status status (None # outputs) = hook_status payload_status status outputs"
| "hook_status payload_status status (Some payload # outputs) =
     hook_status payload_status
       (case extract_permission_status payload_status payload of
          Some next_status \<Rightarrow> next_status
        | None \<Rightarrow> status) outputs"

definition run_ask_hook :: "('j \<Rightarrow> string option) \<Rightarrow> 'j option list \<Rightarrow> string" where
  "run_ask_hook payload_status hook_outputs = hook_status payload_status ''ask'' hook_outputs"

definition commit_ask ::
    "key_ser \<Rightarrow> 'j PermissionInfo \<Rightarrow> string \<Rightarrow> 'j PermissionEngine
       \<Rightarrow> (PermissionError + AskOutcome) \<times> 'j PermissionEngine" where
  "commit_ask ser info status e =
     (if is_approved ser e (pi_session_id info) (descriptor_from info) (pi_pattern info)
           (pi_permission_type info)
         \<or> is_turn_approved ser e (pi_session_id info) (descriptor_from info) (pi_pattern info)
             (pi_permission_type info) then (Inr Granted, e)
      else if status = ''allow'' then (Inr Granted, e)
      else if status = ''deny'' then
        (Inl (Rejected (pi_session_id info) (pi_id info) (pi_call_id info)), e)
      else (Inr Pending,
            e\<lparr>eng_pending := AList.update (pi_session_id info)
                (AList.update (pi_id info) info
                   (or_default (map_of (eng_pending e) (pi_session_id info)))) (eng_pending e)\<rparr>))"

definition ask_with_rules ::
    "key_ser \<Rightarrow> ('j \<Rightarrow> string option) \<Rightarrow> 'j PermissionInfo \<Rightarrow> PermissionRuleset list \<Rightarrow> 'j option list
       \<Rightarrow> 'j PermissionEngine \<Rightarrow> (PermissionError + AskOutcome) \<times> 'j PermissionEngine" where
  "ask_with_rules ser payload_status info rulesets hook_outputs e =
     (case evaluate_ask ser info rulesets e of
        Inl err \<Rightarrow> (Inl err, e)
      | Inr (Some outcome) \<Rightarrow> (Inr outcome, e)
      | Inr None \<Rightarrow> commit_ask ser info (run_ask_hook payload_status hook_outputs) e)"

definition ask ::
    "key_ser \<Rightarrow> ('j \<Rightarrow> string option) \<Rightarrow> 'j PermissionInfo \<Rightarrow> 'j option list \<Rightarrow> 'j PermissionEngine
       \<Rightarrow> (PermissionError + AskOutcome) \<times> 'j PermissionEngine" where
  "ask ser payload_status info hook_outputs e =
     ask_with_rules ser payload_status info [] hook_outputs e"

definition apply_response ::
    "key_ser \<Rightarrow> string \<Rightarrow> 'j PermissionInfo \<Rightarrow> Response \<Rightarrow> 'j PermissionEngine \<Rightarrow> 'j PermissionEngine" where
  "apply_response ser session_id info response e =
     (case response of
        RespondAlways \<Rightarrow>
          grant ser session_id (descriptor_from info) (pi_permission_type info) (pi_pattern info) e
      | RespondTurn \<Rightarrow>
          grant_turn ser session_id (descriptor_from info) (pi_permission_type info) (pi_pattern info) e
      | _ \<Rightarrow> e)"

definition respond ::
    "key_ser \<Rightarrow> string \<Rightarrow> string \<Rightarrow> Response \<Rightarrow> 'j PermissionEngine
       \<Rightarrow> (PermissionError + unit) \<times> 'j PermissionEngine" where
  "respond ser session_id permission_id response e =
     (case map_of (eng_pending e) session_id of
        None \<Rightarrow> (Inl (PermNotFound session_id permission_id), e)
      | Some items \<Rightarrow>
          (case map_of items permission_id of
             None \<Rightarrow> (Inl (PermNotFound session_id permission_id), e)
           | Some info \<Rightarrow>
               let e1 = e\<lparr>eng_pending :=
                     AList.update session_id (AList.delete permission_id items) (eng_pending e)\<rparr>
               in if response = RespondReject
                  then (Inl (Rejected session_id permission_id (pi_call_id info)), e1)
                  else (Inr (), apply_response ser session_id info response e1)))"

definition respond_by_id ::
    "key_ser \<Rightarrow> string \<Rightarrow> Response \<Rightarrow> 'j PermissionEngine
       \<Rightarrow> (PermissionError + 'j PermissionInfo) \<times> 'j PermissionEngine" where
  "respond_by_id ser permission_id response e =
     (case find_session e permission_id of
        None \<Rightarrow> (Inl (PermNotFound ''*'' permission_id), e)
      | Some session_id \<Rightarrow>
          (case find_info e permission_id of
             None \<Rightarrow> (Inl (PermNotFound session_id permission_id), e)
           | Some info \<Rightarrow>
               (case respond ser session_id permission_id response e of
                  (Inl err, e1) \<Rightarrow> (Inl err, e1)
                | (Inr _, e1) \<Rightarrow> (Inr info, e1))))"

definition remove_pending ::
    "string \<Rightarrow> 'j PermissionEngine \<Rightarrow> 'j PermissionInfo option \<times> 'j PermissionEngine" where
  "remove_pending permission_id e =
     (case find_session e permission_id of
        None \<Rightarrow> (None, e)
      | Some session_id \<Rightarrow>
          (case map_of (eng_pending e) session_id of
             None \<Rightarrow> (None, e)
           | Some items \<Rightarrow>
               (case map_of items permission_id of
                  None \<Rightarrow> (None, e)
                | Some info \<Rightarrow>
                    let items' = AList.delete permission_id items
                    in (Some info,
                        e\<lparr>eng_pending := (if items' = [] then AList.delete session_id (eng_pending e)
                                          else AList.update session_id items' (eng_pending e))\<rparr>))))"

definition clear_session :: "string \<Rightarrow> 'j PermissionEngine \<Rightarrow> 'j PermissionEngine" where
  "clear_session session_id e =
     e\<lparr>eng_pending := AList.delete session_id (eng_pending e),
        eng_approved := AList.delete session_id (eng_approved e),
        eng_turn_approved := AList.delete session_id (eng_turn_approved e)\<rparr>"

definition clear_turn :: "string \<Rightarrow> 'j PermissionEngine \<Rightarrow> 'j PermissionEngine" where
  "clear_turn session_id e =
     e\<lparr>eng_turn_approved := AList.delete session_id (eng_turn_approved e)\<rparr>"

section \<open>Approvals as sets of keys\<close>

definition approved_keys :: "'j PermissionEngine \<Rightarrow> string \<Rightarrow> string set" where
  "approved_keys e sid = fst ` set (or_default (map_of (eng_approved e) sid))"

definition turn_keys :: "'j PermissionEngine \<Rightarrow> string \<Rightarrow> string set" where
  "turn_keys e sid = fst ` set (or_default (map_of (eng_turn_approved e) sid))"

definition info_keys :: "key_ser \<Rightarrow> 'j PermissionInfo \<Rightarrow> string set" where
  "info_keys ser info =
     set (descriptor_to_keys ser (descriptor_from info) (pi_pattern info) (pi_permission_type info))"

lemma covered_iff:
  "covered keys approved \<longleftrightarrow> (\<forall>k\<in>set keys. \<exists>p\<in>fst ` set approved. wildcard_match k p)"
  by (simp add: covered_def list_all_iff list_ex_iff case_prod_beta)

lemma keys_insert_keys: "fst ` set (insert_keys ks m) = set ks \<union> fst ` set m"
  unfolding insert_keys_def
  by (induction ks arbitrary: m) (auto simp: dom_update)

lemma is_approved_iff:
  "is_approved ser e sid d pat ty \<longleftrightarrow>
     (\<forall>k\<in>set (descriptor_to_keys ser d pat ty). \<exists>p\<in>approved_keys e sid. wildcard_match k p)"
  "is_turn_approved ser e sid d pat ty \<longleftrightarrow>
     (\<forall>k\<in>set (descriptor_to_keys ser d pat ty). \<exists>p\<in>turn_keys e sid. wildcard_match k p)"
  by (simp_all add: is_approved_def is_turn_approved_def covered_iff approved_keys_def turn_keys_def)

lemma approved_keys_grant:
  "approved_keys (grant ser sid d ty pat e) sid' =
     approved_keys e sid' \<union> (if sid' = sid then set (descriptor_to_keys ser d pat ty) else {})"
  "turn_keys (grant ser sid d ty pat e) sid' = turn_keys e sid'"
  "eng_pending (grant ser sid d ty pat e) = eng_pending e"
  by (auto simp: approved_keys_def turn_keys_def grant_def update_conv' keys_insert_keys or_default_def
      split: option.splits)

lemma approved_keys_grant_turn:
  "turn_keys (grant_turn ser sid d ty pat e) sid' =
     turn_keys e sid' \<union> (if sid' = sid then set (descriptor_to_keys ser d pat ty) else {})"
  "approved_keys (grant_turn ser sid d ty pat e) sid' = approved_keys e sid'"
  "eng_pending (grant_turn ser sid d ty pat e) = eng_pending e"
  by (auto simp: approved_keys_def turn_keys_def grant_turn_def update_conv' keys_insert_keys
      or_default_def split: option.splits)

lemma approved_keys_pending [simp]:
  "approved_keys (e\<lparr>eng_pending := p\<rparr>) sid = approved_keys e sid"
  "turn_keys (e\<lparr>eng_pending := p\<rparr>) sid = turn_keys e sid"
  by (simp_all add: approved_keys_def turn_keys_def)

lemma keys_clear:
  "approved_keys (clear_session sid e) sid' = (if sid' = sid then {} else approved_keys e sid')"
  "turn_keys (clear_session sid e) sid' = (if sid' = sid then {} else turn_keys e sid')"
  "approved_keys (clear_turn sid e) sid' = approved_keys e sid'"
  "turn_keys (clear_turn sid e) sid' = (if sid' = sid then {} else turn_keys e sid')"
  by (auto simp: approved_keys_def turn_keys_def clear_session_def clear_turn_def delete_conv'
      or_default_def)

lemma keys_apply_response:
  "approved_keys (apply_response ser sid info r e) sid' =
     approved_keys e sid' \<union> (if sid' = sid \<and> r = RespondAlways then info_keys ser info else {})"
  "turn_keys (apply_response ser sid info r e) sid' =
     turn_keys e sid' \<union> (if sid' = sid \<and> r = RespondTurn then info_keys ser info else {})"
  "eng_pending (apply_response ser sid info r e) = eng_pending e"
  by (cases r; simp add: apply_response_def approved_keys_grant approved_keys_grant_turn
      info_keys_def)+

lemma pattern_of_patterns:
  "legacy_to_keys None None
     (case ps of [] \<Rightarrow> None | [single] \<Rightarrow> Some (Single single) | _ \<Rightarrow> Some (Multiple ps)) ty
   = (if ps = [] then [ty] else ps)"
  by (cases ps; cases "tl ps") (simp_all add: legacy_to_keys_def pattern_list_def)

lemma approved_keys_grant_patterns:
  "approved_keys (grant_patterns ser sid ty ps e) sid' =
     approved_keys e sid' \<union> (if sid' = sid then set (if ps = [] then [ty] else ps) else {})"
  "turn_keys (grant_patterns ser sid ty ps e) sid' = turn_keys e sid'"
  unfolding grant_patterns_def Let_def approved_keys_grant
  using pattern_of_patterns [of ps ty]
  by (simp_all add: descriptor_to_keys_def scope_keys_def matcher_keys_def descriptor_default_def
      trimmed_def)

section \<open>Responses\<close>

lemma respond_Inr:
  "respond ser sid pid r e = (Inr u, e') \<longleftrightarrow> r \<noteq> RespondReject
   \<and> (\<exists>items info. map_of (eng_pending e) sid = Some items \<and> map_of items pid = Some info
        \<and> e' = apply_response ser sid info r
            (e\<lparr>eng_pending := AList.update sid (AList.delete pid items) (eng_pending e)\<rparr>))"
  by (auto simp: respond_def Let_def split: option.splits)

lemma respond_Inl:
  "respond ser sid pid r e = (Inl err, e') \<Longrightarrow>
     approved_keys e' s = approved_keys e s \<and> turn_keys e' s = turn_keys e s"
  by (auto simp: respond_def Let_def split: option.splits if_splits)

section \<open>Histories of an engine\<close>

datatype 'j engine_op =
    DoAsk "'j PermissionInfo" "PermissionRuleset list" "'j option list"
  | DoRespond string string Response
  | DoRespondById string Response
  | DoGrantPatterns string string "string list"
  | DoRemovePending string
  | DoClearSession string
  | DoClearTurn string

fun engine_step ::
    "key_ser \<Rightarrow> ('j \<Rightarrow> string option) \<Rightarrow> 'j engine_op \<Rightarrow> 'j PermissionEngine \<Rightarrow> 'j PermissionEngine" where
  "engine_step ser ps (DoAsk info rulesets outputs) e =
     snd (ask_with_rules ser ps info rulesets outputs e)"
| "engine_step ser ps (DoRespond sid pid r) e = snd (respond ser sid pid r e)"
| "engine_step ser ps (DoRespondById pid r) e = snd (respond_by_id ser pid r e)"
| "engine_step ser ps (DoGrantPatterns sid ty patterns) e = grant_patterns ser sid ty patterns e"
| "engine_step ser ps (DoRemovePending pid) e = snd (remove_pending pid e)"
| "engine_step ser ps (DoClearSession sid) e = clear_session sid e"
| "engine_step ser ps (DoClearTurn sid) e = clear_turn sid e"

text \<open>The keys a step entitles a session to: those of a request answered with \<open>Always\<close>, or granted outright.\<close>

definition response_consents ::
    "key_ser \<Rightarrow> string \<Rightarrow> string \<Rightarrow> Response \<Rightarrow> 'j PermissionEngine \<Rightarrow> string \<Rightarrow> string set" where
  "response_consents ser sid pid r e s =
     (case map_of (eng_pending e) sid of
        Some items \<Rightarrow>
          (case map_of items pid of
             Some info \<Rightarrow> if s = sid \<and> r = RespondAlways then info_keys ser info else {}
           | None \<Rightarrow> {})
      | None \<Rightarrow> {})"

fun consents ::
    "key_ser \<Rightarrow> 'j engine_op \<Rightarrow> 'j PermissionEngine \<Rightarrow> string \<Rightarrow> string set" where
  "consents ser (DoRespond sid pid r) e s = response_consents ser sid pid r e s"
| "consents ser (DoRespondById pid r) e s =
     (case find_session e pid of
        Some sid \<Rightarrow> response_consents ser sid pid r e s
      | None \<Rightarrow> {})"
| "consents ser (DoGrantPatterns sid ty patterns) e s =
     (if s = sid then set (if patterns = [] then [ty] else patterns) else {})"
| "consents ser _ e s = {}"

fun engine_history ::
    "key_ser \<Rightarrow> ('j \<Rightarrow> string option) \<Rightarrow> 'j engine_op list \<Rightarrow> 'j PermissionEngine \<Rightarrow> string
       \<Rightarrow> string set \<times> 'j PermissionEngine" where
  "engine_history ser ps [] e s = ({}, e)"
| "engine_history ser ps (x # xs) e s =
     (let (ks, e') = engine_history ser ps xs (engine_step ser ps x e) s
      in (consents ser x e s \<union> ks, e'))"

lemma ask_keeps_grants:
  "approved_keys (snd (ask_with_rules ser ps info rulesets outputs e)) s = approved_keys e s"
  "turn_keys (snd (ask_with_rules ser ps info rulesets outputs e)) s = turn_keys e s"
  by (auto simp: ask_with_rules_def commit_ask_def split: sum.splits option.splits)

lemma respond_consents:
  "approved_keys (snd (respond ser sid pid r e)) s \<subseteq>
     approved_keys e s \<union> response_consents ser sid pid r e s"
  by (auto simp: response_consents_def respond_def Let_def keys_apply_response split: option.splits)

lemma respond_by_id_snd:
  "snd (respond_by_id ser pid r e) =
     (case find_session e pid of
        Some sid \<Rightarrow> if find_info e pid = None then e else snd (respond ser sid pid r e)
      | None \<Rightarrow> e)"
  by (auto simp: respond_by_id_def split: option.splits prod.splits sum.splits)

lemma engine_step_consents:
  "approved_keys (engine_step ser ps x e) s \<subseteq> approved_keys e s \<union> consents ser x e s"
proof (cases x)
  case (DoRespond sid pid r)
  then show ?thesis using respond_consents [of ser sid pid r e s] by simp
next
  case (DoRespondById pid r)
  then show ?thesis
    using respond_consents [of ser _ pid r e s]
    by (auto simp: respond_by_id_snd split: option.split)
next
  case (DoRemovePending pid)
  then show ?thesis
    by (auto simp: remove_pending_def Let_def split: option.splits)
qed (auto simp: ask_keeps_grants approved_keys_grant_patterns keys_clear split: if_splits)

text \<open>
  \<^bold>\<open>C14.\<close> No lasting approval without consent. Over any history of a fresh engine, whatever is asked
  and however plugins and rules decide, every key a session holds comes from a request of that
  session that was pending and answered with \<open>Always\<close>, or from an explicit grant to that session.
\<close>

theorem approvals_need_consent:
  assumes "engine_history ser ps xs engine_new s = (ks, e)"
  shows "approved_keys e s \<subseteq> ks"
proof -
  have "engine_history ser ps xs e0 s = (ks, e) \<Longrightarrow> approved_keys e s \<subseteq> approved_keys e0 s \<union> ks"
    for e0 ks
  proof (induction xs arbitrary: e0 ks)
    case (Cons x xs)
    then obtain ks1 where "engine_history ser ps xs (engine_step ser ps x e0) s = (ks1, e)"
        "ks = consents ser x e0 s \<union> ks1"
      by (auto split: prod.splits)
    with Cons.IH [of "engine_step ser ps x e0" ks1] engine_step_consents [of ser ps x e0 s]
    show ?case by blast
  qed simp
  from this [OF assms] show ?thesis by (simp add: engine_new_def approved_keys_def or_default_def)
qed

text \<open>
  \<^bold>\<open>Note.\<close> Answers take effect once, with the lifetime they name. Answering a pending request removes it,
  so a second answer finds nothing; \<open>Always\<close> lets every later request with the same descriptor,
  pattern and type through in that session, whatever the rules say, until the session is cleared;
  \<open>Turn\<close> does so until the turn is cleared; \<open>Once\<close> and \<open>Reject\<close> grant nothing.
\<close>

theorem response_lifetimes:
  assumes "map_of (eng_pending e) sid = Some items" and "map_of items pid = Some info"
    and "respond ser sid pid r e = (res, e')"
    and "pi_session_id later = sid" "descriptor_from later = descriptor_from info"
      "pi_pattern later = pi_pattern info" "pi_permission_type later = pi_permission_type info"
  shows "fst (respond ser sid pid r' e') = Inl (PermNotFound sid pid)
    \<and> (r = RespondAlways \<longrightarrow> res = Inr ()
         \<and> evaluate_ask ser later rules (clear_turn sid e') = Inr (Some Granted)
         \<and> approved_keys (clear_session sid e') sid = {})
    \<and> (r = RespondTurn \<longrightarrow> res = Inr () \<and> evaluate_ask ser later rules e' = Inr (Some Granted)
         \<and> turn_keys (clear_turn sid e') sid = {})
    \<and> (r = RespondOnce \<or> r = RespondReject \<longrightarrow>
         approved_keys e' = approved_keys e \<and> turn_keys e' = turn_keys e)"
proof -
  let ?e1 = "e\<lparr>eng_pending := AList.update sid (AList.delete pid items) (eng_pending e)\<rparr>"
  have e': "e' = (if r = RespondReject then ?e1 else apply_response ser sid info r ?e1)"
    and res: "r \<noteq> RespondReject \<Longrightarrow> res = Inr ()"
    using assms(1-3) by (auto simp: respond_def Let_def split: if_splits)
  have pend: "map_of (eng_pending e') sid = Some (AList.delete pid items)"
    by (simp add: e' keys_apply_response update_conv')
  then have gone: "fst (respond ser sid pid r' e') = Inl (PermNotFound sid pid)"
    by (simp add: respond_def delete_conv')
  have keys: "set (descriptor_to_keys ser (descriptor_from later) (pi_pattern later)
      (pi_permission_type later)) = info_keys ser info"
    using assms(5-7) by (simp add: info_keys_def)
  have always: "is_approved ser (clear_turn sid e') sid (descriptor_from later) (pi_pattern later)
      (pi_permission_type later)" if "r = RespondAlways"
    using that wildcard_refl by (auto simp: is_approved_iff keys keys_clear e' keys_apply_response)
  have turn: "is_turn_approved ser e' sid (descriptor_from later) (pi_pattern later)
      (pi_permission_type later)" if "r = RespondTurn"
    using that wildcard_refl by (auto simp: is_approved_iff keys e' keys_apply_response)
  show ?thesis
    using gone res always turn assms(4)
    by (auto simp: evaluate_ask_def keys_clear e' keys_apply_response fun_eq_iff)
qed

definition cleared_for :: "key_ser \<Rightarrow> 'j PermissionEngine \<Rightarrow> 'j PermissionInfo \<Rightarrow> bool" where
  "cleared_for ser e info \<longleftrightarrow> pi_permission_class info = Some InspectRead
     \<or> is_approved ser e (pi_session_id info) (descriptor_from info) (pi_pattern info)
         (pi_permission_type info)
     \<or> is_turn_approved ser e (pi_session_id info) (descriptor_from info) (pi_pattern info)
         (pi_permission_type info)"

definition rules_decide :: "PermissionRuleset list \<Rightarrow> 'j PermissionInfo \<Rightarrow> PermissionAction" where
  "rules_decide rulesets info = evaluate_permission_patterns (pi_permission_type info)
     (pattern_list (pi_pattern info)) rulesets"

text \<open>
  \<^bold>\<open>Note.\<close> Every outcome of a request has its reason. It is granted only for inspection, by an earlier
  approval of the session or turn, by a rule that allows, or, when the rules ask, by a plugin; it is
  rejected only when none of the approvals applies and a rule or plugin denies; otherwise it is
  registered as pending under its session and id. In no case does asking change an approval.
\<close>

theorem ask_outcome_has_reason:
  "case ask_with_rules ser ps info rulesets outputs e of
      (Inr Granted, e') \<Rightarrow> e' = e \<and> (cleared_for ser e info \<or> rules_decide rulesets info = Allow
          \<or> rules_decide rulesets info = Ask \<and> run_ask_hook ps outputs = ''allow'')
    | (Inl err, e') \<Rightarrow> e' = e \<and> \<not> cleared_for ser e info
        \<and> err = Rejected (pi_session_id info) (pi_id info) (pi_call_id info)
        \<and> (rules_decide rulesets info = Deny
            \<or> rules_decide rulesets info = Ask \<and> run_ask_hook ps outputs = ''deny'')
    | (Inr Pending, e') \<Rightarrow> \<not> cleared_for ser e info \<and> rules_decide rulesets info = Ask
        \<and> run_ask_hook ps outputs \<notin> {''allow'', ''deny''}
        \<and> (\<exists>items. map_of (eng_pending e') (pi_session_id info) = Some items
              \<and> map_of items (pi_id info) = Some info)
        \<and> eng_approved e' = eng_approved e \<and> eng_turn_approved e' = eng_turn_approved e"
  by (cases "rules_decide rulesets info")
     (auto simp: cleared_for_def rules_decide_def ask_with_rules_def evaluate_ask_def commit_ask_def
       update_conv')

text \<open>
  \<^bold>\<open>Note.\<close> Two ways past the prompt that need no approval for what is asked: a pattern granted to a session
  for one permission type is approved for every other type asked with the same pattern and no
  descriptor, and a request for an empty list of patterns with no scope is approved by a fresh engine.
\<close>

theorem approval_ignores_type_and_empty_patterns:
  "is_approved ser (grant_patterns ser sid ty [p] e) sid descriptor_default (Some (Single p)) other_ty
   \<and> is_approved ser engine_new sid descriptor_default (Some (Multiple [])) ty"
proof -
  have keys: "descriptor_to_keys ser descriptor_default pat ty' = legacy_to_keys None None pat ty'"
    for pat ty'
    by (simp add: descriptor_to_keys_def scope_keys_def matcher_keys_def descriptor_default_def
        trimmed_def)
  show ?thesis
    unfolding is_approved_iff keys approved_keys_grant_patterns
    by (simp add: legacy_to_keys_def pattern_list_def wildcard_refl)
qed

section \<open>Witnesses\<close>

definition demo_info :: "unit PermissionInfo" where
  "demo_info = \<lparr>pi_id = ''per_1'', pi_permission_type = ''bash'', pi_pattern = Some (Single ''make test''),
     pi_permission_class = Some DangerousExec, pi_scope_key = None, pi_matcher_kind = Some ExactInput,
     pi_matcher_key = Some ''make test'', pi_origin_tool = Some ''bash'', pi_risk_tags = [],
     pi_supported_lifetimes = [LifetimeOnce, LifetimeSession], pi_session_id = ''ses'',
     pi_message_id = ''msg'', pi_call_id = None, pi_message = ''run the tests'', pi_metadata = [],
     pi_created = 0\<rparr>"

definition demo_engine :: "unit PermissionEngine" where
  "demo_engine = \<lparr>eng_pending = [(''ses'', [(''per_1'', demo_info)])], eng_approved = [],
     eng_turn_approved = []\<rparr>"

theorem response_lifetimes_witness:
  "evaluate_ask (\<lambda>_. None) demo_info [[rule ''*'' ''*'' Deny]]
     (clear_turn ''ses'' (snd (respond (\<lambda>_. None) ''ses'' ''per_1'' RespondAlways demo_engine)))
   = Inr (Some Granted)"
proof -
  have "map_of (eng_pending demo_engine) ''ses'' = Some [(''per_1'', demo_info)]"
    "map_of [(''per_1'', demo_info)] ''per_1'' = Some demo_info" "pi_session_id demo_info = ''ses''"
    by (simp_all add: demo_engine_def demo_info_def)
  from response_lifetimes [OF this(1,2) surjective_pairing this(3) refl refl refl,
      where r = RespondAlways and rules = "[[rule ''*'' ''*'' Deny]]"]
  show ?thesis by blast
qed

theorem approvals_need_consent_witness:
  "approved_keys (snd (engine_history (\<lambda>_. None) (\<lambda>_. None)
       [DoAsk demo_info [] [], DoRespond ''ses'' ''per_1'' RespondAlways] engine_new ''ses'')) ''ses''
   \<subseteq> fst (engine_history (\<lambda>_. None) (\<lambda>_. None)
       [DoAsk demo_info [] [], DoRespond ''ses'' ''per_1'' RespondAlways] engine_new ''ses'')"
  by (rule approvals_need_consent [OF surjective_pairing])

end
