(* ===== verification/Submission.thy ===== *)
theory Submission
  imports Interfaces
begin

text \<open>
  The submission protocol: the wire types of \<^verbatim>\<open>crates/agendao-types/src/submission.rs\<close> and the
  authority of \<^verbatim>\<open>crates/agendao-server-core/src/submission_authority.rs\<close>, with its per-session prompt
  queues under optimistic concurrency, its idempotency caches and its event sequence. The standard
  hasher and the derived \<open>Debug\<close> form of a rejection are the parameters \<open>h\<close> and \<open>dbg\<close>; fresh ids and
  clock readings are arguments. Each method holds its locks for its whole body, so it is one function
  on the state; \<open>build_runtime_snapshot\<close>, which takes them one after the other, is a composition with
  what other tasks do in between.
\<close>

section \<open>Wire types\<close>

datatype SubmissionMode = Auto | StartTurn | QueueMode | Steer string

record SubmitInputCommand =
  sub_client_request_id :: string
  sub_session_id :: string
  sub_mode :: SubmissionMode
  sub_content :: string

datatype SubmissionRejectionReason =
    TurnConflict string
  | TargetTurnFinished string
  | SubSessionNotFound string
  | EmptyContent
  | QueueFull nat
  | InvalidMode string
  | IdempotencyPayloadMismatch string
  | QueueRevisionConflict u64 u64
  | DuplicateRequestInProgress string
  | QueueItemNotFound string string
  | QueuePositionOutOfRange u32 u32

datatype SubmissionDisposition =
    Started string string
  | Queued string string u32 u64
  | SteeringPending string string string nat
  | SubRejected SubmissionRejectionReason string

record QueueMutationRequest =
  qm_client_request_id :: string
  qm_session_id :: string
  qm_item_id :: string
  qm_expected_revision :: u64

record QueueEditRequest =
  qe_client_request_id :: string
  qe_session_id :: string
  qe_item_id :: string
  qe_expected_revision :: u64
  qe_content :: string

record QueueReorderRequest =
  qr_client_request_id :: string
  qr_session_id :: string
  qr_item_id :: string
  qr_expected_revision :: u64
  qr_new_position :: u32

datatype QueueMutationDisposition =
    Applied string string u32 u64
  | MutRejected SubmissionRejectionReason string

record QueuedInputSnapshot =
  qs_item_id :: string
  qs_client_request_id :: string
  qs_content :: string
  qs_position :: u32
  qs_created_at_ms :: i64

record SteeringSnapshot =
  ss_steering_id :: string
  ss_target_turn_id :: string
  ss_content :: string
  ss_deliver_at :: string
  ss_enqueued_at_ms :: i64

record ActiveTurnSnapshot =
  at_turn_id :: string
  at_phase :: string
  at_started_at_ms :: i64
  at_active_tool_call_id :: "string option"
  at_blocker_id :: "string option"
  at_interrupt_requested :: bool

record InterruptCommand =
  ic_client_request_id :: string
  ic_session_id :: string
  ic_expected_turn_id :: string

datatype InterruptDisposition = IntInterrupted string string | IntRejected string string

datatype TurnOutcome =
    TurnCompleted i64
  | TurnInterrupted i64 "string option"
  | TurnFailed i64 string

record SessionRuntimeSnapshot =
  rs_session_id :: string
  rs_runtime_revision :: u64
  rs_queue_revision :: u64
  rs_last_event_sequence :: u64
  rs_active_turn :: "ActiveTurnSnapshot option"
  rs_queued_inputs :: "QueuedInputSnapshot list"
  rs_pending_steering :: "SteeringSnapshot list"
  rs_last_turn_outcome :: "TurnOutcome option"

section \<open>The authority\<close>

record QueuedItem =
  qi_id :: string
  qi_client_request_id :: string
  qi_session_id :: string
  qi_content :: string
  qi_payload_hash :: u64
  qi_created_at_ms :: i64

record SubmissionAuthority =
  sa_idempotency_cache :: "string \<times> string \<rightharpoonup> i64 \<times> u64 \<times> SubmissionDisposition"
  sa_queue_mutation_cache :: "string \<times> string \<rightharpoonup> u64 \<times> QueueMutationDisposition"
  sa_queued_prompts :: "string \<rightharpoonup> QueuedItem list"
  sa_queue_revisions :: "string \<rightharpoonup> u64"
  sa_sequence_counter :: u64

definition authority_new :: SubmissionAuthority where
  "authority_new = \<lparr>sa_idempotency_cache = Map.empty, sa_queue_mutation_cache = Map.empty,
     sa_queued_prompts = Map.empty, sa_queue_revisions = Map.empty, sa_sequence_counter = 1\<rparr>"

definition next_sequence :: "SubmissionAuthority \<Rightarrow> u64 \<times> SubmissionAuthority" where
  "next_sequence a =
     (sa_sequence_counter a, a\<lparr>sa_sequence_counter := sa_sequence_counter a + 1\<rparr>)"

definition current_sequence :: "SubmissionAuthority \<Rightarrow> u64" where
  "current_sequence a = sa_sequence_counter a"

definition get_queue_revision :: "SubmissionAuthority \<Rightarrow> string \<Rightarrow> u64" where
  "get_queue_revision a sid = (case sa_queue_revisions a sid of None \<Rightarrow> 0 | Some r \<Rightarrow> r)"

definition check_idempotent ::
    "SubmissionAuthority \<Rightarrow> string \<Rightarrow> string \<Rightarrow> u64
       \<Rightarrow> SubmissionRejectionReason + SubmissionDisposition option" where
  "check_idempotent a sid request_id payload_hash =
     (case sa_idempotency_cache a (sid, request_id) of
        Some (_, cached_hash, disp) \<Rightarrow>
          if cached_hash = payload_hash then Inr (Some disp)
          else Inl (IdempotencyPayloadMismatch request_id)
      | None \<Rightarrow> Inr None)"

definition record_disposition ::
    "i64 \<Rightarrow> string \<Rightarrow> string \<Rightarrow> u64 \<Rightarrow> SubmissionDisposition \<Rightarrow> SubmissionAuthority
       \<Rightarrow> SubmissionAuthority" where
  "record_disposition now sid request_id payload_hash disposition a =
     a\<lparr>sa_idempotency_cache :=
         (sa_idempotency_cache a)((sid, request_id) \<mapsto> (now, payload_hash, disposition))\<rparr>"

text \<open>\<open>*revs.entry(..).or_insert(0) += 1\<close>.\<close>

definition bump_revision :: "string \<Rightarrow> SubmissionAuthority \<Rightarrow> u64 \<times> SubmissionAuthority" where
  "bump_revision sid a =
     (let rev' = get_queue_revision a sid + 1
      in (rev', a\<lparr>sa_queue_revisions := (sa_queue_revisions a)(sid \<mapsto> rev')\<rparr>))"

definition set_queue :: "string \<Rightarrow> QueuedItem list \<Rightarrow> SubmissionAuthority \<Rightarrow> SubmissionAuthority" where
  "set_queue sid q a = a\<lparr>sa_queued_prompts := (sa_queued_prompts a)(sid \<mapsto> q)\<rparr>"

definition enqueue_prompt ::
    "(string \<Rightarrow> u64) \<Rightarrow> string \<Rightarrow> i64 \<Rightarrow> string \<Rightarrow> string \<Rightarrow> string \<Rightarrow> SubmissionAuthority
       \<Rightarrow> (string \<times> u32 \<times> u64) \<times> SubmissionAuthority" where
  "enqueue_prompt h uuid now sid request_id content a =
     (let queue = (case sa_queued_prompts a sid of None \<Rightarrow> [] | Some q \<Rightarrow> q);
          item_id = ''q_'' @ uuid;
          position = of_nat (length queue);
          item = \<lparr>qi_id = item_id, qi_client_request_id = request_id, qi_session_id = sid,
                  qi_content = content, qi_payload_hash = h content, qi_created_at_ms = now\<rparr>;
          (revision, a') = bump_revision sid (set_queue sid (queue @ [item]) a)
      in ((item_id, position, revision), a'))"

definition pop_queued_prompt ::
    "string \<Rightarrow> SubmissionAuthority \<Rightarrow> (QueuedItem \<times> u64) option \<times> SubmissionAuthority" where
  "pop_queued_prompt sid a =
     (case sa_queued_prompts a sid of
        None \<Rightarrow> (None, a)
      | Some [] \<Rightarrow> (None, a)
      | Some (item # rest) \<Rightarrow>
          let (revision, a') = bump_revision sid (set_queue sid rest a)
          in (Some (item, revision), a'))"

type_synonym queue_result = "(SubmissionRejectionReason + u32 \<times> u64) \<times> SubmissionAuthority"

definition item_position :: "string \<Rightarrow> string \<Rightarrow> QueuedItem list \<Rightarrow> nat option" where
  "item_position sid item_id queue =
     position (\<lambda>item. qi_id item = item_id \<and> qi_session_id item = sid) queue"

definition remove_queued_prompt ::
    "string \<Rightarrow> string \<Rightarrow> u64 \<Rightarrow> SubmissionAuthority \<Rightarrow> queue_result" where
  "remove_queued_prompt sid item_id expected a =
     (if expected \<noteq> get_queue_revision a sid
      then (Inl (QueueRevisionConflict expected (get_queue_revision a sid)), a)
      else case sa_queued_prompts a sid of
        None \<Rightarrow> (Inl (QueueItemNotFound sid item_id), a)
      | Some queue \<Rightarrow>
          (case item_position sid item_id queue of
             None \<Rightarrow> (Inl (QueueItemNotFound sid item_id), a)
           | Some p \<Rightarrow>
               let (revision, a') = bump_revision sid (set_queue sid (remove_at p queue) a)
               in (Inr (of_nat p, revision), a')))"

definition edit_queued_prompt ::
    "(string \<Rightarrow> u64) \<Rightarrow> string \<Rightarrow> string \<Rightarrow> u64 \<Rightarrow> string \<Rightarrow> SubmissionAuthority \<Rightarrow> queue_result" where
  "edit_queued_prompt h sid item_id expected content a =
     (if trim content = [] then (Inl EmptyContent, a)
      else if expected \<noteq> get_queue_revision a sid
      then (Inl (QueueRevisionConflict expected (get_queue_revision a sid)), a)
      else case sa_queued_prompts a sid of
        None \<Rightarrow> (Inl (QueueItemNotFound sid item_id), a)
      | Some queue \<Rightarrow>
          (case item_position sid item_id queue of
             None \<Rightarrow> (Inl (QueueItemNotFound sid item_id), a)
           | Some p \<Rightarrow>
               let item = (queue ! p)\<lparr>qi_payload_hash := h content, qi_content := content\<rparr>;
                   (revision, a') = bump_revision sid (set_queue sid (queue[p := item]) a)
               in (Inr (of_nat p, revision), a')))"

definition reorder_queued_prompt ::
    "string \<Rightarrow> string \<Rightarrow> u64 \<Rightarrow> u32 \<Rightarrow> SubmissionAuthority \<Rightarrow> queue_result" where
  "reorder_queued_prompt sid item_id expected new_position a =
     (if expected \<noteq> get_queue_revision a sid
      then (Inl (QueueRevisionConflict expected (get_queue_revision a sid)), a)
      else case sa_queued_prompts a sid of
        None \<Rightarrow> (Inl (QueueItemNotFound sid item_id), a)
      | Some queue \<Rightarrow>
          let queue_len = of_nat (length queue)
          in if new_position \<ge> queue_len
             then (Inl (QueuePositionOutOfRange new_position queue_len), a)
             else case item_position sid item_id queue of
               None \<Rightarrow> (Inl (QueueItemNotFound sid item_id), a)
             | Some p \<Rightarrow>
                 if p = unat new_position then (Inr (new_position, get_queue_revision a sid), a)
                 else let (revision, a') = bump_revision sid (set_queue sid
                            (insert_at (unat new_position) (queue ! p) (remove_at p queue)) a)
                      in (Inr (new_position, revision), a'))"

section \<open>Idempotent queue mutations\<close>

text \<open>
  The frame the three methods share: the request id must not be blank; a known request id replays
  its disposition when the payload is the same and is refused otherwise; a new one runs the
  mutation and records what came of it.
\<close>

definition queue_mutation_idempotent ::
    "(SubmissionRejectionReason \<Rightarrow> string) \<Rightarrow> string \<Rightarrow> string \<Rightarrow> string \<Rightarrow> u64
       \<Rightarrow> (SubmissionAuthority \<Rightarrow> queue_result) \<Rightarrow> SubmissionAuthority
       \<Rightarrow> QueueMutationDisposition \<times> SubmissionAuthority" where
  "queue_mutation_idempotent dbg sid item_id request_id hash mutation a =
     (if trim request_id = [] then
        (MutRejected (IdempotencyPayloadMismatch ''missing queue client_request_id'')
           ''queue mutation rejected: missing client_request_id'', a)
      else case sa_queue_mutation_cache a (sid, request_id) of
        Some (known_hash, disposition) \<Rightarrow>
          (if known_hash = hash then disposition
           else MutRejected (IdempotencyPayloadMismatch request_id)
             ''queue mutation rejected: idempotency payload mismatch'', a)
      | None \<Rightarrow>
          let (res, a1) = mutation a;
              disposition = (case res of
                  Inr (pos, revision) \<Rightarrow> Applied sid item_id pos revision
                | Inl reason \<Rightarrow> MutRejected reason (''queue mutation rejected: '' @ dbg reason))
          in (disposition,
              a1\<lparr>sa_queue_mutation_cache :=
                   (sa_queue_mutation_cache a1)((sid, request_id) \<mapsto> (hash, disposition))\<rparr>))"

definition edit_queued_prompt_idempotent ::
    "(string \<Rightarrow> u64) \<Rightarrow> (SubmissionRejectionReason \<Rightarrow> string) \<Rightarrow> string \<Rightarrow> string \<Rightarrow> u64 \<Rightarrow> string
       \<Rightarrow> string \<Rightarrow> SubmissionAuthority \<Rightarrow> QueueMutationDisposition \<times> SubmissionAuthority" where
  "edit_queued_prompt_idempotent h dbg sid item_id expected content request_id a =
     queue_mutation_idempotent dbg sid item_id request_id
       (h (''edit:'' @ item_id @ '':'' @ show_nat (unat expected) @ '':'' @ content))
       (edit_queued_prompt h sid item_id expected content) a"

definition remove_queued_prompt_idempotent ::
    "(string \<Rightarrow> u64) \<Rightarrow> (SubmissionRejectionReason \<Rightarrow> string) \<Rightarrow> string \<Rightarrow> string \<Rightarrow> u64 \<Rightarrow> string
       \<Rightarrow> SubmissionAuthority \<Rightarrow> QueueMutationDisposition \<times> SubmissionAuthority" where
  "remove_queued_prompt_idempotent h dbg sid item_id expected request_id a =
     queue_mutation_idempotent dbg sid item_id request_id
       (h (''delete:'' @ item_id @ '':'' @ show_nat (unat expected)))
       (remove_queued_prompt sid item_id expected) a"

definition reorder_queued_prompt_idempotent ::
    "(string \<Rightarrow> u64) \<Rightarrow> (SubmissionRejectionReason \<Rightarrow> string) \<Rightarrow> string \<Rightarrow> string \<Rightarrow> u64 \<Rightarrow> u32
       \<Rightarrow> string \<Rightarrow> SubmissionAuthority \<Rightarrow> QueueMutationDisposition \<times> SubmissionAuthority" where
  "reorder_queued_prompt_idempotent h dbg sid item_id expected new_position request_id a =
     queue_mutation_idempotent dbg sid item_id request_id
       (h (''move:'' @ item_id @ '':'' @ show_nat (unat expected) @ '':''
             @ show_nat (unat new_position)))
       (reorder_queued_prompt sid item_id expected new_position) a"

section \<open>Snapshots\<close>

definition snapshot_item :: "nat \<Rightarrow> QueuedItem \<Rightarrow> QueuedInputSnapshot" where
  "snapshot_item idx item =
     \<lparr>qs_item_id = qi_id item, qs_client_request_id = qi_client_request_id item,
      qs_content = qi_content item, qs_position = of_nat idx,
      qs_created_at_ms = qi_created_at_ms item\<rparr>"

definition list_queued_snapshots :: "SubmissionAuthority \<Rightarrow> string \<Rightarrow> QueuedInputSnapshot list" where
  "list_queued_snapshots a sid =
     (case sa_queued_prompts a sid of
        None \<Rightarrow> []
      | Some items \<Rightarrow> map (\<lambda>(idx, item). snapshot_item idx item) (enumerate 0 items))"

text \<open>The three reads take their locks one after the other: \<open>a1\<close>, \<open>a2\<close>, \<open>a3\<close> are the states they see.\<close>

definition build_runtime_snapshot ::
    "string \<Rightarrow> ActiveTurnSnapshot option \<Rightarrow> SteeringSnapshot list \<Rightarrow> TurnOutcome option
       \<Rightarrow> SubmissionAuthority \<Rightarrow> SubmissionAuthority \<Rightarrow> SubmissionAuthority
       \<Rightarrow> SessionRuntimeSnapshot" where
  "build_runtime_snapshot sid active_turn pending_steering last_turn_outcome a1 a2 a3 =
     (let queue_revision = get_queue_revision a1 sid;
          queued_inputs = list_queued_snapshots a2 sid;
          last_event_sequence = current_sequence a3
      in \<lparr>rs_session_id = sid, rs_runtime_revision = queue_revision,
          rs_queue_revision = queue_revision, rs_last_event_sequence = last_event_sequence,
          rs_active_turn = active_turn, rs_queued_inputs = queued_inputs,
          rs_pending_steering = pending_steering, rs_last_turn_outcome = last_turn_outcome\<rparr>)"

section \<open>Queues and revisions\<close>

definition queue_of :: "SubmissionAuthority \<Rightarrow> string \<Rightarrow> QueuedItem list" where
  "queue_of a sid = (case sa_queued_prompts a sid of None \<Rightarrow> [] | Some q \<Rightarrow> q)"

lemma set_queue_simps [simp]:
  "queue_of (set_queue k q a) sid = (if sid = k then q else queue_of a sid)"
  "get_queue_revision (set_queue k q a) sid = get_queue_revision a sid"
  "sa_queue_mutation_cache (set_queue k q a) = sa_queue_mutation_cache a"
  by (simp_all add: queue_of_def set_queue_def get_queue_revision_def)

lemma bump_revision_simps [simp]:
  "fst (bump_revision k a) = get_queue_revision a k + 1"
  "queue_of (snd (bump_revision k a)) sid = queue_of a sid"
  "get_queue_revision (snd (bump_revision k a)) sid =
     (if sid = k then get_queue_revision a k + 1 else get_queue_revision a sid)"
  "sa_queue_mutation_cache (snd (bump_revision k a)) = sa_queue_mutation_cache a"
  by (simp_all add: queue_of_def bump_revision_def get_queue_revision_def Let_def)

lemma cache_update_simps [simp]:
  "queue_of (a\<lparr>sa_queue_mutation_cache := c\<rparr>) sid = queue_of a sid"
  "get_queue_revision (a\<lparr>sa_queue_mutation_cache := c\<rparr>) sid = get_queue_revision a sid"
  by (simp_all add: queue_of_def get_queue_revision_def)

datatype authority_op =
    DoEnqueue string i64 string string string
  | DoPop string
  | DoRemove string string u64
  | DoEdit string string u64 string
  | DoReorder string string u64 u32
  | DoRecord i64 string string u64 SubmissionDisposition
  | DoSequence

datatype queue_mutation = MEdit string u64 string | MRemove string u64 | MMove string u64 u32

fun mutate ::
    "(string \<Rightarrow> u64) \<Rightarrow> (SubmissionRejectionReason \<Rightarrow> string) \<Rightarrow> string \<Rightarrow> string \<Rightarrow> queue_mutation
       \<Rightarrow> SubmissionAuthority \<Rightarrow> QueueMutationDisposition \<times> SubmissionAuthority" where
  "mutate h dbg sid request_id (MEdit item expected content) a =
     edit_queued_prompt_idempotent h dbg sid item expected content request_id a"
| "mutate h dbg sid request_id (MRemove item expected) a =
     remove_queued_prompt_idempotent h dbg sid item expected request_id a"
| "mutate h dbg sid request_id (MMove item expected pos) a =
     reorder_queued_prompt_idempotent h dbg sid item expected pos request_id a"

fun op_step ::
    "(string \<Rightarrow> u64) \<Rightarrow> (SubmissionRejectionReason \<Rightarrow> string)
       \<Rightarrow> authority_op + string \<times> string \<times> queue_mutation \<Rightarrow> SubmissionAuthority \<Rightarrow> SubmissionAuthority" where
  "op_step h dbg (Inl (DoEnqueue uuid now sid request_id content)) a =
     snd (enqueue_prompt h uuid now sid request_id content a)"
| "op_step h dbg (Inl (DoPop sid)) a = snd (pop_queued_prompt sid a)"
| "op_step h dbg (Inl (DoRemove sid item expected)) a = snd (remove_queued_prompt sid item expected a)"
| "op_step h dbg (Inl (DoEdit sid item expected content)) a =
     snd (edit_queued_prompt h sid item expected content a)"
| "op_step h dbg (Inl (DoReorder sid item expected pos)) a =
     snd (reorder_queued_prompt sid item expected pos a)"
| "op_step h dbg (Inl (DoRecord now sid request_id hash disp)) a =
     record_disposition now sid request_id hash disp a"
| "op_step h dbg (Inl DoSequence) a = snd (next_sequence a)"
| "op_step h dbg (Inr (sid, request_id, m)) a = snd (mutate h dbg sid request_id m a)"

definition op_run ::
    "(string \<Rightarrow> u64) \<Rightarrow> (SubmissionRejectionReason \<Rightarrow> string)
       \<Rightarrow> (authority_op + string \<times> string \<times> queue_mutation) list \<Rightarrow> SubmissionAuthority
       \<Rightarrow> SubmissionAuthority" where
  "op_run h dbg xs a = fold (op_step h dbg) xs a"

text \<open>A step either leaves a session's queue and revision alone or moves the revision by one.\<close>

definition queue_step :: "SubmissionAuthority \<Rightarrow> SubmissionAuthority \<Rightarrow> bool" where
  "queue_step a a' \<longleftrightarrow> (\<forall>sid.
     queue_of a' sid = queue_of a sid \<and> get_queue_revision a' sid = get_queue_revision a sid
     \<or> get_queue_revision a' sid = get_queue_revision a sid + 1)"

lemma queue_step_refl: "queue_step a a"
  by (simp add: queue_step_def)

lemma queue_step_bump: "queue_step a (snd (bump_revision sid (set_queue sid q a)))"
  by (simp add: queue_step_def)

lemma queue_mutations_step:
  "queue_step a (snd (remove_queued_prompt sid item expected a))"
  "queue_step a (snd (edit_queued_prompt h sid item expected content a))"
  "queue_step a (snd (reorder_queued_prompt sid item expected pos a))"
  by (auto simp: remove_queued_prompt_def edit_queued_prompt_def reorder_queued_prompt_def Let_def
      split_def queue_step_refl queue_step_bump split: option.split)

lemma queue_mutations_cache:
  "sa_queue_mutation_cache (snd (remove_queued_prompt sid item expected a)) = sa_queue_mutation_cache a"
  "sa_queue_mutation_cache (snd (edit_queued_prompt h sid item expected content a)) = sa_queue_mutation_cache a"
  "sa_queue_mutation_cache (snd (reorder_queued_prompt sid item expected pos a)) = sa_queue_mutation_cache a"
  by (auto simp: remove_queued_prompt_def edit_queued_prompt_def reorder_queued_prompt_def Let_def
      split_def split: option.split)

lemma idempotent_step:
  assumes "queue_step a (snd (mutation a))"
  shows "queue_step a (snd (queue_mutation_idempotent dbg sid item request_id hash mutation a))"
  using assms
  by (auto simp: queue_mutation_idempotent_def Let_def split_def queue_step_def split: option.split)

lemma fifo_ops_step:
  "queue_step a (snd (enqueue_prompt h uuid now sid request_id content a))"
  "queue_step a (snd (pop_queued_prompt sid a))"
  by (auto simp: enqueue_prompt_def pop_queued_prompt_def Let_def split_def queue_step_bump
      queue_step_refl split: option.split list.split)

lemma silent_ops_step:
  "queue_step a (record_disposition now sid request_id hash disp a)"
  "queue_step a (snd (next_sequence a))"
  by (simp_all add: record_disposition_def next_sequence_def queue_step_def queue_of_def
      get_queue_revision_def)

lemma op_step_queue_step: "queue_step a (op_step h dbg x a)"
proof (cases x)
  case (Inl y)
  then show ?thesis
    by (cases y)
       (simp_all add: fifo_ops_step silent_ops_step queue_mutations_step)
next
  case (Inr y)
  obtain sid request_id m where "y = (sid, request_id, m)" by (cases y)
  with Inr show ?thesis
    by (cases m) (simp_all add: edit_queued_prompt_idempotent_def remove_queued_prompt_idempotent_def
        reorder_queued_prompt_idempotent_def idempotent_step queue_mutations_step)
qed

lemma op_run_revision:
  "\<exists>n \<le> length xs. get_queue_revision (op_run h dbg xs a) sid = get_queue_revision a sid + of_nat n
     \<and> (n = 0 \<longrightarrow> queue_of (op_run h dbg xs a) sid = queue_of a sid)"
proof (induction xs arbitrary: a)
  case Nil
  show ?case by (simp add: op_run_def)
next
  case (Cons x xs)
  let ?b = "op_step h dbg x a"
  obtain n where n: "n \<le> length xs"
      "get_queue_revision (op_run h dbg xs ?b) sid = get_queue_revision ?b sid + of_nat n"
      "n = 0 \<longrightarrow> queue_of (op_run h dbg xs ?b) sid = queue_of ?b sid"
    using Cons.IH by blast
  have run: "op_run h dbg (x # xs) a = op_run h dbg xs ?b" by (simp add: op_run_def)
  from op_step_queue_step [of a h dbg x] consider
      "queue_of ?b sid = queue_of a sid" "get_queue_revision ?b sid = get_queue_revision a sid"
    | "get_queue_revision ?b sid = get_queue_revision a sid + 1"
    unfolding queue_step_def by blast
  then show ?case
  proof cases
    case 1
    with n show ?thesis unfolding run by (intro exI [of _ n]) simp
  next
    case 2
    with n show ?thesis unfolding run by (intro exI [of _ "Suc n"]) simp
  qed
qed

text \<open>
  \<^bold>\<open>Note.\<close> A queue revision identifies its queue. Over any sequence of operations on the authority
  shorter than the range of the counter, a session whose revision is the same at the end as at the
  start has the same queue: no change goes unnoticed by a client that compares revisions.
\<close>

theorem queue_revision_identifies_queue:
  assumes "length xs < 2 ^ 64"
    and "get_queue_revision (op_run h dbg xs a) sid = get_queue_revision a sid"
  shows "queue_of (op_run h dbg xs a) sid = queue_of a sid"
proof -
  obtain n where n: "n \<le> length xs"
      "get_queue_revision (op_run h dbg xs a) sid = get_queue_revision a sid + of_nat n"
      "n = 0 \<longrightarrow> queue_of (op_run h dbg xs a) sid = queue_of a sid"
    using op_run_revision by blast
  with assms have "of_nat n = (0 :: u64)" by simp
  then have "unat (of_nat n :: u64) = 0" by simp
  then have "take_bit 64 n = 0" by (simp add: unsigned_of_nat)
  moreover have "take_bit 64 n = n" using n(1) assms(1) by (intro take_bit_nat_eq_self) simp
  ultimately have "n = 0" by simp
  with n show ?thesis by simp
qed

section \<open>Optimistic concurrency\<close>

datatype queue_write = QEdit string string | QRemove string | QMove string u32

fun queue_put ::
    "(string \<Rightarrow> u64) \<Rightarrow> string \<Rightarrow> SubmissionAuthority \<Rightarrow> u64 \<Rightarrow> queue_write
       \<Rightarrow> (SubmissionRejectionReason + u32 \<times> u64) \<times> SubmissionAuthority" where
  "queue_put h sid a expected (QEdit item content) = edit_queued_prompt h sid item expected content a"
| "queue_put h sid a expected (QRemove item) = remove_queued_prompt sid item expected a"
| "queue_put h sid a expected (QMove item pos) = reorder_queued_prompt sid item expected pos a"

text \<open>A stale write is refused for its revision, or before that for blank content.\<close>

fun queue_refusal :: "SubmissionRejectionReason \<Rightarrow> bool" where
  "queue_refusal (QueueRevisionConflict _ _) = True"
| "queue_refusal EmptyContent = True"
| "queue_refusal _ = False"

lemmas queue_put_defs = edit_queued_prompt_def remove_queued_prompt_def reorder_queued_prompt_def

interpretation queue_cas: cas_store "\<lambda>a. get_queue_revision a sid" "queue_put h sid" queue_refusal
  for sid h
proof unfold_locales
  fix a expected w
  assume "expected \<noteq> get_queue_revision a sid"
  then show "\<exists>e. queue_put h sid a expected w = (Inl e, a) \<and> queue_refusal e"
    by (cases w) (auto simp: queue_put_defs)
next
  fix a a' expected w e
  assume "queue_put h sid a expected w = (Inl e, a')"
  then show "a' = a"
    by (cases w) (auto simp: queue_put_defs Let_def split: option.splits if_splits prod.splits)
next
  fix a a' expected w r
  assume ok: "queue_put h sid a expected w = (Inr r, a')"
  show "a' = a \<or> get_queue_revision a' sid = get_queue_revision a sid + 1"
  proof (cases w)
    case (QEdit item content)
    with ok show ?thesis
      by (auto simp: edit_queued_prompt_def Let_def split_def split: option.splits if_splits)
  next
    case (QRemove item)
    with ok show ?thesis
      by (auto simp: remove_queued_prompt_def Let_def split_def split: option.splits if_splits)
  next
    case (QMove item pos)
    with ok show ?thesis
      by (auto simp: reorder_queued_prompt_def Let_def split_def split: option.splits if_splits)
  qed
qed

text \<open>
  \<^bold>\<open>Note.\<close> Of two clients that change a session's queue from the same revision, one wins: after a change
  that had an effect, any other edit, removal or move with that revision is refused and leaves the
  queue as the winner left it.
\<close>

theorem queue_write_one_winner:
  assumes "queue_put h sid a expected w = (Inr r, a')" and "a' \<noteq> a"
  shows "\<exists>e. queue_put h sid a' expected w' = (Inl e, a') \<and> queue_refusal e"
  using assms by (rule queue_cas.one_winner)

section \<open>FIFO delivery\<close>

text \<open>A prompt as it was submitted: the fresh id, the time, the request id and the content.\<close>

type_synonym prompt = "string \<times> i64 \<times> string \<times> string"

definition item_view :: "QueuedItem \<Rightarrow> prompt" where
  "item_view item =
     (drop 2 (qi_id item), qi_created_at_ms item, qi_client_request_id item, qi_content item)"

definition prompts :: "SubmissionAuthority \<Rightarrow> string \<Rightarrow> prompt list" where
  "prompts a sid = map item_view (queue_of a sid)"

fun prompt_enqueue ::
    "(string \<Rightarrow> u64) \<Rightarrow> string \<Rightarrow> prompt \<Rightarrow> SubmissionAuthority \<Rightarrow> SubmissionAuthority" where
  "prompt_enqueue h sid (uuid, now, request_id, content) a =
     snd (enqueue_prompt h uuid now sid request_id content a)"

definition prompt_pop :: "string \<Rightarrow> SubmissionAuthority \<Rightarrow> prompt option \<times> SubmissionAuthority" where
  "prompt_pop sid a =
     (map_option (item_view \<circ> fst) (fst (pop_queued_prompt sid a)), snd (pop_queued_prompt sid a))"

lemma prompts_enqueue:
  "prompts (prompt_enqueue h sid m a) sid' = prompts a sid' @ (if sid' = sid then [m] else [])"
  by (cases m) (auto simp: prompts_def enqueue_prompt_def Let_def split_def item_view_def
      queue_of_def [of a] split: option.split)

interpretation prompt_queue: keyed_fifo_pop prompts "prompt_enqueue h" prompt_pop for h
proof unfold_locales
  fix a :: SubmissionAuthority and k :: string and m
  show "prompts (prompt_enqueue h k m a) k = prompts a k @ [m]" by (simp add: prompts_enqueue)
next
  fix a :: SubmissionAuthority and k k' :: string and m
  assume "k' \<noteq> k"
  then show "prompts (prompt_enqueue h k m a) k' = prompts a k'" by (simp add: prompts_enqueue)
next
  fix a :: SubmissionAuthority and k :: string
  show "fst (prompt_pop k a) = (case prompts a k of [] \<Rightarrow> None | m # _ \<Rightarrow> Some m)"
    and "prompts (snd (prompt_pop k a)) k = tl (prompts a k)"
    by (auto simp: prompt_pop_def pop_queued_prompt_def prompts_def queue_of_def [of a] Let_def
        split_def split: option.split list.split)
next
  fix a :: SubmissionAuthority and k k' :: string
  assume "k' \<noteq> k"
  then show "prompts (snd (prompt_pop k a)) k' = prompts a k'"
    by (auto simp: prompt_pop_def pop_queued_prompt_def prompts_def Let_def split_def
        split: option.split list.split)
qed

text \<open>An interleaving of submissions and turns that take the next prompt of their session.\<close>

fun prompt_run ::
    "(string \<Rightarrow> u64) \<Rightarrow> (string \<times> prompt option) list \<Rightarrow> SubmissionAuthority \<Rightarrow> string
       \<Rightarrow> prompt list \<times> SubmissionAuthority" where
  "prompt_run h [] a sid = ([], a)"
| "prompt_run h ((j, Some m) # es) a sid = prompt_run h es (prompt_enqueue h j m a) sid"
| "prompt_run h ((j, None) # es) a sid =
     (let (out, a') = prompt_pop j a; (rest, a'') = prompt_run h es a' sid
      in ((case out of Some m \<Rightarrow> if j = sid then [m] else [] | None \<Rightarrow> []) @ rest, a''))"

lemma prompt_run_work: "prompt_run h es a sid = prompt_queue.work h es a sid"
proof (induction es arbitrary: a)
  case (Cons x es)
  obtain j m where "x = (j, m)" by (cases x)
  then show ?case by (cases m) (simp_all add: Cons split_def Let_def)
qed simp

text \<open>
  \<^bold>\<open>Note.\<close> Queued prompts are delivered in order and to their session only: over any interleaving of
  submissions and turns of any sessions, the prompts a session's turns have taken followed by those
  still queued are the ones queued before followed by those submitted to it, in order.
\<close>

theorem prompts_are_fifo_per_session:
  "fst (prompt_run h es a sid) @ prompts (snd (prompt_run h es a sid)) sid =
   prompts a sid @ List.map_filter (\<lambda>(j, m). if j = sid then m else None) es"
  unfolding prompt_run_work by (rule prompt_queue.work_complete)

section \<open>Idempotent requests\<close>

fun mutation_hash :: "(string \<Rightarrow> u64) \<Rightarrow> queue_mutation \<Rightarrow> u64" where
  "mutation_hash h (MEdit item expected content) =
     h (''edit:'' @ item @ '':'' @ show_nat (unat expected) @ '':'' @ content)"
| "mutation_hash h (MRemove item expected) = h (''delete:'' @ item @ '':'' @ show_nat (unat expected))"
| "mutation_hash h (MMove item expected pos) =
     h (''move:'' @ item @ '':'' @ show_nat (unat expected) @ '':'' @ show_nat (unat pos))"

lemma idempotent_cache:
  assumes "\<And>a. sa_queue_mutation_cache (snd (mutation a)) = sa_queue_mutation_cache a"
    and "sa_queue_mutation_cache a k = Some v"
  shows "sa_queue_mutation_cache
    (snd (queue_mutation_idempotent dbg sid item request_id hash mutation a)) k = Some v"
  using assms
  by (auto simp: queue_mutation_idempotent_def Let_def split_def split: option.splits)

lemma op_step_cache:
  assumes "sa_queue_mutation_cache a k = Some v"
  shows "sa_queue_mutation_cache (op_step h dbg x a) k = Some v"
proof (cases x)
  case (Inl y)
  with assms show ?thesis
    by (cases y)
       (auto simp: queue_mutations_cache enqueue_prompt_def pop_queued_prompt_def Let_def split_def
         record_disposition_def next_sequence_def split: option.split list.split)
next
  case (Inr y)
  obtain sid request_id m where "y = (sid, request_id, m)" by (cases y)
  with Inr assms show ?thesis
    by (cases m) (simp_all add: edit_queued_prompt_idempotent_def remove_queued_prompt_idempotent_def
        reorder_queued_prompt_idempotent_def idempotent_cache queue_mutations_cache)
qed

lemma op_run_cache:
  "sa_queue_mutation_cache a k = Some v \<Longrightarrow> sa_queue_mutation_cache (op_run h dbg xs a) k = Some v"
  unfolding op_run_def by (induction xs arbitrary: a) (simp_all add: op_step_cache)

lemma mutate_cached:
  assumes "trim request_id \<noteq> []" and "sa_queue_mutation_cache a (sid, request_id) = Some (kh, d)"
  shows "mutate h dbg sid request_id m a =
    (if kh = mutation_hash h m then d
     else MutRejected (IdempotencyPayloadMismatch request_id)
       ''queue mutation rejected: idempotency payload mismatch'', a)"
  using assms
  by (cases m) (simp_all add: edit_queued_prompt_idempotent_def remove_queued_prompt_idempotent_def
      reorder_queued_prompt_idempotent_def queue_mutation_idempotent_def)

lemma mutate_records:
  assumes "trim request_id \<noteq> []"
  shows "\<exists>kh d. sa_queue_mutation_cache (snd (mutate h dbg sid request_id m a)) (sid, request_id)
      = Some (kh, d) \<and> fst (mutate h dbg sid request_id m a) =
        (if kh = mutation_hash h m then d
         else MutRejected (IdempotencyPayloadMismatch request_id)
           ''queue mutation rejected: idempotency payload mismatch'')"
  using assms
  by (cases m; cases "sa_queue_mutation_cache a (sid, request_id)")
     (auto simp: edit_queued_prompt_idempotent_def remove_queued_prompt_idempotent_def
       reorder_queued_prompt_idempotent_def queue_mutation_idempotent_def Let_def split_def)


section \<open>Reordering and snapshots\<close>

lemma reorder_Inr:
  assumes "reorder_queued_prompt sid item expected pos a = (Inr r, a')"
  shows "\<exists>p. p < length (queue_of a sid) \<and> qi_id (queue_of a sid ! p) = item
    \<and> pos < of_nat (length (queue_of a sid)) \<and> fst r = pos
    \<and> queue_of a' sid = (if p = unat pos then queue_of a sid
        else insert_at (unat pos) (queue_of a sid ! p) (remove_at p (queue_of a sid)))"
proof -
  from assms obtain q p where q: "sa_queued_prompts a sid = Some q" "pos < of_nat (length q)"
      "item_position sid item q = Some p" and r: "fst r = pos"
      and a': "a' = (if p = unat pos then a else snd (bump_revision sid (set_queue sid
             (insert_at (unat pos) (q ! p) (remove_at p q)) a)))"
    by (auto simp: reorder_queued_prompt_def Let_def split_def not_le split: option.splits if_splits)
  have "queue_of a sid = q" using q(1) by (simp add: queue_of_def)
  moreover have "p < length q" "qi_id (q ! p) = item"
    using q(3) by (auto simp: item_position_def position_Some_iff)
  ultimately show ?thesis using q(2) r by (intro exI [of _ p]) (simp add: a')
qed

text \<open>
  \<^bold>\<open>Note.\<close> Moving a queued prompt moves that prompt and nothing else: it ends up at the position that was
  asked for and reported, the others keep their order, and none is lost or duplicated.
\<close>

theorem reorder_moves_one_prompt:
  assumes "reorder_queued_prompt sid item expected pos a = (Inr (pos', r), a')"
    and "length (queue_of a sid) < 2 ^ 32"
  shows "\<exists>p. p < length (queue_of a sid) \<and> qi_id (queue_of a sid ! p) = item \<and> pos' = pos
    \<and> unat pos < length (queue_of a sid) \<and> queue_of a' sid ! unat pos = queue_of a sid ! p
    \<and> remove_at (unat pos) (queue_of a' sid) = remove_at p (queue_of a sid)
    \<and> mset (queue_of a' sid) = mset (queue_of a sid)"
proof -
  let ?q = "queue_of a sid"
  obtain p where p: "p < length ?q" "qi_id (?q ! p) = item" "pos < of_nat (length ?q)" "pos' = pos"
      "queue_of a' sid = (if p = unat pos then ?q
        else insert_at (unat pos) (?q ! p) (remove_at p ?q))"
    using reorder_Inr [OF assms(1)] by auto
  have "unat (of_nat (length ?q) :: u32) = length ?q"
    using assms(2) by (simp add: unsigned_of_nat take_bit_nat_eq_self)
  then have pos: "unat pos < length ?q" using p(3) by (simp add: word_less_nat_alt)
  then have "unat pos \<le> length (remove_at p ?q)" using p(1) by simp
  then have "insert_at (unat pos) x (remove_at p ?q) ! unat pos = x"
    "remove_at (unat pos) (insert_at (unat pos) x (remove_at p ?q)) = remove_at p ?q" for x
    by (simp_all add: insert_at_def [of "unat pos"] remove_at_def [of "unat pos"] nth_append)
  then show ?thesis
    using p pos mset_remove_at [OF p(1)] by (intro exI [of _ p]) auto
qed

text \<open>
  \<^bold>\<open>Note.\<close> The watermark of a runtime snapshot is one ahead of the events it covers: after any number of
  events it carries the sequence number that the next event, which it cannot contain, will get.
\<close>

theorem snapshot_watermark_is_next_sequence:
  "rs_last_event_sequence (build_runtime_snapshot sid turn steering outcome a1 a2 a3)
     = fst (next_sequence a3)"
  by (simp add: build_runtime_snapshot_def Let_def current_sequence_def next_sequence_def)

section \<open>Witnesses\<close>

definition demo_authority :: SubmissionAuthority where
  "demo_authority = op_run (\<lambda>_. 0) (\<lambda>_. [])
     [Inl (DoEnqueue ''a'' 1 ''s'' ''r1'' ''first''), Inl (DoEnqueue ''b'' 2 ''s'' ''r2'' ''second'')] authority_new"

lemma demo_authority_queue:
  "queue_of demo_authority ''s'' =
     [\<lparr>qi_id = ''q_a'', qi_client_request_id = ''r1'', qi_session_id = ''s'', qi_content = ''first'',
       qi_payload_hash = 0, qi_created_at_ms = 1\<rparr>,
      \<lparr>qi_id = ''q_b'', qi_client_request_id = ''r2'', qi_session_id = ''s'', qi_content = ''second'',
       qi_payload_hash = 0, qi_created_at_ms = 2\<rparr>]"
  "get_queue_revision demo_authority ''s'' = 2"
  by (simp_all add: demo_authority_def op_run_def enqueue_prompt_def authority_new_def Let_def
      set_queue_def bump_revision_def get_queue_revision_def queue_of_def)

lemma demo_authority_prompts: "sa_queued_prompts demo_authority ''s'' = Some (queue_of demo_authority ''s'')"
  by (simp add: demo_authority_def op_run_def enqueue_prompt_def authority_new_def Let_def
      set_queue_def bump_revision_def get_queue_revision_def queue_of_def)

lemma demo_move:
  "\<exists>a'. reorder_queued_prompt ''s'' ''q_b'' 2 0 demo_authority = (Inr (0, 3), a') \<and> a' \<noteq> demo_authority"
proof -
  let ?r = "reorder_queued_prompt ''s'' ''q_b'' 2 0 demo_authority"
  have "fst ?r = Inr (0, 3)" "get_queue_revision (snd ?r) ''s'' = 3"
    by (simp_all add: reorder_queued_prompt_def demo_authority_prompts item_position_def
        demo_authority_queue Let_def split_def)
  moreover have "snd ?r \<noteq> demo_authority"
  proof
    assume "snd ?r = demo_authority"
    with \<open>get_queue_revision (snd ?r) ''s'' = 3\<close> demo_authority_queue(2) show False by simp
  qed
  ultimately show ?thesis by (intro exI [of _ "snd ?r"]) (simp add: prod_eq_iff)
qed

theorem reorder_moves_one_prompt_witness:
  "\<exists>a'. reorder_queued_prompt ''s'' ''q_b'' 2 0 demo_authority = (Inr (0, 3), a')
     \<and> mset (queue_of a' ''s'') = mset (queue_of demo_authority ''s'')"
proof -
  obtain a' where a': "reorder_queued_prompt ''s'' ''q_b'' 2 0 demo_authority = (Inr (0, 3), a')"
    using demo_move by blast
  have "length (queue_of demo_authority ''s'') < 2 ^ 32" by (simp add: demo_authority_queue)
  from reorder_moves_one_prompt [OF a' this] a' show ?thesis by blast
qed

theorem queue_write_one_winner_witness:
  "\<exists>a' e. queue_put (\<lambda>_. 0) ''s'' a' 2 (QRemove ''q_a'') = (Inl e, a') \<and> queue_refusal e"
proof -
  obtain a' where "queue_put (\<lambda>_. 0) ''s'' demo_authority 2 (QMove ''q_b'' 0) = (Inr (0, 3), a')"
      "a' \<noteq> demo_authority" using demo_move by auto
  from queue_write_one_winner [OF this] show ?thesis by blast
qed

theorem queue_revision_identifies_queue_witness:
  "queue_of (op_run (\<lambda>_. 0) (\<lambda>_. []) [Inl DoSequence] demo_authority) ''s'' = queue_of demo_authority ''s''"
  by (rule queue_revision_identifies_queue)
     (simp_all add: op_run_def next_sequence_def get_queue_revision_def)


end
