(* ===== verification/Blueprint.thy ===== *)
theory Blueprint
  imports Rust_Prelude
begin

text \<open>
  Scheduler blueprints: the typed graph of agent, parallel, gate, loop and end nodes
  (\<open>agendao-orchestrator/src/blueprint/types.rs\<close>), the catalog and policy it is checked against
  (\<open>catalog.rs\<close>, \<open>policy.rs\<close>) and the validator (\<open>blueprint/validate.rs\<close>).

  \<^item> An ordered map is the list of its entries in key order and an ordered set the list of its
    elements, so iteration follows the list and lookup is \<open>map_of\<close>; the identifiers are newtypes
    of strings in the source and strings here.
  \<^item> The worklist loops keep their stack with the top at the head of the list. The recursion of
    \<open>reject_cycles\<close> removes a node from \<open>visiting\<close> when it returns, which here is the caller's
    own set. \<open>graph_depth\<close> recurses without a guard of its own: it returns \<open>None\<close> when the
    recursion is deeper than the graph has nodes, which happens exactly when it would not end.
\<close>

type_synonym BlueprintName = string
type_synonym NodeId = string
type_synonym AgentId = string
type_synonym SkillId = string
type_synonym ToolId = string
type_synonym EvaluatorId = string
type_synonym CapabilityId = string

section \<open>Blueprints\<close>

datatype BlueprintSchemaVersion = V1

datatype ModelCapability = ToolCalls | Reasoning | Attachments | StructuredOutput

record AgentNode =
  an_agent :: AgentId
  an_skills :: "SkillId list"
  an_tools :: "ToolId list"
  an_required_model_capabilities :: "ModelCapability list"
  an_max_steps :: u32
  an_next :: NodeId

datatype ParallelFailureMode = FailFast | Collect

record ParallelNode =
  par_branches :: "NodeId list"
  par_join :: NodeId
  par_max_parallelism :: u32
  par_failure_mode :: ParallelFailureMode

record GateNode =
  gate_evaluator :: EvaluatorId
  gate_on_pass :: NodeId
  gate_on_fail :: NodeId
  gate_on_indeterminate :: NodeId

datatype ResultSource = LastNode | Named NodeId | Artifact CapabilityId string

record EndNode =
  end_result :: ResultSource

datatype NodeSpec =
    NAgent AgentNode
  | NParallel ParallelNode
  | NGate GateNode
  | NLoop LoopNode
  | NEnd EndNode
and LoopNode = LoopNode
    (loop_body: SchedulerGraph) (loop_evaluator: EvaluatorId) (loop_max_iterations: u32)
    (loop_checkpoint: "CapabilityId option") (loop_on_satisfied: NodeId) (loop_on_exhausted: NodeId)
and SchedulerGraph = SchedulerGraph
    (graph_entry: NodeId) (graph_nodes: "(NodeId \<times> NodeSpec) list")

datatype OutputFormat = TextOutput | MarkdownOutput | JsonOutput

record OutputContract =
  out_format :: OutputFormat
  out_include_usage :: bool
  out_include_artifact_refs :: bool

record ExecutionLimits =
  max_model_calls :: u32
  max_tool_calls :: u32
  max_total_tokens :: u64
  max_wall_time_ms :: u64
  max_parallelism :: u32
  max_graph_nodes :: u32
  max_graph_depth :: u32
  max_loop_iterations :: u32
  max_agent_steps :: u32

record SchedulerBlueprint =
  bp_schema :: BlueprintSchemaVersion
  bp_name :: BlueprintName
  bp_entry :: NodeId
  bp_nodes :: "(NodeId \<times> NodeSpec) list"
  bp_limits :: ExecutionLimits
  bp_output :: OutputContract

section \<open>Catalog and policy\<close>

datatype EffectClass = ReadOnly | WorkspaceMutation | ProcessExecution | Network | ExternalMutation

datatype PermissionClass = Automatic | PermAsk | DenyByDefault

datatype EvaluatorKind = Deterministic | ModelJudge | Metric

datatype CapabilityKind = WorkspaceCheckpoint | ArtifactStore

record AgentCatalogEntry =
  ac_id :: AgentId
  ac_system_policy :: string
  ac_max_steps :: u32
  ac_available_skills :: "SkillId list"
  ac_available_tools :: "ToolId list"
  ac_model_capabilities :: "ModelCapability list"

record SkillCatalogEntry =
  sk_id :: SkillId
  sk_summary :: string
  sk_content_fingerprint :: string
  sk_capability_tags :: "string list"
  sk_requires_tools :: "ToolId list"
  sk_fallback_for_tools :: "ToolId list"
  sk_requires_toolsets :: "string list"
  sk_fallback_for_toolsets :: "string list"
  sk_hydrated_prompt :: "string option"

record ToolCatalogEntry =
  tc_id :: ToolId
  tc_effect :: EffectClass
  tc_permission :: PermissionClass

record EvaluatorCatalogEntry =
  ev_id :: EvaluatorId
  ev_kind :: EvaluatorKind

record CapabilityCatalogEntry =
  cc_id :: CapabilityId
  cc_kind :: CapabilityKind
  cc_effect :: EffectClass

record SchedulerCatalog =
  cat_revision :: string
  cat_agents :: "(AgentId \<times> AgentCatalogEntry) list"
  cat_skills :: "(SkillId \<times> SkillCatalogEntry) list"
  cat_tools :: "(ToolId \<times> ToolCatalogEntry) list"
  cat_evaluators :: "(EvaluatorId \<times> EvaluatorCatalogEntry) list"
  cat_capabilities :: "(CapabilityId \<times> CapabilityCatalogEntry) list"

record WorkspaceLimits =
  ws_max_files :: u32
  ws_max_total_bytes :: u64
  ws_min_free_disk_bytes :: u64
  ws_operation_timeout_ms :: u64

record PolicyEnvelope =
  pol_hard_limits :: ExecutionLimits
  pol_allowed_tools :: "ToolId list"
  pol_allowed_effects :: "EffectClass list"
  pol_allowed_capabilities :: "CapabilityId list"
  pol_workspace_limits :: WorkspaceLimits

definition allow_catalog :: "ExecutionLimits \<Rightarrow> SchedulerCatalog \<Rightarrow> PolicyEnvelope" where
  "allow_catalog hard_limits catalog =
     \<lparr>pol_hard_limits = hard_limits,
      pol_allowed_tools = map fst (cat_tools catalog),
      pol_allowed_effects = map (tc_effect \<circ> snd) (cat_tools catalog)
        @ map (cc_effect \<circ> snd) (cat_capabilities catalog),
      pol_allowed_capabilities = map fst (cat_capabilities catalog),
      pol_workspace_limits = \<lparr>ws_max_files = 10000, ws_max_total_bytes = 1073741824,
        ws_min_free_disk_bytes = 536870912, ws_operation_timeout_ms = 30000\<rparr>\<rparr>"

section \<open>Validation errors\<close>

datatype BlueprintValidationError =
    InvalidIdentifier string string
  | EmptyCatalogRevision
  | CatalogIdMismatch string string string
  | InvalidSkillMetadata string string nat
  | InvalidCatalogReference string string string
  | InvalidPolicyReference string string
  | ZeroLimit string
  | LimitExceeded string u64 u64
  | EmptyGraph string
  | MissingEntry string string
  | MissingTarget string string string
  | UnreachableNode string string
  | OrdinaryCycle string string
  | MissingEnd string
  | UnknownAgent string string
  | UnknownSkill string string
  | SkillUnavailable string string string
  | UnknownTool string string
  | ToolUnavailable string string string
  | ToolDenied string string
  | EffectDenied string string string
  | ModelCapabilityUnavailable string string string
  | InvalidAgentSteps string u32 u32
  | InvalidParallelBranches string
  | InvalidParallelism string u32 u32
  | ParallelJoinUnreachable string string string
  | UnknownEvaluator string string
  | InvalidLoopIterations string u32 u32
  | UnknownCapability string string
  | CapabilityDenied string string
  | CapabilityEffectDenied string string string
  | InvalidCheckpointCapability string string
  | InvalidArtifactCapability string string
  | InvalidResultSource string string
  | TooManyNodes u32 u32
  | GraphTooDeep u32 u32
  | Canonicalization string

fun effect_debug :: "EffectClass \<Rightarrow> string" where
  "effect_debug ReadOnly = ''ReadOnly''"
| "effect_debug WorkspaceMutation = ''WorkspaceMutation''"
| "effect_debug ProcessExecution = ''ProcessExecution''"
| "effect_debug Network = ''Network''"
| "effect_debug ExternalMutation = ''ExternalMutation''"

fun model_capability_debug :: "ModelCapability \<Rightarrow> string" where
  "model_capability_debug ToolCalls = ''ToolCalls''"
| "model_capability_debug Reasoning = ''Reasoning''"
| "model_capability_debug Attachments = ''Attachments''"
| "model_capability_debug StructuredOutput = ''StructuredOutput''"

section \<open>Identifiers, metadata and limits\<close>

definition MAX_IDENTIFIER_LEN :: nat where "MAX_IDENTIFIER_LEN = 128"
definition MAX_SKILL_SUMMARY_CHARS :: nat where "MAX_SKILL_SUMMARY_CHARS = 1024"
definition MAX_FINGERPRINT_CHARS :: nat where "MAX_FINGERPRINT_CHARS = 256"

definition validate_identifier :: "string \<Rightarrow> string \<Rightarrow> BlueprintValidationError + unit" where
  "validate_identifier kind value =
     guard (trim value \<noteq> [] \<and> trim value = value \<and> length value \<le> MAX_IDENTIFIER_LEN)
       (InvalidIdentifier kind value)"

definition validate_catalog_key ::
    "string \<Rightarrow> string \<Rightarrow> string \<Rightarrow> BlueprintValidationError + unit" where
  "validate_catalog_key kind key entry_id =
     res_bind (validate_identifier kind key) (\<lambda>_.
     res_bind (validate_identifier kind entry_id) (\<lambda>_.
     guard (key = entry_id) (CatalogIdMismatch kind key entry_id)))"

definition validate_skill_metadata ::
    "string \<Rightarrow> string \<Rightarrow> string \<Rightarrow> nat \<Rightarrow> BlueprintValidationError + unit" where
  "validate_skill_metadata skill field value maximum =
     guard (value \<noteq> [] \<and> trim value = value \<and> char_count value \<le> maximum)
       (InvalidSkillMetadata skill field maximum)"

definition limit_values :: "ExecutionLimits \<Rightarrow> (string \<times> u64) list" where
  "limit_values l =
     [(''max_model_calls'', ucast (max_model_calls l)),
      (''max_tool_calls'', ucast (max_tool_calls l)),
      (''max_total_tokens'', max_total_tokens l),
      (''max_wall_time_ms'', max_wall_time_ms l),
      (''max_parallelism'', ucast (max_parallelism l)),
      (''max_graph_nodes'', ucast (max_graph_nodes l)),
      (''max_graph_depth'', ucast (max_graph_depth l)),
      (''max_loop_iterations'', ucast (max_loop_iterations l)),
      (''max_agent_steps'', ucast (max_agent_steps l))]"

definition validate_limits :: "ExecutionLimits \<Rightarrow> BlueprintValidationError + unit" where
  "validate_limits limits =
     res_check (\<lambda>(field, v). guard (v \<noteq> 0) (ZeroLimit field)) (limit_values limits)"

definition compare_limits ::
    "ExecutionLimits \<Rightarrow> ExecutionLimits \<Rightarrow> BlueprintValidationError + unit" where
  "compare_limits requested maximum =
     res_check (\<lambda>((field, r), (_, m)). guard (r \<le> m) (LimitExceeded field r m))
       (zip (limit_values requested) (limit_values maximum))"

section \<open>Graph algorithms\<close>

fun outgoing :: "NodeSpec \<Rightarrow> NodeId list" where
  "outgoing (NAgent a) = [an_next a]"
| "outgoing (NParallel p) = par_branches p @ [par_join p]"
| "outgoing (NGate g) = [gate_on_pass g, gate_on_fail g, gate_on_indeterminate g]"
| "outgoing (NLoop l) = [loop_on_satisfied l, loop_on_exhausted l]"
| "outgoing (NEnd e) = []"

definition get_node :: "SchedulerGraph \<Rightarrow> NodeId \<Rightarrow> NodeSpec option" where
  "get_node g n = map_of (graph_nodes g) n"

definition node_ids :: "SchedulerGraph \<Rightarrow> NodeId set" where
  "node_ids g = set (map fst (graph_nodes g))"

lemma finite_node_ids [simp]: "finite (node_ids g)"
  by (simp add: node_ids_def)

lemma get_node_ids: "n \<in> node_ids g \<longleftrightarrow> (\<exists>node. get_node g n = Some node)"
  unfolding node_ids_def get_node_def by (metis dom_map_of_conv_image_fst domD domI list.set_map)

lemma card_unvisited_decreases:
  "get_node g n = Some node \<Longrightarrow> n \<notin> visited \<Longrightarrow>
     card (node_ids g - insert n visited) < card (node_ids g - visited)"
  using get_node_ids [of n g] by (intro psubset_card_mono) auto

lemma unvisited_outside: "get_node g n = None \<Longrightarrow> node_ids g - insert n visited = node_ids g - visited"
  using get_node_ids [of n g] by auto

function reach_loop :: "SchedulerGraph \<Rightarrow> NodeId list \<Rightarrow> NodeId set \<Rightarrow> NodeId set" where
  "reach_loop g [] visited = visited"
| "reach_loop g (n # stack) visited =
     (if n \<in> visited then reach_loop g stack visited
      else case get_node g n of
             None \<Rightarrow> reach_loop g stack (insert n visited)
           | Some node \<Rightarrow> reach_loop g (rev (outgoing node) @ stack) (insert n visited))"
  by pat_completeness auto
termination
  by (relation "measures [\<lambda>(g, stack, visited). card (node_ids g - visited),
        \<lambda>(g, stack, visited). length stack]")
    (simp_all add: card_unvisited_decreases unvisited_outside)

definition reachable_from :: "SchedulerGraph \<Rightarrow> NodeId \<Rightarrow> NodeId set" where
  "reachable_from g start = reach_loop g [start] {}"

function path_loop :: "SchedulerGraph \<Rightarrow> NodeId \<Rightarrow> NodeId list \<Rightarrow> NodeId set \<Rightarrow> bool" where
  "path_loop g target [] visited = False"
| "path_loop g target (n # stack) visited =
     (if n \<in> visited then path_loop g target stack visited
      else case get_node g n of
             None \<Rightarrow> path_loop g target stack (insert n visited)
           | Some node \<Rightarrow>
               target \<in> set (outgoing node)
               \<or> path_loop g target (rev (outgoing node) @ stack) (insert n visited))"
  by pat_completeness auto
termination
  by (relation "measures [\<lambda>(g, target, stack, visited). card (node_ids g - visited),
        \<lambda>(g, target, stack, visited). length stack]")
    (simp_all add: card_unvisited_decreases unvisited_outside)

definition path_exists :: "SchedulerGraph \<Rightarrow> NodeId \<Rightarrow> NodeId \<Rightarrow> bool" where
  "path_exists g start target = (start = target \<or> path_loop g target [start] {})"

function visit ::
    "SchedulerGraph \<Rightarrow> string \<Rightarrow> NodeId \<Rightarrow> NodeId set \<Rightarrow> NodeId set
       \<Rightarrow> BlueprintValidationError + NodeId set" where
  "visit g scope n visiting visited =
     (if n \<in> visited then Inr visited
      else if n \<in> visiting then Inl (OrdinaryCycle scope n)
      else case get_node g n of
             None \<Rightarrow> Inr (insert n visited)
           | Some node \<Rightarrow>
               res_bind
                 (res_fold (\<lambda>visited target.
                      if target \<in> node_ids g then visit g scope target (insert n visiting) visited
                      else Inr visited)
                    visited (outgoing node))
                 (\<lambda>visited. Inr (insert n visited)))"
  by pat_completeness auto
termination
  by (relation "measure (\<lambda>(g, scope, n, visiting, visited). card (node_ids g - visiting))")
    (simp_all add: card_unvisited_decreases)

declare visit.simps [simp del]

definition reject_cycles :: "SchedulerGraph \<Rightarrow> string \<Rightarrow> BlueprintValidationError + unit" where
  "reject_cycles g scope =
     res_bind (res_fold (\<lambda>visited n. visit g scope n {} visited) {} (map fst (graph_nodes g)))
       (\<lambda>_. Inr ())"

lemma size_nodes: "size_prod (\<lambda>x. 0) size = (\<lambda>p. Suc (size (snd p)))"
  by (rule ext) (simp add: size_prod_simp)

lemma size_loop_lt [termination_simp]:
  "(n, NLoop l) \<in> set nodes \<Longrightarrow>
     size (loop_body l) < Suc (size_list (\<lambda>p. Suc (size (snd p))) nodes)"
  by (induction nodes; cases l) auto

lemma size_loop_body:
  assumes "get_node g n = Some (NLoop l)"
  shows "size (loop_body l) < size g"
proof (cases g)
  case (SchedulerGraph entry nodes)
  then have "(n, NLoop l) \<in> set nodes"
    using assms by (auto simp: get_node_def dest: map_of_SomeD)
  from size_loop_lt [OF this] show ?thesis by (simp add: SchedulerGraph size_nodes)
qed

fun recursive_node_count :: "SchedulerGraph \<Rightarrow> u32" where
  "recursive_node_count (SchedulerGraph entry nodes) =
     foldl (+) (of_nat (length nodes))
       (map (\<lambda>p. case snd p of NLoop l \<Rightarrow> recursive_node_count (loop_body l) | _ \<Rightarrow> 0) nodes)"

function depth_visit ::
    "SchedulerGraph \<Rightarrow> nat \<Rightarrow> NodeId \<Rightarrow> (NodeId \<rightharpoonup> u32) \<Rightarrow> (u32 \<times> (NodeId \<rightharpoonup> u32)) option" where
  "depth_visit g frames n memo =
     (case memo n of
        Some depth \<Rightarrow> Some (depth, memo)
      | None \<Rightarrow>
          (case get_node g n of
             None \<Rightarrow> Some (0, memo)
           | Some node \<Rightarrow>
               (case frames of
                  0 \<Rightarrow> None
                | Suc frames' \<Rightarrow>
                    (case (case node of
                             NLoop l \<Rightarrow>
                               map_option fst (depth_visit (loop_body l)
                                 (length (graph_nodes (loop_body l))) (graph_entry (loop_body l)) Map.empty)
                           | _ \<Rightarrow> Some 0) of
                       None \<Rightarrow> None
                     | Some nested \<Rightarrow>
                         (case opt_fold (\<lambda>(successor, memo) target.
                                  map_option (\<lambda>(d, memo). (max successor d, memo))
                                    (depth_visit g frames' target memo))
                                (0, memo) (outgoing node) of
                            None \<Rightarrow> None
                          | Some (successor, memo) \<Rightarrow>
                              let depth = 1 + nested + successor
                              in Some (depth, memo(n \<mapsto> depth)))))))"
  by pat_completeness auto
termination
  by (relation "measures [\<lambda>(g, frames, n, memo). size g, \<lambda>(g, frames, n, memo). frames]")
    (auto dest: size_loop_body)

declare depth_visit.simps [simp del]

definition graph_depth :: "SchedulerGraph \<Rightarrow> u32 option" where
  "graph_depth g =
     map_option fst (depth_visit g (length (graph_nodes g)) (graph_entry g) Map.empty)"

section \<open>The validator\<close>

definition require_evaluator ::
    "SchedulerCatalog \<Rightarrow> string \<Rightarrow> EvaluatorId \<Rightarrow> BlueprintValidationError + unit" where
  "require_evaluator catalog node evaluator =
     guard (map_of (cat_evaluators catalog) evaluator \<noteq> None) (UnknownEvaluator node evaluator)"

definition require_capability ::
    "SchedulerCatalog \<Rightarrow> PolicyEnvelope \<Rightarrow> string \<Rightarrow> CapabilityId
       \<Rightarrow> BlueprintValidationError + CapabilityCatalogEntry" where
  "require_capability catalog policy node capability_id =
     (case map_of (cat_capabilities catalog) capability_id of
        None \<Rightarrow> Inl (UnknownCapability node capability_id)
      | Some capability \<Rightarrow>
          if capability_id \<notin> set (pol_allowed_capabilities policy)
          then Inl (CapabilityDenied node capability_id)
          else if cc_effect capability \<notin> set (pol_allowed_effects policy)
          then Inl (CapabilityEffectDenied node capability_id (effect_debug (cc_effect capability)))
          else Inr capability)"

definition validate_agent_tool ::
    "SchedulerCatalog \<Rightarrow> PolicyEnvelope \<Rightarrow> AgentCatalogEntry \<Rightarrow> string \<Rightarrow> ToolId
       \<Rightarrow> BlueprintValidationError + unit" where
  "validate_agent_tool catalog policy agent node_path tool_id =
     (case map_of (cat_tools catalog) tool_id of
        None \<Rightarrow> Inl (UnknownTool node_path tool_id)
      | Some tool \<Rightarrow>
          res_bind (guard (tool_id \<in> set (ac_available_tools agent))
                      (ToolUnavailable node_path (ac_id agent) tool_id)) (\<lambda>_.
          res_bind (guard (tool_id \<in> set (pol_allowed_tools policy))
                      (ToolDenied node_path tool_id)) (\<lambda>_.
          guard (tc_effect tool \<in> set (pol_allowed_effects policy))
            (EffectDenied node_path tool_id (effect_debug (tc_effect tool))))))"

definition validate_agent_node ::
    "ExecutionLimits \<Rightarrow> SchedulerCatalog \<Rightarrow> PolicyEnvelope \<Rightarrow> string \<Rightarrow> AgentNode
       \<Rightarrow> BlueprintValidationError + unit" where
  "validate_agent_node limits catalog policy node_path a =
     (case map_of (cat_agents catalog) (an_agent a) of
        None \<Rightarrow> Inl (UnknownAgent node_path (an_agent a))
      | Some agent \<Rightarrow>
          let maximum = min (max_agent_steps limits) (ac_max_steps agent)
          in res_bind (guard (an_max_steps a \<noteq> 0 \<and> an_max_steps a \<le> maximum)
                        (InvalidAgentSteps node_path (an_max_steps a) maximum)) (\<lambda>_.
             res_bind (res_check (\<lambda>skill.
                 res_bind (guard (map_of (cat_skills catalog) skill \<noteq> None)
                             (UnknownSkill node_path skill)) (\<lambda>_.
                 guard (skill \<in> set (ac_available_skills agent))
                   (SkillUnavailable node_path (ac_id agent) skill))) (an_skills a)) (\<lambda>_.
             res_bind (res_check (validate_agent_tool catalog policy agent node_path) (an_tools a)) (\<lambda>_.
             res_check (\<lambda>capability.
                 guard (capability \<in> set (ac_model_capabilities agent))
                   (ModelCapabilityUnavailable node_path (ac_id agent)
                      (model_capability_debug capability))) (an_required_model_capabilities a)))))"

definition validate_parallel_node ::
    "ExecutionLimits \<Rightarrow> SchedulerGraph \<Rightarrow> string \<Rightarrow> ParallelNode \<Rightarrow> BlueprintValidationError + unit" where
  "validate_parallel_node limits g node_path p =
     (let unique = card (set (par_branches p));
          branch_count = of_nat (length (par_branches p));
          maximum = min (max_parallelism limits) branch_count
      in res_bind (guard (\<not> (unique < 2 \<or> unique \<noteq> length (par_branches p)))
                    (InvalidParallelBranches node_path)) (\<lambda>_.
         res_bind (guard (par_max_parallelism p \<noteq> 0 \<and> par_max_parallelism p \<le> maximum)
                    (InvalidParallelism node_path (par_max_parallelism p) maximum)) (\<lambda>_.
         res_check (\<lambda>branch.
             guard (\<not> (branch \<in> node_ids g \<and> par_join p \<in> node_ids g
                        \<and> \<not> path_exists g branch (par_join p)))
               (ParallelJoinUnreachable node_path branch (par_join p))) (par_branches p))))"

definition validate_checkpoint ::
    "SchedulerCatalog \<Rightarrow> PolicyEnvelope \<Rightarrow> string \<Rightarrow> CapabilityId option
       \<Rightarrow> BlueprintValidationError + unit" where
  "validate_checkpoint catalog policy node_path checkpoint =
     (case checkpoint of
        None \<Rightarrow> Inr ()
      | Some capability_id \<Rightarrow>
          (case map_of (cat_capabilities catalog) capability_id of
             None \<Rightarrow> Inl (UnknownCapability node_path capability_id)
           | Some capability \<Rightarrow>
               res_bind (guard (capability_id \<in> set (pol_allowed_capabilities policy))
                           (CapabilityDenied node_path capability_id)) (\<lambda>_.
               res_bind (guard (cc_effect capability \<in> set (pol_allowed_effects policy))
                           (CapabilityEffectDenied node_path capability_id
                              (effect_debug (cc_effect capability)))) (\<lambda>_.
               guard (cc_kind capability = WorkspaceCheckpoint)
                 (InvalidCheckpointCapability node_path capability_id)))))"

definition validate_end_node ::
    "SchedulerCatalog \<Rightarrow> PolicyEnvelope \<Rightarrow> SchedulerGraph \<Rightarrow> string \<Rightarrow> EndNode
       \<Rightarrow> BlueprintValidationError + unit" where
  "validate_end_node catalog policy g node_path e =
     (case end_result e of
        LastNode \<Rightarrow> Inr ()
      | Named source \<Rightarrow>
          guard (source \<in> node_ids g)
            (InvalidResultSource node_path (''named node '' @ quote source @ '' does not exist''))
      | Artifact capability name \<Rightarrow>
          if trim name = []
          then Inl (InvalidResultSource node_path ''artifact name is empty'')
          else res_bind (require_capability catalog policy node_path capability) (\<lambda>resolved.
                 guard (cc_kind resolved = ArtifactStore)
                   (InvalidArtifactCapability node_path capability)))"

lemma size_node_lt:
  "p \<in> set nodes \<Longrightarrow> size (snd p) < Suc (size_list (\<lambda>p. Suc (size (snd p))) nodes)"
  by (induction nodes) auto

lemma size_loop_body_lt: "size (loop_body l) < Suc (size l)"
  by (cases l) simp

function validate_graph ::
    "ExecutionLimits \<Rightarrow> SchedulerCatalog \<Rightarrow> PolicyEnvelope \<Rightarrow> SchedulerGraph \<Rightarrow> string
       \<Rightarrow> BlueprintValidationError + unit"
  and validate_node ::
    "ExecutionLimits \<Rightarrow> SchedulerCatalog \<Rightarrow> PolicyEnvelope \<Rightarrow> SchedulerGraph \<Rightarrow> string \<Rightarrow> NodeId
       \<Rightarrow> NodeSpec \<Rightarrow> BlueprintValidationError + unit" where
  "validate_graph limits catalog policy (SchedulerGraph entry nodes) scope =
     res_bind (guard (nodes \<noteq> []) (EmptyGraph scope)) (\<lambda>_.
     res_bind (validate_identifier ''node'' entry) (\<lambda>_.
     res_bind (guard (entry \<in> node_ids (SchedulerGraph entry nodes)) (MissingEntry scope entry)) (\<lambda>_.
     res_bind (res_check (\<lambda>p.
         res_bind (validate_identifier ''node'' (fst p)) (\<lambda>_.
         res_bind (validate_node limits catalog policy (SchedulerGraph entry nodes) scope (fst p) (snd p)) (\<lambda>_.
         res_check (\<lambda>target.
             guard (target \<in> node_ids (SchedulerGraph entry nodes)) (MissingTarget scope (fst p) target))
           (outgoing (snd p))))) nodes) (\<lambda>_.
     res_bind (reject_cycles (SchedulerGraph entry nodes) scope) (\<lambda>_.
     res_bind (res_check (\<lambda>node_id.
         guard (node_id \<in> reachable_from (SchedulerGraph entry nodes) entry)
           (UnreachableNode scope node_id)) (map fst nodes)) (\<lambda>_.
     guard (list_ex (\<lambda>p. case snd p of NEnd _ \<Rightarrow> True | _ \<Rightarrow> False) nodes) (MissingEnd scope)))))))"
| "validate_node limits catalog policy g scope node_id (NAgent a) =
     validate_agent_node limits catalog policy (scope @ ''/'' @ node_id) a"
| "validate_node limits catalog policy g scope node_id (NParallel p) =
     validate_parallel_node limits g (scope @ ''/'' @ node_id) p"
| "validate_node limits catalog policy g scope node_id (NGate gate) =
     require_evaluator catalog (scope @ ''/'' @ node_id) (gate_evaluator gate)"
| "validate_node limits catalog policy g scope node_id (NLoop l) =
     (let node_path = scope @ ''/'' @ node_id
      in res_bind (require_evaluator catalog node_path (loop_evaluator l)) (\<lambda>_.
         res_bind (guard (loop_max_iterations l \<noteq> 0
                          \<and> loop_max_iterations l \<le> max_loop_iterations limits)
                    (InvalidLoopIterations node_path (loop_max_iterations l)
                       (max_loop_iterations limits))) (\<lambda>_.
         res_bind (validate_checkpoint catalog policy node_path (loop_checkpoint l)) (\<lambda>_.
         validate_graph limits catalog policy (loop_body l) (node_path @ ''/body'')))))"
| "validate_node limits catalog policy g scope node_id (NEnd e) =
     validate_end_node catalog policy g (scope @ ''/'' @ node_id) e"
  by pat_completeness auto
termination
  by (relation "measure (case_sum (\<lambda>(limits, catalog, policy, g, scope). size g)
        (\<lambda>(limits, catalog, policy, g, scope, node_id, node). size node))")
    (simp_all add: size_nodes size_node_lt size_loop_body_lt case_prod_unfold)

definition validate_catalog :: "SchedulerCatalog \<Rightarrow> BlueprintValidationError + unit" where
  "validate_catalog catalog =
     res_bind (case validate_identifier ''catalog revision'' (cat_revision catalog) of
                 Inl _ \<Rightarrow> Inl EmptyCatalogRevision | Inr _ \<Rightarrow> Inr ()) (\<lambda>_.
     res_bind (res_check (\<lambda>(key, entry).
         res_bind (validate_catalog_key ''agent'' key (ac_id entry)) (\<lambda>_.
         res_bind (res_check (\<lambda>skill.
             guard (map_of (cat_skills catalog) skill \<noteq> None)
               (InvalidCatalogReference key ''skill'' skill)) (ac_available_skills entry)) (\<lambda>_.
         res_check (\<lambda>tool.
             guard (map_of (cat_tools catalog) tool \<noteq> None)
               (InvalidCatalogReference key ''tool'' tool)) (ac_available_tools entry))))
       (cat_agents catalog)) (\<lambda>_.
     res_bind (res_check (\<lambda>(key, entry).
         res_bind (validate_catalog_key ''skill'' key (sk_id entry)) (\<lambda>_.
         res_bind (validate_skill_metadata key ''summary'' (sk_summary entry) MAX_SKILL_SUMMARY_CHARS) (\<lambda>_.
         res_bind (validate_skill_metadata key ''fingerprint'' (sk_content_fingerprint entry)
                     MAX_FINGERPRINT_CHARS) (\<lambda>_.
         res_check (validate_identifier ''skill capability tag'') (sk_capability_tags entry)))))
       (cat_skills catalog)) (\<lambda>_.
     res_bind (res_check (\<lambda>(key, entry). validate_catalog_key ''tool'' key (tc_id entry))
       (cat_tools catalog)) (\<lambda>_.
     res_bind (res_check (\<lambda>(key, entry). validate_catalog_key ''evaluator'' key (ev_id entry))
       (cat_evaluators catalog)) (\<lambda>_.
     res_check (\<lambda>(key, entry). validate_catalog_key ''capability'' key (cc_id entry))
       (cat_capabilities catalog))))))"

definition validate_policy_references ::
    "SchedulerCatalog \<Rightarrow> PolicyEnvelope \<Rightarrow> BlueprintValidationError + unit" where
  "validate_policy_references catalog policy =
     res_bind (res_check (\<lambda>tool.
         guard (map_of (cat_tools catalog) tool \<noteq> None) (InvalidPolicyReference ''tool'' tool))
       (pol_allowed_tools policy)) (\<lambda>_.
     res_check (\<lambda>capability.
         guard (map_of (cat_capabilities catalog) capability \<noteq> None)
           (InvalidPolicyReference ''capability'' capability))
       (pol_allowed_capabilities policy))"

definition root_graph :: "SchedulerBlueprint \<Rightarrow> SchedulerGraph" where
  "root_graph bp = SchedulerGraph (bp_entry bp) (bp_nodes bp)"

definition validate_blueprint ::
    "SchedulerBlueprint \<Rightarrow> SchedulerCatalog \<Rightarrow> PolicyEnvelope
       \<Rightarrow> (BlueprintValidationError + unit) option" where
  "validate_blueprint bp catalog policy =
     (let root = root_graph bp; limits = bp_limits bp
      in case (res_bind (validate_identifier ''blueprint'' (bp_name bp)) (\<lambda>_.
               res_bind (validate_catalog catalog) (\<lambda>_.
               res_bind (validate_policy_references catalog policy) (\<lambda>_.
               res_bind (validate_limits (pol_hard_limits policy)) (\<lambda>_.
               res_bind (validate_limits limits) (\<lambda>_.
               res_bind (compare_limits limits (pol_hard_limits policy)) (\<lambda>_.
               res_bind (validate_graph limits catalog policy root ''root'') (\<lambda>_.
               guard (recursive_node_count root \<le> max_graph_nodes limits)
                 (TooManyNodes (recursive_node_count root) (max_graph_nodes limits))))))))))
         of Inl e \<Rightarrow> Some (Inl e)
          | Inr _ \<Rightarrow>
              map_option (\<lambda>depth. guard (depth \<le> max_graph_depth limits)
                            (GraphTooDeep depth (max_graph_depth limits)))
                (graph_depth root))"

text \<open>
  The fingerprint is the SHA-256 digest of the serialised blueprint, a parameter here that may
  fail as the serialiser may.
\<close>

record 'f ValidatedBlueprint =
  vb_blueprint :: SchedulerBlueprint
  vb_fingerprint :: 'f

definition validated_blueprint_new ::
    "(SchedulerBlueprint \<Rightarrow> string + 'f) \<Rightarrow> SchedulerBlueprint \<Rightarrow> SchedulerCatalog \<Rightarrow> PolicyEnvelope
       \<Rightarrow> (BlueprintValidationError + 'f ValidatedBlueprint) option" where
  "validated_blueprint_new fingerprint bp catalog policy =
     map_option (\<lambda>r. res_bind r (\<lambda>_.
         case fingerprint bp of
           Inl e \<Rightarrow> Inl (Canonicalization e)
         | Inr f \<Rightarrow> Inr \<lparr>vb_blueprint = bp, vb_fingerprint = f\<rparr>))
       (validate_blueprint bp catalog policy)"

end
