(* ===== verification/Agent_Loop.thy ===== *)
theory Agent_Loop
  imports Blueprint
begin

text \<open>
  The agent loop of the scheduler: accounting of model calls, tool calls and tokens against the
  limits of a run (\<open>agent_loop/loop_impl.rs\<close>, \<open>context.rs\<close>), the prompt surfaces with their
  bounded cache (\<open>context.rs\<close>) and the loop itself.

  \<^item> Everything outside the loop is a function on a world that the loop threads through: the model,
    the tools, the observer, the cancellation flag and the clock. The world holds the usage
    counters that the branches of a run share and the cache of prompt surfaces; the functions may
    change both, which is how the other branches of the run appear.
  \<^item> A \<open>tokio::select!\<close> between cancellation, deadline and a backend call is the datatype
    \<open>raced\<close>: the world decides which of the three comes first.
  \<^item> Durations are nanoseconds. Digests of serialised values are parameters that may fail.
  \<^item> A JSON value is of the type \<open>'j\<close>; a message of the provider crate is of the type \<open>'m\<close>.
\<close>

section \<open>Usage and results\<close>

record Usage =
  us_model_calls :: u32
  us_tool_calls :: u32
  us_input_tokens :: u64
  us_output_tokens :: u64
  us_reasoning_tokens :: u64
  us_cache_read_tokens :: u64
  us_cache_miss_tokens :: u64
  us_cache_write_tokens :: u64

definition usage_default :: Usage where
  "usage_default = \<lparr>us_model_calls = 0, us_tool_calls = 0, us_input_tokens = 0, us_output_tokens = 0,
     us_reasoning_tokens = 0, us_cache_read_tokens = 0, us_cache_miss_tokens = 0,
     us_cache_write_tokens = 0\<rparr>"

definition total_tokens :: "Usage \<Rightarrow> u64" where
  "total_tokens u = u64_saturating_add (us_input_tokens u) (us_output_tokens u)"

text \<open>The token counters are added in three places of the sources, always saturating.\<close>

definition add_tokens :: "Usage \<Rightarrow> Usage \<Rightarrow> Usage" where
  "add_tokens t u = t\<lparr>
     us_input_tokens := u64_saturating_add (us_input_tokens t) (us_input_tokens u),
     us_output_tokens := u64_saturating_add (us_output_tokens t) (us_output_tokens u),
     us_reasoning_tokens := u64_saturating_add (us_reasoning_tokens t) (us_reasoning_tokens u),
     us_cache_read_tokens := u64_saturating_add (us_cache_read_tokens t) (us_cache_read_tokens u),
     us_cache_miss_tokens := u64_saturating_add (us_cache_miss_tokens t) (us_cache_miss_tokens u),
     us_cache_write_tokens := u64_saturating_add (us_cache_write_tokens t) (us_cache_write_tokens u)\<rparr>"

definition usage_merge :: "Usage \<Rightarrow> Usage \<Rightarrow> Usage" where
  "usage_merge t u = (add_tokens t u)\<lparr>
     us_model_calls := u32_saturating_add (us_model_calls t) (us_model_calls u),
     us_tool_calls := u32_saturating_add (us_tool_calls t) (us_tool_calls u)\<rparr>"

record ArtifactRef =
  ar_id :: string
  ar_media_type :: string

record HandoffPacket =
  ho_goal :: string
  ho_constraints :: "string list"
  ho_inputs :: "string \<rightharpoonup> string"
  ho_artifact_refs :: "ArtifactRef list"

record NodeResult =
  nr_summary :: string
  nr_output :: "string option"
  nr_artifact_refs :: "ArtifactRef list"
  nr_usage :: Usage

definition node_result_default :: NodeResult where
  "node_result_default = \<lparr>nr_summary = [], nr_output = None, nr_artifact_refs = [],
     nr_usage = usage_default\<rparr>"

definition combine_step :: "NodeResult \<Rightarrow> NodeResult \<Rightarrow> NodeResult" where
  "combine_step c r = \<lparr>
     nr_summary = (if nr_summary r = [] then nr_summary c
                   else if nr_summary c = [] then nr_summary r
                   else nr_summary c @ [CHR 0x0A] @ nr_summary r),
     nr_output = (if nr_output r \<noteq> None then nr_output r else nr_output c),
     nr_artifact_refs = nr_artifact_refs c @ nr_artifact_refs r,
     nr_usage = usage_merge (nr_usage c) (nr_usage r)\<rparr>"

definition node_result_combine :: "NodeResult list \<Rightarrow> NodeResult" where
  "node_result_combine results = foldl combine_step node_result_default results"

section \<open>Conversation\<close>

record 'j ToolCall =
  call_id :: string
  call_tool :: ToolId
  call_arguments :: 'j

record 'j ToolExecution =
  te_output :: string
  te_title :: "string option"
  te_metadata :: "'j option"
  te_is_error :: bool

record 'j AssistantTurn =
  at_content :: "string option"
  at_reasoning :: "string option"
  at_tool_calls :: "'j ToolCall list"
  at_usage :: Usage
  at_finish_reason :: "string option"
  at_reasoning_continuation :: "string option"

datatype 'j ConversationItem =
    UserItem string
  | AssistantItem "'j AssistantTurn"
  | ToolResultItem string string bool

section \<open>Errors\<close>

datatype 's ModelBackendError = ProviderError 's | MessageError string

datatype 's AgentLoopError =
    Cancelled
  | DeadlineExceeded
  | ModelCallBudgetExceeded
  | ToolCallBudgetExceeded
  | TokenBudgetExceeded
  | StepLimitExceeded u32
  | ModelFailed "'s ModelBackendError"
  | ToolFailed string string
  | UndeclaredTool string
  | PromptFailed string
  | ObserverFailed string

datatype 'a raced = RaceCancelled | RaceDeadline | RaceDone 'a

section \<open>The interaction clock\<close>

record InteractionClock =
  ic_pause_depth :: u32
  ic_paused_at :: "nat option"
  ic_paused_total :: nat

definition clock_default :: InteractionClock where
  "clock_default = \<lparr>ic_pause_depth = 0, ic_paused_at = None, ic_paused_total = 0\<rparr>"

definition clock_pause :: "nat \<Rightarrow> InteractionClock \<Rightarrow> InteractionClock" where
  "clock_pause now c = c\<lparr>
     ic_paused_at := (if ic_pause_depth c = 0 then Some now else ic_paused_at c),
     ic_pause_depth := u32_saturating_add (ic_pause_depth c) 1\<rparr>"

definition clock_resume :: "nat \<Rightarrow> InteractionClock \<Rightarrow> InteractionClock" where
  "clock_resume now c =
     (let depth = (if ic_pause_depth c = 0 then 0 else ic_pause_depth c - 1)
      in if depth = 0
         then (case ic_paused_at c of
                 Some paused_at \<Rightarrow> c\<lparr>ic_pause_depth := depth, ic_paused_at := None,
                   ic_paused_total := ic_paused_total c + (now - paused_at)\<rparr>
               | None \<Rightarrow> c\<lparr>ic_pause_depth := depth\<rparr>)
         else c\<lparr>ic_pause_depth := depth\<rparr>)"

definition paused_duration :: "nat \<Rightarrow> InteractionClock \<Rightarrow> nat" where
  "paused_duration now c =
     ic_paused_total c + (case ic_paused_at c of Some paused_at \<Rightarrow> now - paused_at | None \<Rightarrow> 0)"

definition is_paused :: "InteractionClock \<Rightarrow> bool" where
  "is_paused c \<longleftrightarrow> ic_pause_depth c > 0"

definition active_elapsed :: "nat \<Rightarrow> nat \<Rightarrow> InteractionClock \<Rightarrow> nat" where
  "active_elapsed started now c = (now - started) - paused_duration now c"

section \<open>The budget\<close>

definition NANOS_PER_MILLI :: nat where "NANOS_PER_MILLI = 1000000"

definition check_time :: "ExecutionLimits \<Rightarrow> nat \<Rightarrow> 's AgentLoopError + unit" where
  "check_time limits elapsed =
     guard (\<not> elapsed \<ge> unat (max_wall_time_ms limits) * NANOS_PER_MILLI) DeadlineExceeded"

definition remaining :: "ExecutionLimits \<Rightarrow> nat \<Rightarrow> 's AgentLoopError + nat" where
  "remaining limits elapsed =
     (let total = unat (max_wall_time_ms limits) * NANOS_PER_MILLI
      in if elapsed \<le> total \<and> total - elapsed \<noteq> 0 then Inr (total - elapsed)
         else Inl DeadlineExceeded)"

definition budget_update ::
    "ExecutionLimits \<Rightarrow> nat \<Rightarrow> (Usage \<Rightarrow> ('s AgentLoopError + unit) \<times> Usage) \<Rightarrow> Usage
       \<Rightarrow> ('s AgentLoopError + unit) \<times> Usage" where
  "budget_update limits elapsed update u =
     (case check_time limits elapsed of Inl e \<Rightarrow> (Inl e, u) | Inr _ \<Rightarrow> update u)"

definition reserve_model_call ::
    "ExecutionLimits \<Rightarrow> nat \<Rightarrow> Usage \<Rightarrow> ('s AgentLoopError + unit) \<times> Usage" where
  "reserve_model_call limits elapsed =
     budget_update limits elapsed (\<lambda>u.
       if us_model_calls u \<ge> max_model_calls limits then (Inl ModelCallBudgetExceeded, u)
       else (Inr (), u\<lparr>us_model_calls := us_model_calls u + 1\<rparr>))"

definition reserve_tool_call ::
    "ExecutionLimits \<Rightarrow> nat \<Rightarrow> Usage \<Rightarrow> ('s AgentLoopError + unit) \<times> Usage" where
  "reserve_tool_call limits elapsed =
     budget_update limits elapsed (\<lambda>u.
       if us_tool_calls u \<ge> max_tool_calls limits then (Inl ToolCallBudgetExceeded, u)
       else (Inr (), u\<lparr>us_tool_calls := us_tool_calls u + 1\<rparr>))"

definition record_tokens ::
    "ExecutionLimits \<Rightarrow> nat \<Rightarrow> Usage \<Rightarrow> Usage \<Rightarrow> ('s AgentLoopError + unit) \<times> Usage" where
  "record_tokens limits elapsed used =
     budget_update limits elapsed (\<lambda>u.
       let u' = add_tokens u used
       in (if total_tokens u' > max_total_tokens limits then Inl TokenBudgetExceeded else Inr (), u'))"

section \<open>Prompt surfaces\<close>

record SemiStableZone =
  sz_workspace_summary :: string
  sz_handoff :: HandoffPacket
  sz_progress_summary :: string

record 'd CacheFingerprints =
  cf_catalog :: string
  cf_blueprint :: string
  cf_agent_surface :: 'd
  cf_tool_surface :: 'd
  cf_skill_bundle :: 'd
  cf_continuation :: 'd

datatype CacheDiagnostic =
    Cold | CatalogChanged | BlueprintChanged | AgentSurfaceChanged | ToolSurfaceChanged
  | SkillBundleChanged | ContinuationBoundaryChanged | DynamicTailOnly

definition fingerprints_compare ::
    "'d CacheFingerprints \<Rightarrow> 'd CacheFingerprints option \<Rightarrow> CacheDiagnostic" where
  "fingerprints_compare f previous =
     (case previous of
        None \<Rightarrow> Cold
      | Some p \<Rightarrow>
          if cf_catalog f \<noteq> cf_catalog p then CatalogChanged
          else if cf_blueprint f \<noteq> cf_blueprint p then BlueprintChanged
          else if cf_agent_surface f \<noteq> cf_agent_surface p then AgentSurfaceChanged
          else if cf_tool_surface f \<noteq> cf_tool_surface p then ToolSurfaceChanged
          else if cf_skill_bundle f \<noteq> cf_skill_bundle p then SkillBundleChanged
          else if cf_continuation f \<noteq> cf_continuation p then ContinuationBoundaryChanged
          else DynamicTailOnly)"

record ('j, 'd) PromptSurface =
  ps_stable :: string
  ps_semi_stable :: SemiStableZone
  ps_history_tail :: "'j ConversationItem list"
  ps_fingerprints :: "'d CacheFingerprints"

record StableSurfaceKey =
  ssk_agent :: AgentId
  ssk_skills :: "SkillId list"
  ssk_tools :: "ToolId list"
  ssk_required_model_capabilities :: "ModelCapability list"
  ssk_max_steps :: u32

definition surface_key :: "AgentNode \<Rightarrow> StableSurfaceKey" where
  "surface_key node = \<lparr>ssk_agent = an_agent node, ssk_skills = an_skills node,
     ssk_tools = an_tools node,
     ssk_required_model_capabilities = an_required_model_capabilities node,
     ssk_max_steps = an_max_steps node\<rparr>"

record 'd CachedStableSurface =
  cs_stable :: string
  cs_agent_surface :: 'd
  cs_tool_surface :: 'd
  cs_skill_bundle :: 'd

datatype SurfaceError =
    MissingAgent string | MissingSkill string | MissingTool string | CacheCapacity
  | Serialization string

fun surface_error_display :: "SurfaceError \<Rightarrow> string" where
  "surface_error_display (MissingAgent a) = ''agent '' @ quote a @ '' is absent from the validated catalog''"
| "surface_error_display (MissingSkill a) = ''skill '' @ quote a @ '' is absent from the validated catalog''"
| "surface_error_display (MissingTool a) = ''tool '' @ quote a @ '' is absent from the validated catalog''"
| "surface_error_display CacheCapacity = ''stable prompt surface cache exceeded its graph-node bound''"
| "surface_error_display (Serialization e) = e"

record 'd digests =
  dg_agent :: "string \<times> AgentId \<times> string \<times> u32 \<times> ModelCapability list \<times> ModelCapability list
     \<times> PolicyEnvelope \<Rightarrow> string + 'd"
  dg_tools :: "(ToolId \<times> ToolCatalogEntry) list \<Rightarrow> string + 'd"
  dg_skills :: "(SkillId \<times> SkillCatalogEntry) list \<Rightarrow> string + 'd"
  dg_continuation :: "string option \<Rightarrow> string + 'd"

definition surface_digest :: "string + 'd \<Rightarrow> SurfaceError + 'd" where
  "surface_digest r = (case r of Inl e \<Rightarrow> Inl (Serialization e) | Inr d \<Rightarrow> Inr d)"

record 'd PromptAuthority =
  pa_blueprint_fingerprint :: string
  pa_catalog_fingerprint :: string
  pa_catalog :: SchedulerCatalog
  pa_policy :: PolicyEnvelope
  pa_harness_policy :: string
  pa_digests :: "'d digests"

definition max_stable_surfaces :: "'d PromptAuthority \<Rightarrow> nat" where
  "max_stable_surfaces a = unat (max (max_graph_nodes (pol_hard_limits (pa_policy a))) 1)"

definition NL :: string where "NL = [CHR 0x0A]"

definition skill_prompt :: "SkillId \<times> SkillCatalogEntry \<Rightarrow> string" where
  "skill_prompt = (\<lambda>(id, skill). ''### '' @ id @ NL
     @ trim (case sk_hydrated_prompt skill of Some p \<Rightarrow> p | None \<Rightarrow> sk_summary skill) @ NL)"

definition stable_prompt :: "string \<Rightarrow> string \<Rightarrow> (SkillId \<times> SkillCatalogEntry) list \<Rightarrow> string" where
  "stable_prompt harness_policy agent_policy skills =
     trim harness_policy
     @ (if trim agent_policy = [] then [] else NL @ NL @ ''## Agent Policy'' @ NL @ trim agent_policy)
     @ (if skills = [] then [] else NL @ NL @ ''## Selected Skills'' @ NL
          @ List.concat (map skill_prompt skills))"

definition build_stable_surface ::
    "'d PromptAuthority \<Rightarrow> AgentNode \<Rightarrow> SurfaceError + 'd CachedStableSurface" where
  "build_stable_surface a node =
     (case map_of (cat_agents (pa_catalog a)) (an_agent node) of
        None \<Rightarrow> Inl (MissingAgent (an_agent node))
      | Some agent \<Rightarrow>
          res_bind (res_map (\<lambda>id. case map_of (cat_skills (pa_catalog a)) id of
              Some entry \<Rightarrow> Inr (id, entry) | None \<Rightarrow> Inl (MissingSkill id)) (an_skills node)) (\<lambda>skills.
          res_bind (res_map (\<lambda>id. case map_of (cat_tools (pa_catalog a)) id of
              Some entry \<Rightarrow> Inr (id, entry) | None \<Rightarrow> Inl (MissingTool id)) (an_tools node)) (\<lambda>tools.
          res_bind (surface_digest (dg_agent (pa_digests a)
              (pa_harness_policy a, an_agent node, ac_system_policy agent, an_max_steps node,
               ac_model_capabilities agent, an_required_model_capabilities node, pa_policy a))) (\<lambda>agent_surface.
          res_bind (surface_digest (dg_tools (pa_digests a) tools)) (\<lambda>tool_surface.
          res_bind (surface_digest (dg_skills (pa_digests a) skills)) (\<lambda>skill_bundle.
          Inr \<lparr>cs_stable = stable_prompt (pa_harness_policy a) (ac_system_policy agent) skills,
               cs_agent_surface = agent_surface, cs_tool_surface = tool_surface,
               cs_skill_bundle = skill_bundle\<rparr>))))))"

text \<open>The state the branches of a run share.\<close>

record 'd agent_world =
  aw_usage :: Usage
  aw_surfaces :: "(StableSurfaceKey \<times> 'd CachedStableSurface) list"

definition cached_surface ::
    "'d PromptAuthority \<Rightarrow> AgentNode
       \<Rightarrow> (('d, 'z) agent_world_scheme, SurfaceError, 'd CachedStableSurface) action" where
  "cached_surface a node = (\<lambda>w.
     case map_of (aw_surfaces w) (surface_key node) of
       Some cached \<Rightarrow> (Inr cached, w)
     | None \<Rightarrow>
         if length (aw_surfaces w) \<ge> max_stable_surfaces a then (Inl CacheCapacity, w)
         else (case build_stable_surface a node of
                 Inl e \<Rightarrow> (Inl e, w)
               | Inr cached \<Rightarrow>
                   (Inr cached, w\<lparr>aw_surfaces := (surface_key node, cached) # aw_surfaces w\<rparr>)))"

definition build_prompt_surface ::
    "'d PromptAuthority \<Rightarrow> AgentNode \<Rightarrow> string \<Rightarrow> string \<Rightarrow> HandoffPacket \<Rightarrow> 'j ConversationItem list
       \<Rightarrow> string option \<Rightarrow> (('d, 'z) agent_world_scheme, SurfaceError, ('j, 'd) PromptSurface) action" where
  "build_prompt_surface a node workspace_summary progress_summary handoff history continuation =
     act_bind (cached_surface a node) (\<lambda>cached w.
       (case surface_digest (dg_continuation (pa_digests a) continuation) of
          Inl e \<Rightarrow> (Inl e, w)
        | Inr d \<Rightarrow>
            (Inr \<lparr>ps_stable = cs_stable cached,
               ps_semi_stable = \<lparr>sz_workspace_summary = workspace_summary, sz_handoff = handoff,
                  sz_progress_summary = progress_summary\<rparr>,
               ps_history_tail = history,
               ps_fingerprints = \<lparr>cf_catalog = pa_catalog_fingerprint a,
                  cf_blueprint = pa_blueprint_fingerprint a,
                  cf_agent_surface = cs_agent_surface cached,
                  cf_tool_surface = cs_tool_surface cached,
                  cf_skill_bundle = cs_skill_bundle cached, cf_continuation = d\<rparr>\<rparr>, w)))"

section \<open>The loop\<close>

record AgentObservationContext =
  oc_node_path :: string
  oc_agent :: AgentId
  oc_step :: u32
  oc_max_steps :: u32

record ('j, 'd, 'm) ModelRequest =
  mr_agent :: AgentId
  mr_skills :: "SkillId list"
  mr_tools :: "ToolId list"
  mr_prompt :: "('j, 'd) PromptSurface"
  mr_reasoning_continuation :: "string option"
  mr_conversation_seed :: "'m list"

text \<open>The backends, the observer, the cancellation flag and the clock, over the world \<open>'w\<close>.\<close>

record ('j, 'd, 'm, 's, 'w) agent_env =
  ae_is_cancelled :: "'w \<Rightarrow> bool \<times> 'w"
  ae_elapsed :: "'w \<Rightarrow> nat \<times> 'w"
  ae_step_started :: "AgentObservationContext \<Rightarrow> u32 \<Rightarrow> ('w, string, unit) action"
  ae_take_boundary_inputs :: "AgentObservationContext \<Rightarrow> ('w, string, string list) action"
  ae_invoke :: "('j, 'd, 'm) ModelRequest \<Rightarrow> AgentObservationContext
     \<Rightarrow> 'w \<Rightarrow> ('s ModelBackendError + 'j AssistantTurn) raced \<times> 'w"
  ae_assistant_turn :: "AgentObservationContext \<Rightarrow> 'j AssistantTurn \<Rightarrow> ('w, string, unit) action"
  ae_tool_started :: "AgentObservationContext \<Rightarrow> 'j ToolCall \<Rightarrow> ('w, string, unit) action"
  ae_execute :: "AgentObservationContext \<Rightarrow> 'j ToolCall
     \<Rightarrow> 'w \<Rightarrow> (string + 'j ToolExecution) raced \<times> 'w"
  ae_tool_finished :: "AgentObservationContext \<Rightarrow> 'j ToolCall \<Rightarrow> 'j ToolExecution
     \<Rightarrow> ('w, string, unit) action"
  ae_step_finished :: "AgentObservationContext \<Rightarrow> u32 \<Rightarrow> Usage \<Rightarrow> ('w, string, unit) action"

definition check_cancelled ::
    "('j, 'd, 'm, 's, 'w) agent_env \<Rightarrow> ('w, 's AgentLoopError, unit) action" where
  "check_cancelled env w =
     (let (c, w1) = ae_is_cancelled env w in (if c then Inl Cancelled else Inr (), w1))"

definition budget_act ::
    "('j, 'd, 'm, 's, ('d, 'z) agent_world_scheme) agent_env
       \<Rightarrow> (nat \<Rightarrow> Usage \<Rightarrow> ('s AgentLoopError + unit) \<times> Usage)
       \<Rightarrow> (('d, 'z) agent_world_scheme, 's AgentLoopError, unit) action" where
  "budget_act env budget_op w =
     (let (elapsed, w1) = ae_elapsed env w; (r, u) = budget_op elapsed (aw_usage w1)
      in (r, w1\<lparr>aw_usage := u\<rparr>))"

definition race ::
    "('e \<Rightarrow> 's AgentLoopError) \<Rightarrow> ('w \<Rightarrow> ('e + 'a) raced \<times> 'w) \<Rightarrow> ('w, 's AgentLoopError, 'a) action" where
  "race on_error m w =
     (case m w of
        (RaceCancelled, w1) \<Rightarrow> (Inl Cancelled, w1)
      | (RaceDeadline, w1) \<Rightarrow> (Inl DeadlineExceeded, w1)
      | (RaceDone (Inl e), w1) \<Rightarrow> (Inl (on_error e), w1)
      | (RaceDone (Inr x), w1) \<Rightarrow> (Inr x, w1))"

definition scheduler_tool_call_id :: "AgentObservationContext \<Rightarrow> string \<Rightarrow> string" where
  "scheduler_tool_call_id context provider_call_id =
     (let prefix = ''scheduler:'' @ oc_node_path context @ '':'' @ show_nat (unat (oc_step context)) @ '':''
      in if starts_with provider_call_id prefix then provider_call_id else prefix @ provider_call_id)"

definition rename_calls :: "AgentObservationContext \<Rightarrow> 'j AssistantTurn \<Rightarrow> 'j AssistantTurn" where
  "rename_calls context turn = turn\<lparr>at_tool_calls :=
     map (\<lambda>call. call\<lparr>call_id := scheduler_tool_call_id context (call_id call)\<rparr>) (at_tool_calls turn)\<rparr>"

fun run_tool_calls ::
    "('j, 'd, 'm, 's, ('d, 'z) agent_world_scheme) agent_env \<Rightarrow> ExecutionLimits \<Rightarrow> AgentNode
       \<Rightarrow> AgentObservationContext \<Rightarrow> 'j ToolCall list \<Rightarrow> Usage \<Rightarrow> 'j ConversationItem list
       \<Rightarrow> (('d, 'z) agent_world_scheme, 's AgentLoopError, Usage \<times> 'j ConversationItem list) action" where
  "run_tool_calls env limits node context [] local_usage results = act_return (local_usage, results)"
| "run_tool_calls env limits node context (call # calls) local_usage results =
     act_bind (check_cancelled env) (\<lambda>_.
     if call_tool call \<notin> set (an_tools node) then act_fail (UndeclaredTool (call_tool call))
     else
       act_bind (budget_act env (reserve_tool_call limits)) (\<lambda>_.
       act_bind (act_map_err ObserverFailed (ae_tool_started env context call)) (\<lambda>_.
       act_bind (race (ToolFailed (call_tool call)) (ae_execute env context call)) (\<lambda>output.
       act_bind (act_map_err ObserverFailed (ae_tool_finished env context call output)) (\<lambda>_.
       run_tool_calls env limits node context calls
         (local_usage\<lparr>us_tool_calls := us_tool_calls local_usage + 1\<rparr>)
         (results @ [ToolResultItem (call_id call) (te_output output) (te_is_error output)]))))))"

record 'j AgentRunOutcome =
  ao_result :: NodeResult
  ao_conversation :: "'j ConversationItem list"

record ('d, 'm) AgentRunContext =
  arc_prompt_authority :: "'d PromptAuthority"
  arc_workspace_summary :: string
  arc_progress_summary :: string
  arc_limits :: ExecutionLimits
  arc_handoff :: HandoffPacket
  arc_conversation_seed :: "'m list"

definition model_turn ::
    "('j, 'd, 'm, 's, ('d, 'z) agent_world_scheme) agent_env \<Rightarrow> ('d, 'm) AgentRunContext \<Rightarrow> AgentNode
       \<Rightarrow> AgentObservationContext \<Rightarrow> 'j ConversationItem list \<Rightarrow> string option
       \<Rightarrow> (('d, 'z) agent_world_scheme, 's AgentLoopError,
            'j ConversationItem list \<times> 'j AssistantTurn) action" where
  "model_turn env ctx node context conversation continuation =
     act_bind (check_cancelled env) (\<lambda>_.
     act_bind (act_map_err ObserverFailed (ae_step_started env context (oc_step context))) (\<lambda>_.
     act_bind (act_map_err ObserverFailed (ae_take_boundary_inputs env context)) (\<lambda>boundary_inputs.
     let conversation = conversation @ map UserItem boundary_inputs in
     act_bind (budget_act env (reserve_model_call (arc_limits ctx))) (\<lambda>_.
     act_bind (act_map_err (PromptFailed \<circ> surface_error_display)
         (build_prompt_surface (arc_prompt_authority ctx) node (arc_workspace_summary ctx)
            (arc_progress_summary ctx) (arc_handoff ctx) conversation continuation)) (\<lambda>prompt.
     act_bind (race ModelFailed (ae_invoke env
         \<lparr>mr_agent = an_agent node, mr_skills = an_skills node, mr_tools = an_tools node,
          mr_prompt = prompt, mr_reasoning_continuation = continuation,
          mr_conversation_seed = arc_conversation_seed ctx\<rparr> context)) (\<lambda>turn.
     let turn = rename_calls context turn in
     act_bind (check_cancelled env) (\<lambda>_.
     act_bind (budget_act env (\<lambda>elapsed. record_tokens (arc_limits ctx) elapsed (at_usage turn))) (\<lambda>_.
     act_bind (act_map_err ObserverFailed (ae_assistant_turn env context turn)) (\<lambda>_.
     act_return (conversation, turn))))))))))"

fun agent_steps ::
    "('j, 'd, 'm, 's, ('d, 'z) agent_world_scheme) agent_env \<Rightarrow> ('d, 'm) AgentRunContext \<Rightarrow> AgentNode
       \<Rightarrow> nat \<Rightarrow> u32 \<Rightarrow> 'j ConversationItem list \<Rightarrow> string option \<Rightarrow> Usage
       \<Rightarrow> (('d, 'z) agent_world_scheme, 's AgentLoopError, 'j AgentRunOutcome) action" where
  "agent_steps env ctx node 0 step conversation continuation local_usage =
     act_fail (StepLimitExceeded (an_max_steps node))"
| "agent_steps env ctx node (Suc left) step conversation continuation local_usage =
     (let context = \<lparr>oc_node_path = arc_progress_summary ctx, oc_agent = an_agent node,
            oc_step = step, oc_max_steps = an_max_steps node\<rparr>
      in act_bind (model_turn env ctx node context conversation continuation) (\<lambda>(conversation, turn).
         let local_usage = add_tokens (local_usage\<lparr>us_model_calls := us_model_calls local_usage + 1\<rparr>)
               (at_usage turn)
         in if at_tool_calls turn = []
            then
              act_bind (act_map_err ObserverFailed (ae_step_finished env context step local_usage)) (\<lambda>_.
              let output = (case at_content turn of Some c \<Rightarrow> c | None \<Rightarrow> [])
              in act_return \<lparr>ao_result = node_result_default\<lparr>nr_summary := output,
                     nr_output := Some output, nr_usage := local_usage\<rparr>,
                   ao_conversation = conversation @ [AssistantItem turn]\<rparr>)
            else
              act_bind (run_tool_calls env (arc_limits ctx) node context (at_tool_calls turn) local_usage [])
                (\<lambda>(local_usage, tool_results).
              act_bind (act_map_err ObserverFailed (ae_step_finished env context step local_usage)) (\<lambda>_.
              agent_steps env ctx node left (step + 1)
                (conversation @ [AssistantItem turn] @ tool_results)
                (at_reasoning_continuation turn) local_usage))))"

definition agent_run ::
    "('j, 'd, 'm, 's, ('d, 'z) agent_world_scheme) agent_env \<Rightarrow> ('d, 'm) AgentRunContext \<Rightarrow> AgentNode
       \<Rightarrow> (('d, 'z) agent_world_scheme, 's AgentLoopError, 'j AgentRunOutcome) action" where
  "agent_run env ctx node =
     agent_steps env ctx node (unat (an_max_steps node)) 1 [] None usage_default"

end
