(* ===== verification/Rust_Maps.thy ===== *)
theory Rust_Maps
  imports Rust_Prelude "HOL-Library.Char_ord" "HOL-Library.List_Lexorder"
begin

text \<open>
  Ordered maps (\<open>BTreeMap\<close>) as the list of their entries in key order. Strings are ordered by their
  bytes, as in Rust.
\<close>

fun btree_insert :: "'k::linorder \<Rightarrow> 'v \<Rightarrow> ('k \<times> 'v) list \<Rightarrow> ('k \<times> 'v) list" where
  "btree_insert k v [] = [(k, v)]"
| "btree_insert k v ((k', v') # xs) =
     (if k < k' then (k, v) # (k', v') # xs
      else if k = k' then (k, v) # xs
      else (k', v') # btree_insert k v xs)"

definition btree_from :: "('k::linorder \<times> 'v) list \<Rightarrow> ('k \<times> 'v) list" where
  "btree_from entries = foldl (\<lambda>m (k, v). btree_insert k v m) [] entries"

definition btree_ok :: "('k::linorder \<times> 'v) list \<Rightarrow> bool" where
  "btree_ok m \<longleftrightarrow> sorted_wrt (<) (map fst m)"

lemma map_of_btree_insert [simp]: "btree_ok m \<Longrightarrow> map_of (btree_insert k v m) = (map_of m)(k \<mapsto> v)"
  by (induction k v m rule: btree_insert.induct) (auto simp: btree_ok_def fun_eq_iff)

lemma keys_btree_insert [simp]: "fst ` set (btree_insert k v m) = insert k (fst ` set m)"
  by (induction k v m rule: btree_insert.induct) auto

lemma btree_ok_insert [simp]: "btree_ok m \<Longrightarrow> btree_ok (btree_insert k v m)"
proof (induction k v m rule: btree_insert.induct)
  case (2 k v k' v' xs)
  have keys: "set (map fst (btree_insert k v xs)) = insert k (set (map fst xs))" by simp
  consider "k < k'" | "k = k'" | "k' < k" by fastforce
  then show ?case
  proof cases
    case 1
    with 2 show ?thesis by (auto simp: btree_ok_def intro: less_trans)
  next
    case 2
    with "2.prems" show ?thesis by (simp add: btree_ok_def)
  next
    case 3
    with 2 keys show ?thesis unfolding btree_ok_def by (auto simp del: set_map)
  qed
qed (simp add: btree_ok_def)

lemma btree_ok_distinct: "btree_ok m \<Longrightarrow> distinct (map fst m)"
  by (simp add: btree_ok_def strict_sorted_iff)

lemma btree_entries: "btree_ok m \<Longrightarrow> (k, v) \<in> set m \<longleftrightarrow> map_of m k = Some v"
  by (simp add: btree_ok_distinct)

lemma btree_from_fold:
  "btree_ok m \<Longrightarrow> btree_ok (foldl (\<lambda>m (k, v). btree_insert k v m) m entries) \<and>
     map_of (foldl (\<lambda>m (k, v). btree_insert k v m) m entries) = map_of m ++ map_of (rev entries)"
proof (induction entries arbitrary: m)
  case (Cons e entries)
  obtain k v where e: "e = (k, v)" by (cases e)
  with Cons show ?case by (auto simp: map_add_def fun_eq_iff split: option.splits)
qed simp

lemma btree_from_ok [simp]: "btree_ok (btree_from entries)"
  using btree_from_fold [of "[]" entries] by (simp add: btree_from_def btree_ok_def)

lemma map_of_btree_from [simp]: "map_of (btree_from entries) = map_of (rev entries)"
  using btree_from_fold [of "[]" entries] by (simp add: btree_from_def btree_ok_def)

lemma keys_btree_from: "fst ` set (btree_from entries) = fst ` set entries"
  by (metis dom_map_of_conv_image_fst map_of_btree_from set_rev)

text \<open>Distinct entries are kept as they are.\<close>

lemma set_btree_from: "distinct (map fst entries) \<Longrightarrow> set (btree_from entries) = set entries"
proof -
  assume d: "distinct (map fst entries)"
  then have "map_of (rev entries) = map_of entries"
    by (intro map_of_eqI) (auto simp: rev_map [symmetric])
  then show ?thesis using d btree_entries [OF btree_from_ok, of _ _ entries]
    by (auto simp: set_eq_iff)
qed

end
