(* ===== verification/Engine.thy ===== *)
theory Engine
  imports Agent_Loop Rust_Maps
begin

text \<open>
  The scheduler engine (\<open>agendao-orchestrator/src/engine.rs\<close>): it walks the graph of a validated
  blueprint, runs agents, branches, gates and bounded loops, and finalises the workspace
  capabilities.

  \<^item> The graph walk follows the edges it is given and would not end on a cyclic graph, so
    \<open>execute_graph\<close> takes the number of nested walks it may use and returns \<open>None\<close> when they do
    not suffice; that they suffice on an accepted graph is a theorem.
  \<^item> The branches of a parallel node run concurrently. Each branch works on its own state and meets
    the others only in the world, which every call of the environment may change; so a branch that
    is interleaved with others is a branch whose environment answers accordingly. The branches are
    taken in the order in which they complete, which the environment chooses.
\<close>

datatype Evaluation = EvalPass | EvalFail | EvalIndeterminate

record EvaluationOutcome =
  eo_evaluation :: Evaluation
  eo_usage :: Usage

datatype RunDisposition = Commit | Rollback

record CheckpointRequest =
  cr_capability :: CapabilityId
  cr_workspace_root :: string
  cr_scope :: string
  cr_iteration :: u32
  cr_limits :: WorkspaceLimits

record CheckpointHandle =
  ch_capability :: CapabilityId
  ch_workspace_root :: string
  ch_id :: string
  ch_iteration :: u32

record RestoreRequest =
  rr_checkpoint :: CheckpointHandle
  rr_limits :: WorkspaceLimits

record ArtifactRequest =
  aq_capability :: CapabilityId
  aq_workspace_root :: string
  aq_name :: string
  aq_content :: string
  aq_limits :: WorkspaceLimits

record 'm RunRequest =
  rq_handoff :: HandoffPacket
  rq_conversation_seed :: "'m list"
  rq_workspace_root :: string
  rq_workspace_summary :: string

datatype 's EngineError =
    AgentFailed "'s AgentLoopError"
  | EvaluatorFailed string string
  | CapabilityFailed string string
  | MissingNode string
  | ParallelBranch string string
  | MissingResult string
  | CatalogFingerprintFailed string
  | CleanupFailed string string

datatype ExecutionEvent =
    RunStartedEvent
  | NodeStarted string
  | NodeCompleted string
  | LoopIteration string u32
  | Evaluated string Evaluation
  | RunCompleted Usage
  | RunFailed string

record RunOutcome =
  ro_result :: NodeResult
  ro_node_results :: "string \<rightharpoonup> NodeResult"
  ro_usage :: Usage

section \<open>Error messages\<close>

fun model_error_display :: "('s \<Rightarrow> string) \<Rightarrow> 's ModelBackendError \<Rightarrow> string" where
  "model_error_display message (ProviderError s) = message s"
| "model_error_display message (MessageError m) = m"

fun agent_error_display :: "('s \<Rightarrow> string) \<Rightarrow> 's AgentLoopError \<Rightarrow> string" where
  "agent_error_display message Cancelled = ''execution was cancelled''"
| "agent_error_display message DeadlineExceeded = ''execution deadline exceeded''"
| "agent_error_display message ModelCallBudgetExceeded = ''model call budget exceeded''"
| "agent_error_display message ToolCallBudgetExceeded = ''tool call budget exceeded''"
| "agent_error_display message TokenBudgetExceeded = ''token budget exceeded''"
| "agent_error_display message (StepLimitExceeded steps) =
     ''agent reached its '' @ show_nat (unat steps)
     @ ''-step limit without a final response; completed step history and tool results were preserved, and the session can continue in a new turn''"
| "agent_error_display message (ModelFailed e) = ''model invocation failed: '' @ model_error_display message e"
| "agent_error_display message (ToolFailed tool m) = ''tool '' @ quote tool @ '' failed: '' @ m"
| "agent_error_display message (UndeclaredTool t) = ''model requested undeclared tool '' @ quote t"
| "agent_error_display message (PromptFailed m) = ''prompt surface construction failed: '' @ m"
| "agent_error_display message (ObserverFailed m) = ''agent loop observer failed: '' @ m"

fun engine_error_display :: "('s \<Rightarrow> string) \<Rightarrow> 's EngineError \<Rightarrow> string" where
  "engine_error_display message (AgentFailed e) = agent_error_display message e"
| "engine_error_display message (EvaluatorFailed e m) = ''evaluator '' @ quote e @ '' failed: '' @ m"
| "engine_error_display message (CapabilityFailed c m) = ''capability '' @ quote c @ '' failed: '' @ m"
| "engine_error_display message (MissingNode n) = ''execution reached missing node '' @ quote n"
| "engine_error_display message (ParallelBranch b m) = ''parallel branch '' @ quote b @ '' failed: '' @ m"
| "engine_error_display message (MissingResult r) = ''end node requests unavailable result from '' @ quote r"
| "engine_error_display message (CatalogFingerprintFailed m) = ''catalog fingerprint failed: '' @ m"
| "engine_error_display message (CleanupFailed e m) =
     ''capability cleanup failed after '' @ e @ '': '' @ m"

section \<open>Branch state\<close>

record 'm BranchState =
  bs_handoff :: HandoffPacket
  bs_conversation_seed :: "'m list"
  bs_last :: "NodeResult option"
  bs_results :: "string \<rightharpoonup> NodeResult"

definition branch_new :: "HandoffPacket \<Rightarrow> 'm list \<Rightarrow> 'm BranchState" where
  "branch_new handoff seed = \<lparr>bs_handoff = handoff, bs_conversation_seed = seed, bs_last = None,
     bs_results = Map.empty\<rparr>"

definition handoff_from_result :: "HandoffPacket \<Rightarrow> NodeResult \<Rightarrow> HandoffPacket" where
  "handoff_from_result previous result = previous\<lparr>
     ho_inputs := (ho_inputs previous)(''previous.summary'' \<mapsto> nr_summary result),
     ho_artifact_refs := nr_artifact_refs result\<rparr>"

definition branch_record :: "string \<Rightarrow> NodeResult \<Rightarrow> 'm BranchState \<Rightarrow> 'm BranchState" where
  "branch_record node result st = st\<lparr>bs_handoff := handoff_from_result (bs_handoff st) result,
     bs_last := Some result, bs_results := (bs_results st)(node \<mapsto> result)\<rparr>"

definition fork_for :: "NodeId \<Rightarrow> 'm BranchState \<Rightarrow> 'm BranchState" where
  "fork_for branch st =
     branch_new ((bs_handoff st)\<lparr>ho_inputs := (ho_inputs (bs_handoff st))(''scheduler.branch'' \<mapsto> branch)\<rparr>) []"

definition loop_handoff :: "HandoffPacket \<Rightarrow> NodeResult option \<Rightarrow> u32 \<Rightarrow> HandoffPacket" where
  "loop_handoff previous result iteration =
     (let handoff = previous\<lparr>ho_inputs :=
            (ho_inputs previous)(''scheduler.iteration'' \<mapsto> show_nat (unat (iteration + 1)))\<rparr>
      in case result of
           None \<Rightarrow> handoff
         | Some r \<Rightarrow> handoff\<lparr>ho_inputs := (ho_inputs handoff)(''previous.summary'' \<mapsto> nr_summary r),
             ho_artifact_refs := nr_artifact_refs r\<rparr>)"

definition last_or_default :: "'m BranchState \<Rightarrow> NodeResult" where
  "last_or_default st = (case bs_last st of Some r \<Rightarrow> r | None \<Rightarrow> node_result_default)"

section \<open>The environment\<close>

record ('j, 'd, 'm, 's, 'w) engine_env =
  ee_agent :: "('j, 'd, 'm, 's, 'w) agent_env"
  ee_evaluate :: "EvaluatorId \<Rightarrow> NodeResult \<Rightarrow> 'w \<Rightarrow> (string + EvaluationOutcome) raced \<times> 'w"
  ee_checkpoint :: "CheckpointRequest \<Rightarrow> ('w, string, CheckpointHandle) action"
  ee_restore :: "RestoreRequest \<Rightarrow> ('w, string, unit) action"
  ee_store_artifact :: "ArtifactRequest \<Rightarrow> ('w, string, string) action"
  ee_finalize :: "RunDisposition \<Rightarrow> ('w, string, unit) action"
  ee_emit :: "ExecutionEvent \<Rightarrow> 'w \<Rightarrow> 'w"
  ee_pick :: "NodeId list \<Rightarrow> 'w \<Rightarrow> nat"
  ee_provider_message :: "'s \<Rightarrow> string"

record 'd RunControl =
  rc_limits :: ExecutionLimits
  rc_prompt_authority :: "'d PromptAuthority"
  rc_workspace_root :: string
  rc_workspace_summary :: string

text \<open>A walk that may not return.\<close>

type_synonym ('w, 'e, 'a) walk = "'w \<Rightarrow> (('e + 'a) \<times> 'w) option"

definition walk_bind :: "('w, 'e, 'a) walk \<Rightarrow> ('a \<Rightarrow> ('w, 'e, 'b) walk) \<Rightarrow> ('w, 'e, 'b) walk" where
  "walk_bind m f = (\<lambda>w. case m w of
       None \<Rightarrow> None
     | Some (Inl e, w') \<Rightarrow> Some (Inl e, w')
     | Some (Inr x, w') \<Rightarrow> f x w')"

definition walk_act :: "('w, 'e, 'a) action \<Rightarrow> ('w, 'e, 'a) walk" where
  "walk_act m = (\<lambda>w. Some (m w))"

definition emit :: "('j, 'd, 'm, 's, 'w) engine_env \<Rightarrow> ExecutionEvent \<Rightarrow> ('w, 's EngineError, unit) action" where
  "emit env e = (\<lambda>w. (Inr (), ee_emit env e w))"

definition engine_check_time ::
    "('j, 'd, 'm, 's, 'w) engine_env \<Rightarrow> ExecutionLimits \<Rightarrow> ('w, 's EngineError, unit) action" where
  "engine_check_time env limits w =
     (let (elapsed, w1) = ae_elapsed (ee_agent env) w
      in case check_time limits elapsed of Inl e \<Rightarrow> (Inl (AgentFailed e), w1) | Inr _ \<Rightarrow> (Inr (), w1))"

definition engine_check_cancelled ::
    "('j, 'd, 'm, 's, 'w) engine_env \<Rightarrow> ('w, 's EngineError, unit) action" where
  "engine_check_cancelled env = act_map_err AgentFailed (check_cancelled (ee_agent env))"

definition restore_checkpoint ::
    "('j, 'd, 'm, 's, 'w) engine_env \<Rightarrow> 'd RunControl \<Rightarrow> CheckpointHandle \<Rightarrow> ('w, 's EngineError, unit) action" where
  "restore_checkpoint env ctl checkpoint =
     act_map_err (CapabilityFailed (ch_capability checkpoint))
       (ee_restore env \<lparr>rr_checkpoint = checkpoint,
          rr_limits = pol_workspace_limits (pa_policy (rc_prompt_authority ctl))\<rparr>)"

definition is_model_judge :: "'d RunControl \<Rightarrow> EvaluatorId \<Rightarrow> bool" where
  "is_model_judge ctl evaluator \<longleftrightarrow>
     (case map_of (cat_evaluators (pa_catalog (rc_prompt_authority ctl))) evaluator of
        Some entry \<Rightarrow> ev_kind entry = ModelJudge | None \<Rightarrow> False)"

definition evaluate_with_deadline ::
    "('j, 'd, 'm, 's, ('d, 'z) agent_world_scheme) engine_env \<Rightarrow> 'd RunControl \<Rightarrow> EvaluatorId \<Rightarrow> NodeResult
       \<Rightarrow> (('d, 'z) agent_world_scheme, 's EngineError, Evaluation) action" where
  "evaluate_with_deadline env ctl evaluator candidate =
     act_bind (if is_model_judge ctl evaluator
         then act_map_err AgentFailed (budget_act (ee_agent env) (reserve_model_call (rc_limits ctl)))
         else act_return ()) (\<lambda>_.
     act_bind (\<lambda>w. case ee_evaluate env evaluator candidate w of
         (RaceCancelled, w1) \<Rightarrow> (Inl (AgentFailed Cancelled), w1)
       | (RaceDeadline, w1) \<Rightarrow> (Inl (AgentFailed DeadlineExceeded), w1)
       | (RaceDone (Inl m), w1) \<Rightarrow> (Inl (EvaluatorFailed evaluator m), w1)
       | (RaceDone (Inr x), w1) \<Rightarrow> (Inr x, w1)) (\<lambda>outcome.
     act_bind (act_map_err AgentFailed (budget_act (ee_agent env)
         (\<lambda>elapsed. record_tokens (rc_limits ctl) elapsed (eo_usage outcome)))) (\<lambda>_.
     act_return (eo_evaluation outcome))))"

section \<open>Walking the graph\<close>

function run_branches ::
    "(NodeId \<Rightarrow> ('w, 's EngineError, 'm BranchState) walk) \<Rightarrow> ('j, 'd, 'm, 's, 'w) engine_env
       \<Rightarrow> ParallelFailureMode \<Rightarrow> NodeId list
       \<Rightarrow> (NodeId \<times> 'm BranchState) list \<Rightarrow> (NodeId \<times> 's EngineError) list
       \<Rightarrow> ('w, 's EngineError, (NodeId \<times> 'm BranchState) list \<times> (NodeId \<times> 's EngineError) list) walk" where
  "run_branches walk env mode pending successes failures w =
     (if pending = [] then Some (Inr (successes, failures), w)
      else
        let i = ee_pick env pending w mod length pending;
            branch = pending ! i;
            pending' = remove_at i pending
        in case walk branch w of
             None \<Rightarrow> None
           | Some (Inr st, w1) \<Rightarrow>
               run_branches walk env mode pending' (btree_insert branch st successes) failures w1
           | Some (Inl e, w1) \<Rightarrow>
               if mode = FailFast
               then Some (Inl (ParallelBranch branch
                      (engine_error_display (ee_provider_message env) e)), w1)
               else run_branches walk env mode pending' successes (failures @ [(branch, e)]) w1)"
  by pat_completeness auto
termination
  by (relation "measure (\<lambda>(walk, env, mode, pending, successes, failures, w). length pending)") auto

declare run_branches.simps [simp del]

definition branch_results ::
    "('s \<Rightarrow> string) \<Rightarrow> (NodeId \<times> 'm BranchState) list \<Rightarrow> (NodeId \<times> 's EngineError) list \<Rightarrow> NodeResult list" where
  "branch_results message successes failures =
     List.map_filter (bs_last \<circ> snd) successes
     @ map (\<lambda>(branch, e). node_result_default\<lparr>nr_summary :=
           ''branch '' @ branch @ '' failed: '' @ engine_error_display message e\<rparr>)
         (sort_key fst failures)"

definition take_checkpoint ::
    "('j, 'd, 'm, 's, 'w) engine_env \<Rightarrow> 'd RunControl \<Rightarrow> string \<Rightarrow> u32 \<Rightarrow> CapabilityId option
       \<Rightarrow> ('w, 's EngineError, CheckpointHandle option) action" where
  "take_checkpoint env ctl node_path iteration checkpoint =
     (case checkpoint of
        None \<Rightarrow> act_return None
      | Some capability \<Rightarrow>
          act_bind (engine_check_cancelled env) (\<lambda>_.
          act_bind (act_map_err (CapabilityFailed capability) (ee_checkpoint env
              \<lparr>cr_capability = capability, cr_workspace_root = rc_workspace_root ctl,
               cr_scope = node_path, cr_iteration = iteration + 1,
               cr_limits = pol_workspace_limits (pa_policy (rc_prompt_authority ctl))\<rparr>)) (\<lambda>handle.
          act_bind (engine_check_cancelled env) (\<lambda>_.
          act_bind (engine_check_time env (rc_limits ctl)) (\<lambda>_.
          act_return (Some handle))))))"

definition restore_if_taken ::
    "('j, 'd, 'm, 's, 'w) engine_env \<Rightarrow> 'd RunControl \<Rightarrow> CheckpointHandle option \<Rightarrow> ('w, 's EngineError, unit) action" where
  "restore_if_taken env ctl checkpoint =
     (case checkpoint of None \<Rightarrow> act_return () | Some handle \<Rightarrow> restore_checkpoint env ctl handle)"

text \<open>The value of a walk that fails is the error, after the checkpoint has been restored.\<close>

definition or_restore ::
    "('j, 'd, 'm, 's, 'w) engine_env \<Rightarrow> 'd RunControl \<Rightarrow> CheckpointHandle option
       \<Rightarrow> ('w, 's EngineError, 'a) walk \<Rightarrow> ('w, 's EngineError, 'a) walk" where
  "or_restore env ctl checkpoint m = (\<lambda>w. case m w of
       None \<Rightarrow> None
     | Some (Inr x, w1) \<Rightarrow> Some (Inr x, w1)
     | Some (Inl e, w1) \<Rightarrow>
         Some (act_bind (restore_if_taken env ctl checkpoint) (\<lambda>_. act_fail e) w1))"

fun run_iterations ::
    "(string \<Rightarrow> 'm BranchState \<Rightarrow> (('d, 'z) agent_world_scheme, 's EngineError, 'm BranchState) walk)
       \<Rightarrow> ('j, 'd, 'm, 's, ('d, 'z) agent_world_scheme) engine_env \<Rightarrow> 'd RunControl \<Rightarrow> string \<Rightarrow> LoopNode
       \<Rightarrow> nat \<Rightarrow> u32 \<Rightarrow> 'm BranchState
       \<Rightarrow> (('d, 'z) agent_world_scheme, 's EngineError, bool \<times> 'm BranchState) walk" where
  "run_iterations walk env ctl node_path l 0 iteration st = walk_act (act_return (False, st))"
| "run_iterations walk env ctl node_path l (Suc left) iteration st =
     walk_bind (walk_act (emit env (LoopIteration node_path (iteration + 1)))) (\<lambda>_.
     walk_bind (walk_act (take_checkpoint env ctl node_path iteration (loop_checkpoint l))) (\<lambda>checkpoint.
     walk_bind (or_restore env ctl checkpoint
         (walk (node_path @ ''/iteration-'' @ show_nat (unat (iteration + 1)))
            (branch_new (loop_handoff (bs_handoff st) (bs_last st) iteration) []))) (\<lambda>completed.
     let candidate = last_or_default completed;
         st = branch_record node_path candidate (st\<lparr>bs_results := bs_results st ++ bs_results completed\<rparr>)
     in walk_bind (or_restore env ctl checkpoint
            (walk_act (evaluate_with_deadline env ctl (loop_evaluator l) candidate))) (\<lambda>evaluation.
        walk_bind (walk_act (emit env (Evaluated node_path evaluation))) (\<lambda>_.
        if evaluation = EvalPass then walk_act (act_return (True, st))
        else
          walk_bind (walk_act (restore_if_taken env ctl checkpoint)) (\<lambda>_.
          run_iterations walk env ctl node_path l left (iteration + 1)
            (st\<lparr>bs_handoff := handoff_from_result (bs_handoff st) candidate\<rparr>)))))))"

definition end_node_result ::
    "('j, 'd, 'm, 's, 'w) engine_env \<Rightarrow> 'd RunControl \<Rightarrow> string \<Rightarrow> 'm BranchState \<Rightarrow> EndNode
       \<Rightarrow> ('w, 's EngineError, NodeResult) action" where
  "end_node_result env ctl scope st e =
     (case end_result e of
        LastNode \<Rightarrow> act_return (last_or_default st)
      | Named source \<Rightarrow>
          (case bs_results st (scope @ ''/'' @ source) of
             Some r \<Rightarrow> act_return r | None \<Rightarrow> act_fail (MissingResult source))
      | Artifact capability name \<Rightarrow>
          (let candidate = last_or_default st;
               content = (case nr_output candidate of Some c \<Rightarrow> c | None \<Rightarrow> nr_summary candidate)
           in act_bind (engine_check_cancelled env) (\<lambda>_.
              act_bind (act_map_err (CapabilityFailed capability) (ee_store_artifact env
                  \<lparr>aq_capability = capability, aq_workspace_root = rc_workspace_root ctl,
                   aq_name = name, aq_content = content,
                   aq_limits = pol_workspace_limits (pa_policy (rc_prompt_authority ctl))\<rparr>)) (\<lambda>artifact_id.
              act_bind (engine_check_cancelled env) (\<lambda>_.
              act_bind (engine_check_time env (rc_limits ctl)) (\<lambda>_.
              act_return (node_result_default\<lparr>nr_summary := ''artifact:'' @ artifact_id,
                 nr_artifact_refs := [\<lparr>ar_id = artifact_id, ar_media_type = ''text/plain''\<rparr>]\<rparr>)))))))"

definition run_agent_node ::
    "('j, 'd, 'm, 's, ('d, 'z) agent_world_scheme) engine_env \<Rightarrow> 'd RunControl \<Rightarrow> string \<Rightarrow> AgentNode \<Rightarrow> 'm BranchState
       \<Rightarrow> (('d, 'z) agent_world_scheme, 's EngineError, 'm BranchState) action" where
  "run_agent_node env ctl node_path agent st =
     act_bind (act_map_err AgentFailed (agent_run (ee_agent env)
         \<lparr>arc_prompt_authority = rc_prompt_authority ctl,
          arc_workspace_summary = rc_workspace_summary ctl, arc_progress_summary = node_path,
          arc_limits = rc_limits ctl, arc_handoff = bs_handoff st,
          arc_conversation_seed = bs_conversation_seed st\<rparr> agent)) (\<lambda>outcome.
     act_return (branch_record node_path (ao_result outcome) (st\<lparr>bs_conversation_seed := []\<rparr>)))"

primrec execute_graph ::
    "nat \<Rightarrow> ('j, 'd, 'm, 's, ('d, 'z) agent_world_scheme) engine_env \<Rightarrow> 'd RunControl \<Rightarrow> SchedulerGraph
       \<Rightarrow> NodeId option \<Rightarrow> string \<Rightarrow> NodeId \<Rightarrow> 'm BranchState
       \<Rightarrow> (('d, 'z) agent_world_scheme, 's EngineError, 'm BranchState) walk" where
  "execute_graph 0 = (\<lambda>env ctl g stop_before scope current st w. None)"
| "execute_graph (Suc walks) = (\<lambda>env ctl g stop_before scope current st.
     if stop_before = Some current then walk_act (act_return st)
     else
       walk_bind (walk_act (engine_check_time env (rc_limits ctl))) (\<lambda>_.
       walk_bind (walk_act (engine_check_cancelled env)) (\<lambda>_.
       case get_node g current of
         None \<Rightarrow> walk_act (act_fail (MissingNode current))
       | Some node \<Rightarrow>
           let node_path = scope @ ''/'' @ current
           in walk_bind (walk_act (emit env (NodeStarted node_path))) (\<lambda>_.
              case node of
                NAgent agent \<Rightarrow>
                  walk_bind (walk_act (run_agent_node env ctl node_path agent st)) (\<lambda>st.
                  walk_bind (walk_act (emit env (NodeCompleted node_path))) (\<lambda>_.
                  execute_graph walks env ctl g stop_before scope (an_next agent) st))
              | NParallel par \<Rightarrow>
                  walk_bind (run_branches
                      (\<lambda>branch. execute_graph walks env ctl g (Some (par_join par)) scope branch (fork_for branch st))
                      env (par_failure_mode par) (par_branches par) [] []) (\<lambda>(successes, failures).
                  let combined = node_result_combine (branch_results (ee_provider_message env) successes failures);
                      st = st\<lparr>bs_results := foldl (\<lambda>results p. results ++ bs_results (snd p)) (bs_results st) successes\<rparr>;
                      st = branch_record node_path combined st
                  in walk_bind (walk_act (emit env (NodeCompleted node_path))) (\<lambda>_.
                     execute_graph walks env ctl g stop_before scope (par_join par)
                       (st\<lparr>bs_handoff := handoff_from_result (bs_handoff st) combined\<rparr>)))
              | NGate gate \<Rightarrow>
                  walk_bind (walk_act (evaluate_with_deadline env ctl (gate_evaluator gate) (last_or_default st))) (\<lambda>evaluation.
                  walk_bind (walk_act (emit env (Evaluated node_path evaluation))) (\<lambda>_.
                  walk_bind (walk_act (emit env (NodeCompleted node_path))) (\<lambda>_.
                  execute_graph walks env ctl g stop_before scope
                    (case evaluation of EvalPass \<Rightarrow> gate_on_pass gate | EvalFail \<Rightarrow> gate_on_fail gate
                       | EvalIndeterminate \<Rightarrow> gate_on_indeterminate gate) st)))
              | NLoop l \<Rightarrow>
                  walk_bind (run_iterations
                      (\<lambda>scope. execute_graph walks env ctl (loop_body l) None scope (graph_entry (loop_body l)))
                      env ctl node_path l (unat (loop_max_iterations l)) 0 st) (\<lambda>(satisfied, st).
                  walk_bind (walk_act (emit env (NodeCompleted node_path))) (\<lambda>_.
                  execute_graph walks env ctl g stop_before scope
                    (if satisfied then loop_on_satisfied l else loop_on_exhausted l) st))
              | NEnd e \<Rightarrow>
                  walk_bind (walk_act (end_node_result env ctl scope st e)) (\<lambda>result.
                  walk_bind (walk_act (emit env (NodeCompleted node_path))) (\<lambda>_.
                  walk_act (act_return (branch_record node_path result st))))))))"

section \<open>Running a blueprint\<close>

definition engine_run ::
    "nat \<Rightarrow> ('j, 'd, 'm, 's, ('d, 'z) agent_world_scheme) engine_env \<Rightarrow> (SchedulerCatalog \<Rightarrow> string + string)
       \<Rightarrow> 'd digests \<Rightarrow> SchedulerCatalog \<Rightarrow> PolicyEnvelope \<Rightarrow> string \<Rightarrow> string ValidatedBlueprint \<Rightarrow> 'm RunRequest
       \<Rightarrow> (('d, 'z) agent_world_scheme, 's EngineError, RunOutcome) walk" where
  "engine_run walks env catalog_fingerprint digests catalog policy harness_policy blueprint request w =
     (let bp = vb_blueprint blueprint;
          g = root_graph bp;
          w0 = w\<lparr>aw_usage := usage_default, aw_surfaces := []\<rparr>
      in case catalog_fingerprint catalog of
           Inl e \<Rightarrow> Some (Inl (CatalogFingerprintFailed e), w0)
         | Inr fingerprint \<Rightarrow>
             let ctl = \<lparr>rc_limits = bp_limits bp,
                   rc_prompt_authority = \<lparr>pa_blueprint_fingerprint = vb_fingerprint blueprint,
                     pa_catalog_fingerprint = fingerprint, pa_catalog = catalog, pa_policy = policy,
                     pa_harness_policy = harness_policy, pa_digests = digests\<rparr>,
                   rc_workspace_root = rq_workspace_root request,
                   rc_workspace_summary = rq_workspace_summary request\<rparr>;
                 st = branch_new (rq_handoff request) (rq_conversation_seed request);
                 w1 = ee_emit env RunStartedEvent w0;
                 message = ee_provider_message env
             in case execute_graph walks env ctl g None ''root'' (graph_entry g) st w1 of
                  None \<Rightarrow> None
                | Some (Inl error, w2) \<Rightarrow>
                    (case ee_finalize env Rollback w2 of
                       (Inl m, w3) \<Rightarrow>
                         let cleanup = CleanupFailed (engine_error_display message error) m
                         in Some (Inl cleanup, ee_emit env (RunFailed (engine_error_display message cleanup)) w3)
                     | (Inr _, w3) \<Rightarrow>
                         Some (Inl error, ee_emit env (RunFailed (engine_error_display message error)) w3))
                | Some (Inr st, w2) \<Rightarrow>
                    (case ee_finalize env Commit w2 of
                       (Inl m, w3) \<Rightarrow>
                         let error = CleanupFailed ''successful execution'' m
                         in Some (Inl error, ee_emit env (RunFailed (engine_error_display message error)) w3)
                     | (Inr _, w3) \<Rightarrow>
                         let usage = aw_usage w3
                         in Some (Inr \<lparr>ro_result = last_or_default st, ro_node_results = bs_results st,
                                ro_usage = usage\<rparr>, ee_emit env (RunCompleted usage) w3)))"

end
