(* ===== verification/Blueprint_Graph.thy ===== *)
theory Blueprint_Graph
  imports Blueprint
begin

text \<open>
  What the graph algorithms of the validator compute: the worklist loops compute reachability, the
  depth-first search accepts exactly the acyclic graphs, and the memoising recursion returns the
  depth of a graph whenever the graph has one.
\<close>

definition edges :: "SchedulerGraph \<Rightarrow> (NodeId \<times> NodeId) set" where
  "edges g = {(a, b). \<exists>node. get_node g a = Some node \<and> b \<in> set (outgoing node)}"

lemma edges_None: "get_node g a = None \<Longrightarrow> edges g `` {a} = {}"
  by (auto simp: edges_def)

lemma edges_Some: "get_node g a = Some node \<Longrightarrow> edges g `` {a} = set (outgoing node)"
  by (auto simp: edges_def)

lemma edges_source: "(a, b) \<in> edges g \<Longrightarrow> a \<in> node_ids g"
  by (auto simp: edges_def get_node_ids)

section \<open>The worklist loops\<close>

lemma closed_rtrancl:
  assumes "r `` V \<subseteq> V \<union> r\<^sup>* `` S" and "a \<in> V" and "(a, b) \<in> r\<^sup>*"
  shows "b \<in> V \<union> r\<^sup>* `` S"
  using assms(3)
proof (induction rule: rtrancl_induct)
  case (step b c)
  then show ?case using assms(1) by (auto intro: rtrancl_into_rtrancl)
qed (use assms(2) in simp)

lemma rtrancl_Image_step: "r\<^sup>* `` {a} = insert a (r\<^sup>* `` (r `` {a}))"
  by (auto intro: converse_rtrancl_into_rtrancl elim: converse_rtranclE)

lemma reach_loop_correct:
  assumes "edges g `` visited \<subseteq> visited \<union> set stack"
  shows "reach_loop g stack visited = visited \<union> (edges g)\<^sup>* `` set stack"
  using assms
proof (induction g stack visited rule: reach_loop.induct)
  case (2 g n stack visited)
  show ?case
  proof (cases "n \<in> visited")
    case True
    then have prem: "edges g `` visited \<subseteq> visited \<union> set stack" using 2(4) by auto
    then have "(edges g)\<^sup>* `` {n} \<subseteq> visited \<union> (edges g)\<^sup>* `` set stack"
      using closed_rtrancl [of "edges g" visited "set stack" n] True by blast
    with 2(1) [OF True prem] True show ?thesis by (auto simp: Image_Un [symmetric])
  next
    case False
    show ?thesis
    proof (cases "get_node g n")
      case None
      then have prem: "edges g `` insert n visited \<subseteq> insert n visited \<union> set stack"
        using 2(4) edges_None [OF None] by auto
      have "(edges g)\<^sup>* `` {n} = {n}"
        using rtrancl_Image_step [of "edges g" n] edges_None [OF None] by simp
      with 2(2) [OF False None prem] False None show ?thesis by auto
    next
      case (Some node)
      then have prem: "edges g `` insert n visited
          \<subseteq> insert n visited \<union> set (rev (outgoing node) @ stack)"
        using 2(4) edges_Some [OF Some] by auto
      have "(edges g)\<^sup>* `` {n} = insert n ((edges g)\<^sup>* `` set (outgoing node))"
        using rtrancl_Image_step [of "edges g" n] edges_Some [OF Some] by simp
      with 2(3) [OF False Some prem] False Some show ?thesis by auto
    qed
  qed
qed simp

lemma reachable_from_correct: "reachable_from g s = {n. (s, n) \<in> (edges g)\<^sup>*}"
  using reach_loop_correct [of g "{}" "[s]"] by (auto simp: reachable_from_def simp del: reach_loop.simps)

lemma path_loop_correct:
  assumes "edges g `` visited \<subseteq> visited \<union> set stack" and "t \<notin> edges g `` visited"
  shows "path_loop g t stack visited \<longleftrightarrow> (\<exists>n\<in>set stack. (n, t) \<in> (edges g)\<^sup>+)"
  using assms
proof (induction g t stack visited rule: path_loop.induct)
  case (1 g t visited)
  then show ?case by simp
next
  case (2 g t n stack visited)
  show ?case
  proof (cases "n \<in> visited")
    case True
    then have prem: "edges g `` visited \<subseteq> visited \<union> set stack" using 2(4) by auto
    have "\<exists>m\<in>set stack. (m, t) \<in> (edges g)\<^sup>+" if nt: "(n, t) \<in> (edges g)\<^sup>+"
    proof -
      from nt obtain m where m: "(n, m) \<in> (edges g)\<^sup>*" "(m, t) \<in> edges g"
        by (meson tranclD2)
      have "m \<in> visited \<union> (edges g)\<^sup>* `` set stack"
        using closed_rtrancl [of "edges g" visited "set stack" n m] prem True m(1) by blast
      then show ?thesis using m(2) 2(5) by (auto intro: rtrancl_into_trancl1)
    qed
    with 2(1) [OF True prem 2(5)] True show ?thesis by auto
  next
    case False
    show ?thesis
    proof (cases "get_node g n")
      case None
      note out = edges_None [OF None]
      have prem: "edges g `` insert n visited \<subseteq> insert n visited \<union> set stack"
        "t \<notin> edges g `` insert n visited" using 2(4,5) out by auto
      have "(n, t) \<notin> (edges g)\<^sup>+" using out by (auto dest: tranclD)
      with 2(2) [OF False None prem] False None show ?thesis by auto
    next
      case (Some node)
      note out = edges_Some [OF Some]
      show ?thesis
      proof (cases "t \<in> set (outgoing node)")
        case True
        then show ?thesis using False Some out by auto
      next
        case nt: False
        have prem: "edges g `` insert n visited
              \<subseteq> insert n visited \<union> set (rev (outgoing node) @ stack)"
          "t \<notin> edges g `` insert n visited" using 2(4,5) out nt by auto
        have "(n, t) \<in> (edges g)\<^sup>+ \<longleftrightarrow> (\<exists>m\<in>set (outgoing node). (m, t) \<in> (edges g)\<^sup>+)"
          using out nt by (metis Image_singleton_iff rtranclD tranclD trancl_into_trancl2)
        with 2(3) [OF False Some prem] False Some nt show ?thesis by auto
      qed
    qed
  qed
qed

lemma path_exists_correct: "path_exists g s t \<longleftrightarrow> (s, t) \<in> (edges g)\<^sup>*"
  using path_loop_correct [of g "{}" "[s]" t]
  by (auto simp: path_exists_def rtrancl_eq_or_trancl simp del: path_loop.simps)

section \<open>Cycle detection\<close>

definition inner_edges :: "SchedulerGraph \<Rightarrow> (NodeId \<times> NodeId) set" where
  "inner_edges g = {(a, b) \<in> edges g. b \<in> node_ids g}"

definition explored :: "SchedulerGraph \<Rightarrow> NodeId set \<Rightarrow> bool" where
  "explored g V \<longleftrightarrow> inner_edges g `` V \<subseteq> V \<and> (\<forall>v\<in>V. (v, v) \<notin> (inner_edges g)\<^sup>+)"

lemma explored_trancl: "explored g V \<Longrightarrow> a \<in> V \<Longrightarrow> (a, b) \<in> (inner_edges g)\<^sup>+ \<Longrightarrow> b \<in> V"
  unfolding explored_def by (metis Image_closed_trancl ImageI trancl_into_rtrancl)

lemma explored_insert:
  assumes "explored g V" and "n \<notin> V" and "inner_edges g `` {n} \<subseteq> V"
  shows "explored g (insert n V)"
proof -
  have "(n, n) \<notin> (inner_edges g)\<^sup>+"
  proof
    assume "(n, n) \<in> (inner_edges g)\<^sup>+"
    then obtain m where "(n, m) \<in> inner_edges g" "(m, n) \<in> (inner_edges g)\<^sup>*" by (meson tranclD)
    then show False
      using assms explored_trancl [OF assms(1)] by (metis Image_singleton_iff rtranclD subsetD)
  qed
  then show ?thesis using assms by (auto simp: explored_def)
qed

lemma visit_sound:
  assumes "visit g scope n visiting visited = Inr visited'"
    and "explored g visited" and "visited \<inter> visiting = {}"
  shows "explored g visited' \<and> visited \<subseteq> visited' \<and> n \<in> visited' \<and> visited' \<inter> visiting = {}"
  using assms
proof (induction g scope n visiting visited arbitrary: visited' rule: visit.induct)
  case (1 g scope n visiting visited)
  show ?case
  proof (cases "n \<in> visited")
    case True
    then show ?thesis using "1.prems" by (simp add: visit.simps [of _ _ n])
  next
    case new: False
    then have idle: "n \<notin> visiting" using "1.prems"(1) by (auto simp: visit.simps [of _ _ n])
    show ?thesis
    proof (cases "get_node g n")
      case None
      then have "inner_edges g `` {n} = {}" using edges_None by (auto simp: inner_edges_def)
      then show ?thesis
        using "1.prems" new idle None explored_insert [of g visited n]
        by (auto simp: visit.simps [of _ _ n])
    next
      case (Some node)
      let ?step = "\<lambda>V t. if t \<in> node_ids g then visit g scope t (insert n visiting) V else Inr V"
      obtain W where W: "res_fold ?step visited (outgoing node) = Inr W"
        and v': "visited' = insert n W"
        using "1.prems"(1) new idle Some by (auto simp: visit.simps [of _ _ n] res_simps)
      have fold: "explored g X' \<and> X \<subseteq> X' \<and> X' \<inter> insert n visiting = {}
          \<and> set ts \<inter> node_ids g \<subseteq> X'"
        if "set ts \<subseteq> set (outgoing node)" "explored g X" "X \<inter> insert n visiting = {}"
          "res_fold ?step X ts = Inr X'" for ts X X'
        using that
      proof (induction ts arbitrary: X)
        case (Cons t ts)
        from Cons.prems(4) obtain Y where Y: "?step X t = Inr Y" and rest: "res_fold ?step Y ts = Inr X'"
          by (auto simp: res_simps)
        have "explored g Y \<and> X \<subseteq> Y \<and> Y \<inter> insert n visiting = {} \<and> (t \<in> node_ids g \<longrightarrow> t \<in> Y)"
        proof (cases "t \<in> node_ids g")
          case True
          then show ?thesis
            using "1.IH" [OF new idle Some _ True, of X Y] Y Cons.prems(1-3) by auto
        next
          case False
          then show ?thesis using Y Cons.prems by auto
        qed
        then show ?case using Cons.IH [of Y] Cons.prems(1) rest by auto
      qed simp
      have "visited \<inter> insert n visiting = {}" using "1.prems"(3) new by auto
      from fold [OF order_refl "1.prems"(2) this W]
      have X: "explored g W" "visited \<subseteq> W" "W \<inter> insert n visiting = {}"
        "set (outgoing node) \<inter> node_ids g \<subseteq> W" by auto
      moreover have "inner_edges g `` {n} \<subseteq> W"
        using X(4) edges_Some [OF Some] by (auto simp: inner_edges_def)
      ultimately show ?thesis
        using explored_insert [of g W n] v' idle by auto
    qed
  qed
qed

lemma visit_complete:
  assumes "acyclic (inner_edges g)" and "\<forall>v\<in>visiting. (v, n) \<in> (inner_edges g)\<^sup>+"
  shows "\<exists>visited'. visit g scope n visiting visited = Inr visited'"
  using assms
proof (induction g scope n visiting visited rule: visit.induct)
  case (1 g scope n visiting visited)
  have idle: "n \<notin> visiting" using "1.prems" by (auto simp: acyclic_def)
  show ?case
  proof (cases "n \<in> visited \<or> get_node g n = None")
    case True
    then show ?thesis using idle by (auto simp: visit.simps [of _ _ n])
  next
    case False
    then obtain node where new: "n \<notin> visited" and node: "get_node g n = Some node" by auto
    let ?step = "\<lambda>V t. if t \<in> node_ids g then visit g scope t (insert n visiting) V else Inr V"
    have step: "\<exists>V'. ?step V t = Inr V'" if "t \<in> set (outgoing node)" for t V
    proof (cases "t \<in> node_ids g")
      case True
      then have "(n, t) \<in> inner_edges g"
        using that edges_Some [OF node] by (auto simp: inner_edges_def)
      then have "\<forall>v\<in>insert n visiting. (v, t) \<in> (inner_edges g)\<^sup>+"
        using "1.prems"(2) by (auto intro: trancl_into_trancl)
      with "1.IH" [OF new idle node that True "1.prems"(1)] True show ?thesis by auto
    qed simp
    have "\<exists>W. res_fold ?step V ts = Inr W" if "set ts \<subseteq> set (outgoing node)" for ts V
      using that
    proof (induction ts arbitrary: V)
      case (Cons t ts)
      then obtain V' where "?step V t = Inr V'" using step [of t V] by auto
      then show ?case using Cons.IH [of V'] Cons.prems by simp
    qed simp
    from this [OF order_refl, of visited] show ?thesis
      using new idle node by (auto simp: visit.simps [of _ _ n])
  qed
qed

lemma reject_cycles_correct: "reject_cycles g scope = Inr () \<longleftrightarrow> acyclic (inner_edges g)"
proof
  assume "reject_cycles g scope = Inr ()"
  then obtain W where W: "res_fold (\<lambda>V n. visit g scope n {} V) {} (map fst (graph_nodes g)) = Inr W"
    by (auto simp: reject_cycles_def res_simps)
  have "explored g X' \<and> X \<subseteq> X' \<and> set ns \<subseteq> X'"
    if "explored g X" "res_fold (\<lambda>V n. visit g scope n {} V) X ns = Inr X'" for ns X X'
    using that
  proof (induction ns arbitrary: X)
    case (Cons n ns)
    then obtain Y where Y: "visit g scope n {} X = Inr Y"
      and rest: "res_fold (\<lambda>V n. visit g scope n {} V) Y ns = Inr X'" by (auto simp: res_simps)
    have "explored g Y \<and> X \<subseteq> Y \<and> n \<in> Y" using visit_sound [OF Y Cons.prems(1)] by auto
    then show ?case using Cons.IH [of Y] rest by auto
  qed simp
  from this [OF _ W] have "explored g W" "node_ids g \<subseteq> W"
    by (auto simp: explored_def node_ids_def)
  then show "acyclic (inner_edges g)"
    unfolding acyclic_def explored_def
    by (metis (no_types, lifting) edges_source inner_edges_def mem_Collect_eq case_prodD
        subsetD tranclD)
next
  assume ac: "acyclic (inner_edges g)"
  have "\<exists>W. res_fold (\<lambda>V n. visit g scope n {} V) X ns = Inr W" for ns X
  proof (induction ns arbitrary: X)
    case (Cons n ns)
    obtain Y where "visit g scope n {} X = Inr Y" using visit_complete [OF ac, of "{}" n] by auto
    then show ?case using Cons.IH [of Y] by simp
  qed simp
  from this [of "{}" "map fst (graph_nodes g)"] show "reject_cycles g scope = Inr ()"
    by (auto simp: reject_cycles_def)
qed

section \<open>Depth\<close>

text \<open>
  The depth of a node: the nodes on the longest path from it, where a loop node also counts the
  depth of its body.
\<close>

inductive has_depth :: "SchedulerGraph \<Rightarrow> NodeId \<Rightarrow> nat \<Rightarrow> bool" where
  missing: "get_node g n = None \<Longrightarrow> has_depth g n 0"
| plain: "get_node g n = Some node \<Longrightarrow> (\<And>l. node \<noteq> NLoop l) \<Longrightarrow>
    list_all2 (has_depth g) (outgoing node) ds \<Longrightarrow> has_depth g n (Suc (foldr max ds 0))"
| looping: "get_node g n = Some (NLoop l) \<Longrightarrow>
    has_depth (loop_body l) (graph_entry (loop_body l)) k \<Longrightarrow>
    list_all2 (has_depth g) (outgoing (NLoop l)) ds \<Longrightarrow> has_depth g n (Suc (k + foldr max ds 0))"

inductive_simps has_depth_iff: "has_depth g n d"

lemma has_depth_None: "get_node g n = None \<Longrightarrow> has_depth g n d \<longleftrightarrow> d = 0"
  by (subst has_depth_iff) auto

lemma has_depth_plain:
  "get_node g n = Some node \<Longrightarrow> (\<And>l. node \<noteq> NLoop l) \<Longrightarrow>
     has_depth g n d \<longleftrightarrow> (\<exists>ds. list_all2 (has_depth g) (outgoing node) ds \<and> d = Suc (foldr max ds 0))"
  by (subst has_depth_iff) auto

lemma has_depth_loop:
  "get_node g n = Some (NLoop l) \<Longrightarrow> has_depth g n d \<longleftrightarrow>
     (\<exists>k ds. has_depth (loop_body l) (graph_entry (loop_body l)) k
        \<and> list_all2 (has_depth g) (outgoing (NLoop l)) ds \<and> d = Suc (k + foldr max ds 0))"
  by (subst has_depth_iff) auto

lemma list_all2_unique:
  assumes "list_all2 (\<lambda>x y. \<forall>z. R x z \<longrightarrow> y = z) xs ys" and "list_all2 R xs zs"
  shows "ys = zs"
  using assms by (induction xs arbitrary: ys zs) (auto simp: list_all2_Cons1)

lemma has_depth_unique: "has_depth g n d \<Longrightarrow> has_depth g n d' \<Longrightarrow> d = d'"
proof (induction arbitrary: d' rule: has_depth.induct)
  case (missing g n)
  from missing show ?case by (simp add: has_depth_None)
next
  case (plain g n node ds)
  from plain(4) obtain ds' where "list_all2 (has_depth g) (outgoing node) ds'"
    and "d' = Suc (foldr max ds' 0)" unfolding has_depth_plain [OF plain(1,2)] by blast
  moreover from this(1) have "ds = ds'"
    by (rule list_all2_unique [rotated]) (use plain(3) in \<open>auto elim: list_all2_mono\<close>)
  ultimately show ?case by simp
next
  case (looping g n l k ds)
  from looping(5) obtain k' ds' where "list_all2 (has_depth g) (outgoing (NLoop l)) ds'"
    and "has_depth (loop_body l) (graph_entry (loop_body l)) k'"
    and "d' = Suc (k' + foldr max ds' 0)" unfolding has_depth_loop [OF looping(1)] by blast
  moreover from this(1) have "ds = ds'"
    by (rule list_all2_unique [rotated]) (use looping(4) in \<open>auto elim: list_all2_mono\<close>)
  moreover have "k = k'" using looping(3) calculation(2) by blast
  ultimately show ?case by simp
qed

text \<open>The graph and the bodies nested in it, at every depth.\<close>

inductive subgraph :: "SchedulerGraph \<Rightarrow> SchedulerGraph \<Rightarrow> bool" for g where
  self: "subgraph g g"
| body: "subgraph g h \<Longrightarrow> (n, NLoop l) \<in> set (graph_nodes h) \<Longrightarrow> subgraph g (loop_body l)"

lemma subgraph_trans: "subgraph h k \<Longrightarrow> subgraph g h \<Longrightarrow> subgraph g k"
  by (induction rule: subgraph.induct) (auto intro: subgraph.intros)

lemma get_node_in: "get_node g n = Some node \<Longrightarrow> (n, node) \<in> set (graph_nodes g)"
  by (auto simp: get_node_def dest: map_of_SomeD)

lemma subgraph_loop_body: "get_node g n = Some (NLoop l) \<Longrightarrow> subgraph (loop_body l) h \<Longrightarrow> subgraph g h"
  by (blast intro: subgraph_trans subgraph.intros get_node_in)

definition all_acyclic :: "SchedulerGraph \<Rightarrow> bool" where
  "all_acyclic g \<longleftrightarrow> (\<forall>h. subgraph g h \<longrightarrow> acyclic (inner_edges h))"

lemma all_acyclic_body: "all_acyclic g \<Longrightarrow> get_node g n = Some (NLoop l) \<Longrightarrow> all_acyclic (loop_body l)"
  by (auto simp: all_acyclic_def intro: subgraph_loop_body)

lemma finite_inner_edges: "finite (inner_edges g)"
  by (rule finite_subset [of _ "node_ids g \<times> node_ids g"])
    (auto simp: inner_edges_def dest: edges_source)

lemma all_acyclic_wf: "all_acyclic g \<Longrightarrow> wf ((inner_edges g)\<inverse>)"
  by (simp add: all_acyclic_def finite_acyclic_wf_converse finite_inner_edges subgraph.self)

lemma list_all2_exists: "(\<And>x. x \<in> set xs \<Longrightarrow> \<exists>y. R x y) \<Longrightarrow> \<exists>ys. list_all2 R xs ys"
proof (induction xs)
  case (Cons x xs)
  then obtain y ys where "R x y" "list_all2 R xs ys" by (meson list.set_intros)
  then show ?case by blast
qed blast

lemma has_depth_exists: "all_acyclic g \<Longrightarrow> \<exists>d. has_depth g n d"
proof (induction "size g" arbitrary: g n rule: less_induct)
  case less
  have "wf ((inner_edges g)\<inverse>)" using less.prems by (rule all_acyclic_wf)
  then show ?case
  proof (induction n rule: wf_induct_rule)
    case (less n)
    show ?case
    proof (cases "get_node g n")
      case None
      then show ?thesis by (blast intro: has_depth.missing)
    next
      case (Some node)
      have "\<exists>d. has_depth g t d" if t: "t \<in> set (outgoing node)" for t
      proof (cases "t \<in> node_ids g")
        case True
        then have "(n, t) \<in> inner_edges g" using t edges_Some [OF Some] by (auto simp: inner_edges_def)
        then show ?thesis using less by blast
      next
        case False
        then show ?thesis by (metis get_node_ids has_depth.missing option.exhaust)
      qed
      then obtain ds where ds: "list_all2 (has_depth g) (outgoing node) ds"
        using list_all2_exists [of "outgoing node" "has_depth g"] by blast
      show ?thesis
      proof (cases "\<exists>l. node = NLoop l")
        case True
        then obtain l where l: "node = NLoop l" by blast
        obtain k where "has_depth (loop_body l) (graph_entry (loop_body l)) k"
          using \<open>\<And>g' n. size g' < size g \<Longrightarrow> all_acyclic g' \<Longrightarrow> \<exists>d. has_depth g' n d\<close>
            size_loop_body Some all_acyclic_body \<open>all_acyclic g\<close> l by blast
        then show ?thesis using Some ds l by (blast intro: has_depth.looping)
      next
        case False
        then show ?thesis using Some ds by (blast intro: has_depth.plain)
      qed
    qed
  qed
qed

text \<open>The depth recursion never has more frames than there are descendants.\<close>

definition descendants :: "SchedulerGraph \<Rightarrow> NodeId \<Rightarrow> NodeId set" where
  "descendants g n = {m \<in> node_ids g. (n, m) \<in> (inner_edges g)\<^sup>*}"

lemma card_descendants_step:
  assumes "acyclic (inner_edges g)" and "get_node g n = Some node" and "t \<in> set (outgoing node)"
    and "card (descendants g n) \<le> Suc frames"
  shows "card (descendants g t) \<le> frames"
proof (cases "t \<in> node_ids g")
  case True
  then have nt: "(n, t) \<in> inner_edges g"
    using assms(3) edges_Some [OF assms(2)] by (auto simp: inner_edges_def)
  have "n \<notin> descendants g t"
    using assms(1) nt by (auto simp: descendants_def acyclic_def dest: rtrancl_into_trancl2)
  moreover have "descendants g t \<subseteq> descendants g n"
    using nt by (auto simp: descendants_def intro: converse_rtrancl_into_rtrancl)
  moreover have "n \<in> descendants g n" using assms(2) by (auto simp: descendants_def get_node_ids)
  ultimately have "descendants g t \<subset> descendants g n" by blast
  then have "card (descendants g t) < card (descendants g n)"
    by (rule psubset_card_mono [rotated]) (simp add: descendants_def)
  then show ?thesis using assms(4) by simp
next
  case False
  have "(a, b) \<in> (inner_edges g)\<^sup>* \<Longrightarrow> b \<in> node_ids g \<Longrightarrow> a \<in> node_ids g" for a b
    by (auto simp: inner_edges_def elim: converse_rtranclE dest: edges_source)
  then have "descendants g t = {}" using False by (auto simp: descendants_def)
  then show ?thesis by simp
qed

lemma card_descendants_length: "card (descendants g n) \<le> length (graph_nodes g)"
proof -
  have "card (descendants g n) \<le> card (node_ids g)"
    by (rule card_mono) (auto simp: descendants_def)
  also have "\<dots> \<le> length (graph_nodes g)"
    using card_length [of "map fst (graph_nodes g)"] by (simp add: node_ids_def)
  finally show ?thesis .
qed

lemma depth_visit_frames:
  assumes "all_acyclic g" and "card (descendants g n) \<le> frames"
  shows "\<exists>r. depth_visit g frames n memo = Some r"
  using assms
proof (induction g frames n memo rule: depth_visit.induct)
  case (1 g frames n memo)
  show ?case
  proof (cases "memo n = None \<and> get_node g n \<noteq> None")
    case False
    then show ?thesis by (auto simp: depth_visit.simps [of g frames n] split: option.split)
  next
    case True
    then obtain node where memo: "memo n = None" and node: "get_node g n = Some node" by auto
    have ac: "acyclic (inner_edges g)" using 1(3) by (simp add: all_acyclic_def subgraph.self)
    have "descendants g n \<noteq> {}" using node by (auto simp: descendants_def get_node_ids)
    then have "card (descendants g n) \<noteq> 0" by (simp add: descendants_def)
    then obtain frames' where frames: "frames = Suc frames'" using 1(4) by (cases frames) auto
    have body: "\<exists>r. depth_visit (loop_body l) (length (graph_nodes (loop_body l)))
        (graph_entry (loop_body l)) Map.empty = Some r" if "node = NLoop l" for l
      using 1(1) [OF memo node frames that] all_acyclic_body [OF 1(3)] node that
        card_descendants_length by blast
    define nested where "nested = (case node of NLoop l \<Rightarrow> map_option fst
        (depth_visit (loop_body l) (length (graph_nodes (loop_body l))) (graph_entry (loop_body l)) Map.empty)
      | _ \<Rightarrow> Some 0)"
    have "nested \<noteq> None" using body by (auto simp: nested_def split: NodeSpec.split)
    then obtain k where k: "nested = Some k" by auto
    let ?step = "\<lambda>(s, memo) t. map_option (\<lambda>(d, memo). (max s d, memo)) (depth_visit g frames' t memo)"
    have "\<exists>r. opt_fold ?step (0, memo) (outgoing node) = Some r \<and> True"
    proof (rule opt_fold_invariant)
      fix s :: "u32 \<times> (NodeId \<rightharpoonup> u32)" and t assume t: "t \<in> set (outgoing node)"
      obtain m memo' where s: "s = (m, memo')" by (cases s)
      have "\<exists>r. depth_visit g frames' t memo' = Some r"
        using 1(2) [OF memo node frames k [unfolded nested_def] t s [symmetric]] 1(3)
          card_descendants_step [OF ac node t] 1(4) frames by blast
      then show "\<exists>s'. ?step s t = Some s' \<and> True" by (auto simp: s)
    qed simp
    then obtain s memo' where "opt_fold ?step (0, memo) (outgoing node) = Some (s, memo')" by auto
    then show ?thesis
      using memo node frames k unfolding nested_def
      by (simp add: depth_visit.simps [of g "Suc frames'" n] Let_def)
  qed
qed

lemma graph_depth_returns: "all_acyclic g \<Longrightarrow> \<exists>d. graph_depth g = Some d"
  using depth_visit_frames [OF _ card_descendants_length] by (fastforce simp: graph_depth_def)

text \<open>Below the range of the counter the depth that is returned is the depth.\<close>

definition memo_ok :: "SchedulerGraph \<Rightarrow> (NodeId \<rightharpoonup> u32) \<Rightarrow> bool" where
  "memo_ok g memo \<longleftrightarrow> (\<forall>m d. memo m = Some d \<longrightarrow> (\<exists>j. has_depth g m j \<and> j < 2 ^ 32 \<and> d = of_nat j))"

lemma max_of_nat_u32: "a < 2 ^ 32 \<Longrightarrow> b < 2 ^ 32 \<Longrightarrow> max (of_nat a) (of_nat b :: u32) = of_nat (max a b)"
  by (auto simp: max_def word_le_nat_alt unat_of_nat)

lemma foldr_max_le: "d \<in> set ds \<Longrightarrow> d \<le> foldr max ds (0 :: nat)"
  by (induction ds) (auto simp: max_def)

lemma depth_fold_exact:
  assumes "list_all2 (has_depth g) ts ds" and "\<forall>d\<in>set ds. d < 2 ^ 32"
    and "\<And>t d memo d' memo'. t \<in> set ts \<Longrightarrow> has_depth g t d \<Longrightarrow> d < 2 ^ 32 \<Longrightarrow> memo_ok g memo \<Longrightarrow>
      visit_one t memo = Some (d', memo') \<Longrightarrow> d' = of_nat d \<and> memo_ok g memo'"
    and "opt_fold (\<lambda>(s, memo) t. map_option (\<lambda>(d, memo). (max s d, memo)) (visit_one t memo))
      (of_nat a, memo) ts = Some (s', memo')"
    and "memo_ok g memo" and "a < 2 ^ 32"
  shows "s' = (of_nat (max a (foldr max ds 0)) :: u32) \<and> memo_ok g memo'"
  using assms
proof (induction ts arbitrary: ds a memo)
  case (Cons t ts)
  then obtain d ds' where ds: "ds = d # ds'" and d: "has_depth g t d" and rest: "list_all2 (has_depth g) ts ds'"
    by (auto simp: list_all2_Cons1)
  obtain d1 memo1 where v: "visit_one t memo = Some (d1, memo1)"
    using Cons.prems(4) by (cases "visit_one t memo") auto
  have v1: "d1 = of_nat d \<and> memo_ok g memo1"
    using Cons.prems(3) [OF _ d _ Cons.prems(5) v] Cons.prems(2) ds by simp
  have less: "max a d < 2 ^ 32" using Cons.prems(2,6) ds by auto
  have step: "t' \<in> set ts \<Longrightarrow> has_depth g t' e \<Longrightarrow> e < 2 ^ 32 \<Longrightarrow> memo_ok g m \<Longrightarrow>
      visit_one t' m = Some (e', m') \<Longrightarrow> e' = of_nat e \<and> memo_ok g m'" for t' e m e' m'
    using Cons.prems(3) [of t' e m e' m'] by simp
  have "opt_fold (\<lambda>(s, memo) t. map_option (\<lambda>(d, memo). (max s d, memo)) (visit_one t memo))
      (of_nat (max a d), memo1) ts = Some (s', memo')"
    using Cons.prems(2,4,6) v v1 ds by (simp add: max_of_nat_u32)
  from Cons.IH [OF rest _ step this _ less] v1 Cons.prems(2) ds
  have "s' = of_nat (max (max a d) (foldr max ds' 0)) \<and> memo_ok g memo'" by auto
  then show ?case by (simp add: ds max.assoc)
qed auto

lemma depth_visit_exact:
  assumes "has_depth g n k" and "k < 2 ^ 32" and "memo_ok g memo"
    and "depth_visit g frames n memo = Some (d, memo')"
  shows "d = of_nat k \<and> memo_ok g memo'"
  using assms
proof (induction g frames n memo arbitrary: k d memo' rule: depth_visit.induct)
  case (1 g frames n memo)
  show ?case
  proof (cases "memo n")
    case (Some d')
    then have "d = d' \<and> memo' = memo" using 1(6) by (simp add: depth_visit.simps [of g frames n])
    moreover obtain j where "has_depth g n j" "d' = of_nat j"
      using Some 1(5) by (auto simp: memo_ok_def)
    ultimately show ?thesis using has_depth_unique [OF 1(3)] 1(5) by blast
  next
    case memo: None
    show ?thesis
    proof (cases "get_node g n")
      case None
      then show ?thesis
        using memo 1(3,5,6) by (simp add: depth_visit.simps [of g frames n] has_depth_None)
    next
      case (Some node)
      obtain frames' where frames: "frames = Suc frames'"
        using memo Some 1(6) by (cases frames) (auto simp: depth_visit.simps [of g 0 n])
      define nested where "nested = (case node of NLoop l \<Rightarrow> map_option fst
          (depth_visit (loop_body l) (length (graph_nodes (loop_body l))) (graph_entry (loop_body l)) Map.empty)
        | _ \<Rightarrow> Some 0)"
      let ?step = "\<lambda>(s, memo) t. map_option (\<lambda>(d, memo). (max s d, memo)) (depth_visit g frames' t memo)"
      from 1(6) memo Some frames obtain b s memo1 where b: "nested = Some b"
        and fold: "opt_fold ?step (0, memo) (outgoing node) = Some (s, memo1)"
        and res: "d = 1 + b + s" "memo' = memo1(n \<mapsto> d)"
        by (auto simp: depth_visit.simps [of g "Suc frames'" n] nested_def [symmetric] Let_def
            split: option.splits)
      obtain j ds where ds: "list_all2 (has_depth g) (outgoing node) ds"
        and k: "k = Suc (j + foldr max ds 0)" and j: "b = of_nat j"
      proof (cases "\<exists>l. node = NLoop l")
        case True
        then obtain l where l: "node = NLoop l" by blast
        with 1(3) Some obtain j ds where
          *: "has_depth (loop_body l) (graph_entry (loop_body l)) j"
            "list_all2 (has_depth g) (outgoing node) ds" "k = Suc (j + foldr max ds 0)"
          by (auto simp: has_depth_loop)
        obtain memo2 where "depth_visit (loop_body l) (length (graph_nodes (loop_body l)))
            (graph_entry (loop_body l)) Map.empty = Some (b, memo2)"
          using b l by (auto simp: nested_def)
        with 1(1) [OF memo Some frames l *(1)] *(3) 1(4) have "b = of_nat j"
          by (auto simp: memo_ok_def)
        with * that show ?thesis by blast
      next
        case False
        with 1(3) Some obtain ds where "list_all2 (has_depth g) (outgoing node) ds"
          "k = Suc (foldr max ds 0)" by (auto simp: has_depth_plain)
        moreover have "b = of_nat 0" using b False by (auto simp: nested_def split: NodeSpec.splits)
        ultimately show ?thesis using that [of ds 0] by simp
      qed
      have small: "\<forall>d\<in>set ds. d < 2 ^ 32"
        using foldr_max_le [of _ ds] 1(4) k by fastforce
      have ih: "d' = of_nat e \<and> memo_ok g m'"
        if "t \<in> set (outgoing node)" "has_depth g t e" "e < 2 ^ 32" "memo_ok g m"
          "depth_visit g frames' t m = Some (d', m')" for t e m d' m'
        using 1(2) [OF memo Some frames b [unfolded nested_def] that(1) refl that(2-5)] .
      have "s = of_nat (max 0 (foldr max ds 0)) \<and> memo_ok g memo1"
        by (rule depth_fold_exact [OF ds small ih _ 1(5), where a = 0]) (use fold in auto)
      moreover from this have "d = of_nat k" using res(1) j k by simp
      ultimately show ?thesis using res(2) 1(3,4) by (auto simp: memo_ok_def)
    qed
  qed
qed

lemma graph_depth_exact:
  assumes "all_acyclic g" and "has_depth g (graph_entry g) k" and "k < 2 ^ 32"
  shows "graph_depth g = Some (of_nat k)"
proof -
  obtain d memo where "depth_visit g (length (graph_nodes g)) (graph_entry g) Map.empty = Some (d, memo)"
    using depth_visit_frames [OF assms(1) card_descendants_length, of "graph_entry g" Map.empty] by auto
  moreover from depth_visit_exact [OF assms(2,3) _ this] have "d = of_nat k"
    by (simp add: memo_ok_def)
  ultimately show ?thesis by (simp add: graph_depth_def)
qed

end
