(* ===== verification/Blueprint_Properties.thy ===== *)
theory Blueprint_Properties
  imports Blueprint_Graph
begin

text \<open>
  What acceptance by the validator means for the graph and for the bodies nested in it. The locale
  \<open>accepted_graphs\<close> is the contract the execution engine relies on.
\<close>

section \<open>The contract of an accepted graph\<close>

locale accepted_graphs =
  fixes accepts :: "SchedulerGraph \<Rightarrow> bool"
  assumes entry_exists: "accepts g \<Longrightarrow> graph_entry g \<in> node_ids g"
    and target_exists: "accepts g \<Longrightarrow> (a, b) \<in> edges g \<Longrightarrow> b \<in> node_ids g"
    and no_cycle: "accepts g \<Longrightarrow> acyclic (inner_edges g)"
    and body_accepted: "accepts g \<Longrightarrow> (n, NLoop l) \<in> set (graph_nodes g) \<Longrightarrow> accepts (loop_body l)"
begin

lemma edges_inner: "accepts g \<Longrightarrow> inner_edges g = edges g"
  using target_exists by (auto simp: inner_edges_def)

lemma accepts_subgraph: "subgraph g h \<Longrightarrow> accepts g \<Longrightarrow> accepts h"
  by (induction rule: subgraph.induct) (auto intro: body_accepted)

lemma accepts_all_acyclic: "accepts g \<Longrightarrow> all_acyclic g"
  by (auto simp: all_acyclic_def dest: accepts_subgraph no_cycle)

lemma accepts_depth: "accepts g \<Longrightarrow> \<exists>d. has_depth g n d"
  by (rule has_depth_exists [OF accepts_all_acyclic])

lemma accepts_graph_depth: "accepts g \<Longrightarrow> \<exists>d. graph_depth g = Some d"
  by (rule graph_depth_returns [OF accepts_all_acyclic])

text \<open>Every node leads to an end node.\<close>

lemma reaches_end:
  assumes "accepts g" and "n \<in> node_ids g"
  shows "\<exists>m e. (n, m) \<in> (edges g)\<^sup>* \<and> get_node g m = Some (NEnd e)"
proof -
  have "wf ((edges g)\<inverse>)"
    using all_acyclic_wf [OF accepts_all_acyclic [OF assms(1)]] edges_inner [OF assms(1)] by simp
  then show ?thesis using assms(2)
  proof (induction n rule: wf_induct_rule)
    case (less n)
    then obtain node where node: "get_node g n = Some node" by (auto simp: get_node_ids)
    show ?case
    proof (cases "outgoing node")
      case Nil
      then have "\<exists>e. node = NEnd e" by (cases node) auto
      then show ?thesis using node by blast
    next
      case (Cons t ts)
      then have nt: "(n, t) \<in> edges g" using node by (auto simp: edges_def)
      with less(1) [of t] target_exists [OF assms(1) nt]
      obtain m e where "(t, m) \<in> (edges g)\<^sup>*" "get_node g m = Some (NEnd e)" by auto
      with nt show ?thesis by (blast intro: converse_rtrancl_into_rtrancl)
    qed
  qed
qed

end

section \<open>The validator keeps the contract\<close>

definition graph_accepted ::
    "ExecutionLimits \<Rightarrow> SchedulerCatalog \<Rightarrow> PolicyEnvelope \<Rightarrow> SchedulerGraph \<Rightarrow> bool" where
  "graph_accepted limits catalog policy g \<longleftrightarrow>
     (\<exists>scope. validate_graph limits catalog policy g scope = Inr ())"

lemma validate_graphD:
  assumes "validate_graph limits catalog policy g scope = Inr ()"
  shows "graph_entry g \<in> node_ids g"
    and "(n, node) \<in> set (graph_nodes g) \<Longrightarrow>
      validate_node limits catalog policy g scope n node = Inr ()"
    and "(n, node) \<in> set (graph_nodes g) \<Longrightarrow> t \<in> set (outgoing node) \<Longrightarrow> t \<in> node_ids g"
    and "acyclic (inner_edges g)"
  using assms by (cases g; force simp: res_simps reject_cycles_correct)+

lemma validate_graph_reachable:
  assumes "validate_graph limits catalog policy g scope = Inr ()" and "n \<in> node_ids g"
  shows "(graph_entry g, n) \<in> (edges g)\<^sup>*"
  using assms by (cases g) (force simp: res_simps node_ids_def reachable_from_correct)

lemma accepted_body:
  assumes "graph_accepted limits catalog policy g" and "(n, NLoop l) \<in> set (graph_nodes g)"
  shows "graph_accepted limits catalog policy (loop_body l)"
proof -
  from assms(1) obtain scope where "validate_graph limits catalog policy g scope = Inr ()"
    by (auto simp: graph_accepted_def)
  from validate_graphD(2) [OF this assms(2)] show ?thesis
    by (auto simp: graph_accepted_def Let_def res_simps)
qed

interpretation validated: accepted_graphs "graph_accepted limits catalog policy"
proof
  fix g a b assume "graph_accepted limits catalog policy g"
  then obtain scope where v: "validate_graph limits catalog policy g scope = Inr ()"
    by (auto simp: graph_accepted_def)
  show "graph_entry g \<in> node_ids g" by (rule validate_graphD(1) [OF v])
  show "acyclic (inner_edges g)" by (rule validate_graphD(4) [OF v])
  show "b \<in> node_ids g" if "(a, b) \<in> edges g"
    using that validate_graphD(3) [OF v] by (auto simp: edges_def dest: get_node_in)
qed (rule accepted_body)

lemma validate_blueprintD:
  assumes "validate_blueprint bp catalog policy = Some (Inr ())"
  shows "graph_accepted (bp_limits bp) catalog policy (root_graph bp)"
    and "validate_limits (bp_limits bp) = Inr ()"
    and "compare_limits (bp_limits bp) (pol_hard_limits policy) = Inr ()"
    and "recursive_node_count (root_graph bp) \<le> max_graph_nodes (bp_limits bp)"
    and "\<exists>d. graph_depth (root_graph bp) = Some d \<and> d \<le> max_graph_depth (bp_limits bp)"
  using assms
  by (auto simp: validate_blueprint_def Let_def res_simps graph_accepted_def split: sum.splits)

lemma validate_blueprint_answers: "\<exists>r. validate_blueprint bp catalog policy = Some r"
proof (cases "graph_accepted (bp_limits bp) catalog policy (root_graph bp)")
  case True
  from validated.accepts_graph_depth [OF this] show ?thesis
    by (auto simp: validate_blueprint_def Let_def split: sum.split)
next
  case False
  then have "validate_graph (bp_limits bp) catalog policy (root_graph bp) ''root'' \<noteq> Inr ()"
    by (auto simp: graph_accepted_def)
  then show ?thesis
    by (auto simp: validate_blueprint_def Let_def res_simps split: sum.split)
qed

section \<open>Properties\<close>

text \<open>
  \<^bold>\<open>Note.\<close> Validation always comes to an answer: the depth of the graph, which is computed by a
  recursion without a guard of its own, is only asked for once the graph and all bodies nested in it
  are known to be free of cycles.
\<close>

theorem validation_terminates: "\<exists>r. validate_blueprint bp catalog policy = Some r"
  by (rule validate_blueprint_answers)

text \<open>
  \<^bold>\<open>Note.\<close> Cycle detection is exact: the depth-first search accepts a graph if and only if no node
  reaches itself along edges between nodes of the graph.
\<close>

theorem cycle_check_exact: "is_ok (reject_cycles g scope) \<longleftrightarrow> acyclic (inner_edges g)"
  by (simp add: is_ok_iff reject_cycles_correct)

text \<open>
  \<^bold>\<open>C37.\<close> The shape of a validated blueprint. In its graph and in every loop body nested in it the
  entry exists, every edge leads to a node, no node reaches itself, every node is reached from the
  entry and reaches an end node.
\<close>

theorem validated_graphs_well_formed:
  assumes "validate_blueprint bp catalog policy = Some (Inr ())" and "subgraph (root_graph bp) g"
  shows "graph_entry g \<in> node_ids g
    \<and> (\<forall>n node t. get_node g n = Some node \<and> t \<in> set (outgoing node) \<longrightarrow> t \<in> node_ids g)
    \<and> acyclic (edges g)
    \<and> (\<forall>n\<in>node_ids g. (graph_entry g, n) \<in> (edges g)\<^sup>*
         \<and> (\<exists>m e. (n, m) \<in> (edges g)\<^sup>* \<and> get_node g m = Some (NEnd e)))"
proof -
  have acc: "graph_accepted (bp_limits bp) catalog policy g"
    using validated.accepts_subgraph assms validate_blueprintD(1) by blast
  then obtain scope where v: "validate_graph (bp_limits bp) catalog policy g scope = Inr ()"
    by (auto simp: graph_accepted_def)
  show ?thesis
    using validated.entry_exists [OF acc] validated.target_exists [OF acc] validated.no_cycle [OF acc]
      validated.edges_inner [OF acc] validated.reaches_end [OF acc] validate_graph_reachable [OF v]
    by (auto simp: edges_def)
qed

lemma unat_ucast_u64: "unat (ucast (a :: u32) :: u64) = unat a"
proof -
  have "unat a < 2 ^ 64" using unsigned_less [of a, where 'a = nat] by simp
  then show ?thesis by (simp add: unsigned_ucast_eq take_bit_nat_eq_self)
qed

lemma ucast_le_u64: "(ucast (a :: u32) :: u64) \<le> ucast (b :: u32) \<longleftrightarrow> a \<le> b"
  by (simp add: word_le_nat_alt unat_ucast_u64)

lemma compare_limits_steps:
  assumes "compare_limits l m = Inr ()"
  shows "max_agent_steps l \<le> max_agent_steps m" and "max_graph_depth l \<le> max_graph_depth m"
    and "max_loop_iterations l \<le> max_loop_iterations m"
  using assms
  by (auto simp: compare_limits_def limit_values_def res_simps ucast_le_u64)

text \<open>
  \<^bold>\<open>C15.\<close> Every agent of a validated blueprint, however deep it is nested, stays within the policy:
  it is in the catalog, takes at least one step and at most what its catalog entry and the hard
  limits of the policy allow, and each of its tools is in the catalog, exposed by the agent and
  allowed by the policy together with its effect.
\<close>

theorem validated_agents_within_policy:
  assumes "validate_blueprint bp catalog policy = Some (Inr ())" and "subgraph (root_graph bp) g"
    and "(n, NAgent a) \<in> set (graph_nodes g)"
  shows "\<exists>agent. map_of (cat_agents catalog) (an_agent a) = Some agent
    \<and> an_max_steps a \<noteq> 0 \<and> an_max_steps a \<le> ac_max_steps agent
    \<and> an_max_steps a \<le> max_agent_steps (pol_hard_limits policy)
    \<and> (\<forall>tool\<in>set (an_tools a).
         tool \<in> set (ac_available_tools agent) \<and> tool \<in> set (pol_allowed_tools policy)
         \<and> (\<exists>entry. map_of (cat_tools catalog) tool = Some entry
               \<and> tc_effect entry \<in> set (pol_allowed_effects policy)))"
proof -
  have "graph_accepted (bp_limits bp) catalog policy g"
    using validated.accepts_subgraph assms(1,2) validate_blueprintD(1) by blast
  then obtain scope where "validate_graph (bp_limits bp) catalog policy g scope = Inr ()"
    by (auto simp: graph_accepted_def)
  from validate_graphD(2) [OF this assms(3)]
  have "validate_agent_node (bp_limits bp) catalog policy (scope @ ''/'' @ n) a = Inr ()" by simp
  moreover have "max_agent_steps (bp_limits bp) \<le> max_agent_steps (pol_hard_limits policy)"
    by (rule compare_limits_steps(1) [OF validate_blueprintD(3) [OF assms(1)]])
  ultimately show ?thesis
    by (fastforce simp: validate_agent_node_def validate_agent_tool_def Let_def res_simps
        split: option.splits)
qed

text \<open>
  \<^bold>\<open>Note.\<close> The depth the validator compares with the limit is the depth of the blueprint: the number of
  nodes on its longest path, counting for each loop node the depth of its body, is at most the limit
  of the blueprint, which is at most the hard limit, as long as it fits the 32-bit counter.
\<close>

theorem validated_depth_within_limit:
  assumes "validate_blueprint bp catalog policy = Some (Inr ())"
    and "has_depth (root_graph bp) (bp_entry bp) k" and "k < 2 ^ 32"
  shows "k \<le> unat (max_graph_depth (bp_limits bp))
    \<and> k \<le> unat (max_graph_depth (pol_hard_limits policy))"
proof -
  have "all_acyclic (root_graph bp)"
    using validated.accepts_all_acyclic [OF validate_blueprintD(1) [OF assms(1)]] .
  then have "graph_depth (root_graph bp) = Some (of_nat k)"
    using graph_depth_exact assms(2,3) by (simp add: root_graph_def)
  then have "of_nat k \<le> max_graph_depth (bp_limits bp)"
    using validate_blueprintD(5) [OF assms(1)] by auto
  moreover have "unat (of_nat k :: u32) = k" using assms(3) by (simp add: unat_of_nat)
  moreover have "max_graph_depth (bp_limits bp) \<le> max_graph_depth (pol_hard_limits policy)"
    by (rule compare_limits_steps(2) [OF validate_blueprintD(3) [OF assms(1)]])
  ultimately show ?thesis by (metis order_trans word_le_nat_alt)
qed

section \<open>A concrete blueprint\<close>

definition example_limits :: ExecutionLimits where
  "example_limits = \<lparr>max_model_calls = 8, max_tool_calls = 8, max_total_tokens = 1000,
     max_wall_time_ms = 1000, max_parallelism = 2, max_graph_nodes = 8, max_graph_depth = 8,
     max_loop_iterations = 3, max_agent_steps = 4\<rparr>"

definition example_agent :: "NodeId \<Rightarrow> AgentNode" where
  "example_agent next_node = \<lparr>an_agent = ''build'', an_skills = [], an_tools = [''read''],
     an_required_model_capabilities = [], an_max_steps = 2, an_next = next_node\<rparr>"

definition example_end :: NodeSpec where
  "example_end = NEnd \<lparr>end_result = LastNode\<rparr>"

definition example_body :: SchedulerGraph where
  "example_body = SchedulerGraph ''try''
     [(''stop'', example_end), (''try'', NAgent (example_agent ''stop''))]"

definition example_blueprint :: SchedulerBlueprint where
  "example_blueprint = \<lparr>bp_schema = V1, bp_name = ''example'', bp_entry = ''research'',
     bp_nodes = [(''done'', example_end),
       (''research'', NLoop (LoopNode example_body ''judge'' 3 None ''done'' ''done''))],
     bp_limits = example_limits,
     bp_output = \<lparr>out_format = TextOutput, out_include_usage = False, out_include_artifact_refs = False\<rparr>\<rparr>"

definition example_catalog :: SchedulerCatalog where
  "example_catalog = \<lparr>cat_revision = ''r1'',
     cat_agents = [(''build'', \<lparr>ac_id = ''build'', ac_system_policy = [], ac_max_steps = 4,
       ac_available_skills = [], ac_available_tools = [''read''], ac_model_capabilities = []\<rparr>)],
     cat_skills = [], cat_tools = [(''read'', \<lparr>tc_id = ''read'', tc_effect = ReadOnly, tc_permission = Automatic\<rparr>)],
     cat_evaluators = [(''judge'', \<lparr>ev_id = ''judge'', ev_kind = ModelJudge\<rparr>)], cat_capabilities = []\<rparr>"

lemma example_validates:
  "validate_blueprint example_blueprint example_catalog (allow_catalog example_limits example_catalog)
     = Some (Inr ())"
  by code_simp

lemma example_body_in: "subgraph (root_graph example_blueprint) example_body"
  using subgraph.body [OF subgraph.self, of "''research''"
      "LoopNode example_body ''judge'' 3 None ''done'' ''done''"]
  by (simp add: root_graph_def example_blueprint_def)

theorem validated_graphs_well_formed_witness:
  "graph_entry example_body \<in> node_ids example_body
   \<and> (\<exists>m e. (graph_entry example_body, m) \<in> (edges example_body)\<^sup>*
        \<and> get_node example_body m = Some (NEnd e))"
  using validated_graphs_well_formed [OF example_validates example_body_in] by blast

theorem validated_agents_within_policy_witness:
  "(2 :: u32) \<le> max_agent_steps (pol_hard_limits (allow_catalog example_limits example_catalog))"
  using validated_agents_within_policy [OF example_validates example_body_in, of "''try''"
      "example_agent ''stop''"]
  by (auto simp: example_body_def example_agent_def)

lemma example_depth: "has_depth (root_graph example_blueprint) (bp_entry example_blueprint) 4"
proof -
  have stop: "has_depth example_body ''stop'' 1"
    using has_depth.plain [of example_body "''stop''" example_end "[]"]
    by (simp add: get_node_def example_body_def example_end_def)
  have body: "has_depth example_body ''try'' 2"
    using has_depth.plain [of example_body "''try''" "NAgent (example_agent ''stop'')" "[1]"] stop
    by (simp add: get_node_def example_body_def example_agent_def numeral_2_eq_2)
  have fin: "has_depth (root_graph example_blueprint) ''done'' 1"
    using has_depth.plain [of "root_graph example_blueprint" "''done''" example_end "[]"]
    by (simp add: get_node_def root_graph_def example_blueprint_def example_end_def)
  show ?thesis
    using has_depth.looping [of "root_graph example_blueprint" "''research''"
        "LoopNode example_body ''judge'' 3 None ''done'' ''done''" 2 "[1, 1]"] body fin
    by (simp add: get_node_def root_graph_def example_blueprint_def example_body_def numeral_eq_Suc)
qed

theorem validated_depth_within_limit_witness:
  "4 \<le> unat (max_graph_depth (bp_limits example_blueprint))"
  using validated_depth_within_limit [OF example_validates example_depth] by simp

end
