(* ===== verification/Agent_Loop_Properties.thy ===== *)
theory Agent_Loop_Properties
  imports Agent_Loop
begin

text \<open>
  Properties of the agent loop: the shared budget is never overdrawn whatever the branches of a run
  do, a finished conversation answers every tool call it made, and a tool the node does not declare
  is never executed.
\<close>

section \<open>The shared budget\<close>

datatype budget_op = ReserveModel | ReserveTool | RecordTokens Usage

text \<open>
  The mutex around the counters makes each budget operation atomic, so whatever the branches of a
  run do amounts to a sequence of operations, each at its own point of time. The run counts the
  reservations that were granted.
\<close>

fun budget_step :: "ExecutionLimits \<Rightarrow> nat \<Rightarrow> budget_op \<Rightarrow> Usage \<Rightarrow> (unit AgentLoopError + unit) \<times> Usage" where
  "budget_step limits elapsed ReserveModel u = reserve_model_call limits elapsed u"
| "budget_step limits elapsed ReserveTool u = reserve_tool_call limits elapsed u"
| "budget_step limits elapsed (RecordTokens t) u = record_tokens limits elapsed t u"

fun budget_run :: "ExecutionLimits \<Rightarrow> (nat \<times> budget_op) list \<Rightarrow> Usage \<Rightarrow> nat \<times> nat \<times> Usage" where
  "budget_run limits [] u = (0, 0, u)"
| "budget_run limits ((elapsed, x) # xs) u =
     (case budget_step limits elapsed x u of (r, u1) \<Rightarrow>
        case budget_run limits xs u1 of (models, tools, u2) \<Rightarrow>
          ((if is_ok r \<and> x = ReserveModel then Suc models else models),
           (if is_ok r \<and> x = ReserveTool then Suc tools else tools), u2))"

lemma unat_succ_u32: "(a :: u32) < b \<Longrightarrow> unat (a + 1) = Suc (unat a)"
  using unsigned_less [of b, where 'a = nat] by (simp add: word_less_nat_alt unat_word_ariths)

lemmas budget_op_defs = reserve_model_call_def reserve_tool_call_def record_tokens_def
  budget_update_def add_tokens_def Let_def is_ok_def not_le

lemma budget_step_counts:
  assumes "budget_step limits elapsed x u = (r, u1)"
  shows "unat (us_model_calls u1) = unat (us_model_calls u) + (if is_ok r \<and> x = ReserveModel then 1 else 0)"
    and "unat (us_tool_calls u1) = unat (us_tool_calls u) + (if is_ok r \<and> x = ReserveTool then 1 else 0)"
  using assms by (cases x; force simp: budget_op_defs unat_succ_u32 split: sum.splits if_splits)+

lemma budget_step_within:
  assumes "budget_step limits elapsed x u = (r, u1)"
  shows "us_model_calls u \<le> max_model_calls limits \<Longrightarrow> us_model_calls u1 \<le> max_model_calls limits"
    and "us_tool_calls u \<le> max_tool_calls limits \<Longrightarrow> us_tool_calls u1 \<le> max_tool_calls limits"
  using assms by (cases x; force simp: budget_op_defs inc_le split: sum.splits if_splits)+

lemma budget_run_counts:
  assumes "budget_run limits xs u = (models, tools, u')"
    and "us_model_calls u \<le> max_model_calls limits" and "us_tool_calls u \<le> max_tool_calls limits"
  shows "unat (us_model_calls u') = unat (us_model_calls u) + models
    \<and> unat (us_tool_calls u') = unat (us_tool_calls u) + tools
    \<and> us_model_calls u' \<le> max_model_calls limits \<and> us_tool_calls u' \<le> max_tool_calls limits"
  using assms
proof (induction limits xs u arbitrary: models tools rule: budget_run.induct)
  case (2 limits elapsed x xs u)
  obtain r u1 where s: "budget_step limits elapsed x u = (r, u1)" by fastforce
  obtain m t where rest: "budget_run limits xs u1 = (m, t, u')"
    using 2(2) s by (auto split: prod.splits)
  note c = budget_step_counts [OF s]
  from 2(1) [OF s [symmetric] rest budget_step_within(1) [OF s 2(3)] budget_step_within(2) [OF s 2(4)]]
    c 2(2) s rest
  show ?case by auto
qed auto

text \<open>
  \<^bold>\<open>Note.\<close> The budget of a run is never overdrawn: over any sequence of budget operations, by however
  many branches and at whatever times, the number of model calls that were granted is the counter
  and at most the limit, and the same holds for tool calls.
\<close>

theorem budget_never_overdrawn:
  "case budget_run limits xs usage_default of (models, tools, u) \<Rightarrow>
     models = unat (us_model_calls u) \<and> models \<le> unat (max_model_calls limits)
     \<and> tools = unat (us_tool_calls u) \<and> tools \<le> unat (max_tool_calls limits)"
proof -
  obtain models tools u where r: "budget_run limits xs usage_default = (models, tools, u)"
    by (metis prod_cases3)
  have "us_model_calls usage_default = 0 \<and> us_tool_calls usage_default = 0"
    by (simp add: usage_default_def)
  with budget_run_counts [OF r] show ?thesis by (simp add: r word_le_nat_alt)
qed

section \<open>The conversation of a finished run\<close>

definition called :: "'j ConversationItem list \<Rightarrow> 'j ToolCall list" where
  "called items = List.concat (map (\<lambda>item. case item of AssistantItem t \<Rightarrow> at_tool_calls t | _ \<Rightarrow> []) items)"

definition answered :: "'j ConversationItem list \<Rightarrow> string list" where
  "answered items = List.concat (map (\<lambda>item. case item of ToolResultItem i _ _ \<Rightarrow> [i] | _ \<Rightarrow> []) items)"

lemma called_simps [simp]:
  "called [] = []" "called (xs @ ys) = called xs @ called ys" "called (map UserItem ss) = []"
  "called (UserItem s # xs) = called xs" "called (ToolResultItem i out err # xs) = called xs"
  "called (AssistantItem t # xs) = at_tool_calls t @ called xs"
  by (induction ss) (auto simp: called_def)

lemma answered_simps [simp]:
  "answered [] = []" "answered (xs @ ys) = answered xs @ answered ys" "answered (map UserItem ss) = []"
  "answered (UserItem s # xs) = answered xs" "answered (ToolResultItem i out err # xs) = i # answered xs"
  "answered (AssistantItem t # xs) = answered xs"
  by (induction ss) (auto simp: answered_def)

lemma run_tool_calls_answers:
  assumes "run_tool_calls env limits node oc calls u rs w = (Inr (u', rs'), w')"
  shows "answered rs' = answered rs @ map call_id calls \<and> called rs' = called rs
    \<and> (\<forall>c\<in>set calls. call_tool c \<in> set (an_tools node)) \<and> us_model_calls u' = us_model_calls u"
  using assms
proof (induction calls arbitrary: u rs w)
  case (Cons call calls)
  from Cons.prems have declared: "call_tool call \<in> set (an_tools node)"
    by (auto simp: res_simps split: if_splits)
  with Cons.prems obtain o1 e1 w1 where
    "run_tool_calls env limits node oc calls (u\<lparr>us_tool_calls := us_tool_calls u + 1\<rparr>)
       (rs @ [ToolResultItem (call_id call) o1 e1]) w1
     = (Inr (u', rs'), w')"
    by (auto simp: res_simps)
  from Cons.IH [OF this] declared show ?case by simp
qed (simp add: res_simps)

lemma model_turn_conversation:
  assumes "model_turn env ctx node oc conv cont w = (Inr (conv', turn), w')"
  shows "called conv' = called conv \<and> answered conv' = answered conv"
  using assms by (auto simp: model_turn_def res_simps Let_def)

lemma agent_steps_conversation:
  assumes "agent_steps env ctx node left step conv cont u w = (Inr out, w')"
    and "map call_id (called conv) = answered conv"
    and "\<forall>c\<in>set (called conv). call_tool c \<in> set (an_tools node)"
    and "unat (us_model_calls u) + left < 2 ^ 32"
  shows "map call_id (called (ao_conversation out)) = answered (ao_conversation out)
    \<and> (\<forall>c\<in>set (called (ao_conversation out)). call_tool c \<in> set (an_tools node))
    \<and> (\<exists>items turn. ao_conversation out = items @ [AssistantItem turn] \<and> at_tool_calls turn = []
         \<and> nr_summary (ao_result out) = (case at_content turn of Some c \<Rightarrow> c | None \<Rightarrow> []))
    \<and> unat (us_model_calls u) < unat (us_model_calls (nr_usage (ao_result out)))
    \<and> unat (us_model_calls (nr_usage (ao_result out))) \<le> unat (us_model_calls u) + left"
  using assms
proof (induction left arbitrary: step conv cont u w)
  case 0
  then show ?case by (simp add: res_simps)
next
  case (Suc left)
  define oc where "oc = \<lparr>oc_node_path = arc_progress_summary ctx, oc_agent = an_agent node,
            oc_step = step, oc_max_steps = an_max_steps node\<rparr>"
  note run = Suc.prems(1) [unfolded agent_steps.simps Let_def, folded oc_def]
  from run obtain conv1 turn w1 where
    mt: "model_turn env ctx node oc conv cont w = (Inr (conv1, turn), w1)"
    by (auto simp: res_simps)
  note conv1 = model_turn_conversation [OF mt]
  define u1 where "u1 = add_tokens (u\<lparr>us_model_calls := us_model_calls u + 1\<rparr>) (at_usage turn)"
  have u1: "unat (us_model_calls u1) = Suc (unat (us_model_calls u))"
    using Suc.prems(4) by (simp add: u1_def add_tokens_def unat_word_ariths)
  show ?case
  proof (cases "at_tool_calls turn = []")
    case True
    with run mt have "out = \<lparr>ao_result = node_result_default\<lparr>
          nr_summary := (case at_content turn of Some c \<Rightarrow> c | None \<Rightarrow> []),
          nr_output := Some (case at_content turn of Some c \<Rightarrow> c | None \<Rightarrow> []), nr_usage := u1\<rparr>,
        ao_conversation = conv1 @ [AssistantItem turn]\<rparr>"
      by (auto simp: res_simps u1_def)
    then show ?thesis using True conv1 Suc.prems(2,3) u1 by simp
  next
    case False
    with run mt obtain u2 rs w2 w3 where
      tools: "run_tool_calls env (arc_limits ctx) node oc (at_tool_calls turn) u1 [] w1 = (Inr (u2, rs), w2)"
      and rest: "agent_steps env ctx node left (step + 1) (conv1 @ [AssistantItem turn] @ rs)
        (at_reasoning_continuation turn) u2 w3 = (Inr out, w')"
      by (auto simp: res_simps u1_def)
    note t = run_tool_calls_answers [OF tools]
    have "map call_id (called (conv1 @ [AssistantItem turn] @ rs)) = answered (conv1 @ [AssistantItem turn] @ rs)"
      and "\<forall>c\<in>set (called (conv1 @ [AssistantItem turn] @ rs)). call_tool c \<in> set (an_tools node)"
      using t conv1 Suc.prems(2,3) by auto
    moreover have "unat (us_model_calls u2) + left < 2 ^ 32" using t u1 Suc.prems(4) by simp
    ultimately show ?thesis using Suc.IH [OF rest] t u1 by simp
  qed
qed

text \<open>
  \<^bold>\<open>Note.\<close> What a finished agent run has done. Every tool call of its conversation was declared by the
  node and is answered, in order and once; the conversation ends with a turn without tool calls,
  whose content is the result; and the result accounts for at least one and at most \<open>max_steps\<close>
  model calls.
\<close>

theorem finished_agent_run:
  assumes "agent_run env ctx node w = (Inr out, w')"
  shows "map call_id (called (ao_conversation out)) = answered (ao_conversation out)
    \<and> (\<forall>c\<in>set (called (ao_conversation out)). call_tool c \<in> set (an_tools node))
    \<and> (\<exists>items turn. ao_conversation out = items @ [AssistantItem turn] \<and> at_tool_calls turn = []
         \<and> nr_summary (ao_result out) = (case at_content turn of Some c \<Rightarrow> c | None \<Rightarrow> []))
    \<and> 0 < us_model_calls (nr_usage (ao_result out))
    \<and> us_model_calls (nr_usage (ao_result out)) \<le> an_max_steps node"
  using agent_steps_conversation [OF assms [unfolded agent_run_def]]
    unsigned_less [of "an_max_steps node", where 'a = nat]
  by (simp add: usage_default_def word_less_nat_alt word_le_nat_alt)

section \<open>Undeclared tools\<close>

lemma run_tool_calls_declared_only:
  assumes "\<And>oc call. call_tool call \<in> set (an_tools node) \<Longrightarrow> ex oc call = ae_execute env oc call"
  shows "run_tool_calls (env\<lparr>ae_execute := ex\<rparr>) limits node oc calls u rs
    = run_tool_calls env limits node oc calls u rs"
  using assms
  by (induction env limits node oc calls u rs rule: run_tool_calls.induct)
    (simp_all add: check_cancelled_def [abs_def] budget_act_def [abs_def])

text \<open>
  \<^bold>\<open>C30.\<close> A tool the node does not declare is never executed: replacing what the tools do on calls of
  undeclared tools, by anything at all, changes neither the outcome of a run nor the world it leaves.
\<close>

theorem undeclared_tools_never_run:
  assumes "\<And>oc call. call_tool call \<in> set (an_tools node) \<Longrightarrow> ex oc call = ae_execute env oc call"
  shows "agent_run (env\<lparr>ae_execute := ex\<rparr>) ctx node = agent_run env ctx node"
proof -
  have "agent_steps (env\<lparr>ae_execute := ex\<rparr>) ctx node left step conv cont u
      = agent_steps env ctx node left step conv cont u" for left step conv cont u
  proof (induction left arbitrary: step conv cont u)
    case (Suc left)
    have "model_turn (env\<lparr>ae_execute := ex\<rparr>) = model_turn env"
      by (intro ext) (simp add: model_turn_def check_cancelled_def [abs_def] budget_act_def [abs_def])
    with Suc show ?case
      by (simp add: run_tool_calls_declared_only [OF assms] Let_def case_prod_unfold cong: if_cong)
  qed simp
  then show ?thesis by (simp add: agent_run_def)
qed

section \<open>A concrete run\<close>

text \<open>A model that reads a file with its first call and answers with its second.\<close>

definition sample_turn :: "unit ToolCall list \<Rightarrow> unit AssistantTurn" where
  "sample_turn calls = \<lparr>at_content = Some ''ok'', at_reasoning = None, at_tool_calls = calls,
     at_usage = usage_default, at_finish_reason = None, at_reasoning_continuation = None\<rparr>"

definition sample_env :: "(unit, unit, unit, unit, unit agent_world) agent_env" where
  "sample_env = \<lparr>ae_is_cancelled = (\<lambda>w. (False, w)), ae_elapsed = (\<lambda>w. (0, w)),
     ae_step_started = (\<lambda>_ _ w. (Inr (), w)), ae_take_boundary_inputs = (\<lambda>_ w. (Inr [], w)),
     ae_invoke = (\<lambda>_ _ w. (RaceDone (Inr (sample_turn
        (if us_model_calls (aw_usage w) = 1
         then [\<lparr>call_id = ''a'', call_tool = ''read'', call_arguments = ()\<rparr>] else []))), w)),
     ae_assistant_turn = (\<lambda>_ _ w. (Inr (), w)), ae_tool_started = (\<lambda>_ _ w. (Inr (), w)),
     ae_execute = (\<lambda>_ _ w. (RaceDone (Inr \<lparr>te_output = ''text'', te_title = None,
        te_metadata = None, te_is_error = False\<rparr>), w)),
     ae_tool_finished = (\<lambda>_ _ _ w. (Inr (), w)), ae_step_finished = (\<lambda>_ _ _ w. (Inr (), w))\<rparr>"

definition sample_limits :: ExecutionLimits where
  "sample_limits = \<lparr>max_model_calls = 8, max_tool_calls = 8, max_total_tokens = 1000,
     max_wall_time_ms = 1000, max_parallelism = 2, max_graph_nodes = 8, max_graph_depth = 8,
     max_loop_iterations = 3, max_agent_steps = 4\<rparr>"

definition sample_node :: AgentNode where
  "sample_node = \<lparr>an_agent = ''build'', an_skills = [], an_tools = [''read''],
     an_required_model_capabilities = [], an_max_steps = 2, an_next = ''done''\<rparr>"

definition sample_catalog :: SchedulerCatalog where
  "sample_catalog = \<lparr>cat_revision = ''r1'',
     cat_agents = [(''build'', \<lparr>ac_id = ''build'', ac_system_policy = [], ac_max_steps = 4,
       ac_available_skills = [], ac_available_tools = [''read''], ac_model_capabilities = []\<rparr>)],
     cat_skills = [], cat_tools = [(''read'', \<lparr>tc_id = ''read'', tc_effect = ReadOnly, tc_permission = Automatic\<rparr>)],
     cat_evaluators = [], cat_capabilities = []\<rparr>"

definition sample_authority :: "unit PromptAuthority" where
  "sample_authority = \<lparr>pa_blueprint_fingerprint = [], pa_catalog_fingerprint = [],
     pa_catalog = sample_catalog, pa_policy = allow_catalog sample_limits sample_catalog,
     pa_harness_policy = [],
     pa_digests = \<lparr>dg_agent = (\<lambda>_. Inr ()), dg_tools = (\<lambda>_. Inr ()), dg_skills = (\<lambda>_. Inr ()),
       dg_continuation = (\<lambda>_. Inr ())\<rparr>\<rparr>"

definition sample_context :: "(unit, unit) AgentRunContext" where
  "sample_context = \<lparr>arc_prompt_authority = sample_authority, arc_workspace_summary = [],
     arc_progress_summary = ''root/try'', arc_limits = sample_limits,
     arc_handoff = \<lparr>ho_goal = [], ho_constraints = [], ho_inputs = Map.empty, ho_artifact_refs = []\<rparr>,
     arc_conversation_seed = []\<rparr>"

definition sample_world :: "unit agent_world" where
  "sample_world = \<lparr>aw_usage = usage_default, aw_surfaces = []\<rparr>"

lemmas sample_defs = sample_env_def sample_context_def sample_node_def sample_world_def
  sample_authority_def sample_catalog_def sample_limits_def sample_turn_def allow_catalog_def

lemmas agent_eval = agent_run_def model_turn_def act_bind_def act_return_def act_map_err_def
  check_cancelled_def budget_act_def race_def reserve_model_call_def reserve_tool_call_def
  record_tokens_def budget_update_def check_time_def NANOS_PER_MILLI_def guard_def total_tokens_def
  add_tokens_def usage_default_def u64_saturating_add_def rename_calls_def build_prompt_surface_def
  cached_surface_def build_stable_surface_def surface_digest_def max_stable_surfaces_def
  surface_key_def is_ok_def Let_def

lemma sample_run_ok: "is_ok (fst (agent_run sample_env sample_context sample_node sample_world))"
proof -
  have steps: "unat (an_max_steps sample_node) = Suc (Suc 0)" by (simp add: sample_node_def)
  show ?thesis
    by (simp add: agent_run_def steps) (simp add: agent_eval sample_defs word_le_nat_alt)
qed

theorem finished_agent_run_witness:
  "\<exists>out w'. agent_run sample_env sample_context sample_node sample_world = (Inr out, w')
     \<and> us_model_calls (nr_usage (ao_result out)) \<le> 2
     \<and> (\<forall>c\<in>set (called (ao_conversation out)). call_tool c = ''read'')"
proof -
  obtain out w' where run: "agent_run sample_env sample_context sample_node sample_world = (Inr out, w')"
    using sample_run_ok by (auto simp: is_ok_def split: sum.splits) (metis prod.collapse)
  from finished_agent_run [OF run]
  have "us_model_calls (nr_usage (ao_result out)) \<le> 2
    \<and> (\<forall>c\<in>set (called (ao_conversation out)). call_tool c = ''read'')" by (simp add: sample_node_def)
  with run show ?thesis by blast
qed

theorem undeclared_tools_never_run_witness:
  "agent_run (sample_env\<lparr>ae_execute := (\<lambda>oc call w.
       if call_tool call = ''read'' then ae_execute sample_env oc call w else (RaceDeadline, w))\<rparr>)
     sample_context sample_node = agent_run sample_env sample_context sample_node"
  by (rule undeclared_tools_never_run) (auto simp: sample_node_def)

end
