(* ===== verification/Engine_Walk.thy ===== *)
theory Engine_Walk
  imports Engine Blueprint_Properties Agent_Loop_Properties
begin

text \<open>
  How the scheduler engine walks a graph: a walk returns as soon as it may use more nested walks than
  the graph is deep, and it keeps every invariant of the shared world that the accounting and the
  environment keep. The locale \<open>governed_walk\<close> joins the contract of the accounting with that of the
  validator.
\<close>

section \<open>Walks that return\<close>

definition walk_returns :: "('w, 'e, 'a) walk \<Rightarrow> bool" where
  "walk_returns m \<longleftrightarrow> (\<forall>w. m w \<noteq> None)"

lemma walk_returns_act [simp, intro]: "walk_returns (walk_act m)"
  by (simp add: walk_returns_def walk_act_def)

lemma walk_returns_bind [intro]:
  "walk_returns m \<Longrightarrow> (\<And>x. walk_returns (f x)) \<Longrightarrow> walk_returns (walk_bind m f)"
  by (auto simp: walk_returns_def walk_bind_def split: option.split sum.split)

lemma walk_returns_or_restore [intro]: "walk_returns m \<Longrightarrow> walk_returns (or_restore env ctl cp m)"
  by (auto simp: walk_returns_def or_restore_def split: option.split sum.split)

lemma in_set_remove_at: "x \<in> set (remove_at i xs) \<Longrightarrow> x \<in> set xs"
  by (auto simp: remove_at_def dest: in_set_takeD in_set_dropD)

lemma run_branches_returns:
  assumes "\<And>b. b \<in> set pending \<Longrightarrow> walk_returns (walk b)"
  shows "run_branches walk env mode pending successes failures w \<noteq> None"
  using assms
proof (induction walk env mode pending successes failures w rule: run_branches.induct)
  case (1 walk env mode pending successes failures w)
  show ?case
  proof (cases "pending = []")
    case True
    then show ?thesis by (simp add: run_branches.simps)
  next
    case False
    define i where "i = ee_pick env pending w mod length pending"
    have "i < length pending" using False by (simp add: i_def)
    then have "walk_returns (walk (pending ! i))" using 1(3) by simp
    then obtain r w1 where r: "walk (pending ! i) w = Some (r, w1)"
      unfolding walk_returns_def by (metis old.prod.exhaust option.exhaust)
    have left: "\<And>b. b \<in> set (remove_at i pending) \<Longrightarrow> walk_returns (walk b)"
      using 1(3) in_set_remove_at by metis
    show ?thesis
      using False r 1(1) [OF False i_def refl refl _ _ _ _ left] 1(2) [OF False i_def refl refl _ _ _ left]
      by (cases r) (auto simp: run_branches.simps [of walk env mode pending] Let_def i_def [symmetric])
  qed
qed

lemma run_iterations_returns:
  assumes "\<And>scope st. walk_returns (walk scope st)"
  shows "walk_returns (run_iterations walk env ctl path l left iteration st)"
  by (induction left arbitrary: iteration st)
    (auto simp: Let_def intro!: walk_returns_bind walk_returns_or_restore assms)

lemma has_depth_successor:
  assumes "has_depth g n d" and "get_node g n = Some node" and "t \<in> set (outgoing node)"
  shows "\<exists>d'<d. has_depth g t d'"
proof -
  obtain k ds where ds: "list_all2 (has_depth g) (outgoing node) ds" and d: "d = Suc (k + foldr max ds 0)"
    using assms(1,2) by (cases "\<exists>l. node = NLoop l") (fastforce simp: has_depth_plain has_depth_loop)+
  from ds assms(3) obtain e where "e \<in> set ds" "has_depth g t e"
    by (metis in_set_conv_nth list_all2_conv_all_nth)
  then show ?thesis using foldr_max_le [of e ds] d by (metis le_add2 le_imp_less_Suc order_trans)
qed

lemma has_depth_body:
  assumes "has_depth g n d" and "get_node g n = Some (NLoop l)"
  shows "\<exists>d'<d. has_depth (loop_body l) (graph_entry (loop_body l)) d'"
  using assms(1) unfolding has_depth_loop [OF assms(2)] by (metis le_add1 le_imp_less_Suc)

lemma execute_graph_returns:
  assumes "has_depth g n d" and "d < walks"
  shows "walk_returns (execute_graph walks env ctl g stop scope n st)"
  using assms
proof (induction walks arbitrary: g n d stop scope st)
  case (Suc walks)
  have next_node: "walk_returns (execute_graph walks env ctl g stop' scope t st')"
    if "get_node g n = Some node" "t \<in> set (outgoing node)" for node t stop' st'
    using has_depth_successor [OF Suc.prems(1) that] Suc.IH Suc.prems(2)
    by (meson less_trans_Suc not_less_less_Suc_eq order.strict_trans2 less_Suc_eq_le)
  have body: "walk_returns (execute_graph walks env ctl (loop_body l) None scope' (graph_entry (loop_body l)) st')"
    if "get_node g n = Some (NLoop l)" for l scope' st'
    using has_depth_body [OF Suc.prems(1) that] Suc.IH Suc.prems(2)
    by (meson order.strict_trans2 less_Suc_eq_le)
  have branches: "walk_returns (run_branches
      (\<lambda>b. execute_graph walks env ctl g (Some (par_join p)) scope b (fork_for b st)) env
      (par_failure_mode p) (par_branches p) [] [])" if "get_node g n = Some (NParallel p)" for p
    unfolding walk_returns_def
    by (intro allI run_branches_returns) (auto intro: next_node [OF that])
  show ?case
    by (auto simp: Let_def split: option.split NodeSpec.split Evaluation.split
        intro!: walk_returns_bind next_node branches run_iterations_returns body)
qed simp

section \<open>Invariants of the shared world\<close>

text \<open>
  What a property of the shared world has to satisfy to be kept by the accounting of a run.
\<close>

locale world_invariant =
  fixes I :: "('d, 'z) agent_world_scheme \<Rightarrow> bool" and limits :: ExecutionLimits
  assumes model_call: "I w \<Longrightarrow> us_model_calls (aw_usage w) < max_model_calls limits \<Longrightarrow>
      I (w\<lparr>aw_usage := (aw_usage w)\<lparr>us_model_calls := us_model_calls (aw_usage w) + 1\<rparr>\<rparr>)"
    and tool_call: "I w \<Longrightarrow> us_tool_calls (aw_usage w) < max_tool_calls limits \<Longrightarrow>
      I (w\<lparr>aw_usage := (aw_usage w)\<lparr>us_tool_calls := us_tool_calls (aw_usage w) + 1\<rparr>\<rparr>)"
    and tokens: "I w \<Longrightarrow> I (w\<lparr>aw_usage := add_tokens (aw_usage w) u\<rparr>)"
    and surfaces: "I w \<Longrightarrow> I (w\<lparr>aw_surfaces := s\<rparr>)"

definition keeps :: "('w \<Rightarrow> bool) \<Rightarrow> ('w \<Rightarrow> 'a \<times> 'w) \<Rightarrow> bool" where
  "keeps I m \<longleftrightarrow> (\<forall>w. I w \<longrightarrow> I (snd (m w)))"

definition agent_env_keeps :: "('w \<Rightarrow> bool) \<Rightarrow> ('j, 'd, 'm, 's, 'w) agent_env \<Rightarrow> bool" where
  "agent_env_keeps I env \<longleftrightarrow>
     keeps I (ae_is_cancelled env) \<and> keeps I (ae_elapsed env)
     \<and> (\<forall>c s. keeps I (ae_step_started env c s)) \<and> (\<forall>c. keeps I (ae_take_boundary_inputs env c))
     \<and> (\<forall>r c. keeps I (ae_invoke env r c)) \<and> (\<forall>c t. keeps I (ae_assistant_turn env c t))
     \<and> (\<forall>c x. keeps I (ae_tool_started env c x)) \<and> (\<forall>c x. keeps I (ae_execute env c x))
     \<and> (\<forall>c x r. keeps I (ae_tool_finished env c x r)) \<and> (\<forall>c s u. keeps I (ae_step_finished env c s u))"

definition engine_env_keeps :: "('w \<Rightarrow> bool) \<Rightarrow> ('j, 'd, 'm, 's, 'w) engine_env \<Rightarrow> bool" where
  "engine_env_keeps I env \<longleftrightarrow> agent_env_keeps I (ee_agent env)
     \<and> (\<forall>e c. keeps I (ee_evaluate env e c)) \<and> (\<forall>r. keeps I (ee_checkpoint env r))
     \<and> (\<forall>r. keeps I (ee_restore env r)) \<and> (\<forall>r. keeps I (ee_store_artifact env r))
     \<and> (\<forall>e w. I w \<longrightarrow> I (ee_emit env e w))"

lemma keeps_act_ok: "keeps I m \<Longrightarrow> act_ok I (\<lambda>_. True) m"
  by (auto simp: keeps_def act_ok_def)

lemma keepsD: "keeps I m \<Longrightarrow> m w = (x, w') \<Longrightarrow> I w \<Longrightarrow> I w'"
  by (metis keeps_def snd_conv)

lemma env_act_ok:
  assumes "agent_env_keeps I env"
  shows "act_ok I (\<lambda>_. True) (ae_step_started env c s)"
    and "act_ok I (\<lambda>_. True) (ae_take_boundary_inputs env c)"
    and "act_ok I (\<lambda>_. True) (ae_assistant_turn env c t)"
    and "act_ok I (\<lambda>_. True) (ae_tool_started env c x)"
    and "act_ok I (\<lambda>_. True) (ae_tool_finished env c x o')"
    and "act_ok I (\<lambda>_. True) (ae_step_finished env c s u)"
  using assms by (simp_all add: agent_env_keeps_def keeps_act_ok)

lemma race_ok: "keeps I m \<Longrightarrow> act_ok I (\<lambda>_. True) (race f m)"
  by (auto simp: act_ok_def race_def split: prod.splits raced.splits sum.splits dest: keepsD)

lemma env_race_ok:
  assumes "agent_env_keeps I env"
  shows "act_ok I (\<lambda>_. True) (race f (ae_invoke env r c))"
    and "act_ok I (\<lambda>_. True) (race g (ae_execute env c x))"
  using assms by (simp_all add: agent_env_keeps_def race_ok)

lemma check_cancelled_ok:
  "agent_env_keeps I env \<Longrightarrow> act_ok I (\<lambda>_. True) (check_cancelled env)"
  by (auto simp: act_ok_def check_cancelled_def agent_env_keeps_def Let_def
      split: prod.splits dest: keepsD)

lemmas env_ok_intros = act_ok_bind act_ok_return act_ok_map_err check_cancelled_ok env_act_ok
  env_race_ok

context world_invariant
begin

lemma budget_act_ok:
  assumes "agent_env_keeps I env"
  shows "act_ok I (\<lambda>_. True) (budget_act env (reserve_model_call limits))"
    and "act_ok I (\<lambda>_. True) (budget_act env (reserve_tool_call limits))"
    and "act_ok I (\<lambda>_. True) (budget_act env (\<lambda>t. record_tokens limits t u))"
proof -
  have el: "I w'" if "ae_elapsed env w = (t, w')" "I w" for t w w'
    using assms(1) that by (auto simp: agent_env_keeps_def dest: keepsD)
  show "act_ok I (\<lambda>_. True) (budget_act env (reserve_model_call limits))"
    "act_ok I (\<lambda>_. True) (budget_act env (reserve_tool_call limits))"
    "act_ok I (\<lambda>_. True) (budget_act env (\<lambda>t. record_tokens limits t u))"
    unfolding act_ok_def budget_act_def reserve_model_call_def reserve_tool_call_def record_tokens_def
      budget_update_def Let_def
    by (auto simp: not_le split: prod.splits sum.splits if_splits
        intro: model_call tool_call tokens dest: el)
qed

lemma prompt_ok: "act_ok I (\<lambda>_. True) (build_prompt_surface a node ws ps h items cont)"
  unfolding build_prompt_surface_def
  by (rule act_ok_bind)
    (auto simp: act_ok_def cached_surface_def split: option.splits if_splits sum.splits
      intro: surfaces)

lemma run_tool_calls_ok:
  assumes "agent_env_keeps I env"
  shows "act_ok I (\<lambda>_. True) (run_tool_calls env limits node oc calls u rs)"
proof (induction calls arbitrary: u rs)
  case (Cons call calls)
  show ?case
    by (simp, intro conjI impI env_ok_intros act_ok_fail budget_act_ok Cons assms TrueI)
qed (simp add: act_ok_return)

lemma model_turn_ok:
  assumes "agent_env_keeps I env" and "arc_limits ctx = limits"
  shows "act_ok I (\<lambda>_. True) (model_turn env ctx node oc conv cont)"
  unfolding model_turn_def Let_def assms(2)
  by (intro env_ok_intros budget_act_ok prompt_ok assms)

lemma agent_run_ok:
  assumes "agent_env_keeps I env" and "arc_limits ctx = limits"
  shows "act_ok I (\<lambda>_. True) (agent_run env ctx node)"
proof -
  have "act_ok I (\<lambda>_. True) (agent_steps env ctx node left step conv cont u)" for left step conv cont u
  proof (induction left arbitrary: step conv cont u)
    case (Suc left)
    show ?case
      by (auto simp: Let_def assms(2) split: prod.split
          intro!: env_ok_intros model_turn_ok run_tool_calls_ok Suc assms)
  qed (simp add: act_ok_fail)
  then show ?thesis by (simp add: agent_run_def)
qed

end

section \<open>Walks that keep an invariant\<close>

definition walk_ok :: "('w \<Rightarrow> bool) \<Rightarrow> ('e \<Rightarrow> bool) \<Rightarrow> ('w, 'e, 'a) walk \<Rightarrow> bool" where
  "walk_ok I E m \<longleftrightarrow>
     (\<forall>w r w'. I w \<and> m w = Some (r, w') \<longrightarrow> I w' \<and> (\<forall>e. r = Inl e \<longrightarrow> E e))"

lemma walk_ok_act: "act_ok I E m \<Longrightarrow> walk_ok I E (walk_act m)"
  by (simp add: walk_ok_def act_ok_def walk_act_def)

lemma walk_ok_bind:
  assumes "walk_ok I E m" and "\<And>x. walk_ok I E (f x)"
  shows "walk_ok I E (walk_bind m f)"
  unfolding walk_ok_def
proof (intro allI impI)
  fix w r w' assume w: "I w \<and> walk_bind m f w = Some (r, w')"
  then obtain r1 w1 where m: "m w = Some (r1, w1)" by (auto simp: walk_bind_def split: option.splits)
  with w assms(1) have w1: "I w1" "\<forall>e. r1 = Inl e \<longrightarrow> E e" unfolding walk_ok_def by blast+
  show "I w' \<and> (\<forall>e. r = Inl e \<longrightarrow> E e)"
  proof (cases r1)
    case (Inl e)
    with w m have "r = Inl e" "w' = w1" by (simp_all add: walk_bind_def)
    then show ?thesis using w1 Inl by blast
  next
    case (Inr x)
    with w m have "f x w1 = Some (r, w')" by (simp add: walk_bind_def)
    then show ?thesis using w1(1) assms(2) [of x] unfolding walk_ok_def by blast
  qed
qed

definition not_missing :: "'s EngineError \<Rightarrow> bool" where
  "not_missing e \<longleftrightarrow> (\<forall>n. e \<noteq> MissingNode n)"

lemma not_missing_simps [simp]:
  "not_missing (AgentFailed a)" "not_missing (EvaluatorFailed x m)" "not_missing (CapabilityFailed x m)"
  "not_missing (ParallelBranch x m)" "not_missing (MissingResult x)" "not_missing (CleanupFailed x m)"
  "not_missing (CatalogFingerprintFailed m)" "\<not> not_missing (MissingNode x)"
  by (simp_all add: not_missing_def)

lemma map_err_ok:
  assumes "act_ok I (\<lambda>_. True) m" and "\<And>e. E (f e)"
  shows "act_ok I E (act_map_err f m)"
  by (rule act_ok_map_err, rule act_ok_mono [OF assms(1)]) (rule assms(2))

lemma engine_env_ok:
  assumes "engine_env_keeps I env"
  shows "agent_env_keeps I (ee_agent env)"
    and "act_ok I (\<lambda>_. True) (ee_checkpoint env cr)"
    and "act_ok I (\<lambda>_. True) (ee_restore env rr)"
    and "act_ok I (\<lambda>_. True) (ee_store_artifact env ar)"
    and "act_ok I E (emit env ev)"
  using assms by (auto simp: engine_env_keeps_def keeps_act_ok act_ok_def emit_def dest: keepsD)

lemma engine_checks_ok:
  assumes "engine_env_keeps I env"
  shows "act_ok I not_missing (engine_check_time env limits)"
    and "act_ok I not_missing (engine_check_cancelled env)"
proof -
  have "keeps I (ae_elapsed (ee_agent env))"
    using assms by (simp add: engine_env_keeps_def agent_env_keeps_def)
  then show "act_ok I not_missing (engine_check_time env limits)"
    by (auto simp: act_ok_def engine_check_time_def Let_def split: prod.splits sum.splits dest: keepsD)
  show "act_ok I not_missing (engine_check_cancelled env)"
    unfolding engine_check_cancelled_def
    by (intro map_err_ok check_cancelled_ok engine_env_ok(1) [OF assms]) simp
qed

lemma restore_ok:
  assumes "engine_env_keeps I env"
  shows "act_ok I not_missing (restore_if_taken env ctl cp)"
  unfolding restore_if_taken_def restore_checkpoint_def
  by (auto split: option.split intro!: act_ok_return map_err_ok engine_env_ok [OF assms])

lemma take_checkpoint_ok:
  assumes "engine_env_keeps I env"
  shows "act_ok I not_missing (take_checkpoint env ctl path i cp)"
  unfolding take_checkpoint_def
  by (auto split: option.split intro!: act_ok_return act_ok_bind map_err_ok engine_env_ok(2-)
      engine_checks_ok assms)

lemma end_node_ok:
  assumes "engine_env_keeps I env"
  shows "act_ok I not_missing (end_node_result env ctl scope st e)"
  unfolding end_node_result_def Let_def
  by (auto split: option.split ResultSource.split
      intro!: act_ok_return act_ok_bind act_ok_fail map_err_ok engine_env_ok(2-) engine_checks_ok assms)

lemma or_restore_ok:
  assumes "engine_env_keeps I env" and "walk_ok I not_missing m"
  shows "walk_ok I not_missing (or_restore env ctl cp m)"
  unfolding walk_ok_def
proof (intro allI impI)
  fix w r w' assume w: "I w \<and> or_restore env ctl cp m w = Some (r, w')"
  then obtain r1 w1 where m: "m w = Some (r1, w1)" by (auto simp: or_restore_def split: option.splits)
  with w assms(2) have w1: "I w1" "\<forall>e. r1 = Inl e \<longrightarrow> not_missing e" unfolding walk_ok_def by blast+
  show "I w' \<and> (\<forall>e. r = Inl e \<longrightarrow> not_missing e)"
  proof (cases r1)
    case (Inl e)
    have "act_ok I not_missing (act_bind (restore_if_taken env ctl cp) (\<lambda>_. act_fail e))"
      using w1 Inl by (intro act_ok_bind restore_ok assms act_ok_fail) simp
    moreover have "act_bind (restore_if_taken env ctl cp) (\<lambda>_. act_fail e) w1 = (r, w')"
      using w m Inl by (simp add: or_restore_def)
    ultimately show ?thesis using w1(1) unfolding act_ok_def by blast
  next
    case (Inr x)
    then show ?thesis using w m w1 by (simp add: or_restore_def)
  qed
qed

lemma run_branches_ok:
  assumes "\<And>b. b \<in> set pending \<Longrightarrow> walk_ok I not_missing (walk b)" and "I w"
    and "run_branches walk env mode pending successes failures w = Some (r, w')"
  shows "I w' \<and> (\<forall>e. r = Inl e \<longrightarrow> not_missing e)"
  using assms
proof (induction walk env mode pending successes failures w arbitrary: r w' rule: run_branches.induct)
  case (1 walk env mode pending successes failures w)
  show ?case
  proof (cases "pending = []")
    case True
    then show ?thesis using 1(4,5) by (auto simp: run_branches.simps [of walk env mode])
  next
    case False
    define i where "i = ee_pick env pending w mod length pending"
    have "i < length pending" using False by (simp add: i_def)
    then have ok: "walk_ok I not_missing (walk (pending ! i))" using 1(3) by simp
    from 1(5) False obtain r1 w1 where r: "walk (pending ! i) w = Some (r1, w1)"
      by (auto simp: run_branches.simps [of walk env mode pending] Let_def i_def split: option.splits)
    from ok r 1(4) have w1: "I w1" unfolding walk_ok_def by blast
    have left: "\<And>b. b \<in> set (remove_at i pending) \<Longrightarrow> walk_ok I not_missing (walk b)"
      using 1(3) in_set_remove_at by metis
    show ?thesis
    proof (cases r1)
      case (Inl e)
      with ok r 1(4) have "not_missing e" unfolding walk_ok_def by blast
      moreover have "?thesis" if "mode \<noteq> FailFast"
        using 1(1) [OF False i_def refl refl r [unfolded Inl] refl refl that left w1] 1(5) False r Inl that
        by (simp add: run_branches.simps [of walk env mode pending] Let_def i_def [symmetric])
      ultimately show ?thesis
        using 1(5) False r Inl w1
        by (cases "mode = FailFast")
          (auto simp: run_branches.simps [of walk env _ pending] Let_def i_def [symmetric])
    next
      case (Inr st)
      then show ?thesis
        using False r 1(5) 1(2) [OF False i_def refl refl r [unfolded Inr] refl refl left w1]
        by (simp add: run_branches.simps [of walk env mode pending] Let_def i_def [symmetric])
    qed
  qed
qed

context world_invariant
begin

lemma evaluate_ok:
  assumes "engine_env_keeps I env" and "rc_limits ctl = limits"
  shows "act_ok I not_missing (evaluate_with_deadline env ctl ev cand)"
proof -
  have "keeps I (ee_evaluate env ev cand)" using assms(1) by (simp add: engine_env_keeps_def)
  then show ?thesis
    unfolding evaluate_with_deadline_def assms(2)
    by (auto intro!: act_ok_bind act_ok_return map_err_ok budget_act_ok engine_env_ok(1) assms)
      (auto simp: act_ok_def split: prod.splits raced.splits sum.splits dest: keepsD)
qed

lemma run_iterations_ok:
  assumes "engine_env_keeps I env" and "rc_limits ctl = limits"
    and "\<And>scope st. walk_ok I not_missing (walk scope st)"
  shows "walk_ok I not_missing (run_iterations walk env ctl path l left iteration st)"
  by (induction left arbitrary: iteration st)
    (auto simp: Let_def intro!: walk_ok_bind walk_ok_act or_restore_ok act_ok_return take_checkpoint_ok
      restore_ok evaluate_ok engine_env_ok(5) assms)

lemma run_agent_node_ok:
  assumes "engine_env_keeps I env" and "rc_limits ctl = limits"
  shows "act_ok I not_missing (run_agent_node env ctl path a st)"
  unfolding run_agent_node_def
  by (intro act_ok_bind act_ok_return map_err_ok agent_run_ok engine_env_ok(1) assms) (simp_all add: assms)

end

text \<open>
  The walk of an accepted graph keeps every invariant of the accounting, and the node it is at is
  always one of the graph.
\<close>

locale governed_walk = world_invariant I limits + accepted_graphs accepts
  for I :: "('d, 'z) agent_world_scheme \<Rightarrow> bool" and limits and accepts
begin

lemma execute_graph_ok:
  assumes "engine_env_keeps I env" and "rc_limits ctl = limits"
    and "accepts g" and "n \<in> node_ids g"
  shows "walk_ok I not_missing (execute_graph walks env ctl g stop scope n st)"
  using assms(3,4)
proof (induction walks arbitrary: g n stop scope st)
  case 0
  then show ?case by (simp add: walk_ok_def)
next
  case (Suc walks)
  from Suc.prems(2) obtain node where node: "get_node g n = Some node" by (auto simp: get_node_ids)
  have next_node: "walk_ok I not_missing (execute_graph walks env ctl g stop' scope t st')"
    if "t \<in> set (outgoing node)" for t stop' st'
    using node that Suc.prems target_exists [of g n t] by (intro Suc.IH) (auto simp: edges_def)
  have body: "walk_ok I not_missing (execute_graph walks env ctl (loop_body l) None scope' (graph_entry (loop_body l)) st')"
    if "node = NLoop l" for l scope' st'
    using body_accepted [OF Suc.prems(1)] get_node_in [OF node] that
    by (intro Suc.IH entry_exists) auto
  have branches: "walk_ok I not_missing (run_branches
      (\<lambda>b. execute_graph walks env ctl g (Some (par_join p)) scope b (fork_for b st)) env
      (par_failure_mode p) (par_branches p) [] [])" if "node = NParallel p" for p
    unfolding walk_ok_def using next_node that
    by (auto elim!: run_branches_ok [rotated 2])
  show ?case
    using node
    by (auto simp: Let_def split: NodeSpec.split Evaluation.split
        intro!: walk_ok_bind walk_ok_act act_ok_return engine_checks_ok engine_env_ok(5) next_node
          branches run_iterations_ok body run_agent_node_ok evaluate_ok end_node_ok assms(1,2))
qed

end

end
