(* ===== verification/Engine_Properties.thy ===== *)
theory Engine_Properties
  imports Engine_Walk
begin

text \<open>
  Properties of the runs of validated blueprints: they end, meet no missing node and stay within
  their budget; a loop with a checkpoint is a transaction on the workspace.
\<close>

section \<open>Properties of a run\<close>

definition usage_within :: "ExecutionLimits \<Rightarrow> ('d, 'z) agent_world_scheme \<Rightarrow> bool" where
  "usage_within limits w \<longleftrightarrow> us_model_calls (aw_usage w) \<le> max_model_calls limits
     \<and> us_tool_calls (aw_usage w) \<le> max_tool_calls limits"

interpretation unrestricted: governed_walk "\<lambda>_. True" limits "graph_accepted limits catalog policy"
  by unfold_locales auto

interpretation budgeted: governed_walk "usage_within limits" limits "graph_accepted limits catalog policy"
  by unfold_locales (auto simp: usage_within_def add_tokens_def inc_le)

lemma validated_walk:
  assumes "validate_blueprint bp catalog policy = Some (Inr ())"
  shows "graph_accepted (bp_limits bp) catalog policy (root_graph bp)"
    and "graph_entry (root_graph bp) \<in> node_ids (root_graph bp)"
  using validate_blueprintD(1) [OF assms] validated.entry_exists by auto

abbreviation fresh_world :: "('d, 'z) agent_world_scheme \<Rightarrow> ('d, 'z) agent_world_scheme" where
  "fresh_world w \<equiv> w\<lparr>aw_usage := usage_default, aw_surfaces := []\<rparr>"

lemma engine_run_cases:
  assumes "engine_run walks env fp digests catalog policy harness blueprint request w = Some (r, w')"
  obtains (fingerprint) e where "r = Inl (CatalogFingerprintFailed e)" "w' = fresh_world w"
  | (walked) ctl st x w2 d y w3 e where
      "rc_limits ctl = bp_limits (vb_blueprint blueprint)"
      "execute_graph walks env ctl (root_graph (vb_blueprint blueprint)) None ''root''
         (graph_entry (root_graph (vb_blueprint blueprint))) st
         (ee_emit env RunStartedEvent (fresh_world w)) = Some (x, w2)"
      "ee_finalize env d w2 = (y, w3)" "w' = ee_emit env e w3"
      "(\<exists>m. r = Inl m \<and> (x = Inl m \<or> (\<exists>c n. m = CleanupFailed c n)))
         \<or> (\<exists>out. r = Inr out \<and> ro_usage out = aw_usage w3)"
proof (cases "fp catalog")
  case (Inl e)
  with assms show thesis by (intro fingerprint [of e]) (simp_all add: engine_run_def Let_def)
next
  case (Inr f)
  define ctl where "ctl = \<lparr>rc_limits = bp_limits (vb_blueprint blueprint),
    rc_prompt_authority = \<lparr>pa_blueprint_fingerprint = vb_fingerprint blueprint,
      pa_catalog_fingerprint = f, pa_catalog = catalog, pa_policy = policy,
      pa_harness_policy = harness, pa_digests = digests\<rparr>,
    rc_workspace_root = rq_workspace_root request, rc_workspace_summary = rq_workspace_summary request\<rparr>"
  let ?walk = "execute_graph walks env ctl (root_graph (vb_blueprint blueprint)) None ''root''
    (graph_entry (root_graph (vb_blueprint blueprint)))
    (branch_new (rq_handoff request) (rq_conversation_seed request))
    (ee_emit env RunStartedEvent (fresh_world w))"
  have limits: "rc_limits ctl = bp_limits (vb_blueprint blueprint)" by (simp add: ctl_def)
  obtain x w2 where walk: "?walk = Some (x, w2)"
    using assms Inr by (cases ?walk) (auto simp: engine_run_def Let_def ctl_def)
  define d where "d = (if is_ok x then Commit else Rollback)"
  obtain y w3 where fin: "ee_finalize env d w2 = (y, w3)" by fastforce
  show thesis
    using assms Inr walk fin
    by (cases x; cases y) (auto simp: engine_run_def Let_def ctl_def [symmetric] d_def is_ok_def
        intro!: walked [OF limits walk fin])
qed

lemma engine_run_returns:
  assumes "has_depth (root_graph (vb_blueprint blueprint)) (graph_entry (root_graph (vb_blueprint blueprint))) k"
    and "k < walks"
  shows "engine_run walks env fp digests catalog policy harness blueprint request w \<noteq> None"
proof -
  let ?g = "root_graph (vb_blueprint blueprint)"
  have "execute_graph walks env ctl ?g None ''root'' (graph_entry ?g) st v \<noteq> None" for ctl st v
    using execute_graph_returns [OF assms] unfolding walk_returns_def by blast
  then show ?thesis
    by (auto simp: engine_run_def Let_def simp del: not_None_eq split: option.split sum.split prod.split)
qed

text \<open>
  \<^bold>\<open>C3.\<close> A run of a validated blueprint ends, whatever the models, tools, evaluators and observers
  answer: graph walks are nested at most as deep as the blueprint, so any larger number of walks
  brings the run to its outcome.
\<close>

theorem validated_run_returns:
  assumes "validate_blueprint (vb_blueprint blueprint) catalog policy = Some (Inr ())"
  shows "\<exists>k. has_depth (root_graph (vb_blueprint blueprint)) (bp_entry (vb_blueprint blueprint)) k
    \<and> (\<forall>walks>k. engine_run walks env fp digests catalog policy harness blueprint request w \<noteq> None)"
proof -
  let ?g = "root_graph (vb_blueprint blueprint)"
  obtain k where k: "has_depth ?g (graph_entry ?g) k"
    using validated.accepts_depth [OF validated_walk(1) [OF assms]] by blast
  show ?thesis
    by (intro exI [of _ k] conjI allI impI engine_run_returns [OF k])
      (use k in \<open>simp_all add: root_graph_def\<close>)
qed

text \<open>
  \<^bold>\<open>Note.\<close> A run of a validated blueprint never fails because the walk reached a node that does not
  exist, whatever the environment answers.
\<close>

theorem validated_run_misses_no_node:
  assumes "validate_blueprint (vb_blueprint blueprint) catalog policy = Some (Inr ())"
    and "engine_run walks env fp digests catalog policy harness blueprint request w = Some (r, w')"
  shows "r \<noteq> Inl (MissingNode n)"
proof -
  let ?g = "root_graph (vb_blueprint blueprint)"
  have keeps: "engine_env_keeps (\<lambda>_. True) env"
    by (simp add: engine_env_keeps_def agent_env_keeps_def keeps_def)
  from assms(2) show ?thesis
  proof (cases rule: engine_run_cases)
    case (walked ctl st x w2 d y w3 e)
    from unrestricted.execute_graph_ok [OF keeps walked(1) validated_walk [OF assms(1)]] walked(2)
    have "x \<noteq> Inl (MissingNode n)" unfolding walk_ok_def by fastforce
    with walked(5) show ?thesis by auto
  qed simp
qed


section \<open>Loops with a checkpoint are transactions\<close>

text \<open>
  What the loop relies on from the workspace capabilities: a checkpoint remembers the files as they
  are and leaves them alone, restoring it brings them back, and nothing but that forgets it; looking
  at the clock or at the cancellation flag and reporting progress leaves the files alone.
\<close>

definition checkpoint_backend ::
    "('z \<Rightarrow> 'f) \<Rightarrow> ('z \<Rightarrow> CheckpointHandle \<Rightarrow> 'f option)
       \<Rightarrow> ('j, 'd, 'm, 's, ('d, 'z) agent_world_scheme) engine_env \<Rightarrow> bool" where
  "checkpoint_backend files saved env \<longleftrightarrow>
     (\<forall>req w h w'. ee_checkpoint env req w = (Inr h, w') \<longrightarrow>
        files (agent_world.more w') = files (agent_world.more w)
        \<and> saved (agent_world.more w') h = Some (files (agent_world.more w)))
     \<and> (\<forall>req w f w'. saved (agent_world.more w) (rr_checkpoint req) = Some f
          \<and> ee_restore env req w = (Inr (), w') \<longrightarrow> files (agent_world.more w') = f)
     \<and> (\<forall>h f. engine_env_keeps (\<lambda>w. saved (agent_world.more w) h = Some f) env)
     \<and> (\<forall>f. keeps (\<lambda>w. files (agent_world.more w) = f) (ae_is_cancelled (ee_agent env))
          \<and> keeps (\<lambda>w. files (agent_world.more w) = f) (ae_elapsed (ee_agent env))
          \<and> (\<forall>e w. files (agent_world.more w) = f \<longrightarrow> files (agent_world.more (ee_emit env e w)) = f))"

definition capability_error :: "'s EngineError \<Rightarrow> bool" where
  "capability_error e \<longleftrightarrow> (\<exists>c m. e = CapabilityFailed c m)"

lemma checkpoint_backendD:
  assumes "checkpoint_backend files saved env"
  shows "ee_checkpoint env req w = (Inr h, w') \<Longrightarrow> files (agent_world.more w') = files (agent_world.more w)"
    and "ee_checkpoint env req w = (Inr h, w') \<Longrightarrow> saved (agent_world.more w') h = Some (files (agent_world.more w))"
    and "ee_restore env rr w = (Inr u, w') \<Longrightarrow> saved (agent_world.more w) (rr_checkpoint rr) = Some f \<Longrightarrow>
      files (agent_world.more w') = f"
    and "engine_env_keeps (\<lambda>w. saved (agent_world.more w) h' = Some f) env"
  using assms by (auto simp: checkpoint_backend_def)

lemma walk_bind_Some_iff:
  "walk_bind m f w = Some (r, w') \<longleftrightarrow>
     (\<exists>e. m w = Some (Inl e, w') \<and> r = Inl e) \<or> (\<exists>x w1. m w = Some (Inr x, w1) \<and> f x w1 = Some (r, w'))"
  by (auto simp: walk_bind_def split: option.splits sum.splits)

lemma walk_act_Some_iff: "walk_act m w = Some (r, w') \<longleftrightarrow> m w = (r, w')"
  by (simp add: walk_act_def)

lemma walk_bind_step: "m w = (Inr x, w1) \<Longrightarrow> walk_bind (walk_act m) f w = f x w1"
  by (simp add: walk_bind_def walk_act_def)

lemma act_bind_iff:
  "act_bind m f w = (r, w') \<longleftrightarrow>
     (\<exists>e. m w = (Inl e, w') \<and> r = Inl e) \<or> (\<exists>x w1. m w = (Inr x, w1) \<and> f x w1 = (r, w'))"
  by (auto simp: act_bind_def split: prod.splits sum.splits)

lemma act_map_err_iff:
  "act_map_err f m w = (r, w') \<longleftrightarrow>
     (\<exists>e. m w = (Inl e, w') \<and> r = Inl (f e)) \<or> (\<exists>x. m w = (Inr x, w') \<and> r = Inr x)"
  by (auto simp: act_map_err_def split: prod.splits sum.splits)

lemma checks_leave_files:
  assumes "checkpoint_backend files saved env"
  shows "engine_check_cancelled env w = (r, w') \<Longrightarrow> files (agent_world.more w') = files (agent_world.more w)"
    and "engine_check_time env limits w = (r, w') \<Longrightarrow> files (agent_world.more w') = files (agent_world.more w)"
    and "emit env e w = (r, w') \<Longrightarrow> files (agent_world.more w') = files (agent_world.more w)"
  using assms
  by (auto simp: checkpoint_backend_def engine_check_cancelled_def engine_check_time_def emit_def
      check_cancelled_def act_map_err_iff Let_def split: prod.splits sum.splits if_splits dest!: keepsD)

lemma checks_keep_saved:
  assumes "checkpoint_backend files saved env" and "saved (agent_world.more w) h = Some f"
  shows "engine_check_cancelled env w = (r, w') \<Longrightarrow> saved (agent_world.more w') h = Some f"
    and "engine_check_time env limits w = (r, w') \<Longrightarrow> saved (agent_world.more w') h = Some f"
    and "emit env e w = (r', w') \<Longrightarrow> saved (agent_world.more w') h = Some f"
proof -
  have env: "engine_env_keeps (\<lambda>w. saved (agent_world.more w) h = Some f) env"
    using assms(1) by (simp add: checkpoint_backend_def)
  show "engine_check_cancelled env w = (r, w') \<Longrightarrow> saved (agent_world.more w') h = Some f"
    "engine_check_time env limits w = (r, w') \<Longrightarrow> saved (agent_world.more w') h = Some f"
    "emit env e w = (r', w') \<Longrightarrow> saved (agent_world.more w') h = Some f"
    using engine_checks_ok [OF env] engine_env_ok(5) [OF env] assms(2) unfolding act_ok_def by blast+
qed

lemma take_checkpoint_saves:
  assumes "checkpoint_backend files saved env"
    and "take_checkpoint env ctl path i (Some cap) w = (Inr cp, w')"
  shows "files (agent_world.more w') = files (agent_world.more w)
    \<and> (\<exists>h. cp = Some h \<and> saved (agent_world.more w') h = Some (files (agent_world.more w)))"
proof -
  obtain w1 req h w2 w3 where "engine_check_cancelled env w = (Inr (), w1)"
    and cp: "ee_checkpoint env req w1 = (Inr h, w2)"
    and w3: "engine_check_cancelled env w2 = (Inr (), w3)"
    and w': "engine_check_time env (rc_limits ctl) w3 = (Inr (), w')" and h: "cp = Some h"
    using assms(2) by (auto simp: take_checkpoint_def res_simps)
  then have "files (agent_world.more w1) = files (agent_world.more w)"
    by (intro checks_leave_files(1) [OF assms(1)])
  with checkpoint_backendD(1,2) [OF assms(1) cp] checks_leave_files(1) [OF assms(1) w3]
    checks_leave_files(2) [OF assms(1) w'] checks_keep_saved(1) [OF assms(1) _ w3]
    checks_keep_saved(2) [OF assms(1) _ w'] h
  show ?thesis by simp
qed

lemma take_checkpoint_fails:
  assumes "checkpoint_backend files saved env"
    and "take_checkpoint env ctl path i (Some cap) w = (Inl e, w')" and "\<not> capability_error e"
  shows "files (agent_world.more w') = files (agent_world.more w)"
  using assms(2,3)
  by (auto simp: take_checkpoint_def act_bind_iff act_map_err_iff act_return_def capability_error_def
      dest!: checks_leave_files [OF assms(1)] checkpoint_backendD(1) [OF assms(1)])

lemma restore_brings_back:
  assumes "checkpoint_backend files saved env" and "saved (agent_world.more w) h = Some f"
    and "restore_if_taken env ctl (Some h) w = (r, w')" and "\<And>e. r = Inl e \<Longrightarrow> \<not> capability_error e"
  shows "files (agent_world.more w') = f"
  using assms(2-) checkpoint_backendD(3) [OF assms(1)]
  by (auto simp: restore_if_taken_def restore_checkpoint_def act_map_err_iff capability_error_def)

lemma or_restore_brings_back:
  assumes "checkpoint_backend files saved env" and "saved (agent_world.more w) h = Some f"
    and "walk_ok (\<lambda>w. saved (agent_world.more w) h = Some f) E m"
    and "or_restore env ctl (Some h) m w = Some (r, w')"
  shows "case r of Inl e \<Rightarrow> capability_error e \<or> files (agent_world.more w') = f
    | Inr x \<Rightarrow> saved (agent_world.more w') h = Some f"
proof -
  obtain r1 w1 where m: "m w = Some (r1, w1)" using assms(4) by (auto simp: or_restore_def split: option.splits)
  with assms(2,3) have w1: "saved (agent_world.more w1) h = Some f" unfolding walk_ok_def by blast
  show ?thesis
    using assms(4) m w1 restore_brings_back [OF assms(1) w1]
    by (auto simp: or_restore_def act_bind_iff act_fail_def split: sum.splits)
qed

lemma or_restore_bind_cases:
  assumes "walk_bind (or_restore env ctl (Some h) m) k w = Some (r, w')"
    and "checkpoint_backend files saved env" and "saved (agent_world.more w) h = Some f"
    and "walk_ok (\<lambda>w. saved (agent_world.more w) h = Some f) E m"
    and "\<And>e. r = Inl e \<Longrightarrow> \<not> capability_error e"
  obtains "files (agent_world.more w') = f"
  | x w1 where "saved (agent_world.more w1) h = Some f" "k x w1 = Some (r, w')"
  using assms(1,5) or_restore_brings_back [OF assms(2-4)]
  by (fastforce simp: walk_bind_Some_iff)

lemma iterations_are_transactions:
  assumes backend: "checkpoint_backend files saved env" and checkpoint: "loop_checkpoint l = Some cap"
    and walk: "\<And>h f scope st. walk_ok (\<lambda>w. saved (agent_world.more w) h = Some f) not_missing (walk scope st)"
    and evaluate: "\<And>h f ev c. act_ok (\<lambda>w. saved (agent_world.more w) h = Some f) not_missing
      (evaluate_with_deadline env ctl ev c)"
    and run: "run_iterations walk env ctl path l left iteration st w = Some (r, w')"
    and healthy: "\<And>e. r = Inl e \<Longrightarrow> \<not> capability_error e" and failed: "\<And>st'. r \<noteq> Inr (True, st')"
  shows "files (agent_world.more w') = files (agent_world.more w)"
  using run
proof (induction left arbitrary: iteration st w)
  case 0
  then show ?case by (auto simp: walk_act_def act_return_def)
next
  case (Suc left)
  let ?f = "files (agent_world.more w)"
  obtain w1 where w1: "emit env (LoopIteration path (iteration + 1)) w = (Inr (), w1)"
    by (simp add: emit_def)
  have f1: "files (agent_world.more w1) = ?f" by (rule checks_leave_files(3) [OF backend w1])
  obtain r2 w2 where t: "take_checkpoint env ctl path iteration (Some cap) w1 = (r2, w2)" by fastforce
  show ?case
  proof (cases r2)
    case (Inl e)
    then show ?thesis
      using Suc.prems healthy w1 t f1 checkpoint take_checkpoint_fails [OF backend]
      by (auto simp: walk_bind_Some_iff walk_act_Some_iff Let_def)
  next
    case (Inr cp)
    then obtain h where cp: "cp = Some h" and h: "saved (agent_world.more w2) h = Some ?f"
      using take_checkpoint_saves [OF backend t [unfolded Inr]] f1 by auto
    note rest = Suc.prems [unfolded run_iterations.simps checkpoint Let_def
        walk_bind_step [of "emit env (LoopIteration path (iteration + 1))" w, OF w1]
        walk_bind_step [of "take_checkpoint env ctl path iteration (Some cap)" w1, OF t [unfolded Inr cp]]]
    show ?thesis
    proof (cases rule: or_restore_bind_cases [OF rest backend h walk healthy])
      case (3 completed w3)
      show ?thesis
      proof (cases rule: or_restore_bind_cases [OF 3(2) backend 3(1) walk_ok_act [OF evaluate] healthy])
        case (3 evaluation w4)
        obtain w5 where w5: "emit env (Evaluated path evaluation) w4 = (Inr (), w5)" by (simp add: emit_def)
        have h5: "saved (agent_world.more w5) h = Some ?f" by (rule checks_keep_saved(3) [OF backend 3(1) w5])
        show ?thesis
          using 3(2) failed healthy restore_brings_back [OF backend h5, of ctl] Suc.IH
          by (auto simp: walk_bind_step [of "emit env (Evaluated path evaluation)" w4, OF w5]
              walk_bind_Some_iff walk_act_Some_iff act_return_def split: if_splits)
      qed
    qed
  qed
qed

interpretation remembered: governed_walk "\<lambda>w. saved (agent_world.more w) h = Some f" limits
    "graph_accepted limits catalog policy"
  by unfold_locales auto


section \<open>Concrete runs\<close>

text \<open>
  A workspace that is one file with its snapshots, and an evaluator that scribbles over the file and
  rejects.
\<close>

definition sample_saved :: "string \<times> string list \<Rightarrow> CheckpointHandle \<Rightarrow> string option" where
  "sample_saved z h = (if length (ch_id h) < length (snd z) then Some (snd z ! length (ch_id h)) else None)"

definition sample_engine ::
    "Evaluation \<Rightarrow> (unit, unit, unit, unit, (unit, string \<times> string list) agent_world_scheme) engine_env" where
  "sample_engine verdict = \<lparr>
     ee_agent = \<lparr>ae_is_cancelled = (\<lambda>w. (False, w)), ae_elapsed = (\<lambda>w. (0, w)),
       ae_step_started = (\<lambda>_ _ w. (Inr (), w)), ae_take_boundary_inputs = (\<lambda>_ w. (Inr [], w)),
       ae_invoke = (\<lambda>_ _ w. (RaceDone (Inr (sample_turn [])), w)),
       ae_assistant_turn = (\<lambda>_ _ w. (Inr (), w)), ae_tool_started = (\<lambda>_ _ w. (Inr (), w)),
       ae_execute = (\<lambda>_ _ w. (RaceDeadline, w)),
       ae_tool_finished = (\<lambda>_ _ _ w. (Inr (), w)), ae_step_finished = (\<lambda>_ _ _ w. (Inr (), w))\<rparr>,
     ee_evaluate = (\<lambda>_ _ w. (RaceDone (Inr \<lparr>eo_evaluation = verdict, eo_usage = usage_default\<rparr>),
       w\<lparr>agent_world.more := (''scribble'', snd (agent_world.more w))\<rparr>)),
     ee_checkpoint = (\<lambda>req w. (Inr \<lparr>ch_capability = cr_capability req, ch_workspace_root = cr_workspace_root req,
         ch_id = replicate (length (snd (agent_world.more w))) CHR ''x'', ch_iteration = cr_iteration req\<rparr>,
       w\<lparr>agent_world.more := (fst (agent_world.more w), snd (agent_world.more w) @ [fst (agent_world.more w)])\<rparr>)),
     ee_restore = (\<lambda>req w. case sample_saved (agent_world.more w) (rr_checkpoint req) of
         None \<Rightarrow> (Inl ''unknown checkpoint'', w)
       | Some f \<Rightarrow> (Inr (), w\<lparr>agent_world.more := (f, snd (agent_world.more w))\<rparr>)),
     ee_store_artifact = (\<lambda>_ w. (Inr ''artifact'', w)), ee_finalize = (\<lambda>_ w. (Inr (), w)),
     ee_emit = (\<lambda>_ w. w), ee_pick = (\<lambda>_ _. 0), ee_provider_message = (\<lambda>_. [])\<rparr>"

definition sample_control :: "unit RunControl" where
  "sample_control = \<lparr>rc_limits = sample_limits, rc_prompt_authority = sample_authority,
     rc_workspace_root = [], rc_workspace_summary = []\<rparr>"

definition sample_loop :: LoopNode where
  "sample_loop = LoopNode (SchedulerGraph ''stop'' [(''stop'', example_end)]) ''judge'' 2
     (Some ''snapshot'') ''stop'' ''stop''"

definition sample_start :: "(unit, string \<times> string list) agent_world_scheme" where
  "sample_start = \<lparr>aw_usage = usage_default, aw_surfaces = [], \<dots> = (''draft'', [])\<rparr>"

lemma sample_backend: "checkpoint_backend fst sample_saved (sample_engine verdict)"
  by (auto simp: checkpoint_backend_def sample_engine_def engine_env_keeps_def agent_env_keeps_def
      keeps_def sample_saved_def nth_append split: if_splits option.splits)

lemma sample_loop_accepted:
  "graph_accepted (rc_limits sample_control) sample_catalog policy (loop_body sample_loop)"
  unfolding graph_accepted_def by (rule exI [of _ "''loop''"]) code_simp

lemmas sample_eval = sample_engine_def sample_control_def sample_loop_def sample_start_def
  sample_saved_def sample_authority_def sample_catalog_def sample_limits_def allow_catalog_def
  example_end_def get_node_def

lemmas engine_eval = walk_bind_def walk_act_def act_bind_def act_return_def act_map_err_def act_fail_def
  emit_def take_checkpoint_def restore_if_taken_def restore_checkpoint_def or_restore_def
  engine_check_cancelled_def engine_check_time_def check_cancelled_def check_time_def guard_def
  evaluate_with_deadline_def is_model_judge_def budget_act_def record_tokens_def budget_update_def
  total_tokens_def add_tokens_def usage_default_def u64_saturating_add_def end_node_result_def
  NANOS_PER_MILLI_def word_le_nat_alt Let_def


definition sample_request :: "unit RunRequest" where
  "sample_request = \<lparr>rq_handoff = \<lparr>ho_goal = [], ho_constraints = [], ho_inputs = Map.empty,
     ho_artifact_refs = []\<rparr>, rq_conversation_seed = [], rq_workspace_root = [], rq_workspace_summary = []\<rparr>"

abbreviation sample_engine_run where
  "sample_engine_run walks \<equiv> engine_run walks (sample_engine EvalPass) (\<lambda>_. Inr [])
     (pa_digests sample_authority) example_catalog (allow_catalog example_limits example_catalog) []
     \<lparr>vb_blueprint = example_blueprint, vb_fingerprint = []\<rparr> sample_request sample_start"

lemma example_validated:
  "validate_blueprint (vb_blueprint \<lparr>vb_blueprint = example_blueprint, vb_fingerprint = []\<rparr>)
     example_catalog (allow_catalog example_limits example_catalog) = Some (Inr ())"
  using example_validates by simp

theorem validated_run_returns_witness: "sample_engine_run 5 \<noteq> None"
proof -
  obtain k where "has_depth (root_graph example_blueprint) (bp_entry example_blueprint) k"
    and "\<forall>walks>k. sample_engine_run walks \<noteq> None"
    using validated_run_returns [OF example_validated] by fastforce
  with has_depth_unique [OF _ example_depth] show ?thesis by fastforce
qed

lemma sample_engine_run_returns: "\<exists>r w. sample_engine_run 5 = Some (r, w)"
  using engine_run_returns [of "\<lparr>vb_blueprint = example_blueprint, vb_fingerprint = []\<rparr>" 4 5] example_depth
  by (simp add: root_graph_def)

theorem validated_run_misses_no_node_witness:
  "\<exists>r w. sample_engine_run 5 = Some (r, w) \<and> r \<noteq> Inl (MissingNode ''try'')"
  using sample_engine_run_returns validated_run_misses_no_node [OF example_validated] by blast


end
