(* ===== verification/Runtime_Control.thy ===== *)
theory Runtime_Control
  imports Rust_Prelude "HOL-Library.AList" "HOL-Library.Char_ord" "HOL-Library.List_Lexorder"
    "HOL-Library.Product_Lexorder"
begin

text \<open>
  The registry of running executions (\<open>agendao-server-core/src/runtime_control.rs\<close>): prompt runs,
  scheduler runs and their nodes, tool calls and questions of every session, the cancellation tokens
  and the waiters of open questions, and the execution topology shown to clients.

  \<^item> A hash map is the list of its entries in the order in which the map iterates over them. Nothing
    the properties state depends on that order.
  \<^item> JSON values are of a type \<open>'v\<close> with the operations the code uses of it; cancellation tokens are
    of a type \<open>'t\<close>, and cancelling one adds it to the cancelled tokens; the sending half of a reply
    channel is of a type \<open>'c\<close>, and sending adds to the replies that were delivered.
  \<^item> \<open>clock i\<close> is the \<open>i\<close>-th reading of the clock within an operation. Each operation is the sequence
    of its critical sections.
\<close>

datatype ExecutionKind = PromptRun | SchedulerRun | SchedulerNode | ToolCallRun | Question

datatype ExecutionStatus = Running | Waiting | Cancelling | Retry | Done

record 'v ExecutionRecord =
  er_id :: string
  er_session_id :: string
  er_kind :: ExecutionKind
  er_status :: ExecutionStatus
  er_label :: "string option"
  er_parent_id :: "string option"
  er_stage_id :: "string option"
  er_waiting_on :: "string option"
  er_recent_event :: "string option"
  er_started_at :: i64
  er_updated_at :: i64
  er_metadata :: "'v option"

text \<open>A node carries the fields of its record, all but the session, and its children.\<close>

datatype 'v SessionExecutionNode = SessionExecutionNode
  (node_id: string) (node_kind: ExecutionKind) (node_status: ExecutionStatus)
  (node_label: "string option") (node_parent_id: "string option") (node_stage_id: "string option")
  (node_waiting_on: "string option") (node_recent_event: "string option")
  (node_started_at: i64) (node_updated_at: i64) (node_metadata: "'v option")
  (node_children: "'v SessionExecutionNode list")

record 'v SessionExecutionTopology =
  top_session_id :: string
  top_active_count :: nat
  top_done_count :: nat
  top_running_count :: nat
  top_waiting_count :: nat
  top_cancelling_count :: nat
  top_retry_count :: nat
  top_updated_at :: "i64 option"
  top_roots :: "'v SessionExecutionNode list"

datatype 'a FieldUpdate = Keep | Set 'a | Clear

record 'v ExecutionPatch =
  ep_status :: "ExecutionStatus option"
  ep_label :: "string FieldUpdate"
  ep_waiting_on :: "string FieldUpdate"
  ep_recent_event :: "string FieldUpdate"
  ep_metadata :: "'v FieldUpdate"

definition patch_default :: "'v ExecutionPatch" where
  "patch_default = \<lparr>ep_status = None, ep_label = Keep, ep_waiting_on = Keep, ep_recent_event = Keep,
     ep_metadata = Keep\<rparr>"

datatype SessionRunStatus =
    RunIdle
  | RunBusy
  | RunCompacting
  | RunRetry u32 string i64
  | RunBlocked "string option" "i64 option"
  | RunSleeping "string option" "i64 option"

record QuestionOptionInfo =
  qo_label :: string
  qo_description :: "string option"

record QuestionItemInfo =
  qi_question :: string
  qi_header :: "string option"
  qi_options :: "QuestionOptionInfo list"
  qi_multiple :: bool

record QuestionInfo =
  qn_id :: string
  qn_session_id :: string
  qn_items :: "QuestionItemInfo list"

datatype QuestionReply = Answers "string list list" | Rejected | ReplyCancelled

record TopologyChangeContext =
  tc_session_id :: string
  tc_execution_id :: string
  tc_stage_id :: "string option"

record 'v json_api =
  js_object :: "(string \<times> 'v) list \<Rightarrow> 'v"
  js_null :: 'v
  js_str :: "string \<Rightarrow> 'v"
  js_i64 :: "i64 \<Rightarrow> 'v"
  js_u32 :: "u32 \<Rightarrow> 'v"
  js_get :: "'v \<Rightarrow> string \<Rightarrow> 'v option"
  js_as_str :: "'v \<Rightarrow> string option"
  js_as_u64 :: "'v \<Rightarrow> u64 option"
  js_as_i64 :: "'v \<Rightarrow> i64 option"
  js_of_question :: "QuestionInfo \<Rightarrow> 'v option"
  js_to_question :: "'v \<Rightarrow> QuestionInfo option"

record ('v, 't, 'c) RuntimeControlRegistry =
  executions :: "(string \<times> 'v ExecutionRecord) list"
  scheduler_tokens :: "(string \<times> 't) list"
  execution_tokens :: "(string \<times> 't) list"
  question_waiters :: "(string \<times> 'c) list"
  on_topology_changed :: bool
  cancelled :: "'t list"
  replies :: "('c \<times> QuestionReply) list"
  notified :: "TopologyChangeContext list"

definition with_topology_callback :: "('v, 't, 'c) RuntimeControlRegistry" where
  "with_topology_callback = \<lparr>executions = [], scheduler_tokens = [], execution_tokens = [],
     question_waiters = [], on_topology_changed = True, cancelled = [], replies = [], notified = []\<rparr>"

section \<open>Identifiers and ordering\<close>

definition prompt_execution_id :: "string \<Rightarrow> string" where
  "prompt_execution_id session = ''prompt:'' @ session"

definition scheduler_execution_id :: "string \<Rightarrow> string" where
  "scheduler_execution_id session = ''scheduler:'' @ session"

definition scheduler_node_execution_id :: "string \<Rightarrow> string \<Rightarrow> string" where
  "scheduler_node_execution_id session path = ''scheduler_node:'' @ session @ '':'' @ path"

definition tool_call_execution_id :: "string \<Rightarrow> string" where
  "tool_call_execution_id tool_call = ''tool_call:'' @ tool_call"

fun kind_rank :: "ExecutionKind \<Rightarrow> nat" where
  "kind_rank PromptRun = 0"
| "kind_rank SchedulerRun = 1"
| "kind_rank SchedulerNode = 2"
| "kind_rank ToolCallRun = 3"
| "kind_rank Question = 4"

definition execution_sort_key :: "'v ExecutionRecord \<Rightarrow> i64 \<times> nat \<times> string" where
  "execution_sort_key r = (er_started_at r, kind_rank (er_kind r), er_id r)"

fun apply_field_update :: "'a option \<Rightarrow> 'a FieldUpdate \<Rightarrow> 'a option" where
  "apply_field_update target Keep = target"
| "apply_field_update target (Set x) = Some x"
| "apply_field_update target Clear = None"

definition question_record_to_info :: "'v json_api \<Rightarrow> 'v ExecutionRecord \<Rightarrow> QuestionInfo option" where
  "question_record_to_info js record =
     (if er_kind record \<noteq> Question then None
      else case er_metadata record of None \<Rightarrow> None | Some v \<Rightarrow> js_to_question js v)"

text \<open>\<open>max_by\<close> keeps the last of the greatest elements.\<close>

fun max_by :: "('a \<Rightarrow> 'b::linorder) \<Rightarrow> 'a list \<Rightarrow> 'a option" where
  "max_by f [] = None"
| "max_by f (x # xs) =
     Some (foldl (\<lambda>best y. if f y < f best then best else y) x xs)"

definition select_question_parent_id ::
    "(string \<times> 'v ExecutionRecord) list \<Rightarrow> string \<Rightarrow> string option" where
  "select_question_parent_id execs session =
     map_option er_id (max_by (\<lambda>r. (kind_rank (er_kind r), er_updated_at r))
       (filter (\<lambda>r. er_session_id r = session \<and> er_kind r \<noteq> Question \<and> er_status r \<noteq> Done)
          (map snd execs)))"

section \<open>Changing records\<close>

definition context_of :: "'v ExecutionRecord \<Rightarrow> TopologyChangeContext" where
  "context_of r = \<lparr>tc_session_id = er_session_id r, tc_execution_id = er_id r, tc_stage_id = er_stage_id r\<rparr>"

definition notify_topology_changed ::
    "TopologyChangeContext \<Rightarrow> ('v, 't, 'c) RuntimeControlRegistry \<Rightarrow> ('v, 't, 'c) RuntimeControlRegistry" where
  "notify_topology_changed ctx reg =
     (if on_topology_changed reg then reg\<lparr>notified := notified reg @ [ctx]\<rparr> else reg)"

definition upsert_execution ::
    "'v ExecutionRecord \<Rightarrow> ('v, 't, 'c) RuntimeControlRegistry \<Rightarrow> ('v, 't, 'c) RuntimeControlRegistry" where
  "upsert_execution record reg =
     (let nxt = (case map_of (executions reg) (er_id record) of
            Some existing \<Rightarrow> record\<lparr>er_started_at := er_started_at existing\<rparr>
          | None \<Rightarrow> record)
      in notify_topology_changed (context_of record)
           (reg\<lparr>executions := AList.update (er_id nxt) nxt (executions reg)\<rparr>))"

definition patch_record :: "'v ExecutionPatch \<Rightarrow> i64 \<Rightarrow> 'v ExecutionRecord \<Rightarrow> 'v ExecutionRecord" where
  "patch_record patch now r = r\<lparr>
     er_status := (case ep_status patch of Some s \<Rightarrow> s | None \<Rightarrow> er_status r),
     er_label := apply_field_update (er_label r) (ep_label patch),
     er_waiting_on := apply_field_update (er_waiting_on r) (ep_waiting_on patch),
     er_recent_event := apply_field_update (er_recent_event r) (ep_recent_event patch),
     er_metadata := apply_field_update (er_metadata r) (ep_metadata patch),
     er_updated_at := now\<rparr>"

definition update_execution ::
    "i64 \<Rightarrow> string \<Rightarrow> 'v ExecutionPatch
       \<Rightarrow> ('v, 't, 'c) RuntimeControlRegistry \<Rightarrow> ('v, 't, 'c) RuntimeControlRegistry" where
  "update_execution now i patch reg =
     (case map_of (executions reg) i of
        None \<Rightarrow> reg
      | Some record \<Rightarrow>
          notify_topology_changed (context_of record)
            (reg\<lparr>executions := AList.map_entry i (patch_record patch now) (executions reg)\<rparr>))"

definition retire_record :: "i64 \<Rightarrow> 'v ExecutionRecord \<Rightarrow> 'v ExecutionRecord" where
  "retire_record now r = r\<lparr>er_status := Done, er_waiting_on := None, er_updated_at := now\<rparr>"

definition finish_execution ::
    "i64 \<Rightarrow> string \<Rightarrow> ('v, 't, 'c) RuntimeControlRegistry \<Rightarrow> ('v, 't, 'c) RuntimeControlRegistry" where
  "finish_execution now i reg =
     (case map_of (executions reg) i of
        None \<Rightarrow> reg
      | Some record \<Rightarrow>
          notify_topology_changed (context_of record)
            (reg\<lparr>executions := AList.map_entry i (retire_record now) (executions reg)\<rparr>))"

definition cleanup_done_executions ::
    "string \<Rightarrow> ('v, 't, 'c) RuntimeControlRegistry \<Rightarrow> ('v, 't, 'c) RuntimeControlRegistry" where
  "cleanup_done_executions session reg = reg\<lparr>executions :=
     filter (\<lambda>(_, record). \<not> (er_session_id record = session \<and> er_status record = Done)) (executions reg)\<rparr>"

section \<open>Session run status\<close>

definition prompt_record ::
    "(nat \<Rightarrow> i64) \<Rightarrow> string \<Rightarrow> ExecutionStatus \<Rightarrow> string option \<Rightarrow> string \<Rightarrow> 'v option \<Rightarrow> 'v ExecutionRecord" where
  "prompt_record clock session status waiting event metadata =
     \<lparr>er_id = prompt_execution_id session, er_session_id = session, er_kind = PromptRun,
      er_status = status, er_label = Some ''Prompt run'', er_parent_id = None, er_stage_id = None,
      er_waiting_on = waiting, er_recent_event = Some event, er_started_at = clock 0,
      er_updated_at = clock 1, er_metadata = metadata\<rparr>"

definition paused_metadata :: "'v json_api \<Rightarrow> string option \<Rightarrow> string \<Rightarrow> i64 option \<Rightarrow> 'v" where
  "paused_metadata js reason key at = js_object js
     ((case reason of Some r \<Rightarrow> [(''reason'', js_str js r)] | None \<Rightarrow> [])
      @ (case at of Some ts \<Rightarrow> [(key, js_i64 js ts)] | None \<Rightarrow> []))"

fun set_session_run_status ::
    "'v json_api \<Rightarrow> (nat \<Rightarrow> i64) \<Rightarrow> string \<Rightarrow> SessionRunStatus
       \<Rightarrow> ('v, 't, 'c) RuntimeControlRegistry \<Rightarrow> ('v, 't, 'c) RuntimeControlRegistry" where
  "set_session_run_status js clock session RunIdle reg =
     cleanup_done_executions session (finish_execution (clock 0) (prompt_execution_id session) reg)"
| "set_session_run_status js clock session RunBusy reg =
     upsert_execution (prompt_record clock session Running None ''Prompt run started'' None) reg"
| "set_session_run_status js clock session RunCompacting reg =
     upsert_execution (prompt_record clock session Waiting (Some ''compaction'') ''Compacting context'' None) reg"
| "set_session_run_status js clock session (RunRetry attempt message nxt) reg =
     upsert_execution (prompt_record clock session Retry (Some ''retry_backoff'') message
       (Some (js_object js [(''attempt'', js_u32 js attempt), (''message'', js_str js message),
          (''next'', js_i64 js nxt)]))) reg"
| "set_session_run_status js clock session (RunBlocked reason recheck_at) reg =
     upsert_execution (prompt_record clock session Waiting (Some ''blocked'')
       (case reason of Some r \<Rightarrow> r | None \<Rightarrow> ''Blocked'')
       (Some (paused_metadata js reason ''recheck_at'' recheck_at))) reg"
| "set_session_run_status js clock session (RunSleeping reason wake_at) reg =
     upsert_execution (prompt_record clock session Waiting (Some ''sleeping'')
       (case reason of Some r \<Rightarrow> r | None \<Rightarrow> ''Sleeping'')
       (Some (paused_metadata js reason ''wake_at'' wake_at))) reg"

definition meta_get :: "'v json_api \<Rightarrow> 'v option \<Rightarrow> string \<Rightarrow> 'v option" where
  "meta_get js metadata key = (case metadata of None \<Rightarrow> None | Some v \<Rightarrow> js_get js v key)"

definition run_status_of :: "'v json_api \<Rightarrow> 'v ExecutionRecord \<Rightarrow> SessionRunStatus" where
  "run_status_of js record =
     (let str = (\<lambda>key. Option.bind (meta_get js (er_metadata record) key) (js_as_str js));
          int = (\<lambda>key. Option.bind (meta_get js (er_metadata record) key) (js_as_i64 js))
      in case er_status record of
           Running \<Rightarrow> RunBusy
         | Cancelling \<Rightarrow> RunBusy
         | Waiting \<Rightarrow>
             if er_waiting_on record = Some ''compaction'' then RunCompacting
             else if er_waiting_on record = Some ''blocked'' then RunBlocked (str ''reason'') (int ''recheck_at'')
             else if er_waiting_on record = Some ''sleeping'' then RunSleeping (str ''reason'') (int ''wake_at'')
             else RunBusy
         | Retry \<Rightarrow>
             RunRetry
               (case Option.bind (meta_get js (er_metadata record) ''attempt'') (js_as_u64 js) of
                  Some n \<Rightarrow> ucast n | None \<Rightarrow> 1)
               (case str ''message'' of Some m \<Rightarrow> m | None \<Rightarrow> [])
               (case int ''next'' of Some n \<Rightarrow> n | None \<Rightarrow> 0)
         | Done \<Rightarrow> RunIdle)"

definition session_run_statuses ::
    "'v json_api \<Rightarrow> ('v, 't, 'c) RuntimeControlRegistry \<Rightarrow> string \<rightharpoonup> SessionRunStatus" where
  "session_run_statuses js reg = foldl (\<lambda>m r. m(er_session_id r \<mapsto> run_status_of js r)) Map.empty
     (filter (\<lambda>r. er_kind r = PromptRun \<and> er_status r \<noteq> Done) (map snd (executions reg)))"

definition session_run_status ::
    "'v json_api \<Rightarrow> string \<Rightarrow> ('v, 't, 'c) RuntimeControlRegistry \<Rightarrow> SessionRunStatus" where
  "session_run_status js session reg =
     (case session_run_statuses js reg session of Some s \<Rightarrow> s | None \<Rightarrow> RunIdle)"

definition has_prompt_run :: "string \<Rightarrow> ('v, 't, 'c) RuntimeControlRegistry \<Rightarrow> bool" where
  "has_prompt_run session reg \<longleftrightarrow>
     (case map_of (executions reg) (prompt_execution_id session) of
        Some r \<Rightarrow> er_status r \<noteq> Done | None \<Rightarrow> False)"

section \<open>Scheduler runs and their nodes\<close>

definition register_scheduler_run ::
    "(nat \<Rightarrow> i64) \<Rightarrow> string \<Rightarrow> 't \<Rightarrow> string option
       \<Rightarrow> ('v, 't, 'c) RuntimeControlRegistry \<Rightarrow> ('v, 't, 'c) RuntimeControlRegistry" where
  "register_scheduler_run clock session token label reg =
     upsert_execution
       \<lparr>er_id = scheduler_execution_id session, er_session_id = session, er_kind = SchedulerRun,
        er_status = Running, er_label = (case label of Some l \<Rightarrow> Some l | None \<Rightarrow> Some ''Scheduler run''),
        er_parent_id = Some (prompt_execution_id session), er_stage_id = None,
        er_waiting_on = Some ''model'', er_recent_event = Some ''Scheduler orchestration started'',
        er_started_at = clock 0, er_updated_at = clock 1, er_metadata = None\<rparr>
       (reg\<lparr>scheduler_tokens := AList.update session token (scheduler_tokens reg)\<rparr>)"

definition cancelling_patch :: "'v ExecutionPatch" where
  "cancelling_patch = patch_default\<lparr>ep_status := Some Cancelling,
     ep_recent_event := Set ''Cancellation requested''\<rparr>"

definition request_scheduler_cancel ::
    "i64 \<Rightarrow> string \<Rightarrow> ('v, 't, 'c) RuntimeControlRegistry \<Rightarrow> bool \<times> ('v, 't, 'c) RuntimeControlRegistry" where
  "request_scheduler_cancel now session reg =
     (case map_of (scheduler_tokens reg) session of
        None \<Rightarrow> (False, reg)
      | Some token \<Rightarrow>
          (True, update_execution now (scheduler_execution_id session) cancelling_patch
                   (reg\<lparr>cancelled := List.insert token (cancelled reg)\<rparr>)))"

text \<open>One pass over the records adds those whose parent is retired; passes repeat until none is added.\<close>

definition retire_pass :: "string \<Rightarrow> 'v ExecutionRecord list \<Rightarrow> string list \<Rightarrow> string list" where
  "retire_pass session records retired =
     foldl (\<lambda>ids r.
         if er_session_id r = session \<and> (case er_parent_id r of Some p \<Rightarrow> p \<in> set ids | None \<Rightarrow> False)
         then (if er_id r \<in> set ids then ids else ids @ [er_id r]) else ids) retired records"

lemma retire_pass_Nil [simp]: "retire_pass session [] ids = ids"
  by (simp add: retire_pass_def)

lemma retire_pass_Cons [simp]:
  "retire_pass session (r # rs) ids = retire_pass session rs
     (if er_session_id r = session \<and> (case er_parent_id r of Some p \<Rightarrow> p \<in> set ids | None \<Rightarrow> False)
         \<and> er_id r \<notin> set ids
      then ids @ [er_id r] else ids)"
  by (simp add: retire_pass_def)

lemma retire_pass_extends:
  "\<exists>new. retire_pass session records ids = ids @ new \<and> set new \<subseteq> er_id ` set records - set ids"
proof (induction records arbitrary: ids)
  case (Cons r records)
  define ids' where "ids' = (if er_session_id r = session
      \<and> (case er_parent_id r of Some p \<Rightarrow> p \<in> set ids | None \<Rightarrow> False) \<and> er_id r \<notin> set ids
    then ids @ [er_id r] else ids)"
  from Cons [of ids'] obtain new where
    "retire_pass session records ids' = ids' @ new" "set new \<subseteq> er_id ` set records - set ids'" by blast
  then show ?case by (auto simp: ids'_def split: if_splits)
qed simp

function retire_loop :: "string \<Rightarrow> 'v ExecutionRecord list \<Rightarrow> string list \<Rightarrow> string list" where
  "retire_loop session records retired =
     (let more = retire_pass session records retired
      in if length more = length retired then more else retire_loop session records more)"
  by pat_completeness auto
termination
proof (relation "measure (\<lambda>(_, records, ids). card (er_id ` set records - set ids))")
  fix session records ids more
  assume more: "more = retire_pass session (records :: 'v ExecutionRecord list) ids" "length more \<noteq> length ids"
  then obtain x new where "more = ids @ x # new" "x \<in> er_id ` set records - set ids"
    using retire_pass_extends [of session records ids] by (metis append_Nil2 insert_subset list.exhaust list.simps(15))
  then have "er_id ` set records - set more \<subset> er_id ` set records - set ids" by auto
  then show "((session, records, more), session, records, ids)
      \<in> measure (\<lambda>(_, records, ids). card (er_id ` set records - set ids))"
    by (simp add: psubset_card_mono)
qed simp

declare retire_loop.simps [simp del]

definition finish_scheduler_run ::
    "i64 \<Rightarrow> string \<Rightarrow> ('v, 't, 'c) RuntimeControlRegistry \<Rightarrow> ('v, 't, 'c) RuntimeControlRegistry" where
  "finish_scheduler_run now session reg =
     (let reg = reg\<lparr>scheduler_tokens := AList.delete session (scheduler_tokens reg)\<rparr>;
          retired = retire_loop session (map snd (executions reg)) [scheduler_execution_id session];
          changed = List.map_filter (\<lambda>i. case map_of (executions reg) i of
              Some r \<Rightarrow> if er_status r \<noteq> Done then Some (context_of r) else None | None \<Rightarrow> None) retired;
          reg = reg\<lparr>executions := map (\<lambda>(i, r).
              (i, if i \<in> set retired \<and> er_status r \<noteq> Done then retire_record now r else r)) (executions reg)\<rparr>;
          reg = reg\<lparr>execution_tokens := filter (\<lambda>(i, _). i \<notin> set retired) (execution_tokens reg)\<rparr>;
          reg = fold notify_topology_changed changed reg
      in cleanup_done_executions session reg)"

definition register_scheduler_node ::
    "'v json_api \<Rightarrow> (nat \<Rightarrow> i64) \<Rightarrow> string \<Rightarrow> string
       \<Rightarrow> ('v, 't, 'c) RuntimeControlRegistry \<Rightarrow> ('v, 't, 'c) RuntimeControlRegistry" where
  "register_scheduler_node js clock session path reg =
     update_execution (clock 2) (scheduler_execution_id session)
       (patch_default\<lparr>ep_recent_event := Set (''Node started: '' @ path), ep_waiting_on := Set ''model''\<rparr>)
       (upsert_execution
          \<lparr>er_id = scheduler_node_execution_id session path, er_session_id = session,
           er_kind = SchedulerNode, er_status = Running, er_label = Some path,
           er_parent_id = Some (scheduler_execution_id session), er_stage_id = None,
           er_waiting_on = Some ''model'', er_recent_event = Some ''Node started'',
           er_started_at = clock 0, er_updated_at = clock 1,
           er_metadata = Some (js_object js [(''path'', js_str js path)])\<rparr> reg)"

definition update_scheduler_node where
  "update_scheduler_node now session path patch reg =
     update_execution now (scheduler_node_execution_id session path) patch reg"

definition update_scheduler_run where
  "update_scheduler_run now session patch reg =
     update_execution now (scheduler_execution_id session) patch reg"

definition finish_scheduler_node where
  "finish_scheduler_node now session path reg =
     finish_execution now (scheduler_node_execution_id session path) reg"

section \<open>Tool calls\<close>

definition register_tool_call_with_token ::
    "'v json_api \<Rightarrow> (nat \<Rightarrow> i64) \<Rightarrow> string \<Rightarrow> string \<Rightarrow> string \<Rightarrow> string option \<Rightarrow> string option \<Rightarrow> 't option
       \<Rightarrow> ('v, 't, 'c) RuntimeControlRegistry \<Rightarrow> ('v, 't, 'c) RuntimeControlRegistry" where
  "register_tool_call_with_token js clock tool_call session tool_name parent stage token reg =
     (let i = tool_call_execution_id tool_call;
          reg = (case token of
            Some t \<Rightarrow> reg\<lparr>execution_tokens := AList.update i t (execution_tokens reg)\<rparr> | None \<Rightarrow> reg)
      in upsert_execution
           \<lparr>er_id = i, er_session_id = session, er_kind = ToolCallRun, er_status = Running,
            er_label = Some (''Tool: '' @ tool_name), er_parent_id = parent, er_stage_id = stage,
            er_waiting_on = Some ''tool'', er_recent_event = Some (tool_name @ '' running''),
            er_started_at = clock 0, er_updated_at = clock 1,
            er_metadata = Some (js_object js [(''tool_call_id'', js_str js tool_call),
              (''tool_name'', js_str js tool_name)])\<rparr> reg)"

definition register_tool_call where
  "register_tool_call js clock tool_call session tool_name parent stage reg =
     register_tool_call_with_token js clock tool_call session tool_name parent stage None reg"

definition finish_tool_call ::
    "i64 \<Rightarrow> string \<Rightarrow> ('v, 't, 'c) RuntimeControlRegistry \<Rightarrow> ('v, 't, 'c) RuntimeControlRegistry" where
  "finish_tool_call now tool_call reg =
     (let i = tool_call_execution_id tool_call
      in finish_execution now i (reg\<lparr>execution_tokens := AList.delete i (execution_tokens reg)\<rparr>))"

section \<open>Questions\<close>

definition register_question ::
    "'v json_api \<Rightarrow> (nat \<Rightarrow> i64) \<Rightarrow> string \<Rightarrow> 'c \<Rightarrow> string \<Rightarrow> QuestionItemInfo list
       \<Rightarrow> ('v, 't, 'c) RuntimeControlRegistry \<Rightarrow> QuestionInfo \<times> ('v, 't, 'c) RuntimeControlRegistry" where
  "register_question js clock uuid tx session questions reg =
     (let request_id = ''question_'' @ uuid;
          info = \<lparr>qn_id = request_id, qn_session_id = session, qn_items = questions\<rparr>;
          parent = select_question_parent_id (executions reg) session;
          stage = Option.bind parent (\<lambda>p. Option.bind (map_of (executions reg) p) er_stage_id);
          record = \<lparr>er_id = request_id, er_session_id = session, er_kind = Question,
            er_status = Waiting, er_label = Some (''Question ('' @ show_nat (length questions) @ '')''),
            er_parent_id = parent, er_stage_id = stage, er_waiting_on = Some ''user'',
            er_recent_event = Some ''Waiting for user answer'', er_started_at = clock 0,
            er_updated_at = clock 1,
            er_metadata = Some (case js_of_question js info of Some v \<Rightarrow> v | None \<Rightarrow> js_null js)\<rparr>
      in (info, upsert_execution record
                  (reg\<lparr>question_waiters := AList.update request_id tx (question_waiters reg)\<rparr>)))"

definition take_question ::
    "'v json_api \<Rightarrow> string \<Rightarrow> ('v, 't, 'c) RuntimeControlRegistry
       \<Rightarrow> QuestionInfo option \<times> ('v, 't, 'c) RuntimeControlRegistry" where
  "take_question js i reg =
     (case map_of (executions reg) i of
        None \<Rightarrow> (None, reg)
      | Some record \<Rightarrow>
          (case question_record_to_info js record of
             None \<Rightarrow> (None, reg)
           | Some info \<Rightarrow>
               (Some info, notify_topology_changed (context_of record)
                  (reg\<lparr>executions := AList.delete i (executions reg)\<rparr>))))"

definition settle_question ::
    "'v json_api \<Rightarrow> QuestionReply \<Rightarrow> string \<Rightarrow> ('v, 't, 'c) RuntimeControlRegistry
       \<Rightarrow> QuestionInfo option \<times> ('v, 't, 'c) RuntimeControlRegistry" where
  "settle_question js reply i reg =
     (case take_question js i reg of
        (None, reg) \<Rightarrow> (None, reg)
      | (Some info, reg) \<Rightarrow>
          (Some info, case map_of (question_waiters reg) i of
             None \<Rightarrow> reg
           | Some tx \<Rightarrow> reg\<lparr>question_waiters := AList.delete i (question_waiters reg),
               replies := replies reg @ [(tx, reply)]\<rparr>))"

definition answer_question where
  "answer_question js i answers reg = settle_question js (Answers answers) i reg"

definition reject_question where
  "reject_question js i reg = settle_question js Rejected i reg"

definition cancel_question where
  "cancel_question js i reg = settle_question js ReplyCancelled i reg"

definition cancel_questions_for_session ::
    "'v json_api \<Rightarrow> string \<Rightarrow> ('v, 't, 'c) RuntimeControlRegistry
       \<Rightarrow> QuestionInfo list \<times> ('v, 't, 'c) RuntimeControlRegistry" where
  "cancel_questions_for_session js session reg =
     foldl (\<lambda>(cancelled, reg) i. case cancel_question js i reg of
         (None, reg) \<Rightarrow> (cancelled, reg) | (Some info, reg) \<Rightarrow> (cancelled @ [info], reg))
       ([], reg)
       (map er_id (filter (\<lambda>r. er_session_id r = session \<and> er_kind r = Question) (map snd (executions reg))))"

definition list_questions :: "'v json_api \<Rightarrow> ('v, 't, 'c) RuntimeControlRegistry \<Rightarrow> QuestionInfo list" where
  "list_questions js reg = sort_key qn_id (List.map_filter (question_record_to_info js)
     (filter (\<lambda>r. er_status r = Waiting) (map snd (executions reg))))"

definition list_questions_for_session ::
    "'v json_api \<Rightarrow> string \<Rightarrow> ('v, 't, 'c) RuntimeControlRegistry \<Rightarrow> QuestionInfo list" where
  "list_questions_for_session js session reg = sort_key qn_id (List.map_filter (question_record_to_info js)
     (filter (\<lambda>r. er_session_id r = session \<and> er_status r = Waiting) (map snd (executions reg))))"

section \<open>Cancelling an execution\<close>

definition cancel_execution ::
    "'v json_api \<Rightarrow> i64 \<Rightarrow> string \<Rightarrow> ('v, 't, 'c) RuntimeControlRegistry
       \<Rightarrow> ExecutionKind option \<times> ('v, 't, 'c) RuntimeControlRegistry" where
  "cancel_execution js now i reg =
     (case map_of (executions reg) i of
        None \<Rightarrow> (None, reg)
      | Some record \<Rightarrow>
          (Some (er_kind record),
           case er_kind record of
             SchedulerRun \<Rightarrow> snd (request_scheduler_cancel now (er_session_id record) reg)
           | SchedulerNode \<Rightarrow> snd (request_scheduler_cancel now (er_session_id record) reg)
           | Question \<Rightarrow> snd (cancel_question js i reg)
           | ToolCallRun \<Rightarrow>
               update_execution now i cancelling_patch
                 (case map_of (execution_tokens reg) i of
                    Some token \<Rightarrow> reg\<lparr>cancelled := List.insert token (cancelled reg)\<rparr> | None \<Rightarrow> reg)
           | PromptRun \<Rightarrow> reg))"

section \<open>Queries\<close>

definition list_session_execution_records ::
    "string \<Rightarrow> ('v, 't, 'c) RuntimeControlRegistry \<Rightarrow> 'v ExecutionRecord list" where
  "list_session_execution_records session reg =
     filter (\<lambda>r. er_session_id r = session) (map snd (executions reg))"

definition list_all_executions :: "('v, 't, 'c) RuntimeControlRegistry \<Rightarrow> 'v ExecutionRecord list" where
  "list_all_executions reg = map snd (executions reg)"

definition list_active_session_ids :: "('v, 't, 'c) RuntimeControlRegistry \<Rightarrow> string list" where
  "list_active_session_ids reg =
     sort (remdups (map er_session_id (filter (\<lambda>r. er_status r \<noteq> Done) (map snd (executions reg)))))"

definition resolve_stage_id :: "string \<Rightarrow> ('v, 't, 'c) RuntimeControlRegistry \<Rightarrow> string option" where
  "resolve_stage_id i reg = Option.bind (map_of (executions reg) i) er_stage_id"

definition count_active_stage_tools :: "string \<Rightarrow> ('v, 't, 'c) RuntimeControlRegistry \<Rightarrow> u32" where
  "count_active_stage_tools stage reg = of_nat (length
     (filter (\<lambda>r. er_kind r = ToolCallRun \<and> er_stage_id r = Some stage \<and> er_status r \<noteq> Done)
        (map snd (executions reg))))"

section \<open>The execution topology\<close>

definition execution_node :: "'v ExecutionRecord \<Rightarrow> 'v SessionExecutionNode list \<Rightarrow> 'v SessionExecutionNode" where
  "execution_node r children = SessionExecutionNode (er_id r) (er_kind r) (er_status r) (er_label r)
     (er_parent_id r) (er_stage_id r) (er_waiting_on r) (er_recent_event r) (er_started_at r)
     (er_updated_at r) (er_metadata r) children"

definition grouped_count :: "(string \<times> 'v ExecutionRecord list) list \<Rightarrow> nat" where
  "grouped_count m = sum_list (map (length \<circ> snd) m)"

text \<open>
  \<open>build_execution_nodes\<close> builds the nodes of a list of siblings one after the other. Building a node
  takes its children out of the map, so the map shrinks on the way.
\<close>

definition take_children ::
    "string \<Rightarrow> (string \<times> 'v ExecutionRecord list) list \<Rightarrow> 'v ExecutionRecord list" where
  "take_children i m = sort_key execution_sort_key (case map_of m i of Some rs \<Rightarrow> rs | None \<Rightarrow> [])"

lemma grouped_count_take:
  "length (take_children i m) + grouped_count (AList.delete i m) \<le> grouped_count m"
  by (induction m) (auto simp: grouped_count_def take_children_def split: option.split)

function build_execution_nodes ::
    "'v ExecutionRecord list \<Rightarrow> (string \<times> 'v ExecutionRecord list) list
       \<Rightarrow> 'v SessionExecutionNode list \<times> (string \<times> 'v ExecutionRecord list) list" where
  "build_execution_nodes [] m = ([], m)"
| "build_execution_nodes (r # rs) m =
     (case build_execution_nodes (take_children (er_id r) m) (AList.delete (er_id r) m) of
        (children, m1) \<Rightarrow>
          (case build_execution_nodes rs m1 of
             (nodes, m2) \<Rightarrow> (execution_node r children # nodes, m2)))"
  by pat_completeness auto

lemma build_execution_nodes_shrinks:
  "build_execution_nodes_dom (rs, m) \<Longrightarrow>
     grouped_count (snd (build_execution_nodes rs m)) \<le> grouped_count m"
proof (induction rs m rule: build_execution_nodes.pinduct)
  case (2 r rs m)
  obtain children m1 where c: "build_execution_nodes (take_children (er_id r) m) (AList.delete (er_id r) m) = (children, m1)"
    by fastforce
  obtain nodes m2 where n: "build_execution_nodes rs m1 = (nodes, m2)" by fastforce
  have "grouped_count m1 \<le> grouped_count m"
    using 2(2) c grouped_count_take [of "er_id r" m] by simp
  moreover have "grouped_count m2 \<le> grouped_count m1" using 2(3) [OF c [symmetric]] n by simp
  ultimately show ?case using 2(1) c n by (simp add: build_execution_nodes.psimps)
qed (simp add: build_execution_nodes.psimps)

termination build_execution_nodes
proof (relation "measure (\<lambda>(rs, m). length rs + grouped_count m)")
  fix r :: "'v ExecutionRecord" and rs m
  show "((take_children (er_id r) m, AList.delete (er_id r) m), r # rs, m)
      \<in> measure (\<lambda>(rs, m). length rs + grouped_count m)"
    using grouped_count_take [of "er_id r" m] by simp
next
  fix r :: "'v ExecutionRecord" and rs m children m1
  assume x: "(children, m1) = build_execution_nodes (take_children (er_id r) m) (AList.delete (er_id r) m)"
    and dom: "build_execution_nodes_dom (take_children (er_id r) m, AList.delete (er_id r) m)"
  have "grouped_count m1 \<le> grouped_count m"
    using build_execution_nodes_shrinks [OF dom] x grouped_count_take [of "er_id r" m] by (metis add_leD2 order_trans snd_conv)
  then show "((rs, m1), r # rs, m) \<in> measure (\<lambda>(rs, m). length rs + grouped_count m)" by simp
qed simp

definition has_parent :: "'v ExecutionRecord list \<Rightarrow> 'v ExecutionRecord \<Rightarrow> bool" where
  "has_parent records r \<longleftrightarrow>
     (case er_parent_id r of Some p \<Rightarrow> p \<in> er_id ` set records | None \<Rightarrow> False)"

definition children_by_parent ::
    "'v ExecutionRecord list \<Rightarrow> (string \<times> 'v ExecutionRecord list) list" where
  "children_by_parent records = foldl (\<lambda>m r.
       let p = (case er_parent_id r of Some p \<Rightarrow> p | None \<Rightarrow> [])
       in AList.update p ((case map_of m p of Some rs \<Rightarrow> rs | None \<Rightarrow> []) @ [r]) m)
     [] (filter (has_parent records) records)"

definition build_session_execution_topology ::
    "string \<Rightarrow> 'v ExecutionRecord list \<Rightarrow> 'v SessionExecutionTopology" where
  "build_session_execution_topology session records =
     (let count = (\<lambda>s. length (filter (\<lambda>r. er_status r = s) records));
          sorted = sort_key execution_sort_key records
      in \<lparr>top_session_id = session, top_active_count = length records - count Done,
          top_done_count = count Done, top_running_count = count Running,
          top_waiting_count = count Waiting, top_cancelling_count = count Cancelling,
          top_retry_count = count Retry,
          top_updated_at = (if records = [] then None else Some (Max (er_updated_at ` set records))),
          top_roots = fst (build_execution_nodes (filter (\<lambda>r. \<not> has_parent records r) sorted)
             (children_by_parent sorted))\<rparr>)"

definition list_session_execution_topology ::
    "string \<Rightarrow> ('v, 't, 'c) RuntimeControlRegistry \<Rightarrow> 'v SessionExecutionTopology" where
  "list_session_execution_topology session reg =
     build_session_execution_topology session (list_session_execution_records session reg)"

end
