(* ===== verification/Runtime_Topology.thy ===== *)
theory Runtime_Topology
  imports Runtime_Control "HOL-Library.Multiset"
begin

text \<open>
  The execution topology is exactly the forest of the records below its roots, and the subtree of a
  scheduler run is what the search of \<open>finish_scheduler_run\<close> finds.
\<close>

section \<open>The execution topology\<close>

text \<open>All nodes of a tree, each without its children, and the trees whose children name their parent.\<close>

fun nodes_in :: "'v SessionExecutionNode \<Rightarrow> 'v SessionExecutionNode list" where
  "nodes_in (SessionExecutionNode i k s l p st w e t u m cs) =
     SessionExecutionNode i k s l p st w e t u m [] # concat (map nodes_in cs)"

fun well_hung :: "'v SessionExecutionNode \<Rightarrow> bool" where
  "well_hung (SessionExecutionNode i k s l p st w e t u m cs) \<longleftrightarrow>
     (\<forall>c\<in>set cs. node_parent_id c = Some i \<and> well_hung c)
     \<and> sorted (map (\<lambda>c. (node_started_at c, kind_rank (node_kind c), node_id c)) cs)"

abbreviation forest :: "'v SessionExecutionNode list \<Rightarrow> 'v SessionExecutionNode list" where
  "forest ns \<equiv> concat (map nodes_in ns)"

abbreviation bare :: "'v ExecutionRecord \<Rightarrow> 'v SessionExecutionNode" where
  "bare r \<equiv> execution_node r []"

text \<open>A record hangs below a root of the topology.\<close>

inductive rooted :: "'v ExecutionRecord list \<Rightarrow> 'v ExecutionRecord \<Rightarrow> bool" for records where
  root: "r \<in> set records \<Longrightarrow> \<not> has_parent records r \<Longrightarrow> rooted records r"
| child: "rooted records q \<Longrightarrow> r \<in> set records \<Longrightarrow> er_parent_id r = Some (er_id q) \<Longrightarrow> rooted records r"

lemma nodes_in_execution_node [simp]: "nodes_in (execution_node r cs) = bare r # forest cs"
  by (simp add: execution_node_def)

lemma bare_simps [simp]: "node_id (execution_node r cs) = er_id r"
  "node_parent_id (execution_node r cs) = er_parent_id r"
  "node_started_at (execution_node r cs) = er_started_at r"
  "node_kind (execution_node r cs) = er_kind r"
  by (simp_all add: execution_node_def)

lemma well_hung_execution_node:
  "well_hung (execution_node r cs) \<longleftrightarrow>
     (\<forall>c\<in>set cs. node_parent_id c = Some (er_id r) \<and> well_hung c)
     \<and> sorted (map (\<lambda>c. (node_started_at c, kind_rank (node_kind c), node_id c)) cs)"
  by (simp add: execution_node_def)

abbreviation visited :: "'v SessionExecutionNode list \<Rightarrow> string set" where
  "visited ns \<equiv> node_id ` set (forest ns)"

lemma build_leaves:
  "build_execution_nodes rs m = (ns, m2) \<Longrightarrow> m2 = filter (\<lambda>p. fst p \<notin> visited ns) m"
proof (induction rs m arbitrary: ns m2 rule: build_execution_nodes.induct)
  case (2 r rs m)
  obtain cs m1 where c: "build_execution_nodes (take_children (er_id r) m) (AList.delete (er_id r) m) = (cs, m1)"
    by fastforce
  obtain ns' where n: "build_execution_nodes rs m1 = (ns', m2)" and ns: "ns = execution_node r cs # ns'"
    using 2(3) c by (auto split: prod.splits)
  from 2(1) [OF c] 2(2) [OF c [symmetric] n] show ?case
    unfolding ns by (auto simp: AList.delete_eq intro!: filter_cong)
qed simp

definition waiting_records :: "(string \<times> 'v ExecutionRecord list) list \<Rightarrow> 'v ExecutionRecord multiset" where
  "waiting_records m = mset (concat (map snd m))"

lemma waiting_records_take:
  "distinct (map fst m) \<Longrightarrow>
     mset (take_children i m) + waiting_records (AList.delete i m) = waiting_records m"
proof (induction m)
  case (Cons p m)
  obtain k rs where p: "p = (k, rs)" by fastforce
  have "i \<notin> fst ` set m \<Longrightarrow> AList.delete i m = m" by (simp add: delete_idem)
  with Cons show ?case
    by (auto simp: p waiting_records_def take_children_def split: option.splits)
qed (simp add: waiting_records_def take_children_def)

lemma in_take_childrenD: "x \<in> set (take_children i m) \<Longrightarrow> \<exists>cs. (i, cs) \<in> set m \<and> x \<in> set cs"
  by (cases "map_of m i") (auto simp: take_children_def dest!: map_of_SomeD)

lemma build_conserves:
  "distinct (map fst m) \<Longrightarrow> build_execution_nodes rs m = (ns, m2) \<Longrightarrow>
     mset (forest ns) + image_mset bare (waiting_records m2)
       = image_mset bare (mset rs + waiting_records m)"
proof (induction rs m arbitrary: ns m2 rule: build_execution_nodes.induct)
  case (2 r rs m)
  obtain cs m1 where c: "build_execution_nodes (take_children (er_id r) m) (AList.delete (er_id r) m) = (cs, m1)"
    by fastforce
  obtain ns' where n: "build_execution_nodes rs m1 = (ns', m2)" and ns: "ns = execution_node r cs # ns'"
    using 2(4) c by (auto split: prod.splits)
  have d: "distinct (map fst (AList.delete (er_id r) m))" using 2(3) by (simp add: distinct_delete)
  then have d1: "distinct (map fst m1)" using build_leaves [OF c] by (simp add: distinct_map_filter)
  have "mset (forest cs) + image_mset bare (waiting_records m1) = image_mset bare (waiting_records m)"
    using 2(1) [OF d c] waiting_records_take [OF 2(3), of "er_id r"] by simp
  with 2(2) [OF c [symmetric] d1 n] show ?case
    unfolding ns by (simp add: ac_simps)
qed simp

lemma build_visits_only:
  assumes "build_execution_nodes rs m = (ns, m2)" and "\<And>r. r \<in> set rs \<Longrightarrow> P r"
    and "\<And>k cs c q. (k, cs) \<in> set m \<Longrightarrow> c \<in> set cs \<Longrightarrow> P q \<Longrightarrow> er_id q = k \<Longrightarrow> P c"
  shows "\<forall>n\<in>set (forest ns). \<exists>r. P r \<and> n = bare r"
  using assms
proof (induction rs m arbitrary: ns m2 rule: build_execution_nodes.induct)
  case (2 r rs m)
  obtain cs m1 where c: "build_execution_nodes (take_children (er_id r) m) (AList.delete (er_id r) m) = (cs, m1)"
    by fastforce
  obtain ns' where n: "build_execution_nodes rs m1 = (ns', m2)" and ns: "ns = execution_node r cs # ns'"
    using 2(3) c by (auto split: prod.splits)
  have "P c" if "c \<in> set (take_children (er_id r) m)" for c
    using that 2(4) [of r] 2(5) by (auto dest!: in_take_childrenD)
  moreover have "set (AList.delete (er_id r) m) \<subseteq> set m" by (auto simp: AList.delete_eq)
  ultimately have "\<forall>n\<in>set (forest cs). \<exists>r. P r \<and> n = bare r"
    using 2(5) by (intro 2(1) [OF c]) blast+
  moreover have "set m1 \<subseteq> set m" using build_leaves [OF c] by (auto simp: AList.delete_eq)
  then have "\<forall>n\<in>set (forest ns'). \<exists>r. P r \<and> n = bare r"
    using 2(4,5) by (intro 2(2) [OF c [symmetric] n]) (metis list.set_intros(2), blast)
  ultimately show ?case using 2(4) [of r] by (auto simp: ns)
qed simp

lemma build_in_order:
  "build_execution_nodes rs m = (ns, m2) \<Longrightarrow> list_all2 (\<lambda>r n. \<exists>cs. n = execution_node r cs) rs ns"
proof (induction rs m arbitrary: ns m2 rule: build_execution_nodes.induct)
  case (2 r rs m)
  then show ?case by (auto split: prod.splits)
qed simp

lemma list_all2_memberD: "list_all2 P xs ys \<Longrightarrow> x \<in> set xs \<Longrightarrow> \<exists>y\<in>set ys. P x y"
  by (induction rule: list_all2_induct) auto

lemma list_all2_memberD2: "list_all2 P xs ys \<Longrightarrow> y \<in> set ys \<Longrightarrow> \<exists>x\<in>set xs. P x y"
  by (induction rule: list_all2_induct) auto

lemma build_well_hung:
  assumes "build_execution_nodes rs m = (ns, m2)"
    and "\<And>k cs c. (k, cs) \<in> set m \<Longrightarrow> c \<in> set cs \<Longrightarrow> er_parent_id c = Some k"
  shows "\<forall>n\<in>set ns. well_hung n"
  using assms
proof (induction rs m arbitrary: ns m2 rule: build_execution_nodes.induct)
  case (2 r rs m)
  obtain cs m1 where c: "build_execution_nodes (take_children (er_id r) m) (AList.delete (er_id r) m) = (cs, m1)"
    by fastforce
  obtain ns' where n: "build_execution_nodes rs m1 = (ns', m2)" and ns: "ns = execution_node r cs # ns'"
    using 2(3) c by (auto split: prod.splits)
  have "\<forall>n\<in>set cs. well_hung n"
    using 2(4) by (intro 2(1) [OF c]) (auto simp: AList.delete_eq)
  moreover have "set m1 \<subseteq> set m" using build_leaves [OF c] by (auto simp: AList.delete_eq)
  then have "\<forall>n\<in>set ns'. well_hung n" using 2(4) by (intro 2(2) [OF c [symmetric] n]) auto
  moreover have "\<forall>x\<in>set (take_children (er_id r) m). er_parent_id x = Some (er_id r)"
    using 2(4) by (auto dest!: in_take_childrenD)
  moreover have "map (\<lambda>c. (node_started_at c, kind_rank (node_kind c), node_id c)) cs
    = map execution_sort_key (take_children (er_id r) m)"
    using build_in_order [OF c]
    by (auto simp: list_all2_conv_all_nth execution_sort_key_def intro!: nth_equalityI)
  moreover have "sorted (map execution_sort_key (take_children (er_id r) m))"
    unfolding take_children_def by (rule sorted_sort_key)
  moreover have "\<forall>n\<in>set cs. \<exists>x\<in>set (take_children (er_id r) m). node_parent_id n = er_parent_id x"
    using list_all2_memberD2 [OF build_in_order [OF c]] by fastforce
  ultimately show ?case by (simp add: ns well_hung_execution_node)
qed simp

text \<open>The map from parents to children holds each record that has a parent, under that parent.\<close>

definition group_step ::
    "(string \<times> 'v ExecutionRecord list) list \<Rightarrow> 'v ExecutionRecord \<Rightarrow> (string \<times> 'v ExecutionRecord list) list" where
  "group_step m r = (let p = (case er_parent_id r of Some p \<Rightarrow> p | None \<Rightarrow> [])
     in AList.update p ((case map_of m p of Some rs \<Rightarrow> rs | None \<Rightarrow> []) @ [r]) m)"

lemma children_by_parent_fold:
  "children_by_parent records = foldl group_step [] (filter (has_parent records) records)"
  by (simp add: children_by_parent_def group_step_def [abs_def])

lemma waiting_records_update:
  "distinct (map fst m) \<Longrightarrow>
     waiting_records (AList.update p ((case map_of m p of Some rs \<Rightarrow> rs | None \<Rightarrow> []) @ [r]) m)
       = add_mset r (waiting_records m)"
  by (induction m) (auto simp: waiting_records_def)

lemma group_distinct: "distinct (map fst m) \<Longrightarrow> distinct (map fst (foldl group_step m rs))"
  by (induction rs arbitrary: m) (simp_all add: group_step_def Let_def distinct_update)

lemma group_waiting:
  "distinct (map fst m) \<Longrightarrow> waiting_records (foldl group_step m rs) = waiting_records m + mset rs"
  by (induction rs arbitrary: m)
    (simp_all add: group_step_def Let_def distinct_update waiting_records_update)

lemma group_keys:
  assumes "\<And>k cs c. (k, cs) \<in> set m \<Longrightarrow> c \<in> set cs \<Longrightarrow> er_parent_id c = Some k"
    and "\<And>r. r \<in> set rs \<Longrightarrow> er_parent_id r \<noteq> None" and "distinct (map fst m)"
    and "(k, cs) \<in> set (foldl group_step m rs)" and "c \<in> set cs"
  shows "er_parent_id c = Some k"
  using assms
proof (induction rs arbitrary: m)
  case (Cons r rs)
  from Cons.prems(2) [of r] obtain p where p: "er_parent_id r = Some p" by auto
  have d: "distinct (map fst (group_step m r))"
    using Cons.prems(3) by (simp add: group_step_def Let_def distinct_update)
  have "er_parent_id c' = Some k'" if "(k', cs') \<in> set (group_step m r)" "c' \<in> set cs'" for k' cs' c'
  proof -
    from that(1) d have "map_of (group_step m r) k' = Some cs'" by simp
    then show ?thesis
      using that(2) Cons.prems(1) p
      by (auto simp: group_step_def update_conv split: if_splits option.splits dest!: map_of_SomeD)
  qed
  then show ?case using Cons.prems d by (intro Cons.IH [of "group_step m r"]) auto
qed simp

lemma children_by_parent_keys:
  assumes "(k, cs) \<in> set (children_by_parent records)" and "c \<in> set cs"
  shows "er_parent_id c = Some k"
proof (rule group_keys [of "[]"])
  show "(k, cs) \<in> set (foldl group_step [] (filter (has_parent records) records))"
    using assms(1) by (simp add: children_by_parent_fold)
qed (use assms(2) in \<open>auto simp: has_parent_def split: option.splits\<close>)

lemma children_by_parent_waiting:
  "distinct (map fst (children_by_parent records))"
  "waiting_records (children_by_parent records) = mset (filter (has_parent records) records)"
  using group_waiting [of "[]" "filter (has_parent records) records"]
  by (simp_all add: children_by_parent_fold group_distinct) (simp add: waiting_records_def)

lemma children_by_parent_member:
  assumes "(k, cs) \<in> set (children_by_parent records)" and "c \<in> set cs"
  shows "c \<in> set records"
proof -
  have "c \<in># waiting_records (children_by_parent records)" using assms by (force simp: waiting_records_def)
  then show ?thesis by (simp add: children_by_parent_waiting)
qed

lemma has_parent_cong: "set xs = set ys \<Longrightarrow> has_parent xs = has_parent ys"
  unfolding has_parent_def [abs_def] by (simp only:)

lemma image_mset_filter_id:
  "image_mset bare (filter_mset (\<lambda>r. er_id r \<in> V) M) = filter_mset (\<lambda>n. node_id n \<in> V) (image_mset bare M)"
  by (simp add: filter_mset_image_mset)

lemma topology_exact:
  assumes "distinct (map er_id records)"
    and build: "build_execution_nodes (filter (\<lambda>r. \<not> has_parent records r) records)
      (children_by_parent records) = (ns, m2)"
  shows "mset (forest ns) = image_mset bare (filter_mset (rooted records) (mset records))"
proof -
  let ?V = "visited ns"
  let ?m = "children_by_parent records"
  have m2: "m2 = filter (\<lambda>p. fst p \<notin> ?V) ?m" by (rule build_leaves [OF build])
  have total: "mset (forest ns) + image_mset bare (waiting_records m2) = image_mset bare (mset records)"
    using build_conserves [OF children_by_parent_waiting(1) build] children_by_parent_waiting(2) [of records]
    by (metis add.commute image_mset_union mset_filter multiset_partition)
  have once: "count (image_mset node_id (mset (forest ns) + image_mset bare (waiting_records m2))) i \<le> 1" for i
  proof -
    have "image_mset node_id (image_mset bare (mset records)) = mset (map er_id records)"
      by (simp add: image_mset.compositionality comp_def)
    then show ?thesis unfolding total using assms(1) by (simp add: distinct_count_atmost_1)
  qed
  have apart: "node_id n \<notin> ?V" if "n \<in># image_mset bare (waiting_records m2)" for n
  proof
    assume "node_id n \<in> ?V"
    then have "0 < count (image_mset node_id (mset (forest ns))) (node_id n)"
      by (metis count_greater_zero_iff set_image_mset set_mset_mset)
    moreover have "0 < count (image_mset node_id (image_mset bare (waiting_records m2))) (node_id n)"
      using that by (metis count_greater_zero_iff image_eqI set_image_mset)
    ultimately show False using once [of "node_id n"] by (simp only: image_mset_union plus_multiset.rep_eq)
  qed
  have visits: "\<forall>n\<in>set (forest ns). \<exists>r. rooted records r \<and> n = bare r"
    by (rule build_visits_only [OF build])
      (auto intro: rooted.intros dest: children_by_parent_keys children_by_parent_member)
  have reached: "er_id r \<in> ?V" if "rooted records r" for r
    using that
  proof induction
    case (root r)
    then have "r \<in> set (filter (\<lambda>r. \<not> has_parent records r) records)" by simp
    then obtain cs where "execution_node r cs \<in> set ns"
      using list_all2_memberD [OF build_in_order [OF build]] by fastforce
    moreover have "bare r \<in> set (nodes_in (execution_node r cs))" by simp
    ultimately have "bare r \<in> set (forest ns)" unfolding set_concat set_map by blast
    then show ?case by (metis bare_simps(1) image_eqI)
  next
    case (child q r)
    have "bare r \<in># mset (forest ns) + image_mset bare (waiting_records m2)"
      unfolding total using child(2) by simp
    moreover have "bare r \<notin># image_mset bare (waiting_records m2)"
    proof
      assume "bare r \<in># image_mset bare (waiting_records m2)"
      then obtain k cs c where c: "(k, cs) \<in> set m2" "c \<in> set cs" and eq: "bare r = bare c"
        by (auto simp: waiting_records_def)
      have "er_parent_id c = Some k" using c m2 by (intro children_by_parent_keys) auto
      moreover have "er_parent_id c = Some (er_id q)" using child(3) arg_cong [OF eq, of node_parent_id] by simp
      ultimately show False using c(1) m2 child.IH by auto
    qed
    ultimately have "bare r \<in> set (forest ns)" by (metis set_mset_mset union_iff)
    then show ?case by (metis bare_simps(1) image_eqI)
  qed
  have rooted_iff: "er_id r \<in> ?V \<longleftrightarrow> rooted records r" if "r \<in> set records" for r
  proof
    assume "er_id r \<in> ?V"
    with visits obtain r' where "rooted records r'" "er_id r' = er_id r" by force
    moreover from this(1) have "r' \<in> set records" by cases
    ultimately show "rooted records r" using that assms(1) by (metis distinct_map inj_onD)
  qed (rule reached)
  have "filter_mset (\<lambda>n. node_id n \<in> ?V) (image_mset bare (waiting_records m2)) = {#}"
    using apart by (intro multiset_eqI) (metis count_empty count_filter_mset not_in_iff)
  moreover have "filter_mset (\<lambda>n. node_id n \<in> ?V) (mset (forest ns)) = mset (forest ns)"
    unfolding mset_filter [symmetric] by (intro arg_cong [where f = mset] filter_True) blast
  ultimately have "mset (forest ns) = filter_mset (\<lambda>n. node_id n \<in> ?V)
      (mset (forest ns) + image_mset bare (waiting_records m2))" by (simp only: filter_union_mset add_0_right)
  also have "\<dots> = image_mset bare (filter_mset (\<lambda>r. er_id r \<in> ?V) (mset records))"
    unfolding total image_mset_filter_id ..
  also have "\<dots> = image_mset bare (filter_mset (rooted records) (mset records))"
    using rooted_iff by (intro arg_cong [where f = "image_mset bare"] filter_mset_cong) auto
  finally show ?thesis .
qed

lemma rooted_transfer: "rooted xs r \<Longrightarrow> set xs = set ys \<Longrightarrow> rooted ys r"
proof (induction rule: rooted.induct)
  case (root r)
  then show ?case using has_parent_cong [of xs ys] by (auto intro: rooted.root)
qed (auto intro: rooted.child)

lemma rooted_cong: "set xs = set ys \<Longrightarrow> rooted xs = rooted ys"
  by (rule ext) (metis rooted_transfer)

text \<open>
  \<^bold>\<open>Note.\<close> The topology shows every record that hangs below a root exactly once and nothing else, with
  all its fields, each child below the node its parent link names and siblings in the order of their
  start, kind and identifier. Records whose parent links form a cycle, and what hangs below them, are
  counted but not shown.
\<close>

theorem topology_shows_rooted_records:
  assumes "distinct (map er_id records)"
  shows "mset (forest (top_roots (build_session_execution_topology session records)))
      = image_mset bare (filter_mset (rooted records) (mset records))
    \<and> (\<forall>n\<in>set (top_roots (build_session_execution_topology session records)).
         well_hung n \<and> (\<forall>p. node_parent_id n = Some p \<longrightarrow> p \<notin> er_id ` set records))"
proof -
  let ?s = "sort_key execution_sort_key records"
  obtain ns m2 where b: "build_execution_nodes (filter (\<lambda>r. \<not> has_parent ?s r) ?s) (children_by_parent ?s) = (ns, m2)"
    by fastforce
  have sets: "set ?s = set records" by simp
  have roots: "top_roots (build_session_execution_topology session records) = ns"
    using b has_parent_cong [OF sets] by (simp add: build_session_execution_topology_def Let_def)
  have "distinct (map er_id ?s)"
    using assms by (metis distinct_map distinct_sort mset_sort set_mset_mset mset_eq_imp_distinct_iff sets)
  from topology_exact [OF this b] have "mset (forest ns) = image_mset bare (filter_mset (rooted records) (mset records))"
    by (simp add: rooted_cong [OF sets])
  moreover have "\<forall>n\<in>set ns. well_hung n"
    by (rule build_well_hung [OF b children_by_parent_keys])
  moreover have "\<forall>n\<in>set ns. \<forall>p. node_parent_id n = Some p \<longrightarrow> p \<notin> er_id ` set records"
  proof (intro ballI allI impI)
    fix n p assume n: "n \<in> set ns" "node_parent_id n = Some p"
    from list_all2_memberD2 [OF build_in_order [OF b] n(1)]
    obtain r cs where "\<not> has_parent ?s r" "n = execution_node r cs" by auto
    with n(2) show "p \<notin> er_id ` set records" by (auto simp: has_parent_def)
  qed
  ultimately show ?thesis unfolding roots by blast
qed

text \<open>
  \<^bold>\<open>Note.\<close> The topology does not depend on the order in which the registry iterates over its records.
\<close>

theorem topology_order_irrelevant:
  assumes "distinct (map er_id records)" and "mset records = mset records'"
  shows "build_session_execution_topology session records = build_session_execution_topology session records'"
proof -
  have inj: "inj_on execution_sort_key (set records)"
    using assms(1) by (auto simp: inj_on_def distinct_map execution_sort_key_def)
  have "sort_key execution_sort_key records = sort_key execution_sort_key records'"
    by (rule sort_key_inj_key_eq) (use assms(2) inj in \<open>auto dest: mset_eq_setD\<close>)
  moreover have sets: "set records = set records'" using assms(2) by (metis set_mset_mset)
  moreover have "length (filter P records) = length (filter P records')" for P
    using assms(2) by (metis mset_filter size_mset)
  moreover have "length records = length records'" using assms(2) by (metis size_mset)
  moreover have "records = [] \<longleftrightarrow> records' = []" using assms(2) by auto
  ultimately show ?thesis
    using has_parent_cong [OF sets] by (simp add: build_session_execution_topology_def Let_def)
qed

section \<open>The subtree of a scheduler run\<close>

inductive below :: "string \<Rightarrow> 'v ExecutionRecord list \<Rightarrow> string \<Rightarrow> string \<Rightarrow> bool" for session records root where
  self: "below session records root root"
| child: "below session records root p \<Longrightarrow> r \<in> set records \<Longrightarrow> er_session_id r = session
    \<Longrightarrow> er_parent_id r = Some p \<Longrightarrow> below session records root (er_id r)"

lemma retire_pass_sound:
  assumes "\<And>i. i \<in> set ids \<Longrightarrow> below session records root i" and "set rs \<subseteq> set records"
    and "i \<in> set (retire_pass session rs ids)"
  shows "below session records root i"
  using assms
proof (induction rs arbitrary: ids)
  case (Cons q rs)
  define ids' where "ids' = (if er_session_id q = session
      \<and> (case er_parent_id q of Some p \<Rightarrow> p \<in> set ids | None \<Rightarrow> False) \<and> er_id q \<notin> set ids
    then ids @ [er_id q] else ids)"
  have "below session records root j" if "j \<in> set ids'" for j
    using that Cons.prems(1,2) below.child [of session records root _ q]
    by (auto simp: ids'_def split: if_splits option.splits)
  then show ?case
    using Cons.prems(2,3) by (intro Cons.IH [of ids']) (auto simp: ids'_def)
qed simp

lemma retire_pass_closed:
  assumes "set (retire_pass session rs ids) \<subseteq> set ids"
    and "r \<in> set rs" and "er_session_id r = session" and "er_parent_id r = Some p" and "p \<in> set ids"
  shows "er_id r \<in> set ids"
  using assms
proof (induction rs)
  case (Cons q rs)
  define ids' where "ids' = (if er_session_id q = session
      \<and> (case er_parent_id q of Some p \<Rightarrow> p \<in> set ids | None \<Rightarrow> False) \<and> er_id q \<notin> set ids
    then ids @ [er_id q] else ids)"
  have "set ids' \<subseteq> set (retire_pass session rs ids')"
    using retire_pass_extends [of session rs ids'] by auto
  with Cons.prems(1) have "ids' = ids" by (auto simp: ids'_def split: if_splits)
  with Cons show ?case by (auto simp: ids'_def split: if_splits)
qed simp

lemma retire_loop_exact:
  assumes "root \<in> set ids" and "\<And>i. i \<in> set ids \<Longrightarrow> below session records root i"
  shows "set (retire_loop session records ids) = {i. below session records root i}"
  using assms
proof (induction session records ids rule: retire_loop.induct)
  case (1 session records ids)
  let ?more = "retire_pass session records ids"
  obtain new where new: "?more = ids @ new" using retire_pass_extends [of session records ids] by blast
  have sound: "\<And>i. i \<in> set ?more \<Longrightarrow> below session records root i"
    using retire_pass_sound [of ids session records root records] 1(3) by blast
  show ?case
  proof (cases "length ?more = length ids")
    case True
    then have eq: "?more = ids" using new by simp
    have "i \<in> set ids" if "below session records root i" for i
      using that by induction (use 1(2) retire_pass_closed [of session records ids] eq in auto)
    then show ?thesis using True eq 1(3) by (subst retire_loop.simps) (auto simp: Let_def)
  next
    case False
    then show ?thesis
      using 1(1) [OF refl False] sound 1(2) new by (subst retire_loop.simps) (simp add: Let_def)
  qed
qed

end
