(* ===== verification/Runtime_Properties.thy ===== *)
theory Runtime_Properties
  imports Runtime_Topology
begin

text \<open>
  Properties of the registry of executions over arbitrary sequences of its operations. The locale
  \<open>record_invariant\<close> is the contract of an invariant of the records; it is used for the invariant
  that ties the identifier of a record to its kind and session.
\<close>

section \<open>Invariants of the records\<close>

text \<open>
  The contract of a record invariant: what patching, retiring and restarting a record keep. Every
  operation of the registry keeps the invariant of all records, provided the records it creates
  satisfy it.
\<close>

definition store_ok :: "('v ExecutionRecord \<Rightarrow> bool) \<Rightarrow> ('v, 't, 'c) RuntimeControlRegistry \<Rightarrow> bool" where
  "store_ok ok reg \<longleftrightarrow> distinct (map fst (executions reg))
     \<and> (\<forall>(i, r)\<in>set (executions reg). er_id r = i \<and> ok r)"

lemma notify_simps [simp]:
  "executions (notify_topology_changed c reg) = executions reg"
  "scheduler_tokens (notify_topology_changed c reg) = scheduler_tokens reg"
  "execution_tokens (notify_topology_changed c reg) = execution_tokens reg"
  "question_waiters (notify_topology_changed c reg) = question_waiters reg"
  "cancelled (notify_topology_changed c reg) = cancelled reg"
  "replies (notify_topology_changed c reg) = replies reg"
  by (simp_all add: notify_topology_changed_def)

lemma fold_notify [simp]:
  "executions (fold notify_topology_changed cs reg) = executions reg"
  "scheduler_tokens (fold notify_topology_changed cs reg) = scheduler_tokens reg"
  "execution_tokens (fold notify_topology_changed cs reg) = execution_tokens reg"
  "question_waiters (fold notify_topology_changed cs reg) = question_waiters reg"
  "cancelled (fold notify_topology_changed cs reg) = cancelled reg"
  "replies (fold notify_topology_changed cs reg) = replies reg"
  by (induction cs arbitrary: reg) simp_all

lemma store_ok_executions: "executions reg = executions reg' \<Longrightarrow> store_ok ok reg \<longleftrightarrow> store_ok ok reg'"
  by (simp add: store_ok_def)

lemma store_ok_lookup: "store_ok ok reg \<Longrightarrow> map_of (executions reg) i = Some r \<Longrightarrow> er_id r = i \<and> ok r"
  by (auto simp: store_ok_def dest!: map_of_SomeD)

lemma store_ok_filter:
  "store_ok ok reg \<Longrightarrow> executions reg' = filter P (executions reg) \<Longrightarrow> store_ok ok reg'"
  by (auto simp: store_ok_def distinct_map_filter)

lemma store_ok_map:
  assumes "store_ok ok reg" and "executions reg' = map (\<lambda>(i, r). (i, f i r)) (executions reg)"
    and "\<And>i r. ok r \<Longrightarrow> ok (f i r) \<and> er_id (f i r) = er_id r"
  shows "store_ok ok reg'"
  using assms by (fastforce simp: store_ok_def comp_def case_prod_unfold)

lemma map_fst_map_entry [simp]: "map fst (AList.map_entry k f m) = map fst m"
  by (induction m) auto

lemma in_map_entryD: "(i, r) \<in> set (AList.map_entry k f m) \<Longrightarrow> (i, r) \<in> set m \<or> (\<exists>r'. (i, r') \<in> set m \<and> r = f r')"
  by (induction m) (auto split: if_splits)

lemma store_ok_map_entry:
  assumes "store_ok ok reg" and "executions reg' = AList.map_entry k f (executions reg)"
    and "\<And>r. ok r \<Longrightarrow> ok (f r) \<and> er_id (f r) = er_id r"
  shows "store_ok ok reg'"
  using assms by (fastforce simp: store_ok_def dest!: in_map_entryD)

lemma set_update_subset: "set (AList.update k v m) \<subseteq> insert (k, v) (set m)"
  by (induction m) auto

lemma patch_record_keeps [simp]:
  "er_id (patch_record patch now r) = er_id r" "er_session_id (patch_record patch now r) = er_session_id r"
  "er_kind (patch_record patch now r) = er_kind r" "er_parent_id (patch_record patch now r) = er_parent_id r"
  by (simp_all add: patch_record_def)

lemma retire_record_simps [simp]:
  "er_id (retire_record now r) = er_id r" "er_session_id (retire_record now r) = er_session_id r"
  "er_kind (retire_record now r) = er_kind r" "er_parent_id (retire_record now r) = er_parent_id r"
  "er_status (retire_record now r) = Done"
  by (simp_all add: retire_record_def)

locale record_invariant =
  fixes ok :: "'v ExecutionRecord \<Rightarrow> bool"
  assumes patched: "ok r \<Longrightarrow> ok (patch_record patch now r)"
    and retired: "ok r \<Longrightarrow> ok (retire_record now r)"
    and restarted: "ok r \<Longrightarrow> ok (r\<lparr>er_started_at := t\<rparr>)"
begin

lemma upsert_ok:
  assumes "store_ok ok reg" and "ok r"
  shows "store_ok ok (upsert_execution r reg)"
proof -
  define nxt where "nxt = (case map_of (executions reg) (er_id r) of
    Some existing \<Rightarrow> r\<lparr>er_started_at := er_started_at existing\<rparr> | None \<Rightarrow> r)"
  have nxt: "ok nxt" "er_id nxt = er_id r" using assms(2) restarted by (auto simp: nxt_def split: option.split)
  have "executions (upsert_execution r reg) = AList.update (er_id nxt) nxt (executions reg)"
    by (simp add: upsert_execution_def nxt_def Let_def)
  with assms(1) nxt show ?thesis
    using set_update_subset [of "er_id nxt" nxt "executions reg"]
    by (auto simp: store_ok_def distinct_update)
qed

lemma update_ok:
  assumes "store_ok ok reg"
  shows "store_ok ok (update_execution now i patch reg)"
proof (cases "map_of (executions reg) i")
  case None
  then show ?thesis using assms by (simp add: update_execution_def)
next
  case (Some r)
  then have "executions (update_execution now i patch reg)
    = AList.map_entry i (patch_record patch now) (executions reg)" by (simp add: update_execution_def)
  from store_ok_map_entry [OF assms this] show ?thesis by (simp add: patched)
qed

lemma finish_ok:
  assumes "store_ok ok reg"
  shows "store_ok ok (finish_execution now i reg)"
proof (cases "map_of (executions reg) i")
  case None
  then show ?thesis using assms by (simp add: finish_execution_def)
next
  case (Some r)
  then have "executions (finish_execution now i reg)
    = AList.map_entry i (retire_record now) (executions reg)" by (simp add: finish_execution_def)
  from store_ok_map_entry [OF assms this] show ?thesis by (simp add: retired)
qed

lemma cleanup_ok: "store_ok ok reg \<Longrightarrow> store_ok ok (cleanup_done_executions session reg)"
  by (erule store_ok_filter) (simp add: cleanup_done_executions_def)

lemma finish_scheduler_run_ok:
  assumes "store_ok ok reg"
  shows "store_ok ok (finish_scheduler_run now session reg)"
  unfolding finish_scheduler_run_def Let_def
  by (intro cleanup_ok, rule store_ok_map [OF assms, where f = "\<lambda>i r.
        if i \<in> set (retire_loop session (map snd (executions reg)) [scheduler_execution_id session])
          \<and> er_status r \<noteq> Done then retire_record now r else r"])
    (auto simp: retired)

lemma cancel_scheduler_ok: "store_ok ok reg \<Longrightarrow> store_ok ok (snd (request_scheduler_cancel now session reg))"
  by (auto simp: request_scheduler_cancel_def store_ok_def [of ok "reg\<lparr>cancelled := c\<rparr>" for c]
      split: option.split intro!: update_ok) (auto simp: store_ok_def)

lemma settle_ok: "store_ok ok reg \<Longrightarrow> store_ok ok (snd (settle_question js reply i reg))"
  by (auto simp: settle_question_def take_question_def AList.delete_eq split: option.splits prod.splits
      elim!: store_ok_filter)

lemma cancel_questions_ok:
  assumes "store_ok ok reg"
  shows "store_ok ok (snd (cancel_questions_for_session js session reg))"
proof -
  have "store_ok ok (snd (foldl (\<lambda>(cancelled, reg) i. case cancel_question js i reg of
      (None, reg) \<Rightarrow> (cancelled, reg) | (Some info, reg) \<Rightarrow> (cancelled @ [info], reg)) (qs, reg') ids))"
    if "store_ok ok reg'" for qs ids reg'
    using that
  proof (induction ids arbitrary: qs reg')
    case (Cons i ids)
    obtain q reg1 where q: "cancel_question js i reg' = (q, reg1)" by fastforce
    then have "store_ok ok reg1" using settle_ok [OF Cons.prems] by (metis cancel_question_def snd_conv)
    then show ?case using Cons.IH q by (cases q) auto
  qed simp
  with assms show ?thesis by (simp add: cancel_questions_for_session_def)
qed

lemma cancel_execution_ok: "store_ok ok reg \<Longrightarrow> store_ok ok (snd (cancel_execution js now i reg))"
  by (auto simp: cancel_execution_def cancel_question_def
      split: option.split ExecutionKind.split intro!: update_ok cancel_scheduler_ok settle_ok)
    (auto simp: store_ok_def)

end

text \<open>
  The identifier of a record tells its kind and, but for tool calls and questions, its session. A prompt
  run has no parent.
\<close>

fun id_matches :: "ExecutionKind \<Rightarrow> string \<Rightarrow> string \<Rightarrow> bool" where
  "id_matches PromptRun session i \<longleftrightarrow> i = prompt_execution_id session"
| "id_matches SchedulerRun session i \<longleftrightarrow> i = scheduler_execution_id session"
| "id_matches SchedulerNode session i \<longleftrightarrow> (\<exists>path. i = scheduler_node_execution_id session path)"
| "id_matches ToolCallRun session i \<longleftrightarrow> (\<exists>call. i = tool_call_execution_id call)"
| "id_matches Question session i \<longleftrightarrow> (\<exists>uuid. i = ''question_'' @ uuid)"

definition identified :: "'v ExecutionRecord \<Rightarrow> bool" where
  "identified r \<longleftrightarrow> id_matches (er_kind r) (er_session_id r) (er_id r) \<and>
     (er_kind r = PromptRun \<longrightarrow> er_parent_id r = None)"

lemmas execution_id_defs = prompt_execution_id_def scheduler_execution_id_def
  scheduler_node_execution_id_def tool_call_execution_id_def

lemma id_matches_prompt: "id_matches k s (prompt_execution_id s') \<longleftrightarrow> k = PromptRun \<and> s = s'"
  by (cases k) (auto simp: execution_id_defs)

lemma id_matches_scheduler: "id_matches k s (scheduler_execution_id s') \<longleftrightarrow> k = SchedulerRun \<and> s = s'"
  by (cases k) (auto simp: execution_id_defs)

lemma id_matches_question: "id_matches k s (''question_'' @ u) \<longleftrightarrow> k = Question"
  by (cases k) (auto simp: execution_id_defs)

interpretation identified: record_invariant identified
  by unfold_locales (simp_all add: identified_def)

abbreviation registry_ok :: "('v, 't, 'c) RuntimeControlRegistry \<Rightarrow> bool" where
  "registry_ok \<equiv> store_ok identified"

section \<open>Sequences of operations\<close>

datatype ('v, 't, 'c) registry_op =
    SetStatus "nat \<Rightarrow> i64" string SessionRunStatus
  | RegisterRun "nat \<Rightarrow> i64" string 't "string option"
  | CancelRun i64 string
  | FinishRun i64 string
  | RegisterNode "nat \<Rightarrow> i64" string string
  | UpdateNode i64 string string "'v ExecutionPatch"
  | UpdateRun i64 string "'v ExecutionPatch"
  | FinishNode i64 string string
  | RegisterTool "nat \<Rightarrow> i64" string string string "string option" "string option" "'t option"
  | FinishTool i64 string
  | RegisterQuestion "nat \<Rightarrow> i64" string 'c string "QuestionItemInfo list"
  | AnswerQuestion string "string list list"
  | RejectQuestion string
  | CancelQuestion string
  | CancelQuestions string
  | CancelExecution i64 string

fun run_op ::
    "'v json_api \<Rightarrow> ('v, 't, 'c) registry_op \<Rightarrow> ('v, 't, 'c) RuntimeControlRegistry \<Rightarrow> ('v, 't, 'c) RuntimeControlRegistry" where
  "run_op js (SetStatus clock s status) = set_session_run_status js clock s status"
| "run_op js (RegisterRun clock s token label) = register_scheduler_run clock s token label"
| "run_op js (CancelRun now s) = snd \<circ> request_scheduler_cancel now s"
| "run_op js (FinishRun now s) = finish_scheduler_run now s"
| "run_op js (RegisterNode clock s path) = register_scheduler_node js clock s path"
| "run_op js (UpdateNode now s path patch) = update_scheduler_node now s path patch"
| "run_op js (UpdateRun now s patch) = update_scheduler_run now s patch"
| "run_op js (FinishNode now s path) = finish_scheduler_node now s path"
| "run_op js (RegisterTool clock call s tool parent stage token) =
     register_tool_call_with_token js clock call s tool parent stage token"
| "run_op js (FinishTool now call) = finish_tool_call now call"
| "run_op js (RegisterQuestion clock uuid tx s qs) = snd \<circ> register_question js clock uuid tx s qs"
| "run_op js (AnswerQuestion i answers) = snd \<circ> answer_question js i answers"
| "run_op js (RejectQuestion i) = snd \<circ> reject_question js i"
| "run_op js (CancelQuestion i) = snd \<circ> cancel_question js i"
| "run_op js (CancelQuestions s) = snd \<circ> cancel_questions_for_session js s"
| "run_op js (CancelExecution now i) = snd \<circ> cancel_execution js now i"

lemma set_status_ok: "registry_ok reg \<Longrightarrow> registry_ok (set_session_run_status js clock s status reg)"
  by (cases status) (auto intro!: identified.upsert_ok identified.cleanup_ok identified.finish_ok
      simp: identified_def prompt_record_def)

lemma run_op_ok:
  assumes "registry_ok reg"
  shows "registry_ok (run_op js x reg)"
proof (cases x)
  case (RegisterTool clock call s tool parent stage token)
  have "registry_ok (case token of Some t \<Rightarrow> reg\<lparr>execution_tokens := f t\<rparr> | None \<Rightarrow> reg)" for f
    using assms by (auto simp: store_ok_def split: option.split)
  then show ?thesis
    unfolding RegisterTool
    by (auto simp: register_tool_call_with_token_def Let_def identified_def intro!: identified.upsert_ok)
next
  case (RegisterQuestion clock uuid tx s qs)
  have "registry_ok (reg\<lparr>question_waiters := q\<rparr>)" for q using assms by (simp add: store_ok_def)
  then show ?thesis
    unfolding RegisterQuestion
    by (auto simp: register_question_def Let_def identified_def intro!: identified.upsert_ok)
next
  case (RegisterRun clock s token label)
  have "registry_ok (reg\<lparr>scheduler_tokens := q\<rparr>)" for q using assms by (simp add: store_ok_def)
  then show ?thesis
    unfolding RegisterRun by (auto simp: register_scheduler_run_def identified_def intro!: identified.upsert_ok)
next
  case (FinishTool now call)
  have "registry_ok (reg\<lparr>execution_tokens := q\<rparr>)" for q using assms by (simp add: store_ok_def)
  then show ?thesis
    unfolding FinishTool by (auto simp: finish_tool_call_def Let_def intro!: identified.finish_ok)
qed (use assms in \<open>auto simp: set_status_ok register_scheduler_node_def update_scheduler_node_def
    update_scheduler_run_def finish_scheduler_node_def answer_question_def reject_question_def
    cancel_question_def identified_def intro!: identified.cancel_scheduler_ok
    identified.finish_scheduler_run_ok identified.upsert_ok identified.update_ok identified.finish_ok
    identified.settle_ok identified.cancel_questions_ok identified.cancel_execution_ok\<close>)

lemma with_topology_callback_ok: "store_ok ok with_topology_callback"
  by (simp add: store_ok_def with_topology_callback_def)

text \<open>
  \<^bold>\<open>Note.\<close> Whatever sequence of operations the registry goes through, each record is stored once,
  under its own identifier, and the identifier tells its kind and session: a session has at most one
  prompt run and one scheduler run.
\<close>

theorem registry_stays_identified:
  "registry_ok (fold (run_op js) ops with_topology_callback)"
  by (rule fold_invariant [where Q = "\<lambda>_. True" and P = registry_ok])
    (simp_all add: with_topology_callback_ok run_op_ok)

section \<open>Finishing a scheduler run\<close>

lemma registry_ok_scheduler:
  assumes "registry_ok reg" and "(scheduler_execution_id session, r) \<in> set (executions reg)"
  shows "er_session_id r = session"
  using assms by (auto simp: store_ok_def identified_def id_matches_scheduler)

lemma below_session:
  assumes "registry_ok reg" and "(i, r) \<in> set (executions reg)"
    and "below session (map snd (executions reg)) (scheduler_execution_id session) i"
  shows "er_session_id r = session"
  using assms(3)
proof cases
  case self
  then show ?thesis using registry_ok_scheduler assms(1,2) by metis
next
  case (child p r')
  then obtain j where "(j, r') \<in> set (executions reg)" by auto
  then have "r' = r" using assms(1,2) child by (auto simp: store_ok_def dest: eq_key_imp_eq_value)
  then show ?thesis using child by simp
qed

lemma finish_scheduler_run_exact:
  assumes "registry_ok reg"
  shows "executions (finish_scheduler_run now session reg) =
      filter (\<lambda>(i, r). \<not> below session (map snd (executions reg)) (scheduler_execution_id session) i
        \<and> \<not> (er_session_id r = session \<and> er_status r = Done)) (executions reg)
    \<and> execution_tokens (finish_scheduler_run now session reg) =
      filter (\<lambda>(i, _). \<not> below session (map snd (executions reg)) (scheduler_execution_id session) i)
        (execution_tokens reg)
    \<and> map_of (scheduler_tokens (finish_scheduler_run now session reg)) = (map_of (scheduler_tokens reg))(session := None)"
proof -
  let ?below = "below session (map snd (executions reg)) (scheduler_execution_id session)"
  have retired: "i \<in> set (retire_loop session (map snd (executions reg)) [scheduler_execution_id session])
      \<longleftrightarrow> ?below i" for i
    using retire_loop_exact [of "scheduler_execution_id session" "[scheduler_execution_id session]" session
        "map snd (executions reg)"] by (auto intro: below.self)
  have "filter (\<lambda>(_, r). \<not> (er_session_id r = session \<and> er_status r = Done))
      (map (\<lambda>(i, r). (i, if ?below i \<and> er_status r \<noteq> Done then retire_record now r else r)) m)
    = filter (\<lambda>(i, r). \<not> ?below i \<and> \<not> (er_session_id r = session \<and> er_status r = Done)) m"
    if "set m \<subseteq> set (executions reg)" for m
    using that below_session [OF assms] by (induction m) (auto split: if_splits)
  then show ?thesis
    by (simp add: finish_scheduler_run_def Let_def cleanup_done_executions_def retired delete_conv')
qed

text \<open>
  \<^bold>\<open>C27.\<close> Finishing a scheduler run removes exactly the records of its subtree, together with the
  records of the session that were done already: the run itself and everything below it, however
  deep, in whatever order the registry iterates over its records and however the search proceeds.
  Every other record stays as it is. The cancellation tokens of the run and of its subtree are
  dropped, and no others.
\<close>

theorem finish_scheduler_run_retires_subtree:
  assumes "registry_ok reg"
  shows "executions (finish_scheduler_run now session reg) =
      filter (\<lambda>(i, r). \<not> below session (map snd (executions reg)) (scheduler_execution_id session) i
        \<and> \<not> (er_session_id r = session \<and> er_status r = Done)) (executions reg)
    \<and> execution_tokens (finish_scheduler_run now session reg) =
      filter (\<lambda>(i, _). \<not> below session (map snd (executions reg)) (scheduler_execution_id session) i)
        (execution_tokens reg)
    \<and> map_of (scheduler_tokens (finish_scheduler_run now session reg)) = (map_of (scheduler_tokens reg))(session := None)"
  using assms by (rule finish_scheduler_run_exact)

section \<open>The status of a session\<close>

text \<open>What the registry relies on from JSON values: reading back what was written.\<close>

definition json_laws :: "'v json_api \<Rightarrow> bool" where
  "json_laws js \<longleftrightarrow>
     (\<forall>kvs k. distinct (map fst kvs) \<longrightarrow> js_get js (js_object js kvs) k = map_of kvs k)
     \<and> (\<forall>s. js_as_str js (js_str js s) = Some s)
     \<and> (\<forall>n. js_as_i64 js (js_i64 js n) = Some n)
     \<and> (\<forall>n. js_as_u64 js (js_u32 js n) = Some (ucast n))
     \<and> (\<forall>q v. js_of_question js q = Some v \<longrightarrow> js_to_question js v = Some q)"

lemma statuses_foldl:
  "foldl (\<lambda>m r. m(er_session_id r \<mapsto> f r)) m rs s =
     (case find (\<lambda>r. er_session_id r = s) (rev rs) of Some r \<Rightarrow> Some (f r) | None \<Rightarrow> m s)"
  by (induction rs arbitrary: m rule: rev_induct) auto

lemma session_run_statuses_lookup:
  assumes "registry_ok reg"
  shows "session_run_statuses js reg s = (case map_of (executions reg) (prompt_execution_id s) of
      Some r \<Rightarrow> if er_status r = Done then None else Some (run_status_of js r) | None \<Rightarrow> None)"
proof -
  let ?live = "\<lambda>r. er_kind r = PromptRun \<and> er_status r \<noteq> Done"
  have key: "(prompt_execution_id s, r) \<in> set (executions reg)"
    if "r \<in> snd ` set (executions reg)" "er_kind r = PromptRun" "er_session_id r = s" for r
    using assms that by (auto simp: store_ok_def identified_def)
  have kind: "er_kind r = PromptRun \<and> er_session_id r = s" if "(prompt_execution_id s, r) \<in> set (executions reg)" for r
    using assms that by (auto simp: store_ok_def identified_def id_matches_prompt)
  have unique: "map_of (executions reg) (prompt_execution_id s) = Some r"
    if "(prompt_execution_id s, r) \<in> set (executions reg)" for r
    using assms that by (simp add: store_ok_def)
  have eq: "find (\<lambda>r. er_session_id r = s) (rev (filter ?live (map snd (executions reg)))) =
    (case map_of (executions reg) (prompt_execution_id s) of
      Some r \<Rightarrow> if er_status r = Done then None else Some r | None \<Rightarrow> None)" (is "?found = ?expected")
  proof (cases ?found)
    case None
    have "er_status r = Done" if "map_of (executions reg) (prompt_execution_id s) = Some r" for r
    proof -
      from map_of_SomeD [OF that] kind have "r \<in> snd ` set (executions reg)" "er_kind r = PromptRun"
        "er_session_id r = s" by force+
      with None show ?thesis by (auto simp: find_None_iff)
    qed
    with None show ?thesis by (simp split: option.split)
  next
    case (Some r)
    from find_Some_in [OF this] have "r \<in> snd ` set (executions reg)" "er_kind r = PromptRun"
      "er_session_id r = s" "er_status r \<noteq> Done" by auto
    moreover from key [OF this(1-3)] unique have "map_of (executions reg) (prompt_execution_id s) = Some r" by simp
    ultimately show ?thesis using Some by simp
  qed
  show ?thesis
    unfolding session_run_statuses_def statuses_foldl eq by (simp split: option.split)
qed

lemma upsert_lookup:
  "map_of (executions (upsert_execution r reg)) i =
     (if i = er_id r then Some (case map_of (executions reg) i of
          Some old \<Rightarrow> r\<lparr>er_started_at := er_started_at old\<rparr> | None \<Rightarrow> r)
      else map_of (executions reg) i)"
  by (auto simp: upsert_execution_def Let_def update_conv split: option.split)

lemma run_status_of_restarted [simp]: "run_status_of js (r\<lparr>er_started_at := t\<rparr>) = run_status_of js r"
  by (cases "er_status r") (simp_all add: run_status_of_def)

lemma ucast_u32_u64: "ucast (ucast (n :: u32) :: u64) = n"
  by (rule bit_word_eqI) (simp add: bit_simps)

lemma paused_metadata_get:
  assumes "json_laws js" and "key \<noteq> ''reason''"
  shows "js_get js (paused_metadata js reason key at) ''reason'' = map_option (js_str js) reason"
    and "js_get js (paused_metadata js reason key at) key = map_option (js_i64 js) at"
  using assms by (auto simp: json_laws_def paused_metadata_def split: option.split)

lemma map_of_filter_values:
  "distinct (map fst m) \<Longrightarrow> map_of (filter (\<lambda>(_, r). P r) m) k =
     (case map_of m k of Some r \<Rightarrow> if P r then Some r else None | None \<Rightarrow> None)"
  by (induction m) (force split: option.split dest: map_of_SomeD)+

lemma cleanup_lookup:
  "store_ok ok reg \<Longrightarrow> map_of (executions (cleanup_done_executions session reg)) i =
     (case map_of (executions reg) i of
        Some r \<Rightarrow> if er_session_id r = session \<and> er_status r = Done then None else Some r | None \<Rightarrow> None)"
  by (auto simp: cleanup_done_executions_def store_ok_def map_of_filter_values split: option.split)

lemma finish_lookup:
  "map_of (executions (finish_execution now j reg)) i =
     (if i = j then map_option (retire_record now) (map_of (executions reg) i) else map_of (executions reg) i)"
  by (auto simp: finish_execution_def map_of_map_entry split: option.split)

lemma idle_lookup:
  assumes "registry_ok reg"
  shows "map_of (executions (set_session_run_status js clock s RunIdle reg)) (prompt_execution_id s') =
    (if s' = s then None else map_of (executions reg) (prompt_execution_id s'))"
proof -
  have "er_session_id r = s'" if "map_of (executions reg) (prompt_execution_id s') = Some r" for r s'
    using store_ok_lookup [OF assms that] by (metis identified_def id_matches_prompt)
  then show ?thesis
    by (auto simp: cleanup_lookup [OF identified.finish_ok [OF assms]] finish_lookup prompt_execution_id_def
        split: option.split)
qed

lemma set_status_upserts:
  assumes "json_laws js" and "status \<noteq> RunIdle"
  shows "\<exists>st w e v. set_session_run_status js clock s status reg = upsert_execution (prompt_record clock s st w e v) reg
    \<and> st \<noteq> Done \<and> run_status_of js (prompt_record clock s st w e v) = status"
proof -
  note rules = run_status_of_def prompt_record_def meta_get_def Let_def ucast_u32_u64 option.map_comp comp_def
  note laws = assms(1) [unfolded json_laws_def]
  show ?thesis
  proof (cases status)
    case (RunRetry n m t)
    show ?thesis
      unfolding RunRetry set_session_run_status.simps
      by (intro exI conjI, rule refl) (use laws in \<open>simp_all add: rules\<close>)
  next
    case (RunBlocked reason at)
    show ?thesis
      unfolding RunBlocked set_session_run_status.simps
      by (intro exI conjI, rule refl)
        (use laws in \<open>simp_all add: rules paused_metadata_get [OF assms(1)] bind_map_option bind_split\<close>)
  next
    case (RunSleeping reason at)
    show ?thesis
      unfolding RunSleeping set_session_run_status.simps
      by (intro exI conjI, rule refl)
        (use laws in \<open>simp_all add: rules paused_metadata_get [OF assms(1)] bind_map_option bind_split\<close>)
  next
    case RunBusy
    show ?thesis
      unfolding RunBusy set_session_run_status.simps by (intro exI conjI, rule refl) (simp_all add: rules)
  next
    case RunCompacting
    show ?thesis
      unfolding RunCompacting set_session_run_status.simps by (intro exI conjI, rule refl) (simp_all add: rules)
  qed (use assms(2) in simp)
qed

lemma set_status_roundtrip:
  assumes "json_laws js" and "registry_ok reg"
  shows "session_run_status js s (set_session_run_status js clock s status reg) = status
    \<and> (s' \<noteq> s \<longrightarrow> session_run_status js s' (set_session_run_status js clock s status reg) = session_run_status js s' reg)"
proof (cases "status = RunIdle")
  case True
  show ?thesis
    unfolding True session_run_status_def session_run_statuses_lookup [OF set_status_ok [OF assms(2)]]
      session_run_statuses_lookup [OF assms(2)] idle_lookup [OF assms(2)] by simp
next
  case False
  from set_status_upserts [OF assms(1) this, of clock s reg]
  obtain st w ev v where eq: "set_session_run_status js clock s status reg
      = upsert_execution (prompt_record clock s st w ev v) reg" and st: "st \<noteq> Done"
    and reads: "run_status_of js (prompt_record clock s st w ev v) = status" by blast
  have ids: "er_id (prompt_record clock s st w ev v) = prompt_execution_id s"
    "er_status (prompt_record clock s st w ev v) = st" by (simp_all add: prompt_record_def)
  show ?thesis
    unfolding session_run_status_def session_run_statuses_lookup [OF set_status_ok [OF assms(2)]]
      session_run_statuses_lookup [OF assms(2)] unfolding eq
    using st reads by (auto simp: upsert_lookup ids prompt_execution_id_def split: option.split)
qed

text \<open>
  \<^bold>\<open>Note.\<close> The status of a session is the one that was set last, with every detail of it, although
  the registry keeps it as an execution record with JSON metadata; setting the status of one session
  leaves the status of every other session alone.
\<close>

theorem session_run_status_roundtrip:
  assumes "json_laws js" and "registry_ok reg"
  shows "session_run_status js s (set_session_run_status js clock s status reg) = status
    \<and> (s' \<noteq> s \<longrightarrow> session_run_status js s' (set_session_run_status js clock s status reg) = session_run_status js s' reg)"
  using assms by (rule set_status_roundtrip)

section \<open>Questions\<close>

definition replies_on :: "'c \<Rightarrow> ('v, 't, 'c) RuntimeControlRegistry \<Rightarrow> nat" where
  "replies_on tx reg = length (filter (\<lambda>(c, _). c = tx) (replies reg))"

definition waiters_on :: "'c \<Rightarrow> ('v, 't, 'c) RuntimeControlRegistry \<Rightarrow> nat" where
  "waiters_on tx reg = length (filter (\<lambda>(_, c). c = tx) (question_waiters reg))"

fun registers :: "'c \<Rightarrow> ('v, 't, 'c) registry_op \<Rightarrow> nat" where
  "registers tx (RegisterQuestion clock uuid c s qs) = (if c = tx then 1 else 0)"
| "registers tx _ = 0"

lemma channel_simps [simp]:
  "replies (upsert_execution r reg) = replies reg"
  "question_waiters (upsert_execution r reg) = question_waiters reg"
  "replies (update_execution now i patch reg) = replies reg"
  "question_waiters (update_execution now i patch reg) = question_waiters reg"
  "replies (finish_execution now i reg) = replies reg"
  "question_waiters (finish_execution now i reg) = question_waiters reg"
  "replies (cleanup_done_executions s reg) = replies reg"
  "question_waiters (cleanup_done_executions s reg) = question_waiters reg"
  "replies (snd (request_scheduler_cancel now s reg)) = replies reg"
  "question_waiters (snd (request_scheduler_cancel now s reg)) = question_waiters reg"
  "replies (finish_scheduler_run now s reg) = replies reg"
  "question_waiters (finish_scheduler_run now s reg) = question_waiters reg"
  by (simp_all add: upsert_execution_def update_execution_def finish_execution_def
      cleanup_done_executions_def request_scheduler_cancel_def finish_scheduler_run_def Let_def
      split: option.split)

lemma waiters_delete:
  "map_of m i = Some c \<Longrightarrow>
     length (filter (\<lambda>(_, d). d = tx) (AList.delete i m)) + (if c = tx then 1 else 0)
       \<le> length (filter (\<lambda>(_, d). d = tx) m)"
proof (induction m)
  case (Cons p m)
  have "length (filter (\<lambda>(_, d). d = tx) (AList.delete i m)) \<le> length (filter (\<lambda>(_, d). d = tx) m)"
    by (induction m) auto
  with Cons show ?case by (auto split: if_splits)
qed simp

lemma waiters_update:
  "length (filter (\<lambda>(_, d). d = tx) (AList.update i c m))
     \<le> length (filter (\<lambda>(_, d). d = tx) m) + (if c = tx then 1 else 0)"
  by (induction m) auto

lemma settle_channels:
  "replies_on tx (snd (settle_question js reply i reg)) + waiters_on tx (snd (settle_question js reply i reg))
     \<le> replies_on tx reg + waiters_on tx reg"
proof -
  obtain q reg1 where t: "take_question js i reg = (q, reg1)" by fastforce
  then have same: "replies reg1 = replies reg" "question_waiters reg1 = question_waiters reg"
    by (auto simp: take_question_def split: option.splits)
  show ?thesis
  proof (cases q)
    case None
    then show ?thesis using t same by (simp add: settle_question_def replies_on_def waiters_on_def)
  next
    case (Some info)
    then show ?thesis
      using t same waiters_delete [of "question_waiters reg" i _ tx]
      by (cases "map_of (question_waiters reg) i")
        (auto simp: settle_question_def replies_on_def waiters_on_def)
  qed
qed

lemma cancel_questions_channels:
  "replies_on tx (snd (cancel_questions_for_session js s reg)) + waiters_on tx (snd (cancel_questions_for_session js s reg))
     \<le> replies_on tx reg + waiters_on tx reg"
proof -
  have "replies_on tx (snd (foldl (\<lambda>(cancelled, reg) i. case cancel_question js i reg of
      (None, reg) \<Rightarrow> (cancelled, reg) | (Some info, reg) \<Rightarrow> (cancelled @ [info], reg)) (qs, reg) ids))
    + waiters_on tx (snd (foldl (\<lambda>(cancelled, reg) i. case cancel_question js i reg of
      (None, reg) \<Rightarrow> (cancelled, reg) | (Some info, reg) \<Rightarrow> (cancelled @ [info], reg)) (qs, reg) ids))
    \<le> replies_on tx reg + waiters_on tx reg" for qs ids
  proof (induction ids arbitrary: qs reg)
    case (Cons i ids)
    obtain q reg1 where q: "cancel_question js i reg = (q, reg1)" by fastforce
    then have "replies_on tx reg1 + waiters_on tx reg1 \<le> replies_on tx reg + waiters_on tx reg"
      using settle_channels [of tx js ReplyCancelled i reg] by (simp add: cancel_question_def)
    with Cons [of _ reg1] show ?case using q by (cases q) (auto intro: order_trans)
  qed simp
  then show ?thesis by (simp add: cancel_questions_for_session_def)
qed

lemma run_op_channels:
  "replies_on tx (run_op js x reg) + waiters_on tx (run_op js x reg)
     \<le> replies_on tx reg + waiters_on tx reg + registers tx x"
proof (cases x)
  case (SetStatus clock s status)
  then show ?thesis by (cases status) (simp_all add: replies_on_def waiters_on_def)
next
  case (RegisterQuestion clock uuid c s qs)
  then show ?thesis
    using waiters_update [of tx "''question_'' @ uuid" c "question_waiters reg"]
    by (simp add: register_question_def Let_def replies_on_def waiters_on_def)
next
  case (CancelExecution now i)
  then show ?thesis
    using settle_channels [of tx js ReplyCancelled i reg]
    by (auto simp: cancel_execution_def cancel_question_def replies_on_def waiters_on_def
        split: option.split ExecutionKind.split)
next
  case (AnswerQuestion i answers)
  then show ?thesis by (simp add: answer_question_def settle_channels)
next
  case (RejectQuestion i)
  then show ?thesis by (simp add: reject_question_def settle_channels)
next
  case (CancelQuestion i)
  then show ?thesis by (simp add: cancel_question_def settle_channels)
next
  case (CancelQuestions s)
  then show ?thesis by (simp add: cancel_questions_channels)
qed (simp_all add: replies_on_def waiters_on_def update_scheduler_node_def update_scheduler_run_def
    finish_scheduler_node_def register_scheduler_run_def register_tool_call_with_token_def
    finish_tool_call_def register_scheduler_node_def Let_def split: option.split)

text \<open>
  \<^bold>\<open>Note.\<close> However answers, rejections and cancellations of questions race with each other and with
  everything else that happens to the registry, a reply channel carries at most one reply for each
  time a question was registered with it.
\<close>

theorem question_settled_at_most_once:
  "replies_on tx (fold (run_op js) ops with_topology_callback) \<le> sum_list (map (registers tx) ops)"
proof -
  have "replies_on tx (fold (run_op js) ops reg) + waiters_on tx (fold (run_op js) ops reg)
    \<le> replies_on tx reg + waiters_on tx reg + sum_list (map (registers tx) ops)" for reg
  proof (induction ops arbitrary: reg)
    case (Cons x ops)
    show ?case using Cons [of "run_op js x reg"] run_op_channels [of tx js x reg] by simp
  qed simp
  from this [of with_topology_callback] show ?thesis
    by (simp add: replies_on_def waiters_on_def with_topology_callback_def)
qed

text \<open>
  \<^bold>\<open>Note.\<close> A registered question is open and listed, and its answer reaches the asker: the answer
  finds the question as it was asked, the channel of the asker receives the answers, and the question
  is gone afterwards, so that a second answer finds nothing and sends nothing.
\<close>

theorem registered_question_is_answered:
  assumes "json_laws js" and "js_of_question js info \<noteq> None"
    and "register_question js clock uuid tx session questions reg = (info, reg1)"
    and "answer_question js (qn_id info) answers reg1 = (r, reg2)"
  shows "info \<in> set (list_questions js reg1) \<and> r = Some info
    \<and> replies reg2 = replies reg @ [(tx, Answers answers)]
    \<and> (\<forall>more. answer_question js (qn_id info) more reg2 = (None, reg2))"
proof -
  from assms(2) obtain v where v: "js_of_question js info = Some v" by auto
  then have to: "js_to_question js v = Some info" using assms(1) by (simp add: json_laws_def)
  from assms(3) have i: "qn_id info = ''question_'' @ uuid"
    "info = \<lparr>qn_id = ''question_'' @ uuid, qn_session_id = session, qn_items = questions\<rparr>"
    by (auto simp: register_question_def Let_def)
  let ?w = "question_waiters reg1"
  obtain r0 where r0: "map_of (executions reg1) (qn_id info) = Some r0" "er_kind r0 = Question"
    "er_status r0 = Waiting" "er_metadata r0 = Some v"
    using assms(3) v i
    by (auto simp: register_question_def Let_def upsert_lookup split: option.splits)
  have "map_of ?w (qn_id info) = Some tx" "replies reg1 = replies reg"
    using assms(3) i by (auto simp: register_question_def Let_def upsert_execution_def update_conv)
  moreover have q: "question_record_to_info js r0 = Some info" using r0 to by (simp add: question_record_to_info_def)
  moreover have "info \<in> set (list_questions js reg1)"
    using map_of_SomeD [OF r0(1)] r0(3) q by (force simp: list_questions_def set_map_filter_iff)
  ultimately show ?thesis
    using assms(4) r0(1)
    by (auto simp: answer_question_def settle_question_def take_question_def delete_conv')
qed

section \<open>A concrete registry\<close>

datatype sample_json =
    SampleNull | SampleStr string | SampleInt i64 | SampleNat u32
  | SampleObject "(string \<times> sample_json) list" | SampleQuestion QuestionInfo

definition sample_api :: "sample_json json_api" where
  "sample_api = \<lparr>js_object = SampleObject, js_null = SampleNull, js_str = SampleStr, js_i64 = SampleInt,
     js_u32 = SampleNat,
     js_get = (\<lambda>v k. case v of SampleObject kvs \<Rightarrow> map_of kvs k | _ \<Rightarrow> None),
     js_as_str = (\<lambda>v. case v of SampleStr s \<Rightarrow> Some s | _ \<Rightarrow> None),
     js_as_u64 = (\<lambda>v. case v of SampleNat n \<Rightarrow> Some (ucast n) | _ \<Rightarrow> None),
     js_as_i64 = (\<lambda>v. case v of SampleInt n \<Rightarrow> Some n | _ \<Rightarrow> None),
     js_of_question = (\<lambda>q. Some (SampleQuestion q)),
     js_to_question = (\<lambda>v. case v of SampleQuestion q \<Rightarrow> Some q | _ \<Rightarrow> None)\<rparr>"

lemma sample_api_laws: "json_laws sample_api"
  by (simp add: json_laws_def sample_api_def)

definition sample_registry :: "(sample_json, nat, nat) RuntimeControlRegistry" where
  "sample_registry = fold (run_op sample_api)
     [SetStatus int ''s'' RunBusy, RegisterRun int ''s'' 1 None, RegisterNode int ''s'' ''root/try'',
      RegisterTool int ''c1'' ''s'' ''read'' (Some (scheduler_node_execution_id ''s'' ''root/try'')) None (Some 2)]
     with_topology_callback"

lemma sample_registry_ok: "registry_ok sample_registry"
  unfolding sample_registry_def by (simp only: fold_simps run_op_ok with_topology_callback_ok)

lemmas registry_eval = sample_registry_def with_topology_callback_def prompt_record_def
  register_scheduler_run_def register_scheduler_node_def register_tool_call_with_token_def
  upsert_execution_def update_execution_def notify_topology_changed_def context_of_def patch_record_def
  patch_default_def execution_id_defs sample_api_def Let_def

lemma sample_records_distinct: "distinct (map er_id (list_all_executions sample_registry))"
  by (simp add: list_all_executions_def registry_eval)

theorem topology_shows_rooted_records_witness:
  "mset (forest (top_roots (build_session_execution_topology ''s'' (list_all_executions sample_registry))))
     = image_mset bare (filter_mset (rooted (list_all_executions sample_registry))
         (mset (list_all_executions sample_registry)))"
  using topology_shows_rooted_records [OF sample_records_distinct] by blast

theorem topology_order_irrelevant_witness:
  "build_session_execution_topology ''s'' (list_all_executions sample_registry)
     = build_session_execution_topology ''s'' (rev (list_all_executions sample_registry))"
  by (rule topology_order_irrelevant [OF sample_records_distinct]) simp

theorem finish_scheduler_run_retires_subtree_witness:
  "scheduler_execution_id ''s'' \<notin> fst ` set (executions (finish_scheduler_run 9 ''s'' sample_registry))
   \<and> map_of (scheduler_tokens (finish_scheduler_run 9 ''s'' sample_registry)) ''s'' = None"
  using finish_scheduler_run_retires_subtree [OF sample_registry_ok, of 9 "''s''"] below.self by fastforce

theorem session_run_status_roundtrip_witness:
  "session_run_status sample_api ''s'' (set_session_run_status sample_api int ''s'' (RunRetry 3 ''busy'' 70) sample_registry)
     = RunRetry 3 ''busy'' 70"
  using session_run_status_roundtrip [OF sample_api_laws sample_registry_ok] by blast

theorem registered_question_is_answered_witness:
  "\<exists>info reg1. register_question sample_api int ''u1'' 7 ''s'' [] sample_registry = (info, reg1)
     \<and> fst (answer_question sample_api ''question_u1'' [] reg1) = Some info
     \<and> replies (snd (answer_question sample_api ''question_u1'' [] reg1)) = replies sample_registry @ [(7, Answers [])]"
proof -
  obtain info reg1 where reg: "register_question sample_api int ''u1'' 7 ''s'' [] sample_registry = (info, reg1)"
    by fastforce
  obtain r reg2 where ans: "answer_question sample_api (qn_id info) [] reg1 = (r, reg2)" by fastforce
  have "qn_id info = ''question_u1''" using reg by (auto simp: register_question_def Let_def)
  moreover have "js_of_question sample_api info \<noteq> None" by (simp add: sample_api_def)
  ultimately show ?thesis
    using registered_question_is_answered [OF sample_api_laws _ reg ans] reg ans by auto
qed

end
