(* ===== verification/Templates.thy ===== *)
theory Templates
  imports Rust_Maps Blueprint_Properties
begin

text \<open>
  The blueprint templates (\<open>agendao-orchestrator/src/templates.rs\<close>).
\<close>

datatype TemplateId = Direct | Plan | Coordinate | Verify | Autoresearch

record TemplateParameters =
  tp_name :: BlueprintName
  tp_primary_agent :: AgentId
  tp_planning_agent :: "AgentId option"
  tp_collaborators :: "AgentId list"
  tp_agent_skills :: "(AgentId \<times> SkillId list) list"
  tp_agent_tools :: "(AgentId \<times> ToolId list) list"
  tp_agent_max_steps :: "(AgentId \<times> u32) list"
  tp_evaluator :: "EvaluatorId option"
  tp_checkpoint :: "CapabilityId option"
  tp_limits :: ExecutionLimits
  tp_output :: OutputContract

datatype TemplateError = MissingEvaluator TemplateId | TooFewCollaborators

definition template_blueprint ::
    "TemplateParameters \<Rightarrow> NodeId \<Rightarrow> (NodeId \<times> NodeSpec) list \<Rightarrow> SchedulerBlueprint" where
  "template_blueprint parameters entry nodes =
     \<lparr>bp_schema = V1, bp_name = tp_name parameters, bp_entry = entry, bp_nodes = nodes,
      bp_limits = tp_limits parameters, bp_output = tp_output parameters\<rparr>"

definition template_agent :: "TemplateParameters \<Rightarrow> AgentId \<Rightarrow> NodeId \<Rightarrow> NodeSpec" where
  "template_agent parameters agent next_node =
     NAgent \<lparr>an_agent = agent,
       an_skills = or_default (map_of (tp_agent_skills parameters) agent),
       an_tools = or_default (map_of (tp_agent_tools parameters) agent),
       an_required_model_capabilities = [],
       an_max_steps = min
         (case map_of (tp_agent_max_steps parameters) agent of
            Some n \<Rightarrow> n | None \<Rightarrow> max_agent_steps (tp_limits parameters))
         (max_agent_steps (tp_limits parameters)),
       an_next = next_node\<rparr>"

definition template_end :: NodeSpec where
  "template_end = NEnd \<lparr>end_result = LastNode\<rparr>"

definition direct :: "TemplateParameters \<Rightarrow> SchedulerBlueprint" where
  "direct parameters = template_blueprint parameters ''execute''
     (btree_from
       [(''execute'', template_agent parameters (tp_primary_agent parameters) ''done''),
        (''done'', template_end)])"

definition plan :: "TemplateParameters \<Rightarrow> SchedulerBlueprint" where
  "plan parameters =
     (let planner = (case tp_planning_agent parameters of
                       Some a \<Rightarrow> a | None \<Rightarrow> tp_primary_agent parameters)
      in template_blueprint parameters ''plan''
           (btree_from
             [(''plan'', template_agent parameters planner ''execute''),
              (''execute'', template_agent parameters (tp_primary_agent parameters) ''done''),
              (''done'', template_end)]))"

definition branch_id :: "nat \<Rightarrow> NodeId" where
  "branch_id index = ''branch-'' @ show_nat (index + 1)"

definition coordinate :: "TemplateParameters \<Rightarrow> TemplateError + SchedulerBlueprint" where
  "coordinate parameters =
     (if length (tp_collaborators parameters) < 2 then Inl TooFewCollaborators
      else
        let branches = map branch_id [0..<length (tp_collaborators parameters)];
            nodes = btree_from (zip branches
              (map (\<lambda>c. template_agent parameters c ''synthesize'') (tp_collaborators parameters)));
            nodes = btree_insert ''coordinate''
              (NParallel \<lparr>par_branches = branches, par_join = ''synthesize'',
                 par_max_parallelism = min (max_parallelism (tp_limits parameters)) (of_nat (length branches)),
                 par_failure_mode = Collect\<rparr>) nodes;
            nodes = btree_insert ''synthesize''
              (template_agent parameters (tp_primary_agent parameters) ''done'') nodes;
            nodes = btree_insert ''done'' template_end nodes
        in Inr (template_blueprint parameters ''coordinate'' nodes))"

definition verify :: "TemplateParameters \<Rightarrow> TemplateError + SchedulerBlueprint" where
  "verify parameters =
     (case tp_evaluator parameters of
        None \<Rightarrow> Inl (MissingEvaluator Verify)
      | Some evaluator \<Rightarrow>
          Inr (template_blueprint parameters ''execute''
            (btree_from
              [(''execute'', template_agent parameters (tp_primary_agent parameters) ''verify''),
               (''verify'', NGate \<lparr>gate_evaluator = evaluator, gate_on_pass = ''accepted'',
                  gate_on_fail = ''rejected'', gate_on_indeterminate = ''uncertain''\<rparr>),
               (''accepted'', template_end),
               (''rejected'', template_end),
               (''uncertain'', template_end)])))"

definition autoresearch :: "TemplateParameters \<Rightarrow> TemplateError + SchedulerBlueprint" where
  "autoresearch parameters =
     (case tp_evaluator parameters of
        None \<Rightarrow> Inl (MissingEvaluator Autoresearch)
      | Some evaluator \<Rightarrow>
          let body = SchedulerGraph ''experiment''
                (btree_from
                  [(''experiment'', template_agent parameters (tp_primary_agent parameters) ''iteration-done''),
                   (''iteration-done'', template_end)])
          in Inr (template_blueprint parameters ''research''
               (btree_from
                 [(''research'', NLoop (LoopNode body evaluator (max_loop_iterations (tp_limits parameters))
                     (tp_checkpoint parameters) ''accepted'' ''exhausted'')),
                  (''accepted'', template_end),
                  (''exhausted'', template_end)])))"

definition build_template :: "TemplateId \<Rightarrow> TemplateParameters \<Rightarrow> TemplateError + SchedulerBlueprint" where
  "build_template template parameters =
     (case template of
        Direct \<Rightarrow> Inr (direct parameters)
      | Plan \<Rightarrow> Inr (plan parameters)
      | Coordinate \<Rightarrow> coordinate parameters
      | Verify \<Rightarrow> verify parameters
      | Autoresearch \<Rightarrow> autoresearch parameters)"

section \<open>The shape of a template\<close>

text \<open>
  The errors about the shape of a graph, as opposed to the names, limits, agents, tools and evaluators
  it is filled with.
\<close>

fun shape_error :: "BlueprintValidationError \<Rightarrow> bool" where
  "shape_error (EmptyGraph _) = True"
| "shape_error (MissingEntry _ _) = True"
| "shape_error (MissingTarget _ _ _) = True"
| "shape_error (UnreachableNode _ _) = True"
| "shape_error (OrdinaryCycle _ _) = True"
| "shape_error (MissingEnd _) = True"
| "shape_error (InvalidParallelBranches _) = True"
| "shape_error (ParallelJoinUnreachable _ _ _) = True"
| "shape_error (InvalidResultSource _ _) = True"
| "shape_error _ = False"

text \<open>A graph of good shape; the bodies of its loops are again of good shape.\<close>

definition node_shape :: "SchedulerGraph \<Rightarrow> NodeSpec \<Rightarrow> bool" where
  "node_shape g node \<longleftrightarrow>
     (case node of
        NParallel p \<Rightarrow> distinct (par_branches p) \<and> 2 \<le> length (par_branches p)
          \<and> (\<forall>b\<in>set (par_branches p). (b, par_join p) \<in> (edges g)\<^sup>*)
      | NEnd e \<Rightarrow> end_result e = LastNode
      | _ \<Rightarrow> True)"

inductive good_shape :: "SchedulerGraph \<Rightarrow> bool" where
  "graph_entry g \<in> node_ids g \<Longrightarrow>
   (\<And>n node. (n, node) \<in> set (graph_nodes g) \<Longrightarrow>
      node_shape g node \<and> set (outgoing node) \<subseteq> node_ids g) \<Longrightarrow>
   acyclic (inner_edges g) \<Longrightarrow>
   (\<And>n. n \<in> node_ids g \<Longrightarrow> (graph_entry g, n) \<in> (edges g)\<^sup>*) \<Longrightarrow>
   (\<exists>n e. (n, NEnd e) \<in> set (graph_nodes g)) \<Longrightarrow>
   (\<And>n l. (n, NLoop l) \<in> set (graph_nodes g) \<Longrightarrow> good_shape (loop_body l)) \<Longrightarrow>
   good_shape g"

lemma res_check_Inl: "res_check f xs = Inl e \<Longrightarrow> \<exists>x\<in>set xs. f x = Inl e"
  by (induction xs) (auto simp: res_simps)

lemma agent_no_shape_error: "validate_agent_node limits catalog policy path a = Inl e \<Longrightarrow> \<not> shape_error e"
  by (auto simp: validate_agent_node_def validate_agent_tool_def Let_def res_simps
      split: option.splits dest!: res_check_Inl)

lemma checkpoint_no_shape_error: "validate_checkpoint catalog policy path c = Inl e \<Longrightarrow> \<not> shape_error e"
  by (auto simp: validate_checkpoint_def res_simps split: option.splits)

lemma parallel_no_shape_error:
  assumes "validate_parallel_node limits g path p = Inl e" "node_shape g (NParallel p)"
  shows "\<not> shape_error e"
  using assms by (auto simp: validate_parallel_node_def node_shape_def Let_def res_simps distinct_card
      path_exists_correct dest!: res_check_Inl)

lemma node_no_shape_error:
  assumes "validate_node limits catalog policy g scope n node = Inl e" "node_shape g node"
    and "\<And>l scope. node = NLoop l \<Longrightarrow> validate_graph limits catalog policy (loop_body l) scope = Inl e \<Longrightarrow> \<not> shape_error e"
  shows "\<not> shape_error e"
proof (cases node)
  case (NAgent a)
  then show ?thesis using assms(1) agent_no_shape_error by simp
next
  case (NParallel p)
  then show ?thesis using assms(1,2) parallel_no_shape_error by simp
next
  case (NGate gate)
  then show ?thesis using assms(1) by (auto simp: require_evaluator_def res_simps)
next
  case (NLoop l)
  then show ?thesis using assms(1,3) checkpoint_no_shape_error
    by (auto simp: Let_def res_simps require_evaluator_def)
next
  case (NEnd x)
  then show ?thesis using assms(1,2) by (auto simp: validate_end_node_def node_shape_def)
qed

lemma identifier_no_shape_error: "validate_identifier kind m = Inl e \<Longrightarrow> \<not> shape_error e"
  by (auto simp: validate_identifier_def guard_Inl_iff)

lemma node_check_no_shape_error:
  assumes "res_bind (validate_identifier ''node'' n) (\<lambda>_.
         res_bind (validate_node limits catalog policy g scope n node) (\<lambda>_.
         res_check (\<lambda>target. guard (target \<in> node_ids g) (MissingTarget scope n target))
           (outgoing node))) = Inl e"
    and "node_shape g node" "set (outgoing node) \<subseteq> node_ids g"
    and "\<And>l scope. node = NLoop l \<Longrightarrow> validate_graph limits catalog policy (loop_body l) scope = Inl e \<Longrightarrow> \<not> shape_error e"
  shows "\<not> shape_error e"
proof -
  have "validate_identifier ''node'' n = Inl e \<or> validate_node limits catalog policy g scope n node = Inl e"
    using assms(1,3) by (auto simp: res_bind_Inl_iff guard_Inl_iff dest!: res_check_Inl)
  then show ?thesis
    by (elim disjE) (erule identifier_no_shape_error, rule node_no_shape_error, assumption, rule assms(2), rule assms(4))
qed

lemma good_shape_no_error:
  "good_shape g \<Longrightarrow> validate_graph limits catalog policy g scope = Inl e \<Longrightarrow> \<not> shape_error e"
proof (induction g arbitrary: scope rule: good_shape.induct)
  case (1 g)
  obtain entry nodes where g: "g = SchedulerGraph entry nodes" by (cases g)
  let ?check = "\<lambda>p. res_bind (validate_identifier ''node'' (fst p)) (\<lambda>_.
         res_bind (validate_node limits catalog policy g scope (fst p) (snd p)) (\<lambda>_.
         res_check (\<lambda>target. guard (target \<in> node_ids g) (MissingTarget scope (fst p) target))
           (outgoing (snd p))))"
  have "guard (nodes \<noteq> []) (EmptyGraph scope) = Inr ()" "guard (entry \<in> node_ids g) (MissingEntry scope entry) = Inr ()"
    using 1(1) g by (auto simp: node_ids_def guard_def)
  moreover have "guard (list_ex (\<lambda>p. case snd p of NEnd _ \<Rightarrow> True | _ \<Rightarrow> False) nodes) (MissingEnd scope) = Inr ()"
    using 1(5) g by (force simp: list_ex_iff guard_def)
  moreover have "reject_cycles g scope = Inr ()"
    using 1(3) by (simp add: reject_cycles_correct)
  moreover have "res_check (\<lambda>node_id. guard (node_id \<in> reachable_from g entry)
           (UnreachableNode scope node_id)) (map fst nodes) = Inr ()"
    using 1(4) g by (auto simp: reachable_from_correct res_check_Inr_iff guard_def node_ids_def)
  ultimately consider "validate_identifier ''node'' entry = Inl e" | "res_check ?check nodes = Inl e"
    using "1.prems" unfolding g
    by (cases "res_check ?check nodes"; cases "validate_identifier ''node'' entry") (auto simp: g)
  then show ?case
  proof cases
    case 2
    then obtain p where p: "p \<in> set nodes" "?check p = Inl e" using res_check_Inl [OF 2] by blast
    then have in_g: "(fst p, snd p) \<in> set (graph_nodes g)" using g by simp
    show ?thesis
    proof (rule node_check_no_shape_error [OF p(2)])
      show "node_shape g (snd p)" "set (outgoing (snd p)) \<subseteq> node_ids g" using 1(2) [OF in_g] by simp_all
      show "\<not> shape_error e" if "snd p = NLoop l" "validate_graph limits catalog policy (loop_body l) sc = Inl e" for l sc
        using "1.IH" [of "fst p" l sc] in_g that by simp
    qed
  qed (rule identifier_no_shape_error)
qed

text \<open>
  A graph whose edges go up in some ranking of the nodes, and where every node but the entry has a
  predecessor, has no cycle and no unreachable node.
\<close>

lemma ranked_acyclic:
  fixes rank :: "NodeId \<Rightarrow> nat"
  assumes "\<And>n node t. (n, node) \<in> set (graph_nodes g) \<Longrightarrow> t \<in> set (outgoing node) \<Longrightarrow> rank n < rank t"
  shows "acyclic (inner_edges g)"
proof -
  have "inner_edges g \<subseteq> measure rank"
    using assms by (auto simp: inner_edges_def edges_def dest: get_node_in)
  then show ?thesis by (meson acyclic_subset wf_acyclic wf_measure)
qed

lemma ranked_reachable:
  fixes rank :: "NodeId \<Rightarrow> nat"
  assumes "\<And>n. n \<in> node_ids g \<Longrightarrow> n \<noteq> graph_entry g \<Longrightarrow> \<exists>m. (m, n) \<in> edges g \<and> rank m < rank n"
    and "n \<in> node_ids g"
  shows "(graph_entry g, n) \<in> (edges g)\<^sup>*"
  using assms(2)
proof (induction "rank n" arbitrary: n rule: less_induct)
  case less
  show ?case
  proof (cases "n = graph_entry g")
    case False
    then obtain m where m: "(m, n) \<in> edges g" "rank m < rank n" using assms(1) less.prems by blast
    then have "(graph_entry g, m) \<in> (edges g)\<^sup>*" using less.hyps edges_source by blast
    with m(1) show ?thesis by simp
  qed simp
qed

lemma good_shapeI:
  fixes rank :: "NodeId \<Rightarrow> nat"
  assumes "graph_entry g \<in> node_ids g"
    and "\<And>n node. (n, node) \<in> set (graph_nodes g) \<Longrightarrow>
      node_shape g node \<and> (\<forall>t\<in>set (outgoing node). t \<in> node_ids g \<and> rank n < rank t)"
    and "\<And>n. n \<in> node_ids g \<Longrightarrow> n \<noteq> graph_entry g \<Longrightarrow> \<exists>m. (m, n) \<in> edges g"
    and "(n, NEnd x) \<in> set (graph_nodes g)"
    and "\<And>n l. (n, NLoop l) \<in> set (graph_nodes g) \<Longrightarrow> good_shape (loop_body l)"
  shows "good_shape g"
proof (rule good_shape.intros)
  have "rank m < rank n" if "(m, n) \<in> edges g" for m n
    using that assms(2) by (auto simp: edges_def dest: get_node_in)
  then show "(graph_entry g, n) \<in> (edges g)\<^sup>*" if "n \<in> node_ids g" for n
    using that assms(3) ranked_reachable [of g rank] by blast
  show "acyclic (inner_edges g)" by (rule ranked_acyclic [of g rank]) (use assms(2) in blast)
qed (use assms in auto)

lemma agent_shape [simp]:
  "node_shape g (template_agent parameters a next_node)"
  "outgoing (template_agent parameters a next_node) = [next_node]"
  "template_agent parameters a next_node \<noteq> NLoop l"
  "NLoop l \<noteq> template_agent parameters a next_node"
  by (simp_all add: template_agent_def node_shape_def)

lemma end_shape [simp]: "node_shape g template_end" "outgoing template_end = []" "template_end \<noteq> NLoop l"
  "NLoop l \<noteq> template_end"
  by (simp_all add: template_end_def node_shape_def)

lemma other_shapes [simp]: "node_shape g (NGate gate)" "node_shape g (NLoop l)"
  by (simp_all add: node_shape_def)

lemma node_ids_graph: "node_ids (SchedulerGraph e nodes) = fst ` set nodes"
  by (simp add: node_ids_def)

lemma edges_btree:
  "btree_ok nodes \<Longrightarrow> (m, n) \<in> edges (SchedulerGraph e nodes) \<longleftrightarrow> (\<exists>node. (m, node) \<in> set nodes \<and> n \<in> set (outgoing node))"
  by (auto simp: edges_def get_node_def btree_entries)

definition template_rank :: "NodeId \<Rightarrow> nat" where
  "template_rank n =
     (if n \<in> {''plan'', ''coordinate'', ''research'', ''experiment''} then 0
      else if n \<in> {''execute'', ''exhausted''} then 2
      else if n \<in> {''synthesize'', ''verify''} then 3
      else if n \<in> {''done'', ''accepted'', ''rejected'', ''uncertain'', ''iteration-done''} then 4
      else 1)"

text \<open>The same on the entries a map is made from, so that it evaluates.\<close>

lemma root_template_blueprint [simp]: "root_graph (template_blueprint parameters e nodes) = SchedulerGraph e nodes"
  by (simp add: root_graph_def template_blueprint_def)

lemma template_shape:
  assumes g: "g = SchedulerGraph e (btree_from entries)" and d: "distinct (map fst entries)"
    and "e \<in> fst ` set entries"
    and nodes: "list_all (\<lambda>(n, node). node_shape g node
      \<and> list_all (\<lambda>t. t \<in> fst ` set entries \<and> template_rank n < template_rank t) (outgoing node)) entries"
    and "list_all (\<lambda>n. n = e \<or> list_ex (\<lambda>(m, node). n \<in> set (outgoing node)) entries) (map fst entries)"
    and "(n, template_end) \<in> set entries"
    and "\<And>n l. (n, NLoop l) \<in> set entries \<Longrightarrow> good_shape (loop_body l)"
  shows "good_shape g"
proof (rule good_shapeI [of g template_rank n "\<lparr>end_result = LastNode\<rparr>"])
  have ids: "node_ids g = fst ` set entries" and entries: "set (graph_nodes g) = set entries"
    using g d by (simp_all add: node_ids_graph keys_btree_from set_btree_from)
  show "graph_entry g \<in> node_ids g" using assms(3) g ids by simp
  show "node_shape g node \<and>
      (\<forall>t\<in>set (outgoing node). t \<in> node_ids g \<and> template_rank n < template_rank t)"
    if "(n, node) \<in> set (graph_nodes g)" for n node
    using that nodes unfolding entries ids by (auto simp: list_all_iff)
  show "\<exists>m. (m, n) \<in> edges g" if "n \<in> node_ids g" "n \<noteq> graph_entry g" for n
    using that assms(5) d unfolding g by (fastforce simp: ids [unfolded g] edges_btree set_btree_from list_all_iff list_ex_iff)
  show "(n, NEnd \<lparr>end_result = LastNode\<rparr>) \<in> set (graph_nodes g)"
    using assms(6) entries by (simp add: template_end_def)
  show "good_shape (loop_body l)" if "(n, NLoop l) \<in> set (graph_nodes g)" for n l
    using that assms(7) entries by simp
qed

lemma direct_shape: "good_shape (root_graph (direct parameters))"
  unfolding direct_def root_template_blueprint
  by (rule template_shape [OF refl, where n = "''done''"]) (simp_all add: template_rank_def)

lemma plan_shape: "good_shape (root_graph (plan parameters))"
  unfolding plan_def Let_def root_template_blueprint
  by (rule template_shape [OF refl, where n = "''done''"]) (simp_all add: template_rank_def)

lemma verify_shape:
  assumes "verify parameters = Inr bp"
  shows "good_shape (root_graph bp)"
proof -
  obtain evaluator where bp: "bp = template_blueprint parameters ''execute''
      (btree_from
        [(''execute'', template_agent parameters (tp_primary_agent parameters) ''verify''),
         (''verify'', NGate \<lparr>gate_evaluator = evaluator, gate_on_pass = ''accepted'',
            gate_on_fail = ''rejected'', gate_on_indeterminate = ''uncertain''\<rparr>),
         (''accepted'', template_end), (''rejected'', template_end), (''uncertain'', template_end)])"
    using assms by (auto simp: verify_def split: option.splits)
  show ?thesis unfolding bp root_template_blueprint
    by (rule template_shape [OF refl, where n = "''accepted''"]) (simp_all add: template_rank_def)
qed

lemma autoresearch_shape:
  assumes "autoresearch parameters = Inr bp"
  shows "good_shape (root_graph bp)"
proof -
  have body: "good_shape (SchedulerGraph ''experiment'' (btree_from
      [(''experiment'', template_agent parameters a ''iteration-done''), (''iteration-done'', template_end)]))" for a
    by (rule template_shape [OF refl, where n = "''iteration-done''"]) (simp_all add: template_rank_def)
  obtain evaluator where bp: "bp = template_blueprint parameters ''research''
      (btree_from
        [(''research'', NLoop (LoopNode (SchedulerGraph ''experiment'' (btree_from
            [(''experiment'', template_agent parameters (tp_primary_agent parameters) ''iteration-done''),
             (''iteration-done'', template_end)])) evaluator (max_loop_iterations (tp_limits parameters))
            (tp_checkpoint parameters) ''accepted'' ''exhausted'')),
         (''accepted'', template_end), (''exhausted'', template_end)])"
    using assms by (auto simp: autoresearch_def Let_def split: option.splits)
  show ?thesis unfolding bp root_template_blueprint
    by (rule template_shape [OF refl, where n = "''accepted''"]) (auto simp: template_rank_def body)
qed

lemma branch_id_inj: "branch_id i = branch_id j \<Longrightarrow> i = j"
  using dec_val_show_nat by (simp add: branch_id_def) (metis Suc_inject dec_val_show_nat)

lemma branch_id_fresh [simp]:
  "branch_id i \<noteq> ''coordinate''" "branch_id i \<noteq> ''synthesize''" "branch_id i \<noteq> ''done''"
  "''coordinate'' \<noteq> branch_id i" "''synthesize'' \<noteq> branch_id i" "''done'' \<noteq> branch_id i"
  "template_rank (branch_id i) = 1"
  by (auto simp: branch_id_def template_rank_def)

definition coordinate_parallel :: "TemplateParameters \<Rightarrow> NodeSpec" where
  "coordinate_parallel parameters =
     (let branches = map branch_id [0..<length (tp_collaborators parameters)]
      in NParallel \<lparr>par_branches = branches, par_join = ''synthesize'',
           par_max_parallelism = min (max_parallelism (tp_limits parameters)) (of_nat (length branches)),
           par_failure_mode = Collect\<rparr>)"

definition coordinate_entries :: "TemplateParameters \<Rightarrow> (NodeId \<times> NodeSpec) list" where
  "coordinate_entries parameters =
     zip (map branch_id [0..<length (tp_collaborators parameters)])
         (map (\<lambda>c. template_agent parameters c ''synthesize'') (tp_collaborators parameters))
     @ [(''coordinate'', coordinate_parallel parameters),
        (''synthesize'', template_agent parameters (tp_primary_agent parameters) ''done''),
        (''done'', template_end)]"

lemma coordinate_Inr:
  "coordinate parameters = Inr bp \<longleftrightarrow> 2 \<le> length (tp_collaborators parameters) \<and>
     bp = template_blueprint parameters ''coordinate'' (btree_from (coordinate_entries parameters))"
  by (auto simp: coordinate_def coordinate_entries_def coordinate_parallel_def btree_from_def Let_def)

lemma coordinate_branch_entries:
  "(n, node) \<in> set (zip (map branch_id [0..<length cs]) (map f cs)) \<longleftrightarrow>
     (\<exists>i<length cs. n = branch_id i \<and> node = f (cs ! i))"
  by (auto simp: set_zip) (metis add_0 nth_map nth_map_upt diff_zero)

lemma coordinate_distinct: "distinct (map fst (coordinate_entries parameters))"
  using branch_id_inj by (auto simp: coordinate_entries_def distinct_map inj_on_def)

lemma coordinate_shape:
  assumes "coordinate parameters = Inr bp"
  shows "good_shape (root_graph bp)"
proof -
  let ?cs = "tp_collaborators parameters"
  have bp: "2 \<le> length ?cs" "root_graph bp = SchedulerGraph ''coordinate'' (btree_from (coordinate_entries parameters))"
    using assms by (auto simp: coordinate_Inr)
  have branch: "(branch_id i, template_agent parameters (?cs ! i) ''synthesize'') \<in> set (coordinate_entries parameters)"
    if "i < length ?cs" for i
    using that by (auto simp: coordinate_entries_def coordinate_branch_entries)
  note d = coordinate_distinct [of parameters]
  have keys: "fst ` set (coordinate_entries parameters) =
      branch_id ` {0..<length ?cs} \<union> {''coordinate'', ''synthesize'', ''done''}"
    by (force simp: coordinate_entries_def set_zip)
  have join: "(branch_id i, ''synthesize'') \<in> edges (root_graph bp)" if "i < length ?cs" for i
    unfolding bp(2) using branch [OF that] d by (auto simp: edges_btree set_btree_from)
  have par: "node_shape (root_graph bp) (coordinate_parallel parameters)"
    using bp(1) join branch_id_inj by (auto simp: coordinate_parallel_def node_shape_def Let_def distinct_map inj_on_def)
  have out: "set (outgoing (coordinate_parallel parameters)) = insert ''synthesize'' (branch_id ` {0..<length ?cs})"
    by (auto simp: coordinate_parallel_def Let_def)
  show ?thesis
  proof (rule template_shape [OF bp(2) d, of "''done''"])
    show "''coordinate'' \<in> fst ` set (coordinate_entries parameters)" by (simp add: keys)
    show "(''done'', template_end) \<in> set (coordinate_entries parameters)" by (simp add: coordinate_entries_def)
    show "good_shape (loop_body l)" if "(n, NLoop l) \<in> set (coordinate_entries parameters)" for n l
      using that by (auto simp: coordinate_entries_def coordinate_branch_entries coordinate_parallel_def Let_def)
    show "list_all (\<lambda>(n, node). node_shape (root_graph bp) node
      \<and> list_all (\<lambda>t. t \<in> fst ` set (coordinate_entries parameters) \<and> template_rank n < template_rank t)
          (outgoing node)) (coordinate_entries parameters)"
      unfolding keys unfolding coordinate_entries_def using par out
      by (auto simp: list_all_iff coordinate_branch_entries) (auto simp: template_rank_def)
    show "list_all (\<lambda>n. n = ''coordinate'' \<or> list_ex (\<lambda>(m, node). n \<in> set (outgoing node)) (coordinate_entries parameters))
       (map fst (coordinate_entries parameters))"
      unfolding list_all_iff set_map keys using out by (auto simp: coordinate_entries_def list_ex_iff)
  qed
qed

text \<open>
  \<^bold>\<open>Note.\<close> A template always has a sound shape: when the validator rejects a blueprint built from a
  template, the reason is a name, a limit, an agent, a skill, a tool, an evaluator or a checkpoint, and
  never the graph itself.
\<close>

theorem templates_have_sound_shape:
  assumes "build_template template parameters = Inr bp"
    and "validate_blueprint bp catalog policy = Some (Inl e)"
  shows "\<not> shape_error e"
proof -
  have shape: "good_shape (root_graph bp)"
    using assms(1) direct_shape plan_shape verify_shape autoresearch_shape coordinate_shape
    by (auto simp: build_template_def split: TemplateId.splits)
  have catalog_ok: "\<not> shape_error e" if "validate_catalog catalog = Inl e"
    using that by (auto simp: validate_catalog_def validate_catalog_key_def validate_skill_metadata_def
        validate_identifier_def res_simps split: sum.splits dest!: res_check_Inl)
  have refs: "\<not> shape_error e" if "validate_policy_references catalog policy = Inl e"
    using that by (auto simp: validate_policy_references_def res_simps dest!: res_check_Inl)
  have limits: "\<not> shape_error e" if "validate_limits l = Inl e \<or> compare_limits l m = Inl e" for l m
    using that by (auto simp: validate_limits_def compare_limits_def guard_Inl_iff dest!: res_check_Inl)
  show ?thesis using assms(2) catalog_ok refs limits good_shape_no_error [OF shape] identifier_no_shape_error
    by (auto simp: validate_blueprint_def Let_def res_simps split: sum.splits)
qed

definition sample_parameters :: "AgentId \<Rightarrow> TemplateParameters" where
  "sample_parameters agent = \<lparr>tp_name = ''sample'', tp_primary_agent = agent, tp_planning_agent = None,
     tp_collaborators = [agent, agent], tp_agent_skills = [], tp_agent_tools = [(agent, [''read''])],
     tp_agent_max_steps = [(agent, 3)], tp_evaluator = Some ''judge'', tp_checkpoint = None,
     tp_limits = example_limits,
     tp_output = \<lparr>out_format = TextOutput, out_include_usage = False, out_include_artifact_refs = False\<rparr>\<rparr>"

theorem templates_have_sound_shape_witness:
  "\<not> shape_error (UnknownAgent ''root/execute'' ''nobody'')"
proof (rule templates_have_sound_shape)
  show "build_template Direct (sample_parameters ''nobody'') = Inr (direct (sample_parameters ''nobody''))"
    by (simp add: build_template_def)
  show "validate_blueprint (direct (sample_parameters ''nobody'')) example_catalog
      (allow_catalog example_limits example_catalog) = Some (Inl (UnknownAgent ''root/execute'' ''nobody''))"
    by code_simp
qed

text \<open>All five templates pass the validator when filled from the catalog.\<close>

lemma sample_templates_validate:
  "list_all (\<lambda>t. case build_template t (sample_parameters ''build'') of
       Inr bp \<Rightarrow> validate_blueprint bp example_catalog (allow_catalog example_limits example_catalog) = Some (Inr ())
     | Inl _ \<Rightarrow> False) [Direct, Plan, Coordinate, Verify, Autoresearch]"
  by code_simp

end
