(* ===== verification/Selector.thy ===== *)
theory Selector
  imports Templates
begin

text \<open>
  The choice of a blueprint for a task (\<open>agendao-orchestrator/src/selector.rs\<close>): an explicit choice, a
  locked one, a template by heuristic, or the answer of the planner, each validated against the catalog
  extended by the agents the planner generates.

  \<^item> The planner and the two fingerprints are parameters. A result is an option as the validator's is.
\<close>

definition MAX_GENERATED_AGENTS :: nat where "MAX_GENERATED_AGENTS = 4"
definition MAX_GENERATED_AGENT_ID_BYTES :: nat where "MAX_GENERATED_AGENT_ID_BYTES = 64"
definition MAX_GENERATED_AGENT_POLICY_CHARS :: nat where "MAX_GENERATED_AGENT_POLICY_CHARS = 4096"

datatype ExplicitSelection =
  ExplicitBlueprint SchedulerBlueprint
| ExplicitTemplate TemplateId TemplateParameters

record TaskShape =
  ts_simple :: bool
  ts_requires_verification :: bool
  ts_benefits_from_parallelism :: bool
  ts_iterative_research :: bool

record GeneratedAgentSpec =
  ga_id :: AgentId
  ga_base_agent :: AgentId
  ga_system_policy :: string

datatype SelectionSource = SelUser | SelHeuristic | SelPlanner

record 'f LockedSelection =
  lk_blueprint :: "'f ValidatedBlueprint"
  lk_source :: SelectionSource
  lk_generated_agents :: "GeneratedAgentSpec list"

record 'f SelectionRequest =
  sr_explicit :: "ExplicitSelection option"
  sr_locked :: "'f LockedSelection option"
  sr_task :: TaskShape
  sr_default_parameters :: TemplateParameters
  sr_goal :: string
  sr_workspace_summary :: string
  sr_rejected_blueprint_fingerprints :: "'f list"

datatype PlannerDecision =
  UseTemplate TemplateId TemplateParameters
| CreateBlueprint SchedulerBlueprint "GeneratedAgentSpec list"

record PlannerSkillSummary =
  ps_id :: SkillId
  ps_summary :: string
  ps_capability_tags :: "string list"
  ps_requires_tools :: "ToolId list"
  ps_fallback_for_tools :: "ToolId list"
  ps_requires_toolsets :: "string list"
  ps_fallback_for_toolsets :: "string list"

record PlannerCatalogSummary =
  pc_agents :: "AgentId list"
  pc_skills :: "PlannerSkillSummary list"
  pc_tools :: "ToolId list"
  pc_evaluators :: "EvaluatorId list"
  pc_capabilities :: "CapabilityId list"

record 'f PlannerInput =
  pi_goal :: string
  pi_workspace_summary :: string
  pi_catalog_revision :: string
  pi_catalog_fingerprint :: string
  pi_catalog :: PlannerCatalogSummary
  pi_policy :: PolicyEnvelope
  pi_default_parameters :: TemplateParameters
  pi_rejected_blueprint_fingerprints :: "'f list"

definition skill_summary :: "SkillId \<times> SkillCatalogEntry \<Rightarrow> PlannerSkillSummary" where
  "skill_summary e =
     \<lparr>ps_id = fst e, ps_summary = sk_summary (snd e), ps_capability_tags = sk_capability_tags (snd e),
      ps_requires_tools = sk_requires_tools (snd e), ps_fallback_for_tools = sk_fallback_for_tools (snd e),
      ps_requires_toolsets = sk_requires_toolsets (snd e),
      ps_fallback_for_toolsets = sk_fallback_for_toolsets (snd e)\<rparr>"

definition from_catalog :: "SchedulerCatalog \<Rightarrow> PlannerCatalogSummary" where
  "from_catalog catalog =
     \<lparr>pc_agents = map fst (cat_agents catalog), pc_skills = map skill_summary (cat_skills catalog),
      pc_tools = map fst (cat_tools catalog), pc_evaluators = map fst (cat_evaluators catalog),
      pc_capabilities = map fst (cat_capabilities catalog)\<rparr>"

record 'f SelectionResult =
  sl_blueprint :: "'f ValidatedBlueprint"
  sl_source :: SelectionSource
  sl_generated_agents :: "GeneratedAgentSpec list"

datatype GeneratedAgentError =
  TooMany nat nat
| InvalidId string
| DuplicateId string
| CatalogShadow string
| UnknownBase string string
| InvalidPolicy string nat
| Unused string

datatype 'f SelectionError =
  SelTemplate TemplateError
| SelValidation BlueprintValidationError
| CatalogFingerprint string
| SelPlannerError string
| RejectedBlueprint 'f
| SelGeneratedAgent GeneratedAgentError

section \<open>Generated agents\<close>

definition is_lower :: "char \<Rightarrow> bool" where
  "is_lower c \<longleftrightarrow> 97 \<le> (of_char c :: nat) \<and> (of_char c :: nat) \<le> 122"

definition is_generated_agent_id :: "string \<Rightarrow> bool" where
  "is_generated_agent_id value \<longleftrightarrow>
     \<not> (value = [] \<or> length value > MAX_GENERATED_AGENT_ID_BYTES \<or> ends_with value ''-'')
       \<and> is_lower (hd value)
       \<and> list_all (\<lambda>c. is_lower c \<or> is_digit c \<or> c = CHR ''-'') (tl value)"

definition generated_policy :: "string \<Rightarrow> string \<Rightarrow> string" where
  "generated_policy base_policy policy =
     base_policy @ [CHR 0x0A, CHR 0x0A]
       @ ''Task-specific role (cannot override the base policy above):'' @ [CHR 0x0A] @ policy"

text \<open>One round of the loop, on the ids seen so far and the catalog extended so far.\<close>

definition materialize_agent ::
    "SchedulerCatalog \<Rightarrow> AgentId list \<times> SchedulerCatalog \<Rightarrow> GeneratedAgentSpec
       \<Rightarrow> GeneratedAgentError + (AgentId list \<times> SchedulerCatalog)" where
  "materialize_agent catalog st spec =
     (let (generated_ids, extended) = st; agent_id = ga_id spec
      in res_bind (guard (is_generated_agent_id agent_id) (InvalidId agent_id)) (\<lambda>_.
         res_bind (guard (agent_id \<notin> set generated_ids) (DuplicateId agent_id)) (\<lambda>_.
         res_bind (guard (map_of (cat_agents catalog) agent_id = None) (CatalogShadow agent_id)) (\<lambda>_.
         case map_of (cat_agents catalog) (ga_base_agent spec) of
           None \<Rightarrow> Inl (UnknownBase agent_id (ga_base_agent spec))
         | Some base \<Rightarrow>
             let policy = trim (ga_system_policy spec)
             in res_bind (guard (\<not> (policy = [] \<or> policy \<noteq> ga_system_policy spec
                                     \<or> char_count policy > MAX_GENERATED_AGENT_POLICY_CHARS))
                           (InvalidPolicy agent_id MAX_GENERATED_AGENT_POLICY_CHARS)) (\<lambda>_.
                let generated = base\<lparr>ac_id := agent_id,
                      ac_system_policy := generated_policy (ac_system_policy base) (ga_system_policy spec)\<rparr>
                in Inr (agent_id # generated_ids,
                     extended\<lparr>cat_agents := btree_insert agent_id generated (cat_agents extended)\<rparr>))))))"

definition materialize_generated_agents ::
    "SchedulerCatalog \<Rightarrow> GeneratedAgentSpec list \<Rightarrow> GeneratedAgentError + SchedulerCatalog" where
  "materialize_generated_agents catalog specs =
     res_bind (guard (length specs \<le> MAX_GENERATED_AGENTS) (TooMany (length specs) MAX_GENERATED_AGENTS)) (\<lambda>_.
     res_bind (res_fold (materialize_agent catalog) ([], catalog) specs) (\<lambda>(_, extended). Inr extended))"

fun blueprint_agent_ids :: "SchedulerGraph \<Rightarrow> AgentId list" where
  "blueprint_agent_ids (SchedulerGraph entry nodes) =
     List.concat (map (\<lambda>p. case snd p of
         NAgent a \<Rightarrow> [an_agent a]
       | NLoop l \<Rightarrow> blueprint_agent_ids (loop_body l)
       | _ \<Rightarrow> []) nodes)"

definition validate_generated_agent_usage ::
    "SchedulerBlueprint \<Rightarrow> GeneratedAgentSpec list \<Rightarrow> GeneratedAgentError + unit" where
  "validate_generated_agent_usage bp specs =
     res_check (\<lambda>spec. guard (ga_id spec \<in> set (blueprint_agent_ids (root_graph bp))) (Unused (ga_id spec))) specs"

section \<open>Does a blueprint fit the task?\<close>

record BlueprintTopology =
  bt_parallel :: bool
  bt_gate :: bool
  bt_loop :: bool

fun blueprint_topology :: "SchedulerGraph \<Rightarrow> BlueprintTopology" where
  "blueprint_topology (SchedulerGraph entry nodes) =
     foldl (\<lambda>t u. \<lparr>bt_parallel = bt_parallel t \<or> bt_parallel u, bt_gate = bt_gate t \<or> bt_gate u,
                   bt_loop = bt_loop t \<or> bt_loop u\<rparr>)
       \<lparr>bt_parallel = False, bt_gate = False, bt_loop = False\<rparr>
       (map (\<lambda>p. case snd p of
            NParallel _ \<Rightarrow> \<lparr>bt_parallel = True, bt_gate = False, bt_loop = False\<rparr>
          | NGate _ \<Rightarrow> \<lparr>bt_parallel = False, bt_gate = True, bt_loop = False\<rparr>
          | NLoop l \<Rightarrow> (blueprint_topology (loop_body l))\<lparr>bt_loop := True\<rparr>
          | _ \<Rightarrow> \<lparr>bt_parallel = False, bt_gate = False, bt_loop = False\<rparr>) nodes)"

definition blueprint_satisfies_task :: "SchedulerBlueprint \<Rightarrow> TaskShape \<Rightarrow> bool" where
  "blueprint_satisfies_task bp task =
     (let topology = blueprint_topology (root_graph bp)
      in if ts_iterative_research task then bt_loop topology
         else if ts_requires_verification task then bt_gate topology \<or> bt_loop topology
         else if ts_benefits_from_parallelism task then bt_parallel topology
         else if ts_simple task then \<not> bt_parallel topology \<and> \<not> bt_gate topology \<and> \<not> bt_loop topology
         else True)"

section \<open>The selection\<close>

record 'f AutoSelector =
  as_planner :: "'f PlannerInput \<Rightarrow> string + PlannerDecision"
  as_catalog :: SchedulerCatalog
  as_policy :: PolicyEnvelope
  as_fingerprint :: "SchedulerBlueprint \<Rightarrow> string + 'f"
  as_catalog_fingerprint :: "SchedulerCatalog \<Rightarrow> string + string"

definition selector_validate ::
    "'f AutoSelector \<Rightarrow> SchedulerBlueprint \<Rightarrow> SelectionSource \<Rightarrow> GeneratedAgentSpec list
       \<Rightarrow> ('f SelectionError + 'f SelectionResult) option" where
  "selector_validate self draft source generated_agents =
     (case res_bind (validate_generated_agent_usage draft generated_agents) (\<lambda>_.
             materialize_generated_agents (as_catalog self) generated_agents) of
        Inl e \<Rightarrow> Some (Inl (SelGeneratedAgent e))
      | Inr catalog \<Rightarrow>
          map_option (\<lambda>r. res_bind (map_err SelValidation r) (\<lambda>blueprint.
              Inr \<lparr>sl_blueprint = blueprint, sl_source = source, sl_generated_agents = generated_agents\<rparr>))
            (validated_blueprint_new (as_fingerprint self) draft catalog (as_policy self)))"

definition heuristic :: "TaskShape \<Rightarrow> TemplateId option" where
  "heuristic task =
     (if ts_iterative_research task then Some Autoresearch
      else if ts_requires_verification task then Some Verify
      else if ts_benefits_from_parallelism task then Some Coordinate
      else if ts_simple task then Some Direct
      else None)"

definition select_template ::
    "'f AutoSelector \<Rightarrow> TemplateId \<Rightarrow> TemplateParameters \<Rightarrow> SelectionSource
       \<Rightarrow> ('f SelectionError + 'f SelectionResult) option" where
  "select_template self template parameters source =
     (case build_template template parameters of
        Inl e \<Rightarrow> Some (Inl (SelTemplate e))
      | Inr draft \<Rightarrow> selector_validate self draft source [])"

definition planner_input :: "'f AutoSelector \<Rightarrow> 'f SelectionRequest \<Rightarrow> string \<Rightarrow> 'f PlannerInput" where
  "planner_input self request catalog_fingerprint =
     \<lparr>pi_goal = sr_goal request, pi_workspace_summary = sr_workspace_summary request,
      pi_catalog_revision = cat_revision (as_catalog self), pi_catalog_fingerprint = catalog_fingerprint,
      pi_catalog = from_catalog (as_catalog self), pi_policy = as_policy self,
      pi_default_parameters = sr_default_parameters request,
      pi_rejected_blueprint_fingerprints = sr_rejected_blueprint_fingerprints request\<rparr>"

definition select_planner ::
    "'f AutoSelector \<Rightarrow> 'f SelectionRequest \<Rightarrow> ('f SelectionError + 'f SelectionResult) option" where
  "select_planner self request =
     (case as_catalog_fingerprint self (as_catalog self) of
        Inl e \<Rightarrow> Some (Inl (CatalogFingerprint e))
      | Inr catalog_fingerprint \<Rightarrow>
          (case as_planner self (planner_input self request catalog_fingerprint) of
             Inl e \<Rightarrow> Some (Inl (SelPlannerError e))
           | Inr decision \<Rightarrow>
               map_option (\<lambda>r. res_bind r (\<lambda>selected.
                   let fingerprint = vb_fingerprint (sl_blueprint selected)
                   in if fingerprint \<in> set (sr_rejected_blueprint_fingerprints request)
                      then Inl (RejectedBlueprint fingerprint) else Inr selected))
                 (case decision of
                    UseTemplate template parameters \<Rightarrow> select_template self template parameters SelPlanner
                  | CreateBlueprint blueprint agents \<Rightarrow> selector_validate self blueprint SelPlanner agents)))"

definition select_auto ::
    "'f AutoSelector \<Rightarrow> 'f SelectionRequest \<Rightarrow> ('f SelectionError + 'f SelectionResult) option" where
  "select_auto self request =
     (case heuristic (sr_task request) of
        Some template \<Rightarrow> select_template self template (sr_default_parameters request) SelHeuristic
      | None \<Rightarrow> select_planner self request)"

definition select ::
    "'f AutoSelector \<Rightarrow> 'f SelectionRequest \<Rightarrow> ('f SelectionError + 'f SelectionResult) option" where
  "select self request =
     (case sr_explicit request of
        Some (ExplicitBlueprint blueprint) \<Rightarrow> selector_validate self blueprint SelUser []
      | Some (ExplicitTemplate template parameters) \<Rightarrow> select_template self template parameters SelUser
      | None \<Rightarrow>
          (case sr_locked request of
             Some locked \<Rightarrow>
               if lk_source locked = SelUser
                  \<or> blueprint_satisfies_task (vb_blueprint (lk_blueprint locked)) (sr_task request)
               then selector_validate self (vb_blueprint (lk_blueprint locked)) (lk_source locked)
                      (lk_generated_agents locked)
               else select_auto self request
           | None \<Rightarrow> select_auto self request))"

end
