(* ===== verification/Selector_Properties.thy ===== *)
theory Selector_Properties
  imports Selector
begin

text \<open>
  What a selection guarantees: the blueprint is validated against the catalog extended by the generated
  agents, generated agents get no more than the agent they are based on, a rejected blueprint is not
  proposed again, and a selection by heuristic fits its task and is kept.
\<close>

section \<open>Generated agents\<close>

lemma materialize_agentD:
  assumes "materialize_agent catalog (ids, extended) spec = Inr (ids', extended')"
  obtains base where "is_generated_agent_id (ga_id spec)" "ga_id spec \<notin> set ids"
    "map_of (cat_agents catalog) (ga_id spec) = None"
    "map_of (cat_agents catalog) (ga_base_agent spec) = Some base"
    "ids' = ga_id spec # ids"
    "extended' = extended\<lparr>cat_agents := btree_insert (ga_id spec)
       (base\<lparr>ac_id := ga_id spec,
         ac_system_policy := generated_policy (ac_system_policy base) (ga_system_policy spec)\<rparr>)
       (cat_agents extended)\<rparr>"
  using assms by (auto simp: materialize_agent_def Let_def res_simps split: option.splits)

text \<open>What an agent based on another one is.\<close>

definition inherits :: "SchedulerCatalog \<Rightarrow> SchedulerCatalog \<Rightarrow> GeneratedAgentSpec \<Rightarrow> bool" where
  "inherits catalog extended spec \<longleftrightarrow>
     (\<exists>base. map_of (cat_agents catalog) (ga_base_agent spec) = Some base \<and>
        map_of (cat_agents extended) (ga_id spec) = Some (base\<lparr>ac_id := ga_id spec,
          ac_system_policy := generated_policy (ac_system_policy base) (ga_system_policy spec)\<rparr>))"

lemma materialize_fold:
  assumes "res_fold (materialize_agent catalog) (ids, ext) specs = Inr (ids', ext')" "btree_ok (cat_agents ext)"
  shows "btree_ok (cat_agents ext') \<and> distinct (map ga_id specs)
    \<and> set (map ga_id specs) \<inter> (set ids \<union> fst ` set (cat_agents catalog)) = {}
    \<and> (\<forall>spec\<in>set specs. inherits catalog ext' spec)
    \<and> (\<forall>a. a \<notin> set (map ga_id specs) \<longrightarrow> map_of (cat_agents ext') a = map_of (cat_agents ext) a)
    \<and> ext' = ext\<lparr>cat_agents := cat_agents ext'\<rparr>"
  using assms
proof (induction specs arbitrary: ids ext)
  case (Cons spec specs)
  from Cons.prems(1) obtain ids1 ext1 where step: "materialize_agent catalog (ids, ext) spec = Inr (ids1, ext1)"
      and rest: "res_fold (materialize_agent catalog) (ids1, ext1) specs = Inr (ids', ext')"
    by (auto simp: res_bind_Inr_iff)
  from step obtain base where base: "ga_id spec \<notin> set ids" "map_of (cat_agents catalog) (ga_id spec) = None"
      "map_of (cat_agents catalog) (ga_base_agent spec) = Some base" "ids1 = ga_id spec # ids"
      "ext1 = ext\<lparr>cat_agents := btree_insert (ga_id spec) (base\<lparr>ac_id := ga_id spec,
         ac_system_policy := generated_policy (ac_system_policy base) (ga_system_policy spec)\<rparr>) (cat_agents ext)\<rparr>"
    by (rule materialize_agentD)
  have ok1: "btree_ok (cat_agents ext1)" using Cons.prems(2) base(5) by simp
  note ih = Cons.IH [OF rest ok1]
  have "ga_id spec \<notin> set (map ga_id specs)" using ih base(4) by auto
  moreover from this have "map_of (cat_agents ext') (ga_id spec) = map_of (cat_agents ext1) (ga_id spec)"
    using ih by blast
  then have "inherits catalog ext' spec"
    unfolding inherits_def using base(3,5) Cons.prems(2) by simp
  moreover have "ga_id spec \<notin> fst ` set (cat_agents catalog)"
    using base(2) by (simp add: map_of_eq_None_iff)
  ultimately show ?case using ih base(1,4,5) Cons.prems(2) by auto
qed (simp add: btree_ok_def)

lemma materialized_agents:
  assumes "materialize_generated_agents catalog specs = Inr extended" and "btree_ok (cat_agents catalog)"
  shows "length specs \<le> 4 \<and> distinct (map ga_id specs)"
    and "set (map ga_id specs) \<inter> fst ` set (cat_agents catalog) = {}"
    and "\<forall>spec\<in>set specs. \<exists>base generated.
           map_of (cat_agents catalog) (ga_base_agent spec) = Some base \<and>
           map_of (cat_agents extended) (ga_id spec) = Some generated \<and>
           ac_available_tools generated = ac_available_tools base \<and>
           ac_available_skills generated = ac_available_skills base \<and>
           ac_max_steps generated = ac_max_steps base \<and>
           ac_model_capabilities generated = ac_model_capabilities base \<and>
           prefix (ac_system_policy base) (ac_system_policy generated)"
    and "\<forall>a. a \<notin> set (map ga_id specs) \<longrightarrow> map_of (cat_agents extended) a = map_of (cat_agents catalog) a"
    and "extended = catalog\<lparr>cat_agents := cat_agents extended\<rparr>"
proof -
  obtain ids where f: "res_fold (materialize_agent catalog) ([], catalog) specs = Inr (ids, extended)"
      and len: "length specs \<le> MAX_GENERATED_AGENTS"
    using assms(1) by (auto simp: materialize_generated_agents_def res_simps)
  note m = materialize_fold [OF f assms(2)]
  show "length specs \<le> 4 \<and> distinct (map ga_id specs)" using len m by (simp add: MAX_GENERATED_AGENTS_def)
  show "set (map ga_id specs) \<inter> fst ` set (cat_agents catalog) = {}" using m by auto
  show "\<forall>a. a \<notin> set (map ga_id specs) \<longrightarrow> map_of (cat_agents extended) a = map_of (cat_agents catalog) a"
    and "extended = catalog\<lparr>cat_agents := cat_agents extended\<rparr>" using m by blast+
  show "\<forall>spec\<in>set specs. \<exists>base generated.
           map_of (cat_agents catalog) (ga_base_agent spec) = Some base \<and>
           map_of (cat_agents extended) (ga_id spec) = Some generated \<and>
           ac_available_tools generated = ac_available_tools base \<and>
           ac_available_skills generated = ac_available_skills base \<and>
           ac_max_steps generated = ac_max_steps base \<and>
           ac_model_capabilities generated = ac_model_capabilities base \<and>
           prefix (ac_system_policy base) (ac_system_policy generated)"
    using m by (fastforce simp: inherits_def generated_policy_def)
qed

text \<open>
  \<^bold>\<open>Note.\<close> Agents that the planner generates: at most four, with distinct names that no agent of the
  catalog has. Each one is its base agent but for the name and a policy that begins with the base
  policy, so it has no tool, skill or step its base does not have. Nothing else in the catalog changes.
\<close>

theorem generated_agents_inherit:
  assumes "materialize_generated_agents catalog specs = Inr extended" and "btree_ok (cat_agents catalog)"
  shows "length specs \<le> 4 \<and> distinct (map ga_id specs) \<and>
         set (map ga_id specs) \<inter> fst ` set (cat_agents catalog) = {} \<and>
         (\<forall>spec\<in>set specs. \<exists>base generated.
           map_of (cat_agents catalog) (ga_base_agent spec) = Some base \<and>
           map_of (cat_agents extended) (ga_id spec) = Some generated \<and>
           ac_available_tools generated = ac_available_tools base \<and>
           ac_available_skills generated = ac_available_skills base \<and>
           ac_max_steps generated = ac_max_steps base \<and>
           ac_model_capabilities generated = ac_model_capabilities base \<and>
           prefix (ac_system_policy base) (ac_system_policy generated)) \<and>
         (\<forall>a. a \<notin> set (map ga_id specs) \<longrightarrow> map_of (cat_agents extended) a = map_of (cat_agents catalog) a) \<and>
         extended = catalog\<lparr>cat_agents := cat_agents extended\<rparr>"
  using materialized_agents [OF assms] by (intro conjI) blast+

text \<open>An agent generated from the sample catalog.\<close>

definition sample_spec :: GeneratedAgentSpec where
  "sample_spec = \<lparr>ga_id = ''scout'', ga_base_agent = ''build'', ga_system_policy = ''look''\<rparr>"

definition sample_extended :: SchedulerCatalog where
  "sample_extended = example_catalog\<lparr>cat_agents := cat_agents example_catalog @
       [(''scout'', (snd (hd (cat_agents example_catalog)))\<lparr>ac_id := ''scout'',
          ac_system_policy := generated_policy [] ''look''\<rparr>)]\<rparr>"

lemma sample_materialize: "materialize_generated_agents example_catalog [sample_spec] = Inr sample_extended"
  by code_simp

theorem generated_agents_inherit_witness:
  "\<exists>base generated. map_of (cat_agents example_catalog) (ga_base_agent sample_spec) = Some base \<and>
     map_of (cat_agents sample_extended) (ga_id sample_spec) = Some generated \<and>
     ac_available_tools generated = ac_available_tools base \<and> ac_max_steps generated = ac_max_steps base"
proof -
  have "btree_ok (cat_agents example_catalog)" by (simp add: btree_ok_def example_catalog_def)
  from generated_agents_inherit [OF sample_materialize this] show ?thesis by (meson list.set_intros(1))
qed

section \<open>Selections\<close>

lemma selector_validateD:
  assumes "selector_validate self draft source agents = Some (Inr r)"
  shows "vb_blueprint (sl_blueprint r) = draft" "sl_source r = source" "sl_generated_agents r = agents"
    and "\<exists>catalog. materialize_generated_agents (as_catalog self) agents = Inr catalog \<and>
           validate_blueprint draft catalog (as_policy self) = Some (Inr ())"
    and "\<forall>spec\<in>set agents. ga_id spec \<in> set (blueprint_agent_ids (root_graph draft))"
  using assms
  by (auto simp: selector_validate_def validated_blueprint_new_def validate_generated_agent_usage_def
      res_simps split: sum.splits)

text \<open>A result of any branch is the result of a validation.\<close>

lemma select_template_validated:
  assumes "select_template self template parameters source = Some (Inr r)"
  shows "\<exists>draft. build_template template parameters = Inr draft \<and> selector_validate self draft source [] = Some (Inr r)"
  using assms by (auto simp: select_template_def split: sum.splits)

lemma select_planner_validated:
  assumes "select_planner self request = Some (Inr r)"
  shows "vb_fingerprint (sl_blueprint r) \<notin> set (sr_rejected_blueprint_fingerprints request)"
    and "\<exists>draft agents. selector_validate self draft SelPlanner agents = Some (Inr r)"
  using assms
  by (auto simp: select_planner_def Let_def res_simps split: sum.splits PlannerDecision.splits if_splits
      dest!: select_template_validated)

lemma select_auto_validated:
  assumes "select_auto self request = Some (Inr r)"
  shows "\<exists>draft source agents. selector_validate self draft source agents = Some (Inr r)"
  using assms
  by (auto simp: select_auto_def split: option.splits dest!: select_planner_validated(2) select_template_validated)

lemma select_validated:
  assumes "select self request = Some (Inr r)"
  shows "\<exists>draft source agents. selector_validate self draft source agents = Some (Inr r)"
  using assms
  by (auto simp: select_def split: option.splits ExplicitSelection.splits if_splits
      dest!: select_auto_validated select_template_validated)

text \<open>
  \<^bold>\<open>C26.\<close> Whatever the selector returns has passed the validator, against the catalog extended by the
  agents it returns, and each of these agents has a node in the blueprint.
\<close>

theorem selected_blueprint_is_validated:
  assumes "select self request = Some (Inr r)"
  shows "\<exists>catalog. materialize_generated_agents (as_catalog self) (sl_generated_agents r) = Inr catalog \<and>
           validate_blueprint (vb_blueprint (sl_blueprint r)) catalog (as_policy self) = Some (Inr ()) \<and>
           (\<forall>spec\<in>set (sl_generated_agents r).
              ga_id spec \<in> set (blueprint_agent_ids (root_graph (vb_blueprint (sl_blueprint r)))))"
proof -
  obtain draft source agents where "selector_validate self draft source agents = Some (Inr r)"
    using select_validated [OF assms] by blast
  from selector_validateD [OF this] show ?thesis by auto
qed

lemma selector_validate_answers: "\<exists>x. selector_validate self draft source agents = Some x"
  using validate_blueprint_answers [of draft _ "as_policy self"]
  by (auto simp: selector_validate_def validated_blueprint_new_def split: sum.splits)

lemma select_template_answers: "\<exists>x. select_template self template parameters source = Some x"
  using selector_validate_answers by (auto simp: select_template_def split: sum.splits)

lemma select_answers: "\<exists>x. select self request = Some x"
  using selector_validate_answers select_template_answers
  by (auto simp: select_def select_auto_def select_planner_def split: option.splits ExplicitSelection.splits
      sum.splits PlannerDecision.splits)

text \<open>
  \<^bold>\<open>Note.\<close> The selector always comes to an answer. When neither the user, a locked choice nor the shape of
  the task decides, the answer comes from the planner, and a blueprint with a fingerprint the user has
  rejected is never accepted from it.
\<close>

theorem rejected_blueprint_not_planned:
  assumes "sr_explicit request = None" "sr_locked request = None" "heuristic (sr_task request) = None"
  shows "\<exists>x. select self request = Some x \<and>
           (\<forall>r. x = Inr r \<longrightarrow> sl_source r = SelPlanner \<and>
              vb_fingerprint (sl_blueprint r) \<notin> set (sr_rejected_blueprint_fingerprints request))"
proof -
  have eq: "select self request = select_planner self request"
    using assms by (simp add: select_def select_auto_def)
  have "sl_source r = SelPlanner \<and> vb_fingerprint (sl_blueprint r) \<notin> set (sr_rejected_blueprint_fingerprints request)"
    if "select_planner self request = Some (Inr r)" for r
    using select_planner_validated [OF that] selector_validateD(2) by blast
  then show ?thesis using select_answers [of self request] unfolding eq by auto
qed

section \<open>The heuristic\<close>

lemma topology_fold:
  "foldl (\<lambda>t u. \<lparr>bt_parallel = bt_parallel t \<or> bt_parallel u, bt_gate = bt_gate t \<or> bt_gate u,
                   bt_loop = bt_loop t \<or> bt_loop u\<rparr>) \<lparr>bt_parallel = a, bt_gate = b, bt_loop = c\<rparr> us =
     \<lparr>bt_parallel = a \<or> (\<exists>u\<in>set us. bt_parallel u), bt_gate = b \<or> (\<exists>u\<in>set us. bt_gate u),
      bt_loop = c \<or> (\<exists>u\<in>set us. bt_loop u)\<rparr>"
  by (induction us arbitrary: a b c) auto

lemma topology_has:
  "(n, NLoop l) \<in> set nodes \<Longrightarrow> bt_loop (blueprint_topology (SchedulerGraph e nodes))"
  "(n, NGate gate) \<in> set nodes \<Longrightarrow> bt_gate (blueprint_topology (SchedulerGraph e nodes))"
  "(n, NParallel p) \<in> set nodes \<Longrightarrow> bt_parallel (blueprint_topology (SchedulerGraph e nodes))"
  by (force simp: topology_fold intro!: bexI)+

lemma heuristic_satisfies_task:
  assumes "heuristic task = Some template" "build_template template parameters = Inr bp"
  shows "blueprint_satisfies_task bp task"
proof -
  consider (research) "ts_iterative_research task" "template = Autoresearch"
    | (verify) "\<not> ts_iterative_research task" "ts_requires_verification task" "template = Verify"
    | (parallel) "\<not> ts_iterative_research task" "\<not> ts_requires_verification task"
        "ts_benefits_from_parallelism task" "template = Coordinate"
    | (simple) "\<not> ts_iterative_research task" "\<not> ts_requires_verification task"
        "\<not> ts_benefits_from_parallelism task" "template = Direct"
    using assms(1) by (auto simp: heuristic_def split: if_splits)
  then show ?thesis
  proof cases
    case research
    then obtain l nodes where "bp = template_blueprint parameters ''research'' nodes" "(''research'', NLoop l) \<in> set nodes"
      using assms(2) by (auto simp: build_template_def autoresearch_def Let_def set_btree_from split: option.splits)
    then show ?thesis using topology_has(1) research by (auto simp: blueprint_satisfies_task_def Let_def simp del: blueprint_topology.simps)
  next
    case verify
    then obtain gate nodes where "bp = template_blueprint parameters ''execute'' nodes" "(''verify'', NGate gate) \<in> set nodes"
      using assms(2) by (auto simp: build_template_def verify_def set_btree_from split: option.splits)
    then show ?thesis using topology_has(2) verify by (auto simp: blueprint_satisfies_task_def Let_def simp del: blueprint_topology.simps)
  next
    case parallel
    then have bp: "coordinate parameters = Inr bp" using assms(2) by (simp add: build_template_def)
    have "(''coordinate'', coordinate_parallel parameters) \<in> set (btree_from (coordinate_entries parameters))"
      by (simp add: set_btree_from coordinate_distinct) (simp add: coordinate_entries_def)
    then show ?thesis using topology_has(3) parallel bp
      by (auto simp: blueprint_satisfies_task_def Let_def coordinate_Inr coordinate_parallel_def simp del: blueprint_topology.simps)
  next
    case simple
    then have "bp = direct parameters" using assms(2) by (simp add: build_template_def)
    then show ?thesis using simple
      by (auto simp: blueprint_satisfies_task_def Let_def direct_def topology_fold set_btree_from
          template_agent_def template_end_def)
  qed
qed

text \<open>
  \<^bold>\<open>Note.\<close> A template chosen by the heuristic fits the task it was chosen for, so the choice is stable:
  locked, it is chosen again for the same task, with the same result.
\<close>

theorem heuristic_selection_is_stable:
  assumes "sr_explicit request = None" "sr_locked request = None"
    and "select self request = Some (Inr r)" "sl_source r = SelHeuristic"
  defines "locked \<equiv> \<lparr>lk_blueprint = sl_blueprint r, lk_source = sl_source r, lk_generated_agents = sl_generated_agents r\<rparr>"
  shows "blueprint_satisfies_task (vb_blueprint (sl_blueprint r)) (sr_task request)
    \<and> select self (request\<lparr>sr_locked := Some locked\<rparr>) = Some (Inr r)"
proof -
  have "select_auto self request = Some (Inr r)" using assms(1-3) by (simp add: select_def)
  moreover have "select_planner self request \<noteq> Some (Inr r)"
    using select_planner_validated(2) selector_validateD(2) assms(4) by fastforce
  ultimately obtain template where t: "heuristic (sr_task request) = Some template"
      "select_template self template (sr_default_parameters request) SelHeuristic = Some (Inr r)"
    by (auto simp: select_auto_def split: option.splits)
  then obtain draft where d: "build_template template (sr_default_parameters request) = Inr draft"
      "selector_validate self draft SelHeuristic [] = Some (Inr r)"
    using select_template_validated by blast
  note v = selector_validateD(1-3) [OF d(2)]
  have sat: "blueprint_satisfies_task (vb_blueprint (sl_blueprint r)) (sr_task request)"
    using heuristic_satisfies_task [OF t(1) d(1)] v(1) by simp
  moreover have "select self (request\<lparr>sr_locked := Some locked\<rparr>) = Some (Inr r)"
    using sat v d(2) assms(1) by (simp add: select_def locked_def)
  ultimately show ?thesis by (rule conjI)
qed

text \<open>A selector on the sample catalog whose planner builds the sample blueprint.\<close>

definition sample_selector :: "nat AutoSelector" where
  "sample_selector =
     \<lparr>as_planner = (\<lambda>_. Inr (CreateBlueprint example_blueprint [])), as_catalog = example_catalog,
      as_policy = allow_catalog example_limits example_catalog, as_fingerprint = (\<lambda>_. Inr 7),
      as_catalog_fingerprint = (\<lambda>_. Inr ''c'')\<rparr>"

definition sample_request :: "bool \<Rightarrow> nat SelectionRequest" where
  "sample_request simple =
     \<lparr>sr_explicit = None, sr_locked = None,
      sr_task = \<lparr>ts_simple = simple, ts_requires_verification = False, ts_benefits_from_parallelism = False,
        ts_iterative_research = False\<rparr>,
      sr_default_parameters = sample_parameters ''build'', sr_goal = ''g'', sr_workspace_summary = [],
      sr_rejected_blueprint_fingerprints = [7]\<rparr>"

lemma sample_selection:
  "select sample_selector (sample_request True) =
     Some (Inr \<lparr>sl_blueprint = \<lparr>vb_blueprint = direct (sample_parameters ''build''), vb_fingerprint = 7\<rparr>,
       sl_source = SelHeuristic, sl_generated_agents = []\<rparr>)"
  by code_simp

theorem heuristic_selection_is_stable_witness:
  "blueprint_satisfies_task (direct (sample_parameters ''build'')) (sr_task (sample_request True))"
  using heuristic_selection_is_stable [OF _ _ sample_selection] by (simp add: sample_request_def)

theorem selected_blueprint_is_validated_witness:
  "\<exists>catalog. materialize_generated_agents example_catalog [] = Inr catalog \<and>
     validate_blueprint (direct (sample_parameters ''build'')) catalog
       (allow_catalog example_limits example_catalog) = Some (Inr ())"
  using selected_blueprint_is_validated [OF sample_selection] by (auto simp: sample_selector_def)

theorem rejected_blueprint_not_planned_witness:
  "\<exists>x. select sample_selector (sample_request False) = Some x \<and>
     (\<forall>r. x = Inr r \<longrightarrow> vb_fingerprint (sl_blueprint r) \<notin> {7})"
  using rejected_blueprint_not_planned [of "sample_request False" sample_selector]
  by (auto simp: sample_request_def heuristic_def)

end
