(* ===== verification/Rust_Strings.thy ===== *)
theory Rust_Strings
  imports Rust_Prelude
begin

text \<open>
  The operations of Rust's \<open>str\<close> that search, split and replace, on strings as UTF-8 bytes.
\<close>

section \<open>Searching\<close>

fun str_find :: "string \<Rightarrow> string \<Rightarrow> nat option" where
  "str_find [] p = (if p = [] then Some 0 else None)"
| "str_find (c # s) p = (if starts_with (c # s) p then Some 0 else map_option Suc (str_find s p))"

fun str_rfind :: "string \<Rightarrow> string \<Rightarrow> nat option" where
  "str_rfind [] p = (if p = [] then Some 0 else None)"
| "str_rfind (c # s) p =
     (case str_rfind s p of
        Some i \<Rightarrow> Some (Suc i)
      | None \<Rightarrow> if starts_with (c # s) p then Some 0 else None)"

text \<open>\<open>p\<close> occurs in \<open>s\<close> at byte \<open>i\<close>.\<close>

definition occurs_at :: "string \<Rightarrow> string \<Rightarrow> nat \<Rightarrow> bool" where
  "occurs_at s p i \<longleftrightarrow> i \<le> length s \<and> starts_with (drop i s) p"

lemma occurs_at_Nil [simp]: "occurs_at [] p i \<longleftrightarrow> i = 0 \<and> p = []"
  by (auto simp: occurs_at_def starts_with_def)

lemma occurs_at_0 [simp]: "occurs_at s p 0 \<longleftrightarrow> starts_with s p"
  by (simp add: occurs_at_def)

lemma occurs_at_Suc [simp]: "occurs_at (c # s) p (Suc i) \<longleftrightarrow> occurs_at s p i"
  by (simp add: occurs_at_def)

lemma occurs_at_split:
  "occurs_at s p i \<longleftrightarrow> (\<exists>a b. s = a @ p @ b \<and> length a = i)"
proof
  assume i: "occurs_at s p i"
  have "s = take i s @ take (length p) (drop i s) @ drop (length p) (drop i s)"
    by (simp only: append_take_drop_id)
  moreover have "take (length p) (drop i s) = p" "length (take i s) = i"
    using i by (auto simp: occurs_at_def starts_with_def)
  ultimately show "\<exists>a b. s = a @ p @ b \<and> length a = i" by metis
qed (auto simp: occurs_at_def starts_with_def)

lemma str_find_Some_iff:
  "str_find s p = Some i \<longleftrightarrow> occurs_at s p i \<and> (\<forall>j<i. \<not> occurs_at s p j)"
proof (induction s arbitrary: i)
  case (Cons c s)
  show ?case
  proof (cases "starts_with (c # s) p")
    case True
    then show ?thesis by (cases i) auto
  next
    case False
    then show ?thesis using Cons.IH by (cases i) (auto simp: less_Suc_eq_0_disj)
  qed
qed (auto simp: starts_with_def)

lemma str_find_None_iff: "str_find s p = None \<longleftrightarrow> (\<forall>i. \<not> occurs_at s p i)"
proof (induction s)
  case (Cons c s)
  then show ?case by (auto simp: less_Suc_eq_0_disj) (metis occurs_at_0 occurs_at_Suc not0_implies_Suc)+
qed (auto simp: starts_with_def)

lemma str_rfind_Some_iff:
  "str_rfind s p = Some i \<longleftrightarrow> occurs_at s p i \<and> (\<forall>j>i. \<not> occurs_at s p j)"
proof (induction s arbitrary: i)
  case (Cons c s)
  have rest: "(\<exists>j. occurs_at s p j) \<Longrightarrow> str_rfind s p \<noteq> None"
  proof -
    assume "\<exists>j. occurs_at s p j"
    moreover have "j \<le> length s" if "occurs_at s p j" for j using that by (simp add: occurs_at_def)
    ultimately obtain j where "occurs_at s p j" "\<forall>k>j. \<not> occurs_at s p k"
      by (metis (full_types) GreatestI_nat Greatest_le_nat leD)
    then show "str_rfind s p \<noteq> None" using Cons.IH by (metis option.simps(3))
  qed
  show ?case
  proof (cases "str_rfind s p")
    case None
    then have "\<forall>j. \<not> occurs_at s p j" using rest by blast
    then show ?thesis using None by (cases i) (auto simp: gr0_conv_Suc)
  next
    case (Some k)
    then have k: "occurs_at s p k \<and> (\<forall>j>k. \<not> occurs_at s p j)" using Cons.IH by simp
    show ?thesis
    proof (cases i)
      case 0
      then show ?thesis using Some k by (auto intro!: exI [of _ "Suc k"])
    next
      case (Suc j)
      have "(\<forall>l>Suc j. \<not> occurs_at (c # s) p l) \<longleftrightarrow> (\<forall>l>j. \<not> occurs_at s p l)"
        by (metis Suc_less_eq Suc_less_eq2 occurs_at_Suc)
      then show ?thesis using Some k Suc by (auto simp: not_less_iff_gr_or_eq) (metis nat_neq_iff)
    qed
  qed
qed (auto simp: starts_with_def)

text \<open>The first and the last occurrence coincide exactly when there is one occurrence.\<close>

lemma find_rfind_unique:
  "str_find s p = Some i \<Longrightarrow> str_rfind s p = Some i \<longleftrightarrow> (\<forall>j. occurs_at s p j \<longrightarrow> j = i)"
  unfolding str_find_Some_iff str_rfind_Some_iff by (metis linorder_neqE_nat)

lemma str_contains_occurs: "str_contains s p \<longleftrightarrow> (\<exists>i. occurs_at s p i)"
proof (induction s)
  case (Cons c s)
  then show ?case by simp (metis occurs_at_0 occurs_at_Suc not0_implies_Suc)
qed (auto simp: starts_with_def)

section \<open>Characters\<close>

definition is_continuation :: "char \<Rightarrow> bool" where
  "is_continuation c \<longleftrightarrow> of_char c div (64 :: nat) = 2"

function utf8_chars :: "string \<Rightarrow> string list" where
  "utf8_chars [] = []"
| "utf8_chars (c # s) = (c # takeWhile is_continuation s) # utf8_chars (dropWhile is_continuation s)"
  by pat_completeness auto
termination
  by (relation "measure length") (auto simp: le_imp_less_Suc length_dropWhile_le)

lemma concat_utf8_chars [simp]: "List.concat (utf8_chars s) = s"
  by (induction s rule: utf8_chars.induct) (simp_all add: takeWhile_dropWhile_id)

text \<open>Is a byte index at the boundary of a character?\<close>

definition is_char_boundary :: "string \<Rightarrow> nat \<Rightarrow> bool" where
  "is_char_boundary s i \<longleftrightarrow> i = 0 \<or> i = length s \<or> (i < length s \<and> \<not> is_continuation (s ! i))"

definition is_whitespace :: "string \<Rightarrow> bool" where
  "is_whitespace c \<longleftrightarrow> c \<noteq> [] \<and> ws_len c = length c"

section \<open>Replacing\<close>

text \<open>An empty pattern matches at the boundaries of all characters.\<close>

function replace_nonempty :: "string \<Rightarrow> string \<Rightarrow> string \<Rightarrow> string" where
  "replace_nonempty s p r =
     (if s = [] \<or> p = [] then s
      else if starts_with s p then r @ replace_nonempty (drop (length p) s) p r
      else hd s # replace_nonempty (tl s) p r)"
  by pat_completeness auto
termination by (relation "measure (\<lambda>(s, _, _). length s)") auto

declare replace_nonempty.simps [simp del]

definition str_replace :: "string \<Rightarrow> string \<Rightarrow> string \<Rightarrow> string" where
  "str_replace s p r =
     (if p = [] then r @ List.concat (map (\<lambda>c. c @ r) (utf8_chars s)) else replace_nonempty s p r)"

function count_nonempty :: "string \<Rightarrow> string \<Rightarrow> nat" where
  "count_nonempty s p =
     (if s = [] \<or> p = [] then 0
      else if starts_with s p then Suc (count_nonempty (drop (length p) s) p)
      else count_nonempty (tl s) p)"
  by pat_completeness auto
termination by (relation "measure (\<lambda>(s, _). length s)") auto

declare count_nonempty.simps [simp del]

definition count_matches :: "string \<Rightarrow> string \<Rightarrow> nat" where
  "count_matches s p = (if p = [] then Suc (length (utf8_chars s)) else count_nonempty s p)"

lemma replace_absent: "\<forall>i. \<not> occurs_at s p i \<Longrightarrow> replace_nonempty s p r = s"
proof (induction s)
  case (Cons c s)
  have "\<not> occurs_at s p i" for i using Cons.prems by (metis occurs_at_Suc)
  moreover have "\<not> starts_with (c # s) p" using Cons.prems occurs_at_0 by blast
  ultimately show ?case using Cons.IH by (subst replace_nonempty.simps) simp
qed (simp add: replace_nonempty.simps)

text \<open>
  Replacing a pattern by itself changes nothing, and the text between the matches stays: the string
  is cut into pieces, and the pieces are joined with the replacement instead of the pattern.
\<close>

function split_pattern :: "string \<Rightarrow> string \<Rightarrow> string list" where
  "split_pattern s p =
     (if s = [] \<or> p = [] then [s]
      else if starts_with s p then [] # split_pattern (drop (length p) s) p
      else (case split_pattern (tl s) p of w # ws \<Rightarrow> (hd s # w) # ws | [] \<Rightarrow> [s]))"
  by pat_completeness auto
termination by (relation "measure (\<lambda>(s, _). length s)") auto

declare split_pattern.simps [simp del]

lemma split_pattern_nonempty [simp]: "split_pattern s p \<noteq> []"
  by (subst split_pattern.simps) (auto split: list.split)

lemma join_Cons: "ws \<noteq> [] \<Longrightarrow> join sep (w # ws) = w @ sep @ join sep ws"
  by (cases ws) auto

lemma join_cons_char: "join sep ((c # w) # ws) = c # join sep (w # ws)"
  by (cases ws) auto

lemma replace_nonempty_join: "p \<noteq> [] \<Longrightarrow> replace_nonempty s p r = join r (split_pattern s p)"
proof (induction s p r rule: replace_nonempty.induct)
  case (1 s p r)
  consider (empty) "s = []" | (here) "s \<noteq> []" "starts_with s p" | (later) "s \<noteq> []" "\<not> starts_with s p" by blast
  then show ?case
  proof cases
    case empty
    then show ?thesis by (simp add: replace_nonempty.simps split_pattern.simps)
  next
    case here
    with 1 show ?thesis
      by (subst replace_nonempty.simps, subst split_pattern.simps) (simp add: join_Cons)
  next
    case later
    obtain w ws where w: "split_pattern (tl s) p = w # ws" by (meson neq_Nil_conv split_pattern_nonempty)
    with later 1 show ?thesis
      by (subst replace_nonempty.simps, subst split_pattern.simps) (simp add: join_cons_char)
  qed
qed

lemma join_split_pattern: "p \<noteq> [] \<Longrightarrow> join p (split_pattern s p) = s"
proof (induction s p rule: split_pattern.induct)
  case (1 s p)
  consider (empty) "s = []" | (here) "s \<noteq> []" "starts_with s p" | (later) "s \<noteq> []" "\<not> starts_with s p" by blast
  then show ?case
  proof cases
    case empty
    then show ?thesis by (simp add: split_pattern.simps)
  next
    case here
    with 1 have "join p (split_pattern (drop (length p) s) p) = drop (length p) s" by simp
    with here 1(3) show ?thesis
      by (subst split_pattern.simps) (simp add: join_Cons starts_with_def, metis append_take_drop_id)
  next
    case later
    obtain w ws where w: "split_pattern (tl s) p = w # ws" by (meson neq_Nil_conv split_pattern_nonempty)
    with later 1 show ?thesis by (subst split_pattern.simps) (simp add: join_cons_char)
  qed
qed

section \<open>Splitting\<close>

fun split_char :: "char \<Rightarrow> string \<Rightarrow> string list" where
  "split_char d [] = [[]]"
| "split_char d (c # s) =
     (if c = d then [] # split_char d s
      else case split_char d s of w # ws \<Rightarrow> (c # w) # ws | [] \<Rightarrow> [[c]])"

lemma split_char_nonempty [simp]: "split_char d s \<noteq> []"
  by (induction s) (auto split: list.split)

lemma join_split_char [simp]: "join [d] (split_char d s) = s"
proof (induction s)
  case (Cons c s)
  obtain w ws where w: "split_char d s = w # ws" by (meson neq_Nil_conv split_char_nonempty)
  with Cons show ?case by (auto simp: join_Cons join_cons_char)
qed simp

lemma split_char_pieces: "w \<in> set (split_char d s) \<Longrightarrow> d \<notin> set w"
proof (induction s arbitrary: w)
  case (Cons c s)
  obtain v vs where "split_char d s = v # vs" by (meson neq_Nil_conv split_char_nonempty)
  with Cons show ?case by (auto split: if_splits)
qed simp

definition LF :: char where "LF = CHR 0x0A"
definition CR :: char where "CR = CHR 0x0D"

text \<open>\<open>str::lines\<close>: a line ends with a line feed, and a carriage return before it belongs to the end.\<close>

definition strip_cr :: "string \<Rightarrow> string" where
  "strip_cr l = (case strip_suffix [CR] l of Some l' \<Rightarrow> l' | None \<Rightarrow> l)"

definition str_lines :: "string \<Rightarrow> string list" where
  "str_lines s =
     (let ws = split_char LF s
      in map strip_cr (butlast ws) @ (if last ws = [] then [] else [last ws]))"

function split_words :: "string \<Rightarrow> string \<Rightarrow> string list" where
  "split_words s w =
     (if s = [] then (if w = [] then [] else [w])
      else if ws_len s > 0 then (if w = [] then [] else [w]) @ split_words (drop (ws_len s) s) []
      else split_words (tl s) (w @ [hd s]))"
  by pat_completeness auto
termination by (relation "measure (\<lambda>(s, _). length s)") auto

declare split_words.simps [simp del]

definition split_whitespace :: "string \<Rightarrow> string list" where
  "split_whitespace s = split_words s []"

end
