(* ===== verification/Edit.thy ===== *)
theory Edit
  imports Rust_Strings
begin

text \<open>
  The matching strategies of the edit tool (\<open>agendao-tool/src/edit/replacers.rs\<close>) and the edit of a
  file (\<open>edit/tool.rs\<close>). A replacer proposes strings to look for in the content; \<open>replace\<close> takes the
  first proposal that occurs exactly once, or the first that occurs when all occurrences are to be
  replaced.

  \<^item> Indexing or slicing out of range panics. The proposals of a replacer are an option: \<open>None\<close> is a
    panic. Replacers are consulted lazily, one after the other, but each computes all its proposals.
  \<^item> Floating-point numbers are of a type \<open>'f\<close> with the operations the code uses.
  \<^item> \<open>regex_find words line\<close> is the leftmost match in \<open>line\<close> of the words joined by white space.
\<close>

record 'f f64_ops =
  f_of_nat :: "nat \<Rightarrow> 'f"
  f_add :: "'f \<Rightarrow> 'f \<Rightarrow> 'f"
  f_sub :: "'f \<Rightarrow> 'f \<Rightarrow> 'f"
  f_div :: "'f \<Rightarrow> 'f \<Rightarrow> 'f"
  f_less :: "'f \<Rightarrow> 'f \<Rightarrow> bool"
  f_le :: "'f \<Rightarrow> 'f \<Rightarrow> bool"

definition SINGLE_CANDIDATE_SIMILARITY_THRESHOLD :: "'f f64_ops \<Rightarrow> 'f" where
  "SINGLE_CANDIDATE_SIMILARITY_THRESHOLD fo = f_of_nat fo 0"

definition MULTIPLE_CANDIDATES_SIMILARITY_THRESHOLD :: "'f f64_ops \<Rightarrow> 'f" where
  "MULTIPLE_CANDIDATES_SIMILARITY_THRESHOLD fo = f_div fo (f_of_nat fo 3) (f_of_nat fo 10)"

section \<open>Edit distance\<close>

text \<open>
  The matrix is computed row by row. \<open>lev_row a bs left prev\<close> is a row from its second entry on,
  where \<open>left\<close> is the entry before and \<open>prev\<close> the previous row from the diagonal entry on.
\<close>

fun lev_row :: "'a \<Rightarrow> 'a list \<Rightarrow> nat \<Rightarrow> nat list \<Rightarrow> nat list" where
  "lev_row a (b # bs) left (diag # up # prev) =
     (let cell = min (min (up + 1) (left + 1)) (diag + (if a = b then 0 else 1))
      in cell # lev_row a bs cell (up # prev))"
| "lev_row a _ left _ = []"

fun lev_rows :: "nat \<Rightarrow> 'a list \<Rightarrow> 'a list \<Rightarrow> nat list \<Rightarrow> nat list" where
  "lev_rows i [] bs row = row"
| "lev_rows i (a # as) bs row = lev_rows (Suc i) as bs (Suc i # lev_row a bs (Suc i) row)"

definition levenshtein :: "string \<Rightarrow> string \<Rightarrow> nat" where
  "levenshtein a b =
     (if a = [] \<or> b = [] then max (length a) (length b)
      else last (lev_rows 0 (utf8_chars a) (utf8_chars b) [0..<Suc (length (utf8_chars b))]))"

section \<open>Replacers\<close>

definition substring :: "string \<Rightarrow> nat \<Rightarrow> nat \<Rightarrow> string" where
  "substring s i j = take (j - i) (drop i s)"

definition pop_empty :: "string list \<Rightarrow> string list" where
  "pop_empty ls = (if ls \<noteq> [] \<and> last ls = [] then butlast ls else ls)"

definition find_simple :: "string \<Rightarrow> string \<Rightarrow> string list option" where
  "find_simple content needle = Some [needle]"

definition lines_match :: "string list \<Rightarrow> string list \<Rightarrow> bool" where
  "lines_match xs ys \<longleftrightarrow> list_all2 (\<lambda>x y. trim x = trim y) xs ys"

definition matched_lines :: "string \<Rightarrow> string list \<Rightarrow> nat \<Rightarrow> nat \<Rightarrow> string" where
  "matched_lines content ls i n =
     (let start = sum_list (map (\<lambda>l. length l + 1) (take i ls));
          len = sum_list (map (\<lambda>(k, l). if k < n - 1 then length l + 1 else length l)
                  (zip [0..<n] (take n (drop i ls))))
      in substring content start (start + len))"

text \<open>
  When the search has more lines than the content, the only attempt runs past the last line unless an
  earlier line differs.
\<close>

definition find_line_trimmed :: "string \<Rightarrow> string \<Rightarrow> string list option" where
  "find_line_trimmed content needle =
     (let ls = split_char LF content;
          search = pop_empty (split_char LF needle);
          n = length search
      in if n = 0 then Some []
         else if n > length ls then (if lines_match ls (take (length ls) search) then None else Some [])
         else Some (map (\<lambda>i. matched_lines content ls i n)
                (filter (\<lambda>i. lines_match (take n (drop i ls)) search) [0..<length ls - n + 1])))"

definition extract_block :: "string \<Rightarrow> string list \<Rightarrow> nat \<Rightarrow> nat \<Rightarrow> string" where
  "extract_block content ls i j =
     (let start = (\<lambda>k. sum_list (map (\<lambda>l. length l + 1) (take k ls)))
      in substring content (start i) (if j + 1 < length ls + 1 then start (j + 1) - 1 else length content))"

definition anchor_candidates :: "string list \<Rightarrow> string \<Rightarrow> string \<Rightarrow> (nat \<times> nat) list" where
  "anchor_candidates ls first_line last_line =
     List.map_filter (\<lambda>i.
       if trim (ls ! i) \<noteq> first_line then None
       else map_option (Pair i) (find (\<lambda>j. trim (ls ! j) = last_line) [i + 2..<length ls])) [0..<length ls]"

definition line_similarity :: "'f f64_ops \<Rightarrow> string \<Rightarrow> string \<Rightarrow> 'f option" where
  "line_similarity fo x y =
     (let max_len = max (length (trim x)) (length (trim y))
      in if max_len = 0 then None
         else Some (f_sub fo (f_of_nat fo 1)
                (f_div fo (f_of_nat fo (levenshtein (trim x) (trim y))) (f_of_nat fo max_len))))"

fun single_similarity :: "'f f64_ops \<Rightarrow> nat \<Rightarrow> (string \<times> string) list \<Rightarrow> 'f \<Rightarrow> 'f" where
  "single_similarity fo n [] sim = sim"
| "single_similarity fo n ((x, y) # xys) sim =
     (case line_similarity fo x y of
        None \<Rightarrow> single_similarity fo n xys sim
      | Some v \<Rightarrow>
          let sim = f_add fo sim (f_div fo v (f_of_nat fo n))
          in if f_le fo (SINGLE_CANDIDATE_SIMILARITY_THRESHOLD fo) sim then sim
             else single_similarity fo n xys sim)"

fun multiple_similarity :: "'f f64_ops \<Rightarrow> (string \<times> string) list \<Rightarrow> 'f \<Rightarrow> 'f" where
  "multiple_similarity fo [] sim = sim"
| "multiple_similarity fo ((x, y) # xys) sim =
     multiple_similarity fo xys
       (case line_similarity fo x y of None \<Rightarrow> sim | Some v \<Rightarrow> f_add fo sim v)"

text \<open>The lines between the anchors, paired as far as both blocks have them.\<close>

definition middle_pairs :: "string list \<Rightarrow> string list \<Rightarrow> nat \<Rightarrow> nat \<Rightarrow> (string \<times> string) list" where
  "middle_pairs ls search i j =
     map (\<lambda>k. (ls ! (i + k), search ! k)) [1..<min (length search - 1) (j - i)]"

definition best_candidate ::
    "'f f64_ops \<Rightarrow> string list \<Rightarrow> string list \<Rightarrow> (nat \<times> nat) list \<Rightarrow> (nat \<times> nat) option \<times> 'f" where
  "best_candidate fo ls search cs =
     foldl (\<lambda>(best, max_sim) (i, j).
         let n = min (length search - 2) (j - i + 1 - 2);
             sim = (if n > 0 then f_div fo (multiple_similarity fo (middle_pairs ls search i j) (f_of_nat fo 0)) (f_of_nat fo n)
                    else f_of_nat fo 1)
         in if f_less fo max_sim sim then (Some (i, j), sim) else (best, max_sim))
       (None, f_sub fo (f_of_nat fo 0) (f_of_nat fo 1)) cs"

definition find_block_anchor :: "'f f64_ops \<Rightarrow> string \<Rightarrow> string \<Rightarrow> string list option" where
  "find_block_anchor fo content needle =
     (let ls = split_char LF content;
          search0 = split_char LF needle;
          search = pop_empty search0
      in if length search0 < 3 then Some []
         else case anchor_candidates ls (trim (hd search)) (trim (last search)) of
           [] \<Rightarrow> Some []
         | [(i, j)] \<Rightarrow>
             let n = min (length search - 2) (j - i + 1 - 2);
                 sim = (if n > 0 then single_similarity fo n (middle_pairs ls search i j) (f_of_nat fo 0)
                        else f_of_nat fo 1)
             in Some (if f_le fo (SINGLE_CANDIDATE_SIMILARITY_THRESHOLD fo) sim
                      then [extract_block content ls i j] else [])
         | cs \<Rightarrow>
             (case best_candidate fo ls search cs of
                (best, max_sim) \<Rightarrow>
                  Some (if f_le fo (MULTIPLE_CANDIDATES_SIMILARITY_THRESHOLD fo) max_sim
                        then (case best of Some (i, j) \<Rightarrow> [extract_block content ls i j] | None \<Rightarrow> [])
                        else [])))"

definition normalize_whitespace :: "string \<Rightarrow> string" where
  "normalize_whitespace text = join '' '' (split_whitespace text)"

text \<open>All blocks of \<open>n\<close> consecutive lines; the slice panics when there are fewer than \<open>n\<close> lines.\<close>

definition line_blocks :: "string list \<Rightarrow> nat \<Rightarrow> string list option" where
  "line_blocks ls n =
     (if n > length ls then None
      else Some (map (\<lambda>i. join [LF] (take n (drop i ls))) [0..<length ls - n + 1]))"

definition whitespace_line ::
    "(string list \<Rightarrow> string \<Rightarrow> string option) \<Rightarrow> string \<Rightarrow> string \<Rightarrow> string option" where
  "whitespace_line regex_find needle line =
     (if normalize_whitespace line = normalize_whitespace needle then Some line
      else if str_contains (normalize_whitespace line) (normalize_whitespace needle)
           then (if split_whitespace needle = [] then None else regex_find (split_whitespace needle) line)
      else None)"

definition find_whitespace_normalized ::
    "(string list \<Rightarrow> string \<Rightarrow> string option) \<Rightarrow> string \<Rightarrow> string \<Rightarrow> string list option" where
  "find_whitespace_normalized regex_find content needle =
     (let ls = split_char LF content;
          found = List.map_filter (whitespace_line regex_find needle) ls;
          n = length (split_char LF needle)
      in if n > 1
         then map_option (\<lambda>blocks. found @ filter (\<lambda>b. normalize_whitespace b = normalize_whitespace needle) blocks)
                (line_blocks ls n)
         else Some found)"

definition indent_of :: "string \<Rightarrow> nat" where
  "indent_of line = length (takeWhile is_whitespace (utf8_chars line))"

definition remove_indentation :: "string \<Rightarrow> string" where
  "remove_indentation text =
     (let ls = split_char LF text;
          filled = filter (\<lambda>l. trim l \<noteq> []) ls
      in if filled = [] then text
         else let indent = Min (indent_of ` set filled)
              in join [LF] (map (\<lambda>l. if trim l = [] then l
                   else List.concat (drop indent (utf8_chars l))) ls))"

definition find_indentation_flexible :: "string \<Rightarrow> string \<Rightarrow> string list option" where
  "find_indentation_flexible content needle =
     map_option (filter (\<lambda>b. remove_indentation b = remove_indentation needle))
       (line_blocks (split_char LF content) (length (split_char LF needle)))"

fun unescape_string :: "string \<Rightarrow> string" where
  "unescape_string (CHR 0x5C # c # s) =
     (if c = CHR ''n'' then LF # unescape_string s
      else if c = CHR ''t'' then CHR 0x09 # unescape_string s
      else if c = CHR ''r'' then CR # unescape_string s
      else if c \<in> {CHR 0x27, CHR 0x22, CHR 0x60, CHR 0x5C, CHR 0x24, LF} then c # unescape_string s
      else CHR 0x5C # unescape_string (c # s))"
| "unescape_string (c # s) = c # unescape_string s"
| "unescape_string [] = []"

definition find_escape_normalized :: "string \<Rightarrow> string \<Rightarrow> string list option" where
  "find_escape_normalized content needle =
     (let target = unescape_string needle;
          found = (if str_contains content target then [target] else []);
          n = length (split_char LF target)
      in if n > 1
         then map_option (\<lambda>blocks. found @ filter (\<lambda>b. unescape_string b = target) blocks)
                (line_blocks (split_char LF content) n)
         else Some found)"

definition find_trimmed_boundary :: "string \<Rightarrow> string \<Rightarrow> string list option" where
  "find_trimmed_boundary content needle =
     (if trim needle = needle then Some []
      else map_option (\<lambda>blocks. (if str_contains content (trim needle) then [trim needle] else [])
               @ filter (\<lambda>b. trim b = trim needle) blocks)
             (line_blocks (split_char LF content) (length (split_char LF needle))))"

definition half_matches :: "'f f64_ops \<Rightarrow> string list \<Rightarrow> string list \<Rightarrow> bool" where
  "half_matches fo block search =
     (let pairs = filter (\<lambda>(x, y). x \<noteq> [] \<or> y \<noteq> [])
            (map (\<lambda>k. (trim (block ! k), trim (search ! k))) [1..<length block - 1]);
          matching = length (filter (\<lambda>(x, y). x = y) pairs)
      in pairs = [] \<or> f_le fo (f_div fo (f_of_nat fo 1) (f_of_nat fo 2))
           (f_div fo (f_of_nat fo matching) (f_of_nat fo (length pairs))))"

definition find_context_aware :: "'f f64_ops \<Rightarrow> string \<Rightarrow> string \<Rightarrow> string list option" where
  "find_context_aware fo content needle =
     (let search0 = split_char LF needle;
          search = pop_empty search0;
          ls = split_char LF content
      in if length search0 < 3 then Some []
         else Some (List.map_filter (\<lambda>(i, j).
                let block = take (j - i + 1) (drop i ls)
                in if length block = length search \<and> half_matches fo block search
                   then Some (join [LF] block) else None)
              (anchor_candidates ls (trim (hd search)) (trim (last search)))))"

definition find_multi_occurrence :: "string \<Rightarrow> string \<Rightarrow> string list option" where
  "find_multi_occurrence content needle = Some (replicate (count_matches content needle) needle)"

section \<open>Replacing\<close>

definition replacers ::
    "'f f64_ops \<Rightarrow> (string list \<Rightarrow> string \<Rightarrow> string option) \<Rightarrow> (string \<Rightarrow> string \<Rightarrow> string list option) list" where
  "replacers fo regex_find =
     [find_simple, find_line_trimmed, find_block_anchor fo, find_whitespace_normalized regex_find,
      find_indentation_flexible, find_escape_normalized, find_trimmed_boundary,
      find_context_aware fo, find_multi_occurrence]"

datatype replace_error = IdenticalStrings | NotFound | MultipleMatches

datatype 'a outcome = Returned 'a | Panicked

text \<open>The loop over the proposals of one replacer: a result, or whether any of them occurred.\<close>

fun try_searches :: "string \<Rightarrow> string \<Rightarrow> bool \<Rightarrow> string list \<Rightarrow> bool \<Rightarrow> bool + string" where
  "try_searches content new_string replace_all [] not_found = Inl not_found"
| "try_searches content new_string replace_all (search # searches) not_found =
     (case str_find content search of
        None \<Rightarrow> try_searches content new_string replace_all searches not_found
      | Some index \<Rightarrow>
          if replace_all then Inr (str_replace content search new_string)
          else if str_rfind content search \<noteq> Some index
          then try_searches content new_string replace_all searches False
          else Inr (take index content @ new_string @ drop (index + length search) content))"

fun try_replacers ::
    "(string \<Rightarrow> string \<Rightarrow> string list option) list \<Rightarrow> string \<Rightarrow> string \<Rightarrow> string \<Rightarrow> bool \<Rightarrow> bool
       \<Rightarrow> (replace_error + string) outcome" where
  "try_replacers [] content old_string new_string replace_all not_found =
     Returned (Inl (if not_found then NotFound else MultipleMatches))"
| "try_replacers (r # rs) content old_string new_string replace_all not_found =
     (case r content old_string of
        None \<Rightarrow> Panicked
      | Some searches \<Rightarrow>
          (case try_searches content new_string replace_all searches not_found of
             Inr result \<Rightarrow> Returned (Inr result)
           | Inl not_found \<Rightarrow> try_replacers rs content old_string new_string replace_all not_found))"

definition replace ::
    "'f f64_ops \<Rightarrow> (string list \<Rightarrow> string \<Rightarrow> string option)
       \<Rightarrow> string \<Rightarrow> string \<Rightarrow> string \<Rightarrow> bool \<Rightarrow> (replace_error + string) outcome" where
  "replace fo regex_find content old_string new_string replace_all =
     (if old_string = new_string then Returned (Inl IdenticalStrings)
      else try_replacers (replacers fo regex_find) content old_string new_string replace_all True)"

section \<open>Line endings and diffs\<close>

definition normalize_line_endings :: "string \<Rightarrow> string" where
  "normalize_line_endings str = str_replace str [CR, LF] [LF]"

definition diff_body_line :: "string \<Rightarrow> bool" where
  "diff_body_line line \<longleftrightarrow>
     (starts_with line ''+'' \<or> starts_with line ''-'' \<or> starts_with line '' '')
       \<and> \<not> starts_with line ''---'' \<and> \<not> starts_with line ''+++''"

text \<open>
  The indentation is counted in characters and then used as a byte index; slicing inside a character
  panics.
\<close>

definition trim_diff_line :: "nat \<Rightarrow> string \<Rightarrow> string option" where
  "trim_diff_line min_indent line =
     (if diff_body_line line \<and> length (tl line) \<ge> min_indent
      then if is_char_boundary (tl line) min_indent then Some (hd line # drop min_indent (tl line)) else None
      else Some line)"

definition trim_diff :: "string \<Rightarrow> string option" where
  "trim_diff diff =
     (let ls = split_char LF diff;
          indents = map (\<lambda>l. indent_of (tl l))
            (filter (\<lambda>l. trim (tl l) \<noteq> []) (filter diff_body_line ls));
          min_indent = (if indents = [] then 0 else Min (set indents))
      in if min_indent = 0 then Some diff
         else map_option (join [LF]) (those (map (trim_diff_line min_indent) ls)))"

definition generate_unified_diff :: "string \<Rightarrow> string \<Rightarrow> string \<Rightarrow> string" where
  "generate_unified_diff file_path old_content new_content =
     (let old_lines = str_lines old_content; new_lines = str_lines new_content
      in ''--- '' @ file_path @ [LF] @ ''+++ '' @ file_path @ [LF]
         @ ''@@ -1,'' @ show_nat (length old_lines) @ '' +1,'' @ show_nat (length new_lines) @ '' @@'' @ [LF]
         @ List.concat (map (\<lambda>l. ''-'' @ l @ [LF]) old_lines)
         @ List.concat (map (\<lambda>l. ''+'' @ l @ [LF]) new_lines))"

record FileDiff =
  fd_path :: string
  fd_additions :: nat
  fd_deletions :: nat

definition from_contents :: "string \<Rightarrow> string \<Rightarrow> FileDiff" where
  "from_contents old_content new_content =
     \<lparr>fd_path = [],
      fd_additions = length (str_lines new_content) - length (str_lines old_content),
      fd_deletions = length (str_lines old_content) - length (str_lines new_content)\<rparr>"

text \<open>The lines are compared position by position.\<close>

fun diff_lines :: "string list \<Rightarrow> string list \<Rightarrow> string" where
  "diff_lines [] [] = []"
| "diff_lines [] (n # ns) = ''+'' @ n @ [LF] @ diff_lines [] ns"
| "diff_lines (old # olds) [] = ''-'' @ old @ [LF] @ diff_lines olds []"
| "diff_lines (old # olds) (n # ns) =
     (if old = n then diff_lines olds ns
      else ''-'' @ old @ [LF] @ ''+'' @ n @ [LF] @ diff_lines olds ns)"

definition create_diff :: "string \<Rightarrow> string \<Rightarrow> string \<Rightarrow> string" where
  "create_diff filepath old_content new_content =
     ''--- '' @ filepath @ [LF] @ ''+++ '' @ filepath @ [LF]
       @ diff_lines (str_lines old_content) (str_lines new_content)"

section \<open>The edit of a file\<close>

text \<open>
  The part of \<open>EditTool::execute\<close> that runs under the lock of the file. The calls to the file system,
  the permission system, the language server and the file-time table are the operations of an
  environment; an operation that fails gives its error. The effects are returned in their order.
\<close>

record EditInput =
  ei_old_string :: string
  ei_new_string :: string
  ei_replace_all :: bool

datatype tool_error = ExecutionError string | OtherError string

record 'a edit_env =
  ev_authorized :: 'a
  ev_resolve_existing_file_path :: "tool_error + 'a"
  ev_read :: "string + string"
  ev_file_time_assert :: "tool_error option"
  ev_ask_permission :: "string \<Rightarrow> tool_error option"
  ev_write :: "string \<Rightarrow> string option"
  ev_lsp_touch_file :: "tool_error option"
  ev_file_time_read :: "tool_error option"
  ev_lsp_diagnostics :: "string \<times> string list"
  ev_path :: string
  ev_title :: string

datatype edit_effect =
  AskPermission string
| WriteFile string
| PublishBus string string
| LspTouchFile
| FileTimeRead

record ToolResult =
  tr_title :: string
  tr_text :: string
  tr_replacements :: "nat option"
  tr_diff :: "string option"
  tr_diagnostics :: "string list"

text \<open>What follows the decision: permission, the write, the notifications and the result.\<close>

definition finish_edit ::
    "'a edit_env \<Rightarrow> bool \<Rightarrow> string \<Rightarrow> string \<Rightarrow> string \<Rightarrow> nat option \<Rightarrow> string option
       \<Rightarrow> edit_effect list \<times> (tool_error + ToolResult)" where
  "finish_edit env existed diff new_content base_text replacements shown_diff =
     (case ev_ask_permission env diff of
        Some e \<Rightarrow> ([AskPermission diff], Inl e)
      | None \<Rightarrow>
          (case ev_write env new_content of
             Some e \<Rightarrow> ([AskPermission diff], Inl (ExecutionError (''Failed to write file: '' @ e)))
           | None \<Rightarrow>
               let done1 = [AskPermission diff, WriteFile new_content,
                            PublishBus ''file.edited'' [],
                            PublishBus ''file_watcher.updated'' (if existed then ''change'' else ''add''),
                            LspTouchFile]
               in case ev_lsp_touch_file env of
                    Some e \<Rightarrow> (done1, Inl e)
                  | None \<Rightarrow>
                      (case ev_file_time_read env of
                         Some e \<Rightarrow> (done1 @ [FileTimeRead], Inl e)
                       | None \<Rightarrow>
                           let (lsp_text, diagnostics) = ev_lsp_diagnostics env
                           in (done1 @ [FileTimeRead],
                               Inr \<lparr>tr_title = ev_title env,
                                    tr_text = (if lsp_text = [] then base_text
                                               else base_text @ [LF, LF] @ lsp_text),
                                    tr_replacements = replacements,
                                    tr_diff = shown_diff,
                                    tr_diagnostics = diagnostics\<rparr>))))"

definition replace_error_text :: "replace_error \<Rightarrow> string" where
  "replace_error_text e =
     (case e of
        IdenticalStrings \<Rightarrow> ''No changes to apply: oldString and newString are identical.''
      | NotFound \<Rightarrow> ''Could not find oldString in the file. It must match exactly, including whitespace, indentation, and line endings.''
      | MultipleMatches \<Rightarrow> ''Found multiple matches for oldString. Provide more surrounding context to make the match unique.'')"

definition replacements_text :: "string \<Rightarrow> nat \<Rightarrow> string" where
  "replacements_text path n =
     ''Successfully edited '' @ path @ '' ('' @ show_nat n @ '' replacement'' @ (if n \<noteq> 1 then ''s'' else []) @ '')''"

definition edit_content ::
    "'f f64_ops \<Rightarrow> (string list \<Rightarrow> string \<Rightarrow> string option) \<Rightarrow> 'a edit_env \<Rightarrow> EditInput \<Rightarrow> string
       \<Rightarrow> (edit_effect list \<times> (tool_error + ToolResult)) outcome" where
  "edit_content fo regex_find env inp content =
     (let existed = content \<noteq> [];
          new_string = normalize_line_endings (ei_new_string inp);
          old_string = normalize_line_endings (ei_old_string inp)
      in if ei_old_string inp = [] then
           Returned (finish_edit env existed (create_diff (ev_path env) [] new_string) new_string
             (''Created new file content at '' @ ev_path env) None None)
         else case replace fo regex_find content old_string new_string (ei_replace_all inp) of
                Panicked \<Rightarrow> Panicked
              | Returned (Inl e) \<Rightarrow> Returned ([], Inl (ExecutionError (replace_error_text e)))
              | Returned (Inr new_content) \<Rightarrow>
                  let diff = create_diff (ev_path env) content new_content;
                      n = (if ei_replace_all inp then count_matches content old_string else 1)
                  in Returned (finish_edit env existed diff new_content
                       (replacements_text (ev_path env) n) (Some n) (Some diff)))"

definition edit_under_lock ::
    "'f f64_ops \<Rightarrow> (string list \<Rightarrow> string \<Rightarrow> string option) \<Rightarrow> 'a edit_env \<Rightarrow> EditInput
       \<Rightarrow> (edit_effect list \<times> (tool_error + ToolResult)) outcome" where
  "edit_under_lock fo regex_find env inp =
     (case ev_resolve_existing_file_path env of
        Inl e \<Rightarrow> Returned ([], Inl e)
      | Inr revalidated \<Rightarrow>
          if revalidated \<noteq> ev_authorized env
          then Returned ([], Inl (ExecutionError (''edit target changed after authorization: '' @ ev_path env)))
          else case ev_read env of
                 Inl e \<Rightarrow> Returned ([], Inl (ExecutionError (''Failed to read file: '' @ e)))
               | Inr raw \<Rightarrow>
                   let content = normalize_line_endings raw
                   in case (if content \<noteq> [] then ev_file_time_assert env else None) of
                        Some e \<Rightarrow> Returned ([], Inl e)
                      | None \<Rightarrow> edit_content fo regex_find env inp content)"

end
