(* ===== verification/Edit_Properties.thy ===== *)
theory Edit_Properties
  imports Edit
begin

text \<open>
  What the edit tool guarantees: the matrix of \<open>levenshtein\<close> computes the least number of single
  edits, a replacement touches nothing but the unique occurrence of a proposed string, an exact unique
  match always wins, and nothing is written without permission for exactly that change.
\<close>

section \<open>Edit distance\<close>

text \<open>One insertion, deletion or substitution of an element.\<close>

inductive one_edit :: "'a list \<Rightarrow> 'a list \<Rightarrow> bool" where
  delete: "one_edit (x # xs) xs"
| insert: "one_edit xs (x # xs)"
| substitute: "one_edit (x # xs) (y # xs)"
| skip: "one_edit xs ys \<Longrightarrow> one_edit (x # xs) (x # ys)"

inductive_cases one_edit_NilE [elim!]: "one_edit s []"
inductive_cases one_edit_ConsE [elim]: "one_edit s (x # xs)"

text \<open>An alignment of two lists with \<open>n\<close> edits.\<close>

inductive aligned :: "nat \<Rightarrow> 'a list \<Rightarrow> 'a list \<Rightarrow> bool" where
  al_nil: "aligned 0 [] []"
| al_keep: "aligned n xs ys \<Longrightarrow> aligned n (x # xs) (x # ys)"
| al_subst: "aligned n xs ys \<Longrightarrow> aligned (Suc n) (x # xs) (y # ys)"
| al_del: "aligned n xs ys \<Longrightarrow> aligned (Suc n) (x # xs) ys"
| al_ins: "aligned n xs ys \<Longrightarrow> aligned (Suc n) xs (y # ys)"

lemmas aligned_intros = aligned.intros

lemma aligned_refl: "aligned 0 xs xs"
  by (induction xs) (auto intro: aligned_intros)

lemma aligned_append: "aligned n xs ys \<Longrightarrow> aligned m us vs \<Longrightarrow> aligned (n + m) (xs @ us) (ys @ vs)"
  by (induction n xs ys rule: aligned.induct) (auto intro: aligned_intros)

lemma aligned_rev: "aligned n xs ys \<Longrightarrow> aligned n (rev xs) (rev ys)"
proof (induction n xs ys rule: aligned.induct)
  case (al_keep n xs ys x)
  then show ?case using aligned_append [OF al_keep.IH, of 0 "[x]" "[x]"] by (simp add: aligned_refl)
next
  case (al_subst n xs ys x y)
  then show ?case using aligned_append [OF al_subst.IH, of 1 "[x]" "[y]"] by (simp add: aligned.intros)
next
  case (al_del n xs ys x)
  then show ?case using aligned_append [OF al_del.IH, of 1 "[x]" "[]"] by (simp add: aligned.intros)
next
  case (al_ins n xs ys y)
  then show ?case using aligned_append [OF al_ins.IH, of 1 "[]" "[y]"] by (simp add: aligned.intros)
qed (simp add: aligned.al_nil)

lemma aligned_rev_iff: "aligned n (rev xs) (rev ys) \<longleftrightarrow> aligned n xs ys"
  by (metis aligned_rev rev_rev_ident)

lemma edit_aligned: "aligned n t u \<Longrightarrow> one_edit s t \<Longrightarrow> \<exists>m \<le> Suc n. aligned m s u"
proof (induction n t u arbitrary: s rule: aligned.induct)
  case al_nil
  then show ?case by (auto intro: aligned_intros)
next
  case (al_keep n xs ys x)
  from al_keep.prems show ?case
  proof cases
    case (skip zs)
    then obtain m where "m \<le> Suc n" "aligned m zs ys" using al_keep.IH by blast
    with skip show ?thesis by (auto intro: aligned_intros)
  qed (use al_keep.hyps in \<open>auto intro: aligned_intros\<close>)
next
  case (al_subst n xs ys x y)
  from al_subst.prems show ?case
  proof cases
    case insert
    then show ?thesis using al_subst.hyps by (intro exI [of _ "Suc n"]) (auto intro: aligned_intros)
  next
    case (skip zs)
    then obtain m where "m \<le> Suc n" "aligned m zs ys" using al_subst.IH by blast
    with skip show ?thesis by (intro exI [of _ "Suc m"]) (auto intro: aligned_intros)
  next
    case (substitute z)
    then show ?thesis using al_subst.hyps by (intro exI [of _ "Suc n"]) (auto intro: aligned_intros)
  qed (use al_subst.hyps in \<open>auto intro!: exI [of _ "Suc (Suc n)"] intro: aligned_intros\<close>)
next
  case (al_del n xs ys x)
  from al_del.prems show ?case
  proof cases
    case insert
    then show ?thesis using al_del.hyps by (intro exI [of _ n]) auto
  next
    case (skip zs)
    then obtain m where "m \<le> Suc n" "aligned m zs ys" using al_del.IH by blast
    with skip show ?thesis by (intro exI [of _ "Suc m"]) (auto intro: aligned_intros)
  next
    case (substitute z)
    then show ?thesis using al_del.hyps by (intro exI [of _ "Suc n"]) (auto intro: aligned_intros)
  qed (use al_del.hyps in \<open>auto intro!: exI [of _ "Suc (Suc n)"] intro: aligned_intros\<close>)
next
  case (al_ins n xs ys y)
  then obtain m where "m \<le> Suc n" "aligned m s ys" by blast
  then show ?case by (intro exI [of _ "Suc m"]) (auto intro: aligned_intros)
qed

lemma edits_aligned: "(one_edit ^^ n) s t \<Longrightarrow> \<exists>m \<le> n. aligned m s t"
proof (induction n arbitrary: s)
  case 0
  then show ?case using aligned_refl by auto
next
  case (Suc n)
  then obtain u where u: "one_edit s u" "(one_edit ^^ n) u t" by (meson relpowp_Suc_E2)
  then obtain m where "m \<le> n" "aligned m u t" using Suc.IH by blast
  with edit_aligned u(1) show ?case by (metis Suc_le_mono order_trans)
qed

lemma edits_Cons: "(one_edit ^^ n) xs ys \<Longrightarrow> (one_edit ^^ n) (x # xs) (x # ys)"
proof (induction n arbitrary: xs)
  case (Suc n)
  then obtain u where "one_edit xs u" "(one_edit ^^ n) u ys" by (meson relpowp_Suc_E2)
  then show ?case by (metis Suc.IH one_edit.skip relpowp_Suc_I2)
qed simp

lemma aligned_edits: "aligned n s t \<Longrightarrow> (one_edit ^^ n) s t"
proof (induction n s t rule: aligned.induct)
  case (al_subst n xs ys x y)
  show ?case
    by (rule relpowp_Suc_I2 [of one_edit _ "y # xs"]) (rule one_edit.substitute, rule edits_Cons, rule al_subst.IH)
next
  case (al_del n xs ys x)
  show ?case by (rule relpowp_Suc_I2 [of one_edit _ xs]) (rule one_edit.delete, rule al_del.IH)
next
  case (al_ins n xs ys y)
  show ?case
    by (rule relpowp_Suc_I2 [of one_edit _ "y # xs"]) (rule one_edit.insert, rule edits_Cons, rule al_ins.IH)
qed (simp_all add: edits_Cons)

text \<open>The recurrence of the matrix, from the ends of the lists.\<close>

fun dist :: "'a list \<Rightarrow> 'a list \<Rightarrow> nat" where
  "dist [] ys = length ys"
| "dist xs [] = length xs"
| "dist (x # xs) (y # ys) =
     min (min (dist xs (y # ys) + 1) (dist (x # xs) ys + 1)) (dist xs ys + (if x = y then 0 else 1))"

lemma dist_Nil [simp]: "dist xs [] = length xs"
  by (cases xs) auto

lemma aligned_dist: "aligned (dist xs ys) xs ys"
proof (induction xs ys rule: dist.induct)
  case (1 ys)
  show ?case by (induction ys) (auto intro: aligned_intros)
next
  case (2 x xs)
  have "aligned (length zs) zs []" for zs :: "'a list" by (induction zs) (auto intro: aligned_intros)
  from this [of "x # xs"] show ?case by simp
next
  case (3 x xs y ys)
  then show ?case by (auto simp: min_def intro: aligned_intros)
qed

lemma dist_Cons_le: "dist (x # xs) ys \<le> Suc (dist xs ys)" "dist xs (y # ys) \<le> Suc (dist xs ys)"
  by (cases ys; simp) (cases xs; simp)

lemma dist_le: "aligned n xs ys \<Longrightarrow> dist xs ys \<le> n"
proof (induction n xs ys rule: aligned.induct)
  case (al_del n xs ys x)
  then show ?case using dist_Cons_le(1) [of x xs ys] by simp
next
  case (al_ins n xs ys y)
  then show ?case using dist_Cons_le(2) [of xs y ys] by simp
qed auto

lemma dist_Least: "dist xs ys = (LEAST n. (one_edit ^^ n) xs ys)"
proof (rule Least_equality [symmetric])
  show "(one_edit ^^ dist xs ys) xs ys" using aligned_dist aligned_edits by blast
  show "dist xs ys \<le> n" if "(one_edit ^^ n) xs ys" for n
    using edits_aligned [OF that] dist_le by (metis order_trans)
qed

lemma dist_rev: "dist (rev xs) (rev ys) = dist xs ys"
  by (metis antisym aligned_dist aligned_rev_iff dist_le)

text \<open>A row of the matrix holds the distances of a prefix of one list to all prefixes of the other.\<close>

definition row :: "'a list \<Rightarrow> 'a list \<Rightarrow> 'a list \<Rightarrow> nat list" where
  "row xs us bs = map (\<lambda>k. dist (rev xs) (rev (us @ take k bs))) [0..<Suc (length bs)]"

lemma row_Cons: "row xs us (b # bs) = dist (rev xs) (rev us) # row xs (us @ [b]) bs"
  unfolding row_def by (subst upt_conv_Cons) (simp_all add: map_Suc_upt [symmetric] del: map_Suc_upt upt_Suc)

lemma row_Nil: "row xs us [] = [dist (rev xs) (rev us)]"
  by (simp add: row_def)

lemma lev_row_step:
  "lev_row a bs (dist (rev (xs @ [a])) (rev us)) (row xs us bs) = tl (row (xs @ [a]) us bs)"
proof (induction bs arbitrary: us)
  case Nil
  show ?case by (simp add: row_Nil)
next
  case (Cons b bs)
  obtain up prev where up: "row xs (us @ [b]) bs = up # prev" "up = dist (rev xs) (rev (us @ [b]))"
    by (cases bs) (auto simp: row_Cons row_Nil)
  have cell: "min (min (up + 1) (dist (rev (xs @ [a])) (rev us) + 1))
      (dist (rev xs) (rev us) + (if a = b then 0 else 1)) = dist (rev (xs @ [a])) (rev (us @ [b]))"
    using up(2) by simp
  have "row (xs @ [a]) (us @ [b]) bs = dist (rev (xs @ [a])) (rev (us @ [b])) # tl (row (xs @ [a]) (us @ [b]) bs)"
    by (cases bs) (auto simp: row_Cons row_Nil)
  then show ?case using Cons.IH [of "us @ [b]"] up(1) cell
    by (simp add: row_Cons Let_def del: dist.simps rev_append)
qed

lemma lev_rows_step: "lev_rows (length xs) as bs (row xs [] bs) = row (xs @ as) [] bs"
proof (induction as arbitrary: xs)
  case (Cons a as)
  have "dist (rev (xs @ [a])) (rev []) = Suc (length xs)" by simp
  then have "Suc (length xs) # lev_row a bs (Suc (length xs)) (row xs [] bs) = row (xs @ [a]) [] bs"
    using lev_row_step [of a bs xs "[]"] by (cases bs) (auto simp: row_Cons row_Nil simp del: rev_append)
  then show ?case using Cons.IH [of "xs @ [a]"] by simp
qed simp

lemma levenshtein_dist:
  assumes "a \<noteq> []" "b \<noteq> []"
  shows "levenshtein a b = dist (utf8_chars a) (utf8_chars b)"
proof -
  have "[0..<Suc (length (utf8_chars b))] = row [] [] (utf8_chars b)"
    unfolding row_def by (rule map_idI [symmetric]) auto
  then have "levenshtein a b = last (row (utf8_chars a) [] (utf8_chars b))"
    using assms lev_rows_step [of "[]" "utf8_chars a" "utf8_chars b"] by (simp add: levenshtein_def)
  also have "\<dots> = dist (utf8_chars a) (utf8_chars b)" by (simp add: row_def dist_rev)
  finally show ?thesis .
qed

text \<open>
  \<^bold>\<open>C33.\<close> \<open>levenshtein\<close> of two non-empty strings is the least number of insertions, deletions and
  substitutions of characters that turn one into the other; with an empty string it is the length of
  the other in bytes.
\<close>

theorem levenshtein_least_edits:
  "levenshtein a b =
     (if a = [] \<or> b = [] then max (length a) (length b)
      else (LEAST n. (one_edit ^^ n) (utf8_chars a) (utf8_chars b)))"
proof (cases "a = [] \<or> b = []")
  case True
  then show ?thesis by (simp add: levenshtein_def)
next
  case False
  then show ?thesis by (simp add: levenshtein_dist dist_Least)
qed

section \<open>Replacing\<close>

lemma try_searches_Inr:
  "try_searches content new False searches nf = Inr r \<Longrightarrow>
     \<exists>search\<in>set searches. \<exists>a b. content = a @ search @ b \<and> r = a @ new @ b
       \<and> (\<forall>i. occurs_at content search i \<longrightarrow> i = length a)"
proof (induction searches arbitrary: nf)
  case (Cons search searches)
  show ?case
  proof (cases "str_find content search")
    case None
    with Cons show ?thesis by (auto split: option.splits)
  next
    case (Some i)
    then obtain a b where ab: "content = a @ search @ b" "length a = i"
      by (auto simp: str_find_Some_iff occurs_at_split)
    show ?thesis
    proof (cases "str_rfind content search = Some i")
      case True
      then have "r = a @ new @ b" using Cons.prems Some ab by auto
      moreover have "\<forall>j. occurs_at content search j \<longrightarrow> j = length a"
        using find_rfind_unique [OF Some] True ab(2) by simp
      ultimately show ?thesis using ab(1) by auto
    next
      case False
      with Cons Some show ?thesis by auto
    qed
  qed
qed simp

lemma try_replacers_Inr:
  "try_replacers rs content old new ra nf = Returned (Inr r) \<Longrightarrow>
     \<exists>rep\<in>set rs. \<exists>searches nf. rep content old = Some searches \<and> try_searches content new ra searches nf = Inr r"
  by (induction rs arbitrary: nf) (fastforce split: option.splits sum.splits)+

text \<open>
  \<^bold>\<open>C10.\<close> A successful edit of one place replaces a string that one of the strategies proposed and
  that occurs exactly once in the content; everything before and after it stays.
\<close>

theorem single_edit_replaces_unique_match:
  assumes "replace fo regex_find content old_string new_string False = Returned (Inr r)"
  shows "\<exists>rep\<in>set (replacers fo regex_find). \<exists>searches. rep content old_string = Some searches \<and>
           (\<exists>search\<in>set searches. \<exists>a b. content = a @ search @ b \<and> r = a @ new_string @ b
              \<and> (\<forall>i. occurs_at content search i \<longrightarrow> i = length a))"
proof -
  have "try_replacers (replacers fo regex_find) content old_string new_string False True = Returned (Inr r)"
    using assms by (simp add: replace_def split: if_splits)
  from try_replacers_Inr [OF this] try_searches_Inr show ?thesis by meson
qed

theorem single_edit_replaces_unique_match_witness:
  "\<forall>(fo :: nat f64_ops) regex_find.
     \<exists>rep\<in>set (replacers fo regex_find). \<exists>searches. rep ''abc'' ''b'' = Some searches \<and>
       (\<exists>search\<in>set searches. \<exists>a b. ''abc'' = a @ search @ b \<and> ''aXc'' = a @ ''X'' @ b
          \<and> (\<forall>i. occurs_at ''abc'' search i \<longrightarrow> i = length a))"
proof (intro allI)
  fix fo :: "nat f64_ops" and regex_find
  have "replace fo regex_find ''abc'' ''b'' ''X'' False = Returned (Inr ''aXc'')" by code_simp
  then show "\<exists>rep\<in>set (replacers fo regex_find). \<exists>searches. rep ''abc'' ''b'' = Some searches \<and>
       (\<exists>search\<in>set searches. \<exists>a b. ''abc'' = a @ search @ b \<and> ''aXc'' = a @ ''X'' @ b
          \<and> (\<forall>i. occurs_at ''abc'' search i \<longrightarrow> i = length a))"
    by (rule single_edit_replaces_unique_match)
qed

lemma replacers_Cons: "replacers fo regex_find = find_simple # tl (replacers fo regex_find)"
  by (simp add: replacers_def)

lemma replace_simple:
  assumes "old \<noteq> new" "try_searches content new ra [old] True = Inr r"
  shows "replace fo regex_find content old new ra = Returned (Inr r)"
  using assms by (subst replace_def, subst replacers_Cons) (simp add: find_simple_def)

text \<open>
  \<^bold>\<open>Note.\<close> When the old string occurs exactly once, the edit replaces this occurrence whatever the other
  strategies would find; it neither fails nor panics.
\<close>

theorem exact_unique_match_wins:
  assumes "old_string \<noteq> new_string" and "content = a @ old_string @ b"
    and "\<And>i. occurs_at content old_string i \<Longrightarrow> i = length a"
  shows "replace fo regex_find content old_string new_string False = Returned (Inr (a @ new_string @ b))"
proof -
  have occ: "occurs_at content old_string (length a)" using assms(2) by (auto simp: occurs_at_split)
  then have f: "str_find content old_string = Some (length a)"
    unfolding str_find_Some_iff using assms(3) nat_neq_iff by blast
  then have "str_rfind content old_string = Some (length a)" using find_rfind_unique assms(3) by blast
  with f show ?thesis using assms(1,2) by (intro replace_simple) simp_all
qed

theorem exact_unique_match_wins_witness:
  "\<forall>(fo :: nat f64_ops) regex_find. replace fo regex_find ''abc'' ''b'' ''X'' False = Returned (Inr ''aXc'')"
proof (intro allI)
  fix fo :: "nat f64_ops" and regex_find
  have "i = length ''a''" if "occurs_at ''abc'' ''b'' i" for i
  proof -
    have "str_rfind ''abc'' ''b'' = Some 1 \<and> str_find ''abc'' ''b'' = Some 1" by code_simp
    then show ?thesis using that find_rfind_unique [of "''abc''" "''b''" 1] by (metis One_nat_def length_Cons list.size(3))
  qed
  then show "replace fo regex_find ''abc'' ''b'' ''X'' False = Returned (Inr ''aXc'')"
    using exact_unique_match_wins [of "''b''" "''X''" "''abc''" "''a''" "''c''" fo regex_find] by simp
qed

text \<open>
  \<^bold>\<open>Note.\<close> When the old string is not empty and occurs, replacing all occurrences gives the pieces of
  the content between the occurrences, joined by the new string.
\<close>

theorem replace_all_joins_pieces:
  assumes "old_string \<noteq> new_string" "old_string \<noteq> []" "str_contains content old_string"
  shows "\<exists>pieces. content = join old_string pieces \<and>
           replace fo regex_find content old_string new_string True = Returned (Inr (join new_string pieces))"
proof -
  obtain i where "str_find content old_string = Some i"
    using assms(3) str_find_None_iff str_contains_occurs by (metis option.exhaust)
  then have "replace fo regex_find content old_string new_string True
      = Returned (Inr (str_replace content old_string new_string))"
    using assms(1) by (intro replace_simple) simp_all
  also have "str_replace content old_string new_string = join new_string (split_pattern content old_string)"
    using assms(2) by (simp add: str_replace_def replace_nonempty_join)
  finally show ?thesis by (auto intro!: exI [of _ "split_pattern content old_string"] simp: join_split_pattern assms(2))
qed

theorem replace_all_joins_pieces_witness:
  "\<forall>(fo :: nat f64_ops) regex_find. \<exists>pieces. ''aba'' = join ''a'' pieces \<and>
     replace fo regex_find ''aba'' ''a'' ''X'' True = Returned (Inr (join ''X'' pieces))"
proof (intro allI)
  fix fo :: "nat f64_ops" and regex_find
  have "str_contains ''aba'' ''a''" by code_simp
  then show "\<exists>pieces. ''aba'' = join ''a'' pieces \<and>
     replace fo regex_find ''aba'' ''a'' ''X'' True = Returned (Inr (join ''X'' pieces))"
    by (intro replace_all_joins_pieces) simp_all
qed

text \<open>The loop reports whether any proposal has occurred.\<close>

lemma try_searches_Inl:
  "try_searches content new ra searches nf = Inl nf' \<Longrightarrow>
     nf' = (nf \<and> (\<forall>search\<in>set searches. \<not> str_contains content search))"
proof (induction searches arbitrary: nf)
  case (Cons search searches)
  show ?case
  proof (cases "str_find content search")
    case None
    then have "\<not> str_contains content search" by (simp add: str_find_None_iff str_contains_occurs)
    with Cons None show ?thesis by simp
  next
    case (Some i)
    then have "str_contains content search" by (auto simp: str_find_Some_iff str_contains_occurs)
    with Cons Some show ?thesis by (auto split: if_splits)
  qed
qed simp

lemma try_replacers_Inl:
  "try_replacers rs content old new ra nf = Returned (Inl e) \<Longrightarrow>
     (\<forall>rep\<in>set rs. rep content old \<noteq> None) \<and>
     e = (if nf \<and> (\<forall>rep\<in>set rs. \<forall>search\<in>set (the (rep content old)). \<not> str_contains content search)
          then NotFound else MultipleMatches)"
proof (induction rs arbitrary: nf)
  case (Cons rep rs)
  then obtain searches nf' where s: "rep content old = Some searches"
      "try_searches content new ra searches nf = Inl nf'"
      "try_replacers rs content old new ra nf' = Returned (Inl e)"
    by (auto split: option.splits sum.splits)
  with Cons.IH [OF s(3)] try_searches_Inl [OF s(2)] show ?case by auto
qed simp

lemma try_searches_Inl_multiple:
  "try_searches content new False searches nf = Inl nf' \<Longrightarrow> search \<in> set searches \<Longrightarrow>
     occurs_at content search i \<Longrightarrow> \<exists>j. j \<noteq> i \<and> occurs_at content search j"
proof (induction searches arbitrary: nf)
  case (Cons s searches)
  show ?case
  proof (cases "str_find content s")
    case None
    then have "\<forall>k. \<not> occurs_at content s k" by (simp add: str_find_None_iff)
    then show ?thesis using Cons None by auto
  next
    case (Some k)
    then have "str_rfind content s \<noteq> Some k"
        "try_searches content new False searches False = Inl nf'"
      using Cons.prems(1) by (auto split: if_splits)
    moreover from this have "\<exists>j. j \<noteq> k \<and> occurs_at content s j" "occurs_at content s k"
      using find_rfind_unique [OF Some] Some by (auto simp: str_find_Some_iff)
    ultimately show ?thesis using Cons.IH Cons.prems(2,3) by (metis set_ConsD)
  qed
qed simp

lemma try_replacers_Inl_multiple:
  "try_replacers rs content old new False nf = Returned (Inl e) \<Longrightarrow> rep \<in> set rs \<Longrightarrow>
     search \<in> set (the (rep content old)) \<Longrightarrow> occurs_at content search i \<Longrightarrow>
     \<exists>j. j \<noteq> i \<and> occurs_at content search j"
proof (induction rs arbitrary: nf)
  case (Cons r rs)
  then obtain searches nf' where "r content old = Some searches"
      "try_searches content new False searches nf = Inl nf'"
      "try_replacers rs content old new False nf' = Returned (Inl e)"
    by (auto split: option.splits sum.splits)
  with Cons.IH Cons.prems(2-4) try_searches_Inl_multiple show ?case by (metis option.sel set_ConsD)
qed simp

text \<open>
  \<^bold>\<open>C38.\<close> The errors of an edit mean what they say: identical strings; no proposal of any strategy
  occurs in the content; or some proposal occurs, and (when one place is to be edited) every proposal
  that occurs does so more than once.
\<close>

theorem edit_errors_exact:
  assumes "replace fo regex_find content old_string new_string False = Returned (Inl e)"
  defines "proposals \<equiv> \<Union>rep\<in>set (replacers fo regex_find). set (the (rep content old_string))"
  shows "case e of
           IdenticalStrings \<Rightarrow> old_string = new_string
         | NotFound \<Rightarrow> \<forall>search\<in>proposals. \<not> str_contains content search
         | MultipleMatches \<Rightarrow> (\<exists>search\<in>proposals. str_contains content search) \<and>
             (\<forall>search\<in>proposals. \<forall>i. occurs_at content search i \<longrightarrow>
                (\<exists>j. j \<noteq> i \<and> occurs_at content search j))"
proof (cases "old_string = new_string")
  case True
  then show ?thesis using assms(1) by (auto simp: replace_def)
next
  case False
  then have t: "try_replacers (replacers fo regex_find) content old_string new_string False True = Returned (Inl e)"
    using assms(1) by (simp add: replace_def)
  show ?thesis
    using try_replacers_Inl [OF t] try_replacers_Inl_multiple [OF t]
    by (auto simp: proposals_def split: if_splits)
qed

theorem edit_errors_exact_witness:
  "\<forall>fo :: nat f64_ops.
     (\<exists>search\<in>\<Union>rep\<in>set (replacers fo (\<lambda>_ _. None)). set (the (rep ''aba'' ''a'')). str_contains ''aba'' search)"
proof
  fix fo :: "nat f64_ops"
  have "replace fo (\<lambda>_ _. None) ''aba'' ''a'' ''X'' False = Returned (Inl MultipleMatches)" by code_simp
  from edit_errors_exact [OF this]
  show "\<exists>search\<in>\<Union>rep\<in>set (replacers fo (\<lambda>_ _. None)). set (the (rep ''aba'' ''a'')). str_contains ''aba'' search"
    by simp
qed

section \<open>Inputs the strategies do not expect\<close>

text \<open>
  A search of two lines in a content of one line: no strategy before the one that normalises white
  space finds anything, and that one slices past the end of the lines.
\<close>

lemma occurs_split_char:
  assumes "occurs_at s p i"
  shows "length (split_char d p) \<le> length (split_char d s)"
proof -
  have len: "length (split_char d t) = Suc (length (filter ((=) d) t))" for t
    by (induction t) (auto split: list.split)
  obtain a b where "s = a @ p @ b" using assms by (auto simp: occurs_at_split)
  then show ?thesis by (simp add: len)
qed

theorem two_line_search_in_one_line_panics:
  assumes "old_string \<noteq> new_string"
    and "length (split_char LF content) = 1" "length (split_char LF old_string) = 2"
    and "last (split_char LF old_string) \<noteq> []"
  shows "replace fo regex_find content old_string new_string replace_all = Panicked"
proof -
  obtain l x y where l: "split_char LF content = [l]" "split_char LF old_string = [x, y]" "y \<noteq> []"
    using assms(2-4) by (auto simp: length_Suc_conv numeral_2_eq_2)
  have absent: "str_find content old_string = None"
    using assms(2,3) occurs_split_char [of content old_string _ LF] by (force simp: str_find_None_iff)
  have "find_line_trimmed content old_string \<in> {None, Some []}"
    using l by (simp add: find_line_trimmed_def pop_empty_def)
  moreover have "find_block_anchor fo content old_string = Some []"
    using l by (simp add: find_block_anchor_def pop_empty_def)
  moreover have "find_whitespace_normalized regex_find content old_string = None"
    using l by (simp add: find_whitespace_normalized_def line_blocks_def Let_def)
  ultimately show ?thesis using assms(1) absent
    by (auto simp: replace_def replacers_def find_simple_def)
qed

theorem two_line_search_in_one_line_panics_witness:
  "\<forall>(fo :: nat f64_ops) regex_find. replace fo regex_find ''x'' (''a'' @ [LF] @ ''b'') ''c'' False = Panicked"
proof (intro allI)
  fix fo :: "nat f64_ops" and regex_find
  show "replace fo regex_find ''x'' (''a'' @ [LF] @ ''b'') ''c'' False = Panicked"
    by (rule two_line_search_in_one_line_panics) (simp_all add: LF_def)
qed

text \<open>
  With \<open>replace_all\<close>, a blank search that does not occur falls through to the strategy that trims it: the
  trimmed search is empty, occurs everywhere, and the new string is inserted between all characters.
\<close>

lemma blank_search_replaces_everywhere:
  "replace fo regex_find ''abc'' '' '' ''X'' True = Returned (Inr ''XaXbXcX'')"
  by code_simp

lemma trim_diff_slices_inside_character:
  "trim_diff [CHR 0x2B, CHR 0xC2, CHR 0xA0, CHR ''x''] = None"
  by code_simp

section \<open>What reaches the file\<close>

lemma finish_edit_writes:
  assumes "finish_edit env existed diff new_content base_text n shown = (effects, r)" "WriteFile c \<in> set effects"
  shows "c = new_content \<and> ev_ask_permission env diff = None \<and> ev_write env c = None \<and>
           (\<exists>rest. effects = AskPermission diff # WriteFile c # rest \<and> (\<forall>d. WriteFile d \<notin> set rest))"
  using assms by (auto simp: finish_edit_def Let_def split: option.splits prod.splits if_splits)

lemma finish_edit_ok:
  assumes "finish_edit env existed diff new_content base_text n shown = (effects, Inr r)"
  shows "WriteFile new_content \<in> set effects"
  using assms by (auto simp: finish_edit_def Let_def split: option.splits prod.splits)

lemma edit_content_finish:
  assumes "edit_content fo regex_find env inp content = Returned (effects, r)" "effects \<noteq> [] \<or> is_ok r"
  obtains new_content diff base_text n shown where
    "finish_edit env (content \<noteq> []) diff new_content base_text n shown = (effects, r)"
    "if ei_old_string inp = []
     then new_content = normalize_line_endings (ei_new_string inp) \<and> diff = create_diff (ev_path env) [] new_content
     else replace fo regex_find content (normalize_line_endings (ei_old_string inp))
            (normalize_line_endings (ei_new_string inp)) (ei_replace_all inp) = Returned (Inr new_content)
          \<and> diff = create_diff (ev_path env) content new_content"
  using assms by (fastforce simp: edit_content_def Let_def is_ok_def split: if_splits outcome.splits sum.splits)

lemma edit_under_lock_content:
  assumes "edit_under_lock fo regex_find env inp = Returned (effects, r)" "effects \<noteq> [] \<or> is_ok r"
  obtains raw where "ev_resolve_existing_file_path env = Inr (ev_authorized env)" "ev_read env = Inr raw"
    "normalize_line_endings raw \<noteq> [] \<longrightarrow> ev_file_time_assert env = None"
    "edit_content fo regex_find env inp (normalize_line_endings raw) = Returned (effects, r)"
  using assms by (auto simp: edit_under_lock_def Let_def is_ok_def split: if_splits option.splits sum.splits)

text \<open>A file \<open>abc\<close> that may be edited.\<close>

definition sample_env :: "nat edit_env" where
  "sample_env =
     \<lparr>ev_authorized = (0 :: nat), ev_resolve_existing_file_path = Inr 0, ev_read = Inr ''abc'',
       ev_file_time_assert = None, ev_ask_permission = (\<lambda>_. None), ev_write = (\<lambda>_. None),
       ev_lsp_touch_file = None, ev_file_time_read = None, ev_lsp_diagnostics = ([], []),
       ev_path = ''f'', ev_title = ''f''\<rparr>"

definition sample_edit :: EditInput where
  "sample_edit = \<lparr>ei_old_string = ''b'', ei_new_string = ''X'', ei_replace_all = False\<rparr>"

lemma sample_edit_run:
  "edit_under_lock fo regex_find sample_env sample_edit =
     Returned ([AskPermission (create_diff ''f'' ''abc'' ''aXc''), WriteFile ''aXc'', PublishBus ''file.edited'' [],
                PublishBus ''file_watcher.updated'' ''change'', LspTouchFile, FileTimeRead],
       Inr \<lparr>tr_title = ''f'', tr_text = ''Successfully edited f (1 replacement)'', tr_replacements = Some 1,
            tr_diff = Some (create_diff ''f'' ''abc'' ''aXc''), tr_diagnostics = []\<rparr>)"
  by code_simp



text \<open>A successful edit has written; a failed or panicking replacement has not even asked.\<close>

theorem edit_success_writes_once:
  assumes "edit_under_lock fo regex_find env inp = Returned (effects, Inr r)"
  shows "\<exists>!c. WriteFile c \<in> set effects"
proof -
  obtain raw where "edit_content fo regex_find env inp (normalize_line_endings raw) = Returned (effects, Inr r)"
    using edit_under_lock_content [OF assms] by (auto simp: is_ok_def)
  then obtain new_content diff base_text n shown where f:
      "finish_edit env (normalize_line_endings raw \<noteq> []) diff new_content base_text n shown = (effects, Inr r)"
    using edit_content_finish [of fo regex_find env inp] by (metis (no_types, lifting) is_ok_iff)
  then show ?thesis using finish_edit_ok finish_edit_writes by metis
qed

text \<open>
  With an empty old string the whole file is overwritten, and the difference shown for permission is
  the one from an empty file, whatever the file holds.
\<close>

lemma empty_old_string_hides_deletions:
  assumes "ei_old_string inp = []"
    and "edit_under_lock fo regex_find env inp = Returned (effects, r)" and "WriteFile c \<in> set effects"
  shows "c = normalize_line_endings (ei_new_string inp) \<and>
           AskPermission (create_diff (ev_path env) [] c) \<in> set effects"
proof -
  have ne: "effects \<noteq> []" using assms(3) by auto
  then obtain raw where raw: "edit_content fo regex_find env inp (normalize_line_endings raw) = Returned (effects, r)"
    using edit_under_lock_content [OF assms(2)] by blast
  obtain new_content diff base_text n shown where f:
      "finish_edit env (normalize_line_endings raw \<noteq> []) diff new_content base_text n shown = (effects, r)"
      "new_content = normalize_line_endings (ei_new_string inp)" "diff = create_diff (ev_path env) [] new_content"
    using edit_content_finish [OF raw] ne assms(1) by (metis (no_types, lifting))
  from finish_edit_writes [OF f(1) assms(3)] f(2,3) show ?thesis by auto
qed

end
