(* ===== verification/Sandbox_Path.thy ===== *)
theory Sandbox_Path
  imports Rust_Strings
begin

text \<open>
  The path authority of the sandbox (\<open>agendao-sandbox/src/path.rs\<close>), on Unix.

  \<^item> A \<open>Path\<close> is the list of its components, which is what its equality, \<open>starts_with\<close> and
    \<open>strip_prefix\<close> compare. \<open>path_components\<close> parses a string as \<open>Path::components\<close> does: empty and
    interior \<open>.\<close> components vanish, a leading \<open>.\<close> stays.
  \<^item> The file system is a record of operations: \<open>fs_canonicalize\<close>, \<open>fs_exists\<close> (which follows links)
    and \<open>fs_symlink_metadata\<close> (which does not).
\<close>

section \<open>Paths\<close>

datatype component = RootDir | CurDir | ParentDir | Normal string

type_synonym path = "component list"

fun component_of :: "string \<Rightarrow> component option" where
  "component_of s = (if s = [] \<or> s = ''.'' then None else if s = ''..'' then Some ParentDir else Some (Normal s))"

definition path_components :: "string \<Rightarrow> path" where
  "path_components s =
     (if s = [] then []
      else (let segments = split_char (CHR ''/'') s
            in (if hd s = CHR ''/'' then [RootDir] else if hd segments = ''.'' then [CurDir] else [])
               @ List.map_filter component_of segments))"

definition is_absolute :: "path \<Rightarrow> bool" where
  "is_absolute p \<longleftrightarrow> p \<noteq> [] \<and> hd p = RootDir"

definition path_join :: "path \<Rightarrow> path \<Rightarrow> path" where
  "path_join base p =
     (if is_absolute p then p
      else if base = [] then p
      else base @ (if p \<noteq> [] \<and> hd p = CurDir then tl p else p))"

definition parent :: "path \<Rightarrow> path option" where
  "parent p = (if p = [] \<or> last p = RootDir then None else Some (butlast p))"

definition file_name :: "path \<Rightarrow> string option" where
  "file_name p = (if p = [] then None else case last p of Normal n \<Rightarrow> Some n | _ \<Rightarrow> None)"

definition path_starts_with :: "path \<Rightarrow> path \<Rightarrow> bool" where
  "path_starts_with p base \<longleftrightarrow> prefix base p"

fun component_str :: "component \<Rightarrow> string" where
  "component_str RootDir = []"
| "component_str CurDir = ''.''"
| "component_str ParentDir = ''..''"
| "component_str (Normal n) = n"

definition path_display :: "path \<Rightarrow> string" where
  "path_display p = (if p = [RootDir] then ''/'' else join ''/'' (map component_str p))"

section \<open>Lexical resolution\<close>

definition PROTECTED_METADATA_COMPONENTS :: "string list" where
  "PROTECTED_METADATA_COMPONENTS = [''.git'', ''.agendao'', ''.agents'', ''.codex'']"

datatype PathViolation =
  LexicalEscape string
| CanonicalEscape path path
| SymlinkEscape path path
| InvalidInput string
| PathIo path

text \<open>\<open>PathBuf::pop\<close> leaves a root and the empty path alone.\<close>

definition path_pop :: "path \<Rightarrow> path" where
  "path_pop p = (case parent p of Some q \<Rightarrow> q | None \<Rightarrow> p)"

definition normalize_step :: "path \<Rightarrow> component \<Rightarrow> path" where
  "normalize_step resolved c =
     (case c of
        CurDir \<Rightarrow> resolved
      | ParentDir \<Rightarrow> path_pop resolved
      | RootDir \<Rightarrow> [RootDir]
      | Normal n \<Rightarrow> resolved @ [Normal n])"

definition lexical_normalize :: "path \<Rightarrow> path" where
  "lexical_normalize p = foldl normalize_step [] p"

definition resolve_user_path :: "string \<Rightarrow> path \<Rightarrow> PathViolation + path" where
  "resolve_user_path input base =
     (let raw = trim input
      in if raw = [] then Inl (InvalidInput ''empty path'')
         else if CHR 0x00 \<in> set raw then Inl (InvalidInput ''NUL byte in path'')
         else if starts_with raw ''~''
         then Inl (InvalidInput (''tilde paths are not resolved by the sandbox path authority: '' @ raw))
         else
           let (joined, enforce_base) =
                 (case strip_prefix ''workspace:'' raw of
                    Some relative \<Rightarrow> (path_join base (path_components relative), True)
                  | None \<Rightarrow>
                      if is_absolute (path_components raw) then (path_components raw, False)
                      else (path_join base (path_components raw), True));
               normalized = lexical_normalize joined
           in if enforce_base \<and> \<not> path_starts_with normalized base then Inl (LexicalEscape raw)
              else Inr normalized)"

section \<open>Resolution in the file system\<close>

record filesystem =
  fs_canonicalize :: "path \<Rightarrow> path option"
  fs_exists :: "path \<Rightarrow> bool"
  fs_symlink_metadata :: "path \<Rightarrow> bool"

definition canonicalize_existing :: "filesystem \<Rightarrow> path \<Rightarrow> PathViolation + path" where
  "canonicalize_existing fs p =
     (case fs_canonicalize fs p of Some c \<Rightarrow> Inr c | None \<Rightarrow> Inl (PathIo p))"

record CreateTarget =
  ct_parent :: path
  ct_suffix :: path
  ct_component :: string
  ct_existing :: "path option"

text \<open>
  The loop to the deepest existing ancestor, with the names below it. A last component that is not a
  name has no \<open>file_name\<close>, so the comparisons with \<open>.\<close> and \<open>..\<close> in the source never hold.
\<close>

function existing_ancestor :: "filesystem \<Rightarrow> path \<Rightarrow> component list \<Rightarrow> PathViolation + (path \<times> component list)" where
  "existing_ancestor fs current below =
     (if fs_exists fs current then Inr (current, below)
      else case file_name current of
             None \<Rightarrow> Inl (InvalidInput ''path has no existing ancestor'')
           | Some n \<Rightarrow>
               (case parent current of
                  None \<Rightarrow> Inl (InvalidInput ''path has no existing ancestor'')
                | Some p \<Rightarrow> existing_ancestor fs p (Normal n # below)))"
  by pat_completeness auto
termination
  by (relation "measure (\<lambda>(fs, current, below). length current)")
    (auto simp: parent_def split: if_splits)

declare existing_ancestor.simps [simp del]

definition resolve_create_target :: "filesystem \<Rightarrow> path \<Rightarrow> PathViolation + CreateTarget" where
  "resolve_create_target fs p =
     (case file_name p of
        None \<Rightarrow> Inl (InvalidInput ''path has no final component'')
      | Some component \<Rightarrow>
          res_bind (existing_ancestor fs p []) (\<lambda>(current, below).
          res_bind (if below = []
                    then (case parent p of
                            None \<Rightarrow> Inl (InvalidInput ''path has no parent'')
                          | Some q \<Rightarrow> Inr (q, [Normal component]))
                    else Inr (current, below)) (\<lambda>(anc, names).
          res_bind (canonicalize_existing fs anc) (\<lambda>parent_canon.
          res_bind (if fs_symlink_metadata fs (parent_canon @ names)
                    then res_bind (canonicalize_existing fs (parent_canon @ names)) (\<lambda>c. Inr (Some c))
                    else Inr None) (\<lambda>existing.
          Inr \<lparr>ct_parent = parent_canon, ct_suffix = names, ct_component = component, ct_existing = existing\<rparr>)))))"

definition assert_within_root :: "path \<Rightarrow> path \<Rightarrow> PathViolation + string" where
  "assert_within_root p root =
     (if path_starts_with p root \<and> p \<noteq> root then Inr (path_display (drop (length root) p))
      else if p = root then Inr []
      else Inl (CanonicalEscape root p))"

definition assert_no_symlink_escape :: "filesystem \<Rightarrow> path \<Rightarrow> path \<Rightarrow> PathViolation + unit" where
  "assert_no_symlink_escape fs p root =
     res_bind (canonicalize_existing fs p) (\<lambda>canonical.
       if path_starts_with canonical root then Inr () else Inl (SymlinkEscape p canonical))"

definition workspace_scope :: "string \<Rightarrow> string" where
  "workspace_scope relative =
     (case find (\<lambda>segment. segment \<noteq> []) (split_char (CHR ''/'') relative) of
        Some segment \<Rightarrow> segment | None \<Rightarrow> ''.'')"

fun protected_metadata :: "path \<Rightarrow> string option" where
  "protected_metadata [] = None"
| "protected_metadata (Normal n # p) =
     (if n \<in> set PROTECTED_METADATA_COMPONENTS then Some n else protected_metadata p)"
| "protected_metadata (_ # p) = protected_metadata p"

section \<open>Lexical paths stay where they are\<close>

fun is_name :: "component \<Rightarrow> bool" where
  "is_name (Normal n) = True"
| "is_name _ = False"

text \<open>A resolved path: a root, if any, and names.\<close>

definition resolved_path :: "path \<Rightarrow> bool" where
  "resolved_path p \<longleftrightarrow> list_all is_name (if is_absolute p then tl p else p)"

lemma resolved_pop: "resolved_path p \<Longrightarrow> resolved_path (path_pop p)"
  by (cases p rule: rev_cases)
    (auto simp: resolved_path_def path_pop_def parent_def is_absolute_def hd_append split: if_splits)

lemma resolved_step: "resolved_path p \<Longrightarrow> resolved_path (normalize_step p c)"
  using resolved_pop
  by (cases c) (auto simp: normalize_step_def resolved_path_def is_absolute_def hd_append split: if_splits)

lemma resolved_fold: "resolved_path q \<Longrightarrow> resolved_path (foldl normalize_step q p)"
  by (induction p arbitrary: q) (auto intro: resolved_step)

lemma normalize_resolved: "resolved_path (lexical_normalize p)"
  unfolding lexical_normalize_def by (rule resolved_fold) (simp add: resolved_path_def is_absolute_def)

lemma normalize_fold_names:
  "list_all is_name p \<Longrightarrow> foldl normalize_step q p = q @ p"
proof (induction p arbitrary: q)
  case (Cons c p)
  then show ?case by (cases c) (auto simp: normalize_step_def)
qed simp

lemma normalize_id: "resolved_path p \<Longrightarrow> lexical_normalize p = p"
proof (cases "is_absolute p")
  case True
  assume r: "resolved_path p"
  obtain q where "p = RootDir # q" using True by (cases p) (auto simp: is_absolute_def)
  then show ?thesis using True r normalize_fold_names [of q "[RootDir]"]
    by (simp add: lexical_normalize_def normalize_step_def resolved_path_def)
next
  case False
  assume "resolved_path p"
  then show ?thesis using False normalize_fold_names [of p "[]"]
    by (simp add: lexical_normalize_def resolved_path_def)
qed

text \<open>
  \<^bold>\<open>Note.\<close> A path the model gives relative to a directory, or with the \<open>workspace:\<close> scheme, resolves to a
  path below that directory or is refused; the result has no \<open>.\<close> and no \<open>..\<close> left, so nothing that
  follows can climb out of it lexically.
\<close>

theorem user_path_stays_below_base:
  assumes "resolve_user_path input base = Inr p"
    and "starts_with (trim input) ''workspace:'' \<or> \<not> is_absolute (path_components (trim input))"
  shows "prefix base p \<and> resolved_path p \<and> lexical_normalize p = p"
proof -
  have "path_starts_with p base \<and> (\<exists>q. p = lexical_normalize q)"
    using assms by (auto simp: resolve_user_path_def Let_def strip_prefix_None_iff starts_with_iff prefix_def
        split: if_splits option.splits)
  then show ?thesis using normalize_resolved normalize_id by (auto simp: path_starts_with_def)
qed

theorem user_path_stays_below_base_witness:
  "prefix [RootDir, Normal ''ws''] [RootDir, Normal ''ws'', Normal ''b'']"
proof -
  have "resolve_user_path ''a/../b'' [RootDir, Normal ''ws''] = Inr [RootDir, Normal ''ws'', Normal ''b'']"
    by code_simp
  moreover have "\<not> is_absolute (path_components (trim ''a/../b''))" by code_simp
  ultimately show ?thesis using user_path_stays_below_base by blast
qed

lemma climbing_paths_are_refused:
  "resolve_user_path ''workspace:/../x'' [RootDir, Normal ''ws''] = Inl (LexicalEscape ''workspace:/../x'')"
  "resolve_user_path ''../ws2/x'' [RootDir, Normal ''ws''] = Inl (LexicalEscape ''../ws2/x'')"
  by code_simp+

section \<open>Containment\<close>

lemma assert_within_root_iff: "is_ok (assert_within_root p root) \<longleftrightarrow> (\<exists>rest. p = root @ rest)"
  by (auto simp: assert_within_root_def is_ok_def path_starts_with_def prefix_def)

text \<open>A name is not empty, has no slash and is neither \<open>.\<close> nor \<open>..\<close>.\<close>

fun proper_name :: "component \<Rightarrow> bool" where
  "proper_name (Normal n) \<longleftrightarrow> n \<noteq> [] \<and> n \<noteq> ''.'' \<and> n \<noteq> ''..'' \<and> CHR ''/'' \<notin> set n"
| "proper_name _ \<longleftrightarrow> False"

lemma split_char_absent: "d \<notin> set w \<Longrightarrow> split_char d w = [w]"
  by (induction w) auto

lemma split_char_append: "d \<notin> set w \<Longrightarrow> split_char d (w @ d # s) = w # split_char d s"
  by (induction w) auto

lemma split_char_join: "ws \<noteq> [] \<Longrightarrow> \<forall>w\<in>set ws. d \<notin> set w \<Longrightarrow> split_char d (join [d] ws) = ws"
proof (induction ws)
  case (Cons w ws)
  then show ?case by (cases ws) (auto simp: split_char_absent split_char_append)
qed simp

text \<open>A relative path of proper names is read back from its text.\<close>

lemma components_display:
  assumes "list_all proper_name p"
  shows "path_components (path_display p) = p"
proof (cases "p = []")
  case True
  then show ?thesis by (simp add: path_components_def path_display_def)
next
  case False
  let ?ws = "map component_str p"
  have names: "\<forall>w\<in>set ?ws. CHR ''/'' \<notin> set w \<and> w \<noteq> [] \<and> w \<noteq> ''.'' \<and> w \<noteq> ''..''"
    using assms by (auto simp: list_all_iff elim!: proper_name.elims)
  have disp: "path_display p = join ''/'' ?ws"
    using assms False by (auto simp: path_display_def)
  obtain w ws where ws: "?ws = w # ws" using False by (cases p) auto
  obtain c w' where w: "w = c # w'" "c \<noteq> CHR ''/''" using names ws by (cases w) auto
  have "hd (path_display p) = c" "path_display p \<noteq> []"
    unfolding disp ws w(1) by (cases ws; simp)+
  moreover have "split_char (CHR ''/'') (path_display p) = ?ws"
    unfolding disp using names False by (intro split_char_join) auto
  moreover have "List.map_filter component_of ?ws = p"
    using assms by (induction p) (auto simp: List.map_filter_simps elim!: proper_name.elims)
  ultimately show ?thesis using w(2) names ws by (simp add: path_components_def Let_def)
qed

text \<open>
  \<^bold>\<open>Note.\<close> Containment is decided on components and is exact: a path is within a root if and only if it
  continues the components of the root, and then the relative path that is returned leads from the root
  back to the path.
\<close>

theorem containment_is_exact:
  assumes "is_absolute root" and "list_all proper_name (drop (length root) p)"
  shows "case assert_within_root p root of
           Inr relative \<Rightarrow> prefix root p \<and> path_join root (path_components relative) = p
         | Inl e \<Rightarrow> \<not> prefix root p \<and> e = CanonicalEscape root p"
proof (cases "prefix root p")
  case True
  let ?rest = "drop (length root) p"
  have p: "p = root @ ?rest" using True by (auto simp: prefix_def)
  have "\<not> is_absolute ?rest" "?rest = [] \<or> hd ?rest \<noteq> CurDir"
    using assms(2) by (cases ?rest; auto simp: is_absolute_def)+
  then have "path_join root (path_components (path_display ?rest)) = p"
    using assms components_display [OF assms(2)] p by (auto simp: path_join_def is_absolute_def)
  moreover have "assert_within_root p root = Inr (path_display ?rest)"
    using True by (auto simp: assert_within_root_def path_starts_with_def path_display_def)
  ultimately show ?thesis using True by simp
next
  case False
  then show ?thesis by (auto simp: assert_within_root_def path_starts_with_def)
qed

text \<open>A directory whose name only continues the text of the root is outside.\<close>

theorem containment_is_exact_witness:
  "\<not> prefix [RootDir, Normal ''ws''] [RootDir, Normal ''ws2'', Normal ''x'']"
proof -
  have "assert_within_root [RootDir, Normal ''ws2'', Normal ''x''] [RootDir, Normal ''ws''] =
      Inl (CanonicalEscape [RootDir, Normal ''ws''] [RootDir, Normal ''ws2'', Normal ''x''])"
    by code_simp
  then show ?thesis
    using containment_is_exact [of "[RootDir, Normal ''ws'']" "[RootDir, Normal ''ws2'', Normal ''x'']"]
    by (simp add: is_absolute_def)
qed

section \<open>Create targets\<close>

lemma existing_ancestor_Inr:
  assumes "existing_ancestor fs p below = Inr (anc, names)"
  shows "\<exists>new. names = new @ below \<and> p = anc @ new \<and> list_all is_name new \<and> fs_exists fs anc \<and>
           (\<forall>q. strict_prefix anc q \<and> prefix q p \<longrightarrow> \<not> fs_exists fs q)"
  using assms
proof (induction fs p below rule: existing_ancestor.induct)
  case (1 fs p below)
  show ?case
  proof (cases "fs_exists fs p")
    case True
    then have "anc = p" "names = below" using "1.prems" by (simp_all add: existing_ancestor.simps)
    then show ?thesis using True by (auto simp: strict_prefix_def dest: prefix_order.antisym)
  next
    case False
    then obtain n q where q: "file_name p = Some n" "parent p = Some q"
        and r: "existing_ancestor fs q (Normal n # below) = Inr (anc, names)"
      using "1.prems" by (subst (asm) existing_ancestor.simps) (auto split: option.splits)
    have p: "p = q @ [Normal n]"
      using q by (cases p rule: rev_cases) (auto simp: file_name_def parent_def split: component.splits if_splits)
    from 1(1) [OF False q r] obtain new where new: "names = new @ Normal n # below" "q = anc @ new"
        "list_all is_name new" "fs_exists fs anc" "\<forall>s. strict_prefix anc s \<and> prefix s q \<longrightarrow> \<not> fs_exists fs s"
      by blast
    have "\<not> fs_exists fs s" if "strict_prefix anc s" "prefix s p" for s
      using that new(5) False p by (metis prefix_snoc)
    then show ?thesis using new p by (intro exI [of _ "new @ [Normal n]"]) auto
  qed
qed

text \<open>
  \<^bold>\<open>C36.\<close> A create target is safe to check by its parent: the names below the canonical parent cannot
  climb, so when the parent is within a root, so is the path that will be written; and if something
  exists there, it is resolved to its canonical path.
\<close>

theorem create_target_below_parent:
  assumes "resolve_create_target fs p = Inr target"
  shows "list_all is_name (ct_suffix target) \<and> ct_suffix target \<noteq> [] \<and>
         (\<exists>anc. p = anc @ ct_suffix target \<and> fs_canonicalize fs anc = Some (ct_parent target)) \<and>
         (prefix root (ct_parent target) \<longrightarrow> is_ok (assert_within_root (ct_parent target @ ct_suffix target) root)) \<and>
         (ct_existing target = None \<longrightarrow> \<not> fs_symlink_metadata fs (ct_parent target @ ct_suffix target)) \<and>
         (\<forall>c. ct_existing target = Some c \<longrightarrow> fs_canonicalize fs (ct_parent target @ ct_suffix target) = Some c)"
proof -
  obtain component current below anc names where c: "file_name p = Some component"
      and e: "existing_ancestor fs p [] = Inr (current, below)"
      and a: "(if below = [] then (case parent p of None \<Rightarrow> Inl (InvalidInput ''path has no parent'')
                | Some q \<Rightarrow> Inr (q, [Normal component])) else Inr (current, below)) = Inr (anc, names)"
      and t: "fs_canonicalize fs anc = Some (ct_parent target)" "ct_suffix target = names"
      and ex: "if fs_symlink_metadata fs (ct_parent target @ names)
               then \<exists>c. ct_existing target = Some c \<and> fs_canonicalize fs (ct_parent target @ names) = Some c
               else ct_existing target = None"
    using assms unfolding resolve_create_target_def canonicalize_existing_def
    by (fastforce simp: res_bind_Inr_iff split: option.splits if_splits)
  from existing_ancestor_Inr [OF e] have below: "p = current @ below" "list_all is_name below" by auto
  have last: "p = butlast p @ [Normal component]"
    using c by (cases p rule: rev_cases) (auto simp: file_name_def split: component.splits)
  have "list_all is_name names \<and> names \<noteq> [] \<and> p = anc @ names"
  proof (cases "below = []")
    case True
    then have "anc = butlast p" "names = [Normal component]" using a by (auto simp: parent_def split: option.splits if_splits)
    then show ?thesis using last by simp
  next
    case False
    then show ?thesis using a below by auto
  qed
  then show ?thesis using t ex
    by (auto simp: assert_within_root_iff prefix_def split: if_splits)
qed

theorem create_target_below_parent_witness:
  "is_ok (assert_within_root [RootDir, Normal ''ws'', Normal ''new'', Normal ''f''] [RootDir, Normal ''ws''])"
proof -
  let ?fs = "\<lparr>fs_canonicalize = (\<lambda>p. Some p), fs_exists = (\<lambda>p. p = [RootDir, Normal ''ws'']),
    fs_symlink_metadata = (\<lambda>_. False)\<rparr>"
  have "resolve_create_target ?fs [RootDir, Normal ''ws'', Normal ''new'', Normal ''f''] =
      Inr \<lparr>ct_parent = [RootDir, Normal ''ws''], ct_suffix = [Normal ''new'', Normal ''f''],
           ct_component = ''f'', ct_existing = None\<rparr>"
    by code_simp
  from create_target_below_parent [OF this, of "[RootDir, Normal ''ws'']"] show ?thesis by simp
qed

end
