(* ===== verification/Sandbox_Policy.thy ===== *)
theory Sandbox_Policy
  imports Sandbox_Path Rust_Maps
begin

text \<open>
  The sandbox domain model (\<open>agendao-sandbox/src/model.rs\<close>), the policy merge (\<open>policy.rs\<close>), the network
  policy (\<open>network.rs\<close>) and the environment policy (\<open>environment.rs\<close>).
\<close>

datatype TrustClass = ModelReachable | UserConfiguredIntegration | HostManagement

datatype FilesystemMode = FsReadOnly | FsWorkspaceWrite | FsRestricted | FsUnrestricted

datatype NetworkMode = NetDisabled | NetProxyOnly | NetEnabled

datatype ProcessMode = Contained | Native

datatype ProfileKind = PkWorkspaceWrite | PkCheck | PkInteractiveShell | PkIntegration | PkNative

datatype SessionPermissionMode = SessionDefault | TrustedWorkspace | UnsandboxedYolo

record FilesystemPolicy =
  fp_mode :: FilesystemMode
  fp_writable_roots :: "path list"
  fp_read_only_roots :: "path list"

section \<open>Network\<close>

record NetworkPolicy =
  np_mode :: NetworkMode
  np_proxy_endpoint :: "string option"
  np_allowed_unix_sockets :: "path list"
  np_allowed_hosts :: "string list"

definition network_disabled :: NetworkPolicy where
  "network_disabled = \<lparr>np_mode = NetDisabled, np_proxy_endpoint = None, np_allowed_unix_sockets = [],
     np_allowed_hosts = []\<rparr>"

definition proxy_only :: "string \<Rightarrow> NetworkPolicy" where
  "proxy_only endpoint = \<lparr>np_mode = NetProxyOnly, np_proxy_endpoint = Some endpoint,
     np_allowed_unix_sockets = [], np_allowed_hosts = []\<rparr>"

datatype NetworkPolicyError = ProxyOnlyWithoutEndpoint | EnabledRequiresNative | DisabledWithAllowlist

definition validate_network :: "NetworkPolicy \<Rightarrow> ProcessMode \<Rightarrow> NetworkPolicyError + unit" where
  "validate_network policy process =
     (case np_mode policy of
        NetDisabled \<Rightarrow> guard (np_allowed_unix_sockets policy = [] \<and> np_allowed_hosts policy = []) DisabledWithAllowlist
      | NetProxyOnly \<Rightarrow> guard (np_proxy_endpoint policy \<noteq> None) ProxyOnlyWithoutEndpoint
      | NetEnabled \<Rightarrow> guard (process = Native) EnabledRequiresNative)"

section \<open>Environment\<close>

definition AGENDAO_SANDBOX_ENV_PREFIX :: string where
  "AGENDAO_SANDBOX_ENV_PREFIX = ''AGENDAO_SANDBOX_''"

definition CORE_ENV_NAMES :: "string list" where
  "CORE_ENV_NAMES = [''PATH'', ''HOME'', ''LANG'', ''LC_ALL'', ''TZ'', ''TERM'', ''TMPDIR'']"

datatype EnvNamePattern = PatExact string | PatSuffix string | PatContains string

fun env_pattern_matches :: "EnvNamePattern \<Rightarrow> string \<Rightarrow> bool" where
  "env_pattern_matches (PatExact name) candidate = (candidate = name)"
| "env_pattern_matches (PatSuffix s) candidate = ends_with candidate s"
| "env_pattern_matches (PatContains fragment) candidate = str_contains candidate fragment"

record EnvironmentPolicy =
  ep_clear_and_reinject :: bool
  ep_inherit_core :: bool
  ep_hard_deny_exact :: "string list"
  ep_deny_patterns :: "EnvNamePattern list"
  ep_allow_exact :: "string list"

definition default_hard_deny_exact :: "string list" where
  "default_hard_deny_exact = [''AGENDAO_INTERNAL_TOKEN'', ''AGENDAO_SERVER_PASSWORD'', ''AGENDAO_SESSION_TOKEN'']"

definition default_deny_patterns :: "EnvNamePattern list" where
  "default_deny_patterns = [PatSuffix ''_API_KEY'', PatSuffix ''_SECRET'', PatSuffix ''_TOKEN'',
     PatSuffix ''_PASSWORD'', PatContains ''CREDENTIAL'']"

definition default_environment :: EnvironmentPolicy where
  "default_environment = \<lparr>ep_clear_and_reinject = True, ep_inherit_core = True,
     ep_hard_deny_exact = default_hard_deny_exact, ep_deny_patterns = default_deny_patterns, ep_allow_exact = []\<rparr>"

definition native_inherit :: EnvironmentPolicy where
  "native_inherit = default_environment\<lparr>ep_clear_and_reinject := False\<rparr>"

datatype EnvironmentError = HardDeniedKey string | DeniedByPattern string | AuthorityReserved string

definition is_denied :: "EnvironmentPolicy \<Rightarrow> string \<Rightarrow> bool" where
  "is_denied policy name =
     (if name \<in> set (ep_hard_deny_exact policy) then True
      else if name \<in> set (ep_allow_exact policy) then False
      else list_ex (\<lambda>p. env_pattern_matches p name) (ep_deny_patterns policy))"

definition check_override :: "EnvironmentPolicy \<Rightarrow> string \<Rightarrow> EnvironmentError + unit" where
  "check_override policy name =
     (if starts_with name AGENDAO_SANDBOX_ENV_PREFIX then Inl (AuthorityReserved name)
      else if name \<in> set (ep_hard_deny_exact policy) then Inl (HardDeniedKey name)
      else if is_denied policy name then Inl (DeniedByPattern name)
      else Inr ())"

type_synonym env_map = "(string \<times> string) list"

definition insert_all :: "env_map \<Rightarrow> env_map \<Rightarrow> env_map" where
  "insert_all child entries = foldl (\<lambda>m (k, v). btree_insert k v m) child entries"

text \<open>The variables a child starts with.\<close>

definition inherited :: "EnvironmentPolicy \<Rightarrow> env_map \<Rightarrow> env_map" where
  "inherited policy host =
     (if ep_clear_and_reinject policy
      then if ep_inherit_core policy
           then List.map_filter (\<lambda>name. case map_of host name of
                    Some v \<Rightarrow> if is_denied policy name then None else Some (name, v)
                  | None \<Rightarrow> None) CORE_ENV_NAMES
           else []
      else filter (\<lambda>(name, _). \<not> is_denied policy name) host)"

definition build_child_environment ::
    "EnvironmentPolicy \<Rightarrow> env_map \<Rightarrow> env_map \<Rightarrow> env_map \<Rightarrow> EnvironmentError + env_map" where
  "build_child_environment policy host overrides authority_injected =
     res_bind (res_check (\<lambda>(name, _). check_override policy name) overrides) (\<lambda>_.
     res_bind (res_check (\<lambda>(name, _). guard (starts_with name AGENDAO_SANDBOX_ENV_PREFIX) (AuthorityReserved name))
                 authority_injected) (\<lambda>_.
     Inr (insert_all (insert_all (insert_all [] (inherited policy host)) overrides) authority_injected)))"

section \<open>The policy merge\<close>

fun filesystem_rank :: "FilesystemMode \<Rightarrow> nat" where
  "filesystem_rank FsReadOnly = 0"
| "filesystem_rank FsRestricted = 1"
| "filesystem_rank FsWorkspaceWrite = 2"
| "filesystem_rank FsUnrestricted = 3"

fun network_rank :: "NetworkMode \<Rightarrow> nat" where
  "network_rank NetDisabled = 0"
| "network_rank NetProxyOnly = 1"
| "network_rank NetEnabled = 2"

record HardPolicy =
  hp_max_filesystem :: FilesystemMode
  hp_max_network :: NetworkMode
  hp_allow_native :: bool

definition contained_baseline :: HardPolicy where
  "contained_baseline = \<lparr>hp_max_filesystem = FsWorkspaceWrite, hp_max_network = NetDisabled, hp_allow_native = False\<rparr>"

definition unrestricted :: HardPolicy where
  "unrestricted = \<lparr>hp_max_filesystem = FsUnrestricted, hp_max_network = NetEnabled, hp_allow_native = True\<rparr>"

definition intersect :: "HardPolicy \<Rightarrow> HardPolicy \<Rightarrow> HardPolicy" where
  "intersect a b =
     \<lparr>hp_max_filesystem = (if filesystem_rank (hp_max_filesystem a) \<le> filesystem_rank (hp_max_filesystem b)
                           then hp_max_filesystem a else hp_max_filesystem b),
      hp_max_network = (if network_rank (hp_max_network a) \<le> network_rank (hp_max_network b)
                        then hp_max_network a else hp_max_network b),
      hp_allow_native = (hp_allow_native a \<and> hp_allow_native b)\<rparr>"

record PermissionGrantScope =
  gs_write_paths :: "path list"
  gs_max_network :: "NetworkMode option"

record PolicyInputs =
  in_platform :: HardPolicy
  in_admin :: "HardPolicy option"
  in_agent :: "HardPolicy option"
  in_session_mode :: SessionPermissionMode
  in_grant :: "PermissionGrantScope option"
  in_check_build_cache_root :: "path option"
  in_environment_allow_exact :: "string list"

definition baseline_inputs :: "SessionPermissionMode \<Rightarrow> PolicyInputs" where
  "baseline_inputs mode = \<lparr>in_platform = unrestricted, in_admin = None, in_agent = None, in_session_mode = mode,
     in_grant = None, in_check_build_cache_root = None, in_environment_allow_exact = []\<rparr>"

datatype PolicyError = NativeNotAllowed | CheckRequiresCacheRoot

definition session_bound :: "SessionPermissionMode \<Rightarrow> HardPolicy" where
  "session_bound mode = (case mode of UnsandboxedYolo \<Rightarrow> unrestricted | _ \<Rightarrow> contained_baseline)"

definition grant_bound :: "PermissionGrantScope \<Rightarrow> HardPolicy" where
  "grant_bound grant =
     \<lparr>hp_max_filesystem = (if gs_write_paths grant = [] then FsReadOnly else FsWorkspaceWrite),
      hp_max_network = (case gs_max_network grant of Some m \<Rightarrow> m | None \<Rightarrow> NetDisabled),
      hp_allow_native = False\<rparr>"

definition request_bound :: "ProfileKind \<Rightarrow> PermissionGrantScope option \<Rightarrow> HardPolicy" where
  "request_bound kind grant =
     (case kind of
        PkWorkspaceWrite \<Rightarrow> contained_baseline
      | PkInteractiveShell \<Rightarrow> contained_baseline
      | PkIntegration \<Rightarrow>
          \<lparr>hp_max_filesystem = (case grant of Some g \<Rightarrow> if gs_write_paths g \<noteq> [] then FsWorkspaceWrite else FsReadOnly
                                            | None \<Rightarrow> FsReadOnly),
           hp_max_network = NetDisabled, hp_allow_native = False\<rparr>
      | PkCheck \<Rightarrow> \<lparr>hp_max_filesystem = FsReadOnly, hp_max_network = NetDisabled, hp_allow_native = False\<rparr>
      | PkNative \<Rightarrow> unrestricted)"

definition intersect_opt :: "HardPolicy \<Rightarrow> HardPolicy option \<Rightarrow> HardPolicy" where
  "intersect_opt bound layer = (case layer of Some l \<Rightarrow> intersect bound l | None \<Rightarrow> bound)"

definition merged_bound :: "ProfileKind \<Rightarrow> PolicyInputs \<Rightarrow> HardPolicy" where
  "merged_bound kind inputs =
     (let bound = in_platform inputs;
          bound = intersect_opt bound (in_admin inputs);
          bound = intersect_opt bound (in_agent inputs);
          bound = intersect bound (session_bound (in_session_mode inputs));
          bound = intersect_opt bound (map_option grant_bound (in_grant inputs))
      in intersect bound (request_bound kind (in_grant inputs)))"

record SandboxProfile =
  sp_trust_class :: TrustClass
  sp_filesystem :: FilesystemPolicy
  sp_network :: NetworkPolicy
  sp_environment :: EnvironmentPolicy
  sp_process :: ProcessMode

definition contained_workspace_write :: SandboxProfile where
  "contained_workspace_write = \<lparr>sp_trust_class = ModelReachable,
     sp_filesystem = \<lparr>fp_mode = FsWorkspaceWrite, fp_writable_roots = [], fp_read_only_roots = []\<rparr>,
     sp_network = network_disabled, sp_environment = default_environment, sp_process = Contained\<rparr>"

definition profile_mode :: "FilesystemMode \<Rightarrow> FilesystemMode" where
  "profile_mode mode =
     (if mode = FsUnrestricted then FsUnrestricted
      else if filesystem_rank mode \<ge> filesystem_rank FsWorkspaceWrite then FsWorkspaceWrite
      else FsReadOnly)"

definition derive_profile ::
    "TrustClass \<Rightarrow> ProfileKind \<Rightarrow> PolicyInputs \<Rightarrow> PolicyError + SandboxProfile" where
  "derive_profile trust_class kind inputs =
     (let bound = merged_bound kind inputs; wants_native = (kind = PkNative)
      in if wants_native \<and> \<not> hp_allow_native bound then Inl NativeNotAllowed
         else
           let mode = profile_mode (hp_max_filesystem bound)
           in res_bind (if kind = PkCheck
                        then (case in_check_build_cache_root inputs of
                                None \<Rightarrow> Inl CheckRequiresCacheRoot | Some root \<Rightarrow> Inr [root])
                        else Inr []) (\<lambda>roots.
              let roots = roots @ (case in_grant inputs of
                    Some grant \<Rightarrow> if mode = FsWorkspaceWrite \<and> kind \<noteq> PkCheck then gs_write_paths grant else []
                  | None \<Rightarrow> []);
                  process = (if wants_native \<and> hp_allow_native bound then Native else Contained)
              in Inr \<lparr>sp_trust_class = trust_class,
                      sp_filesystem = \<lparr>fp_mode = mode, fp_writable_roots = roots, fp_read_only_roots = []\<rparr>,
                      sp_network = \<lparr>np_mode = hp_max_network bound, np_proxy_endpoint = None,
                        np_allowed_unix_sockets = [], np_allowed_hosts = []\<rparr>,
                      sp_environment = (if process = Native then native_inherit else default_environment)
                        \<lparr>ep_allow_exact := in_environment_allow_exact inputs\<rparr>,
                      sp_process = process\<rparr>))"

end
