(* ===== verification/Sandbox_Launch.thy ===== *)
theory Sandbox_Launch
  imports Sandbox_Policy
begin

text \<open>
  From a request to a running child: the execution plan (\<open>agendao-sandbox/src/plan.rs\<close>), the backend
  registry (\<open>backend.rs\<close>), the launcher (\<open>launcher.rs\<close>, \<open>launcher/contract.rs\<close>), the life cycle of an
  execution (\<open>lifecycle.rs\<close>) and the server's authority (\<open>agendao-server/src/sandbox_authority.rs\<close>).

  \<^item> The digest of a plan is a parameter: a function of the fingerprint payload. The minted id, the
    host's environment, the file system and the backends are parameters, too. Which pipes a child gets
    is not policy and is left out.
  \<^item> Events are returned in the order in which the sink receives them.
\<close>

section \<open>Requests and plans\<close>

record SpawnSpec =
  ss_program :: string
  ss_args :: "string list"
  ss_cwd :: "path option"
  ss_env_overrides :: env_map

record SandboxExecutionRequest =
  rq_trust_class :: TrustClass
  rq_profile_kind :: ProfileKind
  rq_spec :: SpawnSpec
  rq_workspace_root :: path
  rq_session_origin :: "string option"

definition INTERACTIVE_PRIVATE_HOME :: string where
  "INTERACTIVE_PRIVATE_HOME = ''/tmp/agendao-home''"

record FilesystemPlan =
  pf_mode :: FilesystemMode
  pf_workspace_root :: string
  pf_writable_roots :: "string list"
  pf_read_only_roots :: "string list"

record FingerprintPayload =
  fy_execution_id :: string
  fy_trust_class :: TrustClass
  fy_requested_kind :: ProfileKind
  fy_filesystem_mode :: FilesystemMode
  fy_workspace_root :: string
  fy_writable_roots :: "string list"
  fy_read_only_roots :: "string list"
  fy_network :: NetworkPolicy
  fy_environment :: EnvironmentPolicy
  fy_process_mode :: ProcessMode
  fy_term_grace_secs :: u64

record SandboxPlan =
  pl_execution_id :: string
  pl_trust_class :: TrustClass
  pl_requested_kind :: ProfileKind
  pl_filesystem :: FilesystemPlan
  pl_network :: NetworkPolicy
  pl_environment :: EnvironmentPolicy
  pl_process_mode :: ProcessMode
  pl_term_grace_secs :: u64
  pl_fingerprint :: string
  pl_session_origin :: "string option"

datatype PlanError =
  WorkspaceRootInvalid path
| WritableRootInvalid path
| PlanNetwork NetworkPolicyError

text \<open>A duration is its number of milliseconds; \<open>as_secs\<close> drops the fraction of a second.\<close>

record PlanContext =
  cx_execution_id :: string
  cx_session_origin :: "string option"
  cx_extra_writable_roots :: "path list"
  cx_extra_read_only_roots :: "path list"
  cx_term_grace :: "nat option"

definition DEFAULT_TERM_GRACE :: nat where "DEFAULT_TERM_GRACE = 5000"

definition as_secs :: "nat \<Rightarrow> u64" where
  "as_secs millis = of_nat (millis div 1000)"

definition canonicalize_root :: "filesystem \<Rightarrow> path \<Rightarrow> PlanError + path" where
  "canonicalize_root fs p =
     (case canonicalize_existing fs p of Inr c \<Rightarrow> Inr c | Inl _ \<Rightarrow> Inl (WritableRootInvalid p))"

text \<open>\<open>sort\<close> and \<open>dedup\<close>.\<close>

definition sorted_values :: "path list \<Rightarrow> string list" where
  "sorted_values roots = remdups_adj (sort (map path_display roots))"

definition build_plan ::
    "filesystem \<Rightarrow> (FingerprintPayload \<Rightarrow> string) \<Rightarrow> SandboxProfile \<Rightarrow> ProfileKind \<Rightarrow> path \<Rightarrow> PlanContext
       \<Rightarrow> PlanError + SandboxPlan" where
  "build_plan fs fingerprint_of profile kind workspace_root cx =
     res_bind (case validate_network (sp_network profile) (sp_process profile) of
                 Inl e \<Rightarrow> Inl (PlanNetwork e) | Inr u \<Rightarrow> Inr u) (\<lambda>_.
     res_bind (case canonicalize_existing fs workspace_root of
                 Inl _ \<Rightarrow> Inl (WorkspaceRootInvalid workspace_root) | Inr c \<Rightarrow> Inr c) (\<lambda>workspace_canon.
     res_bind (res_map (canonicalize_root fs) (fp_writable_roots (sp_filesystem profile))) (\<lambda>roots.
     let writable = sorted_values
           ((if fp_mode (sp_filesystem profile) = FsWorkspaceWrite then [workspace_canon] else [])
             @ roots @ cx_extra_writable_roots cx)
     in res_bind (res_map (canonicalize_root fs) (fp_read_only_roots (sp_filesystem profile))) (\<lambda>ro_roots.
     let read_only = sorted_values (ro_roots @ cx_extra_read_only_roots cx);
         term_grace = as_secs (case cx_term_grace cx of Some g \<Rightarrow> g | None \<Rightarrow> DEFAULT_TERM_GRACE);
         payload = \<lparr>fy_execution_id = cx_execution_id cx, fy_trust_class = sp_trust_class profile,
           fy_requested_kind = kind, fy_filesystem_mode = fp_mode (sp_filesystem profile),
           fy_workspace_root = path_display workspace_canon, fy_writable_roots = writable,
           fy_read_only_roots = read_only, fy_network = sp_network profile,
           fy_environment = sp_environment profile, fy_process_mode = sp_process profile,
           fy_term_grace_secs = term_grace\<rparr>
     in Inr \<lparr>pl_execution_id = cx_execution_id cx, pl_trust_class = sp_trust_class profile,
          pl_requested_kind = kind,
          pl_filesystem = \<lparr>pf_mode = fp_mode (sp_filesystem profile),
            pf_workspace_root = path_display workspace_canon, pf_writable_roots = writable,
            pf_read_only_roots = read_only\<rparr>,
          pl_network = sp_network profile, pl_environment = sp_environment profile,
          pl_process_mode = sp_process profile, pl_term_grace_secs = term_grace,
          pl_fingerprint = fingerprint_of payload, pl_session_origin = cx_session_origin cx\<rparr>))))"

section \<open>Backends\<close>

record BackendProbe =
  bp_available :: bool
  bp_reason :: "string option"

text \<open>A backend by its name, what it supports and what its probe finds.\<close>

record backend =
  be_name :: string
  be_supports :: "SandboxPlan \<Rightarrow> bool"
  be_probe :: BackendProbe

record BackendRegistry =
  br_native :: backend
  br_platform :: "backend list"

datatype SandboxExecutionError =
  InvalidRequest string
| SePolicy PolicyError
| SePlan PlanError
| SeEnvironment EnvironmentError
| SandboxUnavailable string string
| SpawnFailed string string
| AlreadyFinished
| SeLifecycle string

text \<open>The texts of the errors.\<close>

fun policy_error_text :: "PolicyError \<Rightarrow> string" where
  "policy_error_text NativeNotAllowed = ''native execution requested but no policy layer grants it''"
| "policy_error_text CheckRequiresCacheRoot = ''check profile requires an authority-resolved build cache root''"

fun network_error_text :: "NetworkPolicyError \<Rightarrow> string" where
  "network_error_text ProxyOnlyWithoutEndpoint = ''proxy-only network policy requires an authority-provided proxy endpoint''"
| "network_error_text EnabledRequiresNative = ''enabled network egress requires an explicit native/trusted process profile''"
| "network_error_text DisabledWithAllowlist = ''disabled network policy cannot carry allowlists''"

fun plan_error_text :: "PlanError \<Rightarrow> string" where
  "plan_error_text (WorkspaceRootInvalid p) = ''workspace root '' @ path_display p @ '' does not exist or cannot be canonicalized''"
| "plan_error_text (WritableRootInvalid p) = ''writable root '' @ path_display p @ '' does not exist or cannot be canonicalized''"
| "plan_error_text (PlanNetwork e) = ''network policy invalid: '' @ network_error_text e"

fun environment_error_text :: "EnvironmentError \<Rightarrow> string" where
  "environment_error_text (HardDeniedKey k) = ''environment key '' @ k @ '' is hard-denied and can never be injected''"
| "environment_error_text (DeniedByPattern k) = ''environment key '' @ k @ '' matches a deny pattern and is not allow-listed''"
| "environment_error_text (AuthorityReserved k) = ''environment key '' @ k @ '' is reserved for sandbox authority injection''"

fun error_text :: "SandboxExecutionError \<Rightarrow> string" where
  "error_text (InvalidRequest m) = ''invalid execution request: '' @ m"
| "error_text (SePolicy e) = ''policy denied the request: '' @ policy_error_text e"
| "error_text (SePlan e) = ''plan construction failed: '' @ plan_error_text e"
| "error_text (SeEnvironment e) = ''environment rejected: '' @ environment_error_text e"
| "error_text (SandboxUnavailable backend reason) = ''sandbox backend `'' @ backend @ ''` unavailable: '' @ reason"
| "error_text (SpawnFailed backend reason) = ''spawn via backend `'' @ backend @ ''` failed: '' @ reason"
| "error_text AlreadyFinished = ''execution already finished''"
| "error_text (SeLifecycle m) = ''sandbox lifecycle error: '' @ m"

fun denial_reason :: "SandboxExecutionError \<Rightarrow> string" where
  "denial_reason (InvalidRequest _) = ''invalid_request''"
| "denial_reason (SePolicy _) = ''policy_denied''"
| "denial_reason (SePlan _) = ''plan_failed''"
| "denial_reason (SeEnvironment _) = ''environment_rejected''"
| "denial_reason (SandboxUnavailable _ _) = ''backend_unavailable''"
| "denial_reason (SpawnFailed _ _) = ''spawn_failed''"
| "denial_reason AlreadyFinished = ''already_finished''"
| "denial_reason (SeLifecycle _) = ''lifecycle_error''"

fun select_platform :: "backend list \<Rightarrow> SandboxPlan \<Rightarrow> string option \<Rightarrow> string option + backend" where
  "select_platform [] plan first_failure = Inl first_failure"
| "select_platform (b # bs) plan first_failure =
     (if \<not> be_supports b plan then select_platform bs plan first_failure
      else if bp_available (be_probe b) then Inr b
      else select_platform bs plan
        (case first_failure of
           Some f \<Rightarrow> Some f
         | None \<Rightarrow> Some (case bp_reason (be_probe b) of
               Some r \<Rightarrow> r | None \<Rightarrow> ''backend `'' @ be_name b @ ''` probed unavailable'')))"

definition select_backend :: "BackendRegistry \<Rightarrow> SandboxPlan \<Rightarrow> SandboxExecutionError + backend" where
  "select_backend registry plan =
     (case pl_process_mode plan of
        Native \<Rightarrow> Inr (br_native registry)
      | Contained \<Rightarrow>
          (case select_platform (br_platform registry) plan None of
             Inr b \<Rightarrow> Inr b
           | Inl first_failure \<Rightarrow>
               let names = map be_name (br_platform registry)
               in Inl (SandboxUnavailable (case names of n # _ \<Rightarrow> n | [] \<Rightarrow> ''none'')
                    (case first_failure of
                       Some failure \<Rightarrow> failure @ '' (candidates: ['' @ join '', '' names @ ''])''
                     | None \<Rightarrow> if br_platform registry = [] then ''no platform backend registered on this build''
                               else ''no platform backend supports this plan''))))"

section \<open>The launcher\<close>

datatype DenialReason =
  DrInvalidRequest | DrPolicyDenied | DrPlanFailed | DrEnvironmentRejected | DrBackendUnavailable string | DrSpawnFailed

datatype CleanupStatus = NaturalExit | TerminatedByRequest | KilledAfterGrace | TimedOut

record BackendExit =
  bx_success :: bool
  bx_code :: "int option"
  bx_signal :: "int option"

record SandboxExit =
  sx_exit :: BackendExit
  sx_cleanup :: CleanupStatus

datatype SandboxViolationKind =
  PathEscape | ProtectedMetadata | NetworkEgress | EnvironmentLeak | SyscallDenied | ProcessEscape

datatype Attribution = Exact | BackendReported | BestEffort

record SandboxViolation =
  vi_execution_id :: string
  vi_plan_fingerprint :: string
  vi_session_origin :: "string option"
  vi_kind :: SandboxViolationKind
  vi_path_or_endpoint :: "string option"
  vi_attribution :: Attribution
  vi_backend :: string

datatype SandboxEvent =
  EvPrepared string "string option" ProfileKind ProcessMode FilesystemMode NetworkMode string string
| EvStarted string "string option" "nat option" string
| EvDenied string "string option" DenialReason "string option"
| EvViolation SandboxViolation
| EvExited string "string option" SandboxExit string

fun event_execution_id :: "SandboxEvent \<Rightarrow> string" where
  "event_execution_id (EvPrepared i _ _ _ _ _ _ _) = i"
| "event_execution_id (EvStarted i _ _ _) = i"
| "event_execution_id (EvDenied i _ _ _) = i"
| "event_execution_id (EvViolation v) = vi_execution_id v"
| "event_execution_id (EvExited i _ _ _) = i"

record PrepareOptions =
  po_extra_writable_roots :: "path list"
  po_authority_read_only_roots :: "path list"
  po_term_grace :: "nat option"

record launcher =
  la_registry :: BackendRegistry
  la_fs :: filesystem
  la_host_env :: env_map
  la_fingerprint_of :: "FingerprintPayload \<Rightarrow> string"

fun denial_from_error :: "SandboxExecutionError \<Rightarrow> DenialReason" where
  "denial_from_error (InvalidRequest _) = DrInvalidRequest"
| "denial_from_error (SePolicy _) = DrPolicyDenied"
| "denial_from_error (SePlan _) = DrPlanFailed"
| "denial_from_error (SeEnvironment _) = DrEnvironmentRejected"
| "denial_from_error (SandboxUnavailable _ reason) = DrBackendUnavailable reason"
| "denial_from_error (SpawnFailed _ _) = DrSpawnFailed"
| "denial_from_error AlreadyFinished = DrSpawnFailed"
| "denial_from_error (SeLifecycle _) = DrSpawnFailed"

definition plan_and_env ::
    "launcher \<Rightarrow> SandboxExecutionRequest \<Rightarrow> PolicyInputs \<Rightarrow> PrepareOptions \<Rightarrow> string
       \<Rightarrow> SandboxExecutionError + (SandboxPlan \<times> env_map)" where
  "plan_and_env self request inputs options execution_id =
     (if trim (ss_program (rq_spec request)) = [] then Inl (InvalidRequest ''spec.program must name a program'')
      else
        res_bind (map_err SePolicy (derive_profile (rq_trust_class request) (rq_profile_kind request) inputs)) (\<lambda>profile.
        res_bind (map_err SePlan (build_plan (la_fs self) (la_fingerprint_of self) profile
                    (rq_profile_kind request) (rq_workspace_root request)
                    \<lparr>cx_execution_id = execution_id, cx_session_origin = rq_session_origin request,
                     cx_extra_writable_roots = po_extra_writable_roots options,
                     cx_extra_read_only_roots = po_authority_read_only_roots options,
                     cx_term_grace = po_term_grace options\<rparr>)) (\<lambda>plan.
        res_bind (map_err SeEnvironment (build_child_environment (pl_environment plan) (la_host_env self)
                    (ss_env_overrides (rq_spec request))
                    (btree_from [(AGENDAO_SANDBOX_ENV_PREFIX @ ''EXECUTION_ID'', pl_execution_id plan),
                                 (AGENDAO_SANDBOX_ENV_PREFIX @ ''PLAN_FINGERPRINT'', pl_fingerprint plan)]))) (\<lambda>env.
        Inr (plan, if pl_requested_kind plan = PkInteractiveShell \<and> pl_process_mode plan = Contained
                   then btree_insert ''HOME'' INTERACTIVE_PRIVATE_HOME env else env)))))"

definition derive_plan ::
    "launcher \<Rightarrow> SandboxExecutionRequest \<Rightarrow> PolicyInputs \<Rightarrow> PrepareOptions \<Rightarrow> string
       \<Rightarrow> SandboxExecutionError + SandboxPlan" where
  "derive_plan self request inputs options execution_id =
     res_bind (plan_and_env self request inputs options execution_id) (\<lambda>(plan, _). Inr plan)"

record PreparedSandboxExecution =
  pe_plan :: SandboxPlan
  pe_backend :: backend
  pe_spec :: SpawnSpec
  pe_env :: env_map

definition prepare_inner ::
    "launcher \<Rightarrow> SandboxExecutionRequest \<Rightarrow> PolicyInputs \<Rightarrow> PrepareOptions \<Rightarrow> string
       \<Rightarrow> SandboxExecutionError + (PreparedSandboxExecution \<times> SandboxEvent)" where
  "prepare_inner self request inputs options execution_id =
     res_bind (plan_and_env self request inputs options execution_id) (\<lambda>(plan, env).
     res_bind (select_backend (la_registry self) plan) (\<lambda>backend.
     Inr (\<lparr>pe_plan = plan, pe_backend = backend, pe_spec = rq_spec request, pe_env = env\<rparr>,
          EvPrepared (pl_execution_id plan) (pl_session_origin plan) (pl_requested_kind plan)
            (pl_process_mode plan) (pf_mode (pl_filesystem plan)) (np_mode (pl_network plan))
            (pl_fingerprint plan) (be_name backend))))"

text \<open>\<open>prepare\<close> with the freshly minted id: what it returns and the events it records.\<close>

definition prepare ::
    "launcher \<Rightarrow> SandboxExecutionRequest \<Rightarrow> PolicyInputs \<Rightarrow> PrepareOptions \<Rightarrow> string
       \<Rightarrow> (SandboxExecutionError + PreparedSandboxExecution) \<times> SandboxEvent list" where
  "prepare self request inputs options execution_id =
     (case prepare_inner self request inputs options execution_id of
        Inr (prepared, event) \<Rightarrow> (Inr prepared, [event])
      | Inl e \<Rightarrow> (Inl e, [EvDenied execution_id (rq_session_origin request) (denial_from_error e) (Some (error_text e))]))"

section \<open>A running execution\<close>

record SandboxExecutionHandle =
  sh_backend :: string
  sh_plan :: SandboxPlan
  sh_token :: nat
  sh_pid :: "nat option"
  sh_finished :: bool

text \<open>\<open>start\<close>, with the child the backend spawns (its pid) or the error of the spawn.\<close>

definition start ::
    "PreparedSandboxExecution \<Rightarrow> nat \<Rightarrow> SandboxExecutionError + nat option
       \<Rightarrow> (SandboxExecutionError + SandboxExecutionHandle) \<times> SandboxEvent list" where
  "start prepared token spawned =
     (let plan = pe_plan prepared
      in case spawned of
           Inl e \<Rightarrow> (Inl e, [EvDenied (pl_execution_id plan) (pl_session_origin plan) (denial_from_error e) (Some (error_text e))])
         | Inr pid \<Rightarrow>
             (Inr \<lparr>sh_backend = be_name (pe_backend prepared), sh_plan = plan, sh_token = token, sh_pid = pid,
                   sh_finished = False\<rparr>,
              [EvStarted (pl_execution_id plan) (pl_session_origin plan) pid (be_name (pe_backend prepared))]))"

text \<open>\<open>start_pty\<close>: the terminal is allocated first, and a failure to do so is not recorded.\<close>

definition start_pty ::
    "PreparedSandboxExecution \<Rightarrow> nat \<Rightarrow> string option \<Rightarrow> SandboxExecutionError + nat option
       \<Rightarrow> (SandboxExecutionError + SandboxExecutionHandle) \<times> SandboxEvent list" where
  "start_pty prepared token openpty_failure spawned =
     (case openpty_failure of
        Some e \<Rightarrow> (Inl (SpawnFailed ''pty'' e), [])
      | None \<Rightarrow> start prepared token spawned)"

record violation_report =
  vr_token :: nat
  vr_kind :: SandboxViolationKind
  vr_path_or_endpoint :: "string option"
  vr_attribution :: Attribution

definition SIGSYS :: int where "SIGSYS = 31"

definition violation_event :: "SandboxExecutionHandle \<Rightarrow> SandboxViolationKind \<Rightarrow> string option \<Rightarrow> Attribution \<Rightarrow> SandboxEvent" where
  "violation_event h kind target attribution =
     EvViolation \<lparr>vi_execution_id = pl_execution_id (sh_plan h), vi_plan_fingerprint = pl_fingerprint (sh_plan h),
       vi_session_origin = pl_session_origin (sh_plan h), vi_kind = kind, vi_path_or_endpoint = target,
       vi_attribution = attribution, vi_backend = sh_backend h\<rparr>"

definition record_exit_violation :: "SandboxExecutionHandle \<Rightarrow> BackendExit \<Rightarrow> SandboxEvent list" where
  "record_exit_violation h exit =
     (if (bx_signal exit = Some SIGSYS \<or> bx_code exit = Some (128 + SIGSYS)) \<and> sh_backend h \<noteq> ''native''
      then [violation_event h SyscallDenied None BestEffort] else [])"

definition record_verified_violation :: "SandboxExecutionHandle \<Rightarrow> violation_report option \<Rightarrow> SandboxEvent list" where
  "record_verified_violation h report =
     (case report of
        None \<Rightarrow> []
      | Some r \<Rightarrow>
          if vr_token r \<noteq> sh_token h then []
          else [violation_event h (vr_kind r) (vr_path_or_endpoint r) (vr_attribution r)])"

definition finish ::
    "SandboxExecutionHandle \<Rightarrow> violation_report option \<Rightarrow> BackendExit \<Rightarrow> CleanupStatus
       \<Rightarrow> SandboxExit \<times> SandboxExecutionHandle \<times> SandboxEvent list" where
  "finish h report exit cleanup =
     (let status = \<lparr>sx_exit = exit, sx_cleanup = cleanup\<rparr>
      in (status, h\<lparr>sh_finished := True\<rparr>,
          record_exit_violation h exit @ record_verified_violation h report
            @ [EvExited (pl_execution_id (sh_plan h)) (pl_session_origin (sh_plan h)) status (sh_backend h)]))"

text \<open>
  What a child does: how its waits end (\<open>None\<close> when a deadline expires first), whether it can be
  signalled, and what its backend reports.
\<close>

record child_env =
  ce_wait :: "SandboxExecutionError + BackendExit"
  ce_wait_deadline :: "(SandboxExecutionError + BackendExit) option"
  ce_wait_grace :: "(SandboxExecutionError + BackendExit) option"
  ce_wait_killed :: "SandboxExecutionError + BackendExit"
  ce_signal_term :: "SandboxExecutionError option"
  ce_signal_kill :: "SandboxExecutionError option"
  ce_report :: "violation_report option"

type_synonym handle_result =
  "(SandboxExecutionError + SandboxExit) \<times> SandboxExecutionHandle \<times> SandboxEvent list"

definition finish_or ::
    "SandboxExecutionHandle \<Rightarrow> child_env \<Rightarrow> SandboxExecutionError + BackendExit \<Rightarrow> CleanupStatus \<Rightarrow> handle_result" where
  "finish_or h env waited cleanup =
     (case waited of
        Inl e \<Rightarrow> (Inl e, h, [])
      | Inr exit \<Rightarrow> (case finish h (ce_report env) exit cleanup of (status, h', evs) \<Rightarrow> (Inr status, h', evs)))"

definition terminate :: "SandboxExecutionHandle \<Rightarrow> child_env \<Rightarrow> CleanupStatus \<Rightarrow> handle_result" where
  "terminate h env timeout_status =
     (case ce_signal_term env of
        Some e \<Rightarrow> (Inl e, h, [])
      | None \<Rightarrow>
          (case ce_wait_grace env of
             Some waited \<Rightarrow> finish_or h env waited timeout_status
           | None \<Rightarrow>
               (case ce_signal_kill env of
                  Some e \<Rightarrow> (Inl e, h, [])
                | None \<Rightarrow> finish_or h env (ce_wait_killed env)
                    (if timeout_status = TimedOut then TimedOut else KilledAfterGrace))))"

definition handle_wait :: "SandboxExecutionHandle \<Rightarrow> child_env \<Rightarrow> handle_result" where
  "handle_wait h env =
     (if sh_finished h then (Inl AlreadyFinished, h, []) else finish_or h env (ce_wait env) NaturalExit)"

definition cancel :: "SandboxExecutionHandle \<Rightarrow> child_env \<Rightarrow> handle_result" where
  "cancel h env =
     (if sh_finished h then (Inl AlreadyFinished, h, []) else terminate h env TerminatedByRequest)"

definition cancel_timeout :: "SandboxExecutionHandle \<Rightarrow> child_env \<Rightarrow> handle_result" where
  "cancel_timeout h env =
     (if sh_finished h then (Inl AlreadyFinished, h, []) else terminate h env TimedOut)"

definition wait_with_timeout :: "SandboxExecutionHandle \<Rightarrow> child_env \<Rightarrow> handle_result" where
  "wait_with_timeout h env =
     (if sh_finished h then (Inl AlreadyFinished, h, [])
      else case ce_wait_deadline env of
             Some waited \<Rightarrow> finish_or h env waited NaturalExit
           | None \<Rightarrow> terminate h env TimedOut)"

section \<open>The server's authority\<close>

record SandboxAuthorityConfig =
  ac_session_mode :: SessionPermissionMode
  ac_admin :: "HardPolicy option"
  ac_agent :: "HardPolicy option"
  ac_environment_allow_exact :: "string list"

definition policy_inputs :: "SandboxAuthorityConfig \<Rightarrow> PermissionGrantScope option \<Rightarrow> PolicyInputs" where
  "policy_inputs config grant =
     \<lparr>in_platform = unrestricted, in_admin = ac_admin config, in_agent = ac_agent config,
      in_session_mode = ac_session_mode config, in_grant = grant, in_check_build_cache_root = None,
      in_environment_allow_exact = ac_environment_allow_exact config\<rparr>"

definition for_session_mode :: "SandboxAuthorityConfig \<Rightarrow> SessionPermissionMode \<Rightarrow> SandboxAuthorityConfig" where
  "for_session_mode config mode = config\<lparr>ac_session_mode := mode\<rparr>"

text \<open>The build cache of a check is the directory \<open>target\<close> beside the canonical workspace.\<close>

definition check_build_cache_root ::
    "launcher \<Rightarrow> (path \<Rightarrow> string option) \<Rightarrow> path \<Rightarrow> SandboxExecutionError + path" where
  "check_build_cache_root self create_dir_all workspace_root =
     (case fs_canonicalize (la_fs self) workspace_root of
        None \<Rightarrow> Inl (SePlan (WorkspaceRootInvalid workspace_root))
      | Some workspace \<Rightarrow>
          (case parent workspace of
             None \<Rightarrow> Inl (InvalidRequest ''workspace root has no parent for the check build cache'')
           | Some p \<Rightarrow>
               (case create_dir_all (p @ [Normal ''target'']) of
                  Some e \<Rightarrow> Inl (SeLifecycle (''create check build cache root: '' @ e))
                | None \<Rightarrow> Inr (p @ [Normal ''target'']))))"

definition prepare_check ::
    "launcher \<Rightarrow> SandboxAuthorityConfig \<Rightarrow> (path \<Rightarrow> string option) \<Rightarrow> SandboxExecutionRequest \<Rightarrow> PrepareOptions \<Rightarrow> string
       \<Rightarrow> (SandboxExecutionError + PreparedSandboxExecution) \<times> SandboxEvent list" where
  "prepare_check self config create_dir_all request options execution_id =
     (let request = request\<lparr>rq_profile_kind := PkCheck\<rparr>
      in case check_build_cache_root self create_dir_all (rq_workspace_root request) of
           Inl e \<Rightarrow> (Inl e, [])
         | Inr cache_root \<Rightarrow>
             prepare self request ((policy_inputs config None)\<lparr>in_check_build_cache_root := Some cache_root\<rparr>)
               options execution_id)"

definition authority_prepare ::
    "launcher \<Rightarrow> SandboxAuthorityConfig \<Rightarrow> PermissionGrantScope option \<Rightarrow> SandboxExecutionRequest \<Rightarrow> PrepareOptions \<Rightarrow> string
       \<Rightarrow> (SandboxExecutionError + PreparedSandboxExecution) \<times> SandboxEvent list" where
  "authority_prepare self config grant request options execution_id =
     prepare self request (policy_inputs config grant) options execution_id"

end
