(* ===== verification/Sandbox_Policy_Properties.thy ===== *)
theory Sandbox_Policy_Properties
  imports Sandbox_Policy
begin

text \<open>
  The policy merge only tightens, native execution needs the consent of every layer, and no denied
  variable reaches the environment of a child.
\<close>

section \<open>Layers of bounds\<close>

text \<open>The contract of a merge: the greatest bound below both.\<close>

locale bound_layers =
  fixes le :: "'p \<Rightarrow> 'p \<Rightarrow> bool"
    and meet :: "'p \<Rightarrow> 'p \<Rightarrow> 'p"
  assumes le_refl: "le a a"
    and le_trans: "le a b \<Longrightarrow> le b c \<Longrightarrow> le a c"
    and meet_left: "le (meet a b) a"
    and meet_right: "le (meet a b) b"
    and meet_greatest: "le c a \<Longrightarrow> le c b \<Longrightarrow> le c (meet a b)"
begin

lemma fold_le_start: "le (foldl meet a layers) a"
  by (induction layers arbitrary: a) (auto intro: le_refl le_trans meet_left)

lemma fold_le_layer: "l \<in> set (a # layers) \<Longrightarrow> le (foldl meet a layers) l"
proof (induction layers arbitrary: a)
  case (Cons b layers)
  then consider "l = a" | "l = b" | "l \<in> set layers" by auto
  then show ?case
    using Cons.IH [of "meet a b"] fold_le_start [of "meet a b" layers] meet_left meet_right le_trans
    by cases (auto intro: le_trans)
qed (auto intro: le_refl)

lemma fold_greatest: "(\<And>l. l \<in> set (a # layers) \<Longrightarrow> le c l) \<Longrightarrow> le c (foldl meet a layers)"
  by (induction layers arbitrary: a) (auto intro: meet_greatest)

end

definition tighter :: "HardPolicy \<Rightarrow> HardPolicy \<Rightarrow> bool" where
  "tighter a b \<longleftrightarrow> filesystem_rank (hp_max_filesystem a) \<le> filesystem_rank (hp_max_filesystem b)
     \<and> network_rank (hp_max_network a) \<le> network_rank (hp_max_network b)
     \<and> (hp_allow_native a \<longrightarrow> hp_allow_native b)"

interpretation hard: bound_layers tighter intersect
  by unfold_locales (auto simp: tighter_def intersect_def)

definition policy_layers :: "ProfileKind \<Rightarrow> PolicyInputs \<Rightarrow> HardPolicy list" where
  "policy_layers kind inputs =
     in_platform inputs # (case in_admin inputs of Some a \<Rightarrow> [a] | None \<Rightarrow> [])
       @ (case in_agent inputs of Some a \<Rightarrow> [a] | None \<Rightarrow> [])
       @ [session_bound (in_session_mode inputs)]
       @ (case in_grant inputs of Some g \<Rightarrow> [grant_bound g] | None \<Rightarrow> [])
       @ [request_bound kind (in_grant inputs)]"

lemma merged_bound_layers:
  "merged_bound kind inputs = foldl intersect (hd (policy_layers kind inputs)) (tl (policy_layers kind inputs))"
  by (auto simp: merged_bound_def policy_layers_def intersect_opt_def Let_def split: option.splits)

lemma merged_tighter: "l \<in> set (policy_layers kind inputs) \<Longrightarrow> tighter (merged_bound kind inputs) l"
proof -
  assume l: "l \<in> set (policy_layers kind inputs)"
  have "policy_layers kind inputs \<noteq> []" by (simp add: policy_layers_def)
  then show ?thesis using l hard.fold_le_layer unfolding merged_bound_layers by (metis list.collapse)
qed

section \<open>Profiles\<close>

lemma profile_mode_rank: "filesystem_rank (profile_mode m) \<le> filesystem_rank m"
  by (cases m) (auto simp: profile_mode_def)

lemma derive_profileD:
  assumes "derive_profile trust kind inputs = Inr p"
  shows "sp_trust_class p = trust"
    and "fp_mode (sp_filesystem p) = profile_mode (hp_max_filesystem (merged_bound kind inputs))"
    and "np_mode (sp_network p) = hp_max_network (merged_bound kind inputs)"
    and "sp_process p = (if kind = PkNative then Native else Contained)"
    and "kind = PkNative \<Longrightarrow> hp_allow_native (merged_bound kind inputs)"
    and "sp_environment p = (if kind = PkNative then native_inherit else default_environment)
           \<lparr>ep_allow_exact := in_environment_allow_exact inputs\<rparr>"
  using assms by (auto simp: derive_profile_def Let_def res_simps split: if_splits option.splits)

lemma profile_bounded:
  assumes "derive_profile trust kind inputs = Inr p" "l \<in> set (policy_layers kind inputs)"
  shows "filesystem_rank (fp_mode (sp_filesystem p)) \<le> filesystem_rank (hp_max_filesystem l) \<and>
         network_rank (np_mode (sp_network p)) \<le> network_rank (hp_max_network l) \<and>
         (sp_process p = Native \<longrightarrow> hp_allow_native l)"
  using merged_tighter [OF assms(2)] derive_profileD [OF assms(1)] profile_mode_rank order_trans
  by (auto simp: tighter_def split: if_splits)

text \<open>
  \<^bold>\<open>C5.\<close> Merging only tightens: a derived profile is within the bounds of every layer (platform,
  administrator, agent, session, grant and request), and it runs natively only if every layer allows it.
\<close>

theorem profile_within_every_layer:
  assumes "derive_profile trust kind inputs = Inr p" "l \<in> set (policy_layers kind inputs)"
  shows "filesystem_rank (fp_mode (sp_filesystem p)) \<le> filesystem_rank (hp_max_filesystem l) \<and>
         network_rank (np_mode (sp_network p)) \<le> network_rank (hp_max_network l) \<and>
         (sp_process p = Native \<longrightarrow> hp_allow_native l)"
  using assms by (rule profile_bounded)

lemma merged_native_iff:
  "hp_allow_native (merged_bound kind inputs) \<longleftrightarrow> (\<forall>l\<in>set (policy_layers kind inputs). hp_allow_native l)"
  by (auto simp: merged_bound_def policy_layers_def intersect_opt_def intersect_def Let_def split: option.splits)

lemma derive_native_iff:
  "(\<exists>p. derive_profile trust kind inputs = Inr p \<and> sp_process p = Native) \<longleftrightarrow>
     kind = PkNative \<and> (\<forall>l\<in>set (policy_layers kind inputs). hp_allow_native l)"
proof (cases "kind = PkNative \<and> hp_allow_native (merged_bound kind inputs)")
  case True
  then have "\<exists>p. derive_profile trust kind inputs = Inr p" by (auto simp: derive_profile_def Let_def)
  then obtain p where p: "derive_profile trust kind inputs = Inr p" by blast
  then have "sp_process p = Native" using True derive_profileD(4) [OF p] by simp
  with p True show ?thesis unfolding merged_native_iff by blast
next
  case False
  have "\<not> (derive_profile trust kind inputs = Inr p \<and> sp_process p = Native)" for p
    using False derive_profileD(4,5) [of trust kind inputs p] by (auto split: if_splits)
  then show ?thesis using False unfolding merged_native_iff by blast
qed

text \<open>
  \<^bold>\<open>Note.\<close> Native execution is granted exactly when it is asked for, the session is unsandboxed, no
  permission grant narrows the run, and neither the platform nor the administrator nor the agent
  forbids it; otherwise the request fails and is never silently contained.
\<close>

theorem native_needs_every_consent:
  "(\<exists>p. derive_profile trust kind inputs = Inr p \<and> sp_process p = Native) \<longleftrightarrow>
     kind = PkNative \<and> in_session_mode inputs = UnsandboxedYolo \<and> in_grant inputs = None \<and>
     hp_allow_native (in_platform inputs) \<and>
     (case in_admin inputs of Some a \<Rightarrow> hp_allow_native a | None \<Rightarrow> True) \<and>
     (case in_agent inputs of Some a \<Rightarrow> hp_allow_native a | None \<Rightarrow> True)"
  unfolding derive_native_iff
  by (cases "in_session_mode inputs"; cases "in_grant inputs"; cases "in_admin inputs"; cases "in_agent inputs")
    (auto simp: policy_layers_def session_bound_def grant_bound_def request_bound_def contained_baseline_def unrestricted_def)

lemma native_refused:
  "derive_profile trust PkNative inputs = Inl e \<Longrightarrow> e = NativeNotAllowed"
  by (auto simp: derive_profile_def Let_def split: if_splits option.splits)

lemma contained_profile:
  assumes "derive_profile trust kind inputs = Inr p" "kind \<noteq> PkNative"
  shows "sp_process p = Contained \<and> np_mode (sp_network p) = NetDisabled \<and>
         fp_mode (sp_filesystem p) \<in> {FsReadOnly, FsWorkspaceWrite} \<and>
         ep_clear_and_reinject (sp_environment p) \<and>
         ep_hard_deny_exact (sp_environment p) = default_hard_deny_exact \<and>
         (kind = PkCheck \<longrightarrow> fp_mode (sp_filesystem p) = FsReadOnly \<and>
            map Some (fp_writable_roots (sp_filesystem p)) = [in_check_build_cache_root inputs])"
proof -
  have "request_bound kind (in_grant inputs) \<in> set (policy_layers kind inputs)" by (simp add: policy_layers_def)
  from merged_tighter [OF this]
  have r: "filesystem_rank (hp_max_filesystem (merged_bound kind inputs)) \<le> 2"
      "kind = PkCheck \<Longrightarrow> filesystem_rank (hp_max_filesystem (merged_bound kind inputs)) = 0"
      "network_rank (hp_max_network (merged_bound kind inputs)) = 0"
    using assms(2) by (auto simp: tighter_def request_bound_def contained_baseline_def
        split: ProfileKind.splits option.splits if_splits)
  have net: "hp_max_network (merged_bound kind inputs) = NetDisabled"
    using r(3) by (cases "hp_max_network (merged_bound kind inputs)") auto
  have fs: "profile_mode (hp_max_filesystem (merged_bound kind inputs)) \<in> {FsReadOnly, FsWorkspaceWrite}"
      "kind = PkCheck \<Longrightarrow> profile_mode (hp_max_filesystem (merged_bound kind inputs)) = FsReadOnly"
    using r(1,2) by (cases "hp_max_filesystem (merged_bound kind inputs)"; auto simp: profile_mode_def)+
  have roots: "map Some (fp_writable_roots (sp_filesystem p)) = [in_check_build_cache_root inputs]" if "kind = PkCheck"
    using assms(1) that by (auto simp: derive_profile_def Let_def res_simps split: option.splits if_splits)
  show ?thesis
    using derive_profileD [OF assms(1)] assms(2) net fs roots by (auto simp: default_environment_def)
qed

text \<open>
  \<^bold>\<open>Note.\<close> Every other profile is contained, without network, with a cleared environment and at most the
  workspace writable. A check may write to the build cache and nothing else.
\<close>

theorem contained_profiles_are_tight:
  assumes "derive_profile trust kind inputs = Inr p" "kind \<noteq> PkNative"
  shows "sp_process p = Contained \<and> np_mode (sp_network p) = NetDisabled \<and>
         fp_mode (sp_filesystem p) \<in> {FsReadOnly, FsWorkspaceWrite} \<and>
         ep_clear_and_reinject (sp_environment p) \<and>
         ep_hard_deny_exact (sp_environment p) = default_hard_deny_exact \<and>
         (kind = PkCheck \<longrightarrow> fp_mode (sp_filesystem p) = FsReadOnly \<and>
            map Some (fp_writable_roots (sp_filesystem p)) = [in_check_build_cache_root inputs])"
  using assms by (rule contained_profile)

text \<open>
  The trust class is carried along and decides nothing; and a native profile keeps a narrow file system
  bound that the native backend has no means to enforce.
\<close>

lemma trust_class_decides_nothing:
  "derive_profile trust kind inputs = map_sum id (\<lambda>p. p\<lparr>sp_trust_class := trust\<rparr>) (derive_profile trust' kind inputs)"
  by (auto simp: derive_profile_def Let_def split: option.splits)

lemma native_profile_with_read_only_bound:
  "\<exists>p. derive_profile ModelReachable PkNative
       ((baseline_inputs UnsandboxedYolo)\<lparr>in_admin := Some \<lparr>hp_max_filesystem = FsReadOnly,
          hp_max_network = NetDisabled, hp_allow_native = True\<rparr>\<rparr>) = Inr p
     \<and> sp_process p = Native \<and> fp_mode (sp_filesystem p) = FsReadOnly \<and> np_mode (sp_network p) = NetDisabled"
  by (simp add: derive_profile_def merged_bound_def baseline_inputs_def intersect_opt_def intersect_def
      session_bound_def request_bound_def unrestricted_def profile_mode_def Let_def)

section \<open>The environment of a child\<close>

lemma map_of_rev_distinct: "distinct (map fst xs) \<Longrightarrow> map_of (rev xs) = map_of xs"
  by (intro map_of_eqI) (auto simp: rev_map [symmetric])

lemma map_of_filter_keys: "map_of (filter (\<lambda>(k, _). P k) xs) k = (if P k then map_of xs k else None)"
  by (induction xs) auto

lemma map_of_insert_all:
  "btree_ok m \<Longrightarrow> distinct (map fst entries) \<Longrightarrow>
     btree_ok (insert_all m entries) \<and> map_of (insert_all m entries) = map_of m ++ map_of entries"
  using btree_from_fold [of m entries] by (simp add: insert_all_def map_of_rev_distinct)

lemma map_of_core:
  "map_of (List.map_filter (\<lambda>name. case map_of host name of
        Some v \<Rightarrow> if is_denied policy name then None else Some (name, v) | None \<Rightarrow> None) names) k =
     (if k \<in> set names \<and> \<not> is_denied policy k then map_of host k else None)"
  by (induction names) (auto simp: List.map_filter_simps split: option.splits)

lemma map_of_inherited:
  assumes "distinct (map fst host)"
  shows "map_of (inherited policy host) k =
     (if is_denied policy k then None
      else if ep_clear_and_reinject policy
           then if ep_inherit_core policy \<and> k \<in> set CORE_ENV_NAMES then map_of host k else None
           else map_of host k)"
  by (simp add: inherited_def map_of_core map_of_filter_keys)

lemma distinct_inherited: "distinct (map fst host) \<Longrightarrow> distinct (map fst (inherited policy host))"
proof -
  assume d: "distinct (map fst host)"
  have "map fst (List.map_filter (\<lambda>name. case map_of host name of
        Some v \<Rightarrow> if is_denied policy name then None else Some (name, v) | None \<Rightarrow> None) names) =
      filter (\<lambda>n. map_of host n \<noteq> None \<and> \<not> is_denied policy n) names" for names
    by (induction names) (auto simp: List.map_filter_simps split: option.splits)
  moreover have "distinct CORE_ENV_NAMES" by (simp add: CORE_ENV_NAMES_def)
  ultimately show ?thesis using d by (auto simp: inherited_def distinct_map_filter)
qed

lemma check_override_iff:
  "check_override policy k = Inr () \<longleftrightarrow> \<not> is_denied policy k \<and> \<not> starts_with k AGENDAO_SANDBOX_ENV_PREFIX"
  by (auto simp: check_override_def is_denied_def)

lemma child_environment_Inr:
  assumes "build_child_environment policy host overrides authority = Inr child"
  shows "\<forall>k\<in>fst ` set overrides. \<not> is_denied policy k \<and> \<not> starts_with k AGENDAO_SANDBOX_ENV_PREFIX"
    and "\<forall>k\<in>fst ` set authority. starts_with k AGENDAO_SANDBOX_ENV_PREFIX"
    and "btree_ok host \<Longrightarrow> btree_ok overrides \<Longrightarrow> btree_ok authority \<Longrightarrow>
      map_of child = map_of (inherited policy host) ++ map_of overrides ++ map_of authority"
proof -
  have c: "child = insert_all (insert_all (insert_all [] (inherited policy host)) overrides) authority"
    using assms by (auto simp: build_child_environment_def res_simps)
  show "\<forall>k\<in>fst ` set overrides. \<not> is_denied policy k \<and> \<not> starts_with k AGENDAO_SANDBOX_ENV_PREFIX"
    and "\<forall>k\<in>fst ` set authority. starts_with k AGENDAO_SANDBOX_ENV_PREFIX"
    using assms by (auto simp: build_child_environment_def res_simps check_override_iff case_prod_unfold)
  assume ok: "btree_ok host" "btree_ok overrides" "btree_ok authority"
  have "btree_ok ([] :: env_map)" by (simp add: btree_ok_def)
  then show "map_of child = map_of (inherited policy host) ++ map_of overrides ++ map_of authority"
    unfolding c using ok by (simp add: map_of_insert_all distinct_inherited btree_ok_distinct)
qed

lemma child_environment_ok:
  assumes "build_child_environment policy host overrides authority = Inr child"
    and "btree_ok host" "btree_ok overrides" "btree_ok authority"
  shows "btree_ok child"
proof -
  have "child = insert_all (insert_all (insert_all [] (inherited policy host)) overrides) authority"
    using assms(1) by (auto simp: build_child_environment_def res_simps)
  moreover have "btree_ok ([] :: env_map)" by (simp add: btree_ok_def)
  ultimately show ?thesis using assms(2-4) by (simp add: map_of_insert_all distinct_inherited btree_ok_distinct)
qed

lemma child_environment_Inl:
  assumes "build_child_environment policy host overrides authority = Inl e"
  shows "(\<exists>k\<in>fst ` set overrides. is_denied policy k \<or> starts_with k AGENDAO_SANDBOX_ENV_PREFIX) \<or>
         (\<exists>k\<in>fst ` set authority. \<not> starts_with k AGENDAO_SANDBOX_ENV_PREFIX)"
proof (rule ccontr)
  assume n: "\<not> ?thesis"
  have "res_check (\<lambda>(name, _). check_override policy name) overrides = Inr ()"
    using n by (auto simp: res_check_Inr_iff check_override_iff)
  moreover have "res_check (\<lambda>(name, _). guard (starts_with name AGENDAO_SANDBOX_ENV_PREFIX) (AuthorityReserved name))
      authority = Inr ()"
    using n by (auto simp: res_check_Inr_iff guard_Inr_iff)
  ultimately show False using assms by (simp add: build_child_environment_def)
qed

text \<open>
  \<^bold>\<open>Note.\<close> The environment of a child is exactly this: the injected variables of the authority, then the
  overrides of the request, then what is inherited and not denied, which for a contained run are the
  core variables only. Overrides that are denied or reserved make the launch fail.
\<close>

theorem child_environment_exact:
  assumes "btree_ok host" "btree_ok overrides" "btree_ok authority"
  shows "case build_child_environment policy host overrides authority of
           Inr child \<Rightarrow>
             (\<forall>k\<in>fst ` set overrides. \<not> is_denied policy k \<and> \<not> starts_with k AGENDAO_SANDBOX_ENV_PREFIX) \<and>
             (\<forall>k. map_of child k =
                (case map_of authority k of Some v \<Rightarrow> Some v | None \<Rightarrow>
                 case map_of overrides k of Some v \<Rightarrow> Some v | None \<Rightarrow>
                 if is_denied policy k then None
                 else if ep_clear_and_reinject policy
                      then if ep_inherit_core policy \<and> k \<in> set CORE_ENV_NAMES then map_of host k else None
                      else map_of host k))
         | Inl e \<Rightarrow>
             (\<exists>k\<in>fst ` set overrides. is_denied policy k \<or> starts_with k AGENDAO_SANDBOX_ENV_PREFIX) \<or>
             (\<exists>k\<in>fst ` set authority. \<not> starts_with k AGENDAO_SANDBOX_ENV_PREFIX)"
proof (cases "build_child_environment policy host overrides authority")
  case (Inl e)
  from child_environment_Inl [OF Inl] Inl show ?thesis by simp
next
  case (Inr child)
  note c = child_environment_Inr [OF Inr]
  show ?thesis
    using Inr c(1) c(3) [OF assms] map_of_inherited [OF btree_ok_distinct [OF assms(1)], of policy]
    by (simp add: map_add_def split: option.splits)
qed

text \<open>
  \<^bold>\<open>Note.\<close> No denied variable reaches a child, whoever asks for it: not from the host, not by an override.
  Only variables with the reserved prefix, which the authority itself sets, are exempt.
\<close>

theorem denied_variables_never_reach_child:
  assumes "build_child_environment policy host overrides authority = Inr child"
    and "btree_ok host" "btree_ok overrides" "btree_ok authority"
    and "is_denied policy k" "\<not> starts_with k AGENDAO_SANDBOX_ENV_PREFIX"
  shows "k \<notin> fst ` set child"
proof -
  note c = child_environment_Inr [OF assms(1)]
  have "map_of authority k = None" "map_of overrides k = None"
    using c(1,2) assms(5,6) by (auto simp: map_of_eq_None_iff)
  then have "map_of child k = None"
    using c(3) [OF assms(2-4)] assms(5) map_of_inherited [OF btree_ok_distinct [OF assms(2)], of policy k]
    by (simp add: map_add_def)
  then show ?thesis by (simp add: map_of_eq_None_iff)
qed

section \<open>Concrete runs\<close>

lemma sample_profile:
  "derive_profile ModelReachable PkWorkspaceWrite (baseline_inputs UnsandboxedYolo) = Inr contained_workspace_write"
  by code_simp

theorem profile_within_every_layer_witness:
  "network_rank (np_mode (sp_network contained_workspace_write)) \<le> network_rank (hp_max_network contained_baseline)"
  using profile_within_every_layer [OF sample_profile, of contained_baseline]
  by (simp add: policy_layers_def request_bound_def baseline_inputs_def)

theorem contained_profiles_are_tight_witness:
  "np_mode (sp_network contained_workspace_write) = NetDisabled"
  using contained_profiles_are_tight [OF sample_profile] by simp

lemma sample_child:
  "build_child_environment default_environment
     [(''AGENDAO_INTERNAL_TOKEN'', ''s''), (''PATH'', ''/bin'')] [(''MODE'', ''x'')] [(''AGENDAO_SANDBOX_EXECUTION_ID'', ''7'')]
   = Inr [(''AGENDAO_SANDBOX_EXECUTION_ID'', ''7''), (''MODE'', ''x''), (''PATH'', ''/bin'')]"
  by code_simp

theorem denied_variables_never_reach_child_witness:
  "''AGENDAO_INTERNAL_TOKEN'' \<notin> fst ` set
     [(''AGENDAO_SANDBOX_EXECUTION_ID'', ''7''), (''MODE'', ''x''), (''PATH'', ''/bin'')]"
proof (rule denied_variables_never_reach_child [OF sample_child])
  show "is_denied default_environment ''AGENDAO_INTERNAL_TOKEN''" by code_simp
  show "\<not> starts_with ''AGENDAO_INTERNAL_TOKEN'' AGENDAO_SANDBOX_ENV_PREFIX" by code_simp
qed code_simp+

theorem child_environment_exact_witness:
  "is_denied default_environment ''X_TOKEN'' \<or> starts_with ''X_TOKEN'' AGENDAO_SANDBOX_ENV_PREFIX"
proof -
  have "build_child_environment default_environment [] [(''X_TOKEN'', ''t'')] [] = Inl (DeniedByPattern ''X_TOKEN'')"
    by code_simp
  then show ?thesis
    using child_environment_exact [of "[]" "[(''X_TOKEN'', ''t'')]" "[]" default_environment]
    by (simp add: btree_ok_def)
qed

end
