(* ===== verification/Sandbox_Launch_Properties.thy ===== *)
theory Sandbox_Launch_Properties
  imports Sandbox_Launch Sandbox_Policy_Properties
begin

text \<open>
  What a launch guarantees: one event per preparation under the minted id, contained plans only on
  platform backends that are available, plans that their fingerprint describes completely, and exactly
  one exit per execution.
\<close>

section \<open>Plans\<close>

text \<open>The payload of the fingerprint, read off the plan.\<close>

definition plan_payload :: "SandboxPlan \<Rightarrow> FingerprintPayload" where
  "plan_payload p =
     \<lparr>fy_execution_id = pl_execution_id p, fy_trust_class = pl_trust_class p,
      fy_requested_kind = pl_requested_kind p, fy_filesystem_mode = pf_mode (pl_filesystem p),
      fy_workspace_root = pf_workspace_root (pl_filesystem p),
      fy_writable_roots = pf_writable_roots (pl_filesystem p),
      fy_read_only_roots = pf_read_only_roots (pl_filesystem p),
      fy_network = pl_network p, fy_environment = pl_environment p, fy_process_mode = pl_process_mode p,
      fy_term_grace_secs = pl_term_grace_secs p\<rparr>"

lemma build_planD:
  assumes "build_plan fs fp profile kind ws cx = Inr plan"
  shows "pl_fingerprint plan = fp (plan_payload plan)"
    and "pl_execution_id plan = cx_execution_id cx" "pl_session_origin plan = cx_session_origin cx"
    and "pl_requested_kind plan = kind" "pl_process_mode plan = sp_process profile"
    and "pl_network plan = sp_network profile" "pl_environment plan = sp_environment profile"
    and "pf_mode (pl_filesystem plan) = fp_mode (sp_filesystem profile)"
    and "validate_network (sp_network profile) (sp_process profile) = Inr ()"
  using assms
  by (auto simp: build_plan_def Let_def res_bind_Inr_iff plan_payload_def canonicalize_existing_def
      split: sum.splits option.splits)

lemma build_plan_roots:
  assumes "build_plan fs fp profile kind ws cx = Inr plan"
  shows "\<exists>roots canon. fs_canonicalize fs ws = Some canon \<and> pf_workspace_root (pl_filesystem plan) = path_display canon \<and>
      res_map (canonicalize_root fs) (fp_writable_roots (sp_filesystem profile)) = Inr roots \<and>
      pf_writable_roots (pl_filesystem plan) =
        sorted_values ((if fp_mode (sp_filesystem profile) = FsWorkspaceWrite then [canon] else [])
          @ roots @ cx_extra_writable_roots cx)"
  using assms
  by (auto simp: build_plan_def Let_def res_bind_Inr_iff canonicalize_existing_def split: sum.splits option.splits
      split del: if_split)

text \<open>
  \<^bold>\<open>Note.\<close> The fingerprint is the audit identity of a plan: it is computed from the plan's own fields, and
  two plans with the same payload are the same plan but for the session they are attributed to.
\<close>

theorem fingerprint_describes_plan:
  assumes "build_plan fs fp profile kind ws cx = Inr plan" "build_plan fs' fp profile' kind' ws' cx' = Inr plan'"
  shows "pl_fingerprint plan = fp (plan_payload plan) \<and>
         (plan_payload plan = plan_payload plan' \<longleftrightarrow> plan\<lparr>pl_session_origin := None\<rparr> = plan'\<lparr>pl_session_origin := None\<rparr>)"
proof -
  have f: "pl_fingerprint plan = fp (plan_payload plan)" "pl_fingerprint plan' = fp (plan_payload plan')"
    using build_planD(1) [OF assms(1)] build_planD(1) [OF assms(2)] by auto
  have "pl_filesystem plan = pl_filesystem plan'" if "plan_payload plan = plan_payload plan'"
    using that by (intro FilesystemPlan.equality) (auto simp: plan_payload_def)
  then have "plan\<lparr>pl_session_origin := None\<rparr> = plan'\<lparr>pl_session_origin := None\<rparr>" if "plan_payload plan = plan_payload plan'"
    using that f by (intro SandboxPlan.equality) (auto simp: plan_payload_def)
  moreover have "plan_payload plan = plan_payload (plan\<lparr>pl_session_origin := None\<rparr>)" for plan
    by (simp add: plan_payload_def)
  ultimately show ?thesis using f(1) by metis
qed

section \<open>Backends\<close>

lemma select_platform_Inr:
  "select_platform bs plan f = Inr b \<Longrightarrow> b \<in> set bs \<and> be_supports b plan \<and> bp_available (be_probe b)"
  by (induction bs arbitrary: f) (auto split: if_splits)

lemma select_platform_Inl:
  "select_platform bs plan f = Inl g \<Longrightarrow> b \<in> set bs \<Longrightarrow> be_supports b plan \<Longrightarrow> \<not> bp_available (be_probe b)"
  by (induction bs arbitrary: f) (auto split: if_splits)

lemma select_backend_contained:
  assumes "pl_process_mode plan = Contained"
  shows "case select_backend registry plan of
           Inr b \<Rightarrow> b \<in> set (br_platform registry) \<and> be_supports b plan \<and> bp_available (be_probe b)
         | Inl e \<Rightarrow> (\<exists>name reason. e = SandboxUnavailable name reason) \<and>
             (\<forall>b\<in>set (br_platform registry). be_supports b plan \<longrightarrow> \<not> bp_available (be_probe b))"
  using assms select_platform_Inr [of "br_platform registry" plan None] select_platform_Inl [of "br_platform registry" plan None]
  by (auto simp: select_backend_def Let_def split: sum.splits)

section \<open>Preparation\<close>

lemma plan_and_envD:
  assumes "plan_and_env self request inputs options i = Inr (plan, env)"
  obtains profile env0 where
    "derive_profile (rq_trust_class request) (rq_profile_kind request) inputs = Inr profile"
    "build_plan (la_fs self) (la_fingerprint_of self) profile (rq_profile_kind request) (rq_workspace_root request)
       \<lparr>cx_execution_id = i, cx_session_origin = rq_session_origin request,
        cx_extra_writable_roots = po_extra_writable_roots options,
        cx_extra_read_only_roots = po_authority_read_only_roots options,
        cx_term_grace = po_term_grace options\<rparr> = Inr plan"
    "build_child_environment (pl_environment plan) (la_host_env self) (ss_env_overrides (rq_spec request))
       (btree_from [(AGENDAO_SANDBOX_ENV_PREFIX @ ''EXECUTION_ID'', pl_execution_id plan),
                    (AGENDAO_SANDBOX_ENV_PREFIX @ ''PLAN_FINGERPRINT'', pl_fingerprint plan)]) = Inr env0"
    "env = (if pl_requested_kind plan = PkInteractiveShell \<and> pl_process_mode plan = Contained
            then btree_insert ''HOME'' INTERACTIVE_PRIVATE_HOME env0 else env0)"
  using assms
  by (cases "trim (ss_program (rq_spec request)) = []")
    (auto simp: plan_and_env_def res_bind_Inr_iff split del: if_split)

lemma prepare_Inr:
  assumes "prepare self request inputs options i = (Inr p, evs)"
  obtains "plan_and_env self request inputs options i = Inr (pe_plan p, pe_env p)"
    "select_backend (la_registry self) (pe_plan p) = Inr (pe_backend p)" "pe_spec p = rq_spec request"
    "evs = [EvPrepared (pl_execution_id (pe_plan p)) (pl_session_origin (pe_plan p)) (pl_requested_kind (pe_plan p))
        (pl_process_mode (pe_plan p)) (pf_mode (pl_filesystem (pe_plan p))) (np_mode (pl_network (pe_plan p)))
        (pl_fingerprint (pe_plan p)) (be_name (pe_backend p))]"
  using assms by (auto simp: prepare_def prepare_inner_def res_bind_Inr_iff split: sum.splits prod.splits)

text \<open>
  \<^bold>\<open>Note.\<close> Every request to the launcher leaves exactly one event, under the id minted for it: prepared, with
  the fingerprint of the plan and the backend that will run it, or denied, with the reason.
\<close>

theorem prepare_is_audited:
  "\<exists>event. snd (prepare self request inputs options i) = [event] \<and> event_execution_id event = i \<and>
     (case fst (prepare self request inputs options i) of
        Inr p \<Rightarrow> (\<exists>origin kind process filesystem network.
            event = EvPrepared i origin kind process filesystem network (pl_fingerprint (pe_plan p)) (be_name (pe_backend p)))
      | Inl e \<Rightarrow> event = EvDenied i (rq_session_origin request) (denial_from_error e) (Some (error_text e)))"
proof (cases "prepare self request inputs options i")
  case (Pair r evs)
  show ?thesis
  proof (cases r)
    case (Inr p)
    with Pair have "prepare self request inputs options i = (Inr p, evs)" by simp
    then obtain pe: "plan_and_env self request inputs options i = Inr (pe_plan p, pe_env p)"
        and evs: "evs = [EvPrepared (pl_execution_id (pe_plan p)) (pl_session_origin (pe_plan p)) (pl_requested_kind (pe_plan p))
        (pl_process_mode (pe_plan p)) (pf_mode (pl_filesystem (pe_plan p))) (np_mode (pl_network (pe_plan p)))
        (pl_fingerprint (pe_plan p)) (be_name (pe_backend p))]"
      by (rule prepare_Inr)
    from pe obtain profile where "build_plan (la_fs self) (la_fingerprint_of self) profile (rq_profile_kind request) (rq_workspace_root request)
       \<lparr>cx_execution_id = i, cx_session_origin = rq_session_origin request,
        cx_extra_writable_roots = po_extra_writable_roots options,
        cx_extra_read_only_roots = po_authority_read_only_roots options,
        cx_term_grace = po_term_grace options\<rparr> = Inr (pe_plan p)"
      by (rule plan_and_envD)
    from build_planD(2) [OF this] have "pl_execution_id (pe_plan p) = i" by simp
    then show ?thesis using Pair Inr evs by auto
  next
    case (Inl e)
    then show ?thesis using Pair by (auto simp: prepare_def split: sum.splits prod.splits)
  qed
qed

lemma prepared_profile:
  assumes "prepare self request inputs options i = (Inr p, evs)"
  obtains profile where "derive_profile (rq_trust_class request) (rq_profile_kind request) inputs = Inr profile"
    "pl_process_mode (pe_plan p) = sp_process profile" "pl_network (pe_plan p) = sp_network profile"
    "pl_environment (pe_plan p) = sp_environment profile" "pl_requested_kind (pe_plan p) = rq_profile_kind request"
    "pf_mode (pl_filesystem (pe_plan p)) = fp_mode (sp_filesystem profile)"
    "select_backend (la_registry self) (pe_plan p) = Inr (pe_backend p)"
proof -
  from assms obtain pe: "plan_and_env self request inputs options i = Inr (pe_plan p, pe_env p)"
      and sel: "select_backend (la_registry self) (pe_plan p) = Inr (pe_backend p)"
    by (rule prepare_Inr)
  from pe obtain profile where d: "derive_profile (rq_trust_class request) (rq_profile_kind request) inputs = Inr profile"
      and b: "build_plan (la_fs self) (la_fingerprint_of self) profile (rq_profile_kind request) (rq_workspace_root request)
       \<lparr>cx_execution_id = i, cx_session_origin = rq_session_origin request,
        cx_extra_writable_roots = po_extra_writable_roots options,
        cx_extra_read_only_roots = po_authority_read_only_roots options,
        cx_term_grace = po_term_grace options\<rparr> = Inr (pe_plan p)"
    by (rule plan_and_envD)
  show thesis using that [OF d] build_planD [OF b] sel by simp
qed

text \<open>
  \<^bold>\<open>C2.\<close> Fail closed: in a session that is not unsandboxed, whatever is asked for and whatever a grant
  says, a prepared execution is contained, has no network, and will run on a registered platform
  backend that supports the plan and is available. There is no fallback to the native backend.
\<close>

theorem sandboxed_session_never_native:
  assumes "ac_session_mode config \<noteq> UnsandboxedYolo"
    and "authority_prepare self config grant request options i = (Inr p, evs)"
  shows "pl_process_mode (pe_plan p) = Contained \<and> np_mode (pl_network (pe_plan p)) = NetDisabled \<and>
         pf_mode (pl_filesystem (pe_plan p)) \<noteq> FsUnrestricted \<and>
         pe_backend p \<in> set (br_platform (la_registry self)) \<and>
         be_supports (pe_backend p) (pe_plan p) \<and> bp_available (be_probe (pe_backend p))"
proof -
  have "prepare self request (policy_inputs config grant) options i = (Inr p, evs)"
    using assms(2) by (simp add: authority_prepare_def)
  then obtain profile where d: "derive_profile (rq_trust_class request) (rq_profile_kind request) (policy_inputs config grant) = Inr profile"
      and p: "pl_process_mode (pe_plan p) = sp_process profile" "pl_network (pe_plan p) = sp_network profile"
        "pf_mode (pl_filesystem (pe_plan p)) = fp_mode (sp_filesystem profile)"
      and sel: "select_backend (la_registry self) (pe_plan p) = Inr (pe_backend p)"
    by (rule prepared_profile)
  have "session_bound (ac_session_mode config) \<in> set (policy_layers (rq_profile_kind request) (policy_inputs config grant))"
    by (simp add: policy_layers_def policy_inputs_def)
  from profile_bounded [OF d this]
  have b: "filesystem_rank (fp_mode (sp_filesystem profile)) \<le> 2" "network_rank (np_mode (sp_network profile)) = 0"
      "sp_process profile \<noteq> Native"
    using assms(1) by (auto simp: session_bound_def contained_baseline_def split: SessionPermissionMode.splits)
  have c: "pl_process_mode (pe_plan p) = Contained" using b(3) p(1) by (cases "sp_process profile") auto
  have "np_mode (sp_network profile) = NetDisabled" using b(2) by (cases "np_mode (sp_network profile)") auto
  moreover have "fp_mode (sp_filesystem profile) \<noteq> FsUnrestricted" using b(1) by auto
  ultimately show ?thesis using select_backend_contained [OF c, of "la_registry self"] sel c p by simp
qed

section \<open>What a child sees\<close>

lemma hard_denied_names:
  "list_all (\<lambda>k. k \<notin> set CORE_ENV_NAMES \<and> k \<noteq> AGENDAO_SANDBOX_ENV_PREFIX @ ''EXECUTION_ID''
     \<and> k \<noteq> AGENDAO_SANDBOX_ENV_PREFIX @ ''PLAN_FINGERPRINT'') default_hard_deny_exact"
  by code_simp

lemma launch_authority_ok:
  "btree_ok (btree_from [(AGENDAO_SANDBOX_ENV_PREFIX @ ''EXECUTION_ID'', a), (AGENDAO_SANDBOX_ENV_PREFIX @ ''PLAN_FINGERPRINT'', b)])"
  by simp

text \<open>
  \<^bold>\<open>C16.\<close> The environment of a prepared contained run holds the core variables, the overrides of the
  request and the two variables that identify the run, and nothing else; no credential of the server
  is among them, and an interactive shell has its private home.
\<close>

theorem contained_run_environment:
  assumes "prepare self request inputs options i = (Inr p, evs)" and "rq_profile_kind request \<noteq> PkNative"
    and "btree_ok (la_host_env self)" "btree_ok (ss_env_overrides (rq_spec request))"
  shows "fst ` set (pe_env p) \<subseteq> set CORE_ENV_NAMES \<union> fst ` set (ss_env_overrides (rq_spec request)) \<union>
           {AGENDAO_SANDBOX_ENV_PREFIX @ ''EXECUTION_ID'', AGENDAO_SANDBOX_ENV_PREFIX @ ''PLAN_FINGERPRINT''} \<and>
         set default_hard_deny_exact \<inter> fst ` set (pe_env p) = {} \<and>
         (rq_profile_kind request = PkInteractiveShell \<longrightarrow> map_of (pe_env p) ''HOME'' = Some INTERACTIVE_PRIVATE_HOME)"
proof -
  let ?auth = "btree_from [(AGENDAO_SANDBOX_ENV_PREFIX @ ''EXECUTION_ID'', pl_execution_id (pe_plan p)),
                    (AGENDAO_SANDBOX_ENV_PREFIX @ ''PLAN_FINGERPRINT'', pl_fingerprint (pe_plan p))]"
  let ?over = "ss_env_overrides (rq_spec request)"
  from assms(1) obtain profile where d: "derive_profile (rq_trust_class request) (rq_profile_kind request) inputs = Inr profile"
      and m: "pl_process_mode (pe_plan p) = sp_process profile" "pl_environment (pe_plan p) = sp_environment profile"
        "pl_requested_kind (pe_plan p) = rq_profile_kind request"
    by (rule prepared_profile)
  from assms(1) have "plan_and_env self request inputs options i = Inr (pe_plan p, pe_env p)" by (rule prepare_Inr)
  then obtain env0 where e: "build_child_environment (pl_environment (pe_plan p)) (la_host_env self) ?over ?auth = Inr env0"
      "pe_env p = (if pl_requested_kind (pe_plan p) = PkInteractiveShell \<and> pl_process_mode (pe_plan p) = Contained
            then btree_insert ''HOME'' INTERACTIVE_PRIVATE_HOME env0 else env0)"
    by (rule plan_and_envD)
  have env: "pl_environment (pe_plan p) = default_environment\<lparr>ep_allow_exact := in_environment_allow_exact inputs\<rparr>"
      and contained: "pl_process_mode (pe_plan p) = Contained"
    using derive_profileD(4,6) [OF d] assms(2) m by auto
  note c = child_environment_Inr [OF e(1)]
  have keys0: "fst ` set env0 = dom (map_of (inherited (pl_environment (pe_plan p)) (la_host_env self)))
      \<union> fst ` set ?over \<union> fst ` set ?auth"
    using c(3) [OF assms(3,4)] by (simp add: dom_map_of_conv_image_fst [symmetric] Un_ac)
  have inh: "dom (map_of (inherited (pl_environment (pe_plan p)) (la_host_env self))) \<subseteq> set CORE_ENV_NAMES"
    using map_of_inherited [OF btree_ok_distinct [OF assms(3)], of "pl_environment (pe_plan p)"]
    by (auto simp: env default_environment_def split: if_splits)
  have auth: "fst ` set ?auth = {AGENDAO_SANDBOX_ENV_PREFIX @ ''EXECUTION_ID'', AGENDAO_SANDBOX_ENV_PREFIX @ ''PLAN_FINGERPRINT''}"
    by (simp add: keys_btree_from)
  have keys: "fst ` set (pe_env p) \<subseteq> insert ''HOME'' (fst ` set env0)" using e(2) by auto
  have home: "''HOME'' \<in> set CORE_ENV_NAMES" by (simp add: CORE_ENV_NAMES_def)
  have all_keys: "fst ` set (pe_env p) \<subseteq> set CORE_ENV_NAMES \<union> fst ` set ?over \<union> fst ` set ?auth"
  proof (rule subset_trans [OF keys])
    show "insert ''HOME'' (fst ` set env0) \<subseteq> set CORE_ENV_NAMES \<union> fst ` set ?over \<union> fst ` set ?auth"
      unfolding keys0 using inh home by (intro insert_subsetI Un_least) (simp_all add: le_supI1 le_supI2)
  qed
  have denied: "\<not> k \<in> set default_hard_deny_exact" if "k \<in> fst ` set (pe_env p)" for k
  proof
    assume k: "k \<in> set default_hard_deny_exact"
    then have "is_denied (pl_environment (pe_plan p)) k" by (simp add: is_denied_def env default_environment_def)
    then have "k \<notin> fst ` set ?over" using c(1) by blast
    moreover have "k \<notin> set CORE_ENV_NAMES" "k \<notin> fst ` set ?auth"
      using k hard_denied_names unfolding auth by (auto simp: list_all_iff)
    moreover have "k \<in> set CORE_ENV_NAMES \<union> fst ` set ?over \<union> fst ` set ?auth" using all_keys that by (rule subsetD)
    ultimately show False by simp
  qed
  have "map_of (pe_env p) ''HOME'' = Some INTERACTIVE_PRIVATE_HOME" if "rq_profile_kind request = PkInteractiveShell"
    using that m(3) contained e(2) child_environment_ok [OF e(1) assms(3,4) launch_authority_ok] by simp
  moreover have "set default_hard_deny_exact \<inter> fst ` set (pe_env p) = {}"
    using denied by (simp only: disjoint_iff) blast
  ultimately show ?thesis using all_keys unfolding auth by blast
qed

section \<open>A check writes to its cache only\<close>

text \<open>
  \<^bold>\<open>Note.\<close> A check prepared by the authority runs contained with a read-only workspace, whatever profile the
  request asked for and whatever the mode of the session; the writable roots of its plan are the canonical
  build cache beside the workspace and the roots the launch options add.
\<close>

theorem check_writes_only_cache:
  assumes "prepare_check self config create_dir_all request options i = (Inr p, evs)"
  shows "pl_process_mode (pe_plan p) = Contained \<and> pf_mode (pl_filesystem (pe_plan p)) = FsReadOnly \<and>
         np_mode (pl_network (pe_plan p)) = NetDisabled \<and>
         (\<exists>workspace above cache. fs_canonicalize (la_fs self) (rq_workspace_root request) = Some workspace \<and>
            parent workspace = Some above \<and> fs_canonicalize (la_fs self) (above @ [Normal ''target'']) = Some cache \<and>
            pf_writable_roots (pl_filesystem (pe_plan p)) = sorted_values (cache # po_extra_writable_roots options))"
proof -
  let ?request = "request\<lparr>rq_profile_kind := PkCheck\<rparr>"
  obtain root where root: "check_build_cache_root self create_dir_all (rq_workspace_root request) = Inr root"
      and prep: "prepare self ?request ((policy_inputs config None)\<lparr>in_check_build_cache_root := Some root\<rparr>) options i = (Inr p, evs)"
    using assms by (auto simp: prepare_check_def Let_def split: sum.splits)
  from root obtain workspace above where w: "fs_canonicalize (la_fs self) (rq_workspace_root request) = Some workspace"
      "parent workspace = Some above" "root = above @ [Normal ''target'']"
    by (auto simp: check_build_cache_root_def split: option.splits)
  from prep have "plan_and_env self ?request ((policy_inputs config None)\<lparr>in_check_build_cache_root := Some root\<rparr>) options i
      = Inr (pe_plan p, pe_env p)" by (rule prepare_Inr)
  then obtain profile where d: "derive_profile (rq_trust_class ?request) (rq_profile_kind ?request)
        ((policy_inputs config None)\<lparr>in_check_build_cache_root := Some root\<rparr>) = Inr profile"
      and b: "build_plan (la_fs self) (la_fingerprint_of self) profile (rq_profile_kind ?request) (rq_workspace_root ?request)
       \<lparr>cx_execution_id = i, cx_session_origin = rq_session_origin ?request,
        cx_extra_writable_roots = po_extra_writable_roots options,
        cx_extra_read_only_roots = po_authority_read_only_roots options,
        cx_term_grace = po_term_grace options\<rparr> = Inr (pe_plan p)"
    by (rule plan_and_envD)
  have t: "sp_process profile = Contained" "np_mode (sp_network profile) = NetDisabled"
      "fp_mode (sp_filesystem profile) = FsReadOnly" "fp_writable_roots (sp_filesystem profile) = [root]"
    using contained_profile [OF d] by auto
  from build_plan_roots [OF b] t(3,4) obtain cache where
      "fs_canonicalize (la_fs self) root = Some cache"
      "pf_writable_roots (pl_filesystem (pe_plan p)) = sorted_values (cache # po_extra_writable_roots options)"
    by (auto simp: canonicalize_root_def canonicalize_existing_def res_bind_Inr_iff split: sum.splits option.splits)
  then show ?thesis using build_planD [OF b] t w by auto
qed

section \<open>The life of an execution\<close>

datatype handle_op = OpWait | OpCancel | OpCancelTimeout | OpWaitTimeout

fun handle_step :: "handle_op \<Rightarrow> SandboxExecutionHandle \<Rightarrow> child_env \<Rightarrow> handle_result" where
  "handle_step OpWait h env = handle_wait h env"
| "handle_step OpCancel h env = cancel h env"
| "handle_step OpCancelTimeout h env = cancel_timeout h env"
| "handle_step OpWaitTimeout h env = wait_with_timeout h env"

text \<open>A sequence of calls on one handle: their results and all events.\<close>

fun handle_run :: "SandboxExecutionHandle \<Rightarrow> (handle_op \<times> child_env) list
    \<Rightarrow> (SandboxExecutionError + SandboxExit) list \<times> SandboxEvent list" where
  "handle_run h [] = ([], [])"
| "handle_run h ((op, env) # ops) =
     (case handle_step op h env of
        (r, h', evs) \<Rightarrow> (case handle_run h' ops of (rs, evs') \<Rightarrow> (r # rs, evs @ evs')))"

definition exits :: "SandboxEvent list \<Rightarrow> SandboxEvent list" where
  "exits evs = filter (\<lambda>e. case e of EvExited _ _ _ _ \<Rightarrow> True | _ \<Rightarrow> False) evs"

lemma exits_append [simp]: "exits (xs @ ys) = exits xs @ exits ys"
  by (simp add: exits_def)

lemma finish_or_cases:
  assumes "finish_or h env waited cleanup = (r, h', evs)"
  shows "(\<exists>e. r = Inl e \<and> h' = h \<and> evs = []) \<or>
     (\<exists>status. r = Inr status \<and> h' = h\<lparr>sh_finished := True\<rparr> \<and>
        exits evs = [EvExited (pl_execution_id (sh_plan h)) (pl_session_origin (sh_plan h)) status (sh_backend h)] \<and>
        (\<forall>ev\<in>set evs. event_execution_id ev = pl_execution_id (sh_plan h)))"
  using assms
  by (auto simp: finish_or_def finish_def record_exit_violation_def record_verified_violation_def violation_event_def
      exits_def Let_def split: sum.splits option.splits if_splits)

lemma terminate_cases:
  assumes "terminate h env status = (r, h', evs)"
  shows "(\<exists>e. r = Inl e \<and> h' = h \<and> evs = []) \<or> (\<exists>waited cleanup. finish_or h env waited cleanup = (r, h', evs))"
  using assms by (auto simp: terminate_def split: option.splits)

lemma handle_step_cases:
  assumes "handle_step op h env = (r, h', evs)"
  shows "(\<exists>e. r = Inl e \<and> h' = h \<and> evs = []) \<or>
     (\<exists>status. \<not> sh_finished h \<and> r = Inr status \<and> h' = h\<lparr>sh_finished := True\<rparr> \<and>
        exits evs = [EvExited (pl_execution_id (sh_plan h)) (pl_session_origin (sh_plan h)) status (sh_backend h)] \<and>
        (\<forall>ev\<in>set evs. event_execution_id ev = pl_execution_id (sh_plan h)))"
proof (cases "sh_finished h")
  case True
  then show ?thesis using assms
    by (cases op) (auto simp: handle_wait_def cancel_def cancel_timeout_def wait_with_timeout_def)
next
  case False
  then have "(\<exists>e. r = Inl e \<and> h' = h \<and> evs = []) \<or> (\<exists>waited cleanup. finish_or h env waited cleanup = (r, h', evs))"
    using assms terminate_cases [of h env _ r h' evs]
    by (cases op) (auto simp: handle_wait_def cancel_def cancel_timeout_def wait_with_timeout_def split: option.splits)
  then show ?thesis using finish_or_cases [of h env _ _ r h' evs] False by blast
qed

lemma handle_run_finished:
  "sh_finished h \<Longrightarrow> handle_run h ops = (rs, evs) \<Longrightarrow> evs = [] \<and> (\<forall>r\<in>set rs. r = Inl AlreadyFinished)"
proof (induction ops arbitrary: rs evs)
  case (Cons oe ops)
  obtain op env where oe: "oe = (op, env)" by (cases oe)
  have "handle_step op h env = (Inl AlreadyFinished, h, [])"
    using Cons.prems(1) by (cases op) (auto simp: handle_wait_def cancel_def cancel_timeout_def wait_with_timeout_def)
  with Cons oe show ?case by (auto split: prod.splits)
qed simp

text \<open>
  \<^bold>\<open>C22.\<close> Whatever is called on a started execution, in whatever order and however the child behaves, at
  most one call succeeds and at most one exit is recorded: exactly one if some call succeeds, none
  otherwise. Every event carries the id of the plan.
\<close>

theorem execution_exits_once:
  assumes "handle_run h ops = (results, events)" and "\<not> sh_finished h"
  shows "exits events = map (\<lambda>status. EvExited (pl_execution_id (sh_plan h)) (pl_session_origin (sh_plan h)) status (sh_backend h))
             (List.map_filter (\<lambda>r. case r of Inr status \<Rightarrow> Some status | Inl _ \<Rightarrow> None) results) \<and>
         length (exits events) \<le> 1 \<and> (\<forall>ev\<in>set events. event_execution_id ev = pl_execution_id (sh_plan h))"
  using assms
proof (induction ops arbitrary: results events)
  case Nil
  then show ?case by (simp add: exits_def List.map_filter_simps)
next
  case (Cons oe ops)
  obtain op env where oe: "oe = (op, env)" by (cases oe)
  obtain r h' evs where step: "handle_step op h env = (r, h', evs)" by (metis prod_cases3)
  obtain rs evs' where rest: "handle_run h' ops = (rs, evs')" by (metis surj_pair)
  have res: "results = r # rs" "events = evs @ evs'" using Cons.prems(1) oe step rest by auto
  from handle_step_cases [OF step] show ?case
  proof (elim disjE exE conjE)
    fix e assume "r = Inl e" "h' = h" "evs = []"
    then show ?thesis using Cons.IH [of rs evs'] rest Cons.prems(2) res by (auto simp: List.map_filter_simps)
  next
    fix status assume s: "r = Inr status" "h' = h\<lparr>sh_finished := True\<rparr>"
      "exits evs = [EvExited (pl_execution_id (sh_plan h)) (pl_session_origin (sh_plan h)) status (sh_backend h)]"
      "\<forall>ev\<in>set evs. event_execution_id ev = pl_execution_id (sh_plan h)"
    have "evs' = []" "\<forall>r\<in>set rs. r = Inl AlreadyFinished"
      using handle_run_finished [OF _ rest] s(2) by auto
    moreover from this(2) have "List.map_filter (\<lambda>r. case r of Inr status \<Rightarrow> Some status | Inl _ \<Rightarrow> None) rs = []"
      by (induction rs) (auto simp: List.map_filter_simps)
    ultimately show ?thesis using s res by (simp add: List.map_filter_simps exits_def)
  qed
qed

text \<open>Evidence with the token of another execution is dropped; the identity of a violation is the plan's.\<close>

lemma foreign_evidence_dropped: "vr_token r \<noteq> sh_token h \<Longrightarrow> record_verified_violation h (Some r) = []"
  by (simp add: record_verified_violation_def)

text \<open>Two places where the code does less than it says.\<close>

lemma terminal_failure_is_not_recorded:
  "start_pty prepared token (Some e) spawned = (Inl (SpawnFailed ''pty'' e), [])"
  by (simp add: start_pty_def)

lemma short_grace_is_dropped: "millis < 1000 \<Longrightarrow> as_secs millis = 0"
  by (simp add: as_secs_def)

section \<open>A concrete launch\<close>

definition sample_launcher :: launcher where
  "sample_launcher =
     \<lparr>la_registry = \<lparr>br_native = \<lparr>be_name = ''native'', be_supports = (\<lambda>p. pl_process_mode p = Native),
          be_probe = \<lparr>bp_available = True, bp_reason = None\<rparr>\<rparr>,
        br_platform = [\<lparr>be_name = ''bwrap'', be_supports = (\<lambda>p. pl_process_mode p = Contained),
          be_probe = \<lparr>bp_available = True, bp_reason = None\<rparr>\<rparr>]\<rparr>,
      la_fs = \<lparr>fs_canonicalize = (\<lambda>p. Some p), fs_exists = (\<lambda>_. True), fs_symlink_metadata = (\<lambda>_. True)\<rparr>,
      la_host_env = [(''HOME'', ''/root''), (''SECRET'', ''s'')],
      la_fingerprint_of = (\<lambda>_. ''f'')\<rparr>"

definition sample_launch_request :: "ProfileKind \<Rightarrow> SandboxExecutionRequest" where
  "sample_launch_request kind =
     \<lparr>rq_trust_class = ModelReachable, rq_profile_kind = kind,
      rq_spec = \<lparr>ss_program = ''sh'', ss_args = [], ss_cwd = None, ss_env_overrides = []\<rparr>,
      rq_workspace_root = [RootDir, Normal ''ws''], rq_session_origin = None\<rparr>"

definition sample_config :: SandboxAuthorityConfig where
  "sample_config = \<lparr>ac_session_mode = SessionDefault, ac_admin = None, ac_agent = None, ac_environment_allow_exact = []\<rparr>"

definition no_options :: PrepareOptions where
  "no_options = \<lparr>po_extra_writable_roots = [], po_authority_read_only_roots = [], po_term_grace = None\<rparr>"

definition prepared_of :: "(SandboxExecutionError + PreparedSandboxExecution) \<times> SandboxEvent list \<Rightarrow> PreparedSandboxExecution option" where
  "prepared_of r = (case fst r of Inr p \<Rightarrow> Some p | Inl _ \<Rightarrow> None)"

lemma prepared_of_Some: "prepared_of r = Some p \<Longrightarrow> r = (Inr p, snd r)"
  by (cases r) (auto simp: prepared_of_def split: sum.splits)


lemma sample_prepared:
  "prepared_of (authority_prepare sample_launcher sample_config None (sample_launch_request PkInteractiveShell) no_options ''7'') \<noteq> None"
  by code_simp

lemma sample_check_prepared:
  "prepared_of (prepare_check sample_launcher sample_config (\<lambda>_. None) (sample_launch_request PkNative) no_options ''7'') \<noteq> None"
  by code_simp

theorem sandboxed_session_never_native_witness:
  "\<exists>p :: PreparedSandboxExecution. pe_backend p \<in> set (br_platform (la_registry sample_launcher)) \<and> pl_process_mode (pe_plan p) = Contained"
proof -
  obtain p where "prepared_of (authority_prepare sample_launcher sample_config None
      (sample_launch_request PkInteractiveShell) no_options ''7'') = Some p"
    using sample_prepared by blast
  from sandboxed_session_never_native [OF _ prepared_of_Some [OF this]] show ?thesis
    by (auto simp: sample_config_def)
qed

theorem contained_run_environment_witness:
  "\<exists>p :: PreparedSandboxExecution. map_of (pe_env p) ''HOME'' = Some INTERACTIVE_PRIVATE_HOME \<and> set default_hard_deny_exact \<inter> fst ` set (pe_env p) = {}"
proof -
  obtain p where "prepared_of (prepare sample_launcher (sample_launch_request PkInteractiveShell)
      (policy_inputs sample_config None) no_options ''7'') = Some p"
    using sample_prepared by (auto simp: authority_prepare_def)
  from contained_run_environment [OF prepared_of_Some [OF this]]
  have "set default_hard_deny_exact \<inter> fst ` set (pe_env p) = {} \<and> map_of (pe_env p) ''HOME'' = Some INTERACTIVE_PRIVATE_HOME"
    by (simp add: sample_launch_request_def sample_launcher_def btree_ok_def)
  then show ?thesis by blast
qed

theorem check_writes_only_cache_witness:
  "\<exists>(p :: PreparedSandboxExecution) cache. pf_mode (pl_filesystem (pe_plan p)) = FsReadOnly \<and>
     fs_canonicalize (la_fs sample_launcher) [RootDir, Normal ''target''] = Some cache \<and>
     pf_writable_roots (pl_filesystem (pe_plan p)) = sorted_values [cache]"
proof -
  obtain p where "prepared_of (prepare_check sample_launcher sample_config (\<lambda>_. None)
      (sample_launch_request PkNative) no_options ''7'') = Some p"
    using sample_check_prepared by blast
  from check_writes_only_cache [OF prepared_of_Some [OF this]] show ?thesis
    by (auto simp: sample_launcher_def sample_launch_request_def no_options_def parent_def)
qed

theorem fingerprint_describes_plan_witness:
  "\<exists>plan :: SandboxPlan. pl_fingerprint plan = ''f'' \<and> plan_payload plan = plan_payload plan"
proof -
  let ?cx = "\<lparr>cx_execution_id = ''7'', cx_session_origin = None, cx_extra_writable_roots = [],
     cx_extra_read_only_roots = [], cx_term_grace = None\<rparr>"
  have "is_ok (build_plan (la_fs sample_launcher) (\<lambda>_. ''f'') contained_workspace_write PkWorkspaceWrite [RootDir, Normal ''ws''] ?cx)"
    by code_simp
  then obtain plan where "build_plan (la_fs sample_launcher) (\<lambda>_. ''f'') contained_workspace_write PkWorkspaceWrite
      [RootDir, Normal ''ws''] ?cx = Inr plan"
    by (auto simp: is_ok_iff)
  from fingerprint_describes_plan [OF this this] show ?thesis by blast
qed

definition sample_plan :: SandboxPlan where
  "sample_plan = \<lparr>pl_execution_id = [], pl_trust_class = ModelReachable, pl_requested_kind = PkWorkspaceWrite,
     pl_filesystem = \<lparr>pf_mode = FsWorkspaceWrite, pf_workspace_root = ''/ws'', pf_writable_roots = [''/data'', ''/ws''],
       pf_read_only_roots = []\<rparr>,
     pl_network = network_disabled, pl_environment = default_environment, pl_process_mode = Contained,
     pl_term_grace_secs = 5, pl_fingerprint = [], pl_session_origin = None\<rparr>"

definition sample_handle :: SandboxExecutionHandle where
  "sample_handle = \<lparr>sh_backend = ''bwrap'', sh_plan = sample_plan, sh_token = 1, sh_pid = Some 42, sh_finished = False\<rparr>"

text \<open>A child that ignores the first signal and is killed.\<close>

definition stubborn_child :: child_env where
  "stubborn_child =
     (let killed = \<lparr>bx_success = False, bx_code = None, bx_signal = Some 9\<rparr>
      in \<lparr>ce_wait = Inr killed, ce_wait_deadline = None, ce_wait_grace = None, ce_wait_killed = Inr killed,
          ce_signal_term = None, ce_signal_kill = None, ce_report = None\<rparr>)"

lemma stubborn_run:
  "handle_run sample_handle [(OpCancel, stubborn_child), (OpWait, stubborn_child)] =
     ([Inr \<lparr>sx_exit = \<lparr>bx_success = False, bx_code = None, bx_signal = Some 9\<rparr>, sx_cleanup = KilledAfterGrace\<rparr>, Inl AlreadyFinished],
      [EvExited [] None \<lparr>sx_exit = \<lparr>bx_success = False, bx_code = None, bx_signal = Some 9\<rparr>, sx_cleanup = KilledAfterGrace\<rparr> ''bwrap''])"
  by code_simp

theorem execution_exits_once_witness:
  "length (exits [EvExited [] None \<lparr>sx_exit = \<lparr>bx_success = False, bx_code = None, bx_signal = Some 9\<rparr>,
     sx_cleanup = KilledAfterGrace\<rparr> ''bwrap'']) \<le> 1"
  using execution_exits_once [OF stubborn_run] by (simp add: sample_handle_def)

end
