(* ===== verification/Sandbox_Bwrap.thy ===== *)
theory Sandbox_Bwrap
  imports Sandbox_Launch_Properties
begin

unbundle bit_operations_syntax

text \<open>
  The Linux backend: the arguments of Bubblewrap (\<open>agendao-sandbox/src/platform/linux/bwrap.rs\<close>) and the
  system call filter (\<open>platform/linux/seccomp.rs\<close>, x86-64).
\<close>

section \<open>Arguments of Bubblewrap\<close>

definition READ_ONLY_HOST_DIRS :: "string list" where
  "READ_ONLY_HOST_DIRS = [''/usr'', ''/etc'', ''/lib'', ''/lib64'', ''/bin'', ''/sbin'', ''/opt'']"

definition workspace_writable :: "SandboxPlan \<Rightarrow> bool" where
  "workspace_writable plan \<longleftrightarrow> pf_mode (pl_filesystem plan) = FsWorkspaceWrite \<and>
     list_ex (\<lambda>root. root = pf_workspace_root (pl_filesystem plan)) (pf_writable_roots (pl_filesystem plan))"

definition build_bwrap_args :: "SandboxPlan \<Rightarrow> SpawnSpec \<Rightarrow> env_map \<Rightarrow> string list" where
  "build_bwrap_args plan spec env =
     (let fs = pl_filesystem plan;
          workspace = pf_workspace_root fs
      in [''--unshare-all'', ''--die-with-parent'', ''--new-session'']
         @ [''--cap-drop'', ''ALL'', ''--proc'', ''/proc'', ''--dev'', ''/dev'', ''--tmpfs'', ''/tmp'']
         @ (if pl_requested_kind plan = PkInteractiveShell then [''--dir'', INTERACTIVE_PRIVATE_HOME] else [])
         @ List.concat (map (\<lambda>dir. [''--ro-bind-try'', dir, dir]) READ_ONLY_HOST_DIRS)
         @ [if workspace_writable plan then ''--bind'' else ''--ro-bind'', workspace, workspace]
         @ List.concat (map (\<lambda>root. if root = workspace then [] else [''--bind'', root, root]) (pf_writable_roots fs))
         @ List.concat (map (\<lambda>root.
               if root = workspace \<or> list_ex (\<lambda>w. w = root) (pf_writable_roots fs) then []
               else [''--ro-bind'', root, root]) (pf_read_only_roots fs))
         @ (if workspace_writable plan
            then List.concat (map (\<lambda>component. let protected = workspace @ ''/'' @ component
                   in [''--ro-bind-try'', protected, protected]) PROTECTED_METADATA_COMPONENTS)
            else [])
         @ [''--chdir'', (case ss_cwd spec of Some cwd \<Rightarrow> path_display cwd | None \<Rightarrow> workspace)]
         @ [''--clearenv'']
         @ List.concat (map (\<lambda>(key, v). [''--setenv'', key, v]) env)
         @ ss_program spec # ss_args spec)"

definition bwrap_supports :: "SandboxPlan \<Rightarrow> bool" where
  "bwrap_supports plan \<longleftrightarrow> pl_process_mode plan = Contained
     \<and> pf_mode (pl_filesystem plan) \<noteq> FsUnrestricted \<and> np_mode (pl_network plan) = NetDisabled"

text \<open>The arguments of the spawned command: the filter on descriptor 3 comes first.\<close>

definition bwrap_command :: "SandboxPlan \<Rightarrow> SpawnSpec \<Rightarrow> env_map \<Rightarrow> SandboxExecutionError + string list" where
  "bwrap_command plan spec env =
     (if pl_process_mode plan \<noteq> Contained
      then Inl (SeLifecycle ''bwrap backend refuses non-contained plan'')
      else Inr (''--seccomp'' # ''3'' # build_bwrap_args plan spec env))"

section \<open>What the mounts grant\<close>

text \<open>
  The meaning of the arguments, as Bubblewrap documents its options: \<open>bwrap_mounts\<close> reads options up to
  the first argument that is none, the program, and gives the mounts of host directories with their
  targets in order. A later mount covers an earlier one, so the last mount at or above a path decides
  whether the path is writable.
\<close>

datatype mount = Bind string | RoBind string | RoBindTry string

fun mount_args :: "mount \<Rightarrow> string list" where
  "mount_args (Bind p) = [''--bind'', p, p]"
| "mount_args (RoBind p) = [''--ro-bind'', p, p]"
| "mount_args (RoBindTry p) = [''--ro-bind-try'', p, p]"

fun mount_target :: "mount \<Rightarrow> string" where
  "mount_target (Bind p) = p"
| "mount_target (RoBind p) = p"
| "mount_target (RoBindTry p) = p"

definition BWRAP_FLAGS :: "string list" where
  "BWRAP_FLAGS = [''--unshare-all'', ''--die-with-parent'', ''--new-session'', ''--clearenv'']"

definition BWRAP_SETTINGS :: "string list" where
  "BWRAP_SETTINGS = [''--cap-drop'', ''--proc'', ''--dev'', ''--tmpfs'', ''--dir'', ''--chdir'', ''--seccomp'']"

fun bwrap_mounts :: "string list \<Rightarrow> mount list" where
  "bwrap_mounts [] = []"
| "bwrap_mounts (opt # args) =
     (if opt \<in> set BWRAP_FLAGS then bwrap_mounts args
      else if opt \<in> set BWRAP_SETTINGS then bwrap_mounts (drop 1 args)
      else if opt = ''--setenv'' then bwrap_mounts (drop 2 args)
      else case args of
             src # dest # rest \<Rightarrow>
               if opt = ''--bind'' then Bind dest # bwrap_mounts rest
               else if opt = ''--ro-bind'' then RoBind dest # bwrap_mounts rest
               else if opt = ''--ro-bind-try'' then RoBindTry dest # bwrap_mounts rest
               else []
           | _ \<Rightarrow> [])"

definition covers :: "string \<Rightarrow> string \<Rightarrow> bool" where
  "covers root p \<longleftrightarrow> p = root \<or> starts_with p (root @ ''/'')"

definition writable_path :: "mount list \<Rightarrow> string \<Rightarrow> bool" where
  "writable_path mounts p \<longleftrightarrow>
     (case find (\<lambda>m. covers (mount_target m) p) (rev mounts) of
        Some (Bind _) \<Rightarrow> True | _ \<Rightarrow> False)"

text \<open>The mounts of a plan, in the order of the code.\<close>

definition plan_mounts :: "SandboxPlan \<Rightarrow> mount list" where
  "plan_mounts plan =
     (let fs = pl_filesystem plan; workspace = pf_workspace_root fs
      in map RoBindTry READ_ONLY_HOST_DIRS
         @ [if workspace_writable plan then Bind workspace else RoBind workspace]
         @ map Bind (filter (\<lambda>root. root \<noteq> workspace) (pf_writable_roots fs))
         @ map RoBind (filter (\<lambda>root. root \<noteq> workspace \<and> root \<notin> set (pf_writable_roots fs)) (pf_read_only_roots fs))
         @ (if workspace_writable plan
            then map (\<lambda>c. RoBindTry (workspace @ ''/'' @ c)) PROTECTED_METADATA_COMPONENTS else []))"

lemma concat_if: "List.concat (map (\<lambda>x. if P x then [] else f x) xs) = List.concat (map f (filter (\<lambda>x. \<not> P x) xs))"
  by (induction xs) auto

lemma bwrap_args_mounts:
  "build_bwrap_args plan spec env =
     [''--unshare-all'', ''--die-with-parent'', ''--new-session'', ''--cap-drop'', ''ALL'', ''--proc'', ''/proc'',
      ''--dev'', ''/dev'', ''--tmpfs'', ''/tmp'']
     @ (if pl_requested_kind plan = PkInteractiveShell then [''--dir'', INTERACTIVE_PRIVATE_HOME] else [])
     @ List.concat (map mount_args (plan_mounts plan))
     @ [''--chdir'', (case ss_cwd spec of Some cwd \<Rightarrow> path_display cwd | None \<Rightarrow> pf_workspace_root (pl_filesystem plan)),
        ''--clearenv'']
     @ List.concat (map (\<lambda>(key, v). [''--setenv'', key, v]) env) @ ss_program spec # ss_args spec"
  by (simp add: build_bwrap_args_def plan_mounts_def Let_def concat_if comp_def list_ex_iff)

lemmas bwrap_options = BWRAP_FLAGS_def BWRAP_SETTINGS_def

lemma bwrap_mounts_mounts: "bwrap_mounts (List.concat (map mount_args ms) @ rest) = ms @ bwrap_mounts rest"
proof (induction ms)
  case (Cons m ms)
  then show ?case by (cases m) (simp_all add: bwrap_options)
qed simp

lemma bwrap_mounts_setenv:
  "bwrap_mounts (List.concat (map (\<lambda>(key, v). [''--setenv'', key, v]) env) @ rest) = bwrap_mounts rest"
  by (induction env) (auto simp: bwrap_options)

lemma bwrap_mounts_program:
  assumes "\<not> starts_with program ''-''"
  shows "bwrap_mounts (program # args) = []"
proof -
  have "program \<noteq> opt" if "hd opt = CHR ''-''" "opt \<noteq> []" for opt
    using that assms by (cases opt) (auto simp: starts_with_def)
  then have "program \<notin> set BWRAP_FLAGS" "program \<notin> set BWRAP_SETTINGS"
    "program \<noteq> ''--setenv''" "program \<noteq> ''--bind''" "program \<noteq> ''--ro-bind''" "program \<noteq> ''--ro-bind-try''"
    by (auto simp: bwrap_options)
  then show ?thesis by (simp split: list.split)
qed

lemma bwrap_mounts_build:
  assumes "\<not> starts_with (ss_program spec) ''-''"
  shows "bwrap_mounts (build_bwrap_args plan spec env) = plan_mounts plan"
proof -
  have head: "bwrap_mounts (''--chdir'' # cwd # ''--clearenv'' # rest) = bwrap_mounts rest" for cwd rest
    by (simp add: bwrap_options)
  have "bwrap_mounts (build_bwrap_args plan spec env) = bwrap_mounts (List.concat (map mount_args (plan_mounts plan))
     @ [''--chdir'', (case ss_cwd spec of Some cwd \<Rightarrow> path_display cwd | None \<Rightarrow> pf_workspace_root (pl_filesystem plan)),
        ''--clearenv'']
     @ List.concat (map (\<lambda>(key, v). [''--setenv'', key, v]) env) @ ss_program spec # ss_args spec)"
    unfolding bwrap_args_mounts by (simp add: bwrap_options)
  then show ?thesis
    by (simp only: bwrap_mounts_mounts append_Cons append_Nil head bwrap_mounts_setenv bwrap_mounts_program [OF assms] append_Nil2)
qed
section \<open>The system call filter\<close>

type_synonym u16 = "16 word"

record SockFilter =
  sf_code :: u16
  sf_jt :: u8
  sf_jf :: u8
  sf_k :: u32

definition SYS_PTRACE :: int where "SYS_PTRACE = 101"

definition NETWORK_SYSCALLS :: "int list" where
  "NETWORK_SYSCALLS = [41, 42, 43, 44, 45, 46, 47, 48, 49, 50, 51, 52, 53, 288]"

definition SECCOMP_NR_OFFSET :: u8 where "SECCOMP_NR_OFFSET = 0"
definition RET_ERRNO_EPERM :: u32 where "RET_ERRNO_EPERM = 0x00050000 OR 1"
definition RET_ALLOW :: u32 where "RET_ALLOW = 0x7fff0000"

definition BPF_LD :: u16 where "BPF_LD = 0x00"
definition BPF_W :: u16 where "BPF_W = 0x00"
definition BPF_ABS :: u16 where "BPF_ABS = 0x20"
definition BPF_JMP :: u16 where "BPF_JMP = 0x05"
definition BPF_JEQ :: u16 where "BPF_JEQ = 0x10"
definition BPF_K :: u16 where "BPF_K = 0x00"
definition BPF_RET :: u16 where "BPF_RET = 0x06"

definition deny_ptrace_only :: "int list" where
  "deny_ptrace_only = [SYS_PTRACE]"

definition deny_network_and_ptrace :: "int list" where
  "deny_network_and_ptrace = NETWORK_SYSCALLS @ [SYS_PTRACE]"

definition compile_filter :: "int list \<Rightarrow> SockFilter list" where
  "compile_filter denied =
     (let n = length denied
      in [\<lparr>sf_code = BPF_LD OR BPF_W OR BPF_ABS, sf_jt = 0, sf_jf = 0, sf_k = ucast SECCOMP_NR_OFFSET\<rparr>]
         @ map (\<lambda>(index, nr). \<lparr>sf_code = BPF_JMP OR BPF_JEQ OR BPF_K, sf_jt = of_nat (n - index), sf_jf = 0,
               sf_k = of_int nr\<rparr>) (zip [0..<n] denied)
         @ [\<lparr>sf_code = BPF_RET OR BPF_K, sf_jt = 0, sf_jf = 0, sf_k = RET_ALLOW\<rparr>,
            \<lparr>sf_code = BPF_RET OR BPF_K, sf_jt = 0, sf_jf = 0, sf_k = RET_ERRNO_EPERM\<rparr>])"

definition le16 :: "u16 \<Rightarrow> u8 list" where
  "le16 w = [ucast w, ucast (drop_bit 8 w)]"

definition le32 :: "u32 \<Rightarrow> u8 list" where
  "le32 w = [ucast w, ucast (drop_bit 8 w), ucast (drop_bit 16 w), ucast (drop_bit 24 w)]"

definition instruction_bytes :: "SockFilter \<Rightarrow> u8 list" where
  "instruction_bytes ins = le16 (sf_code ins) @ [sf_jt ins, sf_jf ins] @ le32 (sf_k ins)"

definition to_bpf_bytes :: "int list \<Rightarrow> u8 list" where
  "to_bpf_bytes denied = List.concat (map instruction_bytes (compile_filter denied))"

text \<open>
  The instructions of classic BPF the filter uses, as the kernel runs them: the accumulator, the number
  of the system call as the first word of the data, and jumps relative to the next instruction.
\<close>

function bpf_exec :: "SockFilter list \<Rightarrow> u32 \<Rightarrow> u32 \<Rightarrow> u32 option" where
  "bpf_exec [] acc nr = None"
| "bpf_exec (i # is) acc nr =
     (if sf_code i = BPF_LD OR BPF_W OR BPF_ABS
      then if sf_k i = 0 then bpf_exec is nr nr else None
      else if sf_code i = BPF_JMP OR BPF_JEQ OR BPF_K
      then bpf_exec (drop (unat (if acc = sf_k i then sf_jt i else sf_jf i)) is) acc nr
      else if sf_code i = BPF_RET OR BPF_K then Some (sf_k i)
      else None)"
  by pat_completeness auto
termination by (relation "measure (\<lambda>(p, _, _). length p)") auto

fun decode_bpf :: "u8 list \<Rightarrow> SockFilter list option" where
  "decode_bpf (c0 # c1 # jt # jf # k0 # k1 # k2 # k3 # bs) =
     map_option (\<lambda>p. \<lparr>sf_code = ucast c0 OR push_bit 8 (ucast c1), sf_jt = jt, sf_jf = jf,
         sf_k = ucast k0 OR push_bit 8 (ucast k1) OR push_bit 16 (ucast k2) OR push_bit 24 (ucast k3)\<rparr> # p)
       (decode_bpf bs)"
| "decode_bpf [] = Some []"
| "decode_bpf _ = None"

section \<open>Properties of the mounts\<close>

lemma find_append: "find P (xs @ ys) = (case find P xs of Some x \<Rightarrow> Some x | None \<Rightarrow> find P ys)"
  by (induction xs) auto

lemma writable_pathD:
  assumes "writable_path mounts p"
  shows "\<exists>root. Bind root \<in> set mounts \<and> covers root p"
proof -
  obtain root where f: "find (\<lambda>m. covers (mount_target m) p) (rev mounts) = Some (Bind root)"
    using assms by (auto simp: writable_path_def split: option.splits mount.splits)
  from find_Some_in [OF f] show ?thesis by auto
qed

lemma writable_path_last:
  assumes "covers (mount_target m) p" "\<forall>r. m \<noteq> Bind r" "\<forall>m'\<in>set late. \<forall>r. m' \<noteq> Bind r"
  shows "\<not> writable_path (early @ m # late) p"
proof -
  have "\<exists>m'\<in>set (m # late). find (\<lambda>m. covers (mount_target m) p) (rev (early @ m # late)) = Some m'"
  proof (cases "find (\<lambda>m. covers (mount_target m) p) (rev late)")
    case None
    then show ?thesis using assms(1) by (simp add: find_append)
  next
    case (Some m')
    then show ?thesis using find_Some_in [OF Some] by (auto simp: find_append)
  qed
  then obtain m' where m': "m' \<in> set (m # late)" "find (\<lambda>m. covers (mount_target m) p) (rev (early @ m # late)) = Some m'"
    by blast
  then have "\<forall>r. m' \<noteq> Bind r" using assms(2,3) by auto
  then have "(case m' of Bind r \<Rightarrow> True | _ \<Rightarrow> False) = False" by (auto split: mount.split)
  then show ?thesis using m'(2) unfolding writable_path_def by simp
qed

lemma plan_mounts_grant_no_more:
  "(writable_path (plan_mounts plan) p \<longrightarrow>
     (\<exists>root\<in>set (pf_writable_roots (pl_filesystem plan)). covers root p \<and>
        (root = pf_workspace_root (pl_filesystem plan) \<longrightarrow> pf_mode (pl_filesystem plan) = FsWorkspaceWrite))) \<and>
   (c \<in> set PROTECTED_METADATA_COMPONENTS \<longrightarrow> workspace_writable plan \<longrightarrow>
      covers (pf_workspace_root (pl_filesystem plan) @ ''/'' @ c) p \<longrightarrow> \<not> writable_path (plan_mounts plan) p)"
proof (intro conjI impI)
  assume "writable_path (plan_mounts plan) p"
  then obtain root where "Bind root \<in> set (plan_mounts plan)" "covers root p" using writable_pathD by blast
  then show "\<exists>root\<in>set (pf_writable_roots (pl_filesystem plan)). covers root p \<and>
        (root = pf_workspace_root (pl_filesystem plan) \<longrightarrow> pf_mode (pl_filesystem plan) = FsWorkspaceWrite)"
    by (auto simp: plan_mounts_def Let_def workspace_writable_def list_ex_iff split: if_splits)
next
  assume c: "c \<in> set PROTECTED_METADATA_COMPONENTS" and w: "workspace_writable plan"
    and p: "covers (pf_workspace_root (pl_filesystem plan) @ ''/'' @ c) p"
  let ?protect = "\<lambda>c. RoBindTry (pf_workspace_root (pl_filesystem plan) @ ''/'' @ c)"
  obtain before after where split: "PROTECTED_METADATA_COMPONENTS = before @ c # after" using c by (meson split_list)
  obtain early where "plan_mounts plan = early @ map ?protect PROTECTED_METADATA_COMPONENTS"
    using w by (auto simp: plan_mounts_def Let_def)
  then have "plan_mounts plan = (early @ map ?protect before) @ ?protect c # map ?protect after" by (simp add: split)
  then show "\<not> writable_path (plan_mounts plan) p" using p by (simp only:) (rule writable_path_last, auto)
qed


definition cargo_test :: SpawnSpec where
  "cargo_test = \<lparr>ss_program = ''cargo'', ss_args = [''test''], ss_cwd = None, ss_env_overrides = []\<rparr>"


text \<open>
  A program that looks like an option is read as one: the mounts it adds come last and make any host
  directory writable. The launcher only asks that the program is not blank.
\<close>

lemma option_like_program_adds_mounts:
  "writable_path (bwrap_mounts (build_bwrap_args (sample_plan\<lparr>pl_filesystem := \<lparr>pf_mode = FsReadOnly,
       pf_workspace_root = ''/ws'', pf_writable_roots = [], pf_read_only_roots = []\<rparr>\<rparr>)
     \<lparr>ss_program = ''--bind'', ss_args = [''/home/u'', ''/home/u'', ''sh''], ss_cwd = None, ss_env_overrides = []\<rparr> []))
   ''/home/u/.ssh/id''"
  by code_simp

lemma sample_plan_writes: "writable_path (plan_mounts sample_plan) ''/ws/src/main.rs''"
  by code_simp

text \<open>
  Only the workspace itself is protected: the metadata directories of another granted root are writable.
\<close>

lemma granted_root_metadata_writable: "writable_path (plan_mounts sample_plan) ''/data/.git/config''"
  by code_simp

section \<open>Properties of the filter\<close>

lemmas bpf_codes = BPF_LD_def BPF_W_def BPF_ABS_def BPF_JMP_def BPF_JEQ_def BPF_K_def BPF_RET_def

fun filter_checks :: "int list \<Rightarrow> SockFilter list" where
  "filter_checks [] = []"
| "filter_checks (d # ds) = \<lparr>sf_code = BPF_JMP OR BPF_JEQ OR BPF_K, sf_jt = of_nat (length (d # ds)), sf_jf = 0,
     sf_k = of_int d\<rparr> # filter_checks ds"

lemma length_filter_checks [simp]: "length (filter_checks ds) = length ds"
  by (induction ds) auto

lemma filter_checks_zip:
  "map (\<lambda>(index, nr). \<lparr>sf_code = BPF_JMP OR BPF_JEQ OR BPF_K, sf_jt = of_nat (m + length ds - index), sf_jf = 0,
      sf_k = of_int nr\<rparr>) (zip [m..<m + length ds] ds) = filter_checks ds"
proof (induction ds arbitrary: m)
  case (Cons d ds)
  have "[m..<m + length (d # ds)] = m # [Suc m..<Suc m + length ds]"
    using upt_conv_Cons [of m "m + length (d # ds)"] by simp
  then show ?case using Cons.IH [of "Suc m"] by (simp del: upt_Suc of_nat_Suc)
qed simp

definition verdicts :: "SockFilter list" where
  "verdicts = [\<lparr>sf_code = BPF_RET OR BPF_K, sf_jt = 0, sf_jf = 0, sf_k = RET_ALLOW\<rparr>,
     \<lparr>sf_code = BPF_RET OR BPF_K, sf_jt = 0, sf_jf = 0, sf_k = RET_ERRNO_EPERM\<rparr>]"

lemma compile_filter_checks:
  "compile_filter ds = \<lparr>sf_code = BPF_LD OR BPF_W OR BPF_ABS, sf_jt = 0, sf_jf = 0, sf_k = 0\<rparr> # filter_checks ds @ verdicts"
  using filter_checks_zip [of 0 ds] by (simp add: compile_filter_def Let_def SECCOMP_NR_OFFSET_def verdicts_def)

lemma bpf_exec_verdicts: "bpf_exec verdicts acc nr = Some RET_ALLOW" "bpf_exec (drop 1 verdicts) acc nr = Some RET_ERRNO_EPERM"
  by (simp_all add: verdicts_def bpf_codes)

lemma bpf_checks:
  "length ds \<le> 255 \<Longrightarrow> bpf_exec (filter_checks ds @ verdicts) nr nr =
     Some (if nr \<in> of_int ` set ds then RET_ERRNO_EPERM else RET_ALLOW)"
proof (induction ds)
  case (Cons d ds)
  have jump: "unat (of_nat (length (d # ds)) :: u8) = Suc (length ds)"
    using Cons.prems by (simp add: unat_of_nat del: of_nat_Suc)
  have "drop (Suc (length ds)) (filter_checks ds @ verdicts) = drop 1 verdicts" by simp
  then show ?case
    using Cons jump bpf_exec_verdicts(2) by (auto simp: bpf_codes simp del: of_nat_Suc)
qed (simp add: bpf_exec_verdicts)

text \<open>
  \<^bold>\<open>C21.\<close> The compiled filter answers for every system call number: the calls on the list fail with
  \<open>EPERM\<close>, all others are allowed. The jump offsets are right for every list of at most 255 calls.
\<close>

theorem filter_denies_exactly:
  assumes "length denied \<le> 255"
  shows "bpf_exec (compile_filter denied) acc nr = Some (if nr \<in> of_int ` set denied then RET_ERRNO_EPERM else RET_ALLOW)"
  using bpf_checks [OF assms, of nr] by (simp add: compile_filter_checks bpf_codes)

theorem filter_denies_exactly_witness:
  "bpf_exec (compile_filter deny_network_and_ptrace) 0 41 = Some RET_ERRNO_EPERM \<and>
   bpf_exec (compile_filter deny_network_and_ptrace) 0 1 = Some RET_ALLOW"
  using filter_denies_exactly [of deny_network_and_ptrace 0 41] filter_denies_exactly [of deny_network_and_ptrace 0 1]
  by (simp add: deny_network_and_ptrace_def NETWORK_SYSCALLS_def SYS_PTRACE_def)

text \<open>
  The number alone does not determine the call: the filter does not look at the architecture, and the
  numbers of the x32 interface, which have bit 30 set, pass.
\<close>

lemma x32_socket_is_allowed: "bpf_exec (compile_filter deny_network_and_ptrace) 0 (0x40000000 + 41) = Some RET_ALLOW"
  by code_simp

lemma le16_decode: "ucast (ucast w :: u8) OR push_bit 8 (ucast (ucast (drop_bit 8 w) :: u8)) = (w :: u16)"
  by (rule bit_word_eqI) (auto simp: bit_or_iff bit_ucast_iff bit_push_bit_iff bit_drop_bit_eq)

lemma le32_decode:
  "ucast (ucast w :: u8) OR push_bit 8 (ucast (ucast (drop_bit 8 w) :: u8)) OR
   push_bit 16 (ucast (ucast (drop_bit 16 w) :: u8)) OR push_bit 24 (ucast (ucast (drop_bit 24 w) :: u8)) = (w :: u32)" (is "?bytes = w")
proof (rule bit_word_eqI)
  fix n assume "n < LENGTH(32)"
  then consider "n < 8" | "8 \<le> n" "n < 16" | "16 \<le> n" "n < 24" | "24 \<le> n" "n < 32" by fastforce
  then show "bit ?bytes n = bit w n"
    by cases (auto simp: bit_or_iff bit_ucast_iff bit_push_bit_iff bit_drop_bit_eq)
qed

text \<open>\<^bold>\<open>Note.\<close> The bytes that are handed to Bubblewrap decode to the compiled filter.\<close>

theorem filter_bytes_roundtrip: "decode_bpf (to_bpf_bytes denied) = Some (compile_filter denied)"
proof -
  have "decode_bpf (List.concat (map instruction_bytes p)) = Some p" for p
    by (induction p) (auto simp: instruction_bytes_def le16_def le32_def le16_decode le32_decode)
  then show ?thesis by (simp add: to_bpf_bytes_def)
qed

end
