(* ===== verification/Sandbox_Boundary.thy ===== *)
theory Sandbox_Boundary
  imports Sandbox_Launch_Properties
begin

text \<open>
  The launch of user-configured integrations (\<open>agendao-sandbox/src/boundary.rs\<close>): the request they always
  use and the host directories they may read.
\<close>

section \<open>Runtime roots\<close>

definition cargo_bin :: "path \<Rightarrow> path" where "cargo_bin home = home @ [Normal ''.cargo'', Normal ''bin'']"
definition local_bin :: "path \<Rightarrow> path" where "local_bin home = home @ [Normal ''.local'', Normal ''bin'']"
definition opencode_cache :: "path \<Rightarrow> path" where "opencode_cache home = home @ [Normal ''.cache'', Normal ''opencode'']"

definition approved_bins :: "path \<Rightarrow> path list" where
  "approved_bins home = [cargo_bin home, local_bin home]"

text \<open>The program: its new path and the directory it needs, if it is one of the approved places.\<close>

definition resolve_program ::
    "filesystem \<Rightarrow> path \<Rightarrow> SpawnSpec \<Rightarrow> SandboxExecutionError + (SpawnSpec \<times> path list)" where
  "resolve_program fs home spec =
     (let program = path_components (ss_program spec)
      in if \<not> is_absolute program then Inr (spec, [])
         else case parent program of
           None \<Rightarrow> Inr (spec, [])
         | Some p \<Rightarrow>
             if \<not> (p \<in> set (approved_bins home) \<or> path_starts_with p (opencode_cache home)) then Inr (spec, [])
             else case canonicalize_existing fs program of
               Inl _ \<Rightarrow> Inl (InvalidRequest ''configured integration executable cannot be resolved'')
             | Inr target \<Rightarrow>
                 if \<not> (list_ex (path_starts_with target) (approved_bins home) \<or> path_starts_with target (opencode_cache home))
                 then Inl (InvalidRequest ''configured integration executable resolves outside its approved runtime roots'')
                 else case parent target of
                   None \<Rightarrow> Inl (InvalidRequest ''configured integration executable has no parent'')
                 | Some target_parent \<Rightarrow> Inr (spec\<lparr>ss_program := path_display target\<rparr>, [target_parent]))"

definition argument_roots :: "path \<Rightarrow> string list \<Rightarrow> path list" where
  "argument_roots home args =
     List.map_filter (\<lambda>arg. let p = path_components arg
        in if is_absolute p \<and> path_starts_with p (opencode_cache home) then parent p else None) args"

definition resolve_integration_runtime_roots_from ::
    "filesystem \<Rightarrow> path \<Rightarrow> SpawnSpec \<Rightarrow> SandboxExecutionError + (SpawnSpec \<times> path list)" where
  "resolve_integration_runtime_roots_from fs home spec =
     res_bind (resolve_program fs home spec) (\<lambda>(spec', candidates).
     Inr (spec', List.map_filter (fs_canonicalize fs) (candidates @ argument_roots home (ss_args spec))))"

section \<open>The integration request\<close>

definition integration_request :: "path \<Rightarrow> SpawnSpec \<Rightarrow> SandboxExecutionRequest" where
  "integration_request workspace spec =
     \<lparr>rq_trust_class = UserConfiguredIntegration, rq_profile_kind = PkIntegration, rq_spec = spec,
      rq_workspace_root = workspace, rq_session_origin = None\<rparr>"

text \<open>
  \<open>IntegrationSandboxContext::prepare\<close> on the server's authority, with the home directory of the host if
  it is known. The roots are kept as sorted values.
\<close>

definition integration_prepare ::
    "launcher \<Rightarrow> SandboxAuthorityConfig \<Rightarrow> path option \<Rightarrow> path list \<Rightarrow> path \<Rightarrow> SpawnSpec \<Rightarrow> PrepareOptions \<Rightarrow> string
       \<Rightarrow> (SandboxExecutionError + PreparedSandboxExecution) \<times> SandboxEvent list" where
  "integration_prepare self config home context_roots workspace spec options i =
     (case (case home of None \<Rightarrow> Inr (spec, []) | Some h \<Rightarrow> resolve_integration_runtime_roots_from (la_fs self) h spec) of
        Inl e \<Rightarrow> (Inl e, [])
      | Inr (spec', roots) \<Rightarrow>
          authority_prepare self config None (integration_request workspace spec')
            (options\<lparr>po_authority_read_only_roots := context_roots @ roots\<rparr>) i)"

section \<open>Properties\<close>

text \<open>
  \<^bold>\<open>Note.\<close> An integration always runs contained, without network and with a read-only workspace, in any
  session; no configuration of the integration can widen this.
\<close>

theorem integrations_stay_contained:
  assumes "integration_prepare self config home roots workspace spec options i = (Inr p, evs)"
  shows "pl_process_mode (pe_plan p) = Contained \<and> np_mode (pl_network (pe_plan p)) = NetDisabled \<and>
         pf_mode (pl_filesystem (pe_plan p)) = FsReadOnly"
proof -
  obtain spec' options' where "prepare self (integration_request workspace spec') (policy_inputs config None) options' i = (Inr p, evs)"
    using assms by (auto simp: integration_prepare_def authority_prepare_def split: sum.splits option.splits)
  then obtain profile where d: "derive_profile UserConfiguredIntegration PkIntegration (policy_inputs config None) = Inr profile"
      and m: "pl_process_mode (pe_plan p) = sp_process profile" "pl_network (pe_plan p) = sp_network profile"
        "pf_mode (pl_filesystem (pe_plan p)) = fp_mode (sp_filesystem profile)"
    by (rule prepared_profile) (simp add: integration_request_def)
  have "request_bound PkIntegration None \<in> set (policy_layers PkIntegration (policy_inputs config None))"
    by (simp add: policy_layers_def policy_inputs_def)
  from profile_bounded [OF d this] have "filesystem_rank (fp_mode (sp_filesystem profile)) = 0"
    by (simp add: request_bound_def)
  then have "fp_mode (sp_filesystem profile) = FsReadOnly" by (cases "fp_mode (sp_filesystem profile)") auto
  with contained_profile [OF d] m show ?thesis by simp
qed

text \<open>
  \<^bold>\<open>Note.\<close> A program from an approved directory is run by its canonical path, which is again in an approved
  directory: a link out of it is refused.
\<close>

theorem approved_program_cannot_escape:
  assumes "resolve_program fs home spec = Inr (spec', roots)" "ss_program spec' \<noteq> ss_program spec"
  shows "\<exists>target. fs_canonicalize fs (path_components (ss_program spec)) = Some target \<and>
           ss_program spec' = path_display target \<and>
           (prefix (cargo_bin home) target \<or> prefix (local_bin home) target \<or> prefix (opencode_cache home) target) \<and>
           (\<exists>above. parent target = Some above \<and> roots = [above])"
  using assms
  by (auto simp: resolve_program_def Let_def canonicalize_existing_def path_starts_with_def approved_bins_def
      split: if_splits option.splits sum.splits)

text \<open>
  An argument is only compared by its components, before links and \<open>..\<close> are resolved, so it can name any
  directory of the host.
\<close>

lemma argument_root_escapes:
  "argument_roots [RootDir, Normal ''home''] [''/home/.cache/opencode/../../.ssh/id''] =
     [[RootDir, Normal ''home'', Normal ''.cache'', Normal ''opencode'', ParentDir, ParentDir, Normal ''.ssh'']]"
  "lexical_normalize [RootDir, Normal ''home'', Normal ''.cache'', Normal ''opencode'', ParentDir, ParentDir, Normal ''.ssh''] =
     [RootDir, Normal ''home'', Normal ''.ssh'']"
  by code_simp+

theorem approved_program_cannot_escape_witness:
  "\<exists>target. prefix (cargo_bin [RootDir, Normal ''h'']) target \<or> prefix (local_bin [RootDir, Normal ''h'']) target \<or>
     prefix (opencode_cache [RootDir, Normal ''h'']) target"
proof -
  let ?fs = "\<lparr>fs_canonicalize = (\<lambda>p. Some (if last p = Normal ''ra'' then butlast p @ [Normal ''ra-1''] else p)),
    fs_exists = (\<lambda>_. True), fs_symlink_metadata = (\<lambda>_. True)\<rparr>"
  let ?spec = "\<lparr>ss_program = ''/h/.cargo/bin/ra'', ss_args = [], ss_cwd = None, ss_env_overrides = []\<rparr>"
  have "resolve_program ?fs [RootDir, Normal ''h''] ?spec =
      Inr (?spec\<lparr>ss_program := ''/h/.cargo/bin/ra-1''\<rparr>, [cargo_bin [RootDir, Normal ''h'']])"
    by code_simp
  from approved_program_cannot_escape [OF this] show ?thesis by auto
qed

theorem integrations_stay_contained_witness:
  "\<exists>p :: PreparedSandboxExecution. pl_process_mode (pe_plan p) = Contained \<and> pf_mode (pl_filesystem (pe_plan p)) = FsReadOnly"
proof -
  let ?run = "integration_prepare sample_launcher sample_config None [] [RootDir, Normal ''ws'']
      \<lparr>ss_program = ''server'', ss_args = [], ss_cwd = None, ss_env_overrides = []\<rparr> no_options ''7''"
  have "prepared_of ?run \<noteq> None" by code_simp
  then obtain p where "prepared_of ?run = Some p" by blast
  from integrations_stay_contained [OF prepared_of_Some [OF this]] show ?thesis by blast
qed

end
