(* ===== verification/Runtime_State.thy ===== *)
theory Runtime_State
  imports Rust_Prelude
begin

text \<open>
  What a session is doing right now (\<open>agendao-server-core/src/runtime_state.rs\<close>): the state that the
  server shows for each session, and the store that owns it. Every method of the store is one critical
  section.

  \<^item> The usage of a session is of a type \<open>'u\<close>, the questions shown to the user of a type \<open>'v\<close> (JSON).
  \<^item> \<open>now\<close> is the reading of the clock.
\<close>

datatype RunStatus =
  RsIdle | RsRunning | RsCompacting | RsWaitingOnTool | RsWaitingOnUser | RsCancelling | RsBlocked | RsSleeping

record ActiveToolSummary =
  at_tool_call_id :: string
  at_tool_name :: string
  at_started_at :: i64

record 'v PendingQuestionSummary =
  pq_request_id :: string
  pq_questions :: 'v

record PendingPermissionSummary =
  pp_permission_id :: string
  pp_requested_at :: i64
  pp_tool :: "string option"

record PendingSteeringMessageSummary =
  ps_id :: string
  ps_owner_session_id :: string
  ps_created_at :: i64
  ps_source_session_id :: "string option"
  ps_deliver_at :: string

text \<open>The wire shape of an active sandboxed execution (\<open>agendao-api\<close>).\<close>

record SandboxExecutionSummary =
  xs_execution_id :: string
  xs_backend :: string
  xs_profile_kind :: string
  xs_plan_fingerprint :: string
  xs_pid :: "nat option"

datatype InterruptPhase = IpIdle | IpRequested

datatype InterruptTarget = ItRun | ItStage

record InterruptRuntimeState =
  ir_phase :: InterruptPhase
  ir_requested_at :: "i64 option"
  ir_target :: "InterruptTarget option"

definition interrupt_default :: InterruptRuntimeState where
  "interrupt_default = \<lparr>ir_phase = IpIdle, ir_requested_at = None, ir_target = None\<rparr>"

record ('u, 'v) SessionRuntimeState =
  rt_session_id :: string
  rt_run_status :: RunStatus
  rt_current_message_id :: "string option"
  rt_usage :: "'u option"
  rt_active_stage_id :: "string option"
  rt_active_stage_count :: u32
  rt_active_tools :: "ActiveToolSummary list"
  rt_pending_question :: "'v PendingQuestionSummary option"
  rt_pending_permission :: "PendingPermissionSummary option"
  rt_pending_followup_count :: u64
  rt_pending_steering :: "PendingSteeringMessageSummary list"
  rt_active_sandbox :: "SandboxExecutionSummary list"
  rt_interrupt :: InterruptRuntimeState

definition runtime_state_new :: "string \<Rightarrow> ('u, 'v) SessionRuntimeState" where
  "runtime_state_new session_id =
     \<lparr>rt_session_id = session_id, rt_run_status = RsIdle, rt_current_message_id = None, rt_usage = None,
      rt_active_stage_id = None, rt_active_stage_count = 0, rt_active_tools = [], rt_pending_question = None,
      rt_pending_permission = None, rt_pending_followup_count = 0, rt_pending_steering = [],
      rt_active_sandbox = [], rt_interrupt = interrupt_default\<rparr>"

datatype ControlInputKind = Followup | SteeringInput | Interrupt | PermissionInput

datatype ControlInputPhase = Ingress | Queued | Adopted | Consumed | Cleared

datatype RuntimeProtocolUpdate =
    PermissionRequested string i64 "string option"
  | PermissionResolved
  | SteeringEnqueued PendingSteeringMessageSummary
  | SteeringCleared
  | InterruptRequested i64 InterruptTarget
  | ControlInputTransition ControlInputKind ControlInputPhase i64

section \<open>The store\<close>

type_synonym ('u, 'v) RuntimeStateStore = "string \<Rightarrow> ('u, 'v) SessionRuntimeState option"

definition store_update ::
    "string \<Rightarrow> (('u, 'v) SessionRuntimeState \<Rightarrow> ('u, 'v) SessionRuntimeState) \<Rightarrow> ('u, 'v) RuntimeStateStore
       \<Rightarrow> ('u, 'v) RuntimeStateStore" where
  "store_update session_id f st =
     st(session_id \<mapsto> f (case st session_id of Some s \<Rightarrow> s | None \<Rightarrow> runtime_state_new session_id))"

definition store_remove :: "string \<Rightarrow> ('u, 'v) RuntimeStateStore \<Rightarrow> ('u, 'v) RuntimeStateStore" where
  "store_remove session_id st = st(session_id := None)"

definition u64_saturating_sub :: "u64 \<Rightarrow> u64 \<Rightarrow> u64" where
  "u64_saturating_sub a b = (if a < b then 0 else a - b)"

definition resolve_permission :: "('u, 'v) SessionRuntimeState \<Rightarrow> ('u, 'v) SessionRuntimeState" where
  "resolve_permission s =
     s\<lparr>rt_pending_permission := None,
       rt_run_status := (if rt_run_status s = RsWaitingOnUser \<and> rt_pending_question s = None
                         then RsRunning else rt_run_status s)\<rparr>"

definition control_input :: "ControlInputKind \<Rightarrow> ControlInputPhase \<Rightarrow> ('u, 'v) SessionRuntimeState \<Rightarrow> ('u, 'v) SessionRuntimeState" where
  "control_input kind phase s =
     (case (kind, phase) of
        (Followup, Queued) \<Rightarrow> s\<lparr>rt_pending_followup_count := u64_saturating_add (rt_pending_followup_count s) 1\<rparr>
      | (Followup, Adopted) \<Rightarrow> s\<lparr>rt_pending_followup_count := u64_saturating_sub (rt_pending_followup_count s) 1\<rparr>
      | (Followup, Cleared) \<Rightarrow> s\<lparr>rt_pending_followup_count := 0\<rparr>
      | _ \<Rightarrow> s)"

fun protocol_update :: "RuntimeProtocolUpdate \<Rightarrow> ('u, 'v) SessionRuntimeState \<Rightarrow> ('u, 'v) SessionRuntimeState" where
  "protocol_update (PermissionRequested permission_id requested_at tool) s =
     s\<lparr>rt_run_status := RsWaitingOnUser,
       rt_pending_permission := Some \<lparr>pp_permission_id = permission_id, pp_requested_at = requested_at, pp_tool = tool\<rparr>\<rparr>"
| "protocol_update PermissionResolved s = resolve_permission s"
| "protocol_update (SteeringEnqueued summary) s = s\<lparr>rt_pending_steering := rt_pending_steering s @ [summary]\<rparr>"
| "protocol_update SteeringCleared s = s\<lparr>rt_pending_steering := []\<rparr>"
| "protocol_update (InterruptRequested requested_at target) s =
     s\<lparr>rt_run_status := RsCancelling,
       rt_interrupt := \<lparr>ir_phase = IpRequested, ir_requested_at = Some requested_at, ir_target = Some target\<rparr>\<rparr>"
| "protocol_update (ControlInputTransition kind phase at) s = control_input kind phase s"

definition apply_protocol_update ::
    "string \<Rightarrow> RuntimeProtocolUpdate \<Rightarrow> ('u, 'v) RuntimeStateStore \<Rightarrow> ('u, 'v) RuntimeStateStore" where
  "apply_protocol_update session_id update st = store_update session_id (protocol_update update) st"

definition mark_running :: "string \<Rightarrow> string option \<Rightarrow> ('u, 'v) RuntimeStateStore \<Rightarrow> ('u, 'v) RuntimeStateStore" where
  "mark_running session_id message_id st = store_update session_id (\<lambda>s.
     s\<lparr>rt_run_status := RsRunning, rt_current_message_id := message_id, rt_interrupt := interrupt_default\<rparr>) st"

definition mark_blocked :: "string \<Rightarrow> ('u, 'v) RuntimeStateStore \<Rightarrow> ('u, 'v) RuntimeStateStore" where
  "mark_blocked session_id st = store_update session_id (\<lambda>s. s\<lparr>rt_run_status := RsBlocked\<rparr>) st"

definition mark_sleeping :: "string \<Rightarrow> ('u, 'v) RuntimeStateStore \<Rightarrow> ('u, 'v) RuntimeStateStore" where
  "mark_sleeping session_id st = store_update session_id (\<lambda>s. s\<lparr>rt_run_status := RsSleeping\<rparr>) st"

definition mark_compacting :: "string \<Rightarrow> ('u, 'v) RuntimeStateStore \<Rightarrow> ('u, 'v) RuntimeStateStore" where
  "mark_compacting session_id st = store_update session_id (\<lambda>s.
     s\<lparr>rt_run_status := RsCompacting, rt_interrupt := interrupt_default\<rparr>) st"

definition mark_idle :: "string \<Rightarrow> ('u, 'v) RuntimeStateStore \<Rightarrow> ('u, 'v) RuntimeStateStore" where
  "mark_idle session_id st = store_update session_id (\<lambda>s.
     s\<lparr>rt_run_status := RsIdle, rt_current_message_id := None, rt_active_tools := [],
       rt_active_stage_id := None, rt_active_stage_count := 0, rt_pending_question := None,
       rt_pending_permission := None, rt_interrupt := interrupt_default\<rparr>) st"

definition tool_started :: "i64 \<Rightarrow> string \<Rightarrow> string \<Rightarrow> string \<Rightarrow> ('u, 'v) RuntimeStateStore \<Rightarrow> ('u, 'v) RuntimeStateStore" where
  "tool_started now session_id tool_call_id tool_name st = store_update session_id (\<lambda>s.
     s\<lparr>rt_run_status := RsWaitingOnTool,
       rt_active_tools := rt_active_tools s @
         [\<lparr>at_tool_call_id = tool_call_id, at_tool_name = tool_name, at_started_at = now\<rparr>]\<rparr>) st"

definition tool_ended :: "string \<Rightarrow> string \<Rightarrow> ('u, 'v) RuntimeStateStore \<Rightarrow> ('u, 'v) RuntimeStateStore" where
  "tool_ended session_id tool_call_id st = store_update session_id (\<lambda>s.
     let tools = filter (\<lambda>t. at_tool_call_id t \<noteq> tool_call_id) (rt_active_tools s)
     in s\<lparr>rt_active_tools := tools,
          rt_run_status := (if tools = [] \<and> rt_run_status s = RsWaitingOnTool then RsRunning else rt_run_status s)\<rparr>) st"

definition refine_summary :: "SandboxExecutionSummary \<Rightarrow> SandboxExecutionSummary \<Rightarrow> SandboxExecutionSummary" where
  "refine_summary summary existing = existing\<lparr>
     xs_backend := (if xs_backend summary \<noteq> [] then xs_backend summary else xs_backend existing),
     xs_profile_kind := (if xs_profile_kind summary \<noteq> [] then xs_profile_kind summary else xs_profile_kind existing),
     xs_plan_fingerprint := (if xs_plan_fingerprint summary \<noteq> [] then xs_plan_fingerprint summary
                             else xs_plan_fingerprint existing),
     xs_pid := (if xs_pid summary \<noteq> None then xs_pid summary else xs_pid existing)\<rparr>"

text \<open>The first entry with the id is refined; without one the summary is added at the end.\<close>

definition upsert_summary :: "SandboxExecutionSummary \<Rightarrow> SandboxExecutionSummary list \<Rightarrow> SandboxExecutionSummary list" where
  "upsert_summary summary xs =
     (if list_ex (\<lambda>e. xs_execution_id e = xs_execution_id summary) xs
      then update_first (\<lambda>e. xs_execution_id e = xs_execution_id summary) (refine_summary summary) xs
      else xs @ [summary])"

definition sandbox_execution_upsert ::
    "string \<Rightarrow> SandboxExecutionSummary \<Rightarrow> ('u, 'v) RuntimeStateStore \<Rightarrow> ('u, 'v) RuntimeStateStore" where
  "sandbox_execution_upsert session_id summary st =
     (if xs_execution_id summary = [] then st
      else store_update session_id (\<lambda>s.
        s\<lparr>rt_active_sandbox := upsert_summary summary (rt_active_sandbox s)\<rparr>) st)"

definition sandbox_execution_removed :: "string \<Rightarrow> string \<Rightarrow> ('u, 'v) RuntimeStateStore \<Rightarrow> ('u, 'v) RuntimeStateStore" where
  "sandbox_execution_removed session_id execution_id st = store_update session_id (\<lambda>s.
     s\<lparr>rt_active_sandbox := filter (\<lambda>e. xs_execution_id e \<noteq> execution_id) (rt_active_sandbox s)\<rparr>) st"

definition question_created :: "string \<Rightarrow> string \<Rightarrow> 'v \<Rightarrow> ('u, 'v) RuntimeStateStore \<Rightarrow> ('u, 'v) RuntimeStateStore" where
  "question_created session_id request_id questions st = store_update session_id (\<lambda>s.
     s\<lparr>rt_run_status := RsWaitingOnUser,
       rt_pending_question := Some \<lparr>pq_request_id = request_id, pq_questions = questions\<rparr>\<rparr>) st"

definition set_usage :: "string \<Rightarrow> 'u \<Rightarrow> ('u, 'v) RuntimeStateStore \<Rightarrow> ('u, 'v) RuntimeStateStore" where
  "set_usage session_id usage st = store_update session_id (\<lambda>s. s\<lparr>rt_usage := Some usage\<rparr>) st"

definition question_resolved :: "string \<Rightarrow> ('u, 'v) RuntimeStateStore \<Rightarrow> ('u, 'v) RuntimeStateStore" where
  "question_resolved session_id st = store_update session_id (\<lambda>s.
     s\<lparr>rt_pending_question := None,
       rt_run_status := (if rt_run_status s = RsWaitingOnUser \<and> rt_pending_permission s = None
                         then RsRunning else rt_run_status s)\<rparr>) st"

section \<open>What holds of every reachable state\<close>

text \<open>
  The fields fit the status: a session that waits has something to wait for, a cancelling one has a
  recorded interrupt, and an idle one has no trace of a run. Sandboxed executions are identified.
\<close>

definition runtime_ok :: "('u, 'v) SessionRuntimeState \<Rightarrow> bool" where
  "runtime_ok s \<longleftrightarrow>
     (case rt_run_status s of
        RsWaitingOnUser \<Rightarrow> rt_pending_question s \<noteq> None \<or> rt_pending_permission s \<noteq> None
      | RsWaitingOnTool \<Rightarrow> rt_active_tools s \<noteq> []
      | RsCancelling \<Rightarrow> ir_phase (rt_interrupt s) = IpRequested
      | RsIdle \<Rightarrow> rt_current_message_id s = None \<and> rt_active_tools s = [] \<and> rt_pending_question s = None \<and>
          rt_pending_permission s = None \<and> rt_interrupt s = interrupt_default
      | _ \<Rightarrow> True) \<and>
     (ir_phase (rt_interrupt s) = IpRequested \<longleftrightarrow> ir_target (rt_interrupt s) \<noteq> None) \<and>
     (ir_requested_at (rt_interrupt s) = None \<longleftrightarrow> ir_target (rt_interrupt s) = None) \<and>
     distinct (map xs_execution_id (rt_active_sandbox s)) \<and> [] \<notin> xs_execution_id ` set (rt_active_sandbox s)"

datatype ('u, 'v) state_op =
    OpRemove
  | OpProtocol RuntimeProtocolUpdate
  | OpRunning "string option" | OpBlocked | OpSleeping | OpCompacting | OpIdle
  | OpToolStarted i64 string string | OpToolEnded string
  | OpSandboxUpsert SandboxExecutionSummary | OpSandboxRemoved string
  | OpQuestionCreated string 'v | OpQuestionResolved | OpSetUsage 'u

fun state_step :: "string \<times> ('u, 'v) state_op \<Rightarrow> ('u, 'v) RuntimeStateStore \<Rightarrow> ('u, 'v) RuntimeStateStore" where
  "state_step (sid, OpRemove) = store_remove sid"
| "state_step (sid, OpProtocol u) = apply_protocol_update sid u"
| "state_step (sid, OpRunning m) = mark_running sid m"
| "state_step (sid, OpBlocked) = mark_blocked sid"
| "state_step (sid, OpSleeping) = mark_sleeping sid"
| "state_step (sid, OpCompacting) = mark_compacting sid"
| "state_step (sid, OpIdle) = mark_idle sid"
| "state_step (sid, OpToolStarted now c n) = tool_started now sid c n"
| "state_step (sid, OpToolEnded c) = tool_ended sid c"
| "state_step (sid, OpSandboxUpsert x) = sandbox_execution_upsert sid x"
| "state_step (sid, OpSandboxRemoved i) = sandbox_execution_removed sid i"
| "state_step (sid, OpQuestionCreated r q) = question_created sid r q"
| "state_step (sid, OpQuestionResolved) = question_resolved sid"
| "state_step (sid, OpSetUsage u) = set_usage sid u"

definition store_states_ok :: "('u, 'v) RuntimeStateStore \<Rightarrow> bool" where
  "store_states_ok st \<longleftrightarrow> (\<forall>sid s. st sid = Some s \<longrightarrow> rt_session_id s = sid \<and> runtime_ok s)"

lemma runtime_state_new_ok [simp]: "runtime_ok (runtime_state_new sid)"
  by (simp add: runtime_ok_def runtime_state_new_def interrupt_default_def)

lemma runtime_state_new_session [simp]: "rt_session_id (runtime_state_new sid) = sid"
  by (simp add: runtime_state_new_def)

lemma store_update_ok:
  assumes "store_states_ok st"
    and "\<And>s. rt_session_id s = sid \<Longrightarrow> runtime_ok s \<Longrightarrow> rt_session_id (f s) = sid \<and> runtime_ok (f s)"
  shows "store_states_ok (store_update sid f st)"
  using assms
  by (auto simp: store_states_ok_def store_update_def split: option.splits)

lemma update_first_ids:
  "map xs_execution_id (update_first P (refine_summary x) xs) = map xs_execution_id xs"
  by (induction xs) (auto simp: refine_summary_def)

lemma upsert_summary_ids:
  "map xs_execution_id (upsert_summary x xs) =
     (if xs_execution_id x \<in> xs_execution_id ` set xs then map xs_execution_id xs
      else map xs_execution_id xs @ [xs_execution_id x])"
  by (auto simp: upsert_summary_def update_first_ids list_ex_iff image_iff) metis

lemma upsert_summary_ok:
  assumes "distinct (map xs_execution_id xs)" "[] \<notin> xs_execution_id ` set xs" "xs_execution_id x \<noteq> []"
  shows "distinct (map xs_execution_id (upsert_summary x xs))" "[] \<notin> xs_execution_id ` set (upsert_summary x xs)"
proof -
  have "distinct (map xs_execution_id (upsert_summary x xs)) \<and> [] \<notin> set (map xs_execution_id (upsert_summary x xs))"
    unfolding upsert_summary_ids using assms by auto
  then show "distinct (map xs_execution_id (upsert_summary x xs))" "[] \<notin> xs_execution_id ` set (upsert_summary x xs)"
    by simp_all
qed

lemma protocol_update_ok: "runtime_ok s \<Longrightarrow> runtime_ok (protocol_update u s)"
  by (cases u) (auto simp: runtime_ok_def resolve_permission_def control_input_def
      split: RunStatus.splits ControlInputKind.splits ControlInputPhase.splits)

lemma protocol_update_session [simp]: "rt_session_id (protocol_update u s) = rt_session_id s"
  by (cases u) (auto simp: resolve_permission_def control_input_def
      split: ControlInputKind.splits ControlInputPhase.splits)

lemmas state_op_defs = store_remove_def apply_protocol_update_def mark_running_def mark_blocked_def mark_sleeping_def
  mark_compacting_def mark_idle_def tool_started_def tool_ended_def sandbox_execution_upsert_def
  sandbox_execution_removed_def question_created_def question_resolved_def set_usage_def

lemma state_step_ok:
  assumes "store_states_ok st"
  shows "store_states_ok (state_step op st)"
proof (cases op)
  case (Pair sid o')
  show ?thesis
  proof (cases o')
    case OpRemove
    then show ?thesis using assms Pair by (auto simp: store_states_ok_def store_remove_def)
  next
    case (OpProtocol u)
    then show ?thesis using assms Pair by (simp add: apply_protocol_update_def store_update_ok protocol_update_ok)
  next
    case (OpSandboxUpsert x)
    then show ?thesis using assms Pair
      by (auto simp: sandbox_execution_upsert_def runtime_ok_def upsert_summary_ok intro!: store_update_ok cong: RunStatus.case_cong)
  next
    case (OpSandboxRemoved i)
    then show ?thesis using assms Pair
      by (auto simp: sandbox_execution_removed_def runtime_ok_def distinct_map_filter intro!: store_update_ok cong: RunStatus.case_cong)
  next
    case (OpToolEnded c)
    have "runtime_ok s \<Longrightarrow> runtime_ok (let tools = filter (\<lambda>t. at_tool_call_id t \<noteq> c) (rt_active_tools s)
       in s\<lparr>rt_active_tools := tools,
          rt_run_status := (if tools = [] \<and> rt_run_status s = RsWaitingOnTool then RsRunning else rt_run_status s)\<rparr>)"
      for s :: "('a, 'b) SessionRuntimeState"
      by (cases "rt_run_status s") (auto simp: runtime_ok_def interrupt_default_def Let_def)
    then show ?thesis using assms Pair OpToolEnded by (simp add: tool_ended_def Let_def store_update_ok)
  next
    case OpQuestionResolved
    have "runtime_ok s \<Longrightarrow> runtime_ok (s\<lparr>rt_pending_question := None,
       rt_run_status := (if rt_run_status s = RsWaitingOnUser \<and> rt_pending_permission s = None
                         then RsRunning else rt_run_status s)\<rparr>)" for s :: "('a, 'b) SessionRuntimeState"
      by (cases "rt_run_status s") (auto simp: runtime_ok_def interrupt_default_def)
    then show ?thesis using assms Pair OpQuestionResolved by (simp add: question_resolved_def store_update_ok)
  qed (use assms Pair in \<open>auto simp: state_op_defs runtime_ok_def interrupt_default_def intro!: store_update_ok
      cong: RunStatus.case_cong\<close>)
qed

text \<open>
  \<^bold>\<open>Note.\<close> Whatever operations the tasks of the server interleave, the state shown for a session is
  coherent: it belongs to the session, who waits for the user has an open question or permission, who
  waits for a tool has an active tool, a cancelling session has its interrupt recorded, an idle one has
  no message, tool, question, permission or interrupt left, and no sandboxed execution is listed twice.
\<close>

theorem runtime_state_coherent:
  assumes "fold state_step ops Map.empty sid = Some s"
  shows "rt_session_id s = sid \<and> runtime_ok s"
proof -
  have "store_states_ok (fold state_step ops st)" if "store_states_ok st" for st
    using that by (induction ops arbitrary: st) (simp_all add: state_step_ok)
  moreover have "store_states_ok Map.empty" by (simp add: store_states_ok_def)
  ultimately have "store_states_ok (fold state_step ops Map.empty)" by blast
  then show ?thesis using assms by (simp add: store_states_ok_def)
qed


theorem runtime_state_coherent_witness:
  "\<exists>s :: (unit, unit) SessionRuntimeState. fold state_step [(''s'', OpRunning None), (''s'', OpQuestionCreated ''q'' ()),
       (''s'', OpToolStarted 1 ''c'' ''bash''), (''s'', OpQuestionResolved)] Map.empty ''s'' = Some s \<and>
     runtime_ok s \<and> rt_run_status s = RsWaitingOnTool"
proof -
  define ops :: "(string \<times> (unit, unit) state_op) list" where
    "ops = [(''s'', OpRunning None), (''s'', OpQuestionCreated ''q'' ()), (''s'', OpToolStarted 1 ''c'' ''bash''),
       (''s'', OpQuestionResolved)]"
  have "map_option rt_run_status (fold state_step ops Map.empty ''s'') = Some RsWaitingOnTool"
    unfolding ops_def by code_simp
  then obtain s where s: "fold state_step ops Map.empty ''s'' = Some s" "rt_run_status s = RsWaitingOnTool" by auto
  then show ?thesis using runtime_state_coherent [OF s(1)] unfolding ops_def by blast
qed

end
