(* ===== verification/Sandbox_Projection.thy ===== *)
theory Sandbox_Projection
  imports Sandbox_Launch_Properties Runtime_State
begin

text \<open>
  From sandbox events to what a session shows: the sink that turns the events of the launcher into server
  events (\<open>agendao-server/src/sandbox_authority.rs\<close>) and their projection into the active executions of
  the session's runtime state and into front-end events
  (\<open>agendao-server/src/session_runtime/frontend_projection.rs\<close>).
\<close>

datatype sandbox_server_event =
    SandboxPrepared "string option" string string string string
  | SandboxStarted "string option" string "nat option" string
  | SandboxDenied "string option" string string "string option"
  | SandboxViolationReported "string option" string SandboxViolation
  | SandboxExited "string option" string string "int option" bool string

fun profile_kind_wire :: "ProfileKind \<Rightarrow> string" where
  "profile_kind_wire PkWorkspaceWrite = ''workspace_write''"
| "profile_kind_wire PkCheck = ''check''"
| "profile_kind_wire PkInteractiveShell = ''interactive_shell''"
| "profile_kind_wire PkIntegration = ''integration''"
| "profile_kind_wire PkNative = ''native''"

fun denial_wire :: "DenialReason \<Rightarrow> string option \<Rightarrow> string \<times> string option" where
  "denial_wire DrInvalidRequest detail = (''invalid_request'', detail)"
| "denial_wire DrPolicyDenied detail = (''policy_denied'', detail)"
| "denial_wire DrPlanFailed detail = (''plan_failed'', detail)"
| "denial_wire DrEnvironmentRejected detail = (''environment_rejected'', detail)"
| "denial_wire (DrBackendUnavailable capability) detail =
     (''backend_unavailable'', Some (case detail of Some d \<Rightarrow> d | None \<Rightarrow> capability))"
| "denial_wire DrSpawnFailed detail = (''spawn_failed'', detail)"

fun cleanup_wire :: "CleanupStatus \<Rightarrow> string" where
  "cleanup_wire NaturalExit = ''natural_exit''"
| "cleanup_wire TerminatedByRequest = ''terminated_by_request''"
| "cleanup_wire KilledAfterGrace = ''killed_after_grace''"
| "cleanup_wire TimedOut = ''timed_out''"

fun record_event :: "SandboxEvent \<Rightarrow> sandbox_server_event" where
  "record_event (EvPrepared i origin kind _ _ _ fingerprint backend) =
     SandboxPrepared origin i (profile_kind_wire kind) fingerprint backend"
| "record_event (EvStarted i origin pid backend) = SandboxStarted origin i pid backend"
| "record_event (EvDenied i origin reason detail) =
     (case denial_wire reason detail of (reason, detail) \<Rightarrow> SandboxDenied origin i reason detail)"
| "record_event (EvViolation v) = SandboxViolationReported (vi_session_origin v) (vi_execution_id v) v"
| "record_event (EvExited i origin status backend) =
     SandboxExited origin i backend (bx_code (sx_exit status)) (bx_success (sx_exit status)) (cleanup_wire (sx_cleanup status))"

section \<open>Projection\<close>

record SandboxOutcomeSummary =
  so_kind :: string
  so_exit_code :: "int option"
  so_success :: bool
  so_cleanup :: "string option"
  so_reason :: "string option"

datatype sandbox_frontend_event =
    SandboxExecutionUpsert string SandboxExecutionSummary
  | SandboxExecutionRemoved string string SandboxOutcomeSummary

fun project_sandbox ::
    "sandbox_server_event \<Rightarrow> ('u, 'v) RuntimeStateStore \<Rightarrow> sandbox_frontend_event list \<times> ('u, 'v) RuntimeStateStore" where
  "project_sandbox (SandboxPrepared (Some sid) i profile_kind fingerprint backend) st =
     (let execution = \<lparr>xs_execution_id = i, xs_backend = backend, xs_profile_kind = profile_kind,
            xs_plan_fingerprint = fingerprint, xs_pid = None\<rparr>
      in ([SandboxExecutionUpsert sid execution], sandbox_execution_upsert sid execution st))"
| "project_sandbox (SandboxStarted (Some sid) i pid backend) st =
     (let st = sandbox_execution_upsert sid \<lparr>xs_execution_id = i, xs_backend = backend, xs_profile_kind = [],
            xs_plan_fingerprint = [], xs_pid = pid\<rparr> st
      in (case Option.bind (st sid) (\<lambda>rt. find (\<lambda>e. xs_execution_id e = i) (rt_active_sandbox rt)) of
            Some execution \<Rightarrow> [SandboxExecutionUpsert sid execution]
          | None \<Rightarrow> [],
          st))"
| "project_sandbox (SandboxDenied (Some sid) i reason detail) st =
     ([SandboxExecutionRemoved sid i \<lparr>so_kind = ''denied'', so_exit_code = None, so_success = False, so_cleanup = None,
         so_reason = Some (case detail of Some d \<Rightarrow> reason @ '': '' @ d | None \<Rightarrow> reason)\<rparr>],
      sandbox_execution_removed sid i st)"
| "project_sandbox (SandboxExited (Some sid) i backend exit_code success cleanup) st =
     ([SandboxExecutionRemoved sid i \<lparr>so_kind = ''exited'', so_exit_code = exit_code, so_success = success,
         so_cleanup = Some cleanup, so_reason = None\<rparr>],
      sandbox_execution_removed sid i st)"
| "project_sandbox _ st = ([], st)"

fun project_all ::
    "SandboxEvent list \<Rightarrow> ('u, 'v) RuntimeStateStore \<Rightarrow> sandbox_frontend_event list \<times> ('u, 'v) RuntimeStateStore" where
  "project_all [] st = ([], st)"
| "project_all (ev # evs) st =
     (case project_sandbox (record_event ev) st of (out, st) \<Rightarrow>
      case project_all evs st of (out', st') \<Rightarrow> (out @ out', st'))"

section \<open>The shown executions are the live ones\<close>

text \<open>
  The abstract view: an execution of a session is live when the last of its events, violations apart, is
  neither a denial nor an exit.
\<close>

definition origin :: "SandboxEvent \<Rightarrow> string option" where
  "origin ev = (case ev of EvPrepared _ o' _ _ _ _ _ _ \<Rightarrow> o' | EvStarted _ o' _ _ \<Rightarrow> o' | EvDenied _ o' _ _ \<Rightarrow> o'
     | EvViolation v \<Rightarrow> vi_session_origin v | EvExited _ o' _ _ \<Rightarrow> o')"

definition starts :: "SandboxEvent \<Rightarrow> bool" where
  "starts ev = (case ev of EvPrepared _ _ _ _ _ _ _ _ \<Rightarrow> True | EvStarted _ _ _ _ \<Rightarrow> True | _ \<Rightarrow> False)"

definition violates :: "SandboxEvent \<Rightarrow> bool" where
  "violates ev = (case ev of EvViolation _ \<Rightarrow> True | _ \<Rightarrow> False)"

definition live :: "string \<Rightarrow> SandboxEvent list \<Rightarrow> string \<Rightarrow> bool" where
  "live sid evs i \<longleftrightarrow>
     (let own = filter (\<lambda>ev. origin ev = Some sid \<and> event_execution_id ev = i \<and> \<not> violates ev) evs
      in i \<noteq> [] \<and> own \<noteq> [] \<and> starts (last own))"

definition shown :: "string \<Rightarrow> ('u, 'v) RuntimeStateStore \<Rightarrow> SandboxExecutionSummary list" where
  "shown sid st = (case st sid of Some rt \<Rightarrow> rt_active_sandbox rt | None \<Rightarrow> [])"

lemma live_snoc:
  "live sid (evs @ [ev]) i \<longleftrightarrow>
     (if origin ev = Some sid \<and> event_execution_id ev = i \<and> \<not> violates ev then i \<noteq> [] \<and> starts ev else live sid evs i)"
  by (auto simp: live_def Let_def)

lemma shown_upsert:
  "shown sid (sandbox_execution_upsert sid' x st) =
     (if sid = sid' \<and> xs_execution_id x \<noteq> [] then upsert_summary x (shown sid st) else shown sid st)"
  by (auto simp: shown_def sandbox_execution_upsert_def store_update_def runtime_state_new_def split: option.split)

lemma shown_removed:
  "shown sid (sandbox_execution_removed sid' i st) =
     (if sid = sid' then filter (\<lambda>e. xs_execution_id e \<noteq> i) (shown sid st) else shown sid st)"
  by (auto simp: shown_def sandbox_execution_removed_def store_update_def runtime_state_new_def split: option.split)

lemma project_all_append:
  "project_all (evs @ evs') st =
     (case project_all evs st of (out, st) \<Rightarrow> case project_all evs' st of (out', st') \<Rightarrow> (out @ out', st'))"
  by (induction evs arbitrary: st) (auto split: prod.split)

lemma snd_project_append: "snd (project_all (evs @ evs') st) = snd (project_all evs' (snd (project_all evs st)))"
  by (simp add: project_all_append split: prod.split)

lemma upsert_summary_set:
  "xs_execution_id ` set (upsert_summary x xs) = insert (xs_execution_id x) (xs_execution_id ` set xs)"
  using arg_cong [OF upsert_summary_ids [of x xs], of set] by (auto split: if_splits)

lemma project_shown:
  "xs_execution_id ` set (shown sid (snd (project_sandbox (record_event ev) st))) =
     (let ids = xs_execution_id ` set (shown sid st); i = event_execution_id ev
      in if origin ev \<noteq> Some sid \<or> violates ev then ids
         else if starts ev then (if i = [] then ids else insert i ids) else ids - {i})"
proof (cases ev)
  case (EvPrepared i org k pm fm nm f b)
  then show ?thesis by (cases org) (auto simp: Let_def origin_def starts_def violates_def shown_upsert upsert_summary_set)
next
  case (EvStarted i org pid b)
  then show ?thesis by (cases org) (auto simp: Let_def origin_def starts_def violates_def shown_upsert upsert_summary_set)
next
  case (EvDenied i org r d)
  then show ?thesis
    by (cases org) (auto simp: Let_def origin_def starts_def violates_def shown_removed split: prod.split)
next
  case (EvViolation v)
  then show ?thesis by (simp add: origin_def violates_def)
next
  case (EvExited i org st b)
  then show ?thesis by (cases org) (auto simp: Let_def origin_def starts_def violates_def shown_removed)
qed

text \<open>
  \<^bold>\<open>C25.\<close> Whatever the executions of a server do and however their events interleave, the executions a
  session shows as active are exactly its live ones: prepared or started, and neither denied nor exited
  since. Events of other sessions change nothing.
\<close>

theorem shown_executions_are_live:
  "xs_execution_id ` set (shown sid (snd (project_all evs Map.empty))) = {i. live sid evs i}"
proof (induction evs rule: rev_induct)
  case Nil
  then show ?case by (simp add: shown_def live_def)
next
  case (snoc ev evs)
  have "snd (project_all (evs @ [ev]) Map.empty) =
      (snd (project_sandbox (record_event ev) (snd (project_all evs Map.empty))) :: ('a, 'b) RuntimeStateStore)"
    unfolding snd_project_append by (simp split: prod.split)
  then show ?case
    by (simp only: project_shown snoc.IH live_snoc Let_def) (auto simp: live_def)
qed


section \<open>A run as its session sees it\<close>

lemma finish_or_events:
  assumes "finish_or h env waited cleanup = (r, h', evs)"
  shows "evs = [] \<or> h' = h\<lparr>sh_finished := True\<rparr> \<and>
     (\<exists>vs status. evs = vs @ [EvExited (pl_execution_id (sh_plan h)) (pl_session_origin (sh_plan h)) status (sh_backend h)] \<and>
        list_all violates vs)"
  using assms
  by (auto simp: finish_or_def finish_def record_exit_violation_def record_verified_violation_def violation_event_def
      violates_def Let_def split: sum.splits option.splits if_splits)

lemma handle_step_events:
  assumes "handle_step op h env = (r, h', evs)"
  shows "(evs = [] \<and> (h' = h \<or> h' = h\<lparr>sh_finished := True\<rparr>)) \<or> h' = h\<lparr>sh_finished := True\<rparr> \<and>
     (\<exists>vs status. evs = vs @ [EvExited (pl_execution_id (sh_plan h)) (pl_session_origin (sh_plan h)) status (sh_backend h)] \<and>
        list_all violates vs)"
proof -
  have "(r, h', evs) = (Inl AlreadyFinished, h, []) \<or> (\<exists>e. r = Inl e \<and> h' = h \<and> evs = []) \<or>
      (\<exists>waited cleanup. finish_or h env waited cleanup = (r, h', evs))"
    using assms terminate_cases [of h env _ r h' evs]
    by (cases op) (auto simp: handle_wait_def cancel_def cancel_timeout_def wait_with_timeout_def split: if_splits option.splits)
  then show ?thesis using finish_or_events [of h env _ _ r h' evs] handle_step_cases [OF assms] by auto
qed

lemma handle_run_events:
  assumes "handle_run h ops = (rs, evs)" and "evs \<noteq> []"
  shows "\<exists>vs status. evs = vs @ [EvExited (pl_execution_id (sh_plan h)) (pl_session_origin (sh_plan h)) status (sh_backend h)] \<and>
     list_all violates vs"
  using assms
proof (induction ops arbitrary: h rs evs)
  case (Cons oe ops)
  obtain op env where oe: "oe = (op, env)" by (cases oe)
  obtain r h' evs1 where step: "handle_step op h env = (r, h', evs1)" by (metis prod_cases3)
  obtain rs' evs2 where rest: "handle_run h' ops = (rs', evs2)" by (metis surj_pair)
  have evs: "evs = evs1 @ evs2" using Cons.prems(1) oe step rest by auto
  from handle_step_events [OF step] show ?case
  proof (elim disjE conjE)
    assume "evs1 = []" "h' = h"
    then show ?thesis using Cons.IH [OF rest] Cons.prems(2) evs by auto
  next
    assume "evs1 = []" "h' = h\<lparr>sh_finished := True\<rparr>"
    then show ?thesis using handle_run_finished [OF _ rest] Cons.prems(2) evs by simp
  next
    assume "h' = h\<lparr>sh_finished := True\<rparr>" and shape: "\<exists>vs status. evs1 = vs @ [EvExited (pl_execution_id (sh_plan h))
      (pl_session_origin (sh_plan h)) status (sh_backend h)] \<and> list_all violates vs"
    then have "evs2 = []" using handle_run_finished [OF _ rest] by simp
    then show ?thesis using shape evs by simp
  qed
qed simp

lemma project_violations: "list_all violates vs \<Longrightarrow> snd (project_all vs st) = st"
proof (induction vs arbitrary: st)
  case (Cons v vs)
  then obtain w where "v = EvViolation w" by (cases v) (auto simp: violates_def)
  then show ?case using Cons by (simp split: prod.split)
qed simp

lemma prepare_identity:
  assumes "prepare self request inputs options i = (Inr p, evs)"
  shows "pl_execution_id (pe_plan p) = i" "pl_session_origin (pe_plan p) = rq_session_origin request"
    "pl_requested_kind (pe_plan p) = rq_profile_kind request"
proof -
  obtain env where "plan_and_env self request inputs options i = Inr (pe_plan p, env)"
    using prepare_Inr [OF assms] by metis
  from plan_and_envD [OF this] obtain profile where "build_plan (la_fs self) (la_fingerprint_of self) profile
      (rq_profile_kind request) (rq_workspace_root request)
       \<lparr>cx_execution_id = i, cx_session_origin = rq_session_origin request,
        cx_extra_writable_roots = po_extra_writable_roots options,
        cx_extra_read_only_roots = po_authority_read_only_roots options,
        cx_term_grace = po_term_grace options\<rparr> = Inr (pe_plan p)" by metis
  then show "pl_execution_id (pe_plan p) = i" "pl_session_origin (pe_plan p) = rq_session_origin request"
    "pl_requested_kind (pe_plan p) = rq_profile_kind request"
    using build_planD(2-4) by fastforce+
qed

lemma update_first_snoc:
  "\<forall>x\<in>set xs. \<not> P x \<Longrightarrow> P y \<Longrightarrow> update_first P f (xs @ [y]) = xs @ [f y]"
  by (induction xs) auto




end
