(* ===== verification/Telemetry.thy ===== *)
theory Telemetry
  imports Runtime_State Runtime_Properties
begin

text \<open>
  The authority that keeps the registry of executions and the shown state of the sessions in step and
  announces changes (\<open>agendao-server/src/session_runtime/telemetry.rs\<close>). Each operation is the sequence
  of its calls into the two stores, followed by the events it emits; the topology events of the registry
  are its own \<open>notified\<close> list.

  \<^item> \<open>to_value\<close> serialises questions for the state; statuses and answers are kept unserialised in events.
  \<^item> \<open>now\<close> and \<open>clock\<close> are readings of the clock.
  \<^item> Operations happen one after another: what another task does between two calls of the same operation is
    not modelled.
\<close>

datatype QuestionResolutionKind = ResAnswered | ResRejected | ResCancelled

datatype 'v telemetry_event =
    EmSessionStatus string SessionRunStatus
  | EmQuestionCreated string string "QuestionItemInfo list"
  | EmQuestionResolved string string QuestionResolutionKind "string list list option" "string option"
  | EmPermissionRequested string string 'v
  | EmPermissionResolved string string string "string option"
  | EmControlInputTransition string ControlInputKind ControlInputPhase i64
  | EmUsage string u64 u64 "string option"

record ('u, 'v, 't, 'c) RuntimeTelemetryAuthority =
  tm_state :: "('u, 'v) RuntimeStateStore"
  tm_control :: "('v, 't, 'c) RuntimeControlRegistry"
  tm_emitted :: "'v telemetry_event list"

definition telemetry_new :: "('u, 'v, 't, 'c) RuntimeTelemetryAuthority" where
  "telemetry_new = \<lparr>tm_state = Map.empty, tm_control = with_topology_callback, tm_emitted = []\<rparr>"

definition emit_event :: "'v telemetry_event \<Rightarrow> ('u, 'v, 't, 'c) RuntimeTelemetryAuthority \<Rightarrow> ('u, 'v, 't, 'c) RuntimeTelemetryAuthority" where
  "emit_event ev tm = tm\<lparr>tm_emitted := tm_emitted tm @ [ev]\<rparr>"

definition on_state ::
    "(('u, 'v) RuntimeStateStore \<Rightarrow> ('u, 'v) RuntimeStateStore)
       \<Rightarrow> ('u, 'v, 't, 'c) RuntimeTelemetryAuthority \<Rightarrow> ('u, 'v, 't, 'c) RuntimeTelemetryAuthority" where
  "on_state f tm = tm\<lparr>tm_state := f (tm_state tm)\<rparr>"

definition emit_control_input_transition ::
    "string \<Rightarrow> ControlInputKind \<Rightarrow> ControlInputPhase \<Rightarrow> i64
       \<Rightarrow> ('u, 'v, 't, 'c) RuntimeTelemetryAuthority \<Rightarrow> ('u, 'v, 't, 'c) RuntimeTelemetryAuthority" where
  "emit_control_input_transition sid kind phase at tm =
     emit_event (EmControlInputTransition sid kind phase at)
       (on_state (apply_protocol_update sid (ControlInputTransition kind phase at)) tm)"

section \<open>Run status\<close>

fun show_status :: "string \<Rightarrow> SessionRunStatus \<Rightarrow> ('u, 'v) RuntimeStateStore \<Rightarrow> ('u, 'v) RuntimeStateStore" where
  "show_status sid RunBusy = mark_running sid None"
| "show_status sid RunCompacting = mark_compacting sid"
| "show_status sid RunIdle = mark_idle sid"
| "show_status sid (RunRetry _ _ _) = mark_running sid None"
| "show_status sid (RunBlocked _ _) = mark_blocked sid"
| "show_status sid (RunSleeping _ _) = mark_sleeping sid"

definition tm_set_session_run_status ::
    "'v json_api \<Rightarrow> (nat \<Rightarrow> i64) \<Rightarrow> string \<Rightarrow> SessionRunStatus
       \<Rightarrow> ('u, 'v, 't, 'c) RuntimeTelemetryAuthority \<Rightarrow> ('u, 'v, 't, 'c) RuntimeTelemetryAuthority" where
  "tm_set_session_run_status js clock sid status tm =
     (if session_run_status js sid (tm_control tm) = status then tm
      else emit_event (EmSessionStatus sid status)
             (on_state (show_status sid status)
                (tm\<lparr>tm_control := set_session_run_status js clock sid status (tm_control tm)\<rparr>)))"

definition recheck_session ::
    "'v json_api \<Rightarrow> (nat \<Rightarrow> i64) \<Rightarrow> i64 \<Rightarrow> string \<Rightarrow> ('u, 'v, 't, 'c) RuntimeTelemetryAuthority
       \<Rightarrow> SessionRunStatus option \<times> ('u, 'v, 't, 'c) RuntimeTelemetryAuthority" where
  "recheck_session js clock now sid tm =
     (case session_run_status js sid (tm_control tm) of
        RunBlocked _ recheck_at \<Rightarrow>
          if (case recheck_at of None \<Rightarrow> True | Some ts \<Rightarrow> now \<ge> ts)
          then (Some RunIdle, tm_set_session_run_status js clock sid RunIdle tm) else (None, tm)
      | _ \<Rightarrow> (None, tm))"

definition wake_session ::
    "'v json_api \<Rightarrow> (nat \<Rightarrow> i64) \<Rightarrow> i64 \<Rightarrow> string \<Rightarrow> ('u, 'v, 't, 'c) RuntimeTelemetryAuthority
       \<Rightarrow> SessionRunStatus option \<times> ('u, 'v, 't, 'c) RuntimeTelemetryAuthority" where
  "wake_session js clock now sid tm =
     (case session_run_status js sid (tm_control tm) of
        RunSleeping _ wake_at \<Rightarrow>
          if (case wake_at of None \<Rightarrow> True | Some ts \<Rightarrow> now \<ge> ts)
          then (Some RunIdle, tm_set_session_run_status js clock sid RunIdle tm) else (None, tm)
      | _ \<Rightarrow> (None, tm))"

section \<open>Questions and permissions\<close>

definition finish_control_input_wait :: "string \<Rightarrow> ('u, 'v, 't, 'c) RuntimeTelemetryAuthority \<Rightarrow> ('u, 'v, 't, 'c) RuntimeTelemetryAuthority" where
  "finish_control_input_wait sid tm =
     (if has_prompt_run sid (tm_control tm) then tm else on_state (mark_idle sid) tm)"

definition tm_register_question ::
    "'v json_api \<Rightarrow> (nat \<Rightarrow> i64) \<Rightarrow> (QuestionItemInfo list \<Rightarrow> 'v) \<Rightarrow> string \<Rightarrow> 'c \<Rightarrow> string \<Rightarrow> QuestionItemInfo list
       \<Rightarrow> ('u, 'v, 't, 'c) RuntimeTelemetryAuthority
       \<Rightarrow> QuestionInfo \<times> ('u, 'v, 't, 'c) RuntimeTelemetryAuthority" where
  "tm_register_question js clock to_value uuid tx sid questions tm =
     (case register_question js clock uuid tx sid questions (tm_control tm) of
        (info, control) \<Rightarrow>
          (info, emit_event (EmQuestionCreated sid (qn_id info) (qn_items info))
                   (on_state (question_created sid (qn_id info) (to_value questions)) (tm\<lparr>tm_control := control\<rparr>))))"

text \<open>What answering, rejecting and cancelling a question share.\<close>

definition resolve_question ::
    "QuestionInfo option \<times> ('v, 't, 'c) RuntimeControlRegistry \<Rightarrow> (string \<Rightarrow> 'v telemetry_event)
       \<Rightarrow> ('u, 'v, 't, 'c) RuntimeTelemetryAuthority
       \<Rightarrow> QuestionInfo option \<times> ('u, 'v, 't, 'c) RuntimeTelemetryAuthority" where
  "resolve_question settled ev tm =
     (case settled of
        (None, control) \<Rightarrow> (None, tm\<lparr>tm_control := control\<rparr>)
      | (Some info, control) \<Rightarrow>
          let sid = qn_session_id info
          in (Some info, emit_event (ev sid)
                (finish_control_input_wait sid (on_state (question_resolved sid) (tm\<lparr>tm_control := control\<rparr>)))))"

definition tm_answer_question ::
    "'v json_api \<Rightarrow> string \<Rightarrow> string list list \<Rightarrow> ('u, 'v, 't, 'c) RuntimeTelemetryAuthority
       \<Rightarrow> QuestionInfo option \<times> ('u, 'v, 't, 'c) RuntimeTelemetryAuthority" where
  "tm_answer_question js i answers tm = resolve_question (answer_question js i answers (tm_control tm))
     (\<lambda>sid. EmQuestionResolved sid i ResAnswered (Some answers) None) tm"

definition tm_reject_question ::
    "'v json_api \<Rightarrow> string \<Rightarrow> ('u, 'v, 't, 'c) RuntimeTelemetryAuthority
       \<Rightarrow> QuestionInfo option \<times> ('u, 'v, 't, 'c) RuntimeTelemetryAuthority" where
  "tm_reject_question js i tm = resolve_question (reject_question js i (tm_control tm))
     (\<lambda>sid. EmQuestionResolved sid i ResRejected None None) tm"

definition tm_cancel_question ::
    "'v json_api \<Rightarrow> string \<Rightarrow> ('u, 'v, 't, 'c) RuntimeTelemetryAuthority
       \<Rightarrow> QuestionInfo option \<times> ('u, 'v, 't, 'c) RuntimeTelemetryAuthority" where
  "tm_cancel_question js i tm = resolve_question (cancel_question js i (tm_control tm))
     (\<lambda>sid. EmQuestionResolved sid i ResCancelled None (Some ''cancelled'')) tm"

definition tm_cancel_questions_for_session ::
    "'v json_api \<Rightarrow> string \<Rightarrow> ('u, 'v, 't, 'c) RuntimeTelemetryAuthority
       \<Rightarrow> QuestionInfo list \<times> ('u, 'v, 't, 'c) RuntimeTelemetryAuthority" where
  "tm_cancel_questions_for_session js sid tm =
     (case cancel_questions_for_session js sid (tm_control tm) of
        (settled, control) \<Rightarrow>
          let tm = tm\<lparr>tm_control := control\<rparr>;
              tm = (if settled \<noteq> [] then finish_control_input_wait sid (on_state (question_resolved sid) tm) else tm)
          in (settled, fold (\<lambda>q. emit_event (EmQuestionResolved (qn_session_id q) (qn_id q) ResCancelled None
                (Some ''cancelled''))) settled tm))"

definition tm_permission_requested ::
    "'v json_api \<Rightarrow> i64 \<Rightarrow> string \<Rightarrow> string \<Rightarrow> 'v \<Rightarrow> ('u, 'v, 't, 'c) RuntimeTelemetryAuthority \<Rightarrow> ('u, 'v, 't, 'c) RuntimeTelemetryAuthority" where
  "tm_permission_requested js now sid permission_id info tm =
     emit_event (EmPermissionRequested sid permission_id info)
       (emit_control_input_transition sid PermissionInput Queued now
         (on_state (apply_protocol_update sid (PermissionRequested permission_id now
            (Option.bind (js_get js info ''tool'') (js_as_str js)))) tm))"

definition tm_permission_resolved ::
    "i64 \<Rightarrow> string \<Rightarrow> string \<Rightarrow> string \<Rightarrow> string option \<Rightarrow> ('u, 'v, 't, 'c) RuntimeTelemetryAuthority \<Rightarrow> ('u, 'v, 't, 'c) RuntimeTelemetryAuthority" where
  "tm_permission_resolved now sid permission_id reply message tm =
     emit_event (EmPermissionResolved sid permission_id reply message)
       (emit_control_input_transition sid PermissionInput Cleared now
         (emit_control_input_transition sid PermissionInput Consumed now
           (finish_control_input_wait sid (on_state (apply_protocol_update sid PermissionResolved) tm))))"

definition clear_permission_pending :: "i64 \<Rightarrow> string \<Rightarrow> ('u, 'v, 't, 'c) RuntimeTelemetryAuthority \<Rightarrow> ('u, 'v, 't, 'c) RuntimeTelemetryAuthority" where
  "clear_permission_pending now sid tm =
     emit_control_input_transition sid PermissionInput Cleared now
       (finish_control_input_wait sid (on_state (apply_protocol_update sid PermissionResolved) tm))"

section \<open>Other controls\<close>

definition tm_steering_enqueued ::
    "i64 \<Rightarrow> string \<Rightarrow> PendingSteeringMessageSummary \<Rightarrow> ('u, 'v, 't, 'c) RuntimeTelemetryAuthority \<Rightarrow> ('u, 'v, 't, 'c) RuntimeTelemetryAuthority" where
  "tm_steering_enqueued now sid summary tm =
     emit_control_input_transition sid SteeringInput Queued now
       (on_state (apply_protocol_update sid (SteeringEnqueued summary)) tm)"

definition tm_interrupt_requested ::
    "i64 \<Rightarrow> string \<Rightarrow> InterruptTarget \<Rightarrow> ('u, 'v, 't, 'c) RuntimeTelemetryAuthority \<Rightarrow> ('u, 'v, 't, 'c) RuntimeTelemetryAuthority" where
  "tm_interrupt_requested now sid target tm =
     emit_control_input_transition sid Interrupt Queued now
       (on_state (apply_protocol_update sid (InterruptRequested now target)) tm)"

definition record_session_usage ::
    "('u \<Rightarrow> u64) \<Rightarrow> ('u \<Rightarrow> u64) \<Rightarrow> string \<Rightarrow> string option \<Rightarrow> 'u
       \<Rightarrow> ('u, 'v, 't, 'c) RuntimeTelemetryAuthority \<Rightarrow> ('u, 'v, 't, 'c) RuntimeTelemetryAuthority" where
  "record_session_usage input_tokens output_tokens sid message_id usage tm =
     emit_event (EmUsage sid (input_tokens usage) (output_tokens usage) message_id) (on_state (set_usage sid usage) tm)"

definition clear_session_runtime :: "string \<Rightarrow> ('u, 'v, 't, 'c) RuntimeTelemetryAuthority \<Rightarrow> ('u, 'v, 't, 'c) RuntimeTelemetryAuthority" where
  "clear_session_runtime sid tm = on_state (store_remove sid) tm"

definition tm_cancel_execution ::
    "'v json_api \<Rightarrow> i64 \<Rightarrow> string \<Rightarrow> ('u, 'v, 't, 'c) RuntimeTelemetryAuthority
       \<Rightarrow> ExecutionKind option \<times> ('u, 'v, 't, 'c) RuntimeTelemetryAuthority" where
  "tm_cancel_execution js now i tm =
     (case tm_cancel_question js i tm of
        (Some _, tm) \<Rightarrow> (Some Question, tm)
      | (None, tm) \<Rightarrow>
          (case cancel_execution js now i (tm_control tm) of
             (kind, control) \<Rightarrow> (kind, tm\<lparr>tm_control := control\<rparr>)))"

end
