(* ===== verification/Telemetry_Properties.thy ===== *)
theory Telemetry_Properties
  imports Telemetry
begin

text \<open>
  The two stores agree: what the registry says of a session's run and what the session shows, over any
  sequence of operations of the authority.
\<close>

section \<open>Prompt runs in the registry\<close>

lemma has_prompt_run_lookup:
  "map_of (executions reg) (prompt_execution_id sid) = map_of (executions reg') (prompt_execution_id sid) \<Longrightarrow>
     has_prompt_run sid reg = has_prompt_run sid reg'"
  by (simp add: has_prompt_run_def)

lemma prompt_ids_differ [simp]:
  "prompt_execution_id s \<noteq> scheduler_execution_id s'" "prompt_execution_id s \<noteq> scheduler_node_execution_id s' path"
  "prompt_execution_id s \<noteq> tool_call_execution_id c" "prompt_execution_id s \<noteq> ''question_'' @ u"
  by (simp_all add: execution_id_defs tool_call_execution_id_def scheduler_node_execution_id_def)

lemma update_lookup:
  "map_of (executions (update_execution now j patch reg)) i =
     (if i = j then map_option (patch_record patch now) (map_of (executions reg) i) else map_of (executions reg) i)"
  by (auto simp: update_execution_def map_of_map_entry split: option.split)

lemma prompt_not_below:
  assumes "registry_ok reg" and "below session (map snd (executions reg)) (scheduler_execution_id session) i"
  shows "i \<noteq> prompt_execution_id sid"
  using assms(2)
proof cases
  case self
  then show ?thesis by (metis prompt_ids_differ(1))
next
  case (child p r)
  then obtain j where "(j, r) \<in> set (executions reg)" by auto
  then have "identified r" using assms(1) by (auto simp: store_ok_def)
  then show ?thesis using child by (auto simp: identified_def id_matches_prompt)
qed

lemma map_of_filter_entries:
  "distinct (map fst m) \<Longrightarrow> map_of (filter (\<lambda>(i, r). Q i r) m) k =
     (case map_of m k of Some r \<Rightarrow> if Q k r then Some r else None | None \<Rightarrow> None)"
  by (induction m) (force split: option.split dest: map_of_SomeD)+

lemma finish_run_keeps_prompt:
  assumes "registry_ok reg"
  shows "has_prompt_run sid (finish_scheduler_run now session reg) = has_prompt_run sid reg"
proof -
  have "distinct (map fst (executions reg))" using assms by (simp add: store_ok_def)
  note lookup = map_of_filter_entries [OF this, where k = "prompt_execution_id sid" and
      Q = "\<lambda>i r. \<not> below session (map snd (executions reg)) (scheduler_execution_id session) i
        \<and> \<not> (er_session_id r = session \<and> er_status r = Done)"]
  have "\<not> below session (map snd (executions reg)) (scheduler_execution_id session) (prompt_execution_id sid)"
    using prompt_not_below [OF assms] by blast
  then show ?thesis
    unfolding has_prompt_run_def conjunct1 [OF finish_scheduler_run_exact [OF assms, of now session]] lookup
    by (simp split: option.split)
qed

lemma only_prompt_has_prompt_id:
  assumes "registry_ok reg" "map_of (executions reg) i = Some r" "er_kind r \<noteq> PromptRun"
  shows "i \<noteq> prompt_execution_id sid"
  using store_ok_lookup [OF assms(1,2)] assms(3) by (metis identified_def id_matches_prompt)

lemma settle_keeps_prompt:
  assumes "registry_ok reg"
  shows "has_prompt_run sid (snd (settle_question js reply i reg)) = has_prompt_run sid reg"
proof -
  have "i \<noteq> prompt_execution_id sid" if "map_of (executions reg) i = Some r" "question_record_to_info js r = Some q" for r q
    using only_prompt_has_prompt_id [OF assms that(1)] that(2) by (auto simp: question_record_to_info_def split: if_splits)
  then show ?thesis
    by (fastforce simp: settle_question_def take_question_def has_prompt_run_def delete_conv' split: option.splits)
qed

lemma cancel_questions_keeps_prompt:
  assumes "registry_ok reg"
  shows "has_prompt_run sid (snd (cancel_questions_for_session js session reg)) = has_prompt_run sid reg"
proof -
  have "has_prompt_run sid (snd (foldl (\<lambda>(cancelled, reg) i. case cancel_question js i reg of
      (None, reg) \<Rightarrow> (cancelled, reg) | (Some info, reg) \<Rightarrow> (cancelled @ [info], reg)) (qs, reg') ids)) = has_prompt_run sid reg'"
    if "registry_ok reg'" for qs ids reg'
    using that
  proof (induction ids arbitrary: qs reg')
    case (Cons i ids)
    obtain q reg1 where q: "cancel_question js i reg' = (q, reg1)" by fastforce
    then have "registry_ok reg1" "has_prompt_run sid reg1 = has_prompt_run sid reg'"
      using identified.settle_ok [OF Cons.prems] settle_keeps_prompt [OF Cons.prems] by (metis cancel_question_def snd_conv)+
    then show ?case using Cons.IH q by (cases q) auto
  qed simp
  with assms show ?thesis by (simp add: cancel_questions_for_session_def)
qed

lemma request_cancel_keeps_prompt: "has_prompt_run sid (snd (request_scheduler_cancel now s reg)) = has_prompt_run sid reg"
  by (auto simp: request_scheduler_cancel_def has_prompt_run_def update_lookup split: option.splits)

lemma cancelled_token_keeps_prompt [simp]:
  "has_prompt_run sid (reg\<lparr>cancelled := c\<rparr>) = has_prompt_run sid reg"
  "has_prompt_run sid (reg\<lparr>scheduler_tokens := t\<rparr>) = has_prompt_run sid reg"
  "has_prompt_run sid (reg\<lparr>execution_tokens := t'\<rparr>) = has_prompt_run sid reg"
  "has_prompt_run sid (reg\<lparr>question_waiters := w\<rparr>) = has_prompt_run sid reg"
  by (simp_all add: has_prompt_run_def)

lemma update_keeps_prompt:
  "i \<noteq> prompt_execution_id sid \<Longrightarrow> has_prompt_run sid (update_execution now i patch reg) = has_prompt_run sid reg"
  by (rule has_prompt_run_lookup) (simp add: update_lookup)

lemma finish_keeps_prompt:
  "i \<noteq> prompt_execution_id sid \<Longrightarrow> has_prompt_run sid (finish_execution now i reg) = has_prompt_run sid reg"
  by (rule has_prompt_run_lookup) (simp add: finish_lookup)

lemma upsert_keeps_prompt:
  "er_id r \<noteq> prompt_execution_id sid \<Longrightarrow> has_prompt_run sid (upsert_execution r reg) = has_prompt_run sid reg"
  by (rule has_prompt_run_lookup) (simp add: upsert_lookup)

lemma cancel_execution_keeps_prompt:
  assumes "registry_ok reg"
  shows "has_prompt_run sid (snd (cancel_execution js now i reg)) = has_prompt_run sid reg"
proof (cases "map_of (executions reg) i")
  case (Some r)
  show ?thesis
  proof (cases "er_kind r")
    case ToolCallRun
    then have "i \<noteq> prompt_execution_id sid" using only_prompt_has_prompt_id [OF assms Some] by simp
    then show ?thesis using Some ToolCallRun
      by (simp add: cancel_execution_def update_keeps_prompt split: option.split)
  qed (use Some settle_keeps_prompt [OF assms] in
      \<open>simp_all add: cancel_execution_def request_cancel_keeps_prompt cancel_question_def\<close>)
qed (simp add: cancel_execution_def)

lemmas keeps_prompt = update_keeps_prompt finish_keeps_prompt upsert_keeps_prompt request_cancel_keeps_prompt
  finish_run_keeps_prompt settle_keeps_prompt cancel_questions_keeps_prompt cancel_execution_keeps_prompt

lemma run_op_keeps_prompt:
  assumes "registry_ok reg" and "\<forall>clock s status. x \<noteq> SetStatus clock s status"
  shows "has_prompt_run sid (run_op js x reg) = has_prompt_run sid reg"
proof (cases x)
  case (RegisterTool clock call s tool parent stage token)
  then show ?thesis
    by (simp add: register_tool_call_with_token_def Let_def upsert_keeps_prompt prompt_ids_differ [symmetric]
        split: option.split)
next
  case (RegisterRun clock s token label)
  then show ?thesis
    by (simp add: register_scheduler_run_def upsert_keeps_prompt prompt_ids_differ [symmetric])
next
  case (RegisterQuestion clock uuid tx s qs)
  then show ?thesis
    using prompt_ids_differ(4) [symmetric, of uuid sid]
    by (simp add: register_question_def Let_def upsert_keeps_prompt)
next
  case (FinishTool now call)
  then show ?thesis
    by (simp add: finish_tool_call_def Let_def finish_keeps_prompt prompt_ids_differ [symmetric])
qed (use assms in \<open>simp_all add: keeps_prompt register_scheduler_node_def update_scheduler_node_def
    update_scheduler_run_def finish_scheduler_node_def answer_question_def reject_question_def cancel_question_def
    prompt_ids_differ [symmetric]\<close>)


lemma set_status_prompt:
  assumes "registry_ok reg"
  shows "has_prompt_run s' (set_session_run_status js clock s status reg) = (if s' = s then status \<noteq> RunIdle else has_prompt_run s' reg)"
proof (cases "status = RunIdle")
  case True
  then show ?thesis unfolding has_prompt_run_def True idle_lookup [OF assms] by simp
next
  case False
  have "prompt_execution_id s' = prompt_execution_id s \<longleftrightarrow> s' = s" by (simp add: prompt_execution_id_def)
  with False show ?thesis
    by (cases status) (auto simp: has_prompt_run_def upsert_lookup prompt_record_def split: option.splits)
qed

section \<open>Sequences of operations\<close>

datatype ('u, 'v, 't, 'c) telemetry_op =
    TmSetStatus "nat \<Rightarrow> i64" string SessionRunStatus
  | TmRecheck "nat \<Rightarrow> i64" i64 string
  | TmWake "nat \<Rightarrow> i64" i64 string
  | TmScheduler "('v, 't, 'c) registry_op"
  | TmAsk "nat \<Rightarrow> i64" "QuestionItemInfo list \<Rightarrow> 'v" string 'c string "QuestionItemInfo list"
  | TmAnswer string "string list list"
  | TmReject string
  | TmCancelQuestion string
  | TmCancelQuestions string
  | TmPermissionRequested i64 string string 'v
  | TmPermissionResolved i64 string string string "string option"
  | TmClearPermission i64 string
  | TmSteer i64 string PendingSteeringMessageSummary
  | TmInterrupt i64 string InterruptTarget
  | TmUsage "'u \<Rightarrow> u64" "'u \<Rightarrow> u64" string "string option" 'u
  | TmClear string
  | TmCancelExecution i64 string

text \<open>Scheduler and tool call records go straight to the registry; statuses do not.\<close>

fun telemetry_step ::
    "'v json_api \<Rightarrow> ('u, 'v, 't, 'c) telemetry_op \<Rightarrow> ('u, 'v, 't, 'c) RuntimeTelemetryAuthority
       \<Rightarrow> ('u, 'v, 't, 'c) RuntimeTelemetryAuthority" where
  "telemetry_step js (TmSetStatus clock sid status) = tm_set_session_run_status js clock sid status"
| "telemetry_step js (TmRecheck clock now sid) = snd \<circ> recheck_session js clock now sid"
| "telemetry_step js (TmWake clock now sid) = snd \<circ> wake_session js clock now sid"
| "telemetry_step js (TmScheduler x) = (\<lambda>tm. case x of SetStatus _ _ _ \<Rightarrow> tm
     | _ \<Rightarrow> tm\<lparr>tm_control := run_op js x (tm_control tm)\<rparr>)"
| "telemetry_step js (TmAsk clock to_value uuid tx sid questions) = snd \<circ> tm_register_question js clock to_value uuid tx sid questions"
| "telemetry_step js (TmAnswer i answers) = snd \<circ> tm_answer_question js i answers"
| "telemetry_step js (TmReject i) = snd \<circ> tm_reject_question js i"
| "telemetry_step js (TmCancelQuestion i) = snd \<circ> tm_cancel_question js i"
| "telemetry_step js (TmCancelQuestions sid) = snd \<circ> tm_cancel_questions_for_session js sid"
| "telemetry_step js (TmPermissionRequested now sid pid info) = tm_permission_requested js now sid pid info"
| "telemetry_step js (TmPermissionResolved now sid pid reply message) = tm_permission_resolved now sid pid reply message"
| "telemetry_step js (TmClearPermission now sid) = clear_permission_pending now sid"
| "telemetry_step js (TmSteer now sid summary) = tm_steering_enqueued now sid summary"
| "telemetry_step js (TmInterrupt now sid target) = tm_interrupt_requested now sid target"
| "telemetry_step js (TmUsage inp out sid m u) = record_session_usage inp out sid m u"
| "telemetry_step js (TmClear sid) = clear_session_runtime sid"
| "telemetry_step js (TmCancelExecution now i) = snd \<circ> tm_cancel_execution js now i"

definition resting :: "RunStatus \<Rightarrow> bool" where
  "resting s \<longleftrightarrow> s \<in> {RsIdle, RsWaitingOnUser, RsCancelling}"

definition telemetry_ok :: "('u, 'v, 't, 'c) RuntimeTelemetryAuthority \<Rightarrow> bool" where
  "telemetry_ok tm \<longleftrightarrow> registry_ok (tm_control tm) \<and> store_states_ok (tm_state tm) \<and>
     (\<forall>sid s. tm_state tm sid = Some s \<longrightarrow> has_prompt_run sid (tm_control tm) \<or> resting (rt_run_status s))"

lemma telemetry_okI:
  assumes "registry_ok (tm_control tm)" "store_states_ok (tm_state tm)"
    and "\<And>sid s. tm_state tm sid = Some s \<Longrightarrow> \<not> has_prompt_run sid (tm_control tm) \<Longrightarrow> resting (rt_run_status s)"
  shows "telemetry_ok tm"
  using assms by (auto simp: telemetry_ok_def)

lemma emit_ok [simp]: "telemetry_ok (emit_event ev tm) = telemetry_ok tm"
  by (simp add: telemetry_ok_def emit_event_def)

lemma emit_fields [simp]:
  "tm_state (emit_event ev tm) = tm_state tm" "tm_control (emit_event ev tm) = tm_control tm"
  "tm_control (on_state f tm) = tm_control tm" "tm_state (on_state f tm) = f (tm_state tm)"
  "tm_emitted (on_state f tm) = tm_emitted tm" "tm_emitted (emit_event ev tm) = tm_emitted tm @ [ev]"
  by (simp_all add: emit_event_def on_state_def)

text \<open>Operations on the shown state that leave a resting session resting.\<close>

fun rests :: "('u, 'v) state_op \<Rightarrow> bool" where
  "rests (OpRunning _) = False"
| "rests OpBlocked = False"
| "rests OpSleeping = False"
| "rests OpCompacting = False"
| "rests (OpToolStarted _ _ _) = False"
| "rests OpQuestionResolved = False"
| "rests (OpProtocol PermissionResolved) = False"
| "rests _ = True"

lemma resting_simps [simp]: "resting RsIdle" "resting RsWaitingOnUser" "resting RsCancelling"
  by (simp_all add: resting_def)

lemma store_update_rests:
  assumes "\<And>s. resting (rt_run_status s) \<Longrightarrow> resting (rt_run_status (g s))"
    and "\<And>s. st sid = Some s \<Longrightarrow> resting (rt_run_status s)" and "store_update sid g st sid = Some s"
  shows "resting (rt_run_status s)"
  using assms by (auto simp: store_update_def runtime_state_new_def split: option.splits)

lemma state_step_rests:
  assumes "rests x" and "\<And>s. st sid = Some s \<Longrightarrow> resting (rt_run_status s)" and "state_step (sid', x) st sid = Some s"
  shows "resting (rt_run_status s)"
proof (cases "sid' = sid")
  case False
  then have "state_step (sid', x) st sid = st sid"
    by (cases x) (auto simp: state_op_defs store_update_def)
  then show ?thesis using assms by simp
next
  case True
  show ?thesis
  proof (cases x)
    case (OpProtocol u)
    then show ?thesis using assms True
      by (cases u) (auto simp: apply_protocol_update_def control_input_def intro: store_update_rests [rotated -1]
          split: ControlInputKind.splits ControlInputPhase.splits)
  next
    case (OpToolEnded c)
    then show ?thesis using assms True
      by (auto simp: tool_ended_def Let_def store_update_def runtime_state_new_def resting_def
          split: option.splits if_splits)
  qed (use assms True in \<open>auto simp: state_op_defs intro: store_update_rests [rotated -1] split: if_splits\<close>)
qed

lemma on_state_step_ok:
  assumes "telemetry_ok tm" "rests x"
  shows "telemetry_ok (on_state (state_step (sid, x)) tm)"
proof (rule telemetry_okI)
  show "registry_ok (tm_control (on_state (state_step (sid, x)) tm))"
    "store_states_ok (tm_state (on_state (state_step (sid, x)) tm))"
    using assms by (simp_all add: telemetry_ok_def state_step_ok)
  fix sid' s
  assume "tm_state (on_state (state_step (sid, x)) tm) sid' = Some s"
    "\<not> has_prompt_run sid' (tm_control (on_state (state_step (sid, x)) tm))"
  then show "resting (rt_run_status s)"
    using assms state_step_rests [OF assms(2), of "tm_state tm" sid' sid s] by (auto simp: telemetry_ok_def)
qed

text \<open>A wait for the user that is over: whatever it shows, a session without a prompt run becomes idle.\<close>

lemma finish_wait_ok:
  assumes "telemetry_ok tm"
  shows "telemetry_ok (finish_control_input_wait sid (on_state (state_step (sid, x)) tm))"
proof (rule telemetry_okI)
  have other: "state_step (sid, x) st sid' = st sid'" if "sid' \<noteq> sid" for st sid'
    using that by (cases x) (auto simp: state_op_defs store_update_def)
  show "registry_ok (tm_control (finish_control_input_wait sid (on_state (state_step (sid, x)) tm)))"
    using assms by (simp add: finish_control_input_wait_def telemetry_ok_def)
  show "store_states_ok (tm_state (finish_control_input_wait sid (on_state (state_step (sid, x)) tm)))"
    using assms state_step_ok [of "state_step (sid, x) (tm_state tm)" "(sid, OpIdle)"]
    by (simp add: finish_control_input_wait_def telemetry_ok_def state_step_ok)
  fix sid' s
  assume "tm_state (finish_control_input_wait sid (on_state (state_step (sid, x)) tm)) sid' = Some s"
    "\<not> has_prompt_run sid' (tm_control (finish_control_input_wait sid (on_state (state_step (sid, x)) tm)))"
  then show "resting (rt_run_status s)"
    using assms other [of sid'] by (cases "sid' = sid")
      (auto simp: finish_control_input_wait_def mark_idle_def store_update_def telemetry_ok_def split: if_splits)
qed


lemma control_ok:
  assumes "telemetry_ok tm" "registry_ok control" "\<And>sid. has_prompt_run sid control = has_prompt_run sid (tm_control tm)"
  shows "telemetry_ok (tm\<lparr>tm_control := control\<rparr>)"
  using assms by (auto simp: telemetry_ok_def)

lemma set_status_ok':
  assumes "telemetry_ok tm"
  shows "telemetry_ok (tm_set_session_run_status js clock sid status tm)"
proof -
  obtain x where x: "show_status sid status = (state_step (sid, x) :: ('a, 'b) RuntimeStateStore \<Rightarrow> _)"
    "status = RunIdle \<Longrightarrow> x = OpIdle"
    by (cases status) (metis show_status.simps state_step.simps(3-7) SessionRunStatus.distinct)+
  have other: "state_step (sid, x) st sid' = st sid'" if "sid' \<noteq> sid" for st sid'
    using that by (cases x) (auto simp: state_op_defs store_update_def)
  have reg: "registry_ok (tm_control tm)" using assms by (simp add: telemetry_ok_def)
  have "telemetry_ok (on_state (show_status sid status)
      (tm\<lparr>tm_control := set_session_run_status js clock sid status (tm_control tm)\<rparr>))"
  proof (rule telemetry_okI)
    fix sid' s
    assume a: "tm_state (on_state (show_status sid status)
        (tm\<lparr>tm_control := set_session_run_status js clock sid status (tm_control tm)\<rparr>)) sid' = Some s"
      "\<not> has_prompt_run sid' (tm_control (on_state (show_status sid status)
        (tm\<lparr>tm_control := set_session_run_status js clock sid status (tm_control tm)\<rparr>)))"
    show "resting (rt_run_status s)"
    proof (cases "sid' = sid")
      case True
      then have "status = RunIdle" using a(2) set_status_prompt [OF reg] by auto
      then show ?thesis using a(1) True by (auto simp: mark_idle_def store_update_def)
    next
      case False
      then show ?thesis
        using a assms other [OF False] set_status_prompt [OF reg, of sid'] by (auto simp: x telemetry_ok_def)
    qed
  qed (use assms in \<open>simp_all add: telemetry_ok_def set_status_ok x state_step_ok\<close>)
  then show ?thesis using assms by (simp add: tm_set_session_run_status_def)
qed

lemma emit_control_ok:
  assumes "telemetry_ok tm"
  shows "telemetry_ok (emit_control_input_transition sid kind phase at tm)"
  using on_state_step_ok [OF assms, of "OpProtocol (ControlInputTransition kind phase at)" sid]
  by (simp add: emit_control_input_transition_def)

lemma resolve_question_ok:
  assumes "telemetry_ok tm" "registry_ok (snd settled)"
    and "\<And>sid. has_prompt_run sid (snd settled) = has_prompt_run sid (tm_control tm)"
  shows "telemetry_ok (snd (resolve_question settled ev tm))"
  using control_ok [OF assms] finish_wait_ok [OF control_ok [OF assms], of _ OpQuestionResolved]
  by (auto simp: resolve_question_def Let_def split: prod.splits option.splits)

lemma settle_resolve_ok:
  "telemetry_ok tm \<Longrightarrow> telemetry_ok (snd (resolve_question (settle_question js reply i (tm_control tm)) ev tm))"
  by (rule resolve_question_ok) (simp_all add: telemetry_ok_def identified.settle_ok settle_keeps_prompt)

lemma fold_emit_ok [simp]: "telemetry_ok (fold (\<lambda>q. emit_event (f q)) qs tm) = telemetry_ok tm"
  by (induction qs arbitrary: tm) simp_all

lemma cancel_questions_ok':
  assumes "telemetry_ok tm"
  shows "telemetry_ok (snd (tm_cancel_questions_for_session js sid tm))"
proof -
  obtain qs control where c: "cancel_questions_for_session js sid (tm_control tm) = (qs, control)" by fastforce
  have "telemetry_ok (tm\<lparr>tm_control := control\<rparr>)"
    using control_ok [OF assms, of control] assms cancel_questions_keeps_prompt [of "tm_control tm" _ js sid]
      identified.cancel_questions_ok [of "tm_control tm" js sid]
    by (simp add: c telemetry_ok_def)
  then show ?thesis
    using finish_wait_ok [of "tm\<lparr>tm_control := control\<rparr>" sid OpQuestionResolved]
    by (simp add: tm_cancel_questions_for_session_def c Let_def)
qed

lemma telemetry_step_ok:
  assumes "telemetry_ok tm"
  shows "telemetry_ok (telemetry_step js x tm)"
proof (cases x)
  case (TmScheduler y)
  have reg: "registry_ok (tm_control tm)" using assms by (simp add: telemetry_ok_def)
  show ?thesis
    using TmScheduler assms control_ok [OF assms run_op_ok [OF reg] run_op_keeps_prompt [OF reg], of y js]
    by (auto split: registry_op.splits)
next
  case (TmAsk clock to_value uuid tx sid questions)
  obtain info control where r: "register_question js clock uuid tx sid questions (tm_control tm) = (info, control)" by fastforce
  have reg: "registry_ok (tm_control tm)" using assms by (simp add: telemetry_ok_def)
  have "telemetry_ok (tm\<lparr>tm_control := control\<rparr>)"
    using control_ok [OF assms] run_op_ok [OF reg, of js "RegisterQuestion clock uuid tx sid questions"]
      run_op_keeps_prompt [OF reg, of "RegisterQuestion clock uuid tx sid questions" _ js] r by simp
  from on_state_step_ok [OF this, of "OpQuestionCreated (qn_id info) (to_value questions)" sid]
  show ?thesis using TmAsk r by (simp add: tm_register_question_def)
next
  case (TmCancelExecution now i)
  obtain r tm1 where q: "tm_cancel_question js i tm = (r, tm1)" by fastforce
  have ok: "telemetry_ok tm1"
    using settle_resolve_ok [OF assms, of js ReplyCancelled i] q by (metis cancel_question_def snd_conv tm_cancel_question_def)
  then have reg: "registry_ok (tm_control tm1)" by (simp add: telemetry_ok_def)
  have "telemetry_ok (tm1\<lparr>tm_control := snd (cancel_execution js now i (tm_control tm1))\<rparr>)"
    by (rule control_ok [OF ok]) (simp_all add: reg identified.cancel_execution_ok cancel_execution_keeps_prompt)
  then show ?thesis using TmCancelExecution q ok
    by (auto simp: tm_cancel_execution_def split: option.splits prod.splits)
next
  case (TmPermissionRequested now sid pid info)
  show ?thesis
    unfolding TmPermissionRequested
    using emit_control_ok [OF on_state_step_ok [OF assms, of "OpProtocol (PermissionRequested pid now
        (Option.bind (js_get js info ''tool'') (js_as_str js)))" sid]]
    by (simp add: tm_permission_requested_def)
next
  case (TmPermissionResolved now sid pid reply message)
  then show ?thesis
    using emit_control_ok [OF emit_control_ok [OF finish_wait_ok [OF assms, of sid "OpProtocol PermissionResolved"]]]
    by (simp add: tm_permission_resolved_def)
next
  case (TmClearPermission now sid)
  then show ?thesis
    using emit_control_ok [OF finish_wait_ok [OF assms, of sid "OpProtocol PermissionResolved"]]
    by (simp add: clear_permission_pending_def)
next
  case (TmSteer now sid summary)
  then show ?thesis
    using emit_control_ok [OF on_state_step_ok [OF assms, of "OpProtocol (SteeringEnqueued summary)" sid]]
    by (simp add: tm_steering_enqueued_def)
next
  case (TmInterrupt now sid target)
  then show ?thesis
    using emit_control_ok [OF on_state_step_ok [OF assms, of "OpProtocol (InterruptRequested now target)" sid]]
    by (simp add: tm_interrupt_requested_def)
next
  case (TmUsage inp out sid m u)
  then show ?thesis using on_state_step_ok [OF assms, of "OpSetUsage u" sid] by (simp add: record_session_usage_def)
next
  case (TmClear sid)
  then show ?thesis using on_state_step_ok [OF assms, of OpRemove sid] by (simp add: clear_session_runtime_def)
qed (use assms in \<open>auto simp: set_status_ok' cancel_questions_ok' settle_resolve_ok recheck_session_def wake_session_def
    tm_answer_question_def tm_reject_question_def tm_cancel_question_def answer_question_def reject_question_def
    cancel_question_def split: SessionRunStatus.split\<close>)

lemma telemetry_run_ok: "telemetry_ok (fold (telemetry_step js) ops telemetry_new)"
proof -
  have "telemetry_ok (fold (telemetry_step js) ops tm)" if "telemetry_ok tm" for tm
    using that by (induction ops arbitrary: tm) (simp_all add: telemetry_step_ok)
  moreover have "telemetry_ok telemetry_new"
    by (simp add: telemetry_ok_def telemetry_new_def with_topology_callback_ok store_states_ok_def)
  ultimately show ?thesis by blast
qed

text \<open>
  \<^bold>\<open>C29.\<close> No phantom runs: over any sequence of operations of the authority, a session without a prompt run
  in the registry is shown idle with nothing left of a run, or waiting for the user with an open question
  or permission, or cancelling with a recorded interrupt; never running, compacting, blocked, sleeping or
  waiting for a tool.
\<close>

theorem no_phantom_run:
  assumes "tm_state (fold (telemetry_step js) ops telemetry_new) sid = Some s"
    and "\<not> has_prompt_run sid (tm_control (fold (telemetry_step js) ops telemetry_new))"
  shows "runtime_ok s \<and> rt_run_status s \<in> {RsIdle, RsWaitingOnUser, RsCancelling}"
  using assms telemetry_run_ok [of js ops] by (auto simp: telemetry_ok_def store_states_ok_def resting_def)


theorem no_phantom_run_witness:
  "\<exists>(ops :: (unit, sample_json, nat, nat) telemetry_op list) s.
     tm_state (fold (telemetry_step sample_api) ops telemetry_new) ''s'' = Some s \<and> rt_usage s = Some () \<and>
     length ops = 6 \<and> rt_run_status s \<in> {RsIdle, RsWaitingOnUser, RsCancelling}"
proof -
  define ops :: "(unit, sample_json, nat, nat) telemetry_op list" where
    "ops = [TmSetStatus int ''s'' RunBusy, TmAsk int (\<lambda>_. SampleNull) ''u'' 7 ''s'' [],
       TmAnswer ''question_u'' [], TmUsage (\<lambda>_. 1) (\<lambda>_. 2) ''s'' None (), TmSteer 3 ''s''
       \<lparr>ps_id = ''m'', ps_owner_session_id = ''s'', ps_created_at = 3, ps_source_session_id = None, ps_deliver_at = ''next''\<rparr>,
       TmSetStatus int ''s'' RunIdle]"
  have "map_option rt_usage (tm_state (fold (telemetry_step sample_api) ops telemetry_new) ''s'') = Some (Some ())"
    "\<not> has_prompt_run ''s'' (tm_control (fold (telemetry_step sample_api) ops telemetry_new))"
    unfolding ops_def by code_simp+
  moreover obtain s where s: "tm_state (fold (telemetry_step sample_api) ops telemetry_new) ''s'' = Some s"
    using calculation(1) by auto
  moreover have "length ops = 6" by (simp add: ops_def)
  ultimately show ?thesis using no_phantom_run [of sample_api ops "''s''" s] by auto
qed

section \<open>Agreement of the two stores\<close>

fun shown_status :: "SessionRunStatus \<Rightarrow> RunStatus" where
  "shown_status RunIdle = RsIdle"
| "shown_status RunBusy = RsRunning"
| "shown_status (RunRetry _ _ _) = RsRunning"
| "shown_status RunCompacting = RsCompacting"
| "shown_status (RunBlocked _ _) = RsBlocked"
| "shown_status (RunSleeping _ _) = RsSleeping"

lemma show_status_lookup:
  "\<exists>s. show_status sid status st sid = Some s \<and> rt_run_status s = shown_status status"
  "sid' \<noteq> sid \<Longrightarrow> show_status sid status st sid' = st sid'"
  by (cases status; simp add: state_op_defs store_update_def)+

text \<open>
  \<^bold>\<open>Note.\<close> A change of status reaches both stores and the listeners: after setting a status that differs
  from the registry's, the registry reads exactly that status back, the session shows the matching one,
  one event announces it, and no other session changes in either store.
\<close>

theorem status_change_agrees:
  assumes "json_laws js" and "tm = fold (telemetry_step js) ops telemetry_new"
    and "session_run_status js sid (tm_control tm) \<noteq> status"
    and "tm' = tm_set_session_run_status js clock sid status tm"
  shows "session_run_status js sid (tm_control tm') = status
    \<and> map_option rt_run_status (tm_state tm' sid) = Some (shown_status status)
    \<and> tm_emitted tm' = tm_emitted tm @ [EmSessionStatus sid status]
    \<and> (\<forall>other. other \<noteq> sid \<longrightarrow> tm_state tm' other = tm_state tm other
         \<and> session_run_status js other (tm_control tm') = session_run_status js other (tm_control tm))"
proof -
  have reg: "registry_ok (tm_control tm)" using telemetry_run_ok [of js ops] assms(2) by (simp add: telemetry_ok_def)
  note reads = set_status_roundtrip [OF assms(1) reg, of sid clock status]
  have tm': "tm' = emit_event (EmSessionStatus sid status) (on_state (show_status sid status)
      (tm\<lparr>tm_control := set_session_run_status js clock sid status (tm_control tm)\<rparr>))"
    using assms(3,4) by (simp add: tm_set_session_run_status_def)
  obtain s where "show_status sid status (tm_state tm) sid = Some s" "rt_run_status s = shown_status status"
    using show_status_lookup(1) by blast
  then show ?thesis unfolding tm' using reads by (simp add: show_status_lookup(2))
qed

theorem status_change_agrees_witness:
  "\<exists>tm :: (unit, sample_json, nat, nat) RuntimeTelemetryAuthority.
     session_run_status sample_api ''s'' (tm_control (tm_set_session_run_status sample_api int ''s''
       (RunBlocked (Some ''quota'') (Some 9)) tm)) = RunBlocked (Some ''quota'') (Some 9)
     \<and> map_option rt_run_status (tm_state (tm_set_session_run_status sample_api int ''s''
       (RunBlocked (Some ''quota'') (Some 9)) tm) ''s'') = Some RsBlocked"
proof -
  define tm :: "(unit, sample_json, nat, nat) RuntimeTelemetryAuthority" where
    "tm = fold (telemetry_step sample_api) [TmSetStatus int ''s'' RunBusy] telemetry_new"
  have "session_run_status sample_api ''s'' (tm_control tm) \<noteq> RunBlocked (Some ''quota'') (Some 9)"
    unfolding tm_def by code_simp
  from status_change_agrees [OF sample_api_laws tm_def this refl, of int] show ?thesis by auto
qed

lemma question_answered_in_registry:
  assumes "json_laws js" "js_of_question js info \<noteq> None"
    and "register_question js clock uuid tx sid questions reg = (info, reg1)"
  obtains reg2 where "answer_question js (qn_id info) answers reg1 = (Some info, reg2)"
    "replies reg2 = replies reg @ [(tx, Answers answers)]" "qn_session_id info = sid" "qn_items info = questions"
proof -
  obtain r reg2 where ans: "answer_question js (qn_id info) answers reg1 = (r, reg2)" by fastforce
  from registered_question_is_answered [OF assms ans] that [of reg2] ans show thesis
    using assms(3) by (auto simp: register_question_def Let_def)
qed

text \<open>
  \<^bold>\<open>Note.\<close> The life of a question: while it is open the session waits for the user and shows the question,
  the answer reaches the waiting task, and afterwards the question is gone and the session shows what it
  went back to: idle without a prompt run, still waiting when a permission is open, running otherwise.
  One event announces the question and one its answer.
\<close>

theorem question_is_shown_and_answered:
  assumes "json_laws js" and "tm = fold (telemetry_step js) ops telemetry_new"
    and "js_of_question js info \<noteq> None"
    and asked: "tm_register_question js clock to_value uuid tx sid questions tm = (info, tm1)"
    and answered: "tm_answer_question js (qn_id info) answers tm1 = (r, tm2)"
  shows "r = Some info \<and> replies (tm_control tm2) = replies (tm_control tm) @ [(tx, Answers answers)]
    \<and> tm_emitted tm2 = tm_emitted tm @ [EmQuestionCreated sid (qn_id info) questions,
         EmQuestionResolved sid (qn_id info) ResAnswered (Some answers) None]
    \<and> (\<exists>s1 s2. tm_state tm1 sid = Some s1 \<and> rt_run_status s1 = RsWaitingOnUser
         \<and> rt_pending_question s1 = Some \<lparr>pq_request_id = qn_id info, pq_questions = to_value questions\<rparr>
         \<and> tm_state tm2 sid = Some s2 \<and> rt_pending_question s2 = None
         \<and> rt_run_status s2 = (if \<not> has_prompt_run sid (tm_control tm) then RsIdle
              else if rt_pending_permission s1 = None then RsRunning else RsWaitingOnUser))"
proof -
  have reg: "registry_ok (tm_control tm)" using telemetry_run_ok [of js ops] assms(2) by (simp add: telemetry_ok_def)
  obtain reg1 where reg1: "register_question js clock uuid tx sid questions (tm_control tm) = (info, reg1)"
    and tm1: "tm1 = emit_event (EmQuestionCreated sid (qn_id info) (qn_items info))
      (on_state (question_created sid (qn_id info) (to_value questions)) (tm\<lparr>tm_control := reg1\<rparr>))"
    using asked by (auto simp: tm_register_question_def split: prod.splits)
  obtain reg2 where reg2: "answer_question js (qn_id info) answers reg1 = (Some info, reg2)"
    and outcome: "replies reg2 = replies (tm_control tm) @ [(tx, Answers answers)]" "qn_session_id info = sid" "qn_items info = questions"
    by (rule question_answered_in_registry [OF assms(1,3) reg1])
  have "registry_ok reg1" "has_prompt_run sid reg1 = has_prompt_run sid (tm_control tm)"
    using run_op_ok [OF reg, of js "RegisterQuestion clock uuid tx sid questions"]
      run_op_keeps_prompt [OF reg, of "RegisterQuestion clock uuid tx sid questions" sid js] reg1 by simp_all
  then have prompt: "has_prompt_run sid reg2 = has_prompt_run sid (tm_control tm)"
    using settle_keeps_prompt [of reg1 sid js "Answers answers" "qn_id info"] reg2 by (simp add: answer_question_def)
  have "r = Some info \<and> tm2 = emit_event (EmQuestionResolved sid (qn_id info) ResAnswered (Some answers) None)
      (finish_control_input_wait sid (on_state (question_resolved sid) (tm1\<lparr>tm_control := reg2\<rparr>)))"
    using answered reg2 outcome(2) by (auto simp: tm_answer_question_def resolve_question_def tm1)
  then show ?thesis
    using prompt outcome
    by (auto simp: tm1 finish_control_input_wait_def question_created_def question_resolved_def mark_idle_def
        store_update_def)
qed

theorem question_is_shown_and_answered_witness:
  "\<exists>tm tm1 info r tm2 :: (unit, sample_json, nat, nat) RuntimeTelemetryAuthority.
     tm_register_question sample_api int (\<lambda>_. SampleNull) ''u'' 7 ''s'' [] tm = (info, tm1)
     \<and> tm_answer_question sample_api (qn_id info) [[''yes'']] tm1 = (r, tm2)
     \<and> r = Some info \<and> map_option rt_run_status (tm_state tm2 ''s'') = Some RsWaitingOnUser"
proof -
  define tm :: "(unit, sample_json, nat, nat) RuntimeTelemetryAuthority" where
    "tm = fold (telemetry_step sample_api) [TmSetStatus int ''s'' RunBusy,
       TmPermissionRequested 2 ''s'' ''p'' SampleNull] telemetry_new"
  obtain info tm1 where asked: "tm_register_question sample_api int (\<lambda>_. SampleNull) ''u'' 7 ''s'' [] tm = (info, tm1)" by fastforce
  obtain r tm2 where ans: "tm_answer_question sample_api (qn_id info) [[''yes'']] tm1 = (r, tm2)" by fastforce
  have i: "qn_id info = ''question_u''"
    using asked by (auto simp: tm_register_question_def register_question_def Let_def)
  have "map_option rt_run_status (tm_state (snd (tm_answer_question sample_api ''question_u'' [[''yes'']]
      (snd (tm_register_question sample_api int (\<lambda>_. SampleNull) ''u'' 7 ''s'' [] tm)))) ''s'') = Some RsWaitingOnUser"
    unfolding tm_def by code_simp
  then have "map_option rt_run_status (tm_state tm2 ''s'') = Some RsWaitingOnUser" using asked ans i by simp
  moreover have "js_of_question sample_api info \<noteq> None" by (simp add: sample_api_def)
  ultimately show ?thesis
    using question_is_shown_and_answered [OF sample_api_laws tm_def _ asked ans] asked ans by blast
qed

text \<open>
  A session has one slot for an open question but the registry keeps as many as are asked: with two open
  questions, answering the second empties the slot, while the first is still waiting in the registry.
\<close>

lemma open_question_listed:
  assumes "map_of (executions reg) i = Some r" "er_status r = Waiting" "er_session_id r = sid"
    and "question_record_to_info js r = Some q"
  shows "q \<in> set (list_questions_for_session js sid reg)"
  using map_of_SomeD [OF assms(1)] assms(2-) by (force simp: list_questions_for_session_def set_map_filter_iff)

lemma second_question_hides_first:
  assumes "json_laws js" "js_of_question js a \<noteq> None" "js_of_question js b \<noteq> None" "uuid' \<noteq> uuid"
    and asked: "tm_register_question js clock to_value uuid tx sid questions tm = (a, tm1)"
    and again: "tm_register_question js clock' to_value uuid' tx' sid questions' tm1 = (b, tm2)"
    and answered: "tm_answer_question js (qn_id b) answers tm2 = (r, tm3)"
  shows "a \<in> set (list_questions_for_session js sid (tm_control tm3))
    \<and> map_option rt_pending_question (tm_state tm3 sid) = Some None"
proof -
  from assms(2) obtain v where v: "js_of_question js a = Some v" by auto
  then have to: "js_to_question js v = Some a" using assms(1) by (simp add: json_laws_def)
  have a: "a = \<lparr>qn_id = ''question_'' @ uuid, qn_session_id = sid, qn_items = questions\<rparr>"
    using asked by (auto simp: tm_register_question_def register_question_def Let_def)
  obtain reg2 where reg2: "register_question js clock' uuid' tx' sid questions' (tm_control tm1) = (b, reg2)"
    and tm2: "tm_control tm2 = reg2"
    using again by (auto simp: tm_register_question_def split: prod.splits)
  obtain reg3 where reg3: "answer_question js (qn_id b) answers reg2 = (Some b, reg3)" and b: "qn_session_id b = sid"
    by (rule question_answered_in_registry [OF assms(1,3) reg2])
  obtain r0 where r0: "map_of (executions (tm_control tm1)) (''question_'' @ uuid) = Some r0" "er_kind r0 = Question"
    "er_status r0 = Waiting" "er_session_id r0 = sid" "er_metadata r0 = Some v"
    using asked v a
    by (auto simp: tm_register_question_def register_question_def Let_def upsert_lookup split: option.splits)
  have bid: "qn_id b = ''question_'' @ uuid'" using reg2 by (auto simp: register_question_def Let_def)
  have "map_of (executions reg2) (''question_'' @ uuid) = Some r0"
    using reg2 r0(1) assms(4) by (auto simp: register_question_def Let_def upsert_lookup)
  then have "map_of (executions reg3) (''question_'' @ uuid) = Some r0"
    using reg3 bid assms(4)
    by (auto simp: answer_question_def settle_question_def take_question_def delete_conv' split: option.splits prod.splits)
  then have "a \<in> set (list_questions_for_session js sid reg3)"
    by (rule open_question_listed) (use r0 to in \<open>simp_all add: question_record_to_info_def\<close>)
  moreover have "tm3 = emit_event (EmQuestionResolved sid (qn_id b) ResAnswered (Some answers) None)
      (finish_control_input_wait sid (on_state (question_resolved sid) (tm2\<lparr>tm_control := reg3\<rparr>)))"
    using answered reg3 b by (auto simp: tm_answer_question_def resolve_question_def tm2)
  ultimately show ?thesis
    by (auto simp: finish_control_input_wait_def question_resolved_def mark_idle_def store_update_def)
qed

end
