(* ===== verification/File_Path.thy ===== *)
theory File_Path
  imports Sandbox_Path
begin

text \<open>
  The paths of the file tools (\<open>agendao-tool-core/src/file_path_authority.rs\<close>, \<open>lib.rs\<close> and
  \<open>agendao-tool/src/path_guard.rs\<close>): a path is resolved in the file system first, classified as inside or
  outside of the workspace, and the same value is used for the permission and for the operation.

  \<^item> The text of a path violation, which contains the message of the operating system, is a parameter.
\<close>

datatype ToolError =
    ValidationError string | TeExecution string | PermissionDenied string | QuestionRejected string
  | FileNotFound string | TeTimeout string | BinaryFile string | InvalidArguments string | TeCancelled

datatype FilePathLocation = Workspace string | External

record AuthorizedFilePath =
  af_operation_path :: path
  af_location :: FilePathLocation

definition is_external :: "AuthorizedFilePath \<Rightarrow> bool" where
  "is_external p \<longleftrightarrow> af_location p = External"

definition display_path :: "AuthorizedFilePath \<Rightarrow> string" where
  "display_path p = path_display (af_operation_path p)"

definition external_parent :: "AuthorizedFilePath \<Rightarrow> path" where
  "external_parent p = (case parent (af_operation_path p) of Some q \<Rightarrow> q | None \<Rightarrow> af_operation_path p)"

definition forward_slashes :: "string \<Rightarrow> string" where
  "forward_slashes s = map (\<lambda>c. if c = CHR 0x5C then CHR ''/'' else c) s"

definition permission_scope_key :: "AuthorizedFilePath \<Rightarrow> string" where
  "permission_scope_key p =
     (case af_location p of
        Workspace relative \<Rightarrow> if relative = [] then ''workspace:/'' else ''workspace:/'' @ relative
      | External \<Rightarrow> ''fs:'' @ forward_slashes (path_display (af_operation_path p)))"

definition external_fs_scope_key :: "string \<Rightarrow> string" where
  "external_fs_scope_key p = ''fs:'' @ forward_slashes p"

definition canonical_root :: "(PathViolation \<Rightarrow> string) \<Rightarrow> filesystem \<Rightarrow> path \<Rightarrow> ToolError + path" where
  "canonical_root violation_text fs project_root =
     map_err (\<lambda>e. TeExecution (''resolve project root '' @ path_display project_root @ '': '' @ violation_text e))
       (canonicalize_existing fs project_root)"

definition classify :: "path \<Rightarrow> path \<Rightarrow> AuthorizedFilePath" where
  "classify p root =
     \<lparr>af_operation_path = p,
      af_location = (case assert_within_root p root of
                       Inr relative \<Rightarrow> Workspace (forward_slashes relative)
                     | Inl _ \<Rightarrow> External)\<rparr>"

definition classify_create_under_parent :: "path \<Rightarrow> path \<Rightarrow> path \<Rightarrow> ToolError + AuthorizedFilePath" where
  "classify_create_under_parent operation_path canonical_parent root =
     (case assert_within_root canonical_parent root of
        Inr _ \<Rightarrow>
          if path_starts_with operation_path root
          then Inr \<lparr>af_operation_path = operation_path,
                    af_location = Workspace (forward_slashes (path_display (drop (length root) operation_path)))\<rparr>
          else Inl (TeExecution ''derive workspace path: prefix not found'')
      | Inl _ \<Rightarrow> Inr \<lparr>af_operation_path = operation_path, af_location = External\<rparr>)"

definition resolve_existing_file_path ::
    "(PathViolation \<Rightarrow> string) \<Rightarrow> filesystem \<Rightarrow> path \<Rightarrow> path \<Rightarrow> ToolError + AuthorizedFilePath" where
  "resolve_existing_file_path violation_text fs p project_root =
     res_bind (canonical_root violation_text fs project_root) (\<lambda>root.
     res_bind (map_err (\<lambda>e. TeExecution (''resolve file '' @ path_display p @ '': '' @ violation_text e))
        (canonicalize_existing fs p)) (\<lambda>target.
     Inr (classify target root)))"

definition resolve_create_file_path ::
    "(PathViolation \<Rightarrow> string) \<Rightarrow> filesystem \<Rightarrow> path \<Rightarrow> path \<Rightarrow> ToolError + AuthorizedFilePath" where
  "resolve_create_file_path violation_text fs p project_root =
     res_bind (canonical_root violation_text fs project_root) (\<lambda>root.
     res_bind (map_err (\<lambda>e. TeExecution (''resolve create target '' @ path_display p @ '': '' @ violation_text e))
        (resolve_create_target fs p)) (\<lambda>target.
     case ct_existing target of
       Some existing \<Rightarrow> Inr (classify existing root)
     | None \<Rightarrow> classify_create_under_parent (path_join (ct_parent target) (ct_suffix target)) (ct_parent target) root))"

text \<open>The context of a tool call, as far as paths go.\<close>

record path_context =
  pc_directory :: path
  pc_project_root :: path
  pc_violation_text :: "PathViolation \<Rightarrow> string"

definition resolve_path_against_directory :: "path_context \<Rightarrow> path \<Rightarrow> path" where
  "resolve_path_against_directory ctx p = (if is_absolute p then p else path_join (pc_directory ctx) p)"

definition ctx_resolve_existing :: "path_context \<Rightarrow> filesystem \<Rightarrow> path \<Rightarrow> ToolError + AuthorizedFilePath" where
  "ctx_resolve_existing ctx fs p =
     resolve_existing_file_path (pc_violation_text ctx) fs (resolve_path_against_directory ctx p) (pc_project_root ctx)"

definition ctx_resolve_create :: "path_context \<Rightarrow> filesystem \<Rightarrow> path \<Rightarrow> ToolError + AuthorizedFilePath" where
  "ctx_resolve_create ctx fs p =
     resolve_create_file_path (pc_violation_text ctx) fs (resolve_path_against_directory ctx p) (pc_project_root ctx)"

text \<open>What is asked before a path outside of the workspace is used.\<close>

record external_request =
  xr_pattern :: string
  xr_scope_key :: string
  xr_filepath :: string
  xr_parent_dir :: string

definition external_request_for :: "AuthorizedFilePath \<Rightarrow> external_request option" where
  "external_request_for p =
     (if \<not> is_external p then None
      else let parent = path_display (external_parent p)
           in Some \<lparr>xr_pattern = parent @ ''/*'', xr_scope_key = external_fs_scope_key parent,
                    xr_filepath = display_path p, xr_parent_dir = parent\<rparr>)"

section \<open>The classification is that of the path used\<close>

lemma within_root_iff: "is_ok (assert_within_root p root) \<longleftrightarrow> path_starts_with p root"
  by (auto simp: assert_within_root_def is_ok_def path_starts_with_def)

lemma classify_fields [simp]:
  "af_operation_path (classify p root) = p"
  "is_external (classify p root) \<longleftrightarrow> \<not> path_starts_with p root"
  using within_root_iff [of p root] by (auto simp: classify_def is_external_def is_ok_def split: sum.splits)

text \<open>
  \<^bold>\<open>Note.\<close> A path is used without an external permission only when it lies below the canonical project root
  after all links are resolved; the path used for the operation is the resolved one. An existing path
  that resolves outside of the root is always classified as external.
\<close>

theorem workspace_paths_below_root:
  assumes "resolve_existing_file_path text fs p root = Inr a \<or> resolve_create_file_path text fs p root = Inr a"
    and "external_request_for a = None"
  shows "\<exists>r. fs_canonicalize fs root = Some r \<and> path_starts_with (af_operation_path a) r"
proof -
  have inside: "\<not> is_external a" using assms(2) by (simp add: external_request_for_def Let_def split: if_splits)
  obtain r where r: "canonical_root text fs root = Inr r"
    using assms(1) by (auto simp: resolve_existing_file_path_def resolve_create_file_path_def res_simps)
  then have "fs_canonicalize fs root = Some r"
    by (auto simp: canonical_root_def canonicalize_existing_def split: option.splits)
  moreover have "path_starts_with (af_operation_path a) r"
    using assms(1) inside r
    by (auto simp: resolve_existing_file_path_def resolve_create_file_path_def res_simps classify_create_under_parent_def
        is_external_def split: option.splits sum.splits if_splits)
      (simp_all add: is_external_def [symmetric])
  ultimately show ?thesis by blast
qed

end
