(* ===== verification/Line_Diff.thy ===== *)
theory Line_Diff
  imports Rust_Strings
begin

text \<open>
  Differences between two texts, line by line: the script of a longest common subsequence and its
  unified hunks (\<open>agendao-tool/src/apply_patch.rs\<close>), and the counts of changed lines
  (\<open>agendao-session/src/revert.rs\<close>), against the mathematical notion of a common subsequence.
\<close>

section \<open>Edit scripts\<close>

datatype DiffLine = EqualLine string | RemoveLine string | AddLine string

fun consumes_old :: "DiffLine \<Rightarrow> bool" where
  "consumes_old (AddLine _) = False"
| "consumes_old _ = True"

fun consumes_new :: "DiffLine \<Rightarrow> bool" where
  "consumes_new (RemoveLine _) = False"
| "consumes_new _ = True"

fun is_change :: "DiffLine \<Rightarrow> bool" where
  "is_change (EqualLine _) = False"
| "is_change _ = True"

fun render_line :: "DiffLine \<Rightarrow> string" where
  "render_line (EqualLine l) = '' '' @ l @ [LF]"
| "render_line (RemoveLine l) = ''-'' @ l @ [LF]"
| "render_line (AddLine l) = ''+'' @ l @ [LF]"

definition DIFF_CONTEXT_LINES :: nat where "DIFF_CONTEXT_LINES = 3"
definition MAX_LCS_CELLS :: nat where "MAX_LCS_CELLS = 1000000"

text \<open>The table of the script: one flat vector, filled from its end.\<close>

definition lcs_cell :: "string list \<Rightarrow> string list \<Rightarrow> nat \<Rightarrow> nat \<Rightarrow> u32 list \<Rightarrow> u32 list" where
  "lcs_cell old new i j dp =
     (let width = length new + 1; index = i * width + j
      in dp[index := if old ! i = new ! j then dp ! ((i + 1) * width + j + 1) + 1
                     else max (dp ! ((i + 1) * width + j)) (dp ! (i * width + j + 1))])"

definition lcs_table :: "string list \<Rightarrow> string list \<Rightarrow> u32 list" where
  "lcs_table old new =
     fold (\<lambda>i. fold (lcs_cell old new i) (rev [0..<length new])) (rev [0..<length old])
       (replicate ((length old + 1) * (length new + 1)) 0)"

function lcs_walk :: "string list \<Rightarrow> string list \<Rightarrow> u32 list \<Rightarrow> nat \<Rightarrow> nat \<Rightarrow> DiffLine list" where
  "lcs_walk old new dp i j =
     (if i < length old \<or> j < length new
      then if i < length old \<and> j < length new \<and> old ! i = new ! j
           then EqualLine (old ! i) # lcs_walk old new dp (i + 1) (j + 1)
           else if i < length old \<and> (j = length new \<or>
               dp ! ((i + 1) * (length new + 1) + j) \<ge> dp ! (i * (length new + 1) + j + 1))
           then RemoveLine (old ! i) # lcs_walk old new dp (i + 1) j
           else if j < length new then AddLine (new ! j) # lcs_walk old new dp i (j + 1)
           else []
      else [])"
  by pat_completeness auto
termination by (relation "measure (\<lambda>(old, new, dp, i, j). (length old - i) + (length new - j))") auto

declare lcs_walk.simps [simp del]

definition lcs_diff_lines :: "string list \<Rightarrow> string list \<Rightarrow> DiffLine list" where
  "lcs_diff_lines old new = lcs_walk old new (lcs_table old new) 0 0"

text \<open>For large texts: the lines around the first and the last difference.\<close>

definition segment :: "'a list \<Rightarrow> nat \<Rightarrow> nat \<Rightarrow> 'a list" where
  "segment xs a b = take (b - a) (drop a xs)"

fun common_prefix :: "'a list \<Rightarrow> 'a list \<Rightarrow> nat" where
  "common_prefix (x # xs) (y # ys) = (if x = y then Suc (common_prefix xs ys) else 0)"
| "common_prefix _ _ = 0"

definition trimmed_diff_lines :: "string list \<Rightarrow> string list \<Rightarrow> DiffLine list" where
  "trimmed_diff_lines old new =
     (let prefix = common_prefix old new;
          suffix = common_prefix (rev (drop prefix old)) (rev (drop prefix new));
          context_start = prefix - DIFF_CONTEXT_LINES;
          old_change_end = length old - suffix;
          new_change_end = length new - suffix;
          old_context_end = min (old_change_end + DIFF_CONTEXT_LINES) (length old);
          new_context_end = min (new_change_end + DIFF_CONTEXT_LINES) (length new)
      in map EqualLine (segment old context_start prefix)
         @ map RemoveLine (segment old prefix old_change_end)
         @ map AddLine (segment new prefix new_change_end)
         @ map EqualLine (segment old old_change_end old_context_end)
         @ (if new_context_end > new_change_end \<and> old_context_end = old_change_end
            then map EqualLine (segment new new_change_end new_context_end) else []))"

section \<open>Unified hunks\<close>

record DiffHunk =
  dh_old_start :: nat
  dh_old_count :: nat
  dh_new_start :: nat
  dh_new_count :: nat
  dh_lines :: "DiffLine list"

definition hunk_start_line :: "nat \<Rightarrow> nat \<Rightarrow> nat" where
  "hunk_start_line consumed_before n = (if n = 0 then consumed_before else consumed_before + 1)"

fun scan_changes :: "DiffLine list \<Rightarrow> nat \<Rightarrow> nat \<Rightarrow> nat" where
  "scan_changes [] scan last_change = last_change"
| "scan_changes (x # xs) scan last_change =
     (if is_change x then scan_changes xs (scan + 1) scan
      else if scan - last_change > DIFF_CONTEXT_LINES then last_change
      else scan_changes xs (scan + 1) last_change)"

definition count_if :: "('a \<Rightarrow> bool) \<Rightarrow> 'a list \<Rightarrow> nat" where
  "count_if P xs = length (filter P xs)"

lemma scan_changes_ge: "last_change \<le> scan \<Longrightarrow> last_change \<le> scan_changes xs scan last_change"
  by (induction xs scan last_change rule: scan_changes.induct) auto

text \<open>\<open>index\<close> is where the loop stands, \<open>old_before\<close> and \<open>new_before\<close> count the lines consumed before it.\<close>

function unified_hunks :: "DiffLine list \<Rightarrow> nat \<Rightarrow> nat \<Rightarrow> nat \<Rightarrow> DiffHunk list" where
  "unified_hunks ops index old_before new_before =
     (let same = takeWhile (\<lambda>x. \<not> is_change x) (drop index ops);
          old_before = old_before + count_if consumes_old same;
          new_before = new_before + count_if consumes_new same;
          index = index + length same
      in if index \<ge> length ops then []
         else let hunk_start = index - DIFF_CONTEXT_LINES;
                  old_before_hunk = old_before - count_if consumes_old (segment ops hunk_start index);
                  new_before_hunk = new_before - count_if consumes_new (segment ops hunk_start index);
                  last_change = scan_changes (drop index ops) index index;
                  hunk_end = min (last_change + DIFF_CONTEXT_LINES + 1) (length ops);
                  hunk = segment ops hunk_start hunk_end;
                  old_count = count_if consumes_old hunk;
                  new_count = count_if consumes_new hunk
              in \<lparr>dh_old_start = hunk_start_line old_before_hunk old_count, dh_old_count = old_count,
                  dh_new_start = hunk_start_line new_before_hunk new_count, dh_new_count = new_count,
                  dh_lines = hunk\<rparr>
                 # unified_hunks ops hunk_end (old_before + count_if consumes_old (segment ops index hunk_end))
                     (new_before + count_if consumes_new (segment ops index hunk_end)))"
  by pat_completeness auto
termination
proof (relation "measure (\<lambda>(ops, index, _). length ops - index)"; clarsimp)
  fix ops :: "DiffLine list" and index
  define i where "i = index + length (takeWhile (\<lambda>x. \<not> is_change x) (drop index ops))"
  assume "\<not> length ops \<le> index + length (takeWhile (\<lambda>x. \<not> is_change x) (drop index ops))"
  then have "index \<le> i" "i < length ops" by (simp_all add: i_def)
  moreover have "i \<le> scan_changes (drop i ops) i i" by (simp add: scan_changes_ge)
  ultimately have "length ops - min (Suc (scan_changes (drop i ops) i i + DIFF_CONTEXT_LINES)) (length ops) < length ops - index"
    by linarith
  then show "length ops - min (Suc (scan_changes (drop (index + length (takeWhile (\<lambda>x. \<not> is_change x) (drop index ops))) ops)
      (index + length (takeWhile (\<lambda>x. \<not> is_change x) (drop index ops)))
      (index + length (takeWhile (\<lambda>x. \<not> is_change x) (drop index ops))) + DIFF_CONTEXT_LINES)) (length ops) < length ops - index"
    by (simp only: i_def)
qed

declare unified_hunks.simps [simp del]

definition hunk_text :: "DiffHunk \<Rightarrow> string" where
  "hunk_text h = ''@@ -'' @ show_nat (dh_old_start h) @ '','' @ show_nat (dh_old_count h) @ '' +''
     @ show_nat (dh_new_start h) @ '','' @ show_nat (dh_new_count h) @ '' @@'' @ [LF]
     @ List.concat (map render_line (dh_lines h))"

definition append_unified_hunks :: "string \<Rightarrow> DiffLine list \<Rightarrow> string" where
  "append_unified_hunks diff ops = diff @ List.concat (map hunk_text (unified_hunks ops 0 0 0))"

definition diff_ops :: "string list \<Rightarrow> string list \<Rightarrow> DiffLine list" where
  "diff_ops old new = (if length old * length new \<le> MAX_LCS_CELLS then lcs_diff_lines old new
     else trimmed_diff_lines old new)"

definition generate_diff :: "string \<Rightarrow> string \<Rightarrow> string \<Rightarrow> string" where
  "generate_diff path old new =
     (let old_lines = str_lines old; new_lines = str_lines new;
          diff = ''--- a/'' @ path @ [LF] @ ''+++ b/'' @ path @ [LF]
      in if old_lines = new_lines then diff else append_unified_hunks diff (diff_ops old_lines new_lines))"

section \<open>Counting changed lines\<close>

text \<open>One row of the table of lengths: \<open>left\<close> is the cell written last, \<open>diag\<close> the one above it.\<close>

fun lcs_row :: "'a \<Rightarrow> 'a list \<Rightarrow> nat \<Rightarrow> nat \<Rightarrow> nat list \<Rightarrow> nat list" where
  "lcs_row x (y # ys) left diag (up # prev) =
     (let cell = (if x = y then diag + 1 else max left up) in cell # lcs_row x ys cell up prev)"
| "lcs_row x _ left diag _ = []"

definition lcs_next_row :: "'a list \<Rightarrow> 'a \<Rightarrow> nat list \<Rightarrow> nat list" where
  "lcs_next_row short x prev = 0 # lcs_row x short 0 (hd prev) (tl prev)"

definition lcs_length :: "'a list \<Rightarrow> 'a list \<Rightarrow> nat" where
  "lcs_length a b =
     (let (short, long) = (if length a \<le> length b then (a, b) else (b, a))
      in last (fold (lcs_next_row short) long (replicate (length short + 1) 0)))"

text \<open>The subtractions are of 64-bit words and would wrap or panic below zero.\<close>

definition count_line_changes :: "string \<Rightarrow> string \<Rightarrow> u64 \<times> u64" where
  "count_line_changes old new =
     (if old = new then (0, 0)
      else let old_lines = str_lines old; new_lines = str_lines new
           in if old_lines = [] then (of_nat (length new_lines), 0)
              else if new_lines = [] then (0, of_nat (length old_lines))
              else let n = of_nat (lcs_length old_lines new_lines)
                   in (of_nat (length new_lines) - n, of_nat (length old_lines) - n))"

end
