(* ===== verification/Rust_Numbers.thy ===== *)
theory Rust_Numbers
  imports Rust_Strings
begin

text \<open>Parsing of \<open>usize\<close> and trimming of printed numbers, shared by the parsers.\<close>

datatype parse_int_error = EmptyInt | InvalidDigit | IntOverflow

text \<open>\<open>str::parse::<usize>\<close> on a 64-bit machine: an optional plus sign and decimal digits below 2\<open>^\<close>64.\<close>

definition parse_int :: "string \<Rightarrow> parse_int_error + nat" where
  "parse_int s =
     (if s = [] then Inl EmptyInt
      else let t = (if hd s = CHR ''+'' then tl s else s)
           in if t = [] \<or> \<not> list_all is_digit t then Inl InvalidDigit
              else if dec_val t < 2 ^ 64 then Inr (dec_val t) else Inl IntOverflow)"

definition parse_usize :: "string \<Rightarrow> nat option" where
  "parse_usize s = (case parse_int s of Inr n \<Rightarrow> Some n | Inl _ \<Rightarrow> None)"

fun parse_int_error_text :: "parse_int_error \<Rightarrow> string" where
  "parse_int_error_text EmptyInt = ''cannot parse integer from empty string''"
| "parse_int_error_text InvalidDigit = ''invalid digit found in string''"
| "parse_int_error_text IntOverflow = ''number too large to fit in target type''"

lemma digit_not_plus: "is_digit c \<Longrightarrow> c \<noteq> CHR ''+''"
  by (auto simp: is_digit_def)

lemma parse_int_show_nat: "n < 2 ^ 64 \<Longrightarrow> parse_int (show_nat n) = Inr n"
proof -
  assume n: "n < 2 ^ 64"
  have "is_digit (hd (show_nat n))" using show_nat_digits [of n] by (simp add: list_all_iff)
  then have "hd (show_nat n) \<noteq> CHR ''+''" by (rule digit_not_plus)
  then show ?thesis using n show_nat_digits [of n] by (simp add: parse_int_def Let_def dec_val_show_nat)
qed

lemma digit_no_space: "is_digit c \<Longrightarrow> \<not> ws1 (of_char c) \<and> of_char c < (128 :: nat)"
  by (auto simp: is_digit_def ws1_def)

text \<open>A character below 128 that is no white space ends trimming on both sides.\<close>

lemma trim_start_stop: "\<not> ws1 (of_char c) \<Longrightarrow> of_char c < (128 :: nat) \<Longrightarrow> trim_start (c # s) = c # s"
  by (subst trim_start.simps) (auto simp: ws_len_def ws2_def ws3_def split: list.split)

lemma trim_rev_stop: "\<not> ws1 (of_char c) \<Longrightarrow> of_char c < (128 :: nat) \<Longrightarrow> trim_rev (c # s) = c # s"
  by (subst trim_rev.simps) (auto simp: ws_end_len_def ws2_def ws3_def split: list.split)

lemma trim_rev_space: "ws1 (of_char c) \<Longrightarrow> trim_rev (c # s) = trim_rev s"
  by (subst trim_rev.simps) (simp add: ws_end_len_def)

lemma trim_start_space: "ws1 (of_char c) \<Longrightarrow> trim_start (c # s) = trim_start s"
  by (subst trim_start.simps) (simp add: ws_len_def)

lemma trim_show_nat: "trim ('' '' @ show_nat n) = show_nat n"
proof -
  have digits: "is_digit (hd (show_nat n))" "is_digit (last (show_nat n))"
    using show_nat_digits [of n] by (simp_all add: list_all_iff)
  obtain c s where hd: "show_nat n = c # s" by (cases "show_nat n") auto
  obtain t d where last: "show_nat n = t @ [d]" by (cases "show_nat n" rule: rev_cases) auto
  have "trim_start ('' '' @ show_nat n) = show_nat n"
    using digit_no_space [OF digits(1)] hd by (simp add: trim_start_space trim_start_stop ws1_def)
  then show ?thesis
    using digit_no_space [OF digits(2)] last by (simp add: trim_def trim_end_def trim_rev_stop)
qed

end
