(* ===== verification/Patch.thy ===== *)
theory Patch
  imports File_Path Line_Diff Rust_Numbers
begin

text \<open>
  The patch tool (\<open>agendao-tool/src/apply_patch.rs\<close>): a patch is parsed into file patches, the changes are
  computed and shown for permission, and then written.

  \<^item> The regular expressions are a record of their captures. Line numbers are parsed as \<open>usize\<close>.
  \<^item> The environment of an execution is a record of operations. Each answers from the effects so far, so
    that it may be any file system, user and language server. An effect is recorded when it is attempted.
\<close>

section \<open>Patches\<close>

datatype PatchOperation = OpAdd | OpUpdate | OpDelete | OpMove string

datatype PatchLine = PlContext | PlRemove | PlAdd string

record Hunk =
  hk_old_start :: nat
  hk_old_count :: nat
  hk_new_start :: nat
  hk_new_count :: nat
  hk_lines :: "PatchLine list"

record FilePatch =
  fp_path :: string
  fp_operation :: PatchOperation
  fp_hunks :: "Hunk list"

record patch_regexes =
  re_file_header :: "string \<Rightarrow> string option"
  re_new_file_header :: "string \<Rightarrow> string option"
  re_hunk_header :: "string \<Rightarrow> (string \<times> string option \<times> string \<times> string option) option"
  re_rename_from :: "string \<Rightarrow> string option"
  re_rename_to :: "string \<Rightarrow> string option"
  re_begin_file :: "string \<Rightarrow> string option"
  re_delete_file :: "string \<Rightarrow> string option"
  re_end_patch :: "string \<Rightarrow> bool"
  re_move_to :: "string \<Rightarrow> string option"

definition line_number :: "string \<Rightarrow> nat" where
  "line_number s = (case parse_usize s of Some n \<Rightarrow> n | None \<Rightarrow> 1)"

definition line_count :: "string option \<Rightarrow> nat" where
  "line_count s = (case s of Some t \<Rightarrow> line_number t | None \<Rightarrow> 1)"

section \<open>Unified diffs\<close>

record patch_parser =
  pp_files :: "FilePatch list"
  pp_current :: "FilePatch option"
  pp_hunk :: "Hunk option"
  pp_in_hunk :: bool
  pp_old_path :: "string option"
  pp_rename_from :: "string option"
  pp_rename_to :: "string option"

definition parser_new :: patch_parser where
  "parser_new = \<lparr>pp_files = [], pp_current = None, pp_hunk = None, pp_in_hunk = False, pp_old_path = None,
     pp_rename_from = None, pp_rename_to = None\<rparr>"

definition push_hunk :: "Hunk option \<Rightarrow> FilePatch \<Rightarrow> FilePatch" where
  "push_hunk h file = (case h of Some h \<Rightarrow> file\<lparr>fp_hunks := fp_hunks file @ [h]\<rparr> | None \<Rightarrow> file)"

definition flush_file :: "patch_parser \<Rightarrow> FilePatch list" where
  "flush_file st =
     (case pp_current st of
        None \<Rightarrow> pp_files st
      | Some file \<Rightarrow>
          let file = push_hunk (pp_hunk st) file
          in if fp_hunks file \<noteq> [] then pp_files st @ [file] else pp_files st)"

text \<open>The hunk moves into the current file; without a current file it stays.\<close>

definition take_hunk :: "patch_parser \<Rightarrow> patch_parser" where
  "take_hunk st =
     (case pp_current st of
        None \<Rightarrow> st
      | Some file \<Rightarrow> st\<lparr>pp_current := Some (push_hunk (pp_hunk st) file), pp_hunk := None\<rparr>)"

definition new_file_header :: "string \<Rightarrow> patch_parser \<Rightarrow> patch_parser" where
  "new_file_header new_path st =
     (case (pp_rename_from st, pp_rename_to st) of
        (Some rf, Some rt) \<Rightarrow> st\<lparr>pp_current := Some \<lparr>fp_path = rf, fp_operation = OpMove rt, fp_hunks = []\<rparr>\<rparr>
      | _ \<Rightarrow>
          let operation = (if pp_old_path st = Some ''/dev/null'' then OpAdd
                           else if new_path = ''/dev/null'' then OpDelete else OpUpdate);
              path = (if operation = OpAdd then new_path
                      else case pp_old_path st of Some p \<Rightarrow> p | None \<Rightarrow> new_path)
          in if path = ''/dev/null'' \<or> path = [] then st
             else st\<lparr>pp_current := Some \<lparr>fp_path = path, fp_operation = operation, fp_hunks = []\<rparr>\<rparr>)"

definition hunk_line :: "string \<Rightarrow> Hunk \<Rightarrow> Hunk" where
  "hunk_line line h =
     (if starts_with line '' '' \<or> starts_with line [CHR 0x09] then h\<lparr>hk_lines := hk_lines h @ [PlContext]\<rparr>
      else if starts_with line ''-'' \<and> \<not> starts_with line ''--- '' then h\<lparr>hk_lines := hk_lines h @ [PlRemove]\<rparr>
      else if starts_with line ''+'' \<and> \<not> starts_with line ''+++'' then h\<lparr>hk_lines := hk_lines h @ [PlAdd (tl line)]\<rparr>
      else h)"

definition parse_line :: "patch_regexes \<Rightarrow> string \<Rightarrow> patch_parser \<Rightarrow> patch_parser" where
  "parse_line re line st =
     (if starts_with line ''diff --git '' \<or> starts_with line ''diff -''
      then parser_new\<lparr>pp_files := flush_file st\<rparr>
      else case re_rename_from re line of Some p \<Rightarrow> st\<lparr>pp_rename_from := Some p\<rparr> | None \<Rightarrow>
           case re_rename_to re line of Some p \<Rightarrow> st\<lparr>pp_rename_to := Some p\<rparr> | None \<Rightarrow>
           case re_file_header re line of
             Some p \<Rightarrow> (take_hunk st)\<lparr>pp_old_path := Some p, pp_in_hunk := False\<rparr> | None \<Rightarrow>
           case re_new_file_header re line of Some p \<Rightarrow> new_file_header p st | None \<Rightarrow>
           case re_hunk_header re line of
             Some (os, oc, ns, nc) \<Rightarrow>
               if pp_current st = None then st
               else (take_hunk st)\<lparr>
                 pp_hunk := Some \<lparr>hk_old_start = line_number os, hk_old_count = line_count oc,
                   hk_new_start = line_number ns, hk_new_count = line_count nc, hk_lines = []\<rparr>,
                 pp_in_hunk := True\<rparr>
           | None \<Rightarrow>
               if pp_in_hunk st then st\<lparr>pp_hunk := map_option (hunk_line line) (pp_hunk st)\<rparr> else st)"

section \<open>Patches of a model\<close>

record model_parser =
  mm_files :: "FilePatch list"
  mm_current :: "FilePatch option"
  mm_content :: "string list"
  mm_in_content :: bool

definition model_new :: model_parser where
  "model_new = \<lparr>mm_files = [], mm_current = None, mm_content = [], mm_in_content = False\<rparr>"

definition model_flush :: "model_parser \<Rightarrow> FilePatch list" where
  "model_flush st =
     (case mm_current st of
        Some file \<Rightarrow> if mm_content st \<noteq> [] then mm_files st @ [file] else mm_files st
      | None \<Rightarrow> mm_files st)"

definition content_hunk :: "string list \<Rightarrow> Hunk" where
  "content_hunk content_lines =
     (let lines = str_lines (join [LF] content_lines)
      in \<lparr>hk_old_start = 1, hk_old_count = 0, hk_new_start = 1, hk_new_count = length lines, hk_lines = map PlAdd lines\<rparr>)"

fun parse_model_lines :: "patch_regexes \<Rightarrow> string list \<Rightarrow> model_parser \<Rightarrow> FilePatch list" where
  "parse_model_lines re [] st = mm_files st"
| "parse_model_lines re (line # lines) st =
     (if line = ''*** Begin Patch'' then parse_model_lines re lines st
      else case re_delete_file re line of
        Some p \<Rightarrow> parse_model_lines re lines
          \<lparr>mm_files = model_flush st @ [\<lparr>fp_path = trim p, fp_operation = OpDelete, fp_hunks = []\<rparr>],
           mm_current = None, mm_content = [], mm_in_content = False\<rparr>
      | None \<Rightarrow> (case re_move_to re line of
        Some p \<Rightarrow> parse_model_lines re lines
          (st\<lparr>mm_current := map_option (fp_operation_update (\<lambda>_. OpMove (trim p))) (mm_current st)\<rparr>)
      | None \<Rightarrow> (case re_begin_file re line of
        Some p \<Rightarrow> parse_model_lines re lines
          \<lparr>mm_files = model_flush st, mm_current = Some \<lparr>fp_path = trim p, fp_operation = OpAdd, fp_hunks = []\<rparr>,
           mm_content = [], mm_in_content = True\<rparr>
      | None \<Rightarrow>
          if line = ''*** End File''
          then parse_model_lines re lines
            \<lparr>mm_files = (case mm_current st of
                 Some file \<Rightarrow> mm_files st @ [file\<lparr>fp_hunks := fp_hunks file @ [content_hunk (mm_content st)]\<rparr>]
               | None \<Rightarrow> mm_files st),
             mm_current = None, mm_content = [], mm_in_content = False\<rparr>
          else if re_end_patch re line then mm_files st
          else parse_model_lines re lines
                 (if mm_in_content st then st\<lparr>mm_content := mm_content st @ [line]\<rparr> else st))))"

definition parse_model_patch :: "patch_regexes \<Rightarrow> string \<Rightarrow> FilePatch list" where
  "parse_model_patch re patch_text = parse_model_lines re (str_lines patch_text) model_new"

definition parse_multi_file_patch :: "patch_regexes \<Rightarrow> string \<Rightarrow> FilePatch list" where
  "parse_multi_file_patch re patch_text =
     (let normalized = str_replace (str_replace patch_text [CR, LF] [LF]) [CR] [LF]
      in if starts_with (trim normalized) ''*** Begin Patch'' then parse_model_patch re normalized
         else flush_file (fold (parse_line re) (str_lines normalized) parser_new))"

section \<open>Applying hunks\<close>

definition added_lines :: "PatchLine list \<Rightarrow> string list" where
  "added_lines ls = List.map_filter (\<lambda>l. case l of PlAdd s \<Rightarrow> Some s | _ \<Rightarrow> None) ls"

definition removed_count :: "PatchLine list \<Rightarrow> nat" where
  "removed_count ls = length (filter (\<lambda>l. l = PlRemove) ls)"

definition as_isize :: "nat \<Rightarrow> int" where
  "as_isize n = (if n < 2 ^ 63 then int n else int n - 2 ^ 64)"

definition apply_hunk :: "Hunk \<Rightarrow> string list \<times> int \<Rightarrow> string list \<times> int" where
  "apply_hunk hunk state =
     (case state of (lines, offset) \<Rightarrow>
        let start = nat (max (as_isize (hk_old_start hunk) + offset - 1) 0);
            add_lines = added_lines (hk_lines hunk);
            remove_count = removed_count (hk_lines hunk);
            insert_pos = min start (length lines);
            lines = (if insert_pos + remove_count \<le> length lines
                     then take insert_pos lines @ drop (insert_pos + remove_count) lines else lines)
        in (take insert_pos lines @ add_lines @ drop insert_pos lines,
            offset + int (length add_lines) - int remove_count))"

definition apply_hunks :: "string \<Rightarrow> Hunk list \<Rightarrow> string" where
  "apply_hunks original hunks = join [LF] (fst (fold apply_hunk hunks (str_lines original, 0)))"

section \<open>Changes\<close>

record FileChange =
  fc_relative_path :: string
  fc_source_path :: path
  fc_source_authority :: AuthorizedFilePath
  fc_move_target_path :: "path option"
  fc_move_target_authority :: "AuthorizedFilePath option"
  fc_operation :: PatchOperation
  fc_old_content :: string
  fc_new_content :: string
  fc_diff :: string

record file_metadata =
  fm_file_path :: string
  fm_relative_path :: string
  fm_type :: string
  fm_diff :: string
  fm_before :: string
  fm_after :: string
  fm_move_path :: "string option"

record edit_request =
  er_patterns :: "string list"
  er_scope_key :: string
  er_diff :: string
  er_filepath :: string
  er_files :: "file_metadata list"

datatype patch_effect =
    AskExternal external_request
  | AskEdit edit_request
  | CreateDirAll path
  | WriteFile path string
  | RemoveFile path
  | PublishBus string string "string option"
  | LspTouchFile string

type_synonym history = "patch_effect list"

record patch_env =
  pv_paths :: path_context
  pv_fs :: "history \<Rightarrow> filesystem"
  pv_read_to_string :: "history \<Rightarrow> path \<Rightarrow> string + string"
  pv_ask_permission :: "history \<Rightarrow> patch_effect \<Rightarrow> ToolError option"
  pv_io :: "history \<Rightarrow> patch_effect \<Rightarrow> string option"
  pv_lsp_touch_file :: "history \<Rightarrow> string \<Rightarrow> ToolError option"
  pv_diagnostics :: "history \<Rightarrow> string list \<Rightarrow> string"

type_synonym 'a patch_action = "(history, ToolError, 'a) action"

definition ask_user :: "patch_env \<Rightarrow> patch_effect \<Rightarrow> unit patch_action" where
  "ask_user env ev w = (case pv_ask_permission env w ev of None \<Rightarrow> Inr () | Some e \<Rightarrow> Inl e, w @ [ev])"

definition io :: "patch_env \<Rightarrow> string \<Rightarrow> patch_effect \<Rightarrow> unit patch_action" where
  "io env failure ev w = (case pv_io env w ev of None \<Rightarrow> Inr () | Some e \<Rightarrow> Inl (TeExecution (failure @ e)), w @ [ev])"

definition query :: "(history \<Rightarrow> ToolError + 'a) \<Rightarrow> 'a patch_action" where
  "query f w = (f w, w)"

definition resolve_existing :: "patch_env \<Rightarrow> path \<Rightarrow> AuthorizedFilePath patch_action" where
  "resolve_existing env p = query (\<lambda>w. ctx_resolve_existing (pv_paths env) (pv_fs env w) p)"

definition resolve_create :: "patch_env \<Rightarrow> path \<Rightarrow> AuthorizedFilePath patch_action" where
  "resolve_create env p = query (\<lambda>w. ctx_resolve_create (pv_paths env) (pv_fs env w) p)"

definition read_file :: "patch_env \<Rightarrow> path \<Rightarrow> string patch_action" where
  "read_file env p = query (\<lambda>w. map_err (\<lambda>e. TeExecution (''Failed to read file: '' @ e)) (pv_read_to_string env w p))"

definition authorize_external_file_path :: "patch_env \<Rightarrow> AuthorizedFilePath \<Rightarrow> unit patch_action" where
  "authorize_external_file_path env p =
     (case external_request_for p of None \<Rightarrow> act_return () | Some r \<Rightarrow> ask_user env (AskExternal r))"

definition process_file_patch ::
    "patch_env \<Rightarrow> path \<Rightarrow> FilePatch \<Rightarrow> AuthorizedFilePath \<Rightarrow> AuthorizedFilePath option \<Rightarrow> FileChange patch_action" where
  "process_file_patch env file_path patch source_authority move_target_authority =
     (let relative_path = fp_path patch;
          change = (\<lambda>old new diff.
            \<lparr>fc_relative_path = relative_path, fc_source_path = file_path, fc_source_authority = source_authority,
             fc_move_target_path = map_option af_operation_path move_target_authority,
             fc_move_target_authority = move_target_authority, fc_operation = fp_operation patch,
             fc_old_content = old, fc_new_content = new, fc_diff = diff\<rparr>);
          patch_lines = List.concat (map hk_lines (fp_hunks patch))
      in case fp_operation patch of
           OpAdd \<Rightarrow> act_return (change [] (join [LF] (added_lines patch_lines) @ [LF])
             (''--- /dev/null'' @ [LF] @ ''+++ b/'' @ relative_path @ [LF]
              @ join [LF] (map (\<lambda>l. case l of PlAdd s \<Rightarrow> ''+'' @ s | _ \<Rightarrow> []) patch_lines)))
         | OpDelete \<Rightarrow> act_bind (read_file env file_path) (\<lambda>old.
             act_return (change old []
               (''--- a/'' @ relative_path @ [LF] @ ''+++ /dev/null'' @ [LF]
                @ join [LF] (map (\<lambda>l. ''-'' @ l) (str_lines old)))))
         | _ \<Rightarrow> act_bind (read_file env file_path) (\<lambda>old.
             let new = apply_hunks old (fp_hunks patch)
             in act_return (change old new (generate_diff relative_path old new))))"

definition prepare_file_patch :: "patch_env \<Rightarrow> FilePatch \<Rightarrow> FileChange patch_action" where
  "prepare_file_patch env patch =
     (let base_path = pc_directory (pv_paths env);
          requested_source = path_join base_path (path_components (fp_path patch))
      in act_bind (if fp_operation patch = OpAdd then resolve_create env requested_source
                   else resolve_existing env requested_source) (\<lambda>source_authority.
         act_bind (authorize_external_file_path env source_authority) (\<lambda>_.
         act_bind (case fp_operation patch of
                     OpMove move_path \<Rightarrow>
                       act_bind (resolve_create env (path_join base_path (path_components move_path))) (\<lambda>target.
                       act_bind (authorize_external_file_path env target) (\<lambda>_. act_return (Some target)))
                   | _ \<Rightarrow> act_return None) (\<lambda>move_target_authority.
         process_file_patch env (af_operation_path source_authority) patch source_authority move_target_authority))))"

fun act_map :: "('a \<Rightarrow> ('w, 'e, 'b) action) \<Rightarrow> 'a list \<Rightarrow> ('w, 'e, 'b list) action" where
  "act_map f [] = act_return []"
| "act_map f (x # xs) = act_bind (f x) (\<lambda>y. act_bind (act_map f xs) (\<lambda>ys. act_return (y # ys)))"

definition change_metadata :: "FileChange \<Rightarrow> file_metadata" where
  "change_metadata c =
     (let (change_type, target) = (case fc_operation c of
            OpAdd \<Rightarrow> (''add'', fc_relative_path c) | OpUpdate \<Rightarrow> (''update'', fc_relative_path c)
          | OpDelete \<Rightarrow> (''delete'', fc_relative_path c) | OpMove move_path \<Rightarrow> (''move'', move_path))
      in \<lparr>fm_file_path = display_path (fc_source_authority c), fm_relative_path = target, fm_type = change_type,
          fm_diff = fc_diff c, fm_before = fc_old_content c, fm_after = fc_new_content c,
          fm_move_path = map_option display_path (fc_move_target_authority c)\<rparr>)"

definition total_diff :: "FileChange list \<Rightarrow> string" where
  "total_diff changes = List.concat (map (\<lambda>c. fc_diff c @ [LF]) changes)"

definition edit_request_for :: "FileChange list \<Rightarrow> edit_request" where
  "edit_request_for changes =
     (let relative_paths = map fc_relative_path changes
      in \<lparr>er_patterns = relative_paths, er_scope_key = ''workspace:batch:'' @ join '','' relative_paths,
          er_diff = total_diff changes, er_filepath = join '', '' relative_paths,
          er_files = map change_metadata changes\<rparr>)"

section \<open>Writing\<close>

definition create_parent :: "patch_env \<Rightarrow> path \<Rightarrow> unit patch_action" where
  "create_parent env p =
     (case parent p of
        Some q \<Rightarrow> io env ''Failed to create directory: '' (CreateDirAll q)
      | None \<Rightarrow> act_return ())"

definition unchanged_or_fail :: "bool \<Rightarrow> string \<Rightarrow> unit patch_action" where
  "unchanged_or_fail same message = (if same then act_return () else act_fail (TeExecution message))"

definition write_change :: "patch_env \<Rightarrow> FileChange \<Rightarrow> unit patch_action" where
  "write_change env c =
     (let file_path = fc_source_path c
      in case fc_operation c of
           OpAdd \<Rightarrow>
             act_bind (create_parent env file_path) (\<lambda>_.
             act_bind (resolve_create env file_path) (\<lambda>revalidated.
             act_bind (unchanged_or_fail (revalidated = fc_source_authority c)
               (''patch add target changed after authorization: '' @ path_display file_path)) (\<lambda>_.
             io env ''Failed to write file: '' (WriteFile file_path (fc_new_content c)))))
         | OpUpdate \<Rightarrow>
             act_bind (resolve_existing env file_path) (\<lambda>revalidated.
             act_bind (unchanged_or_fail (revalidated = fc_source_authority c)
               (''patch update target changed after authorization: '' @ path_display file_path)) (\<lambda>_.
             io env ''Failed to write file: '' (WriteFile file_path (fc_new_content c))))
         | OpDelete \<Rightarrow>
             act_bind (resolve_existing env file_path) (\<lambda>revalidated.
             act_bind (unchanged_or_fail (revalidated = fc_source_authority c)
               (''patch delete target changed after authorization: '' @ path_display file_path)) (\<lambda>_.
             io env ''Failed to delete file: '' (RemoveFile file_path)))
         | OpMove move_path \<Rightarrow>
             (case (fc_move_target_path c, fc_move_target_authority c) of
                (Some move_full_path, Some move_authority) \<Rightarrow>
                  act_bind (create_parent env move_full_path) (\<lambda>_.
                  act_bind (resolve_existing env file_path) (\<lambda>revalidated_source.
                  act_bind (resolve_create env move_full_path) (\<lambda>revalidated_target.
                  act_bind (unchanged_or_fail (revalidated_source = fc_source_authority c \<and> revalidated_target = move_authority)
                    (''patch move target changed after authorization: '' @ path_display file_path @ '' -> ''
                     @ path_display move_full_path)) (\<lambda>_.
                  act_bind (io env ''Failed to write file: '' (WriteFile move_full_path (fc_new_content c))) (\<lambda>_.
                  io env ''Failed to remove old file: '' (RemoveFile file_path))))))
              | _ \<Rightarrow> act_fail (TeExecution (''missing authorized move target for '' @ move_path))))"

definition edited_file :: "FileChange \<Rightarrow> string option" where
  "edited_file c = (case fc_operation c of OpDelete \<Rightarrow> None | OpMove p \<Rightarrow> Some p | _ \<Rightarrow> Some (fc_relative_path c))"

definition change_updates :: "FileChange \<Rightarrow> (string \<times> string) list" where
  "change_updates c =
     (case fc_operation c of
        OpAdd \<Rightarrow> [(fc_relative_path c, ''add'')] | OpUpdate \<Rightarrow> [(fc_relative_path c, ''change'')]
      | OpDelete \<Rightarrow> [(fc_relative_path c, ''unlink'')]
      | OpMove p \<Rightarrow> [(fc_relative_path c, ''unlink''), (p, ''add'')])"

definition summary_line :: "FileChange \<Rightarrow> string" where
  "summary_line c =
     (case fc_operation c of
        OpAdd \<Rightarrow> ''A '' @ fc_relative_path c | OpUpdate \<Rightarrow> ''M '' @ fc_relative_path c
      | OpDelete \<Rightarrow> ''D '' @ fc_relative_path c | OpMove p \<Rightarrow> ''M '' @ p)"

definition publish :: "patch_effect \<Rightarrow> unit patch_action" where
  "publish ev w = (Inr (), w @ [ev])"

definition lsp_touch :: "patch_env \<Rightarrow> string \<Rightarrow> unit patch_action" where
  "lsp_touch env p w = (case pv_lsp_touch_file env w p of None \<Rightarrow> Inr () | Some e \<Rightarrow> Inl e, w @ [LspTouchFile p])"

record patch_result =
  pr_output :: string
  pr_diff :: string
  pr_files :: "file_metadata list"

definition execute_patch :: "patch_regexes \<Rightarrow> patch_env \<Rightarrow> string \<Rightarrow> patch_result patch_action" where
  "execute_patch re env patch_text =
     (if trim patch_text = [] then act_fail (InvalidArguments ''patchText is required'')
      else let file_patches = parse_multi_file_patch re patch_text
           in if file_patches = [] then act_fail (TeExecution ''No valid hunks found in patch'')
              else
                act_bind (act_map (prepare_file_patch env) file_patches) (\<lambda>changes.
                act_bind (ask_user env (AskEdit (edit_request_for changes))) (\<lambda>_.
                act_bind (act_map (write_change env) changes) (\<lambda>_.
                let edited = List.map_filter edited_file changes in
                act_bind (act_map (\<lambda>p. publish (PublishBus ''file.edited'' p None)) edited) (\<lambda>_.
                act_bind (act_map (\<lambda>(p, e). publish (PublishBus ''file_watcher.updated'' p (Some e)))
                  (List.concat (map change_updates changes))) (\<lambda>_.
                act_bind (act_map (lsp_touch env) edited) (\<lambda>_.
                act_bind (query (\<lambda>w. Inr (pv_diagnostics env w edited))) (\<lambda>diagnostics.
                act_return
                  \<lparr>pr_output = ''Success. Updated the following files:'' @ [LF] @ join [LF] (map summary_line changes)
                     @ (if diagnostics = [] then [] else [LF, LF] @ diagnostics),
                   pr_diff = total_diff changes, pr_files = map change_metadata changes\<rparr>))))))))"

end
