(* ===== verification/Line_Diff_Properties.thy ===== *)
theory Line_Diff_Properties
  imports Line_Diff
begin

text \<open>
  What the differences mean: scripts lead from the old lines to the new ones with as few changes as
  possible, counts are exact, and hunks say where their lines are.
\<close>

section \<open>Longest common subsequences\<close>

fun lcs :: "'a list \<Rightarrow> 'a list \<Rightarrow> nat" where
  "lcs (x # xs) (y # ys) = (if x = y then Suc (lcs xs ys) else max (lcs xs (y # ys)) (lcs (x # xs) ys))"
| "lcs _ _ = 0"

lemma lcs_Nil [simp]: "lcs xs [] = 0" by (cases xs) simp_all

lemma lcs_upper: "subseq zs xs \<Longrightarrow> subseq zs ys \<Longrightarrow> length zs \<le> lcs xs ys"
proof (induction xs ys arbitrary: zs rule: lcs.induct)
  case (1 x xs y ys)
  show ?case
  proof (cases zs)
    case (Cons z zs')
    show ?thesis
    proof (cases "x = y")
      case True
      have "subseq zs' xs" "subseq zs' ys"
        using "1.prems" Cons by (auto simp: subseq_Cons2_iff split: if_splits dest: subseq_Cons')
      then show ?thesis using "1.IH"(1) [OF True] True Cons by simp
    next
      case False
      then consider "z \<noteq> x" | "z \<noteq> y" by auto
      then show ?thesis
      proof cases
        case 1
        then have "subseq zs xs" using "1.prems"(1) Cons by (simp add: subseq_Cons2_iff)
        then show ?thesis using "1.IH"(2) [OF False] "1.prems"(2) False by fastforce
      next
        case 2
        then have "subseq zs ys" using "1.prems"(2) Cons by (simp add: subseq_Cons2_iff)
        then show ?thesis using "1.IH"(3) [OF False] "1.prems"(1) False by fastforce
      qed
    qed
  qed simp
qed auto

lemma lcs_attained: "\<exists>zs. subseq zs xs \<and> subseq zs ys \<and> length zs = lcs xs ys"
proof (induction xs ys rule: lcs.induct)
  case (1 x xs y ys)
  show ?case
  proof (cases "x = y")
    case True
    then obtain zs where "subseq zs xs" "subseq zs ys" "length zs = lcs xs ys" using "1.IH"(1) by blast
    then show ?thesis using True by (intro exI [of _ "x # zs"]) simp
  next
    case False
    with "1.IH"(2,3) show ?thesis
      by (cases "lcs xs (y # ys) \<le> lcs (x # xs) ys") (auto simp: max_def intro: list_emb_Cons)
  qed
qed (auto intro: exI [of _ "[]"])

lemma lcs_eqI:
  assumes "\<And>zs. subseq zs xs \<and> subseq zs ys \<Longrightarrow> \<exists>zs'. subseq zs' xs' \<and> subseq zs' ys' \<and> length zs' = length zs"
    and "\<And>zs. subseq zs xs' \<and> subseq zs ys' \<Longrightarrow> \<exists>zs'. subseq zs' xs \<and> subseq zs' ys \<and> length zs' = length zs"
  shows "lcs xs ys = lcs xs' ys'"
  by (rule antisym) (metis assms lcs_attained lcs_upper)+

lemma lcs_commute: "lcs xs ys = lcs ys xs"
  by (rule lcs_eqI) auto

lemma subseq_rev: "subseq xs ys \<Longrightarrow> subseq (rev xs) (rev ys)"
  by (induction rule: list_emb.induct) (auto intro: list_emb_append_mono subseq_rev_drop_many)

lemma lcs_rev: "lcs (rev xs) (rev ys) = lcs xs ys"
  by (rule lcs_eqI) (metis length_rev subseq_rev rev_rev_ident)+

lemma lcs_le: "lcs xs ys \<le> length xs" "lcs xs ys \<le> length ys"
  using lcs_attained [of xs ys] by (metis list_emb_length)+

section \<open>The table\<close>

lemma cell_index_inject:
  assumes "j < w" "j' < w" "i * w + j = i' * w + (j' :: nat)"
  shows "i = i'" "j = j'"
proof -
  have "(i * w + j) div w = i" "(i' * w + j') div w = i'" using assms(1,2) by simp_all
  then show "i = i'" using assms(3) by simp
  then show "j = j'" using assms(3) by simp
qed

lemma cell_index_bound: "i < h \<Longrightarrow> j < w \<Longrightarrow> i * w + j < h * (w :: nat)"
  by (metis add.commute add_less_le_mono less_eq_Suc_le mult_Suc mult_le_mono1 order.strict_trans2 add_less_cancel_right)

text \<open>The cells behind position \<open>(i, j)\<close> in the order of filling hold the lengths for the remaining lines.\<close>

definition filled :: "string list \<Rightarrow> string list \<Rightarrow> nat \<Rightarrow> nat \<Rightarrow> u32 list \<Rightarrow> bool" where
  "filled old new i j dp \<longleftrightarrow> length dp = (length old + 1) * (length new + 1) \<and>
     (\<forall>k l. k \<le> length old \<longrightarrow> l \<le> length new \<longrightarrow> i < k \<or> i = k \<and> j \<le> l \<or> l = length new \<or> k = length old \<longrightarrow>
        unat (dp ! (k * (length new + 1) + l)) = lcs (drop k old) (drop l new))"

lemma filledD:
  assumes "filled old new i j dp" "k \<le> length old" "l \<le> length new"
    and "i < k \<or> i = k \<and> j \<le> l \<or> l = length new \<or> k = length old"
  shows "unat (dp ! (k * (length new + 1) + l)) = lcs (drop k old) (drop l new)"
  using assms unfolding filled_def by blast

lemma unat_max_u32: "unat (max a b :: u32) = max (unat a) (unat b)"
  by (auto simp: max_def word_le_nat_alt)

lemma lcs_cell_filled:
  assumes ok: "filled old new i (Suc j) dp" and "i < length old" "j < length new"
    and small: "length old * length new < 2 ^ 32"
  shows "filled old new i j (lcs_cell old new i j dp)"
proof -
  let ?w = "length new + 1"
  let ?v = "if old ! i = new ! j then dp ! ((i + 1) * ?w + j + 1) + 1
                     else max (dp ! ((i + 1) * ?w + j)) (dp ! (i * ?w + j + 1))"
  have cells: "unat (dp ! ((i + 1) * ?w + j)) = lcs (drop (i + 1) old) (drop j new)"
    "unat (dp ! (i * ?w + (j + 1))) = lcs (drop i old) (drop (j + 1) new)"
    "unat (dp ! ((i + 1) * ?w + (j + 1))) = lcs (drop (i + 1) old) (drop (j + 1) new)"
    by (rule filledD [OF ok]; use assms(2,3) in simp)+
  have drops: "drop i old = old ! i # drop (i + 1) old" "drop j new = new ! j # drop (j + 1) new"
    using assms(2,3) by (simp_all add: Cons_nth_drop_Suc)
  have "lcs (drop (i + 1) old) (drop (j + 1) new) < length old"
    "lcs (drop (i + 1) old) (drop (j + 1) new) < length new"
    using lcs_le [of "drop (i + 1) old" "drop (j + 1) new"] assms(2,3) by auto
  moreover have "length old \<le> length old * length new" using assms(3) by (cases "length new") auto
  ultimately have "lcs (drop (i + 1) old) (drop (j + 1) new) + 1 < 2 ^ 32" using small by linarith
  then have succ: "unat (dp ! ((i + 1) * ?w + (j + 1)) + 1) = Suc (lcs (drop (i + 1) old) (drop (j + 1) new))"
    using cells(3) by (subst unat_word_ariths) simp
  have v: "unat ?v = lcs (drop i old) (drop j new)"
    unfolding drops using cells(1,2) succ drops
    by (auto simp: unat_max_u32 add.assoc max.commute)
  have len: "length dp = (length old + 1) * ?w" using ok by (simp add: filled_def)
  have bound: "i * ?w + j < length dp" unfolding len using cell_index_bound [of i "length old + 1" j ?w] assms(2,3) by simp
  show ?thesis
    unfolding filled_def
  proof (intro conjI allI impI)
    show "length (lcs_cell old new i j dp) = (length old + 1) * ?w" by (simp add: lcs_cell_def Let_def len)
    fix k l
    assume kl: "k \<le> length old" "l \<le> length new" "i < k \<or> i = k \<and> j \<le> l \<or> l = length new \<or> k = length old"
    show "unat (lcs_cell old new i j dp ! (k * ?w + l)) = lcs (drop k old) (drop l new)"
    proof (cases "k = i \<and> l = j")
      case True
      then show ?thesis using v bound unfolding lcs_cell_def Let_def by (simp only: nth_list_update_eq)
    next
      case False
      then have "i * ?w + j \<noteq> k * ?w + l"
        using cell_index_inject [of j ?w l i k] assms(3) kl(2) by auto
      moreover have "i < k \<or> i = k \<and> Suc j \<le> l \<or> l = length new \<or> k = length old" using kl(3) False by auto
      then have "unat (dp ! (k * ?w + l)) = lcs (drop k old) (drop l new)" using filledD [OF ok kl(1,2)] by blast
      ultimately show ?thesis by (simp add: lcs_cell_def Let_def)
    qed
  qed
qed

lemma lcs_row_filled:
  assumes "filled old new i (length new) dp" "i < length old" "length old * length new < 2 ^ 32" "n \<le> length new"
  shows "filled old new i (length new - n) (fold (lcs_cell old new i) (rev [length new - n..<length new]) dp)"
  using assms(4)
proof (induction n)
  case (Suc n)
  then have "[length new - Suc n..<length new] = (length new - Suc n) # [length new - n..<length new]"
    by (simp add: upt_conv_Cons Suc_diff_Suc)
  moreover have "Suc (length new - Suc n) = length new - n" using Suc.prems by simp
  ultimately show ?case
    using Suc lcs_cell_filled [OF _ assms(2) _ assms(3), where j = "length new - Suc n"] by (simp add: Suc_diff_Suc)
qed (use assms in simp)

lemma filled_next_row: "filled old new (Suc i) 0 dp \<Longrightarrow> filled old new i (length new) dp"
  unfolding filled_def by (metis Suc_leI le_antisym le_neq_implies_less zero_le)

lemma lcs_table_filled:
  assumes "length old * length new < 2 ^ 32"
  shows "filled old new 0 0 (lcs_table old new)"
proof -
  have start: "filled old new (length old) 0 (replicate ((length old + 1) * (length new + 1)) 0)"
  proof -
    have "k * (length new + 1) + l < (length old + 1) * (length new + 1)" if "k \<le> length old" "l \<le> length new" for k l
      using that cell_index_bound [of k "length old + 1" l "length new + 1"] by simp
    then have zero: "replicate ((length old + 1) * (length new + 1)) 0 ! (k * (length new + 1) + l) = (0 :: u32)"
      if "k \<le> length old" "l \<le> length new" for k l
      using that by (simp only: nth_replicate)
    then show ?thesis unfolding filled_def by (auto simp del: mult_Suc_right add_Suc_right simp: zero)
  qed
  have "filled old new (length old - n) 0
      (fold (\<lambda>i. fold (lcs_cell old new i) (rev [0..<length new])) (rev [length old - n..<length old])
        (replicate ((length old + 1) * (length new + 1)) 0))" if "n \<le> length old" for n
    using that
  proof (induction n)
    case (Suc n)
    then have "[length old - Suc n..<length old] = (length old - Suc n) # [length old - n..<length old]"
      by (simp add: upt_conv_Cons Suc_diff_Suc)
    moreover have "Suc (length old - Suc n) = length old - n" using Suc.prems by simp
    ultimately show ?case
      using Suc lcs_row_filled [OF filled_next_row _ assms order_refl, where i = "length old - Suc n"] by (simp add: Suc_diff_Suc)
  qed (use start in simp)
  from this [of "length old"] show ?thesis by (simp add: lcs_table_def)
qed

section \<open>Minimal scripts\<close>

fun line_of :: "DiffLine \<Rightarrow> string" where
  "line_of (EqualLine l) = l"
| "line_of (RemoveLine l) = l"
| "line_of (AddLine l) = l"

definition old_side :: "DiffLine list \<Rightarrow> string list" where
  "old_side ops = map line_of (filter consumes_old ops)"

definition new_side :: "DiffLine list \<Rightarrow> string list" where
  "new_side ops = map line_of (filter consumes_new ops)"

lemma side_simps [simp]:
  "old_side [] = []" "new_side [] = []"
  "old_side (EqualLine l # ops) = l # old_side ops" "new_side (EqualLine l # ops) = l # new_side ops"
  "old_side (RemoveLine l # ops) = l # old_side ops" "new_side (RemoveLine l # ops) = new_side ops"
  "old_side (AddLine l # ops) = old_side ops" "new_side (AddLine l # ops) = l # new_side ops"
  by (simp_all add: old_side_def new_side_def)

lemma lcs_walk_sides:
  assumes "i \<le> length old" "j \<le> length new"
  shows "old_side (lcs_walk old new dp i j) = drop i old \<and> new_side (lcs_walk old new dp i j) = drop j new"
  using assms
proof (induction old new dp i j rule: lcs_walk.induct)
  case (1 old new dp i j)
  note step = lcs_walk.simps [of old new dp i j]
  consider "\<not> (i < length old \<or> j < length new)"
    | "i < length old \<and> j < length new \<and> old ! i = new ! j"
    | "lcs_walk old new dp i j = RemoveLine (old ! i) # lcs_walk old new dp (i + 1) j" "i < length old"
        "\<not> (i < length old \<and> j < length new \<and> old ! i = new ! j)" "j = length new \<or>
          dp ! ((i + 1) * (length new + 1) + j) \<ge> dp ! (i * (length new + 1) + j + 1)"
    | "lcs_walk old new dp i j = AddLine (new ! j) # lcs_walk old new dp i (j + 1)" "j < length new"
        "\<not> (i < length old \<and> j < length new \<and> old ! i = new ! j)" "\<not> (i < length old \<and> (j = length new \<or>
          dp ! ((i + 1) * (length new + 1) + j) \<ge> dp ! (i * (length new + 1) + j + 1)))"
    using step "1.prems" by (auto split: if_splits)
  then show ?case
  proof cases
    case 1
    then show ?thesis using step \<open>j \<le> length new\<close> \<open>i \<le> length old\<close> by simp
  next
    case 2
    then have "old ! i # drop (Suc i) old = drop i old" "old ! i # drop (Suc j) new = drop j new"
      by (metis Cons_nth_drop_Suc)+
    then show ?thesis using 2 step "1.IH"(1) by simp
  next
    case 3
    then show ?thesis using "1.IH"(2) "1.prems" by (simp add: Cons_nth_drop_Suc)
  next
    case 4
    then show ?thesis using "1.IH"(3) "1.prems" by (simp add: Cons_nth_drop_Suc)
  qed
qed

lemma lcs_walk_equal:
  assumes "filled old new 0 0 dp" "i \<le> length old" "j \<le> length new"
  shows "count_if (\<lambda>x. \<not> is_change x) (lcs_walk old new dp i j) = lcs (drop i old) (drop j new)"
  using assms
proof (induction old new dp i j rule: lcs_walk.induct)
  case (1 old new dp i j)
  let ?d = "dp ! ((i + 1) * (length new + 1) + j)" and ?r = "dp ! (i * (length new + 1) + (j + 1))"
  show ?case
  proof (cases "i < length old \<and> j < length new")
    case False
    then have "lcs (drop i old) (drop j new) = 0" using "1.prems" by (cases "i < length old") auto
    then show ?thesis using 1 False by (subst lcs_walk.simps) (auto simp: count_if_def)
  next
    case True
    then have drops: "drop i old = old ! i # drop (i + 1) old" "drop j new = new ! j # drop (j + 1) new"
      by (simp_all add: Cons_nth_drop_Suc)
    have d: "unat ?d = lcs (drop (i + 1) old) (drop j new)"
      by (rule filledD [OF "1.prems"(1)]) (use True in auto)
    have r: "unat ?r = lcs (drop i old) (drop (j + 1) new)"
      by (rule filledD [OF "1.prems"(1)]) (use True in auto)
    show ?thesis
    proof (cases "old ! i = new ! j")
      case True
      then show ?thesis using 1 \<open>i < length old \<and> j < length new\<close> drops
        by (subst lcs_walk.simps) (simp add: count_if_def)
    next
      case False
      then have "lcs (drop i old) (drop j new) = max (unat ?d) (unat ?r)" using drops d r by simp
      moreover have "lcs_walk old new dp i j = (if ?d \<ge> ?r then RemoveLine (old ! i) # lcs_walk old new dp (i + 1) j
          else AddLine (new ! j) # lcs_walk old new dp i (j + 1))"
        using True False by (subst lcs_walk.simps) (simp add: add.assoc)
      ultimately show ?thesis
        using 1 True False d r by (auto simp: count_if_def word_le_nat_alt)
    qed
  qed
qed

lemma script_equal_le: "count_if (\<lambda>x. \<not> is_change x) ops \<le> lcs (old_side ops) (new_side ops)"
proof -
  let ?same = "map line_of (filter (\<lambda>x. \<not> is_change x) ops)"
  have "subseq ?same (old_side ops) \<and> subseq ?same (new_side ops)"
  proof (induction ops)
    case (Cons x ops)
    then show ?case by (cases x) auto
  qed simp
  then show ?thesis using lcs_upper [of ?same] by (simp add: count_if_def)
qed

lemma script_changes:
  "count_if is_change ops + 2 * count_if (\<lambda>x. \<not> is_change x) ops = length (old_side ops) + length (new_side ops)"
proof (induction ops)
  case (Cons x ops)
  then show ?case by (cases x) (auto simp: count_if_def)
qed (simp add: count_if_def)

text \<open>
  \<^bold>\<open>C28.\<close> The script of two texts within the table's bound leads from the old lines to the new ones, and no
  other script that does has fewer changed lines.
\<close>

theorem diff_is_minimal:
  assumes "length old * length new \<le> MAX_LCS_CELLS"
  shows "old_side (lcs_diff_lines old new) = old \<and> new_side (lcs_diff_lines old new) = new \<and>
    (\<forall>ops. old_side ops = old \<longrightarrow> new_side ops = new \<longrightarrow>
       count_if is_change (lcs_diff_lines old new) \<le> count_if is_change ops)"
proof -
  have "length old * length new < 2 ^ 32" using assms by (simp add: MAX_LCS_CELLS_def)
  then have equal: "count_if (\<lambda>x. \<not> is_change x) (lcs_diff_lines old new) = lcs old new"
    using lcs_walk_equal [OF lcs_table_filled, of old new 0 0] by (simp add: lcs_diff_lines_def)
  have sides: "old_side (lcs_diff_lines old new) = old" "new_side (lcs_diff_lines old new) = new"
    using lcs_walk_sides [of 0 old 0 new] by (simp_all add: lcs_diff_lines_def)
  moreover have "count_if is_change (lcs_diff_lines old new) \<le> count_if is_change ops"
    if "old_side ops = old" "new_side ops = new" for ops
    using script_changes [of "lcs_diff_lines old new"] script_changes [of ops] script_equal_le [of ops] equal sides that
    by simp
  ultimately show ?thesis by blast
qed

theorem diff_is_minimal_witness:
  "length [''a'', ''b''] * length [''b''] \<le> MAX_LCS_CELLS
   \<and> old_side (lcs_diff_lines [''a'', ''b''] [''b'']) = [''a'', ''b'']
   \<and> new_side (lcs_diff_lines [''a'', ''b''] [''b'']) = [''b'']
   \<and> count_if is_change (lcs_diff_lines [''a'', ''b''] [''b'']) \<le> 1"
proof -
  have cells: "length [''a'', ''b''] * length [''b''] \<le> MAX_LCS_CELLS" by (simp add: MAX_LCS_CELLS_def)
  have "count_if is_change [RemoveLine ''a'', EqualLine ''b''] = 1" by (simp add: count_if_def)
  then show ?thesis
    using cells diff_is_minimal [OF cells] by (auto dest!: spec [of _ "[RemoveLine ''a'', EqualLine ''b'']"])
qed

section \<open>Counts\<close>

lemma lcs_row_step:
  assumes "prev = map (\<lambda>j. lcs (rev xs) (rev (take j ys))) [n..<length ys + 1]" "n \<le> length ys"
    and "left = lcs (x # rev xs) (rev (take n ys))"
  shows "lcs_row x (drop n ys) left (hd prev) (tl prev)
     = map (\<lambda>j. lcs (x # rev xs) (rev (take j ys))) [n + 1..<length ys + 1]"
  using assms
proof (induction "length ys - n" arbitrary: n left prev)
  case 0
  then show ?case by simp
next
  case (Suc k)
  then have n: "n < length ys" by simp
  define rest where "rest = map (\<lambda>j. lcs (rev xs) (rev (take j ys))) [n + 1..<length ys + 1]"
  have prev: "prev = lcs (rev xs) (rev (take n ys)) # rest" using Suc.prems(1) n by (simp add: rest_def upt_conv_Cons del: upt_Suc)
  have rest: "rest = lcs (rev xs) (rev (take (n + 1) ys)) # tl rest" "hd rest = lcs (rev xs) (rev (take (n + 1) ys))"
    using n by (simp_all add: rest_def upt_conv_Cons del: upt_Suc)
  define cell where "cell = lcs (x # rev xs) (rev (take (n + 1) ys))"
  have take: "rev (take (n + 1) ys) = ys ! n # rev (take n ys)" using n by (simp add: take_Suc_conv_app_nth)
  have cell: "cell = (if x = ys ! n then hd prev + 1 else max left (hd rest))"
  proof -
    have "hd rest = lcs (rev xs) (ys ! n # rev (take n ys))" using rest(2) unfolding take .
    moreover have "hd prev = lcs (rev xs) (rev (take n ys))" using prev by simp
    ultimately show ?thesis unfolding cell_def take using Suc.prems(3) by (simp add: max.commute)
  qed
  have "lcs_row x (drop n ys) left (hd prev) (tl prev) = cell # lcs_row x (drop (n + 1) ys) cell (hd rest) (tl rest)"
  proof -
    have "drop n ys = ys ! n # drop (n + 1) ys" using n by (simp add: Cons_nth_drop_Suc)
    moreover have "tl prev = hd rest # tl rest" using prev rest(1) by (metis list.sel(1,3))
    ultimately show ?thesis using cell by (simp only: lcs_row.simps(1) Let_def)
  qed
  also have "lcs_row x (drop (n + 1) ys) cell (hd rest) (tl rest)
      = map (\<lambda>j. lcs (x # rev xs) (rev (take j ys))) [n + 2..<length ys + 1]"
    using Suc.hyps(1) [of "n + 1" rest cell] Suc.hyps(2) n rest_def cell_def by simp
  finally show ?case using n by (simp add: cell_def upt_conv_Cons del: upt_Suc)
qed

lemma lcs_rows:
  "fold (lcs_next_row ys) xs (replicate (length ys + 1) 0) = map (\<lambda>j. lcs (rev xs) (rev (take j ys))) [0..<length ys + 1]"
proof (induction xs rule: rev_induct)
  case Nil
  then show ?case by (simp add: map_replicate_const del: upt_Suc)
next
  case (snoc x xs)
  show ?case
    using lcs_row_step [of _ xs ys 0 0 x, OF refl]
    by (simp only: fold_append o_apply fold_simps snoc.IH) (simp add: lcs_next_row_def upt_conv_Cons del: upt_Suc)
qed

lemma lcs_length_correct: "lcs_length a b = lcs a b"
proof -
  have "last (fold (lcs_next_row ys) xs (replicate (length ys + 1) 0)) = lcs xs ys" for xs ys :: "'a list"
    unfolding lcs_rows by (simp add: lcs_rev)
  then show ?thesis by (simp add: lcs_length_def lcs_commute)
qed

text \<open>
  \<^bold>\<open>Note.\<close> The counts of a revert are exact: additions and deletions are the numbers of added and removed
  lines of a minimal script between the two texts, and no subtraction wraps.
\<close>

theorem count_line_changes_exact:
  assumes "length (str_lines old) < 2 ^ 64" "length (str_lines new) < 2 ^ 64"
  shows "unat (fst (count_line_changes old new)) + lcs (str_lines old) (str_lines new) = length (str_lines new) \<and>
    unat (snd (count_line_changes old new)) + lcs (str_lines old) (str_lines new) = length (str_lines old)"
proof -
  have same: "lcs xs xs = length xs" for xs :: "string list" by (induction xs) auto
  have sub: "unat (of_nat n - of_nat k :: u64) = n - k" if "k \<le> n" "n < 2 ^ 64" for n k
  proof -
    have "(of_nat n - of_nat k :: u64) = of_nat (n - k)" using that(1) by (simp add: of_nat_diff)
    then show ?thesis using that(2) by (simp only: unat_of_nat) simp
  qed
  note le = lcs_le [of "str_lines old" "str_lines new"]
  consider "old = new" | "old \<noteq> new" "str_lines old = []" | "old \<noteq> new" "str_lines old \<noteq> []" "str_lines new = []"
    | "old \<noteq> new" "str_lines old \<noteq> []" "str_lines new \<noteq> []" by blast
  then show ?thesis
  proof cases
    case 4
    then have "count_line_changes old new = (of_nat (length (str_lines new)) - of_nat (lcs (str_lines old) (str_lines new)),
        of_nat (length (str_lines old)) - of_nat (lcs (str_lines old) (str_lines new)))"
      by (simp add: count_line_changes_def Let_def lcs_length_correct)
    then show ?thesis
      using le sub [OF le(2) assms(2)] sub [OF le(1) assms(1)] by simp
  qed (use assms in \<open>simp_all add: count_line_changes_def same unat_of_nat\<close>)
qed

section \<open>Hunks\<close>

lemma count_if_append [simp]: "count_if P (xs @ ys) = count_if P xs + count_if P ys"
  by (simp add: count_if_def)

lemma take_segment: "a \<le> b \<Longrightarrow> take b xs = take a xs @ segment xs a b"
  by (metis le_add_diff_inverse segment_def take_add)

lemma segment_append:
  assumes "a \<le> b" "b \<le> c"
  shows "segment xs a c = segment xs a b @ segment xs b c"
proof -
  obtain m n where "b = a + m" "c = a + (m + n)" using assms by (metis le_Suc_ex add.assoc)
  then show ?thesis by (simp add: segment_def take_add drop_drop add.commute)
qed

lemma drop_segment: "a \<le> b \<Longrightarrow> drop a xs = segment xs a b @ drop b xs"
  by (metis append_take_drop_id drop_drop le_add_diff_inverse2 segment_def)

lemma segment_nth: "segment xs a b = map (nth xs) [a..<min b (length xs)]"
  by (rule nth_equalityI) (auto simp: segment_def nth_upt less_diff_conv add.commute)

lemma no_change_segment:
  "filter is_change (segment ops a b) = [] \<longleftrightarrow> (\<forall>k. a \<le> k \<longrightarrow> k < b \<longrightarrow> k < length ops \<longrightarrow> \<not> is_change (ops ! k))"
  by (auto simp: segment_nth filter_empty_conv)

lemma scan_changes_gap:
  assumes "xs = drop scan ops" "last_change < length ops" "\<forall>k. last_change < k \<longrightarrow> k < scan \<longrightarrow> k < length ops \<longrightarrow> \<not> is_change (ops ! k)"
  shows "scan_changes xs scan last_change < length ops \<and>
    (\<forall>k. scan_changes xs scan last_change < k \<longrightarrow> k \<le> scan_changes xs scan last_change + DIFF_CONTEXT_LINES \<longrightarrow>
       k < length ops \<longrightarrow> \<not> is_change (ops ! k))"
  using assms
proof (induction xs scan last_change rule: scan_changes.induct)
  case (1 scan last_change)
  then show ?case by (auto simp: DIFF_CONTEXT_LINES_def)
next
  case (2 x xs scan last_change)
  have "scan < length ops" using "2.prems"(1) by (metis drop_all list.distinct(1) not_le_imp_less)
  then have x: "x = ops ! scan" "xs = drop (scan + 1) ops" "scan < length ops"
    using "2.prems"(1) Cons_nth_drop_Suc [of scan ops] by (metis list.inject Suc_eq_plus1)+
  show ?case
  proof (cases "is_change x")
    case True
    then show ?thesis using "2.IH"(1) [OF True x(2,3)] by simp
  next
    case False
    show ?thesis
    proof (cases "scan - last_change > DIFF_CONTEXT_LINES")
      case True
      then show ?thesis using False "2.prems"(2,3) by auto
    next
      case near: False
      have "\<forall>k. last_change < k \<longrightarrow> k < scan + 1 \<longrightarrow> k < length ops \<longrightarrow> \<not> is_change (ops ! k)"
        using "2.prems"(3) False x(1) by (auto simp: less_Suc_eq)
      then show ?thesis using "2.IH"(2) [OF False near x(2) "2.prems"(2)] False near by simp
    qed
  qed
qed

text \<open>A hunk shows consecutive lines of the script under a header with their positions.\<close>

definition hunk_of :: "DiffLine list \<Rightarrow> DiffHunk \<Rightarrow> bool" where
  "hunk_of ops h \<longleftrightarrow> (\<exists>a b. dh_lines h = segment ops a b \<and>
     dh_old_count h = count_if consumes_old (dh_lines h) \<and> dh_new_count h = count_if consumes_new (dh_lines h) \<and>
     dh_old_start h = hunk_start_line (count_if consumes_old (take a ops)) (dh_old_count h) \<and>
     dh_new_start h = hunk_start_line (count_if consumes_new (take a ops)) (dh_new_count h))"

lemma count_before: "a \<le> b \<Longrightarrow> count_if P (take b ops) - count_if P (segment ops a b) = count_if P (take a ops)"
  by (simp add: take_segment)

lemma unified_hunks_ok:
  assumes "index \<le> length ops" "old_before = count_if consumes_old (take index ops)"
    and "new_before = count_if consumes_new (take index ops)"
    and "index = length ops \<or> filter is_change (segment ops (index - DIFF_CONTEXT_LINES) index) = []"
  shows "(\<forall>h\<in>set (unified_hunks ops index old_before new_before). hunk_of ops h) \<and>
    List.concat (map (filter is_change \<circ> dh_lines) (unified_hunks ops index old_before new_before)) = filter is_change (drop index ops)"
  using assms
proof (induction "length ops - index" arbitrary: index old_before new_before rule: less_induct)
  case less
  define same where "same = takeWhile (\<lambda>x. \<not> is_change x) (drop index ops)"
  define i where "i = index + length same"
  have same: "same = segment ops index i"
    by (simp add: same_def i_def segment_def takeWhile_eq_take [symmetric])
  have same_none: "filter is_change same = []" by (auto simp: same_def filter_empty_conv dest: set_takeWhileD)
  have "length same \<le> length (drop index ops)" unfolding same_def by (rule length_takeWhile_le)
  then have i: "index \<le> i" "i \<le> length ops" using less.prems(1) by (simp_all add: i_def)
  have ob: "old_before + count_if consumes_old same = count_if consumes_old (take i ops)"
    and nb: "new_before + count_if consumes_new same = count_if consumes_new (take i ops)"
    using less.prems(2,3) take_segment [OF i(1), of ops] same by simp_all
  show ?case
  proof (cases "i = length ops")
    case True
    then have "unified_hunks ops index old_before new_before = []"
      by (subst unified_hunks.simps) (simp add: Let_def same_def [symmetric] i_def [symmetric])
    moreover have "drop index ops = same" using drop_segment [OF i(1), of ops] same True by simp
    ultimately show ?thesis using same_none by simp
  next
    case False
    then have lt: "i < length ops" using i(2) by simp
    define last_change where "last_change = scan_changes (drop i ops) i i"
    define e where "e = min (Suc (last_change + DIFF_CONTEXT_LINES)) (length ops)"
    define st where "st = i - DIFF_CONTEXT_LINES"
    define h where "h = \<lparr>dh_old_start = hunk_start_line (count_if consumes_old (take st ops)) (count_if consumes_old (segment ops st e)),
      dh_old_count = count_if consumes_old (segment ops st e),
      dh_new_start = hunk_start_line (count_if consumes_new (take st ops)) (count_if consumes_new (segment ops st e)),
      dh_new_count = count_if consumes_new (segment ops st e), dh_lines = segment ops st e\<rparr>"
    have from_i: "i \<le> last_change" by (simp add: last_change_def scan_changes_ge)
    have gap: "last_change < length ops" "\<And>k. last_change < k \<Longrightarrow> k \<le> last_change + DIFF_CONTEXT_LINES \<Longrightarrow>
        k < length ops \<Longrightarrow> \<not> is_change (ops ! k)"
      using scan_changes_gap [OF refl lt, of i] by (auto simp: last_change_def)
    have e: "i \<le> e" "e \<le> length ops" "st \<le> i" using from_i lt by (auto simp: e_def st_def)
    have ie: "i < e" using from_i lt by (simp add: e_def)
    have rest: "unified_hunks ops index old_before new_before =
        h # unified_hunks ops e (count_if consumes_old (take e ops)) (count_if consumes_new (take e ops))"
      using lt ob nb take_segment [OF e(1), of ops] count_before [OF e(3), of _ ops]
      by (subst unified_hunks.simps)
        (simp add: Let_def same_def [symmetric] i_def [symmetric] last_change_def [symmetric] e_def [symmetric]
          st_def [symmetric] h_def)
    have next_ok: "e = length ops \<or> filter is_change (segment ops (e - DIFF_CONTEXT_LINES) e) = []"
    proof (cases "e = length ops")
      case False
      then have "e = Suc (last_change + DIFF_CONTEXT_LINES)" by (simp add: e_def)
      then show ?thesis using gap(2) by (simp add: no_change_segment)
    qed simp
    have before: "filter is_change (segment ops st i) = []"
    proof -
      have "\<not> is_change (ops ! k)" if "st \<le> k" "k < i" for k
      proof (cases "k < index")
        case True
        then have "index \<noteq> length ops" using that lt i by simp
        then have "filter is_change (segment ops (index - DIFF_CONTEXT_LINES) index) = []" using less.prems(4) by simp
        then show ?thesis using that True i lt by (simp add: no_change_segment st_def)
      next
        case False
        then show ?thesis using same_none that lt unfolding same no_change_segment by simp
      qed
      then show ?thesis by (simp add: no_change_segment)
    qed
    have IH: "(\<forall>h\<in>set (unified_hunks ops e (count_if consumes_old (take e ops)) (count_if consumes_new (take e ops))). hunk_of ops h) \<and>
      List.concat (map (filter is_change \<circ> dh_lines) (unified_hunks ops e (count_if consumes_old (take e ops)) (count_if consumes_new (take e ops))))
        = filter is_change (drop e ops)"
      by (rule less.hyps [OF _ e(2) refl refl next_ok]) (use e(2) ie i(1) in linarith)
    have "hunk_of ops h" unfolding hunk_of_def by (rule exI [of _ st], rule exI [of _ e]) (simp add: h_def)
    moreover have "filter is_change (dh_lines h) @ filter is_change (drop e ops) = filter is_change (drop index ops)"
      using segment_append [OF e(3) e(1), of ops] drop_segment [OF i(1), of ops] drop_segment [OF e(1), of ops] before same same_none
      by (simp add: h_def)
    ultimately show ?thesis unfolding rest using IH by simp
  qed
qed

text \<open>The position before the lines of a hunk, as its header gives it.\<close>

definition lines_before :: "nat \<Rightarrow> nat \<Rightarrow> nat" where
  "lines_before start n = (if n = 0 then start else start - 1)"

lemma side_segment:
  assumes "\<And>ops. side ops = map line_of (filter P ops)"
  shows "take (count_if P (segment ops a b)) (drop (count_if P (take a ops)) (side ops)) = side (segment ops a b)"
proof -
  have "ops = take a ops @ segment ops a b @ drop (b - a) (drop a ops)"
    unfolding segment_def append_take_drop_id ..
  then have "side ops = side (take a ops) @ side (segment ops a b) @ side (drop (b - a) (drop a ops))"
    unfolding assms by (metis filter_append map_append)
  then show ?thesis by (simp add: assms count_if_def)
qed

text \<open>
  \<^bold>\<open>Note.\<close> The hunks of a script show every changed line once, in order, and the header of each says exactly
  where its old lines are in the old text and its new lines in the new one.
\<close>

theorem hunks_show_all_changes:
  "List.concat (map (filter is_change \<circ> dh_lines) (unified_hunks ops 0 0 0)) = filter is_change ops \<and>
   (\<forall>h\<in>set (unified_hunks ops 0 0 0).
      take (dh_old_count h) (drop (lines_before (dh_old_start h) (dh_old_count h)) (old_side ops)) = old_side (dh_lines h) \<and>
      take (dh_new_count h) (drop (lines_before (dh_new_start h) (dh_new_count h)) (new_side ops)) = new_side (dh_lines h))"
proof -
  have ok: "(\<forall>h\<in>set (unified_hunks ops 0 0 0). hunk_of ops h) \<and>
      List.concat (map (filter is_change \<circ> dh_lines) (unified_hunks ops 0 0 0)) = filter is_change ops"
    using unified_hunks_ok [of 0 ops 0 0] by (simp add: count_if_def segment_def)
  have "lines_before (hunk_start_line k n) n = k" for k n by (simp add: lines_before_def hunk_start_line_def)
  then have "take (dh_old_count h) (drop (lines_before (dh_old_start h) (dh_old_count h)) (old_side ops)) = old_side (dh_lines h) \<and>
      take (dh_new_count h) (drop (lines_before (dh_new_start h) (dh_new_count h)) (new_side ops)) = new_side (dh_lines h)"
    if "hunk_of ops h" for h
    using that side_segment [of old_side consumes_old, OF old_side_def, of ops]
      side_segment [of new_side consumes_new, OF new_side_def, of ops]
    by (auto simp: hunk_of_def)
  with ok show ?thesis by blast
qed

text \<open>
  Two changes that are four or five unchanged lines apart get hunks that overlap: the lines in between
  are shown twice.
\<close>

definition equal_lines :: "nat \<Rightarrow> DiffLine list" where
  "equal_lines n = map (\<lambda>i. EqualLine (show_nat i)) [0..<n]"

lemma hunks_overlap:
  "map (\<lambda>h. (dh_old_start h, dh_old_count h)) (unified_hunks ([RemoveLine ''a''] @ equal_lines 4 @ [RemoveLine ''b'']) 0 0 0)
     = [(1, 4), (3, 4)]"
  by code_simp

text \<open>
  Above the bound of the table the script starts in the middle of the text, but its hunks are counted from
  the first line: a change after a long common prefix is shown at line 1.
\<close>

lemma common_prefix_append: "a \<noteq> b \<Longrightarrow> common_prefix (pre @ a # xs) (pre @ b # ys) = length pre"
  by (induction pre) auto

lemma large_diff_at_line_one:
  assumes "a \<noteq> b" "length pre \<ge> 3" "(length pre + 1) * (length pre + 1) > MAX_LCS_CELLS"
  shows "map (\<lambda>h. (dh_old_start h, dh_new_start h)) (unified_hunks (diff_ops (pre @ [a]) (pre @ [b])) 0 0 0) = [(1, 1)]"
proof -
  obtain ys x y z where pre: "pre = ys @ [x, y, z]"
  proof -
    have "pre = take (length pre - 3) pre @ drop (length pre - 3) pre" by simp
    moreover have "length (drop (length pre - 3) pre) = 3" using assms(2) by simp
    ultimately show thesis using that by (metis (no_types) length_0_conv length_Suc_conv numeral_3_eq_3)
  qed
  have "trimmed_diff_lines (pre @ [a]) (pre @ [b]) = [EqualLine x, EqualLine y, EqualLine z, RemoveLine a, AddLine b]"
    unfolding trimmed_diff_lines_def common_prefix_append [OF assms(1), of pre "[]" "[]", simplified] Let_def
    using assms(1) by (simp add: pre segment_def DIFF_CONTEXT_LINES_def)
  moreover have "map (\<lambda>h. (dh_old_start h, dh_new_start h))
      (unified_hunks [EqualLine x, EqualLine y, EqualLine z, RemoveLine a, AddLine b] 0 0 0) = [(1, 1)]"
    by (subst unified_hunks.simps, subst unified_hunks.simps)
      (simp add: Let_def count_if_def segment_def DIFF_CONTEXT_LINES_def hunk_start_line_def)
  ultimately show ?thesis using assms(3) by (simp add: diff_ops_def)
qed

end
