(* ===== verification/Patch_Properties.thy ===== *)
theory Patch_Properties
  imports Patch Line_Diff_Properties
begin

text \<open>
  What the patch tool may do: it writes only what was shown and permitted, inside of the workspace or with
  a permission of its own; and which hunks are applied as a unified diff means them.
\<close>

section \<open>Hunks against the meaning of unified diffs\<close>

text \<open>The meaning of a hunk on the lines that follow its start: what it writes, and what is left.\<close>

fun run_hunk :: "PatchLine list \<Rightarrow> string list \<Rightarrow> string list \<times> string list" where
  "run_hunk [] rest = ([], rest)"
| "run_hunk (PlContext # ls) rest = (case run_hunk ls (tl rest) of (out, rest') \<Rightarrow> (take 1 rest @ out, rest'))"
| "run_hunk (PlRemove # ls) rest = run_hunk ls (tl rest)"
| "run_hunk (PlAdd s # ls) rest = (case run_hunk ls rest of (out, rest') \<Rightarrow> (s # out, rest'))"

definition consumed_count :: "PatchLine list \<Rightarrow> nat" where
  "consumed_count ls = length (filter (\<lambda>l. l = PlRemove \<or> l = PlContext) ls)"

text \<open>\<open>pos\<close> lines of the old text have been passed, \<open>rest\<close> are the others.\<close>

fun run_hunks :: "nat \<Rightarrow> Hunk list \<Rightarrow> string list \<Rightarrow> string list" where
  "run_hunks pos [] rest = rest"
| "run_hunks pos (h # hs) rest =
     (let gap = hk_old_start h - 1 - pos
      in case run_hunk (hk_lines h) (drop gap rest) of
           (out, rest') \<Rightarrow> take gap rest @ out @ run_hunks (pos + gap + consumed_count (hk_lines h)) hs rest')"

text \<open>Hunks in order, within the text.\<close>

fun hunks_fit :: "nat \<Rightarrow> Hunk list \<Rightarrow> nat \<Rightarrow> bool" where
  "hunks_fit pos [] n \<longleftrightarrow> True"
| "hunks_fit pos (h # hs) n \<longleftrightarrow>
     pos < hk_old_start h \<and> hk_old_start h < 2 ^ 63 \<and> hk_old_start h - 1 + consumed_count (hk_lines h) \<le> n \<and>
     hunks_fit (hk_old_start h - 1 + consumed_count (hk_lines h)) hs n"

text \<open>A hunk whose context, if any, comes after its changes.\<close>

definition changes_first :: "Hunk \<Rightarrow> bool" where
  "changes_first h \<longleftrightarrow> (\<exists>cs k. hk_lines h = cs @ replicate k PlContext \<and> PlContext \<notin> set cs)"

lemma added_lines_simps [simp]:
  "added_lines [] = []" "added_lines (PlContext # ls) = added_lines ls" "added_lines (PlRemove # ls) = added_lines ls"
  "added_lines (PlAdd s # ls) = s # added_lines ls"
  by (simp_all add: added_lines_def map_filter_simps)

lemma run_changes:
  "PlContext \<notin> set cs \<Longrightarrow> run_hunk (cs @ ls) rest =
     (case run_hunk ls (drop (removed_count cs) rest) of (out, rest') \<Rightarrow> (added_lines cs @ out, rest'))"
proof (induction cs arbitrary: rest)
  case (Cons c cs)
  then show ?case by (cases c) (auto simp: removed_count_def drop_Suc split: prod.splits)
qed (simp add: removed_count_def)

lemma run_context: "run_hunk (replicate k PlContext) rest = (take k rest, drop k rest)"
proof (induction k arbitrary: rest)
  case (Suc k)
  then show ?case by (cases rest) auto
qed simp

lemma changes_first_counts:
  assumes "hk_lines h = cs @ replicate k PlContext" "PlContext \<notin> set cs"
  shows "added_lines (hk_lines h) = added_lines cs" "removed_count (hk_lines h) = removed_count cs"
    "consumed_count (hk_lines h) = removed_count cs + k"
proof -
  have "added_lines (replicate k PlContext) = []" by (induction k) simp_all
  then show "added_lines (hk_lines h) = added_lines cs"
    unfolding assms(1) by (simp add: added_lines_def List.map_filter_def)
  have "filter (\<lambda>l. l = PlRemove \<or> l = PlContext) cs = filter (\<lambda>l. l = PlRemove) cs"
    using assms(2) by (induction cs) auto
  then show "removed_count (hk_lines h) = removed_count cs" "consumed_count (hk_lines h) = removed_count cs + k"
    unfolding assms(1) by (simp_all add: removed_count_def consumed_count_def)
qed

lemma apply_hunk_meaning:
  assumes "changes_first h" "pos < hk_old_start h" "hk_old_start h < 2 ^ 63"
    and "hk_old_start h - 1 - pos + consumed_count (hk_lines h) \<le> length rest"
    and "offset = int (length passed) - int pos"
    and run: "run_hunk (hk_lines h) (drop (hk_old_start h - 1 - pos) rest) = (out, rest')"
  shows "apply_hunk h (passed @ rest, offset) =
      ((passed @ take (hk_old_start h - 1 - pos) rest @ out) @ rest',
       int (length (passed @ take (hk_old_start h - 1 - pos) rest @ out)) - int (hk_old_start h - 1 + consumed_count (hk_lines h)))"
proof -
  obtain cs k where h: "hk_lines h = cs @ replicate k PlContext" "PlContext \<notin> set cs"
    using assms(1) by (auto simp: changes_first_def)
  note counts = changes_first_counts [OF h]
  define gap where "gap = hk_old_start h - 1 - pos"
  have start: "nat (max (as_isize (hk_old_start h) + offset - 1) 0) = length passed + gap"
    using assms(2,3,5) by (simp add: as_isize_def gap_def)
  have len: "gap + (removed_count cs + k) \<le> length rest" using assms(4) counts(3) by (simp add: gap_def)
  have out: "out = added_lines cs @ take k (drop (removed_count cs) (drop gap rest))"
    "rest' = drop k (drop (removed_count cs) (drop gap rest))"
    using run unfolding h(1) gap_def [symmetric] run_changes [OF h(2)] run_context by auto
  have lenout: "length out = length (added_lines cs) + k" using out(1) len by simp
  have pos: "min (length passed + gap) (length (passed @ rest)) = length passed + gap" using len by simp
  have tail: "take k (drop (gap + removed_count cs) rest) @ drop k (drop (gap + removed_count cs) rest) = drop (gap + removed_count cs) rest"
    by (rule append_take_drop_id)
  have offset: "offset + int (length (added_lines cs)) - int (removed_count cs)
      = int (length (passed @ take gap rest @ out)) - int (hk_old_start h - 1 + (removed_count cs + k))"
    using assms(2,5) lenout len by (simp add: gap_def)
  show ?thesis
    unfolding apply_hunk_def Let_def prod.case start counts pos gap_def [symmetric]
    using len offset tail out by (simp add: drop_drop add.commute add.left_commute)
qed

lemma fold_hunks_meaning:
  assumes "list_all changes_first hs" "hunks_fit pos hs (pos + length rest)" "offset = int (length passed) - int pos"
  shows "fst (fold apply_hunk hs (passed @ rest, offset)) = passed @ run_hunks pos hs rest"
  using assms
proof (induction hs arbitrary: pos passed rest offset)
  case (Cons h hs)
  define gap where "gap = hk_old_start h - 1 - pos"
  obtain out rest' where run: "run_hunk (hk_lines h) (drop gap rest) = (out, rest')" by fastforce
  have fit: "pos < hk_old_start h" "hk_old_start h < 2 ^ 63" "gap + consumed_count (hk_lines h) \<le> length rest"
    using Cons.prems(2) by (auto simp: gap_def)
  have pos': "hk_old_start h - 1 + consumed_count (hk_lines h) = pos + gap + consumed_count (hk_lines h)"
    using fit(1) by (simp add: gap_def)
  obtain cs k where h: "hk_lines h = cs @ replicate k PlContext" "PlContext \<notin> set cs"
    using Cons.prems(1) by (auto simp: changes_first_def)
  have "length rest' = length rest - (gap + consumed_count (hk_lines h))"
    using run unfolding h(1) run_changes [OF h(2)] run_context changes_first_counts(3) [OF h, folded h(1)]
    by (auto simp: changes_first_counts(3) [OF h, unfolded h(1)])
  then have total: "pos + gap + consumed_count (hk_lines h) + length rest' = pos + length rest" using fit(3) by simp
  have "hunks_fit (pos + gap + consumed_count (hk_lines h)) hs (pos + gap + consumed_count (hk_lines h) + length rest')"
    using Cons.prems(2) unfolding hunks_fit.simps pos' total by blast
  moreover have step: "apply_hunk h (passed @ rest, offset) = ((passed @ take gap rest @ out) @ rest',
      int (length (passed @ take gap rest @ out)) - int (pos + gap + consumed_count (hk_lines h)))"
    using apply_hunk_meaning [of h pos rest offset passed out rest', folded gap_def] Cons.prems(1,3) fit run
    unfolding pos' by simp
  moreover have "run_hunks pos (h # hs) rest = take gap rest @ out @ run_hunks (pos + gap + consumed_count (hk_lines h)) hs rest'"
    unfolding run_hunks.simps gap_def [symmetric] Let_def run by simp
  ultimately show ?case
    using Cons.IH [of "pos + gap + consumed_count (hk_lines h)" rest' _ "passed @ take gap rest @ out", OF _ _ refl] Cons.prems(1)
    by (simp only: fold_simps step list.pred_inject append_assoc)
qed simp


definition abc :: string where
  "abc = ''a'' @ [LF] @ ''b'' @ [LF] @ ''c'' @ [LF]"

lemma abc_lines [simp]: "str_lines abc = [''a'', ''b'', ''c'']"
  by code_simp


text \<open>
  Context is not: lines are removed and added at the start of the hunk, however many lines of context come
  first, and an insertion without context goes before the line it should follow. The end of the last line
  is dropped.
\<close>

lemma leading_context_misapplied:
  assumes "h = \<lparr>hk_old_start = 1, hk_old_count = 3, hk_new_start = 1, hk_new_count = 3,
        hk_lines = [PlContext, PlRemove, PlAdd ''B'', PlContext]\<rparr>"
  shows "run_hunks 0 [h] (str_lines abc) = [''a'', ''B'', ''c'']"
    and "apply_hunks abc [h] = ''B'' @ [LF] @ ''b'' @ [LF] @ ''c''"
  by (simp_all add: assms apply_hunks_def apply_hunk_def as_isize_def removed_count_def)

lemma insertion_one_line_early:
  assumes "h = \<lparr>hk_old_start = 1, hk_old_count = 0, hk_new_start = 2, hk_new_count = 1, hk_lines = [PlAdd ''x'']\<rparr>"
  shows "apply_hunks abc [h] = ''x'' @ [LF] @ ''a'' @ [LF] @ ''b'' @ [LF] @ ''c''"
  by (simp add: assms apply_hunks_def apply_hunk_def as_isize_def removed_count_def)

section \<open>Effects of an execution\<close>

text \<open>An action run on a history appends effects that are each fine after what came before.\<close>

definition runs :: "(history \<Rightarrow> patch_effect \<Rightarrow> bool) \<Rightarrow> 'a patch_action \<Rightarrow> history \<Rightarrow> bool" where
  "runs Q m w \<longleftrightarrow> (\<exists>evs. snd (m w) = w @ evs \<and> (\<forall>i<length evs. Q (w @ take i evs) (evs ! i)))"

lemma runsI: "m w = (r, w @ evs) \<Longrightarrow> (\<And>i. i < length evs \<Longrightarrow> Q (w @ take i evs) (evs ! i)) \<Longrightarrow> runs Q m w"
  by (auto simp: runs_def)

lemma runs_bind:
  assumes "runs Q m w" "\<And>x w'. m w = (Inr x, w') \<Longrightarrow> runs Q (f x) w'"
  shows "runs Q (act_bind m f) w"
proof -
  obtain r w1 where m: "m w = (r, w1)" by fastforce
  with assms(1) obtain evs where evs: "w1 = w @ evs" "\<And>i. i < length evs \<Longrightarrow> Q (w @ take i evs) (evs ! i)"
    unfolding runs_def by auto
  show ?thesis
  proof (cases r)
    case (Inl e)
    then show ?thesis using m evs by (intro runsI) (simp_all add: act_bind_def)
  next
    case (Inr x)
    then obtain evs' where f: "snd (f x w1) = w1 @ evs'" "\<And>i. i < length evs' \<Longrightarrow> Q (w1 @ take i evs') (evs' ! i)"
      using assms(2) m unfolding runs_def by blast
    have "snd (act_bind m f w) = w @ (evs @ evs')" using m evs(1) f(1) Inr by (simp add: act_bind_def)
    moreover have "Q (w @ take i (evs @ evs')) ((evs @ evs') ! i)" if "i < length (evs @ evs')" for i
      using evs f(2) [of "i - length evs"] that by (cases "i < length evs") (simp_all add: nth_append)
    ultimately show ?thesis unfolding runs_def by blast
  qed
qed

lemma runs_extends: "runs Q m w \<Longrightarrow> m w = (r, w') \<Longrightarrow> \<exists>evs. w' = w @ evs"
  by (auto simp: runs_def)

lemma runs_quiet [simp]:
  "runs Q (act_return x) w" "runs Q (act_fail e) w" "runs Q (query q) w" "runs Q (resolve_existing env p) w"
  "runs Q (resolve_create env p) w" "runs Q (read_file env p) w" "runs Q (unchanged_or_fail b msg) w"
  by (simp_all add: runs_def act_return_def act_fail_def query_def resolve_existing_def resolve_create_def read_file_def
      unchanged_or_fail_def)

lemma runs_effect:
  assumes "Q w ev"
  shows "runs Q (ask_user env ev) w" "runs Q (io env f ev) w" "runs Q (publish ev) w"
  by (rule runsI [where evs = "[ev]"]; simp add: ask_user_def io_def publish_def assms)+

lemma runs_touch: "Q w (LspTouchFile p) \<Longrightarrow> runs Q (lsp_touch env p) w"
  by (rule runsI [where evs = "[LspTouchFile p]"]; simp add: lsp_touch_def)

lemma runs_map: "(\<And>x v. x \<in> set xs \<Longrightarrow> runs Q (f x) (w @ v)) \<Longrightarrow> runs Q (act_map f xs) w"
proof (induction xs arbitrary: w)
  case (Cons x xs)
  have first: "runs Q (f x) w" using Cons.prems [of x "[]"] by simp
  have "runs Q (act_bind (act_map f xs) (\<lambda>ys. act_return (y # ys))) w'" if step: "f x w = (Inr y, w')" for y w'
  proof -
    obtain v where "w' = w @ v" using runs_extends [OF first step] by blast
    then have "runs Q (act_map f xs) w'" using Cons.IH [of w'] Cons.prems by simp
    then show ?thesis by (rule runs_bind) simp
  qed
  with first show ?case unfolding act_map.simps by (rule runs_bind)
qed simp

fun changes_files :: "patch_effect \<Rightarrow> bool" where
  "changes_files (CreateDirAll _) = True"
| "changes_files (WriteFile _ _) = True"
| "changes_files (RemoveFile _) = True"
| "changes_files _ = False"

text \<open>What has been granted, what a request shows, and where an effect may take place.\<close>

definition granted :: "patch_env \<Rightarrow> history \<Rightarrow> patch_effect \<Rightarrow> bool" where
  "granted env w ev \<longleftrightarrow> (\<exists>j<length w. w ! j = ev \<and> pv_ask_permission env (take j w) ev = None)"

definition names :: "file_metadata \<Rightarrow> path \<Rightarrow> bool" where
  "names m p \<longleftrightarrow> path_display p = fm_file_path m \<or> Some (path_display p) = fm_move_path m"

fun shown_in :: "edit_request \<Rightarrow> patch_effect \<Rightarrow> bool" where
  "shown_in req (WriteFile p content) \<longleftrightarrow> (\<exists>m\<in>set (er_files req). fm_after m = content \<and> names m p)"
| "shown_in req (RemoveFile p) \<longleftrightarrow>
     (\<exists>m\<in>set (er_files req). path_display p = fm_file_path m \<and> fm_type m \<in> {''delete'', ''move''})"
| "shown_in req (CreateDirAll q) \<longleftrightarrow> (\<exists>m\<in>set (er_files req). \<exists>p. parent p = Some q \<and> names m p)"
| "shown_in req _ \<longleftrightarrow> False"

fun target :: "patch_effect \<Rightarrow> path option" where
  "target (WriteFile p _) = Some p"
| "target (RemoveFile p) = Some p"
| "target _ = None"

definition place_ok :: "patch_env \<Rightarrow> history \<Rightarrow> path \<Rightarrow> bool" where
  "place_ok env w p \<longleftrightarrow>
     (\<exists>k\<le>length w. \<exists>r. fs_canonicalize (pv_fs env (take k w)) (pc_project_root (pv_paths env)) = Some r \<and> path_starts_with p r)
     \<or> (\<exists>x. granted env w (AskExternal x) \<and> xr_filepath x = path_display p)"

definition permitted :: "patch_env \<Rightarrow> history \<Rightarrow> patch_effect \<Rightarrow> bool" where
  "permitted env w ev \<longleftrightarrow>
     (\<exists>req. granted env w (AskEdit req) \<and> shown_in req ev) \<and> (\<forall>p. target ev = Some p \<longrightarrow> place_ok env w p)"

lemma granted_append: "granted env w ev \<Longrightarrow> granted env (w @ v) ev"
  unfolding granted_def by (metis (no_types, lifting) length_append less_imp_le_nat nth_append take_append trans_less_add1
      append_Nil2 diff_is_0_eq take0)

lemma place_append: "place_ok env w p \<Longrightarrow> place_ok env (w @ v) p"
  unfolding place_ok_def
  by (metis (no_types, lifting) granted_append le_add1 length_append order_trans take_append append_Nil2 diff_is_0_eq take0)

section \<open>Preparing changes\<close>

definition authorities :: "FileChange \<Rightarrow> AuthorizedFilePath list" where
  "authorities c = fc_source_authority c # (case fc_move_target_authority c of Some a \<Rightarrow> [a] | None \<Rightarrow> [])"

definition asked :: "patch_env \<Rightarrow> history \<Rightarrow> AuthorizedFilePath \<Rightarrow> bool" where
  "asked env w a \<longleftrightarrow> (\<forall>r. external_request_for a = Some r \<longrightarrow> granted env w (AskExternal r))"

definition change_ok :: "patch_env \<Rightarrow> history \<Rightarrow> FileChange \<Rightarrow> bool" where
  "change_ok env w c \<longleftrightarrow> fc_source_path c = af_operation_path (fc_source_authority c) \<and>
     fc_move_target_path c = map_option af_operation_path (fc_move_target_authority c) \<and> (\<forall>a\<in>set (authorities c). asked env w a)"

lemma asked_append: "asked env w a \<Longrightarrow> asked env (w @ v) a"
  by (simp add: asked_def granted_append)

lemma change_ok_append: "change_ok env w c \<Longrightarrow> change_ok env (w @ v) c"
  by (simp add: change_ok_def asked_append)

lemma authorize_asked:
  assumes "authorize_external_file_path env a w = (Inr x, w')"
  shows "asked env w' a \<and> (\<exists>v. w' = w @ v)"
proof (cases "external_request_for a")
  case None
  then show ?thesis using assms by (simp add: authorize_external_file_path_def act_return_def asked_def)
next
  case (Some r)
  then have "pv_ask_permission env w (AskExternal r) = None" "w' = w @ [AskExternal r]"
    using assms by (auto simp: authorize_external_file_path_def ask_user_def split: option.splits)
  then show ?thesis using Some by (auto simp: asked_def granted_def intro!: exI [of _ "length w"])
qed

lemma quiet_iff:
  "resolve_existing env p w = (r, w') \<longleftrightarrow> w' = w \<and> r = ctx_resolve_existing (pv_paths env) (pv_fs env w) p"
  "resolve_create env p w = (r, w') \<longleftrightarrow> w' = w \<and> r = ctx_resolve_create (pv_paths env) (pv_fs env w) p"
  "read_file env p w = (t, w') \<longleftrightarrow> w' = w \<and> t = map_err (\<lambda>e. TeExecution (''Failed to read file: '' @ e)) (pv_read_to_string env w p)"
  by (auto simp: query_def resolve_existing_def resolve_create_def read_file_def)

lemma process_result:
  assumes "process_file_patch env p patch a t w = (Inr c, w')"
  shows "w' = w \<and> fc_source_path c = p \<and> fc_source_authority c = a \<and> fc_move_target_authority c = t \<and>
    fc_move_target_path c = map_option af_operation_path t"
  using assms
  by (auto simp: process_file_patch_def Let_def res_simps quiet_iff split: PatchOperation.splits)

lemma prepare_ok:
  assumes "prepare_file_patch env patch w = (Inr c, w')"
  shows "change_ok env w' c \<and> (\<exists>v. w' = w @ v)"
proof -
  from assms obtain a w1 t w2 where a: "authorize_external_file_path env a w = (Inr (), w1)"
    and t: "(case fp_operation patch of
         OpMove move_path \<Rightarrow>
           act_bind (resolve_create env (path_join (pc_directory (pv_paths env)) (path_components move_path))) (\<lambda>target.
           act_bind (authorize_external_file_path env target) (\<lambda>_. act_return (Some target)))
       | _ \<Rightarrow> act_return None) w1 = (Inr t, w2)"
    and c: "process_file_patch env (af_operation_path a) patch a t w2 = (Inr c, w')"
    by (auto simp: prepare_file_patch_def Let_def res_simps quiet_iff split: if_splits)
  note a' = authorize_asked [OF a]
  have "(\<exists>v. w2 = w1 @ v) \<and> (\<forall>b. t = Some b \<longrightarrow> asked env w2 b)"
    using t by (auto simp: res_simps quiet_iff split: PatchOperation.splits dest!: authorize_asked)
  then obtain v where v: "w2 = w1 @ v" "\<And>b. t = Some b \<Longrightarrow> asked env w2 b" by blast
  have "asked env w2 a" using a' asked_append [of env w1 a v] v(1) by simp
  then show ?thesis using a' process_result [OF c] v
    by (auto simp: change_ok_def authorities_def split: option.splits)
qed

lemma prepare_all_ok:
  "act_map (prepare_file_patch env) ps w = (Inr cs, w') \<Longrightarrow> (\<forall>c\<in>set cs. change_ok env w' c) \<and> (\<exists>v. w' = w @ v)"
proof (induction ps arbitrary: w cs)
  case (Cons p ps)
  then obtain c w1 cs' where c: "prepare_file_patch env p w = (Inr c, w1)"
    and cs: "act_map (prepare_file_patch env) ps w1 = (Inr cs', w')" "cs = c # cs'"
    by (auto simp: res_simps)
  obtain v where v: "w' = w1 @ v" "\<forall>c\<in>set cs'. change_ok env w' c" using Cons.IH [OF cs(1)] by blast
  have "change_ok env w' c" using prepare_ok [OF c] change_ok_append [of env w1 c v] v(1) by simp
  then show ?case using prepare_ok [OF c] v cs(2) by auto
qed (simp add: res_simps)

lemma prepare_runs: "(\<And>w r. Q w (AskExternal r)) \<Longrightarrow> runs Q (prepare_file_patch env p) w"
proof -
  assume q: "\<And>w r. Q w (AskExternal r)"
  have ask: "runs Q (authorize_external_file_path env a) w" for a w
    by (simp add: authorize_external_file_path_def q runs_effect split: option.split)
  show ?thesis
    unfolding prepare_file_patch_def Let_def process_file_patch_def
    by (auto intro!: runs_bind ask split: PatchOperation.splits)
qed

section \<open>Writing changes\<close>

lemma metadata_names:
  assumes "change_ok env w c"
  shows "names (change_metadata c) (fc_source_path c)" "path_display (fc_source_path c) = fm_file_path (change_metadata c)"
    "fc_move_target_path c = Some p \<Longrightarrow> names (change_metadata c) p"
    "fm_after (change_metadata c) = fc_new_content c"
  using assms
  by (cases "fc_move_target_authority c";
      auto simp: change_ok_def names_def change_metadata_def Let_def display_path_def split: PatchOperation.splits)+

lemma metadata_type:
  "fc_operation c = OpDelete \<Longrightarrow> fm_type (change_metadata c) = ''delete''"
  "fc_operation c = OpMove p \<Longrightarrow> fm_type (change_metadata c) = ''move''"
  by (simp_all add: change_metadata_def)

lemma resolved_place:
  assumes "ctx_resolve_existing (pv_paths env) (pv_fs env w) p = Inr a \<or> ctx_resolve_create (pv_paths env) (pv_fs env w) p = Inr a"
    and "asked env w a"
  shows "place_ok env w (af_operation_path a)"
proof (cases "external_request_for a")
  case None
  then show ?thesis
    using workspace_paths_below_root [OF _ None] assms(1)
    unfolding ctx_resolve_existing_def ctx_resolve_create_def place_ok_def by (metis order_refl take_all_iff)
next
  case (Some r)
  then have "granted env w (AskExternal r)" using assms(2) by (simp add: asked_def)
  moreover have "xr_filepath r = path_display (af_operation_path a)"
    using Some by (auto simp: external_request_for_def Let_def display_path_def split: if_splits)
  ultimately show ?thesis unfolding place_ok_def by blast
qed

lemma unchanged_iff: "unchanged_or_fail b msg w = (Inr x, w') \<longleftrightarrow> b \<and> w' = w"
  by (auto simp: unchanged_or_fail_def act_return_def act_fail_def)

lemma io_Inr: "io env f ev w = (Inr x, w') \<Longrightarrow> w' = w @ [ev]"
  by (simp add: io_def)

definition allowed :: "patch_env \<Rightarrow> history \<Rightarrow> patch_effect \<Rightarrow> bool" where
  "allowed env w ev \<longleftrightarrow> (changes_files ev \<longrightarrow> permitted env w ev)"

lemma create_parent_runs:
  assumes "\<And>q. parent p = Some q \<Longrightarrow> Q w (CreateDirAll q)"
  shows "runs Q (create_parent env p) w"
  using assms by (auto simp: create_parent_def intro: runs_effect split: option.split)

lemma create_parent_extends: "create_parent env p w = (Inr x, w') \<Longrightarrow> \<exists>v. w' = w @ v"
  by (auto simp: create_parent_def io_def act_return_def split: option.splits)

lemma write_change_runs:
  assumes "granted env w (AskEdit (edit_request_for cs))" "c \<in> set cs" "change_ok env w c"
  shows "runs (allowed env) (write_change env c) w"
proof -
  have member: "change_metadata c \<in> set (er_files (edit_request_for cs))"
    using assms(2) by (simp add: edit_request_for_def Let_def)
  have fine: "allowed env (w @ v) ev"
    if "shown_in (edit_request_for cs) ev" "\<And>p. target ev = Some p \<Longrightarrow> place_ok env (w @ v) p" for v ev
    using that granted_append [OF assms(1)] by (auto simp: allowed_def permitted_def)
  have dir: "allowed env (w @ v) (CreateDirAll q)" if "parent p = Some q" "names (change_metadata c) p" for v p q
    using that member by (intro fine) auto
  have place: "place_ok env (w @ v) (af_operation_path a)"
    if "a \<in> set (authorities c)" "ctx_resolve_existing (pv_paths env) (pv_fs env (w @ v)) p = Inr a
        \<or> ctx_resolve_create (pv_paths env) (pv_fs env (w @ v)) p = Inr a" for a v p
    using resolved_place [OF that(2)] change_ok_append [OF assms(3), of v] that(1) by (simp add: change_ok_def)
  have source: "place_ok env (w @ v) (fc_source_path c)"
    if "ctx_resolve_existing (pv_paths env) (pv_fs env (w @ v)) p = Inr (fc_source_authority c)
        \<or> ctx_resolve_create (pv_paths env) (pv_fs env (w @ v)) p = Inr (fc_source_authority c)" for v p
    using place [OF _ that] assms(3) by (simp add: change_ok_def authorities_def)
  have written: "allowed env (w @ v) (WriteFile p (fc_new_content c))"
    if "names (change_metadata c) p" "place_ok env (w @ v) p" for v p
    using that member metadata_names(4) [OF assms(3)] by (intro fine) auto
  note nm = metadata_names [OF assms(3)]
  show ?thesis
  proof (cases "fc_operation c")
    case OpAdd
    then show ?thesis
      using dir [OF _ nm(1), of _ "[]"] written [OF nm(1) source]
      by (auto simp: write_change_def Let_def quiet_iff unchanged_iff intro!: runs_bind create_parent_runs runs_effect
          dest!: create_parent_extends) blast
  next
    case OpUpdate
    then show ?thesis
      using written [OF nm(1) source, of "[]"]
      by (auto simp: write_change_def Let_def quiet_iff unchanged_iff intro!: runs_bind runs_effect) blast
  next
    case OpDelete
    have "allowed env w (RemoveFile (fc_source_path c))"
      if "ctx_resolve_existing (pv_paths env) (pv_fs env w) (fc_source_path c) = Inr (fc_source_authority c)"
      using fine [of "RemoveFile (fc_source_path c)" "[]"] source [of "[]"] that member nm(2) metadata_type(1) [OF OpDelete] by auto
    then show ?thesis
      using OpDelete by (auto simp: write_change_def Let_def quiet_iff unchanged_iff intro!: runs_bind runs_effect)
  next
    case (OpMove mp)
    show ?thesis
    proof (cases "fc_move_target_authority c")
      case None
      then show ?thesis using OpMove assms(3) by (simp add: write_change_def change_ok_def)
    next
      case (Some a)
      then have a: "fc_move_target_path c = Some (af_operation_path a)" "a \<in> set (authorities c)"
        using assms(3) by (simp_all add: change_ok_def authorities_def)
      have remove: "allowed env ((w @ v) @ [x]) (RemoveFile (fc_source_path c))"
        if "ctx_resolve_existing (pv_paths env) (pv_fs env (w @ v)) (fc_source_path c) = Inr (fc_source_authority c)" for v x
        using fine [of "RemoveFile (fc_source_path c)" "v @ [x]"] place_append [OF source, of v _ "[x]"] that member nm(2)
          metadata_type(2) [OF OpMove] by auto
      show ?thesis
        using OpMove Some a dir [OF _ nm(3) [OF a(1)], of _ "[]"] written [OF nm(3) [OF a(1)] place [OF a(2)]] remove
        by (auto simp: write_change_def Let_def quiet_iff unchanged_iff intro!: runs_bind create_parent_runs runs_effect
            dest!: create_parent_extends io_Inr) blast
    qed
  qed
qed

text \<open>
  \<^bold>\<open>C8.\<close> The patch tool changes files only as permitted, whatever the file system, the user and the
  language server do: each write, removal or new directory comes after a granted request that shows the
  path and, for a write, the very content; and the path lies below the project root as resolved by the
  file system, or access outside was granted for it.
\<close>

theorem patch_effects_permitted:
  assumes "execute_patch re env patch_text [] = (r, effects)" and "i < length effects" and "changes_files (effects ! i)"
  shows "permitted env (take i effects) (effects ! i)"
proof -
  have "runs (allowed env) (execute_patch re env patch_text) []"
  proof -
    have writes: "runs (allowed env) (write_change env c) (w @ AskEdit (edit_request_for cs) # v)"
      if "act_map (prepare_file_patch env) ps [] = (Inr cs, w)" "pv_ask_permission env w (AskEdit (edit_request_for cs)) = None"
        "c \<in> set cs" for ps cs w c v
    proof (rule write_change_runs [OF _ that(3)])
      show "granted env (w @ AskEdit (edit_request_for cs) # v) (AskEdit (edit_request_for cs))"
        using that(2) unfolding granted_def by (intro exI [of _ "length w"]) simp
      show "change_ok env (w @ AskEdit (edit_request_for cs) # v) c"
        using prepare_all_ok [OF that(1)] change_ok_append that(3) by blast
    qed
    show ?thesis
      unfolding execute_patch_def Let_def
      by (auto simp: allowed_def ask_user_def split: option.splits intro!: runs_bind runs_map prepare_runs runs_effect runs_touch writes)
  qed
  then show ?thesis using assms by (auto simp: runs_def allowed_def)
qed

section \<open>A concrete environment\<close>

definition sample_regexes :: patch_regexes where
  "sample_regexes = \<lparr>re_file_header = strip_prefix ''--- a/'', re_new_file_header = strip_prefix ''+++ b/'',
     re_hunk_header = (\<lambda>l. if starts_with l ''@@ '' then Some (''1'', None, ''1'', None) else None),
     re_rename_from = (\<lambda>_. None), re_rename_to = (\<lambda>_. None),
     re_begin_file = strip_prefix ''*** Begin File: '', re_delete_file = strip_prefix ''*** Delete File: '',
     re_end_patch = (\<lambda>l. l = ''*** End Patch''), re_move_to = strip_prefix ''*** Move To: ''\<rparr>"

definition sample_env :: patch_env where
  "sample_env = \<lparr>pv_paths = \<lparr>pc_directory = [RootDir, Normal ''w''], pc_project_root = [RootDir, Normal ''w''],
       pc_violation_text = (\<lambda>_. [])\<rparr>,
     pv_fs = (\<lambda>_. \<lparr>fs_canonicalize = Some, fs_exists = (\<lambda>p. length p \<le> 2), fs_symlink_metadata = (\<lambda>_. False)\<rparr>),
     pv_read_to_string = (\<lambda>_ _. Inl ''missing''), pv_ask_permission = (\<lambda>_ _. None), pv_io = (\<lambda>_ _. None),
     pv_lsp_touch_file = (\<lambda>_ _. None), pv_diagnostics = (\<lambda>_ _. [])\<rparr>"

definition sample_patch :: string where
  "sample_patch = join [LF] [''*** Begin Patch'', ''*** Begin File: x'', ''hi'', ''*** End File'', ''*** End Patch'']"

theorem patch_effects_permitted_witness:
  "\<exists>effects. snd (execute_patch sample_regexes sample_env sample_patch []) = effects \<and>
     effects ! 2 = WriteFile [RootDir, Normal ''w'', Normal ''x''] (''hi'' @ [LF]) \<and>
     permitted sample_env (take 2 effects) (effects ! 2)"
proof -
  obtain r effects where run: "execute_patch sample_regexes sample_env sample_patch [] = (r, effects)" by fastforce
  have "snd (execute_patch sample_regexes sample_env sample_patch []) ! 2 = WriteFile [RootDir, Normal ''w'', Normal ''x''] (''hi'' @ [LF])
      \<and> length (snd (execute_patch sample_regexes sample_env sample_patch [])) = 6"
    by code_simp
  then have "effects ! 2 = WriteFile [RootDir, Normal ''w'', Normal ''x''] (''hi'' @ [LF])" "2 < length effects" using run by simp_all
  then show ?thesis using patch_effects_permitted [OF run, of 2] run by simp
qed

text \<open>
  A file of a model's patch that is not closed before the next one is created with an empty line instead
  of its content. In a unified diff without \<open>diff\<close> lines the header of the next file drops the file before it.
\<close>

lemma unclosed_file_loses_content:
  "parse_model_lines sample_regexes
     [''*** Begin Patch'', ''*** Begin File: x'', ''hi'', ''*** Begin File: y'', ''ho'', ''*** End File''] model_new
   = [\<lparr>fp_path = ''x'', fp_operation = OpAdd, fp_hunks = []\<rparr>,
      \<lparr>fp_path = ''y'', fp_operation = OpAdd, fp_hunks = [content_hunk [''ho'']]\<rparr>]"
  by code_simp

lemma plain_diff_drops_file:
  assumes "pp_current st = Some file" "fp_hunks file \<noteq> []" "pp_hunk st = None" "pp_rename_from st = None"
    and "pp_old_path st = Some p" "p \<noteq> ''/dev/null''" "p \<noteq> []"
  shows "flush_file st = pp_files st @ [file]"
    and "flush_file (new_file_header p st) = pp_files st"
  using assms by (simp_all add: flush_file_def push_hunk_def new_file_header_def)

end
