(* ===== verification/Framing.thy ===== *)
theory Framing
  imports Rust_Numbers
begin

text \<open>
  Messages to and from subprocesses (\<open>agendao-core/src/codec.rs\<close>, \<open>jsonrpc.rs\<close>): frames with a
  \<open>Content-Length\<close> header, and the kinds of JSON-RPC messages.

  \<^item> A reader is the list of bytes still to come, after which the stream ends. \<open>to_string\<close>, \<open>from_slice\<close> and the
    other functions of the JSON library are parameters.
\<close>

section \<open>Frames\<close>

datatype CodecError = CodecIo string | Serialize string | Protocol string | ConnectionClosed

text \<open>What a call gives: a value, an error, or a panic.\<close>

datatype 'v frame_result = Frame 'v | Failed CodecError | FramePanic

definition CRLF :: string where "CRLF = [CR, LF]"

definition frame_bytes :: "string \<Rightarrow> string" where
  "frame_bytes content = ''Content-Length: '' @ show_nat (length content) @ CRLF @ CRLF @ content"

text \<open>\<open>write_all\<close> appends to what has been written, or fails.\<close>

definition write_frame ::
    "('m \<Rightarrow> string + string) \<Rightarrow> (string \<Rightarrow> string option) \<Rightarrow> 'm \<Rightarrow> string \<Rightarrow> (CodecError + unit) \<times> string" where
  "write_frame to_string io_error message written =
     (case to_string message of
        Inl e \<Rightarrow> (Inl (Serialize e), written)
      | Inr content \<Rightarrow>
          let frame = frame_bytes content
          in case io_error frame of Some e \<Rightarrow> (Inl (CodecIo e), written) | None \<Rightarrow> (Inr (), written @ frame))"

fun read_line :: "string \<Rightarrow> string \<times> string" where
  "read_line [] = ([], [])"
| "read_line (c # s) = (if c = LF then ([c], s) else case read_line s of (l, rest) \<Rightarrow> (c # l, rest))"

lemma read_line_append: "read_line s = (l, rest) \<Longrightarrow> s = l @ rest"
  by (induction s arbitrary: l) (auto split: if_splits prod.splits)

text \<open>Well-formed UTF-8, which \<open>read_line\<close> asks of a line.\<close>

definition cont_byte :: "char \<Rightarrow> nat \<Rightarrow> nat \<Rightarrow> bool" where
  "cont_byte c lo hi \<longleftrightarrow> lo \<le> of_char c \<and> of_char c \<le> hi"

fun valid_utf8 :: "string \<Rightarrow> bool" where
  "valid_utf8 [] \<longleftrightarrow> True"
| "valid_utf8 (a # s) \<longleftrightarrow>
     (let n = of_char a :: nat
      in if n < 128 then valid_utf8 s
         else if 194 \<le> n \<and> n \<le> 223 then (case s of b # t \<Rightarrow> cont_byte b 128 191 \<and> valid_utf8 t | _ \<Rightarrow> False)
         else if 224 \<le> n \<and> n \<le> 239 then
           (case s of b # c # t \<Rightarrow>
              cont_byte b (if n = 224 then 160 else 128) (if n = 237 then 159 else 191) \<and> cont_byte c 128 191 \<and> valid_utf8 t
            | _ \<Rightarrow> False)
         else if 240 \<le> n \<and> n \<le> 244 then
           (case s of b # c # d # t \<Rightarrow>
              cont_byte b (if n = 240 then 144 else 128) (if n = 244 then 143 else 191) \<and> cont_byte c 128 191 \<and>
              cont_byte d 128 191 \<and> valid_utf8 t
            | _ \<Rightarrow> False)
         else False)"

function read_headers :: "nat option \<Rightarrow> string \<Rightarrow> (CodecError + nat option) \<times> string" where
  "read_headers content_length input =
     (case read_line input of (line, rest) \<Rightarrow>
        if line = [] then (Inl ConnectionClosed, rest)
        else if \<not> valid_utf8 line then (Inl (CodecIo ''stream did not contain valid UTF-8''), rest)
        else let trimmed = trim line
             in if trimmed = [] then (Inr content_length, rest)
                else case strip_prefix ''Content-Length:'' trimmed of
                       Some v \<Rightarrow>
                         (case parse_int (trim v) of
                            Inr n \<Rightarrow> read_headers (Some n) rest
                          | Inl e \<Rightarrow> (Inl (Protocol (''invalid Content-Length: '' @ parse_int_error_text e)), rest))
                     | None \<Rightarrow> read_headers content_length rest)"
  by pat_completeness auto
termination
  by (relation "measure (\<lambda>(_, input). length input)") (auto dest!: read_line_append [OF sym])

declare read_headers.simps [simp del]

text \<open>A buffer of more than \<open>isize::MAX\<close> bytes cannot be allocated: the attempt panics.\<close>

definition read_frame :: "(string \<Rightarrow> string + 'v) \<Rightarrow> string \<Rightarrow> 'v frame_result \<times> string" where
  "read_frame from_slice input =
     (case read_headers None input of
        (Inl e, rest) \<Rightarrow> (Failed e, rest)
      | (Inr None, rest) \<Rightarrow> (Failed (Protocol ''missing Content-Length header''), rest)
      | (Inr (Some len), rest) \<Rightarrow>
          if len \<ge> 2 ^ 63 then (FramePanic, rest)
          else if length rest < len then (Failed (CodecIo ''early eof''), [])
          else (case from_slice (take len rest) of
                  Inr v \<Rightarrow> (Frame v, drop len rest)
                | Inl e \<Rightarrow> (Failed (Serialize e), drop len rest)))"

section \<open>JSON-RPC messages\<close>

record 'v JsonRpcError =
  je_code :: i64
  je_message :: string
  je_data :: "'v option"

record 'v JsonRpcRequest =
  jq_jsonrpc :: string
  jq_id :: u64
  jq_method :: string
  jq_params :: "'v option"

record 'v JsonRpcResponse =
  jp_jsonrpc :: string
  jp_id :: u64
  jp_result :: "'v option"
  jp_error :: "'v JsonRpcError option"

record 'v JsonRpcNotification =
  jn_jsonrpc :: string
  jn_method :: string
  jn_params :: "'v option"

datatype 'v JsonRpcMessage = Response "'v JsonRpcResponse" | Notification "'v JsonRpcNotification"

record 'v rpc_json =
  rj_get :: "'v \<Rightarrow> string \<Rightarrow> 'v option"
  rj_response :: "'v \<Rightarrow> string + 'v JsonRpcResponse"
  rj_notification :: "'v \<Rightarrow> string + 'v JsonRpcNotification"
  rj_from_str :: "string \<Rightarrow> string + 'v"

definition request_new :: "u64 \<Rightarrow> string \<Rightarrow> 'v option \<Rightarrow> 'v JsonRpcRequest" where
  "request_new i method params = \<lparr>jq_jsonrpc = ''2.0'', jq_id = i, jq_method = method, jq_params = params\<rparr>"

definition notification_new :: "string \<Rightarrow> 'v option \<Rightarrow> 'v JsonRpcNotification" where
  "notification_new method params = \<lparr>jn_jsonrpc = ''2.0'', jn_method = method, jn_params = params\<rparr>"

definition rpc_error :: "i64 \<Rightarrow> string \<Rightarrow> 'v JsonRpcError" where
  "rpc_error code message = \<lparr>je_code = code, je_message = message, je_data = None\<rparr>"

definition from_value :: "'v rpc_json \<Rightarrow> 'v \<Rightarrow> 'v JsonRpcError + 'v JsonRpcMessage" where
  "from_value js v =
     (if rj_get js v ''id'' \<noteq> None then
        (case rj_response js v of
           Inr r \<Rightarrow> Inr (Response r)
         | Inl e \<Rightarrow> Inl (rpc_error (- 32700) (''Failed to parse response: '' @ e)))
      else if rj_get js v ''method'' \<noteq> None then
        (case rj_notification js v of
           Inr n \<Rightarrow> Inr (Notification n)
         | Inl e \<Rightarrow> Inl (rpc_error (- 32700) (''Failed to parse notification: '' @ e)))
      else Inl (rpc_error (- 32600) (''Invalid JSON-RPC message: missing both '' @ [CHR 0x27] @ ''id'' @ [CHR 0x27] @ '' and ''
        @ [CHR 0x27] @ ''method'' @ [CHR 0x27])))"

definition parse_json :: "'v rpc_json \<Rightarrow> string \<Rightarrow> 'v JsonRpcError + 'v JsonRpcMessage" where
  "parse_json js s =
     (case rj_from_str js s of
        Inl e \<Rightarrow> Inl (rpc_error (- 32700) (''Parse error: '' @ e))
      | Inr v \<Rightarrow> from_value js v)"

fun is_progress_notification :: "'v JsonRpcMessage \<Rightarrow> bool" where
  "is_progress_notification (Notification n) \<longleftrightarrow> jn_method n = ''notifications/progress'' \<or> jn_method n = ''$/progress''"
| "is_progress_notification _ \<longleftrightarrow> False"

section \<open>Streams of frames\<close>

lemma read_line_LF: "LF \<notin> set l \<Longrightarrow> read_line (l @ LF # s) = (l @ [LF], s)"
  by (induction l) auto

lemma read_line_last: "LF \<notin> set l \<Longrightarrow> read_line l = (l, [])"
  by (induction l) auto

lemma ascii_valid: "list_all (\<lambda>c. of_char c < (128 :: nat)) s \<Longrightarrow> valid_utf8 s"
  by (induction s) (auto simp: Let_def)

lemma digits_plain:
  "c \<in> set (show_nat n) \<Longrightarrow> c \<noteq> LF \<and> of_char c < (128 :: nat)"
  using show_nat_digits [of n] digit_no_space [of c] by (auto simp: list_all_iff LF_def ws1_def)

definition header :: "nat \<Rightarrow> string" where
  "header n = ''Content-Length: '' @ show_nat n"

lemma header_facts:
  "LF \<notin> set (header n @ [CR])" "valid_utf8 (header n @ CRLF)"
  using digits_plain [of _ n] by (auto simp: header_def LF_def CR_def CRLF_def list_all_iff intro!: ascii_valid)

lemma trim_header: "trim (header n @ CRLF) = header n"
proof -
  obtain t d where d: "show_nat n = t @ [d]" by (cases "show_nat n" rule: rev_cases) auto
  then have "is_digit d" using show_nat_digits [of n] by simp
  then have "trim_rev (d # s) = d # s" for s using digit_no_space trim_rev_stop by blast
  then have "trim_end (header n @ CRLF) = header n"
    by (simp add: trim_end_def header_def CRLF_def d trim_rev_space ws1_def CR_def LF_def)
  moreover have "trim_start (header n @ CRLF) = header n @ CRLF"
    by (simp add: header_def trim_start_stop ws1_def)
  ultimately show ?thesis by (simp add: trim_def)
qed

lemma trim_blank: "trim [CR] = []" "trim CRLF = []"
  by (simp_all add: trim_def trim_end_def CRLF_def trim_start_space ws1_def CR_def LF_def)
    (simp_all add: trim_start.simps trim_rev.simps ws_len_def ws_end_len_def)

lemma read_length:
  assumes "n < 2 ^ 64"
  shows "read_headers k (header n @ CRLF @ s) = read_headers (Some n) s"
proof -
  have "read_line (header n @ CRLF @ s) = (header n @ CRLF, s)"
    using read_line_LF [OF header_facts(1), of n s] by (simp add: CRLF_def)
  moreover have "strip_prefix ''Content-Length:'' (header n) = Some ('' '' @ show_nat n)"
    by (simp add: strip_prefix_Some_iff header_def)
  moreover have "header n \<noteq> []" by (simp add: header_def)
  ultimately show ?thesis
    using parse_int_show_nat [OF assms] trim_show_nat [of n] header_facts(2) [of n] trim_header [of n]
    by (subst read_headers.simps) simp
qed

lemma read_blank: "read_headers k (CRLF @ s) = (Inr k, s)"
proof -
  have "read_line (CRLF @ s) = (CRLF, s)" by (simp add: CRLF_def CR_def LF_def)
  moreover have "valid_utf8 CRLF" by (rule ascii_valid) (simp add: CRLF_def CR_def LF_def)
  ultimately show ?thesis using trim_blank(2) by (subst read_headers.simps) (simp add: CRLF_def)
qed

lemma read_frame_of:
  assumes "length c < 2 ^ 63" "from_slice c = Inr v"
  shows "read_frame from_slice (frame_bytes c @ rest) = (Frame v, rest)"
proof -
  have "read_headers None (frame_bytes c @ rest) = (Inr (Some (length c)), c @ rest)"
    using read_length [of "length c" None "CRLF @ c @ rest"] read_blank [of _ "c @ rest"] assms(1)
    by (simp add: frame_bytes_def header_def)
  then show ?thesis using assms by (simp add: read_frame_def)
qed

fun read_frames :: "(string \<Rightarrow> string + 'v) \<Rightarrow> nat \<Rightarrow> string \<Rightarrow> 'v frame_result list \<times> string" where
  "read_frames from_slice 0 input = ([], input)"
| "read_frames from_slice (Suc n) input =
     (case read_frame from_slice input of (r, rest) \<Rightarrow>
      case read_frames from_slice n rest of (rs, rest') \<Rightarrow> (r # rs, rest'))"

lemma read_headers_closed: "read_headers k [] = (Inl ConnectionClosed, [])"
  by (subst read_headers.simps) simp

lemma no_line_fails: "LF \<notin> set p \<Longrightarrow> \<exists>e. fst (read_headers k p) = Inl e \<or> read_headers k p = (Inr k, [])"
  using read_headers.simps [of k p]
  by (auto simp: read_line_last read_headers_closed Let_def split: option.splits sum.splits if_splits)



text \<open>The length of a frame is taken from the header unchecked, so a peer can make the reader panic.\<close>

lemma huge_length_panics: "read_frame from_slice (header (2 ^ 63) @ CRLF @ CRLF) = (FramePanic, [])"
  using read_length [of "2 ^ 63" None CRLF] read_blank [of "Some (2 ^ 63)" "[]"] by (simp add: read_frame_def)

text \<open>A request of the server has an id, so it is taken for a response to a request of the client.\<close>

lemma server_request_is_response:
  assumes "rj_get js v ''id'' \<noteq> None" "rj_get js v ''method'' \<noteq> None" "rj_response js v = Inr r"
  shows "from_value js v = Inr (Response r)"
  using assms by (simp add: from_value_def)

end
