(* ===== verification/Session_Data.thy ===== *)
theory Session_Data
  imports Rust_Strings Sandbox_Policy Task_Ledger
begin

text \<open>
  Sessions and their messages (\<open>agendao-types/src/message.rs\<close>, \<open>session.rs\<close>, and the type \<open>Session\<close> of
  \<open>agendao-session/src/session.rs\<close> with \<open>session_fork_metadata.rs\<close>).

  \<open>DateTime<Utc>\<close> is a number of nanoseconds since the epoch. JSON values are of a type \<open>'v\<close>; what the
  code asks of \<open>serde_json\<close>, \<open>uuid\<close>, \<open>chrono\<close> and of floating-point addition is the environment. \<open>sv_clock env i\<close>
  is the \<open>i\<close>-th reading of the clock within an operation, \<open>sv_uuid env i\<close> and \<open>sv_simple env i\<close> its
  \<open>i\<close>-th random identifier with and without hyphens. An \<open>f64\<close> is its bit pattern.
\<close>

section \<open>Environment\<close>

type_synonym DateTime = int
type_synonym f64 = "64 word"

record 'v session_env =
  sv_clock :: "nat \<Rightarrow> DateTime"
  sv_uuid :: "nat \<Rightarrow> string"
  sv_simple :: "nat \<Rightarrow> string"
  sv_rfc3339 :: "DateTime \<Rightarrow> string"
  sv_is_rfc3339 :: "string \<Rightarrow> bool"
  sv_from_millis :: "i64 \<Rightarrow> DateTime option"
  sv_bool :: "bool \<Rightarrow> 'v"
  sv_as_bool :: "'v \<Rightarrow> bool option"
  sv_string :: "string \<Rightarrow> 'v"
  sv_as_str :: "'v \<Rightarrow> string option"
  sv_variant :: "'v \<Rightarrow> string option"
  sv_usize :: "nat \<Rightarrow> 'v"
  sv_as_usize :: "'v \<Rightarrow> nat option"
  sv_cost_add :: "f64 \<Rightarrow> f64 \<Rightarrow> f64"
  sv_runtime :: bool

text \<open>
  A value written is read back; a string is the name of the unit variant it spells
  (\<open>sv_variant\<close> is the name of the variant of a field-less enum that \<open>from_value\<close> sees in a value).
\<close>

definition session_env_ok :: "'v session_env \<Rightarrow> bool" where
  "session_env_ok env \<longleftrightarrow> (\<forall>b. sv_as_bool env (sv_bool env b) = Some b)
     \<and> (\<forall>s. sv_as_str env (sv_string env s) = Some s)
     \<and> (\<forall>s. sv_variant env (sv_string env s) = Some s)
     \<and> (\<forall>n. n < 2 ^ 64 \<longrightarrow> sv_as_usize env (sv_usize env n) = Some n)"

lemma session_env_okD:
  assumes "session_env_ok env"
  shows "sv_as_bool env (sv_bool env b) = Some b" "sv_as_str env (sv_string env s) = Some s"
    "sv_variant env (sv_string env s) = Some s"
    "n < 2 ^ 64 \<Longrightarrow> sv_as_usize env (sv_usize env n) = Some n"
  using assms by (simp_all add: session_env_ok_def)

definition timestamp_millis :: "DateTime \<Rightarrow> i64" where
  "timestamp_millis t = t div 1000000"

type_synonym 'v metadata = "string \<rightharpoonup> 'v"

section \<open>Messages\<close>

datatype FilePartSource =
    SourceFile string "string \<times> int \<times> int"
  | SourceSymbol string string int "(int \<times> int) \<times> (int \<times> int)" "string \<times> int \<times> int"
  | SourceResource string string "string \<times> int \<times> int"

record FilePart =
  fpt_id :: string
  fpt_session_id :: string
  fpt_message_id :: string
  fpt_mime :: string
  fpt_url :: string
  fpt_filename :: "string option"
  fpt_source :: "FilePartSource option"

datatype 'v ToolState =
    TsPending 'v string
  | TsRunning 'v "string option" "(string \<Rightarrow> 'v option) option" i64
  | TsCompleted 'v string string "string \<Rightarrow> 'v option" i64 i64 "i64 option" "FilePart list option"
  | TsError 'v string "(string \<Rightarrow> 'v option) option" i64 i64

datatype ToolCallStatus = TcPending | TcRunning | TcCompleted | TcError

datatype 'v PartType =
    PtText string "bool option" "bool option"
  | PtToolCall string string 'v ToolCallStatus "string option" "'v ToolState option"
  | PtToolResult string string bool "string option" "(string \<Rightarrow> 'v option) option" "'v list option"
  | PtReasoning string
  | PtFile string string string
  | PtStepStart string string
  | PtStepFinish string "string option"
  | PtSnapshot string
  | PtPatch string string string
  | PtRetry u32 string
  | PtCompaction string

datatype MessageRole = RoleUser | RoleAssistant | RoleSystem | RoleTool

record 'v MessagePart =
  mp_id :: string
  mp_part_type :: "'v PartType"
  mp_created_at :: DateTime
  mp_message_id :: "string option"

record MessageUsage =
  mu_input_tokens :: u64
  mu_output_tokens :: u64
  mu_reasoning_tokens :: u64
  mu_cache_write_tokens :: u64
  mu_cache_read_tokens :: u64
  mu_cache_miss_tokens :: u64
  mu_context_tokens :: u64
  mu_total_cost :: f64

definition request_context_tokens :: "MessageUsage \<Rightarrow> u64 option" where
  "request_context_tokens u =
     (let tokens = max (mu_context_tokens u) (mu_input_tokens u) in if 0 < tokens then Some tokens else None)"

definition message_live_context_tokens :: "MessageUsage \<Rightarrow> u64 option" where
  "message_live_context_tokens u = request_context_tokens u"

record 'v SessionMessage =
  sm_id :: string
  sm_session_id :: string
  sm_role :: MessageRole
  sm_parts :: "'v MessagePart list"
  sm_created_at :: DateTime
  sm_metadata :: "'v metadata"
  sm_usage :: "MessageUsage option"
  sm_finish :: "string option"

subsection \<open>Where a message came from\<close>

datatype MessageSourceOrigin =
  OrOperator | OrScheduler | OrExternalTrigger | OrChildHandoff | OrImportedHistory | OrSystem

datatype MessageSourceSurface =
  SfCli | SfTui | SfWeb | SfHttpApi | SfUnixSocket | SfDirect | SfExternalAdapter

datatype MessageAdmissionContext = AdAuthenticated | AdAnonymous | AdInternal | AdExternal

datatype MessageAuthorityClass = AcUser | AcSystem | AcScheduler | AcExternalAdapter

fun origin_wire :: "MessageSourceOrigin \<Rightarrow> string" where
  "origin_wire OrOperator = ''operator''"
| "origin_wire OrScheduler = ''scheduler''"
| "origin_wire OrExternalTrigger = ''external_trigger''"
| "origin_wire OrChildHandoff = ''child_handoff''"
| "origin_wire OrImportedHistory = ''imported_history''"
| "origin_wire OrSystem = ''system''"

fun surface_wire :: "MessageSourceSurface \<Rightarrow> string" where
  "surface_wire SfCli = ''cli''"
| "surface_wire SfTui = ''tui''"
| "surface_wire SfWeb = ''web''"
| "surface_wire SfHttpApi = ''http_api''"
| "surface_wire SfUnixSocket = ''unix_socket''"
| "surface_wire SfDirect = ''direct''"
| "surface_wire SfExternalAdapter = ''external_adapter''"

fun admission_wire :: "MessageAdmissionContext \<Rightarrow> string" where
  "admission_wire AdAuthenticated = ''authenticated''"
| "admission_wire AdAnonymous = ''anonymous''"
| "admission_wire AdInternal = ''internal''"
| "admission_wire AdExternal = ''external''"

fun authority_wire :: "MessageAuthorityClass \<Rightarrow> string" where
  "authority_wire AcUser = ''user''"
| "authority_wire AcSystem = ''system''"
| "authority_wire AcScheduler = ''scheduler''"
| "authority_wire AcExternalAdapter = ''external_adapter''"

definition MESSAGE_SOURCE_ORIGIN_KEY :: string where "MESSAGE_SOURCE_ORIGIN_KEY = ''message_source.origin''"
definition MESSAGE_SOURCE_SURFACE_KEY :: string where "MESSAGE_SOURCE_SURFACE_KEY = ''message_source.surface''"
definition MESSAGE_ADMISSION_CONTEXT_KEY :: string where "MESSAGE_ADMISSION_CONTEXT_KEY = ''message_source.admission''"
definition MESSAGE_AUTHORITY_CLASS_KEY :: string where "MESSAGE_AUTHORITY_CLASS_KEY = ''message_source.authority_class''"

definition apply_message_source_metadata ::
    "'v session_env \<Rightarrow> MessageSourceOrigin \<Rightarrow> MessageSourceSurface \<Rightarrow> 'v metadata \<Rightarrow> 'v metadata" where
  "apply_message_source_metadata env origin surface md =
     md(MESSAGE_SOURCE_ORIGIN_KEY \<mapsto> sv_string env (origin_wire origin),
        MESSAGE_SOURCE_SURFACE_KEY \<mapsto> sv_string env (surface_wire surface))"

fun origin_to_admission_authority :: "MessageSourceOrigin \<Rightarrow> MessageAdmissionContext \<times> MessageAuthorityClass" where
  "origin_to_admission_authority OrOperator = (AdAuthenticated, AcUser)"
| "origin_to_admission_authority OrScheduler = (AdInternal, AcScheduler)"
| "origin_to_admission_authority OrExternalTrigger = (AdExternal, AcExternalAdapter)"
| "origin_to_admission_authority OrChildHandoff = (AdInternal, AcSystem)"
| "origin_to_admission_authority OrImportedHistory = (AdInternal, AcSystem)"
| "origin_to_admission_authority OrSystem = (AdInternal, AcSystem)"

definition apply_message_admission_metadata ::
    "'v session_env \<Rightarrow> MessageAdmissionContext \<Rightarrow> MessageAuthorityClass \<Rightarrow> 'v metadata \<Rightarrow> 'v metadata" where
  "apply_message_admission_metadata env admission authority md =
     md(MESSAGE_ADMISSION_CONTEXT_KEY \<mapsto> sv_string env (admission_wire admission),
        MESSAGE_AUTHORITY_CLASS_KEY \<mapsto> sv_string env (authority_wire authority))"

text \<open>Reading an enum back: the variant whose name is in the value.\<close>

definition read_variant :: "'v session_env \<Rightarrow> ('e \<Rightarrow> string) \<Rightarrow> 'e list \<Rightarrow> 'v \<Rightarrow> 'e option" where
  "read_variant env wire variants v =
     (case sv_variant env v of None \<Rightarrow> None | Some n \<Rightarrow> List.find (\<lambda>e. wire e = n) variants)"

definition message_source_origin :: "'v session_env \<Rightarrow> 'v metadata \<Rightarrow> MessageSourceOrigin option" where
  "message_source_origin env md = Option.bind (md MESSAGE_SOURCE_ORIGIN_KEY)
     (read_variant env origin_wire
        [OrOperator, OrScheduler, OrExternalTrigger, OrChildHandoff, OrImportedHistory, OrSystem])"

definition message_source_surface :: "'v session_env \<Rightarrow> 'v metadata \<Rightarrow> MessageSourceSurface option" where
  "message_source_surface env md = Option.bind (md MESSAGE_SOURCE_SURFACE_KEY)
     (read_variant env surface_wire [SfCli, SfTui, SfWeb, SfHttpApi, SfUnixSocket, SfDirect, SfExternalAdapter])"

definition message_admission_context :: "'v session_env \<Rightarrow> 'v metadata \<Rightarrow> MessageAdmissionContext option" where
  "message_admission_context env md = Option.bind (md MESSAGE_ADMISSION_CONTEXT_KEY)
     (read_variant env admission_wire [AdAuthenticated, AdAnonymous, AdInternal, AdExternal])"

definition message_authority_class :: "'v session_env \<Rightarrow> 'v metadata \<Rightarrow> MessageAuthorityClass option" where
  "message_authority_class env md = Option.bind (md MESSAGE_AUTHORITY_CLASS_KEY)
     (read_variant env authority_wire [AcUser, AcSystem, AcScheduler, AcExternalAdapter])"

subsection \<open>Operations on messages\<close>

text \<open>\<open>new_part env i\<close> takes the \<open>i\<close>-th identifier and the \<open>j\<close>-th reading of the clock.\<close>

definition new_part :: "'v session_env \<Rightarrow> nat \<Rightarrow> nat \<Rightarrow> 'v PartType \<Rightarrow> 'v MessagePart" where
  "new_part env i j t =
     \<lparr>mp_id = ''prt_'' @ sv_uuid env i, mp_part_type = t, mp_created_at = sv_clock env j, mp_message_id = None\<rparr>"

definition user_inner :: "'v session_env \<Rightarrow> string \<Rightarrow> string \<Rightarrow> 'v metadata \<Rightarrow> 'v SessionMessage" where
  "user_inner env session_id txt md =
     \<lparr>sm_id = ''msg_'' @ sv_uuid env 0, sm_session_id = session_id, sm_role = RoleUser,
      sm_parts = [new_part env 1 0 (PtText txt None None)], sm_created_at = sv_clock env 1,
      sm_metadata = md, sm_usage = None, sm_finish = None\<rparr>"

definition user_message :: "'v session_env \<Rightarrow> string \<Rightarrow> string \<Rightarrow> 'v SessionMessage" where
  "user_message env session_id txt = user_inner env session_id txt Map.empty"

definition user_with_source ::
    "'v session_env \<Rightarrow> string \<Rightarrow> string \<Rightarrow> MessageSourceOrigin \<Rightarrow> MessageSourceSurface \<Rightarrow> 'v SessionMessage" where
  "user_with_source env session_id txt origin surface =
     (let (admission, authority) = origin_to_admission_authority origin
      in user_inner env session_id txt
           (apply_message_admission_metadata env admission authority
              (apply_message_source_metadata env origin surface Map.empty)))"

definition empty_message :: "'v session_env \<Rightarrow> MessageRole \<Rightarrow> string \<Rightarrow> 'v SessionMessage" where
  "empty_message env role session_id =
     \<lparr>sm_id = ''msg_'' @ sv_uuid env 0, sm_session_id = session_id, sm_role = role, sm_parts = [],
      sm_created_at = sv_clock env 0, sm_metadata = Map.empty, sm_usage = None, sm_finish = None\<rparr>"

definition assistant_message :: "'v session_env \<Rightarrow> string \<Rightarrow> 'v SessionMessage" where
  "assistant_message env session_id = empty_message env RoleAssistant session_id"

definition tool_message :: "'v session_env \<Rightarrow> string \<Rightarrow> 'v SessionMessage" where
  "tool_message env session_id = empty_message env RoleTool session_id"

definition push_part :: "'v MessagePart \<Rightarrow> 'v SessionMessage \<Rightarrow> 'v SessionMessage" where
  "push_part p m = m\<lparr>sm_parts := sm_parts m @ [p]\<rparr>"

definition add_text :: "'v session_env \<Rightarrow> string \<Rightarrow> 'v SessionMessage \<Rightarrow> 'v SessionMessage" where
  "add_text env txt = push_part (new_part env 0 0 (PtText txt None None))"

fun synthetic_part :: "'v PartType \<Rightarrow> 'v PartType" where
  "synthetic_part (PtText txt synthetic ignored) = PtText txt (Some True) ignored"
| "synthetic_part t = t"

definition mark_text_parts_synthetic :: "'v SessionMessage \<Rightarrow> 'v SessionMessage" where
  "mark_text_parts_synthetic m =
     m\<lparr>sm_parts := map (\<lambda>p. p\<lparr>mp_part_type := synthetic_part (mp_part_type p)\<rparr>) (sm_parts m)\<rparr>"

definition add_file ::
    "'v session_env \<Rightarrow> nat \<Rightarrow> nat \<Rightarrow> string \<Rightarrow> string \<Rightarrow> string \<Rightarrow> 'v SessionMessage \<Rightarrow> 'v SessionMessage" where
  "add_file env i j url filename mime = push_part (new_part env i j (PtFile url filename mime))"

text \<open>\<open>parts.iter_mut().rev()\<close> with a return at the first part that matches.\<close>

definition update_last :: "('a \<Rightarrow> bool) \<Rightarrow> ('a \<Rightarrow> 'a) \<Rightarrow> 'a list \<Rightarrow> 'a list" where
  "update_last P f xs = rev (update_first P f (rev xs))"

fun is_reasoning :: "'v PartType \<Rightarrow> bool" where
  "is_reasoning (PtReasoning _) = True"
| "is_reasoning _ = False"

fun is_text :: "'v PartType \<Rightarrow> bool" where
  "is_text (PtText _ _ _) = True"
| "is_text _ = False"

fun push_str :: "string \<Rightarrow> 'v PartType \<Rightarrow> 'v PartType" where
  "push_str s (PtText txt synthetic ignored) = PtText (txt @ s) synthetic ignored"
| "push_str s (PtReasoning txt) = PtReasoning (txt @ s)"
| "push_str s t = t"

definition append_part ::
    "('v PartType \<Rightarrow> bool) \<Rightarrow> string \<Rightarrow> 'v MessagePart \<Rightarrow> 'v SessionMessage \<Rightarrow> 'v SessionMessage" where
  "append_part P s fresh m =
     (if \<exists>p\<in>set (sm_parts m). P (mp_part_type p)
      then m\<lparr>sm_parts := update_last (\<lambda>p. P (mp_part_type p))
               (\<lambda>p. p\<lparr>mp_part_type := push_str s (mp_part_type p)\<rparr>) (sm_parts m)\<rparr>
      else push_part fresh m)"

definition add_reasoning :: "'v session_env \<Rightarrow> string \<Rightarrow> 'v SessionMessage \<Rightarrow> 'v SessionMessage" where
  "add_reasoning env txt = append_part is_reasoning txt (new_part env 0 0 (PtReasoning txt))"

definition append_text :: "'v session_env \<Rightarrow> string \<Rightarrow> 'v SessionMessage \<Rightarrow> 'v SessionMessage" where
  "append_text env txt = append_part is_text txt (new_part env 0 0 (PtText txt None None))"

definition add_tool_call ::
    "'v session_env \<Rightarrow> string \<Rightarrow> string \<Rightarrow> 'v \<Rightarrow> 'v SessionMessage \<Rightarrow> 'v SessionMessage" where
  "add_tool_call env i name input = push_part (new_part env 0 0 (PtToolCall i name input TcRunning None None))"

definition message_add_tool_result ::
    "'v session_env \<Rightarrow> string \<Rightarrow> string \<Rightarrow> bool \<Rightarrow> 'v SessionMessage \<Rightarrow> 'v SessionMessage" where
  "message_add_tool_result env call content is_error =
     push_part (new_part env 0 0 (PtToolResult call content is_error None None None))"

definition set_text :: "'v session_env \<Rightarrow> string \<Rightarrow> 'v SessionMessage \<Rightarrow> 'v SessionMessage" where
  "set_text env txt m =
     add_text env txt (m\<lparr>sm_parts := filter (\<lambda>p. \<not> is_text (mp_part_type p)) (sm_parts m)\<rparr>)"

fun text_of :: "'v PartType \<Rightarrow> string option" where
  "text_of (PtText txt _ _) = Some txt"
| "text_of _ = None"

fun reasoning_of :: "'v PartType \<Rightarrow> string option" where
  "reasoning_of (PtReasoning txt) = Some txt"
| "reasoning_of _ = None"

definition get_text :: "'v SessionMessage \<Rightarrow> string" where
  "get_text m = join [] (List.map_filter (\<lambda>p. text_of (mp_part_type p)) (sm_parts m))"

definition get_reasoning :: "'v SessionMessage \<Rightarrow> string" where
  "get_reasoning m = join [] (List.map_filter (\<lambda>p. reasoning_of (mp_part_type p)) (sm_parts m))"

end
