(* ===== verification/Session_Record.thy ===== *)
theory Session_Record
  imports Session_Data
begin

text \<open>
  The session record and the operations of the type \<open>Session\<close> (\<open>agendao-session/src/session.rs\<close>), the
  metadata of forks (\<open>session_fork_metadata.rs\<close>) and the rows of the session list.
\<close>

section \<open>Data\<close>

record SessionFileDiff =
  sfd_path :: string
  sfd_additions :: u64
  sfd_deletions :: u64

record SessionSummary =
  ss_additions :: u64
  ss_deletions :: u64
  ss_files :: u64
  ss_diffs :: "SessionFileDiff list option"

record SessionRevert =
  rv_message_id :: string
  rv_part_id :: "string option"
  rv_snapshot :: "string option"
  rv_diff :: "string option"

record SessionPermissionRules =
  spr_allow :: "string list"
  spr_deny :: "string list"
  spr_mode :: SessionPermissionMode

record SessionTime =
  st_created :: i64
  st_updated :: i64
  st_compacting :: "i64 option"
  st_archived :: "i64 option"

record SessionUsage =
  su_input_tokens :: u64
  su_output_tokens :: u64
  su_reasoning_tokens :: u64
  su_cache_write_tokens :: u64
  su_cache_read_tokens :: u64
  su_cache_miss_tokens :: u64
  su_context_tokens :: u64
  su_total_cost :: f64

record WorkflowUsageSummary =
  wu_input_tokens :: u64
  wu_output_tokens :: u64
  wu_reasoning_tokens :: u64
  wu_cache_write_tokens :: u64
  wu_cache_read_tokens :: u64
  wu_cache_miss_tokens :: u64
  wu_total_cost :: f64

record SessionUsageBooks =
  ub_request_context_tokens :: "u64 option"
  ub_live_context_tokens :: "u64 option"
  ub_workflow_cumulative :: WorkflowUsageSummary

datatype SessionStatus = StActive | StCompleted | StArchived | StCompacting

datatype SessionContextKind = RootSessionContinuity | ExplicitFullHistoryFork

datatype SessionForkHistoryMode = HistoryNone | HistoryAll | HistoryLastN

datatype SessionHandoffMode = SelfContinuity | FullHistoryFork

datatype SessionProviderModelRole = RequestShapeOnly

datatype SessionWorkflowUsageRole = ObservationOnly

datatype SessionForkLifecycleScope = LocalOnly | ForkPromptSurface

record SessionOwnershipSummary =
  so_context_kind :: SessionContextKind
  so_handoff_mode :: SessionHandoffMode
  so_owns_prompt_continuity :: bool
  so_compact_owner :: bool
  so_provider_model_role :: SessionProviderModelRole
  so_workflow_usage_role :: SessionWorkflowUsageRole

record SessionForkExplain =
  fx_origin_session_id :: string
  fx_origin_message_id :: "string option"
  fx_history_mode :: SessionForkHistoryMode
  fx_history_message_limit :: "nat option"
  fx_source_history_messages :: "nat option"
  fx_imported_history_messages :: nat
  fx_policy_frozen :: bool
  fx_frozen_policy_keys :: "string list"
  fx_cache_stability_keys :: "string list"
  fx_usage_replay_scope :: SessionForkLifecycleScope
  fx_revert_scope :: SessionForkLifecycleScope
  fx_recovery_scope :: SessionForkLifecycleScope
  fx_compaction_scope :: SessionForkLifecycleScope

text \<open>The field \<open>share\<close> holds a structure with the one field \<open>url\<close>.\<close>

record 'v SessionRecord =
  sr_id :: string
  sr_slug :: string
  sr_project_id :: string
  sr_directory :: string
  sr_parent_id :: "string option"
  sr_title :: string
  sr_version :: string
  sr_time :: SessionTime
  sr_messages :: "'v SessionMessage list"
  sr_summary :: "SessionSummary option"
  sr_share :: "string option"
  sr_revert :: "SessionRevert option"
  sr_permission :: "SessionPermissionRules option"
  sr_usage :: "SessionUsage option"
  sr_status :: SessionStatus
  sr_metadata :: "'v metadata"
  sr_created_at :: DateTime
  sr_updated_at :: DateTime

section \<open>Keys\<close>

definition SESSION_CONTEXT_KIND_METADATA_KEY :: string where "SESSION_CONTEXT_KIND_METADATA_KEY = ''session_context_kind''"
definition FORK_ORIGIN_SESSION_ID_METADATA_KEY :: string where "FORK_ORIGIN_SESSION_ID_METADATA_KEY = ''fork_origin_session_id''"
definition FORK_ORIGIN_MESSAGE_ID_METADATA_KEY :: string where "FORK_ORIGIN_MESSAGE_ID_METADATA_KEY = ''fork_origin_message_id''"
definition FORK_POLICY_FROZEN_METADATA_KEY :: string where "FORK_POLICY_FROZEN_METADATA_KEY = ''fork_policy_frozen''"
definition FORK_IMPORTED_HISTORY_METADATA_KEY :: string where "FORK_IMPORTED_HISTORY_METADATA_KEY = ''fork_imported_history''"
definition FORK_HISTORY_MODE_METADATA_KEY :: string where "FORK_HISTORY_MODE_METADATA_KEY = ''fork_history_mode''"
definition FORK_HISTORY_MESSAGE_LIMIT_METADATA_KEY :: string where "FORK_HISTORY_MESSAGE_LIMIT_METADATA_KEY = ''fork_history_message_limit''"
definition FORK_SOURCE_HISTORY_MESSAGE_COUNT_METADATA_KEY :: string where
  "FORK_SOURCE_HISTORY_MESSAGE_COUNT_METADATA_KEY = ''fork_source_history_message_count''"
definition AUTO_TITLE_PENDING_REFINE_KEY :: string where "AUTO_TITLE_PENDING_REFINE_KEY = ''auto_title_pending_refine''"

lemmas session_keys = SESSION_CONTEXT_KIND_METADATA_KEY_def FORK_ORIGIN_SESSION_ID_METADATA_KEY_def
  FORK_ORIGIN_MESSAGE_ID_METADATA_KEY_def FORK_POLICY_FROZEN_METADATA_KEY_def
  FORK_IMPORTED_HISTORY_METADATA_KEY_def FORK_HISTORY_MODE_METADATA_KEY_def
  FORK_HISTORY_MESSAGE_LIMIT_METADATA_KEY_def FORK_SOURCE_HISTORY_MESSAGE_COUNT_METADATA_KEY_def
  AUTO_TITLE_PENDING_REFINE_KEY_def TASK_LEDGER_METADATA_KEY_def MESSAGE_SOURCE_ORIGIN_KEY_def
  MESSAGE_SOURCE_SURFACE_KEY_def MESSAGE_ADMISSION_CONTEXT_KEY_def MESSAGE_AUTHORITY_CLASS_KEY_def

definition FORK_POLICY_METADATA_ALLOWLIST :: "string list" where
  "FORK_POLICY_METADATA_ALLOWLIST = [''agent'', ''model_id'', ''model_provider'', ''model_variant'', ''scheduler'',
     ''scheduler_blueprint'', ''scheduler_blueprint_fingerprint'', ''scheduler_generated_agents'',
     ''scheduler_selection_source'']"

definition FORK_CACHE_STABILITY_METADATA_KEYS :: "string list" where
  "FORK_CACHE_STABILITY_METADATA_KEYS = [''agent'', ''model_id'', ''model_provider'', ''model_variant'', ''scheduler'',
     ''scheduler_blueprint_fingerprint'']"

definition VERSION :: string where "VERSION = ''1.0.0''"

section \<open>Enums on the wire\<close>

fun context_kind_wire :: "SessionContextKind \<Rightarrow> string" where
  "context_kind_wire RootSessionContinuity = ''root_session_continuity''"
| "context_kind_wire ExplicitFullHistoryFork = ''explicit_full_history_fork''"

fun history_mode_wire :: "SessionForkHistoryMode \<Rightarrow> string" where
  "history_mode_wire HistoryNone = ''none''"
| "history_mode_wire HistoryAll = ''all''"
| "history_mode_wire HistoryLastN = ''last_n''"

definition serialize_context_kind :: "'v session_env \<Rightarrow> SessionContextKind \<Rightarrow> 'v" where
  "serialize_context_kind env k = sv_string env (context_kind_wire k)"

section \<open>Creation\<close>

definition time_default :: "DateTime \<Rightarrow> SessionTime" where
  "time_default now = \<lparr>st_created = timestamp_millis now, st_updated = timestamp_millis now,
     st_compacting = None, st_archived = None\<rparr>"

definition generate_slug :: "'v session_env \<Rightarrow> string" where
  "generate_slug env = ''session-'' @ take 8 (sv_simple env 0)"

definition session_new :: "'v session_env \<Rightarrow> string \<Rightarrow> string \<Rightarrow> 'v SessionRecord" where
  "session_new env project_id directory =
     \<lparr>sr_id = ''ses_'' @ sv_simple env 1, sr_slug = generate_slug env, sr_project_id = project_id,
      sr_directory = directory, sr_parent_id = None, sr_title = ''New session - '' @ sv_rfc3339 env (sv_clock env 0),
      sr_version = VERSION, sr_time = time_default (sv_clock env 1), sr_messages = [], sr_summary = None,
      sr_share = None, sr_revert = None, sr_permission = None, sr_usage = None, sr_status = StActive,
      sr_metadata = [SESSION_CONTEXT_KIND_METADATA_KEY \<mapsto> serialize_context_kind env RootSessionContinuity],
      sr_created_at = sv_clock env 0, sr_updated_at = sv_clock env 0\<rparr>"

definition fork_from :: "'v session_env \<Rightarrow> 'v SessionRecord \<Rightarrow> 'v SessionRecord" where
  "fork_from env source =
     (let kind = [SESSION_CONTEXT_KIND_METADATA_KEY \<mapsto> serialize_context_kind env ExplicitFullHistoryFork];
          md = (case sr_metadata source TASK_LEDGER_METADATA_KEY of
                  None \<Rightarrow> kind | Some ledger \<Rightarrow> kind(TASK_LEDGER_METADATA_KEY \<mapsto> ledger))
      in \<lparr>sr_id = ''ses_'' @ sv_simple env 1, sr_slug = generate_slug env, sr_project_id = sr_project_id source,
          sr_directory = sr_directory source, sr_parent_id = Some (sr_id source),
          sr_title = ''Forked session - '' @ sv_rfc3339 env (sv_clock env 0),
          sr_version = VERSION, sr_time = time_default (sv_clock env 1), sr_messages = [], sr_summary = None,
          sr_share = None, sr_revert = None, sr_permission = sr_permission source, sr_usage = None,
          sr_status = StActive, sr_metadata = md,
          sr_created_at = sv_clock env 0, sr_updated_at = sv_clock env 0\<rparr>)"

section \<open>Time and metadata\<close>

definition touch :: "DateTime \<Rightarrow> 'v SessionRecord \<Rightarrow> 'v SessionRecord" where
  "touch now s = s\<lparr>sr_time := (sr_time s)\<lparr>st_updated := timestamp_millis now\<rparr>, sr_updated_at := now\<rparr>"

definition session_insert_metadata ::
    "DateTime \<Rightarrow> string \<Rightarrow> 'v \<Rightarrow> 'v SessionRecord \<Rightarrow> 'v option \<times> 'v SessionRecord" where
  "session_insert_metadata now key v s =
     (sr_metadata s key, touch now (s\<lparr>sr_metadata := (sr_metadata s)(key \<mapsto> v)\<rparr>))"

definition session_remove_metadata ::
    "DateTime \<Rightarrow> string \<Rightarrow> 'v SessionRecord \<Rightarrow> 'v option \<times> 'v SessionRecord" where
  "session_remove_metadata now key s =
     (sr_metadata s key, touch now (s\<lparr>sr_metadata := (sr_metadata s)(key := None)\<rparr>))"

definition set_directory :: "DateTime \<Rightarrow> string \<Rightarrow> 'v SessionRecord \<Rightarrow> 'v SessionRecord" where
  "set_directory now directory s =
     (if sr_directory s \<noteq> directory then touch now (s\<lparr>sr_directory := directory\<rparr>) else s)"

definition push_message :: "DateTime \<Rightarrow> 'v SessionMessage \<Rightarrow> 'v SessionRecord \<Rightarrow> 'v SessionRecord" where
  "push_message now m s = touch now (s\<lparr>sr_messages := sr_messages s @ [m]\<rparr>)"

definition migrate_retired_context_kind :: "'v session_env \<Rightarrow> 'v \<Rightarrow> SessionContextKind" where
  "migrate_retired_context_kind env raw =
     (if sv_as_str env raw = Some ''scheduler_stage_output_session'' then ExplicitFullHistoryFork
      else RootSessionContinuity)"

definition context_kind :: "'v session_env \<Rightarrow> 'v SessionRecord \<Rightarrow> SessionContextKind" where
  "context_kind env s =
     (case sr_metadata s SESSION_CONTEXT_KIND_METADATA_KEY of
        None \<Rightarrow> RootSessionContinuity
      | Some raw \<Rightarrow>
          (case read_variant env context_kind_wire [RootSessionContinuity, ExplicitFullHistoryFork] raw of
             Some k \<Rightarrow> k
           | None \<Rightarrow> migrate_retired_context_kind env raw))"

definition set_context_kind :: "'v session_env \<Rightarrow> SessionContextKind \<Rightarrow> 'v SessionRecord \<Rightarrow> 'v SessionRecord" where
  "set_context_kind env k s =
     touch (sv_clock env 0)
       (s\<lparr>sr_metadata := (sr_metadata s)(SESSION_CONTEXT_KIND_METADATA_KEY \<mapsto> serialize_context_kind env k)\<rparr>)"

fun handoff_mode :: "SessionContextKind \<Rightarrow> SessionHandoffMode" where
  "handoff_mode RootSessionContinuity = SelfContinuity"
| "handoff_mode ExplicitFullHistoryFork = FullHistoryFork"

definition owns_prompt_continuity :: "SessionContextKind \<Rightarrow> bool" where
  "owns_prompt_continuity k = True"

definition ownership_summary :: "SessionContextKind \<Rightarrow> SessionOwnershipSummary" where
  "ownership_summary k =
     \<lparr>so_context_kind = k, so_handoff_mode = handoff_mode k, so_owns_prompt_continuity = owns_prompt_continuity k,
      so_compact_owner = owns_prompt_continuity k, so_provider_model_role = RequestShapeOnly,
      so_workflow_usage_role = ObservationOnly\<rparr>"

section \<open>Messages of a session\<close>

definition add_user_message :: "'v session_env \<Rightarrow> string \<Rightarrow> 'v SessionRecord \<Rightarrow> 'v SessionRecord" where
  "add_user_message env txt s = push_message (sv_clock env 2) (user_message env (sr_id s) txt) s"

definition add_user_message_with_source ::
    "'v session_env \<Rightarrow> string \<Rightarrow> MessageSourceOrigin \<Rightarrow> MessageSourceSurface \<Rightarrow> 'v SessionRecord \<Rightarrow> 'v SessionRecord" where
  "add_user_message_with_source env txt origin surface s =
     push_message (sv_clock env 2) (user_with_source env (sr_id s) txt origin surface) s"

fun attach_files :: "'v session_env \<Rightarrow> nat \<Rightarrow> FilePart list \<Rightarrow> 'v SessionMessage \<Rightarrow> 'v SessionMessage" where
  "attach_files env n [] m = m"
| "attach_files env n (a # as) m =
     attach_files env (Suc n) as
       (add_file env n n (fpt_url a)
          (case fpt_filename a of Some f \<Rightarrow> f | None \<Rightarrow> ''attachment'') (fpt_mime a) m)"

definition add_synthetic_user_message ::
    "'v session_env \<Rightarrow> string \<Rightarrow> FilePart list \<Rightarrow> 'v SessionRecord \<Rightarrow> 'v SessionRecord" where
  "add_synthetic_user_message env txt attachments s =
     push_message (sv_clock env (2 + length attachments))
       (attach_files env 2 attachments (mark_text_parts_synthetic (user_message env (sr_id s) txt))) s"

definition add_assistant_message :: "'v session_env \<Rightarrow> 'v SessionRecord \<Rightarrow> 'v SessionRecord" where
  "add_assistant_message env s = push_message (sv_clock env 1) (assistant_message env (sr_id s)) s"

definition add_tool_result ::
    "'v session_env \<Rightarrow> string \<Rightarrow> string \<Rightarrow> bool \<Rightarrow> 'v SessionRecord \<Rightarrow> string \<times> 'v SessionRecord" where
  "add_tool_result env tool_call_id content is_error s =
     (let i = ''msg_'' @ sv_uuid env 0; now = sv_clock env 0;
          part = \<lparr>mp_id = ''prt_'' @ sv_uuid env 1,
                  mp_part_type = PtToolResult tool_call_id content is_error None None None,
                  mp_created_at = now, mp_message_id = Some i\<rparr>
      in (i, push_message (sv_clock env 1)
               \<lparr>sm_id = i, sm_session_id = sr_id s, sm_role = RoleTool, sm_parts = [part], sm_created_at = now,
                sm_metadata = Map.empty, sm_usage = None, sm_finish = None\<rparr> s))"

definition is_imported_fork_history_message :: "'v session_env \<Rightarrow> 'v SessionMessage \<Rightarrow> bool" where
  "is_imported_fork_history_message env m =
     (case Option.bind (sm_metadata m FORK_IMPORTED_HISTORY_METADATA_KEY) (sv_as_bool env) of
        None \<Rightarrow> False | Some b \<Rightarrow> b)"

definition find_last :: "('a \<Rightarrow> bool) \<Rightarrow> 'a list \<Rightarrow> 'a option" where
  "find_last P xs = List.find P (rev xs)"

definition last_user_message :: "'v SessionRecord \<Rightarrow> 'v SessionMessage option" where
  "last_user_message s = find_last (\<lambda>m. sm_role m = RoleUser) (sr_messages s)"

definition last_assistant_message :: "'v SessionRecord \<Rightarrow> 'v SessionMessage option" where
  "last_assistant_message s = find_last (\<lambda>m. sm_role m = RoleAssistant) (sr_messages s)"

definition last_owner_local_assistant_message :: "'v session_env \<Rightarrow> 'v SessionRecord \<Rightarrow> 'v SessionMessage option" where
  "last_owner_local_assistant_message env s =
     find_last (\<lambda>m. sm_role m = RoleAssistant \<and> \<not> is_imported_fork_history_message env m) (sr_messages s)"

definition get_message :: "string \<Rightarrow> 'v SessionRecord \<Rightarrow> 'v SessionMessage option" where
  "get_message i s = List.find (\<lambda>m. sm_id m = i) (sr_messages s)"

definition remove_message :: "DateTime \<Rightarrow> string \<Rightarrow> 'v SessionRecord \<Rightarrow> 'v SessionMessage option \<times> 'v SessionRecord" where
  "remove_message now i s =
     (case position (\<lambda>m. sm_id m = i) (sr_messages s) of
        Some pos \<Rightarrow> (Some (sr_messages s ! pos), touch now (s\<lparr>sr_messages := remove_at pos (sr_messages s)\<rparr>))
      | None \<Rightarrow> (None, s))"

definition update_message :: "DateTime \<Rightarrow> 'v SessionMessage \<Rightarrow> 'v SessionRecord \<Rightarrow> 'v SessionRecord" where
  "update_message now m s =
     (case position (\<lambda>x. sm_id x = sm_id m) (sr_messages s) of
        Some pos \<Rightarrow> touch now (s\<lparr>sr_messages := (sr_messages s)[pos := m]\<rparr>)
      | None \<Rightarrow> touch now (s\<lparr>sr_messages := sr_messages s @ [m]\<rparr>))"

definition replace_part :: "'v MessagePart \<Rightarrow> 'v SessionMessage \<Rightarrow> 'v SessionMessage" where
  "replace_part part m =
     (case position (\<lambda>p. mp_id p = mp_id part) (sm_parts m) of
        Some pos \<Rightarrow> m\<lparr>sm_parts := (sm_parts m)[pos := part]\<rparr>
      | None \<Rightarrow> m\<lparr>sm_parts := sm_parts m @ [part]\<rparr>)"

definition update_part ::
    "DateTime \<Rightarrow> string \<Rightarrow> 'v MessagePart \<Rightarrow> 'v SessionRecord \<Rightarrow> 'v MessagePart option \<times> 'v SessionRecord" where
  "update_part now msg_id part s =
     (case get_message msg_id s of
        None \<Rightarrow> (None, s)
      | Some _ \<Rightarrow>
          let s' = touch now (s\<lparr>sr_messages := update_first (\<lambda>m. sm_id m = msg_id) (replace_part part) (sr_messages s)\<rparr>)
          in (Option.bind (get_message msg_id s') (\<lambda>m. List.find (\<lambda>p. mp_id p = mp_id part) (sm_parts m)), s'))"

definition remove_part ::
    "DateTime \<Rightarrow> string \<Rightarrow> string \<Rightarrow> 'v SessionRecord \<Rightarrow> 'v MessagePart option \<times> 'v SessionRecord" where
  "remove_part now msg_id part_id s =
     (case get_message msg_id s of
        None \<Rightarrow> (None, s)
      | Some m \<Rightarrow>
          (case position (\<lambda>p. mp_id p = part_id) (sm_parts m) of
             None \<Rightarrow> (None, s)
           | Some pos \<Rightarrow>
               (Some (sm_parts m ! pos),
                touch now (s\<lparr>sr_messages := update_first (\<lambda>m. sm_id m = msg_id)
                                 (\<lambda>m. m\<lparr>sm_parts := remove_at pos (sm_parts m)\<rparr>) (sr_messages s)\<rparr>))))"

section \<open>Usage\<close>

definition session_usage_default :: SessionUsage where
  "session_usage_default = \<lparr>su_input_tokens = 0, su_output_tokens = 0, su_reasoning_tokens = 0, su_cache_write_tokens = 0,
     su_cache_read_tokens = 0, su_cache_miss_tokens = 0, su_context_tokens = 0, su_total_cost = 0\<rparr>"

definition add_usage :: "u64 \<Rightarrow> u64 \<Rightarrow> 'v SessionRecord \<Rightarrow> 'v SessionRecord" where
  "add_usage input_tokens output_tokens s =
     (let u = (case sr_usage s of Some u \<Rightarrow> u | None \<Rightarrow> session_usage_default)
      in s\<lparr>sr_usage := Some (u\<lparr>su_input_tokens := u64_saturating_add (su_input_tokens u) input_tokens,
                                su_output_tokens := u64_saturating_add (su_output_tokens u) output_tokens\<rparr>)\<rparr>)"

definition add_message_usage :: "'v session_env \<Rightarrow> MessageUsage \<Rightarrow> SessionUsage \<Rightarrow> SessionUsage" where
  "add_message_usage env mu u = u\<lparr>
     su_input_tokens := su_input_tokens u + mu_input_tokens mu,
     su_output_tokens := su_output_tokens u + mu_output_tokens mu,
     su_reasoning_tokens := su_reasoning_tokens u + mu_reasoning_tokens mu,
     su_cache_write_tokens := su_cache_write_tokens u + mu_cache_write_tokens mu,
     su_cache_read_tokens := su_cache_read_tokens u + mu_cache_read_tokens mu,
     su_cache_miss_tokens := su_cache_miss_tokens u + mu_cache_miss_tokens mu,
     su_total_cost := sv_cost_add env (su_total_cost u) (mu_total_cost mu)\<rparr>"

definition usage_step :: "'v session_env \<Rightarrow> SessionUsage \<Rightarrow> 'v SessionMessage \<Rightarrow> SessionUsage" where
  "usage_step env u m =
     (if sm_role m = RoleAssistant then
        (case sm_usage m of
           None \<Rightarrow> u
         | Some mu \<Rightarrow>
             let u' = (if is_imported_fork_history_message env m then u else add_message_usage env mu u)
             in u'\<lparr>su_context_tokens := (case message_live_context_tokens mu of Some t \<Rightarrow> t | None \<Rightarrow> 0)\<rparr>)
      else u)"

definition get_usage :: "'v session_env \<Rightarrow> 'v SessionRecord \<Rightarrow> SessionUsage" where
  "get_usage env s = foldl (usage_step env) session_usage_default (sr_messages s)"

fun find_map :: "('a \<Rightarrow> 'b option) \<Rightarrow> 'a list \<Rightarrow> 'b option" where
  "find_map f [] = None"
| "find_map f (x # xs) = (case f x of Some y \<Rightarrow> Some y | None \<Rightarrow> find_map f xs)"

definition latest_request_context_tokens :: "'v session_env \<Rightarrow> 'v SessionRecord \<Rightarrow> u64 option" where
  "latest_request_context_tokens env s =
     find_map (\<lambda>m. if sm_role m \<noteq> RoleAssistant then None
                   else if is_imported_fork_history_message env m then None
                   else Option.bind (sm_usage m) request_context_tokens) (rev (sr_messages s))"

definition session_live_context_tokens :: "SessionUsage \<Rightarrow> u64 option" where
  "session_live_context_tokens u = (if 0 < su_context_tokens u then Some (su_context_tokens u) else None)"

definition workflow_usage_summary :: "SessionUsage \<Rightarrow> WorkflowUsageSummary" where
  "workflow_usage_summary u =
     \<lparr>wu_input_tokens = su_input_tokens u, wu_output_tokens = su_output_tokens u,
      wu_reasoning_tokens = su_reasoning_tokens u, wu_cache_write_tokens = su_cache_write_tokens u,
      wu_cache_read_tokens = su_cache_read_tokens u, wu_cache_miss_tokens = su_cache_miss_tokens u,
      wu_total_cost = su_total_cost u\<rparr>"

definition usage_books :: "'v session_env \<Rightarrow> 'v SessionRecord \<Rightarrow> SessionUsageBooks" where
  "usage_books env s =
     (let u = get_usage env s
      in \<lparr>ub_request_context_tokens = latest_request_context_tokens env s,
          ub_live_context_tokens = session_live_context_tokens u,
          ub_workflow_cumulative = workflow_usage_summary u\<rparr>)"

end
