(* ===== verification/Session_Settings.thy ===== *)
theory Session_Settings
  imports Session_Record
begin

text \<open>
  Titles, settings, rows and the fork metadata of sessions (\<open>agendao-session/src/session.rs\<close>,
  \<open>session_fork_metadata.rs\<close>).
\<close>

section \<open>Titles\<close>

definition is_default_title :: "'v session_env \<Rightarrow> 'v SessionRecord \<Rightarrow> bool" where
  "is_default_title env s =
     (let pre = (if sr_parent_id s \<noteq> None
                 then if starts_with (sr_title s) ''Attached session - '' then ''Attached session - ''
                      else ''Child session - ''
                 else ''New session - '')
      in if \<not> starts_with (sr_title s) pre then False else sv_is_rfc3339 env (drop (length pre) (sr_title s)))"

definition allows_auto_title_regeneration :: "'v session_env \<Rightarrow> 'v SessionRecord \<Rightarrow> bool" where
  "allows_auto_title_regeneration env s \<longleftrightarrow> is_default_title env s \<or>
     (case Option.bind (sr_metadata s AUTO_TITLE_PENDING_REFINE_KEY) (sv_as_bool env) of
        None \<Rightarrow> False | Some b \<Rightarrow> b)"

definition FORK_MARK :: string where "FORK_MARK = '' (fork #''"

definition forked_title :: "string \<Rightarrow> string" where
  "forked_title title =
     (let fresh = title @ FORK_MARK @ ''1)''
      in if ends_with title '')'' \<and> str_contains title FORK_MARK then
           (case str_rfind title FORK_MARK of
              None \<Rightarrow> fresh
            | Some pos \<Rightarrow>
                (case parse_u32 (take (length title - 1 - (pos + 8)) (drop (pos + 8) title)) of
                   Some num \<Rightarrow> take pos title @ FORK_MARK @ show_nat (unat (of_nat num + 1 :: u32)) @ '')''
                 | None \<Rightarrow> fresh))
         else fresh)"

definition get_forked_title :: "'v SessionRecord \<Rightarrow> string" where
  "get_forked_title s = forked_title (sr_title s)"

definition set_title :: "DateTime \<Rightarrow> string \<Rightarrow> 'v SessionRecord \<Rightarrow> 'v SessionRecord" where
  "set_title now title s =
     touch now (s\<lparr>sr_title := title, sr_metadata := (sr_metadata s)(AUTO_TITLE_PENDING_REFINE_KEY := None)\<rparr>)"

definition set_auto_title :: "'v session_env \<Rightarrow> string \<Rightarrow> 'v SessionRecord \<Rightarrow> 'v SessionRecord" where
  "set_auto_title env title s =
     touch (sv_clock env 0) (s\<lparr>sr_title := title,
       sr_metadata := (sr_metadata s)(AUTO_TITLE_PENDING_REFINE_KEY \<mapsto> sv_bool env True)\<rparr>)"

section \<open>Settings\<close>

definition session_set_archived :: "'v session_env \<Rightarrow> i64 option \<Rightarrow> 'v SessionRecord \<Rightarrow> 'v SessionRecord" where
  "session_set_archived env time s =
     (let (at, n) = (case time of Some t \<Rightarrow> (t, 0) | None \<Rightarrow> (timestamp_millis (sv_clock env 0), 1))
      in touch (sv_clock env n)
           (s\<lparr>sr_time := (sr_time s)\<lparr>st_archived := Some at\<rparr>, sr_status := StArchived\<rparr>))"

definition session_set_permission :: "DateTime \<Rightarrow> SessionPermissionRules \<Rightarrow> 'v SessionRecord \<Rightarrow> 'v SessionRecord" where
  "session_set_permission now p s = touch now (s\<lparr>sr_permission := Some p\<rparr>)"

definition session_set_revert :: "DateTime \<Rightarrow> SessionRevert option \<Rightarrow> 'v SessionRecord \<Rightarrow> 'v SessionRecord" where
  "session_set_revert now r s = touch now (s\<lparr>sr_revert := r\<rparr>)"

definition session_set_summary :: "DateTime \<Rightarrow> SessionSummary \<Rightarrow> 'v SessionRecord \<Rightarrow> 'v SessionRecord" where
  "session_set_summary now x s = touch now (s\<lparr>sr_summary := Some x\<rparr>)"

definition session_set_share :: "DateTime \<Rightarrow> string option \<Rightarrow> 'v SessionRecord \<Rightarrow> 'v SessionRecord" where
  "session_set_share now url s = touch now (s\<lparr>sr_share := url\<rparr>)"

definition update_usage :: "DateTime \<Rightarrow> SessionUsage \<Rightarrow> 'v SessionRecord \<Rightarrow> 'v SessionRecord" where
  "update_usage now u s = touch now (s\<lparr>sr_usage := Some u\<rparr>)"

definition start_compacting :: "DateTime \<Rightarrow> 'v SessionRecord \<Rightarrow> 'v SessionRecord" where
  "start_compacting now s =
     s\<lparr>sr_time := (sr_time s)\<lparr>st_compacting := Some (timestamp_millis now)\<rparr>, sr_status := StCompacting\<rparr>"

definition finish_compacting :: "DateTime \<Rightarrow> 'v SessionRecord \<Rightarrow> 'v SessionRecord" where
  "finish_compacting now s =
     touch now (s\<lparr>sr_time := (sr_time s)\<lparr>st_compacting := None\<rparr>, sr_status := StActive\<rparr>)"

definition session_complete :: "DateTime \<Rightarrow> 'v SessionRecord \<Rightarrow> 'v SessionRecord" where
  "session_complete now s = touch now (s\<lparr>sr_status := StCompleted\<rparr>)"

definition session_diff :: "'v SessionRecord \<Rightarrow> SessionFileDiff list" where
  "session_diff s = (case Option.bind (sr_summary s) ss_diffs of Some ds \<Rightarrow> ds | None \<Rightarrow> [])"

section \<open>Rows\<close>

record SessionRow =
  row_id :: string
  row_slug :: string
  row_project_id :: string
  row_directory :: string
  row_parent_id :: "string option"
  row_title :: string
  row_version :: string
  row_time_created :: i64
  row_time_updated :: i64
  row_time_compacting :: "i64 option"
  row_time_archived :: "i64 option"
  row_share_url :: "string option"
  row_summary_additions :: "u64 option"
  row_summary_deletions :: "u64 option"
  row_summary_files :: "u64 option"
  row_revert :: "SessionRevert option"
  row_permission :: "SessionPermissionRules option"

definition to_row :: "'v SessionRecord \<Rightarrow> SessionRow" where
  "to_row s =
     \<lparr>row_id = sr_id s, row_slug = sr_slug s, row_project_id = sr_project_id s, row_directory = sr_directory s,
      row_parent_id = sr_parent_id s, row_title = sr_title s, row_version = sr_version s,
      row_time_created = st_created (sr_time s), row_time_updated = st_updated (sr_time s),
      row_time_compacting = st_compacting (sr_time s), row_time_archived = st_archived (sr_time s),
      row_share_url = sr_share s, row_summary_additions = map_option ss_additions (sr_summary s),
      row_summary_deletions = map_option ss_deletions (sr_summary s),
      row_summary_files = map_option ss_files (sr_summary s), row_revert = sr_revert s,
      row_permission = sr_permission s\<rparr>"

definition from_row :: "'v session_env \<Rightarrow> SessionRow \<Rightarrow> 'v SessionRecord" where
  "from_row env row =
     (let summary =
            (if row_summary_additions row \<noteq> None \<or> row_summary_deletions row \<noteq> None \<or> row_summary_files row \<noteq> None
             then Some \<lparr>ss_additions = unwrap_or (row_summary_additions row) 0,
                        ss_deletions = unwrap_or (row_summary_deletions row) 0,
                        ss_files = unwrap_or (row_summary_files row) 0, ss_diffs = None\<rparr>
             else None);
          status = (if row_time_archived row \<noteq> None then StArchived
                    else if row_time_compacting row \<noteq> None then StCompacting else StActive)
      in \<lparr>sr_id = row_id row, sr_slug = row_slug row, sr_project_id = row_project_id row,
          sr_directory = row_directory row, sr_parent_id = row_parent_id row, sr_title = row_title row,
          sr_version = row_version row,
          sr_time = \<lparr>st_created = row_time_created row, st_updated = row_time_updated row,
                     st_compacting = row_time_compacting row, st_archived = row_time_archived row\<rparr>,
          sr_messages = [], sr_summary = summary, sr_share = row_share_url row, sr_revert = row_revert row,
          sr_permission = row_permission row, sr_usage = None, sr_status = status, sr_metadata = Map.empty,
          sr_created_at = unwrap_or (sv_from_millis env (row_time_created row)) (sv_clock env 0),
          sr_updated_at = unwrap_or (sv_from_millis env (row_time_updated row)) (sv_clock env 1)\<rparr>)"

section \<open>Fork metadata\<close>

definition fork_origin_session_id :: "'v session_env \<Rightarrow> 'v SessionRecord \<Rightarrow> string option" where
  "fork_origin_session_id env s = Option.bind (sr_metadata s FORK_ORIGIN_SESSION_ID_METADATA_KEY) (sv_as_str env)"

definition fork_origin_message_id :: "'v session_env \<Rightarrow> 'v SessionRecord \<Rightarrow> string option" where
  "fork_origin_message_id env s = Option.bind (sr_metadata s FORK_ORIGIN_MESSAGE_ID_METADATA_KEY) (sv_as_str env)"

definition fork_policy_frozen :: "'v session_env \<Rightarrow> 'v SessionRecord \<Rightarrow> bool" where
  "fork_policy_frozen env s =
     unwrap_or (Option.bind (sr_metadata s FORK_POLICY_FROZEN_METADATA_KEY) (sv_as_bool env)) False"

definition fork_history_mode :: "'v session_env \<Rightarrow> 'v SessionRecord \<Rightarrow> SessionForkHistoryMode" where
  "fork_history_mode env s =
     unwrap_or (Option.bind (sr_metadata s FORK_HISTORY_MODE_METADATA_KEY)
       (read_variant env history_mode_wire [HistoryNone, HistoryAll, HistoryLastN])) HistoryAll"

definition fork_history_message_limit :: "'v session_env \<Rightarrow> 'v SessionRecord \<Rightarrow> nat option" where
  "fork_history_message_limit env s =
     Option.bind (sr_metadata s FORK_HISTORY_MESSAGE_LIMIT_METADATA_KEY) (sv_as_usize env)"

definition fork_source_history_message_count :: "'v session_env \<Rightarrow> 'v SessionRecord \<Rightarrow> nat option" where
  "fork_source_history_message_count env s =
     Option.bind (sr_metadata s FORK_SOURCE_HISTORY_MESSAGE_COUNT_METADATA_KEY) (sv_as_usize env)"

definition imported_history_message_count :: "'v session_env \<Rightarrow> 'v SessionRecord \<Rightarrow> nat" where
  "imported_history_message_count env s = length (filter (is_imported_fork_history_message env) (sr_messages s))"

definition is_imported_fork_history_message_id :: "'v session_env \<Rightarrow> string \<Rightarrow> 'v SessionRecord \<Rightarrow> bool" where
  "is_imported_fork_history_message_id env i s =
     unwrap_or (map_option (is_imported_fork_history_message env) (get_message i s)) False"

definition fork_frozen_policy_keys :: "'v SessionRecord \<Rightarrow> string list" where
  "fork_frozen_policy_keys s = filter (\<lambda>k. sr_metadata s k \<noteq> None) FORK_POLICY_METADATA_ALLOWLIST"

definition fork_cache_stability_keys :: "'v SessionRecord \<Rightarrow> string list" where
  "fork_cache_stability_keys s = filter (\<lambda>k. sr_metadata s k \<noteq> None) FORK_CACHE_STABILITY_METADATA_KEYS"

definition fork_explain :: "'v session_env \<Rightarrow> 'v SessionRecord \<Rightarrow> SessionForkExplain option" where
  "fork_explain env s =
     (if context_kind env s \<noteq> ExplicitFullHistoryFork then None
      else map_option (\<lambda>origin.
        \<lparr>fx_origin_session_id = origin, fx_origin_message_id = fork_origin_message_id env s,
         fx_history_mode = fork_history_mode env s, fx_history_message_limit = fork_history_message_limit env s,
         fx_source_history_messages = fork_source_history_message_count env s,
         fx_imported_history_messages = imported_history_message_count env s,
         fx_policy_frozen = fork_policy_frozen env s, fx_frozen_policy_keys = fork_frozen_policy_keys s,
         fx_cache_stability_keys = fork_cache_stability_keys s, fx_usage_replay_scope = LocalOnly,
         fx_revert_scope = LocalOnly, fx_recovery_scope = LocalOnly,
         fx_compaction_scope = ForkPromptSurface\<rparr>) (fork_origin_session_id env s))"

text \<open>The clock is read once per key that is copied; \<open>n\<close> is the number of readings so far.\<close>

fun copy_keys ::
    "'v session_env \<Rightarrow> nat \<Rightarrow> string list \<Rightarrow> 'v SessionRecord \<Rightarrow> 'v SessionRecord \<Rightarrow> nat \<times> 'v SessionRecord" where
  "copy_keys env n [] source tgt = (n, tgt)"
| "copy_keys env n (k # ks) source tgt =
     (case sr_metadata source k of
        None \<Rightarrow> copy_keys env n ks source tgt
      | Some v \<Rightarrow> copy_keys env (Suc n) ks source (snd (session_insert_metadata (sv_clock env n) k v tgt)))"

definition copy_fork_policy_metadata_from ::
    "'v session_env \<Rightarrow> nat \<Rightarrow> 'v SessionRecord \<Rightarrow> 'v SessionRecord \<Rightarrow> 'v SessionRecord" where
  "copy_fork_policy_metadata_from env n source tgt =
     (let (n', tgt') = copy_keys env n FORK_POLICY_METADATA_ALLOWLIST source tgt
      in snd (session_insert_metadata (sv_clock env n') FORK_POLICY_FROZEN_METADATA_KEY (sv_bool env True) tgt'))"

definition or_insert :: "string \<Rightarrow> 'v \<Rightarrow> 'v metadata \<Rightarrow> 'v metadata" where
  "or_insert k v md = (case md k of Some _ \<Rightarrow> md | None \<Rightarrow> md(k \<mapsto> v))"

definition imported_fork_history_message ::
    "'v session_env \<Rightarrow> string \<Rightarrow> string \<Rightarrow> 'v SessionMessage \<Rightarrow> 'v SessionMessage" where
  "imported_fork_history_message env source_session_id target_session_id m =
     (let md = (sm_metadata m)(FORK_IMPORTED_HISTORY_METADATA_KEY \<mapsto> sv_bool env True);
          md = or_insert FORK_ORIGIN_SESSION_ID_METADATA_KEY (sv_string env source_session_id) md;
          md = or_insert FORK_ORIGIN_MESSAGE_ID_METADATA_KEY (sv_string env (sm_id m)) md;
          (admission, authority) = origin_to_admission_authority OrImportedHistory;
          md = apply_message_source_metadata env OrImportedHistory SfHttpApi md
      in m\<lparr>sm_session_id := target_session_id,
           sm_metadata := apply_message_admission_metadata env admission authority md\<rparr>)"

end
