(* ===== verification/Session_Manager.thy ===== *)
theory Session_Manager
  imports Session_Settings
begin

text \<open>
  The manager of the sessions (\<open>agendao-session/src/session.rs\<close>, \<open>SessionManager\<close>). It keeps the sessions by their
  id and a bounded queue of life-cycle events, and publishes to a bus when it has one and a runtime
  to spawn on. What it publishes and the plugin hooks it triggers are the list \<open>mg_sent\<close>, in the order
  in which the tasks are spawned. The sessions are shared by copy-on-write handles, which are values.
\<close>

section \<open>State\<close>

record 'v SessionError =
  ser_code :: string
  ser_message :: string
  ser_details :: "'v option"

datatype 'v SessionEvent =
    SeCreated SessionRow
  | SeUpdated SessionRow
  | SeDeleted SessionRow
  | SeDiff string "SessionFileDiff list"
  | SeError "string option" "'v SessionError"

datatype 'v bus_message =
    SessionCreatedEvent SessionRow
  | SessionUpdatedEvent SessionRow
  | SessionDeletedEvent SessionRow
  | SessionDiffEvent string "SessionFileDiff list"
  | SessionErrorEvent "string option" 'v
  | MessageUpdatedEvent "'v SessionMessage"
  | MessageRemovedEvent string string
  | PartUpdatedEvent "'v MessagePart"
  | PartRemovedEvent string string string
  | PartDeltaEvent string string string string string
  | CommandExecutedEvent string string "string list" string
  | HookSessionStart string
  | HookSessionEnd string

definition SESSION_EVENT_QUEUE_CAP :: nat where "SESSION_EVENT_QUEUE_CAP = 256"

record 'v SessionManager =
  mg_sessions :: "string \<rightharpoonup> 'v SessionRecord"
  mg_events :: "'v SessionEvent list"
  mg_bus :: bool
  mg_sent :: "'v bus_message list"

definition manager_new :: "'v SessionManager" where
  "manager_new = \<lparr>mg_sessions = Map.empty, mg_events = [], mg_bus = False, mg_sent = []\<rparr>"

definition with_bus :: "'v SessionManager" where
  "with_bus = \<lparr>mg_sessions = Map.empty, mg_events = [], mg_bus = True, mg_sent = []\<rparr>"

definition set_bus :: "'v SessionManager \<Rightarrow> 'v SessionManager" where
  "set_bus mg = mg\<lparr>mg_bus := True\<rparr>"

definition push_event :: "'v SessionEvent \<Rightarrow> 'v SessionManager \<Rightarrow> 'v SessionManager" where
  "push_event ev mg =
     (let kept = (if SESSION_EVENT_QUEUE_CAP \<le> length (mg_events mg) then tl (mg_events mg) else mg_events mg)
      in mg\<lparr>mg_events := kept @ [ev]\<rparr>)"

definition publish_event :: "'v session_env \<Rightarrow> 'v bus_message \<Rightarrow> 'v SessionManager \<Rightarrow> 'v SessionManager" where
  "publish_event env msg mg =
     (if mg_bus mg \<and> sv_runtime env then mg\<lparr>mg_sent := mg_sent mg @ [msg]\<rparr> else mg)"

definition trigger_hook :: "'v session_env \<Rightarrow> 'v bus_message \<Rightarrow> 'v SessionManager \<Rightarrow> 'v SessionManager" where
  "trigger_hook env msg mg = (if sv_runtime env then mg\<lparr>mg_sent := mg_sent mg @ [msg]\<rparr> else mg)"

definition store_session :: "'v SessionRecord \<Rightarrow> 'v SessionManager \<Rightarrow> 'v SessionManager" where
  "store_session s mg = mg\<lparr>mg_sessions := (mg_sessions mg)(sr_id s \<mapsto> s)\<rparr>"

section \<open>Creating and forking\<close>

definition manager_create ::
    "'v session_env \<Rightarrow> string \<Rightarrow> string \<Rightarrow> 'v SessionManager \<Rightarrow> 'v SessionRecord \<times> 'v SessionManager" where
  "manager_create env project_id directory mg =
     (let s = session_new env project_id directory
      in (s, trigger_hook env (HookSessionStart (sr_id s))
               (publish_event env (SessionCreatedEvent (to_row s))
                 (push_event (SeCreated (to_row s)) (store_session s mg)))))"

record SessionForkSpec =
  fk_message_id :: "string option"
  fk_history_mode :: SessionForkHistoryMode
  fk_history_message_limit :: "nat option"

datatype SessionForkError = FkSessionNotFound | FkOriginMessageNotFound string | FkInvalidRequest string

definition LIMIT_NOT_VALID :: string where
  "LIMIT_NOT_VALID = ''`history_message_limit` is only valid when `history_mode=last_n`''"
definition LIMIT_REQUIRED :: string where
  "LIMIT_REQUIRED = ''`history_mode=last_n` requires a positive `history_message_limit`''"
definition LIMIT_POSITIVE :: string where
  "LIMIT_POSITIVE = ''`history_message_limit` must be greater than 0''"

definition source_messages ::
    "SessionForkSpec \<Rightarrow> 'v SessionRecord \<Rightarrow> SessionForkError + 'v SessionMessage list" where
  "source_messages spec original =
     (case fk_message_id spec of
        Some msg_id \<Rightarrow>
          (case position (\<lambda>m. sm_id m = msg_id) (sr_messages original) of
             None \<Rightarrow> Inl (FkOriginMessageNotFound msg_id)
           | Some cutoff \<Rightarrow> Inr (take (Suc cutoff) (sr_messages original)))
      | None \<Rightarrow> Inr (sr_messages original))"

fun imported_messages ::
    "SessionForkHistoryMode \<Rightarrow> nat option \<Rightarrow> 'v SessionMessage list \<Rightarrow> SessionForkError + 'v SessionMessage list" where
  "imported_messages HistoryNone limit msgs =
     (if limit \<noteq> None then Inl (FkInvalidRequest LIMIT_NOT_VALID) else Inr [])"
| "imported_messages HistoryAll limit msgs =
     (if limit \<noteq> None then Inl (FkInvalidRequest LIMIT_NOT_VALID) else Inr msgs)"
| "imported_messages HistoryLastN limit msgs =
     (case limit of
        None \<Rightarrow> Inl (FkInvalidRequest LIMIT_REQUIRED)
      | Some n \<Rightarrow> if n = 0 then Inl (FkInvalidRequest LIMIT_POSITIVE) else Inr (drop (length msgs - n) msgs))"

definition fork_metadata ::
    "'v session_env \<Rightarrow> string \<Rightarrow> SessionForkSpec \<Rightarrow> nat \<Rightarrow> 'v metadata \<Rightarrow> 'v metadata" where
  "fork_metadata env session_id spec cnt md =
     (let md = md(FORK_ORIGIN_SESSION_ID_METADATA_KEY \<mapsto> sv_string env session_id,
                  FORK_HISTORY_MODE_METADATA_KEY \<mapsto> sv_string env (history_mode_wire (fk_history_mode spec)),
                  FORK_SOURCE_HISTORY_MESSAGE_COUNT_METADATA_KEY \<mapsto> sv_usize env cnt);
          md = (case fk_history_message_limit spec of
                  Some limit \<Rightarrow> md(FORK_HISTORY_MESSAGE_LIMIT_METADATA_KEY \<mapsto> sv_usize env limit) | None \<Rightarrow> md)
      in case fk_message_id spec of
           Some msg_id \<Rightarrow> md(FORK_ORIGIN_MESSAGE_ID_METADATA_KEY \<mapsto> sv_string env msg_id) | None \<Rightarrow> md)"

definition forked_session ::
    "'v session_env \<Rightarrow> string \<Rightarrow> SessionForkSpec \<Rightarrow> 'v SessionRecord \<Rightarrow> SessionForkError + 'v SessionRecord" where
  "forked_session env session_id spec original =
     (let forked = copy_fork_policy_metadata_from env 2 original (fork_from env original)
      in res_bind (source_messages spec original) (\<lambda>src.
         res_bind (imported_messages (fk_history_mode spec) (fk_history_message_limit spec) src) (\<lambda>msgs.
         Inr (forked\<lparr>sr_parent_id := None, sr_title := get_forked_title original,
                sr_messages := map (imported_fork_history_message env session_id (sr_id forked)) msgs,
                sr_metadata := fork_metadata env session_id spec (length src) (sr_metadata forked)\<rparr>))))"

definition manager_fork ::
    "'v session_env \<Rightarrow> string \<Rightarrow> SessionForkSpec \<Rightarrow> 'v SessionManager \<Rightarrow>
     (SessionForkError + 'v SessionRecord) \<times> 'v SessionManager" where
  "manager_fork env session_id spec mg =
     (case mg_sessions mg session_id of
        None \<Rightarrow> (Inl FkSessionNotFound, mg)
      | Some original \<Rightarrow>
          (case forked_session env session_id spec original of
             Inl e \<Rightarrow> (Inl e, mg)
           | Inr forked \<Rightarrow>
               (Inr forked, publish_event env (SessionCreatedEvent (to_row forked))
                              (push_event (SeCreated (to_row forked)) (store_session forked mg)))))"

section \<open>Changing\<close>

text \<open>
  \<open>share\<close>, \<open>unshare\<close>, \<open>set_archived\<close>, \<open>set_permission\<close>, \<open>set_revert\<close>, \<open>clear_revert\<close> and \<open>set_summary\<close> have one body; they
  differ in the change of the session.
\<close>

definition manager_change ::
    "'v session_env \<Rightarrow> string \<Rightarrow> ('v SessionRecord \<Rightarrow> 'v SessionRecord) \<Rightarrow> 'v SessionManager \<Rightarrow>
     'v SessionRecord option \<times> 'v SessionManager" where
  "manager_change env session_id f mg =
     (case mg_sessions mg session_id of
        None \<Rightarrow> (None, mg)
      | Some s \<Rightarrow>
          let updated = f s
          in (Some updated, publish_event env (SessionUpdatedEvent (to_row updated))
                (push_event (SeUpdated (to_row updated))
                  (mg\<lparr>mg_sessions := (mg_sessions mg)(session_id \<mapsto> updated)\<rparr>))))"

definition manager_share :: "'v session_env \<Rightarrow> string \<Rightarrow> string \<Rightarrow> 'v SessionManager \<Rightarrow> 'v SessionRecord option \<times> 'v SessionManager" where
  "manager_share env session_id url = manager_change env session_id (session_set_share (sv_clock env 0) (Some url))"

definition manager_unshare :: "'v session_env \<Rightarrow> string \<Rightarrow> 'v SessionManager \<Rightarrow> 'v SessionRecord option \<times> 'v SessionManager" where
  "manager_unshare env session_id = manager_change env session_id (session_set_share (sv_clock env 0) None)"

definition manager_set_archived :: "'v session_env \<Rightarrow> string \<Rightarrow> i64 option \<Rightarrow> 'v SessionManager \<Rightarrow> 'v SessionRecord option \<times> 'v SessionManager" where
  "manager_set_archived env session_id time = manager_change env session_id (session_set_archived env time)"

definition manager_set_permission ::
    "'v session_env \<Rightarrow> string \<Rightarrow> SessionPermissionRules \<Rightarrow> 'v SessionManager \<Rightarrow> 'v SessionRecord option \<times> 'v SessionManager" where
  "manager_set_permission env session_id p = manager_change env session_id (session_set_permission (sv_clock env 0) p)"

definition manager_set_revert ::
    "'v session_env \<Rightarrow> string \<Rightarrow> SessionRevert \<Rightarrow> 'v SessionManager \<Rightarrow> 'v SessionRecord option \<times> 'v SessionManager" where
  "manager_set_revert env session_id r = manager_change env session_id (session_set_revert (sv_clock env 0) (Some r))"

definition manager_clear_revert :: "'v session_env \<Rightarrow> string \<Rightarrow> 'v SessionManager \<Rightarrow> 'v SessionRecord option \<times> 'v SessionManager" where
  "manager_clear_revert env session_id = manager_change env session_id (session_set_revert (sv_clock env 0) None)"

definition manager_set_summary ::
    "'v session_env \<Rightarrow> string \<Rightarrow> SessionSummary \<Rightarrow> 'v SessionManager \<Rightarrow> 'v SessionRecord option \<times> 'v SessionManager" where
  "manager_set_summary env session_id x = manager_change env session_id (session_set_summary (sv_clock env 0) x)"

definition manager_delete ::
    "'v session_env \<Rightarrow> string \<Rightarrow> 'v SessionManager \<Rightarrow> 'v SessionRecord option \<times> 'v SessionManager" where
  "manager_delete env i mg =
     (case mg_sessions mg i of
        None \<Rightarrow> (None, mg)
      | Some s \<Rightarrow>
          (Some s, trigger_hook env (HookSessionEnd (sr_id s))
             (publish_event env (SessionDeletedEvent (to_row s))
               (push_event (SeDeleted (to_row s)) (mg\<lparr>mg_sessions := (mg_sessions mg)(i := None)\<rparr>)))))"

definition manager_update :: "'v session_env \<Rightarrow> 'v SessionRecord \<Rightarrow> 'v SessionManager \<Rightarrow> 'v SessionManager" where
  "manager_update env s mg =
     publish_event env (SessionUpdatedEvent (to_row s)) (push_event (SeUpdated (to_row s)) (store_session s mg))"

definition manager_restore :: "'v SessionRecord \<Rightarrow> 'v SessionManager \<Rightarrow> 'v SessionManager" where
  "manager_restore s mg = store_session s mg"

definition drain_events :: "'v SessionManager \<Rightarrow> 'v SessionEvent list \<times> 'v SessionManager" where
  "drain_events mg = (mg_events mg, mg\<lparr>mg_events := []\<rparr>)"

text \<open>Operations on the messages and parts of a session.\<close>

definition manager_update_message ::
    "'v session_env \<Rightarrow> string \<Rightarrow> 'v SessionMessage \<Rightarrow> 'v SessionManager \<Rightarrow> unit option \<times> 'v SessionManager" where
  "manager_update_message env session_id m mg =
     (case mg_sessions mg session_id of
        None \<Rightarrow> (None, mg)
      | Some s \<Rightarrow>
          (Some (), publish_event env (MessageUpdatedEvent m)
             (mg\<lparr>mg_sessions := (mg_sessions mg)(session_id \<mapsto> update_message (sv_clock env 0) m s)\<rparr>)))"

definition manager_remove_message ::
    "'v session_env \<Rightarrow> string \<Rightarrow> string \<Rightarrow> 'v SessionManager \<Rightarrow> 'v SessionMessage option \<times> 'v SessionManager" where
  "manager_remove_message env session_id message_id mg =
     (case mg_sessions mg session_id of
        None \<Rightarrow> (None, mg)
      | Some s \<Rightarrow>
          (case remove_message (sv_clock env 0) message_id s of
             (None, s') \<Rightarrow> (None, mg)
           | (Some m, s') \<Rightarrow>
               (Some m, publish_event env (MessageRemovedEvent session_id message_id)
                          (mg\<lparr>mg_sessions := (mg_sessions mg)(session_id \<mapsto> s')\<rparr>))))"

definition manager_update_part ::
    "'v session_env \<Rightarrow> string \<Rightarrow> string \<Rightarrow> 'v MessagePart \<Rightarrow> 'v SessionManager \<Rightarrow> unit option \<times> 'v SessionManager" where
  "manager_update_part env session_id message_id part mg =
     (case mg_sessions mg session_id of
        None \<Rightarrow> (None, mg)
      | Some s \<Rightarrow>
          (Some (), publish_event env (PartUpdatedEvent part)
             (mg\<lparr>mg_sessions := (mg_sessions mg)(session_id \<mapsto> snd (update_part (sv_clock env 0) message_id part s))\<rparr>)))"

definition manager_remove_part ::
    "'v session_env \<Rightarrow> string \<Rightarrow> string \<Rightarrow> string \<Rightarrow> 'v SessionManager \<Rightarrow> 'v MessagePart option \<times> 'v SessionManager" where
  "manager_remove_part env session_id message_id part_id mg =
     (case mg_sessions mg session_id of
        None \<Rightarrow> (None, mg)
      | Some s \<Rightarrow>
          (case remove_part (sv_clock env 0) message_id part_id s of
             (None, s') \<Rightarrow> (None, mg)
           | (Some p, s') \<Rightarrow>
               (Some p, publish_event env (PartRemovedEvent session_id message_id part_id)
                          (mg\<lparr>mg_sessions := (mg_sessions mg)(session_id \<mapsto> s')\<rparr>))))"

section \<open>Listing\<close>

record SessionFilter =
  sf_directory :: "string option"
  sf_roots :: bool
  sf_start :: "i64 option"
  sf_search :: "string option"
  sf_limit :: "nat option"

definition ascii_lower :: "char \<Rightarrow> char" where
  "ascii_lower c = (if 65 \<le> (of_char c :: nat) \<and> (of_char c :: nat) \<le> 90 then char_of (of_char c + 32 :: nat) else c)"

definition to_ascii_lowercase :: "string \<Rightarrow> string" where
  "to_ascii_lowercase = map ascii_lower"

definition matches_list_search :: "string \<Rightarrow> 'v SessionRecord \<Rightarrow> bool" where
  "matches_list_search search s =
     (let needle = to_ascii_lowercase (trim search)
      in if needle = [] then True else str_contains (to_ascii_lowercase (sr_title s)) needle)"

definition matches_filter :: "SessionFilter \<Rightarrow> 'v SessionRecord \<Rightarrow> bool" where
  "matches_filter f s =
     (if case sf_directory f of Some dir \<Rightarrow> sr_directory s \<noteq> dir | None \<Rightarrow> False then False
      else if sf_roots f \<and> sr_parent_id s \<noteq> None then False
      else if case sf_start f of Some t \<Rightarrow> st_updated (sr_time s) < t | None \<Rightarrow> False then False
      else if case sf_search f of Some q \<Rightarrow> \<not> matches_list_search q s | None \<Rightarrow> False then False
      else True)"

text \<open>The values of a hash map come in no fixed order.\<close>

definition list_filtered :: "SessionFilter \<Rightarrow> 'v SessionManager \<Rightarrow> 'v SessionRecord set" where
  "list_filtered f mg = {s \<in> ran (mg_sessions mg). matches_filter f s}"

section \<open>Run states\<close>

datatype RunState = RsIdle | RsBusy | RsRetrying u32 string i64

type_synonym SessionStateManager = "string \<rightharpoonup> RunState"

definition state_set :: "string \<Rightarrow> RunState \<Rightarrow> SessionStateManager \<Rightarrow> SessionStateManager" where
  "state_set i st m = m(i \<mapsto> st)"

definition state_get :: "string \<Rightarrow> SessionStateManager \<Rightarrow> RunState" where
  "state_get i m = unwrap_or (m i) RsIdle"

definition is_busy :: "string \<Rightarrow> SessionStateManager \<Rightarrow> bool" where
  "is_busy i m = (case state_get i m of RsIdle \<Rightarrow> False | _ \<Rightarrow> True)"

definition assert_not_busy :: "string \<Rightarrow> SessionStateManager \<Rightarrow> string + unit" where
  "assert_not_busy i m = (if is_busy i m then Inl i else Inr ())"

definition set_busy :: "string \<Rightarrow> SessionStateManager \<Rightarrow> SessionStateManager" where
  "set_busy i = state_set i RsBusy"

definition set_retrying :: "string \<Rightarrow> u32 \<Rightarrow> string \<Rightarrow> i64 \<Rightarrow> SessionStateManager \<Rightarrow> SessionStateManager" where
  "set_retrying i attempt msg nxt = state_set i (RsRetrying attempt msg nxt)"

definition set_idle :: "string \<Rightarrow> SessionStateManager \<Rightarrow> SessionStateManager" where
  "set_idle i = state_set i RsIdle"

definition state_remove :: "string \<Rightarrow> SessionStateManager \<Rightarrow> SessionStateManager" where
  "state_remove i m = m(i := None)"

end
