(* ===== verification/Session_Properties.thy ===== *)
theory Session_Properties
  imports Session_Manager Interfaces
begin

text \<open>
  Sessions and their manager: what a client can rebuild from the published events, what a fork takes
  over, whose usage is counted, and how titles, rows and message updates behave.
\<close>

section \<open>Stores with replacement\<close>

text \<open>
  A store into which an item replaces the item with its key or is added: the messages of a session and
  the parts of a message.
\<close>

lemma find_appended: "List.find P (xs @ ys) = (case List.find P xs of Some x \<Rightarrow> Some x | None \<Rightarrow> List.find P ys)"
  by (induction xs) auto

locale upsert_store =
  fixes lookup :: "'s \<Rightarrow> 'k \<Rightarrow> 'a option" and upsert :: "'u \<Rightarrow> 's \<Rightarrow> 's" and item :: "'u \<Rightarrow> 'a" and key :: "'a \<Rightarrow> 'k"
  assumes lookup_upsert: "lookup (upsert u s) k = (if key (item u) = k then Some (item u) else lookup s k)"
begin

lemma lookup_fold:
  "lookup (fold upsert us s) k =
     (case List.find (\<lambda>x. key x = k) (rev (map item us)) of Some x \<Rightarrow> Some x | None \<Rightarrow> lookup s k)"
proof (induction us arbitrary: s)
  case (Cons u us)
  show ?case
    by (cases "List.find (\<lambda>x. key x = k) (rev (map item us))")
       (auto simp: Cons lookup_upsert find_appended split: option.splits)
qed simp

end

lemma find_list_update_position:
  assumes "position (\<lambda>y. key y = key x) xs = Some i"
  shows "List.find (\<lambda>y. key y = k) (xs[i := x]) = (if key x = k then Some x else List.find (\<lambda>y. key y = k) xs)"
  using assms
proof (induction xs arbitrary: i)
  case (Cons y ys)
  show ?case
  proof (cases "key y = key x")
    case True
    with Cons.prems show ?thesis by auto
  next
    case False
    with Cons.prems obtain j where "i = Suc j" "position (\<lambda>y. key y = key x) ys = Some j" by auto
    with Cons.IH [of j] False show ?thesis by auto
  qed
qed simp

lemma find_upsert:
  "List.find (\<lambda>y. key y = k)
     (case position (\<lambda>y. key y = key x) xs of Some i \<Rightarrow> xs[i := x] | None \<Rightarrow> xs @ [x])
   = (if key x = k then Some x else List.find (\<lambda>y. key y = k) xs)"
proof (cases "position (\<lambda>y. key y = key x) xs")
  case None
  then have "List.find (\<lambda>y. key y = key x) xs = None"
    by (auto simp: position_None_iff find_None_iff)
  then show ?thesis using None by (auto simp: find_appended split: option.splits)
next
  case (Some i)
  then show ?thesis using find_list_update_position [OF Some] by simp
qed

definition put_message :: "DateTime \<times> 'v SessionMessage \<Rightarrow> 'v SessionRecord \<Rightarrow> 'v SessionRecord" where
  "put_message u = update_message (fst u) (snd u)"

interpretation messages: upsert_store "\<lambda>s i. get_message i s" put_message snd sm_id
proof unfold_locales
  fix u :: "DateTime \<times> 'v SessionMessage" and s :: "'v SessionRecord" and k
  show "get_message k (put_message u s) = (if sm_id (snd u) = k then Some (snd u) else get_message k s)"
    using find_upsert [where key = sm_id and k = k and x = "snd u" and xs = "sr_messages s"]
    by (auto simp: get_message_def put_message_def update_message_def touch_def split: option.splits)
qed

definition get_part :: "'v SessionMessage \<Rightarrow> string \<Rightarrow> 'v MessagePart option" where
  "get_part m i = List.find (\<lambda>p. mp_id p = i) (sm_parts m)"

interpretation parts: upsert_store get_part replace_part "\<lambda>p. p" mp_id
proof unfold_locales
  fix x :: "'v MessagePart" and m :: "'v SessionMessage" and k
  show "get_part (replace_part x m) k = (if mp_id x = k then Some x else get_part m k)"
    using find_upsert [where key = mp_id and k = k and x = x and xs = "sm_parts m"]
    by (auto simp: get_part_def replace_part_def split: option.splits)
qed


section \<open>What a client can rebuild\<close>

text \<open>A component whose published messages tell a client how its view changes.\<close>

locale event_sourced =
  fixes step :: "'o \<Rightarrow> 's \<Rightarrow> 's" and log :: "'s \<Rightarrow> 'm list" and view :: "'s \<Rightarrow> 'r"
    and replay :: "'r \<Rightarrow> 'm \<Rightarrow> 'r" and inv :: "'s \<Rightarrow> bool" and told :: "'o \<Rightarrow> bool"
  assumes step_inv: "inv s \<Longrightarrow> told x \<Longrightarrow> inv (step x s)"
    and step_log: "inv s \<Longrightarrow> told x \<Longrightarrow>
           \<exists>ms. log (step x s) = log s @ ms \<and> view (step x s) = foldl replay (view s) ms"
begin

lemma run_log:
  "inv s \<Longrightarrow> list_all told xs \<Longrightarrow>
     \<exists>ms. log (fold step xs s) = log s @ ms \<and> view (fold step xs s) = foldl replay (view s) ms"
proof (induction xs arbitrary: s)
  case (Cons x xs)
  then have inv: "inv s" and x: "told x" and xs: "list_all told xs" by auto
  from step_log [OF inv x] obtain ms where
    ms: "log (step x s) = log s @ ms" "view (step x s) = foldl replay (view s) ms" by blast
  from Cons.IH [OF step_inv [OF inv x] xs] obtain ns where
    "log (fold step xs (step x s)) = log (step x s) @ ns"
    "view (fold step xs (step x s)) = foldl replay (view (step x s)) ns" by blast
  then show ?case using ms by (intro exI [of _ "ms @ ns"]) simp
qed simp

lemma run_inv: "inv s \<Longrightarrow> list_all told xs \<Longrightarrow> inv (fold step xs s)"
  by (induction xs arbitrary: s) (auto simp: step_inv)

end

datatype 'v manager_op =
    MCreate "'v session_env" string string
  | MFork "'v session_env" string SessionForkSpec
  | MShare "'v session_env" string string
  | MUnshare "'v session_env" string
  | MArchive "'v session_env" string "i64 option"
  | MPermission "'v session_env" string SessionPermissionRules
  | MSetRevert "'v session_env" string SessionRevert
  | MClearRevert "'v session_env" string
  | MSummary "'v session_env" string SessionSummary
  | MDelete "'v session_env" string
  | MUpdate "'v session_env" "'v SessionRecord"
  | MRestore "'v SessionRecord"
  | MDrain
  | MSetBus
  | MUpdateMessage "'v session_env" string "'v SessionMessage"
  | MRemoveMessage "'v session_env" string string
  | MUpdatePart "'v session_env" string string "'v MessagePart"
  | MRemovePart "'v session_env" string string string

fun manager_run :: "'v manager_op \<Rightarrow> 'v SessionManager \<Rightarrow> 'v SessionManager" where
  "manager_run (MCreate env p d) mg = snd (manager_create env p d mg)"
| "manager_run (MFork env i spec) mg = snd (manager_fork env i spec mg)"
| "manager_run (MShare env i url) mg = snd (manager_share env i url mg)"
| "manager_run (MUnshare env i) mg = snd (manager_unshare env i mg)"
| "manager_run (MArchive env i t) mg = snd (manager_set_archived env i t mg)"
| "manager_run (MPermission env i p) mg = snd (manager_set_permission env i p mg)"
| "manager_run (MSetRevert env i r) mg = snd (manager_set_revert env i r mg)"
| "manager_run (MClearRevert env i) mg = snd (manager_clear_revert env i mg)"
| "manager_run (MSummary env i x) mg = snd (manager_set_summary env i x mg)"
| "manager_run (MDelete env i) mg = snd (manager_delete env i mg)"
| "manager_run (MUpdate env s) mg = manager_update env s mg"
| "manager_run (MRestore s) mg = manager_restore s mg"
| "manager_run MDrain mg = snd (drain_events mg)"
| "manager_run MSetBus mg = set_bus mg"
| "manager_run (MUpdateMessage env i m) mg = snd (manager_update_message env i m mg)"
| "manager_run (MRemoveMessage env i m) mg = snd (manager_remove_message env i m mg)"
| "manager_run (MUpdatePart env i m p) mg = snd (manager_update_part env i m p mg)"
| "manager_run (MRemovePart env i m p) mg = snd (manager_remove_part env i m p mg)"

text \<open>
  Operations that run where tasks can be spawned; restoring at the start of the server is silent by
  intention.
\<close>

fun announced :: "'v manager_op \<Rightarrow> bool" where
  "announced (MCreate env p d) = sv_runtime env"
| "announced (MFork env i spec) = sv_runtime env"
| "announced (MShare env i url) = sv_runtime env"
| "announced (MUnshare env i) = sv_runtime env"
| "announced (MArchive env i t) = sv_runtime env"
| "announced (MPermission env i p) = sv_runtime env"
| "announced (MSetRevert env i r) = sv_runtime env"
| "announced (MClearRevert env i) = sv_runtime env"
| "announced (MSummary env i x) = sv_runtime env"
| "announced (MDelete env i) = sv_runtime env"
| "announced (MUpdate env s) = sv_runtime env"
| "announced (MRestore s) = False"
| "announced MDrain = True"
| "announced MSetBus = True"
| "announced (MUpdateMessage env i m) = sv_runtime env"
| "announced (MRemoveMessage env i m) = sv_runtime env"
| "announced (MUpdatePart env i m p) = sv_runtime env"
| "announced (MRemovePart env i m p) = sv_runtime env"

text \<open>Every session is stored under its own id, and the event queue is bounded.\<close>

definition manager_ok :: "'v SessionManager \<Rightarrow> bool" where
  "manager_ok mg \<longleftrightarrow> (\<forall>i s. mg_sessions mg i = Some s \<longrightarrow> sr_id s = i)
     \<and> length (mg_events mg) \<le> SESSION_EVENT_QUEUE_CAP"

text \<open>
  The row of a session but for the time of its last change, which also moves when a message changes,
  and what a client makes of the published messages.
\<close>

definition timeless :: "SessionRow \<Rightarrow> SessionRow" where
  "timeless row = row\<lparr>row_time_updated := 0\<rparr>"

definition session_rows :: "'v SessionManager \<Rightarrow> string \<Rightarrow> SessionRow option" where
  "session_rows mg i = map_option (\<lambda>s. timeless (to_row s)) (mg_sessions mg i)"

fun replay_row :: "(string \<Rightarrow> SessionRow option) \<Rightarrow> 'v bus_message \<Rightarrow> string \<Rightarrow> SessionRow option" where
  "replay_row rows (SessionCreatedEvent r) = rows(row_id r \<mapsto> timeless r)"
| "replay_row rows (SessionUpdatedEvent r) = rows(row_id r \<mapsto> timeless r)"
| "replay_row rows (SessionDeletedEvent r) = rows(row_id r := None)"
| "replay_row rows _ = rows"

lemmas manager_defs = manager_create_def manager_fork_def manager_share_def manager_unshare_def
  manager_set_archived_def manager_set_permission_def manager_set_revert_def manager_clear_revert_def
  manager_set_summary_def manager_delete_def manager_update_def manager_restore_def drain_events_def
  set_bus_def manager_update_message_def manager_remove_message_def manager_update_part_def
  manager_remove_part_def

lemma store_simps [simp]:
  "mg_sessions (push_event ev mg) = mg_sessions mg" "mg_bus (push_event ev mg) = mg_bus mg"
  "mg_sent (push_event ev mg) = mg_sent mg"
  "mg_sessions (publish_event env msg mg) = mg_sessions mg" "mg_bus (publish_event env msg mg) = mg_bus mg"
  "mg_events (publish_event env msg mg) = mg_events mg"
  "mg_sessions (trigger_hook env msg mg) = mg_sessions mg" "mg_bus (trigger_hook env msg mg) = mg_bus mg"
  "mg_events (trigger_hook env msg mg) = mg_events mg"
  "mg_sessions (store_session s mg) = (mg_sessions mg)(sr_id s \<mapsto> s)" "mg_bus (store_session s mg) = mg_bus mg"
  "mg_sent (store_session s mg) = mg_sent mg" "mg_events (store_session s mg) = mg_events mg"
  by (simp_all add: push_event_def publish_event_def trigger_hook_def store_session_def Let_def)

lemma sent_simps:
  "sv_runtime env \<Longrightarrow> mg_bus mg \<Longrightarrow> mg_sent (publish_event env msg mg) = mg_sent mg @ [msg]"
  "sv_runtime env \<Longrightarrow> mg_sent (trigger_hook env msg mg) = mg_sent mg @ [msg]"
  by (simp_all add: publish_event_def trigger_hook_def)

lemma push_event_bounded: "length (mg_events (push_event ev mg)) \<le> SESSION_EVENT_QUEUE_CAP \<longleftrightarrow>
    length (mg_events mg) \<le> SESSION_EVENT_QUEUE_CAP"
  by (auto simp: push_event_def Let_def SESSION_EVENT_QUEUE_CAP_def)

lemma touch_row [simp]: "timeless (to_row (touch now s)) = timeless (to_row s)" "sr_id (touch now s) = sr_id s"
  by (simp_all add: touch_def to_row_def timeless_def)

lemma row_id_to_row [simp]: "row_id (to_row s) = sr_id s"
  by (simp add: to_row_def)

lemma setting_ids [simp]:
  "sr_id (session_set_share now u s) = sr_id s" "sr_id (session_set_archived env t s) = sr_id s"
  "sr_id (session_set_permission now p s) = sr_id s" "sr_id (session_set_revert now r s) = sr_id s"
  "sr_id (session_set_summary now x s) = sr_id s"
  by (simp_all add: session_set_share_def session_set_archived_def session_set_permission_def
      session_set_revert_def session_set_summary_def split: prod.splits)

text \<open>Changes of the messages show in the row only by the time.\<close>

lemma messages_row [simp]: "timeless (to_row (s\<lparr>sr_messages := ms\<rparr>)) = timeless (to_row s)"
  by (simp add: to_row_def timeless_def)

lemma message_ops_row:
  "sr_id (update_message now m s) = sr_id s"
  "timeless (to_row (update_message now m s)) = timeless (to_row s)"
  "sr_id (snd (remove_message now i s)) = sr_id s"
  "timeless (to_row (snd (remove_message now i s))) = timeless (to_row s)"
  "sr_id (snd (update_part now i p s)) = sr_id s"
  "timeless (to_row (snd (update_part now i p s))) = timeless (to_row s)"
  "sr_id (snd (remove_part now i k s)) = sr_id s"
  "timeless (to_row (snd (remove_part now i k s))) = timeless (to_row s)"
  by (simp_all add: update_message_def remove_message_def update_part_def remove_part_def Let_def
      split: option.splits)


text \<open>A step announced by messages \<open>ms\<close>, and one that changes a session only in its messages.\<close>

definition told_by :: "'v bus_message list \<Rightarrow> 'v SessionManager \<Rightarrow> 'v SessionManager \<Rightarrow> bool" where
  "told_by ms mg mg' \<longleftrightarrow> mg_bus mg' \<and> manager_ok mg' \<and> mg_sent mg' = mg_sent mg @ ms
     \<and> session_rows mg' = foldl replay_row (session_rows mg) ms"

lemma session_rows_store:
  "mg_sessions mg' = (mg_sessions mg)(i \<mapsto> s) \<Longrightarrow> session_rows mg' = (session_rows mg)(i \<mapsto> timeless (to_row s))"
  by (auto simp: session_rows_def)

lemma told_change:
  assumes "manager_ok mg" "mg_bus mg" "sv_runtime env" "\<And>s. sr_id (f s) = sr_id s"
  shows "\<exists>ms. told_by ms mg (snd (manager_change env i f mg))"
proof (cases "mg_sessions mg i")
  case None
  then show ?thesis using assms by (intro exI [of _ "[]"]) (simp add: manager_change_def told_by_def)
next
  case (Some s)
  then have i: "sr_id (f s) = i" using assms by (auto simp: manager_ok_def)
  let ?mg = "snd (manager_change env i f mg)"
  have "mg_sessions ?mg = (mg_sessions mg)(i \<mapsto> f s)" using Some by (simp add: manager_change_def Let_def)
  from session_rows_store [OF this] show ?thesis
    using assms Some i
    by (intro exI [of _ "[SessionUpdatedEvent (to_row (f s))]"])
       (auto simp: told_by_def manager_change_def Let_def sent_simps manager_ok_def push_event_bounded)
qed

lemma told_messages:
  assumes "manager_ok mg" "mg_bus mg" "sv_runtime env" "mg_sessions mg i = Some s" "sr_id s' = sr_id s"
    "timeless (to_row s') = timeless (to_row s)" "\<And>rows. replay_row rows msg = rows"
  shows "\<exists>ms. told_by ms mg (publish_event env msg (mg\<lparr>mg_sessions := (mg_sessions mg)(i \<mapsto> s')\<rparr>))"
  using assms
  by (intro exI [of _ "[msg]"]) (auto simp: told_by_def sent_simps manager_ok_def session_rows_def)

lemma told_nothing: "manager_ok mg \<Longrightarrow> mg_bus mg \<Longrightarrow> \<exists>ms. told_by ms mg mg"
  by (intro exI [of _ "[]"]) (simp add: told_by_def)

lemma told_created:
  assumes "manager_ok mg" "mg_bus mg" "sv_runtime env"
  shows "\<exists>ms. told_by ms mg (snd (manager_create env p d mg))" "\<exists>ms. told_by ms mg (snd (manager_fork env i spec mg))"
    "\<exists>ms. told_by ms mg (manager_update env s mg)"
proof -
  have store: "session_rows (store_session s mg) = (session_rows mg)(sr_id s \<mapsto> timeless (to_row s))" for s
    by (rule session_rows_store) simp
  have same: "session_rows (publish_event env msg (push_event ev m)) = session_rows m"
    "session_rows (trigger_hook env msg m) = session_rows m" for msg ev and m :: "'a SessionManager"
    by (simp_all add: session_rows_def fun_eq_iff)
  show "\<exists>ms. told_by ms mg (snd (manager_create env p d mg))"
    using assms by (intro exI [of _ "[SessionCreatedEvent (to_row (session_new env p d)),
          HookSessionStart (sr_id (session_new env p d))]"])
      (auto simp: told_by_def manager_create_def Let_def sent_simps store same manager_ok_def push_event_bounded)
  show "\<exists>ms. told_by ms mg (manager_update env s mg)"
    using assms by (intro exI [of _ "[SessionUpdatedEvent (to_row s)]"])
      (auto simp: told_by_def manager_update_def sent_simps store same manager_ok_def push_event_bounded)
  have fork: "\<exists>ms. told_by ms mg (publish_event env (SessionCreatedEvent (to_row f))
      (push_event (SeCreated (to_row f)) (store_session f mg)))" for f
    using assms by (intro exI [of _ "[SessionCreatedEvent (to_row f)]"])
      (auto simp: told_by_def sent_simps store same manager_ok_def push_event_bounded)
  show "\<exists>ms. told_by ms mg (snd (manager_fork env i spec mg))"
    using fork told_nothing [OF assms(1,2)]
    by (auto simp: manager_fork_def split: option.splits sum.splits)
qed

lemma told_deleted:
  assumes "manager_ok mg" "mg_bus mg" "sv_runtime env"
  shows "\<exists>ms. told_by ms mg (snd (manager_delete env i mg))"
proof (cases "mg_sessions mg i")
  case None
  then show ?thesis using told_nothing [OF assms(1,2)] by (simp add: manager_delete_def)
next
  case (Some s)
  then have i: "sr_id s = i" using assms by (auto simp: manager_ok_def)
  let ?mg = "snd (manager_delete env i mg)"
  have "session_rows ?mg = (session_rows mg)(i := None)"
    using Some by (auto simp: manager_delete_def session_rows_def)
  then show ?thesis using assms Some i
    by (intro exI [of _ "[SessionDeletedEvent (to_row s), HookSessionEnd (sr_id s)]"])
       (auto simp: told_by_def manager_delete_def sent_simps manager_ok_def push_event_bounded)
qed

lemma told_message_ops:
  assumes "manager_ok mg" "mg_bus mg" "sv_runtime env"
  shows "\<exists>ms. told_by ms mg (snd (manager_update_message env i m mg))"
    "\<exists>ms. told_by ms mg (snd (manager_remove_message env i k mg))"
    "\<exists>ms. told_by ms mg (snd (manager_update_part env i k p mg))"
    "\<exists>ms. told_by ms mg (snd (manager_remove_part env i k q mg))"
proof -
  show "\<exists>ms. told_by ms mg (snd (manager_update_message env i m mg))"
    using told_nothing [OF assms(1,2)] told_messages [OF assms]
    by (auto simp: manager_update_message_def message_ops_row split: option.splits)
  show "\<exists>ms. told_by ms mg (snd (manager_update_part env i k p mg))"
    using told_nothing [OF assms(1,2)] told_messages [OF assms]
    by (auto simp: manager_update_part_def message_ops_row split: option.splits)
  have rm: "remove_message now k s = (r, s') \<Longrightarrow> sr_id s' = sr_id s \<and> timeless (to_row s') = timeless (to_row s)"
    and rp: "remove_part now k q s = (r', s') \<Longrightarrow> sr_id s' = sr_id s \<and> timeless (to_row s') = timeless (to_row s)"
    for now s r r' and s' :: "'a SessionRecord"
    using message_ops_row(3,4) [of now k s] message_ops_row(7,8) [of now k q s] by auto
  show "\<exists>ms. told_by ms mg (snd (manager_remove_message env i k mg))"
    using told_nothing [OF assms(1,2)] told_messages [OF assms] rm
    by (fastforce simp: manager_remove_message_def split: option.splits prod.splits)
  show "\<exists>ms. told_by ms mg (snd (manager_remove_part env i k q mg))"
    using told_nothing [OF assms(1,2)] told_messages [OF assms] rp
    by (fastforce simp: manager_remove_part_def split: option.splits prod.splits)
qed

lemma told_step:
  assumes "manager_ok mg" "mg_bus mg" "announced x"
  shows "\<exists>ms. told_by ms mg (manager_run x mg)"
  using assms
  by (cases x) (simp_all add: told_change told_created told_deleted told_message_ops manager_share_def
      manager_unshare_def manager_set_archived_def manager_set_permission_def manager_set_revert_def
      manager_clear_revert_def manager_set_summary_def,
      auto simp: told_by_def drain_events_def set_bus_def manager_ok_def session_rows_def intro!: exI [of _ "[]"])

interpretation manager_log: event_sourced manager_run mg_sent session_rows replay_row
  "\<lambda>mg. manager_ok mg \<and> mg_bus mg" announced
  by unfold_locales (use told_step in \<open>fastforce simp: told_by_def\<close>)+



text \<open>An environment and a manager with one session to try the theorems on.\<close>

datatype sample_value = SvBool bool | SvString string | SvNum nat

definition sample_session_env :: "sample_value session_env" where
  "sample_session_env = \<lparr>sv_clock = (\<lambda>i. 1000000 * int i), sv_uuid = (\<lambda>i. ''u'' @ show_nat i),
     sv_simple = (\<lambda>i. ''x'' @ show_nat i), sv_rfc3339 = (\<lambda>_. ''1970''), sv_is_rfc3339 = (\<lambda>s. s = ''1970''),
     sv_from_millis = (\<lambda>t. Some (1000000 * t)), sv_bool = SvBool,
     sv_as_bool = (\<lambda>v. case v of SvBool b \<Rightarrow> Some b | _ \<Rightarrow> None), sv_string = SvString,
     sv_as_str = (\<lambda>v. case v of SvString s \<Rightarrow> Some s | _ \<Rightarrow> None),
     sv_variant = (\<lambda>v. case v of SvString s \<Rightarrow> Some s | _ \<Rightarrow> None), sv_usize = SvNum,
     sv_as_usize = (\<lambda>v. case v of SvNum n \<Rightarrow> Some n | _ \<Rightarrow> None), sv_cost_add = (+), sv_runtime = True\<rparr>"

lemma sample_session_env_ok: "session_env_ok sample_session_env"
  by (simp add: session_env_ok_def sample_session_env_def)

definition sample_message :: "sample_value SessionMessage" where
  "sample_message = user_message sample_session_env ''s'' ''hello''"

definition sample_session :: "sample_value SessionRecord" where
  "sample_session = (session_new sample_session_env ''p'' ''/w'')\<lparr>sr_id := ''s'', sr_messages := [sample_message],
     sr_metadata := [''agent'' \<mapsto> SvString ''build'', ''private'' \<mapsto> SvBool True]\<rparr>"

definition sample_manager :: "sample_value SessionManager" where
  "sample_manager = with_bus\<lparr>mg_sessions := [''s'' \<mapsto> sample_session]\<rparr>"

lemma sample_manager_simps [simp]:
  "mg_sessions sample_manager = [''s'' \<mapsto> sample_session]" "mg_bus sample_manager" "mg_sent sample_manager = []"
  "sv_runtime sample_session_env" "sr_id sample_session = ''s''" "sr_messages sample_session = [sample_message]"
  "sr_metadata sample_session = [''agent'' \<mapsto> SvString ''build'', ''private'' \<mapsto> SvBool True]"
  by (simp_all add: sample_manager_def with_bus_def sample_session_env_def sample_session_def)

lemma sample_manager_ok: "manager_ok sample_manager"
  by (simp add: manager_ok_def) (simp add: sample_manager_def with_bus_def SESSION_EVENT_QUEUE_CAP_def)


section \<open>Messages\<close>

text \<open>
  \<^bold>\<open>Note.\<close> While a session is streamed, every message reads as it was last put: after any sequence of
  message updates each message of the session is its last update, messages without update are as
  before, no other session changes, and each update is published.
\<close>

theorem messages_read_last_update:
  assumes "mg_sessions mg i = Some s" and "mg_bus mg" and "\<forall>u\<in>set us. sv_runtime (fst u)"
  shows "\<exists>s'. mg_sessions (fold (\<lambda>u mg. snd (manager_update_message (fst u) i (snd u) mg)) us mg) = (mg_sessions mg)(i \<mapsto> s')
     \<and> (\<forall>k. get_message k s' = (case List.find (\<lambda>m. sm_id m = k) (rev (map snd us)) of
                                 Some m \<Rightarrow> Some m | None \<Rightarrow> get_message k s))
     \<and> mg_sent (fold (\<lambda>u mg. snd (manager_update_message (fst u) i (snd u) mg)) us mg) =
         mg_sent mg @ map (\<lambda>u. MessageUpdatedEvent (snd u)) us"
proof -
  let ?run = "\<lambda>us mg. fold (\<lambda>u mg. snd (manager_update_message (fst u) i (snd u) mg)) us mg"
  let ?puts = "map (\<lambda>u. (sv_clock (fst u) 0, snd u)) us"
  have "mg_sessions (?run us mg) = (mg_sessions mg)(i \<mapsto> fold put_message (map (\<lambda>u. (sv_clock (fst u) 0, snd u)) us) s)
     \<and> mg_sent (?run us mg) = mg_sent mg @ map (\<lambda>u. MessageUpdatedEvent (snd u)) us"
    using assms
  proof (induction us arbitrary: mg s)
    case (Cons u us)
    let ?mg = "snd (manager_update_message (fst u) i (snd u) mg)"
    have "mg_sessions ?mg = (mg_sessions mg)(i \<mapsto> put_message (sv_clock (fst u) 0, snd u) s)" "mg_bus ?mg"
      "mg_sent ?mg = mg_sent mg @ [MessageUpdatedEvent (snd u)]"
      using Cons.prems by (simp_all add: manager_update_message_def put_message_def publish_event_def)
    with Cons.IH [of ?mg "put_message (sv_clock (fst u) 0, snd u) s"] Cons.prems show ?case by (simp add: fun_upd_def) auto
  qed (auto simp: fun_upd_idem)
  moreover have "get_message k (fold put_message ?puts s) =
      (case List.find (\<lambda>m. sm_id m = k) (rev (map snd us)) of Some m \<Rightarrow> Some m | None \<Rightarrow> get_message k s)" for k
    using messages.lookup_fold [where us = ?puts and s = s and k = k] by (simp add: o_def)
  ultimately show ?thesis by blast
qed

theorem messages_read_last_update_witness:
  "\<exists>s'. mg_sessions (fold (\<lambda>u mg. snd (manager_update_message (fst u) ''s'' (snd u) mg))
            [(sample_session_env, sample_message\<lparr>sm_finish := Some ''stop''\<rparr>)] sample_manager)
          = (mg_sessions sample_manager)(''s'' \<mapsto> s')
     \<and> get_message (sm_id sample_message) s' = Some (sample_message\<lparr>sm_finish := Some ''stop''\<rparr>)"
proof -
  have "\<forall>u\<in>set [(sample_session_env, sample_message\<lparr>sm_finish := Some ''stop''\<rparr>)]. sv_runtime (fst u)" by simp
  from messages_read_last_update [of sample_manager "''s''" sample_session, OF _ _ this] show ?thesis
    by (auto dest: spec [of _ "sm_id sample_message"])
qed

section \<open>Titles\<close>

lemma rfind_no_space: "\<forall>c\<in>set r. c \<noteq> CHR '' '' \<Longrightarrow> str_rfind r FORK_MARK = None"
  by (induction r) (auto simp: FORK_MARK_def starts_with_def)

lemma rfind_after:
  assumes "str_rfind r FORK_MARK = None"
  shows "str_rfind (t @ FORK_MARK @ r) FORK_MARK = Some (length t)"
proof (induction t)
  case Nil
  show ?case using assms by (simp add: FORK_MARK_def starts_with_def)
qed simp

lemma forked_title_again:
  assumes "n < 2 ^ 32"
  shows "forked_title (t @ FORK_MARK @ show_nat n @ '')'') =
    t @ FORK_MARK @ show_nat (unat (of_nat n + 1 :: u32)) @ '')''"
proof -
  let ?title = "t @ FORK_MARK @ show_nat n @ '')''"
  have "\<forall>c\<in>set (show_nat n @ '')''). c \<noteq> CHR '' ''"
    using show_nat_digits [of n] by (auto simp: list_all_iff is_digit_def)
  note pos = rfind_after [OF rfind_no_space [OF this], of t]
  then have has: "str_contains ?title FORK_MARK"
    by (auto simp: str_contains_occurs str_rfind_Some_iff)
  have ends: "ends_with ?title '')''" by (simp add: ends_with_def starts_with_def)
  have len: "length FORK_MARK = 8" by (simp add: FORK_MARK_def)
  have "take (length ?title - 1 - (length t + 8)) (drop (length t + 8) ?title) = show_nat n"
    by (simp add: len)
  moreover have "parse_u32 (show_nat n) = Some n"
    using assms by (simp add: parse_u32_digits show_nat_digits dec_val_show_nat)
  ultimately show ?thesis using pos has ends by (simp add: forked_title_def Let_def)
qed

text \<open>
  \<^bold>\<open>Note.\<close> Forks of forks are numbered: the title of the \<open>n\<close>-th fork in a row is the first title with
  \<open>(fork #n)\<close>.
\<close>

theorem forked_titles_count:
  assumes "\<not> (ends_with t '')'' \<and> str_contains t FORK_MARK)" and "0 < n" and "n < 2 ^ 32"
  shows "(forked_title ^^ n) t = t @ FORK_MARK @ show_nat n @ '')''"
  using assms(2,3)
proof (induction n)
  case (Suc n)
  show ?case
  proof (cases "n = 0")
    case True
    then show ?thesis using assms(1) by (auto simp: forked_title_def Let_def show_nat.simps digit_char_numeral)
  next
    case False
    then have "forked_title ((forked_title ^^ n) t) = t @ FORK_MARK @ show_nat (unat (of_nat n + 1 :: u32)) @ '')''"
      using Suc forked_title_again [of n t] by simp
    moreover have "unat (of_nat (Suc n) :: u32) = Suc n"
      using Suc.prems by (simp only: unat_of_nat) (simp add: take_bit_nat_eq_self)
    then have "unat (of_nat n + 1 :: u32) = Suc n" by (simp add: add.commute)
    ultimately show ?thesis by simp
  qed
qed simp

theorem forked_titles_count_witness: "(forked_title ^^ 3) ''plan'' = ''plan (fork #3)''"
proof -
  have "\<not> (ends_with ''plan'' '')'' \<and> str_contains ''plan'' FORK_MARK)"
    by (simp add: ends_with_def starts_with_def)
  from forked_titles_count [OF this, of 3] show ?thesis
    by (simp add: FORK_MARK_def show_nat.simps digit_char_numeral)
qed

section \<open>Rows\<close>

text \<open>
  \<^bold>\<open>Note.\<close> A row survives a round trip through the session it describes, and the session read from a row
  is archived, compacting or active as the times in the row say.
\<close>

theorem row_roundtrip:
  "to_row (from_row env (to_row s)) = to_row s
   \<and> sr_status (from_row env (to_row s)) =
       (if st_archived (sr_time s) \<noteq> None then StArchived
        else if st_compacting (sr_time s) \<noteq> None then StCompacting else StActive)"
  by (cases "sr_summary s") (simp_all add: to_row_def from_row_def Let_def unwrap_or_def)

section \<open>Findings\<close>

text \<open>The number of sessions asked for is not looked at when sessions are listed.\<close>

lemma list_limit_ignored: "list_filtered (f\<lparr>sf_limit := n\<rparr>) mg = list_filtered f mg"
  by (simp add: list_filtered_def matches_filter_def)

text \<open>An update of a part of a message that does not exist is reported as done and published.\<close>

lemma missing_part_update_published:
  assumes "mg_sessions mg i = Some s" "get_message k s = None" "mg_bus mg" "sv_runtime env"
  shows "manager_update_part env i k p mg = (Some (), mg\<lparr>mg_sent := mg_sent mg @ [PartUpdatedEvent p]\<rparr>)"
  using assms by (simp add: manager_update_part_def update_part_def publish_event_def fun_upd_idem)

text \<open>The number of a fork wraps around.\<close>

lemma fork_number_wraps: "forked_title (t @ FORK_MARK @ show_nat (2 ^ 32 - 1) @ '')'') = t @ FORK_MARK @ ''0)''"
  using forked_title_again [of "2 ^ 32 - 1" t] by (simp add: show_nat.simps digit_char_numeral)

text \<open>An archived session that finishes compacting is active again, though its row says archived.\<close>

lemma archived_session_reactivated:
  "sr_status (finish_compacting now (start_compacting now' (session_set_archived env t s))) = StActive"
  "row_time_archived (to_row (finish_compacting now (start_compacting now' (session_set_archived env t s)))) \<noteq> None"
  by (simp_all add: finish_compacting_def start_compacting_def session_set_archived_def touch_def to_row_def
      split: prod.splits option.splits)

end
