(* ===== verification/Session_Fork_Properties.thy ===== *)
theory Session_Fork_Properties
  imports Session_Properties
begin

text \<open>What a fork takes over from its source, and whose usage a session counts.\<close>

section \<open>Metadata of a fork\<close>

lemma insert_metadata_simps [simp]:
  "sr_metadata (snd (session_insert_metadata now k v s)) = (sr_metadata s)(k \<mapsto> v)"
  by (simp add: session_insert_metadata_def touch_def)

text \<open>The fields that copying metadata leaves alone.\<close>

definition same_but_metadata :: "'v SessionRecord \<Rightarrow> 'v SessionRecord \<Rightarrow> bool" where
  "same_but_metadata s t \<longleftrightarrow> sr_id t = sr_id s \<and> sr_slug t = sr_slug s \<and> sr_project_id t = sr_project_id s
     \<and> sr_directory t = sr_directory s \<and> sr_version t = sr_version s \<and> sr_summary t = sr_summary s
     \<and> sr_share t = sr_share s \<and> sr_revert t = sr_revert s \<and> sr_permission t = sr_permission s
     \<and> sr_usage t = sr_usage s \<and> sr_status t = sr_status s \<and> st_archived (sr_time t) = st_archived (sr_time s)
     \<and> st_compacting (sr_time t) = st_compacting (sr_time s)"

lemma same_insert_metadata: "same_but_metadata s (snd (session_insert_metadata now k v s))"
  by (simp add: same_but_metadata_def session_insert_metadata_def touch_def)

lemma same_trans: "same_but_metadata r s \<Longrightarrow> same_but_metadata s t \<Longrightarrow> same_but_metadata r t"
  by (simp add: same_but_metadata_def)

lemma copy_keys_metadata:
  "sr_metadata (snd (copy_keys env n ks source tgt)) k =
     (if k \<in> set ks \<and> sr_metadata source k \<noteq> None then sr_metadata source k else sr_metadata tgt k)"
  by (induction env n ks source tgt rule: copy_keys.induct) (auto split: option.splits)

lemma copy_keys_same: "same_but_metadata tgt (snd (copy_keys env n ks source tgt))"
proof (induction env n ks source tgt rule: copy_keys.induct)
  case (2 env n k ks source tgt)
  then show ?case
    by (cases "sr_metadata source k") (auto intro: same_trans [OF same_insert_metadata])
qed (simp add: same_but_metadata_def)

lemma copy_policy_metadata:
  "sr_metadata (copy_fork_policy_metadata_from env n source tgt) =
     (\<lambda>k. if k = FORK_POLICY_FROZEN_METADATA_KEY then Some (sv_bool env True)
          else if k \<in> set FORK_POLICY_METADATA_ALLOWLIST \<and> sr_metadata source k \<noteq> None then sr_metadata source k
          else sr_metadata tgt k)"
proof -
  obtain n' t where ck: "copy_keys env n FORK_POLICY_METADATA_ALLOWLIST source tgt = (n', t)" by fastforce
  have "sr_metadata t k = (if k \<in> set FORK_POLICY_METADATA_ALLOWLIST \<and> sr_metadata source k \<noteq> None
          then sr_metadata source k else sr_metadata tgt k)" for k
    using copy_keys_metadata [of env n FORK_POLICY_METADATA_ALLOWLIST source tgt k] ck by simp
  then show ?thesis by (auto simp: copy_fork_policy_metadata_from_def ck)
qed

lemma copy_policy_same: "same_but_metadata tgt (copy_fork_policy_metadata_from env n source tgt)"
proof -
  obtain n' t where ck: "copy_keys env n FORK_POLICY_METADATA_ALLOWLIST source tgt = (n', t)" by fastforce
  then have "same_but_metadata tgt t" using copy_keys_same [of tgt env n FORK_POLICY_METADATA_ALLOWLIST source] by simp
  from same_trans [OF this same_insert_metadata] show ?thesis by (simp add: copy_fork_policy_metadata_from_def ck)
qed

text \<open>The marks of a fork: its kind, that its policy is frozen, and where it comes from.\<close>

definition fork_marks :: "'v session_env \<Rightarrow> string \<Rightarrow> SessionForkSpec \<Rightarrow> nat \<Rightarrow> 'v metadata" where
  "fork_marks env session_id spec n =
     fork_metadata env session_id spec n
       [SESSION_CONTEXT_KIND_METADATA_KEY \<mapsto> serialize_context_kind env ExplicitFullHistoryFork,
        FORK_POLICY_FROZEN_METADATA_KEY \<mapsto> sv_bool env True]"

definition inherited_keys :: "string set" where
  "inherited_keys = insert TASK_LEDGER_METADATA_KEY (set FORK_POLICY_METADATA_ALLOWLIST)"

lemma fork_metadata_apply:
  "fork_metadata env session_id spec n md k =
     (if k = FORK_ORIGIN_MESSAGE_ID_METADATA_KEY \<and> fk_message_id spec \<noteq> None
        then map_option (sv_string env) (fk_message_id spec)
      else if k = FORK_HISTORY_MESSAGE_LIMIT_METADATA_KEY \<and> fk_history_message_limit spec \<noteq> None
        then map_option (sv_usize env) (fk_history_message_limit spec)
      else if k = FORK_ORIGIN_SESSION_ID_METADATA_KEY then Some (sv_string env session_id)
      else if k = FORK_HISTORY_MODE_METADATA_KEY then Some (sv_string env (history_mode_wire (fk_history_mode spec)))
      else if k = FORK_SOURCE_HISTORY_MESSAGE_COUNT_METADATA_KEY then Some (sv_usize env n)
      else md k)"
  by (auto simp: fork_metadata_def Let_def session_keys split: option.splits)

lemma inherited_not_marked: "k \<in> inherited_keys \<Longrightarrow> fork_marks env session_id spec n k = None"
  by (auto simp: inherited_keys_def FORK_POLICY_METADATA_ALLOWLIST_def fork_marks_def fork_metadata_apply session_keys)

lemma fork_from_metadata:
  "sr_metadata (fork_from env s) k =
     (if k = TASK_LEDGER_METADATA_KEY then sr_metadata s k
      else if k = SESSION_CONTEXT_KIND_METADATA_KEY then Some (serialize_context_kind env ExplicitFullHistoryFork)
      else None)"
  by (auto simp: fork_from_def Let_def session_keys split: option.splits)

lemma forked_metadata:
  "fork_metadata env session_id spec n
     (sr_metadata (copy_fork_policy_metadata_from env m original (fork_from env original))) k =
   (if k \<in> inherited_keys then sr_metadata original k else fork_marks env session_id spec n k)"
proof (cases "k \<in> inherited_keys")
  case True
  then have "k \<notin> {FORK_ORIGIN_MESSAGE_ID_METADATA_KEY, FORK_HISTORY_MESSAGE_LIMIT_METADATA_KEY,
      FORK_ORIGIN_SESSION_ID_METADATA_KEY, FORK_HISTORY_MODE_METADATA_KEY,
      FORK_SOURCE_HISTORY_MESSAGE_COUNT_METADATA_KEY, FORK_POLICY_FROZEN_METADATA_KEY,
      SESSION_CONTEXT_KIND_METADATA_KEY}"
    by (auto simp: inherited_keys_def FORK_POLICY_METADATA_ALLOWLIST_def session_keys)
  moreover have "k = TASK_LEDGER_METADATA_KEY \<longleftrightarrow> k \<notin> set FORK_POLICY_METADATA_ALLOWLIST"
    using True by (auto simp: inherited_keys_def FORK_POLICY_METADATA_ALLOWLIST_def session_keys)
  ultimately show ?thesis using True
    by (auto simp: fork_metadata_apply copy_policy_metadata fork_from_metadata)
next
  case False
  then show ?thesis
    by (auto simp: fork_metadata_apply copy_policy_metadata fork_from_metadata fork_marks_def inherited_keys_def
        session_keys)
qed

section \<open>History of a fork\<close>

lemma imported_messages_ok_iff:
  "(\<exists>ms. imported_messages mode limit src = Inr ms) \<longleftrightarrow>
     (if mode = HistoryLastN then \<exists>n>0. limit = Some n else limit = None)"
  by (cases mode) (auto split: option.splits)

definition requested_history ::
    "SessionForkHistoryMode \<Rightarrow> nat option \<Rightarrow> 'v SessionMessage list \<Rightarrow> 'v SessionMessage list" where
  "requested_history mode limit src =
     (case mode of HistoryNone \<Rightarrow> [] | HistoryAll \<Rightarrow> src
      | HistoryLastN \<Rightarrow> (case limit of Some n \<Rightarrow> drop (length src - n) src | None \<Rightarrow> []))"

lemma imported_messages_Inr: "imported_messages mode limit src = Inr ms \<Longrightarrow> ms = requested_history mode limit src"
  by (cases mode) (auto simp: requested_history_def split: option.splits if_splits)

lemma source_messages_Inr:
  assumes "source_messages spec original = Inr src"
  shows "case fk_message_id spec of
      None \<Rightarrow> src = sr_messages original
    | Some m \<Rightarrow> \<exists>before x after. sr_messages original = before @ x # after \<and> src = before @ [x]
                 \<and> sm_id x = m \<and> m \<notin> sm_id ` set before"
proof (cases "fk_message_id spec")
  case None
  with assms show ?thesis by (simp add: source_messages_def)
next
  case (Some m)
  with assms obtain i where i: "position (\<lambda>x. sm_id x = m) (sr_messages original) = Some i"
    and src: "src = take (Suc i) (sr_messages original)"
    by (auto simp: source_messages_def split: option.splits)
  then have lt: "i < length (sr_messages original)" and at: "sm_id (sr_messages original ! i) = m"
    and earlier: "\<forall>j<i. sm_id (sr_messages original ! j) \<noteq> m"
    by (auto simp: position_Some_iff)
  have "m \<notin> sm_id ` set (take i (sr_messages original))"
    using earlier lt by (fastforce simp: in_set_conv_nth)
  moreover have "sr_messages original = take i (sr_messages original) @ sr_messages original ! i # drop (Suc i) (sr_messages original)"
    using id_take_nth_drop [OF lt] .
  moreover have "src = take i (sr_messages original) @ [sr_messages original ! i]"
    using src lt by (simp add: take_Suc_conv_app_nth)
  ultimately show ?thesis using Some at by simp blast
qed

text \<open>A message as it was written, without its place and provenance.\<close>

definition written :: "'v SessionMessage \<Rightarrow> string \<times> MessageRole \<times> 'v MessagePart list \<times> DateTime \<times> MessageUsage option \<times> string option" where
  "written m = (sm_id m, sm_role m, sm_parts m, sm_created_at m, sm_usage m, sm_finish m)"

lemma imported_written [simp]: "written (imported_fork_history_message env a b m) = written m"
  "sm_session_id (imported_fork_history_message env a b m) = b"
  by (simp_all add: imported_fork_history_message_def written_def Let_def)

lemma imported_marked:
  assumes "session_env_ok env"
  shows "is_imported_fork_history_message env (imported_fork_history_message env a b m)"
    "message_source_origin env (sm_metadata (imported_fork_history_message env a b m)) = Some OrImportedHistory"
    "message_authority_class env (sm_metadata (imported_fork_history_message env a b m)) = Some AcSystem"
  using session_env_okD [OF assms]
  by (auto simp: imported_fork_history_message_def is_imported_fork_history_message_def Let_def
      apply_message_source_metadata_def apply_message_admission_metadata_def or_insert_def session_keys
      message_source_origin_def message_authority_class_def read_variant_def split: option.splits)

text \<open>The session a successful fork makes of its source and the messages it may import.\<close>

definition fork_of ::
    "'v session_env \<Rightarrow> string \<Rightarrow> SessionForkSpec \<Rightarrow> 'v SessionRecord \<Rightarrow> 'v SessionMessage list \<Rightarrow> 'v SessionRecord" where
  "fork_of env session_id spec original src =
     (let forked = copy_fork_policy_metadata_from env 2 original (fork_from env original)
      in forked\<lparr>sr_parent_id := None, sr_title := get_forked_title original,
           sr_messages := map (imported_fork_history_message env session_id (sr_id forked))
             (requested_history (fk_history_mode spec) (fk_history_message_limit spec) src),
           sr_metadata := fork_metadata env session_id spec (length src) (sr_metadata forked)\<rparr>)"

lemma manager_fork_Inr:
  assumes "manager_fork env session_id spec mg = (Inr forked, mg')"
  obtains original src where "mg_sessions mg session_id = Some original"
    "source_messages spec original = Inr src" "forked = fork_of env session_id spec original src"
    "mg_sessions mg' = (mg_sessions mg)(sr_id forked \<mapsto> forked)"
proof -
  from assms obtain original where o1: "mg_sessions mg session_id = Some original"
    and f: "forked_session env session_id spec original = Inr forked"
    and mg': "mg_sessions mg' = (mg_sessions mg)(sr_id forked \<mapsto> forked)"
    by (auto simp: manager_fork_def split: option.splits sum.splits)
  from f obtain src ms where src: "source_messages spec original = Inr src"
    and ms: "imported_messages (fk_history_mode spec) (fk_history_message_limit spec) src = Inr ms"
    by (auto simp: forked_session_def Let_def res_bind_Inr_iff)
  show thesis
    using that [OF o1 src] imported_messages_Inr [OF ms] ms f src mg'
    by (auto simp: forked_session_def fork_of_def Let_def)
qed

lemma fork_of_same: "same_but_metadata (fork_from env original) (fork_of env session_id spec original src)"
  using copy_policy_same [of "fork_from env original" env 2 original]
  by (simp add: fork_of_def Let_def same_but_metadata_def)

lemma fork_of_metadata:
  "sr_metadata (fork_of env session_id spec original src) =
     (\<lambda>k. if k \<in> inherited_keys then sr_metadata original k else fork_marks env session_id spec (length src) k)"
  by (rule ext) (simp add: fork_of_def Let_def forked_metadata)

lemma fork_of_messages:
  assumes "session_env_ok env"
  shows "map written (sr_messages (fork_of env session_id spec original src)) =
      map written (requested_history (fk_history_mode spec) (fk_history_message_limit spec) src)"
    "m \<in> set (sr_messages (fork_of env session_id spec original src)) \<Longrightarrow>
       sm_session_id m = sr_id (fork_of env session_id spec original src) \<and> is_imported_fork_history_message env m
       \<and> message_source_origin env (sm_metadata m) = Some OrImportedHistory
       \<and> message_authority_class env (sm_metadata m) = Some AcSystem"
    "imported_history_message_count env (fork_of env session_id spec original src) =
       length (sr_messages (fork_of env session_id spec original src))"
  using imported_marked [OF assms]
  by (auto simp: fork_of_def Let_def imported_history_message_count_def filter_map o_def)

lemma fork_of_marks:
  fixes env session_id spec original src
  defines "forked \<equiv> fork_of env session_id spec original src"
  shows "sr_metadata forked SESSION_CONTEXT_KIND_METADATA_KEY = Some (serialize_context_kind env ExplicitFullHistoryFork)"
    "sr_metadata forked FORK_ORIGIN_SESSION_ID_METADATA_KEY = Some (sv_string env session_id)"
    "sr_metadata forked FORK_ORIGIN_MESSAGE_ID_METADATA_KEY = map_option (sv_string env) (fk_message_id spec)"
    "sr_metadata forked FORK_HISTORY_MODE_METADATA_KEY = Some (sv_string env (history_mode_wire (fk_history_mode spec)))"
    "sr_metadata forked FORK_HISTORY_MESSAGE_LIMIT_METADATA_KEY = map_option (sv_usize env) (fk_history_message_limit spec)"
    "sr_metadata forked FORK_SOURCE_HISTORY_MESSAGE_COUNT_METADATA_KEY = Some (sv_usize env (length src))"
    "sr_metadata forked FORK_POLICY_FROZEN_METADATA_KEY = Some (sv_bool env True)"
  unfolding forked_def fork_of_metadata
  by (simp_all add: inherited_keys_def FORK_POLICY_METADATA_ALLOWLIST_def fork_marks_def fork_metadata_apply session_keys)

lemma fork_of_explained:
  fixes env session_id spec original src
  defines "forked \<equiv> fork_of env session_id spec original src"
  assumes ok: "session_env_ok env" and "length src < 2 ^ 64"
    and "\<And>n. fk_history_message_limit spec = Some n \<Longrightarrow> n < 2 ^ 64"
  shows "map_option (\<lambda>x. (fx_origin_session_id x, fx_origin_message_id x, fx_history_mode x,
           fx_history_message_limit x, fx_source_history_messages x, fx_imported_history_messages x,
           fx_policy_frozen x)) (fork_explain env forked) =
         Some (session_id, fk_message_id spec, fk_history_mode spec, fk_history_message_limit spec,
           Some (length src), length (sr_messages forked), True)"
proof -
  note env = session_env_okD [OF ok]
  note marks = fork_of_marks [of env session_id spec original src, folded forked_def]
  have kind: "context_kind env forked = ExplicitFullHistoryFork"
    by (simp add: context_kind_def marks serialize_context_kind_def read_variant_def env)
  have mode: "fork_history_mode env forked = fk_history_mode spec"
    by (cases "fk_history_mode spec") (simp_all add: fork_history_mode_def marks read_variant_def env unwrap_or_def)
  have limit: "Option.bind (map_option (sv_usize env) (fk_history_message_limit spec)) (sv_as_usize env)
      = fk_history_message_limit spec"
    using env(4) assms(4) by (cases "fk_history_message_limit spec") simp_all
  have msg: "Option.bind (map_option (sv_string env) (fk_message_id spec)) (sv_as_str env) = fk_message_id spec"
    using env(2) by (cases "fk_message_id spec") simp_all
  show ?thesis
    by (simp add: fork_explain_def kind mode fork_of_messages(3) [OF ok, folded forked_def, of session_id spec original src, folded forked_def]
        fork_origin_session_id_def fork_origin_message_id_def fork_history_message_limit_def
        fork_source_history_message_count_def fork_policy_frozen_def marks env(1,2) env(4) [OF assms(3)] limit msg
        unwrap_or_def)
qed

section \<open>Forks\<close>


definition sample_fork_spec :: SessionForkSpec where
  "sample_fork_spec = \<lparr>fk_message_id = Some (sm_id sample_message), fk_history_mode = HistoryLastN,
     fk_history_message_limit = Some 1\<rparr>"

lemma sample_fork:
  obtains forked mg' where "manager_fork sample_session_env ''s'' sample_fork_spec sample_manager = (Inr forked, mg')"
proof -
  have "forked_session sample_session_env ''s'' sample_fork_spec sample_session \<noteq> Inl e" for e
    by (simp add: forked_session_def source_messages_def sample_fork_spec_def Let_def)
  then obtain f where "forked_session sample_session_env ''s'' sample_fork_spec sample_session = Inr f"
    by (cases "forked_session sample_session_env ''s'' sample_fork_spec sample_session") auto
  then show thesis using that by (simp add: manager_fork_def)
qed


text \<open>
  \<^bold>\<open>C24.\<close> A fork imports the history asked for: the messages up to the chosen one, all of them, the
  last \<open>n\<close> or none, word for word and in order, moved to the new session; each is marked as imported, as
  of system and not of user authority; and the fork explains itself truthfully.
\<close>

theorem fork_imports_requested_history:
  assumes "session_env_ok env" and "manager_fork env session_id spec mg = (Inr forked, mg')"
    and "mg_sessions mg session_id = Some original" and "length (sr_messages original) < 2 ^ 64"
    and "\<And>n. fk_history_message_limit spec = Some n \<Longrightarrow> n < 2 ^ 64"
  shows "\<exists>src. (case fk_message_id spec of
                  None \<Rightarrow> src = sr_messages original
                | Some m \<Rightarrow> \<exists>before x after. sr_messages original = before @ x # after \<and> src = before @ [x]
                             \<and> sm_id x = m \<and> m \<notin> sm_id ` set before)
     \<and> map written (sr_messages forked) =
         map written (requested_history (fk_history_mode spec) (fk_history_message_limit spec) src)
     \<and> (\<forall>m\<in>set (sr_messages forked). sm_session_id m = sr_id forked
          \<and> is_imported_fork_history_message env m
          \<and> message_source_origin env (sm_metadata m) = Some OrImportedHistory
          \<and> message_authority_class env (sm_metadata m) = Some AcSystem)
     \<and> map_option (\<lambda>x. (fx_origin_session_id x, fx_origin_message_id x, fx_history_mode x,
           fx_history_message_limit x, fx_source_history_messages x, fx_imported_history_messages x,
           fx_policy_frozen x)) (fork_explain env forked) =
         Some (session_id, fk_message_id spec, fk_history_mode spec, fk_history_message_limit spec,
           Some (length src), length (sr_messages forked), True)"
proof -
  obtain src where src: "source_messages spec original = Inr src"
    and f: "forked = fork_of env session_id spec original src"
    using manager_fork_Inr [OF assms(2)] assms(3) by (metis option.inject)
  have "length src < 2 ^ 64"
    using src assms(4) by (auto simp: source_messages_def split: option.splits)
  note explained = fork_of_explained [where session_id = session_id and original = original, OF assms(1) this assms(5)]
  show ?thesis unfolding f
    by (intro exI [of _ src] conjI ballI source_messages_Inr [OF src] explained fork_of_messages(1) [OF assms(1)])
       (use fork_of_messages(2) [OF assms(1)] in blast)+
qed

theorem fork_imports_requested_history_witness:
  "\<exists>forked mg'. manager_fork sample_session_env ''s'' sample_fork_spec sample_manager = (Inr forked, mg')
     \<and> map written (sr_messages forked) = [written sample_message]
     \<and> is_imported_fork_history_message sample_session_env (hd (sr_messages forked))"
proof -
  obtain forked mg' where f: "manager_fork sample_session_env ''s'' sample_fork_spec sample_manager = (Inr forked, mg')"
    by (rule sample_fork)
  have "mg_sessions sample_manager ''s'' = Some sample_session" "length (sr_messages sample_session) < 2 ^ 64"
    by simp_all
  moreover have "n < 2 ^ 64" if "fk_history_message_limit sample_fork_spec = Some n" for n
    using that by (simp add: sample_fork_spec_def)
  ultimately obtain src where "\<exists>before x after. sr_messages sample_session = before @ x # after \<and> src = before @ [x]"
    and "map written (sr_messages forked) =
      map written (requested_history HistoryLastN (Some 1) src)"
    and i: "\<forall>m\<in>set (sr_messages forked). is_imported_fork_history_message sample_session_env m"
    using fork_imports_requested_history [OF sample_session_env_ok f] by (fastforce simp: sample_fork_spec_def)
  then have w: "map written (sr_messages forked) = [written sample_message]"
    by (auto simp: requested_history_def Cons_eq_append_conv)
  then have "hd (sr_messages forked) \<in> set (sr_messages forked)" by (metis hd_in_set list.map_disc_iff not_Cons_self2)
  with f w i show ?thesis by (intro exI [of _ forked] exI [of _ mg'] conjI) auto
qed

text \<open>
  \<^bold>\<open>Note.\<close> A fork succeeds exactly when the session exists, the chosen message is in it, and a limit is
  given, and positive, exactly for the last \<open>n\<close> messages; a refused fork changes nothing.
\<close>

theorem fork_refused_exactly:
  "case manager_fork env session_id spec mg of
     (Inr forked, mg') \<Rightarrow> (\<exists>original. mg_sessions mg session_id = Some original
        \<and> (\<forall>m. fk_message_id spec = Some m \<longrightarrow> m \<in> sm_id ` set (sr_messages original)))
        \<and> (if fk_history_mode spec = HistoryLastN then \<exists>n>0. fk_history_message_limit spec = Some n
            else fk_history_message_limit spec = None)
   | (Inl FkSessionNotFound, mg') \<Rightarrow> mg' = mg \<and> mg_sessions mg session_id = None
   | (Inl (FkOriginMessageNotFound m), mg') \<Rightarrow> mg' = mg \<and> fk_message_id spec = Some m
        \<and> (\<exists>original. mg_sessions mg session_id = Some original \<and> m \<notin> sm_id ` set (sr_messages original))
   | (Inl (FkInvalidRequest _), mg') \<Rightarrow> mg' = mg
        \<and> \<not> (if fk_history_mode spec = HistoryLastN then \<exists>n>0. fk_history_message_limit spec = Some n
               else fk_history_message_limit spec = None)"
proof (cases "mg_sessions mg session_id")
  case None
  then show ?thesis by (simp add: manager_fork_def)
next
  case (Some original)
  show ?thesis
  proof (cases "source_messages spec original")
    case (Inl e)
    then show ?thesis using Some
      by (auto simp: manager_fork_def forked_session_def Let_def source_messages_def position_None_iff
          split: option.splits)
  next
    case (Inr src)
    then have found: "fk_message_id spec = Some m \<Longrightarrow> m \<in> sm_id ` set (sr_messages original)" for m
      by (auto simp: source_messages_def position_Some_iff split: option.splits)
    show ?thesis
      using Some Inr found imported_messages_ok_iff [of "fk_history_mode spec" "fk_history_message_limit spec" src]
      by (cases "fk_history_mode spec"; cases "fk_history_message_limit spec")
         (auto simp: manager_fork_def forked_session_def Let_def)
  qed
qed

theorem fork_refused_exactly_witness:
  "manager_fork sample_session_env ''none'' sample_fork_spec sample_manager = (Inl FkSessionNotFound, sample_manager)
   \<and> mg_sessions sample_manager ''none'' = None"
  using fork_refused_exactly [where env = sample_session_env and session_id = "''none''" and spec = sample_fork_spec
      and mg = sample_manager]
  by (simp add: manager_fork_def)

section \<open>Usage\<close>

text \<open>The usages of the assistant messages that satisfy \<open>P\<close>.\<close>

definition assistant_usages :: "('v SessionMessage \<Rightarrow> bool) \<Rightarrow> 'v SessionMessage list \<Rightarrow> MessageUsage list" where
  "assistant_usages P =
     List.map_filter (\<lambda>m. if sm_role m = RoleAssistant \<and> P m then sm_usage m else None)"

definition own_usages :: "'v session_env \<Rightarrow> 'v SessionRecord \<Rightarrow> MessageUsage list" where
  "own_usages env s = assistant_usages (\<lambda>m. \<not> is_imported_fork_history_message env m) (sr_messages s)"

lemma assistant_usages_simps [simp]:
  "assistant_usages P [] = []"
  "assistant_usages P (ms @ ms') = assistant_usages P ms @ assistant_usages P ms'"
  "assistant_usages P [m] = (if sm_role m = RoleAssistant \<and> P m then
     (case sm_usage m of None \<Rightarrow> [] | Some mu \<Rightarrow> [mu]) else [])"
  by (auto simp: assistant_usages_def List.map_filter_def split: option.splits)

definition message_context :: "MessageUsage \<Rightarrow> u64" where
  "message_context mu = max (mu_context_tokens mu) (mu_input_tokens mu)"

lemma usage_step_alt:
  "usage_step env u m =
     (if sm_role m = RoleAssistant then
        (case sm_usage m of
           None \<Rightarrow> u
         | Some mu \<Rightarrow> (if is_imported_fork_history_message env m then u else add_message_usage env mu u)
                        \<lparr>su_context_tokens := message_context mu\<rparr>)
      else u)"
proof -
  have "(case message_live_context_tokens mu of Some t \<Rightarrow> t | None \<Rightarrow> 0) = message_context mu" for mu
    by (auto simp: message_live_context_tokens_def request_context_tokens_def message_context_def Let_def
        word_gt_0 split: option.splits)
  then show ?thesis by (cases "sm_usage m") (simp_all add: usage_step_def Let_def)
qed

text \<open>
  \<^bold>\<open>C31.\<close> The usage of a session is its own: the token counts are the sums (modulo 2\<open>^\<close>64) over the
  assistant messages written in it, and imported history counts for nothing; only the context size is
  that of the last assistant message, imported or not.
\<close>

theorem usage_is_local:
  "su_input_tokens (get_usage env s) = sum_list (map mu_input_tokens (own_usages env s))
   \<and> su_output_tokens (get_usage env s) = sum_list (map mu_output_tokens (own_usages env s))
   \<and> su_reasoning_tokens (get_usage env s) = sum_list (map mu_reasoning_tokens (own_usages env s))
   \<and> su_cache_write_tokens (get_usage env s) = sum_list (map mu_cache_write_tokens (own_usages env s))
   \<and> su_cache_read_tokens (get_usage env s) = sum_list (map mu_cache_read_tokens (own_usages env s))
   \<and> su_cache_miss_tokens (get_usage env s) = sum_list (map mu_cache_miss_tokens (own_usages env s))
   \<and> su_total_cost (get_usage env s) = foldl (sv_cost_add env) 0 (map mu_total_cost (own_usages env s))
   \<and> su_context_tokens (get_usage env s) =
       (case rev (assistant_usages (\<lambda>_. True) (sr_messages s)) of [] \<Rightarrow> 0 | mu # _ \<Rightarrow> message_context mu)"
proof -
  have "su_input_tokens u = sum_list (map mu_input_tokens own)
     \<and> su_output_tokens u = sum_list (map mu_output_tokens own)
     \<and> su_reasoning_tokens u = sum_list (map mu_reasoning_tokens own)
     \<and> su_cache_write_tokens u = sum_list (map mu_cache_write_tokens own)
     \<and> su_cache_read_tokens u = sum_list (map mu_cache_read_tokens own)
     \<and> su_cache_miss_tokens u = sum_list (map mu_cache_miss_tokens own)
     \<and> su_total_cost u = foldl (sv_cost_add env) 0 (map mu_total_cost own)
     \<and> su_context_tokens u =
         (case rev (assistant_usages (\<lambda>_. True) ms) of [] \<Rightarrow> 0 | mu # _ \<Rightarrow> message_context mu)"
    if "u = foldl (usage_step env) session_usage_default ms"
      and "own = assistant_usages (\<lambda>m. \<not> is_imported_fork_history_message env m) ms" for ms u own
    using that
  proof (induction ms arbitrary: u own rule: rev_induct)
    case Nil
    then show ?case by (simp add: session_usage_default_def)
  next
    case (snoc m ms)
    note ih = snoc.IH [OF refl refl]
    show ?case unfolding snoc.prems
      by (auto simp: usage_step_alt add_message_usage_def ih split: option.splits)
  qed
  from this [OF refl refl, of "sr_messages s"] show ?thesis unfolding get_usage_def own_usages_def .
qed

end
