(* ===== verification/Provider_Guard.thy ===== *)
theory Provider_Guard
  imports Rust_Strings
begin

text \<open>
  The guards around calls to a model provider (\<open>agendao-provider/src/runtime\<close>, \<open>instance.rs\<close>): the circuit breaker
  that refuses calls after a run of failures, the time limits of a call, and the watchdog that ends a
  stream in which nothing arrives (\<open>stream.rs\<close>). An \<open>Instant\<close> and a \<open>Duration\<close> are numbers of nanoseconds. The
  adapter is a parameter: when it answers, and what. The rate limiter and the limit on calls in flight
  only delay a call; the times below are those after their delays.
\<close>

section \<open>Circuit breaker\<close>

type_synonym Instant = nat
type_synonym Duration = nat

datatype ProviderError =
    PvApiErrorWithStatus string nat
  | PvApiError string
  | PvNetworkError string
  | PvAuthError string
  | PvRateLimit
  | PvModelNotFound string
  | PvInvalidRequest string
  | PvStreamError string
  | PvTimeout
  | PvProviderNotFound string
  | PvConfigError string
  | PvContextOverflow string

definition BREAKER_OPEN :: ProviderError where "BREAKER_OPEN = PvApiError ''circuit breaker open''"

record CircuitBreakerConfig =
  cb_failure_threshold :: u32
  cb_cooldown :: Duration

record BreakerState =
  bs_consecutive_failures :: u32
  bs_open_until :: "Instant option"

record CircuitBreakerSnapshot =
  cs_failure_threshold :: u32
  cs_cooldown_ms :: nat
  cs_consecutive_failures :: u32
  cs_open_remaining_ms :: "nat option"

definition breaker_new :: BreakerState where
  "breaker_new = \<lparr>bs_consecutive_failures = 0, bs_open_until = None\<rparr>"

definition breaker_allow :: "Instant \<Rightarrow> BreakerState \<Rightarrow> (ProviderError + unit) \<times> BreakerState" where
  "breaker_allow now st =
     (case bs_open_until st of
        Some until \<Rightarrow> if now < until then (Inl BREAKER_OPEN, st)
                      else (Inr (), st\<lparr>bs_open_until := None, bs_consecutive_failures := 0\<rparr>)
      | None \<Rightarrow> (Inr (), st))"

definition breaker_on_success :: "BreakerState \<Rightarrow> BreakerState" where
  "breaker_on_success st = st\<lparr>bs_consecutive_failures := 0, bs_open_until := None\<rparr>"

definition breaker_on_failure :: "CircuitBreakerConfig \<Rightarrow> Instant \<Rightarrow> BreakerState \<Rightarrow> BreakerState" where
  "breaker_on_failure cfg now st =
     (let st = st\<lparr>bs_consecutive_failures := u32_saturating_add (bs_consecutive_failures st) 1\<rparr>
      in if cb_failure_threshold cfg \<le> bs_consecutive_failures st
         then st\<lparr>bs_open_until := Some (now + cb_cooldown cfg)\<rparr> else st)"

definition breaker_snapshot :: "CircuitBreakerConfig \<Rightarrow> Instant \<Rightarrow> BreakerState \<Rightarrow> CircuitBreakerSnapshot" where
  "breaker_snapshot cfg now st =
     \<lparr>cs_failure_threshold = cb_failure_threshold cfg, cs_cooldown_ms = cb_cooldown cfg div 1000000,
      cs_consecutive_failures = bs_consecutive_failures st,
      cs_open_remaining_ms = Option.bind (bs_open_until st)
        (\<lambda>until. if now < until then Some ((until - now) div 1000000) else None)\<rparr>"

section \<open>Calls\<close>

record RuntimeConfig =
  rt_enabled :: bool
  rt_preflight_enabled :: bool
  rt_circuit_breaker_threshold :: u32
  rt_circuit_breaker_cooldown_secs :: nat

definition NANOS_PER_SEC :: nat where "NANOS_PER_SEC = 1000000000"

text \<open>The breaker of a provider, if its configuration asks for one.\<close>

definition guard_breaker :: "RuntimeConfig \<Rightarrow> CircuitBreakerConfig option" where
  "guard_breaker config =
     (if rt_enabled config \<and> rt_preflight_enabled config \<and> 0 < rt_circuit_breaker_threshold config
      then Some \<lparr>cb_failure_threshold = rt_circuit_breaker_threshold config,
                 cb_cooldown = max 1 (rt_circuit_breaker_cooldown_secs config) * NANOS_PER_SEC\<rparr>
      else None)"

definition preflight_check :: "RuntimeConfig \<Rightarrow> Instant \<Rightarrow> BreakerState \<Rightarrow> (ProviderError + unit) \<times> BreakerState" where
  "preflight_check config now st =
     (case guard_breaker config of None \<Rightarrow> (Inr (), st) | Some _ \<Rightarrow> breaker_allow now st)"

definition preflight_report :: "RuntimeConfig \<Rightarrow> bool \<Rightarrow> Instant \<Rightarrow> BreakerState \<Rightarrow> BreakerState" where
  "preflight_report config ok now st =
     (case guard_breaker config of
        None \<Rightarrow> st
      | Some cfg \<Rightarrow> if ok then breaker_on_success st else breaker_on_failure cfg now st)"

text \<open>
  What the adapter does with a call: it answers after a time, or never. A call that never returns is
  \<open>None\<close>. The timer is looked at only when there is no answer.
\<close>

type_synonym 'a adapter = "(Duration \<times> (ProviderError + 'a)) option"

definition with_timeout :: "nat option \<Rightarrow> 'a adapter \<Rightarrow> (Duration \<times> (ProviderError + 'a)) option" where
  "with_timeout timeout_secs answer =
     (case timeout_secs of
        None \<Rightarrow> answer
      | Some secs \<Rightarrow>
          (case answer of
             Some (d, r) \<Rightarrow> if d \<le> secs * NANOS_PER_SEC then Some (d, r) else Some (secs * NANOS_PER_SEC, Inl PvTimeout)
           | None \<Rightarrow> Some (secs * NANOS_PER_SEC, Inl PvTimeout)))"

definition chat ::
    "RuntimeConfig \<Rightarrow> nat option \<Rightarrow> 'a adapter \<Rightarrow> Instant \<Rightarrow> BreakerState \<Rightarrow> ((ProviderError + 'a) \<times> BreakerState) option" where
  "chat config timeout_secs answer now st =
     (case preflight_check config now st of
        (Inl e, st') \<Rightarrow> Some (Inl e, st')
      | (Inr _, st') \<Rightarrow>
          map_option (\<lambda>(d, r). (r, preflight_report config (is_ok r) (now + d) st')) (with_timeout timeout_secs answer))"

section \<open>Streams\<close>

text \<open>
  A stream is the items it delivers, each with the time since the one before, and how it goes on after
  the last one: it ends after a time, or nothing ever arrives.
\<close>

datatype stream_end = EndsAfter Duration | Hangs

type_synonym 'e event_stream = "(Duration \<times> (ProviderError + 'e)) list \<times> stream_end"

definition stall_error :: "Duration \<Rightarrow> ProviderError" where
  "stall_error timeout = PvStreamError (''stream stall timeout: no chunk/event received within ''
     @ show_nat (timeout div NANOS_PER_SEC) @ ''s'')"

fun with_stall_watchdog :: "Duration \<Rightarrow> (Duration \<times> (ProviderError + 'e)) list \<Rightarrow> stream_end \<Rightarrow> (ProviderError + 'e) list" where
  "with_stall_watchdog timeout [] (EndsAfter d) = (if d \<le> timeout then [] else [Inl (stall_error timeout)])"
| "with_stall_watchdog timeout [] Hangs = [Inl (stall_error timeout)]"
| "with_stall_watchdog timeout ((d, item) # items) fin =
     (if d \<le> timeout then item # with_stall_watchdog timeout items fin else [Inl (stall_error timeout)])"

definition DEFAULT_STREAM_STALL_TIMEOUT_SECS :: nat where "DEFAULT_STREAM_STALL_TIMEOUT_SECS = 120"

definition chat_stream ::
    "RuntimeConfig \<Rightarrow> nat option \<Rightarrow> 'e event_stream adapter \<Rightarrow> Instant \<Rightarrow> BreakerState \<Rightarrow>
     ((ProviderError + (ProviderError + 'e) list) \<times> BreakerState) option" where
  "chat_stream config stall_timeout_secs answer now st =
     (case preflight_check config now st of
        (Inl e, st') \<Rightarrow> Some (Inl e, st')
      | (Inr _, st') \<Rightarrow>
          map_option (\<lambda>(d, r).
            let timeout = (case stall_timeout_secs of Some s \<Rightarrow> s | None \<Rightarrow> DEFAULT_STREAM_STALL_TIMEOUT_SECS);
                result = (case r of Inl e \<Rightarrow> Inl e
                          | Inr (items, fin) \<Rightarrow> Inr (with_stall_watchdog (timeout * NANOS_PER_SEC) items fin))
            in (result, preflight_report config (is_ok result) (now + d) st')) answer)"

section \<open>Properties\<close>

text \<open>A history of the breaker: calls that ask to be let through, successes and failures.\<close>

datatype breaker_event = AskedAt Instant | Succeeded | FailedAt Instant

fun breaker_step :: "CircuitBreakerConfig \<Rightarrow> breaker_event \<Rightarrow> BreakerState \<Rightarrow> BreakerState" where
  "breaker_step cfg (AskedAt t) st = snd (breaker_allow t st)"
| "breaker_step cfg Succeeded st = breaker_on_success st"
| "breaker_step cfg (FailedAt t) st = breaker_on_failure cfg t st"

definition breaker_after :: "CircuitBreakerConfig \<Rightarrow> breaker_event list \<Rightarrow> BreakerState" where
  "breaker_after cfg h = fold (breaker_step cfg) h breaker_new"

text \<open>The failures since the last success.\<close>

fun failures_since :: "breaker_event list \<Rightarrow> Instant list" where
  "failures_since h = map (\<lambda>e. case e of FailedAt t \<Rightarrow> t | _ \<Rightarrow> 0)
     (filter (\<lambda>e. case e of FailedAt _ \<Rightarrow> True | _ \<Rightarrow> False) (rev (takeWhile (\<lambda>e. e \<noteq> Succeeded) (rev h))))"

declare failures_since.simps [simp del]

lemma failures_since_simps [simp]:
  "failures_since [] = []" "failures_since (h @ [AskedAt t]) = failures_since h"
  "failures_since (h @ [Succeeded]) = []" "failures_since (h @ [FailedAt t]) = failures_since h @ [t]"
  by (simp_all add: failures_since.simps)

lemma breaker_after_simps [simp]:
  "breaker_after cfg [] = breaker_new" "breaker_after cfg (h @ [e]) = breaker_step cfg e (breaker_after cfg h)"
  by (simp_all add: breaker_after_def)

lemma unat_u32_bound: "unat (a :: u32) \<le> 2 ^ 32 - 1"
  using unsigned_less [of a, where 'a = nat] by simp

lemma unat_saturating_succ: "unat (u32_saturating_add a 1) = min (Suc (unat a)) (2 ^ 32 - 1)"
  by (simp add: unat_u32_saturating_add)

text \<open>The state is justified by the failures since the last success.\<close>

definition breaker_justified :: "CircuitBreakerConfig \<Rightarrow> Instant list \<Rightarrow> BreakerState \<Rightarrow> bool" where
  "breaker_justified cfg fs st \<longleftrightarrow> unat (bs_consecutive_failures st) \<le> length fs
     \<and> (\<forall>u. bs_open_until st = Some u \<longrightarrow> fs \<noteq> [] \<and> u = last fs + cb_cooldown cfg
          \<and> cb_failure_threshold cfg \<le> bs_consecutive_failures st)"

lemma justified_failure:
  assumes "breaker_justified cfg fs st"
  shows "breaker_justified cfg (fs @ [t]) (breaker_on_failure cfg t st)"
proof -
  have "bs_consecutive_failures st \<le> u32_saturating_add (bs_consecutive_failures st) 1"
    using unat_u32_bound [of "bs_consecutive_failures st"] by (simp add: word_le_nat_alt unat_saturating_succ)
  then have "bs_open_until st = Some u \<Longrightarrow> cb_failure_threshold cfg \<le> u32_saturating_add (bs_consecutive_failures st) 1" for u
    using assms by (auto simp: breaker_justified_def)
  then show ?thesis using assms
    by (cases "bs_open_until st")
       (auto simp: breaker_justified_def breaker_on_failure_def Let_def unat_saturating_succ)
qed

lemma breaker_after_justified: "breaker_justified cfg (failures_since h) (breaker_after cfg h)"
proof (induction h rule: rev_induct)
  case Nil
  show ?case by (simp add: breaker_justified_def breaker_new_def)
next
  case (snoc e h)
  show ?case
  proof (cases e)
    case (FailedAt t)
    then show ?thesis using justified_failure [OF snoc] by simp
  next
    case (AskedAt t)
    then show ?thesis using snoc by (auto simp: breaker_justified_def breaker_allow_def split: option.splits)
  next
    case Succeeded
    then show ?thesis by (simp add: breaker_justified_def breaker_on_success_def)
  qed
qed

lemma failures_open:
  assumes "unat (cb_failure_threshold cfg) \<le> length ts" "ts \<noteq> []"
  shows "bs_open_until (breaker_after cfg (h @ map FailedAt ts)) = Some (last ts + cb_cooldown cfg)"
proof -
  have cnt: "min (length ts) (2 ^ 32 - 1) \<le> unat (bs_consecutive_failures (breaker_after cfg (h @ map FailedAt ts)))" for ts
  proof (induction ts rule: rev_induct)
    case (snoc t ts)
    let ?st = "breaker_after cfg (h @ map FailedAt ts)"
    have "breaker_after cfg (h @ map FailedAt (ts @ [t])) = breaker_on_failure cfg t ?st"
      using breaker_after_simps(2) [of cfg "h @ map FailedAt ts" "FailedAt t"] by simp
    then have "unat (bs_consecutive_failures (breaker_after cfg (h @ map FailedAt (ts @ [t])))) =
        min (Suc (unat (bs_consecutive_failures ?st))) (2 ^ 32 - 1)"
      by (simp add: breaker_on_failure_def Let_def unat_saturating_succ)
    then show ?case using snoc by (simp add: min_def split: if_splits)
  qed simp
  obtain t ts' where ts: "ts = ts' @ [t]" using assms(2) by (metis rev_exhaust)
  let ?st = "breaker_after cfg (h @ map FailedAt ts')"
  have run: "breaker_after cfg (h @ map FailedAt ts) = breaker_on_failure cfg t ?st"
    using breaker_after_simps(2) [of cfg "h @ map FailedAt ts'" "FailedAt t"] by (simp add: ts)
  have "unat (cb_failure_threshold cfg) \<le> unat (bs_consecutive_failures (breaker_after cfg (h @ map FailedAt ts)))"
    using cnt [of ts] assms(1) unat_u32_bound [of "cb_failure_threshold cfg"] by linarith
  then have "cb_failure_threshold cfg \<le> u32_saturating_add (bs_consecutive_failures ?st) 1"
    by (simp add: run breaker_on_failure_def Let_def word_le_nat_alt split: if_splits)
  then show ?thesis unfolding run by (simp add: breaker_on_failure_def Let_def ts)
qed

text \<open>
  \<^bold>\<open>Note.\<close> The breaker refuses a call only within the cool-down of the last failure, and only when at
  least the threshold of calls have failed since the last success; and after that many failures in a
  row it refuses exactly the calls within the cool-down.
\<close>

theorem breaker_refuses_with_reason:
  assumes "breaker_allow t (breaker_after cfg h) = (Inl BREAKER_OPEN, st')"
  shows "failures_since h \<noteq> [] \<and> t < last (failures_since h) + cb_cooldown cfg
     \<and> unat (cb_failure_threshold cfg) \<le> length (failures_since h) \<and> st' = breaker_after cfg h"
proof -
  from assms obtain u where "bs_open_until (breaker_after cfg h) = Some u" "t < u" "st' = breaker_after cfg h"
    by (auto simp: breaker_allow_def split: option.splits if_splits)
  then show ?thesis using breaker_after_justified [of cfg h]
    by (auto simp: breaker_justified_def word_le_nat_alt)
qed

theorem breaker_opens_after_failures:
  assumes "ts \<noteq> []" and "unat (cb_failure_threshold cfg) \<le> length ts"
  shows "fst (breaker_allow t (breaker_after cfg (h @ map FailedAt ts))) =
     (if t < last ts + cb_cooldown cfg then Inl BREAKER_OPEN else Inr ())"
  using failures_open [OF assms(2,1), of h] by (simp add: breaker_allow_def)

text \<open>
  \<^bold>\<open>Note.\<close> No call waits for ever on a stream: under the watchdog a stream delivers its items up to the
  first gap longer than the limit; it then ends with the stall error, and a stream without such a gap
  that ends in time comes through unchanged.
\<close>

theorem watched_stream_ends:
  "with_stall_watchdog timeout items fin =
     map snd (takeWhile (\<lambda>x. fst x \<le> timeout) items)
     @ (if (\<forall>x\<in>set items. fst x \<le> timeout) \<and> (\<exists>d\<le>timeout. fin = EndsAfter d) then []
        else [Inl (stall_error timeout)])"
  by (induction timeout items fin rule: with_stall_watchdog.induct) auto

text \<open>
  \<^bold>\<open>Note.\<close> A call with a time limit always returns, within the limit, and a refused call does not reach
  the adapter.
\<close>

theorem limited_call_returns:
  "\<exists>r st'. chat config (Some secs) answer now st = Some (r, st')
     \<and> (fst (preflight_check config now st) = Inl BREAKER_OPEN \<longrightarrow> r = Inl BREAKER_OPEN \<and> st' = st
          \<and> chat config (Some secs) answer' now st = Some (r, st'))"
proof -
  have "\<exists>d r. with_timeout (Some secs) answer = Some (d, r)"
    by (cases answer) (auto simp: with_timeout_def)
  then show ?thesis
    by (auto simp: chat_def preflight_check_def breaker_allow_def split: option.splits sum.splits prod.splits if_splits)
qed

text \<open>A stream that is opened and then stalls is reported to the breaker as a success.\<close>

lemma stalled_stream_counts_as_success:
  assumes "guard_breaker config = Some cfg" "bs_open_until st = None"
  shows "chat_stream config None (Some (d, Inr ([], Hangs))) now st =
     Some (Inr [Inl (stall_error (120 * NANOS_PER_SEC))], breaker_on_success st)"
  using assms by (simp add: chat_stream_def preflight_check_def breaker_allow_def preflight_report_def is_ok_def
      DEFAULT_STREAM_STALL_TIMEOUT_SECS_def)

end
