(* ===== verification/Spec2Isabelle.thy ===== *)
theory Spec2Isabelle
  imports Reducer_Properties Permission_Engine Submission Engine_Properties Runtime_Properties
    Selector_Properties Edit_Properties Sandbox_Bwrap Sandbox_Boundary Sandbox_Projection Telemetry_Properties
    Patch_Properties Framing Session_Fork_Properties Provider_Guard
begin

text \<open>
  \<^bold>\<open>A verification of the core of agendao\<close>, an agent server written in Rust. A client submits input
  to a session; the server queues it, runs it through a scheduler of agents that call models and
  tools, asks the user for permission and for answers on the way, keeps a ledger of the task the
  session works on, and shows the state of the execution to its front ends. The development follows
  the code that decides: the parts that only move bytes (HTTP, databases, terminals, processes) are
  parameters or left out.

  \<^bold>\<open>Parts, theories and sources.\<close> Paths are relative to \<open>src/crates\<close>.

  \<^item> \<^bold>\<open>Prelude\<close> (\<open>Rust_Prelude\<close>, \<open>Rust_Strings\<close>, \<open>Rust_Numbers\<close>, \<open>Rust_Maps\<close>, \<open>Interfaces\<close>). Results with early
    return, state-passing actions, saturating arithmetic, UTF-8 strings as lists of bytes with \<open>trim\<close>,
    prefixes and decimal numbers, searching, splitting and replacing in strings, parsing of integers,
    ordered maps, list updates; and the contracts that several components share, as locales: steps
    guarded by an invariant, stores written under an expected revision, first-in-first-out queues per key.
  \<^item> \<^bold>\<open>Task ledger\<close> (\<open>agendao-types/src/task_ledger.rs\<close>). \<open>Task_Ledger\<close> has the ledger, its operations,
    the completion gate and the snapshot check; \<open>Task_Ledger_Invariants\<close> and \<open>Task_Ledger_History\<close> the
    invariants of reachable ledgers and of their histories; \<open>Task_Ledger_Properties\<close> what they mean.
  \<^item> \<^bold>\<open>Ledger authority, reducer and stall control\<close> (\<open>agendao-server/src/session_runtime\<close>: files
    \<open>task_ledger.rs\<close>, \<open>task_ledger_reducer.rs\<close>, \<open>task_ledger_stall.rs\<close>). \<open>Task_Ledger_Stall\<close> is the stall
    detector; \<open>Task_Ledger_Reducer\<close> turns execution seams into operations; \<open>Server_State\<close> is the
    server around them: the sessions, the lock, the events. \<open>Server_Properties\<close> and
    \<open>Reducer_Properties\<close> prove properties of arbitrary interleavings.
  \<^item> \<^bold>\<open>Repair summaries and steering\<close> (\<open>agendao-types/src/repair.rs\<close>, \<open>steering.rs\<close>): \<open>Repair\<close>, \<open>Steering\<close>.
  \<^item> \<^bold>\<open>Permissions\<close> (\<open>agendao-permission/src\<close>). \<open>Permission_Rules\<close>: wildcards, command arity, rulesets and
    their evaluation. \<open>Permission_Engine\<close>: pending requests, approvals and answers.
  \<^item> \<^bold>\<open>Submission\<close> (\<open>agendao-server-core/src/submission_authority.rs\<close>): \<open>Submission\<close>, the prompt queue with
    revisions and idempotent mutations.
  \<^item> \<^bold>\<open>Scheduler\<close> (\<open>agendao-orchestrator/src\<close>). \<open>Blueprint\<close> has the blueprints, the catalog, the policy
    and the validator (\<open>blueprint/types.rs\<close>, \<open>blueprint/validate.rs\<close>, \<open>catalog.rs\<close>, \<open>policy.rs\<close>);
    \<open>Blueprint_Graph\<close> the graph algorithms against their mathematical meaning; \<open>Blueprint_Properties\<close>
    what acceptance guarantees, as the contract \<open>accepted_graphs\<close>. \<open>Agent_Loop\<close> is the loop of one
    agent with its budget and prompt surfaces (\<open>agent_loop/loop_impl.rs\<close>, \<open>context.rs\<close>). \<open>Engine\<close> walks
    the graph (\<open>engine.rs\<close>); \<open>Engine_Walk\<close> joins the contract of the validator with that of the
    accounting, and \<open>Engine_Properties\<close> draws the consequences for whole runs. \<open>Templates\<close> builds blueprints (\<open>templates.rs\<close>), \<open>Selector\<close> chooses one
    (\<open>selector.rs\<close>), and \<open>Selector_Properties\<close> shows that what is chosen is valid.
  \<^item> \<^bold>\<open>Runtime control\<close> (\<open>agendao-server-core/src/runtime_control.rs\<close>). \<open>Runtime_Control\<close> is the registry
    of executions, \<open>Runtime_Topology\<close> the forest it shows, \<open>Runtime_Properties\<close> its invariants over
    arbitrary sequences of operations.
  \<^item> \<^bold>\<open>Runtime state and telemetry\<close> (\<open>agendao-server-core/src/runtime_state.rs\<close>,
    \<open>agendao-server/src/session_runtime/telemetry.rs\<close>). \<open>Runtime_State\<close> is what each session shows,
    \<open>Telemetry\<close> the authority that changes the registry and the shown state together and announces it, and
    \<open>Telemetry_Properties\<close> shows that the two agree.
  \<^item> \<^bold>\<open>Edit tool\<close> (\<open>agendao-tool/src/edit\<close>). \<open>Edit\<close> has the matching strategies, the replacement and the edit
    of a file (\<open>replacers.rs\<close>, \<open>tool.rs\<close>), \<open>Edit_Properties\<close> what an edit may change.
  \<^item> \<^bold>\<open>Patch tool\<close> (\<open>agendao-tool/src/apply_patch.rs\<close>, \<open>path_guard.rs\<close>, \<open>agendao-tool-core/src/file_path_authority.rs\<close>).
    \<open>File_Path\<close> classifies paths against the project root, \<open>Line_Diff\<close> computes differences of texts (also the
    line counts of \<open>agendao-session/src/revert.rs\<close>), and \<open>Patch\<close> parses patches, applies their hunks and runs the
    tool. \<open>Line_Diff_Properties\<close> and \<open>Patch_Properties\<close> have the theorems.
  \<^item> \<^bold>\<open>Subprocess messages\<close> (\<open>agendao-core/src/codec.rs\<close>, \<open>jsonrpc.rs\<close>): \<open>Framing\<close>, frames and JSON-RPC.
  \<^item> \<^bold>\<open>Sessions\<close> (\<open>agendao-session/src/session.rs\<close>, \<open>session_fork_metadata.rs\<close>, \<open>agendao-types/src/message.rs\<close>, \<open>session.rs\<close>).
    \<open>Session_Data\<close> has messages and their provenance, \<open>Session_Record\<close> the session with its messages and usage,
    \<open>Session_Settings\<close> titles, settings, rows and fork metadata, \<open>Session_Manager\<close> the manager that holds and
    publishes them. \<open>Session_Properties\<close> states the contracts \<open>upsert_store\<close> (messages of a session, parts of a
    message) and \<open>event_sourced\<close> (what a client rebuilds from the published events); \<open>Session_Fork_Properties\<close> is
    about forks and usage. \<open>Server_State\<close> keeps of a session only what the ledger needs.
  \<^item> \<^bold>\<open>Provider guards\<close> (\<open>agendao-provider/src/runtime/circuit_breaker.rs\<close>, \<open>preflight.rs\<close>, \<open>instance.rs\<close>, \<open>stream.rs\<close>):
    \<open>Provider_Guard\<close>, the circuit breaker, time limits and the stall watchdog of streams.
  \<^item> \<^bold>\<open>Sandbox\<close> (\<open>agendao-sandbox/src\<close>, \<open>agendao-server/src/sandbox_authority.rs\<close>). \<open>Sandbox_Path\<close> resolves and
    contains paths (\<open>path.rs\<close>); \<open>Sandbox_Policy\<close> merges the policy layers into a profile and builds the
    environment of a child (\<open>model.rs\<close>, \<open>policy.rs\<close>, \<open>network.rs\<close>, \<open>environment.rs\<close>); \<open>Sandbox_Launch\<close> goes
    from a request over a plan and a backend to a running execution (\<open>plan.rs\<close>, \<open>backend.rs\<close>, \<open>launcher.rs\<close>,
    \<open>lifecycle.rs\<close>); \<open>Sandbox_Bwrap\<close> is the Linux backend (\<open>platform/linux/bwrap.rs\<close>, \<open>seccomp.rs\<close>) and
    \<open>Sandbox_Boundary\<close> the entry for integrations (\<open>boundary.rs\<close>). The properties are in
    \<open>Sandbox_Policy_Properties\<close>, where the merge is an instance of the contract \<open>bound_layers\<close>, in
    \<open>Sandbox_Launch_Properties\<close>, and next to the definitions. \<open>Sandbox_Projection\<close> is the way of the events of
    an execution into the state its session shows (\<open>session_runtime/frontend_projection.rs\<close>).

  \<^bold>\<open>How they interact.\<close> The submission authority hands prompts to a session run. The selector
  chooses a blueprint, from a template or the planner's, and validates it. The run registers itself and
  its scheduler with the runtime control registry and walks the blueprint; agents ask the permission
  engine before a tool runs, processes are launched through the sandbox authority, and questions go
  through the registry. At its seams
  the run reports to the ledger reducer, whose operations the ledger authority commits and
  publishes; the stall detector watches the same seams and steers or blocks the run.

  \<^bold>\<open>Conventions.\<close>
  \<^item> A struct is a record, an enum a datatype, with the field and constructor names of the source where
    these are free. Errors are values of a sum type; a panic is a value of its own.
  \<^item> Strings are the bytes of their UTF-8 encoding. \<open>u32\<close> and \<open>u64\<close> are words that wrap; \<open>i64\<close> clock
    readings are integers, with saturation written out where the code saturates.
  \<^item> Ordered maps are lists of entries in key order, hash maps are maps or lists of entries in iteration
    order, whichever the code observes.
  \<^item> A critical section under a lock is one step. What other tasks do between two sections of an
    operation is a parameter of the operation, or an arbitrary sequence of steps; only in \<open>Telemetry\<close> an
    operation over two stores is one step.
  \<^item> Serialisation, hashing, model and tool backends, evaluators, workspace capabilities, observers and
    clocks, the file system, child processes and floating-point arithmetic are parameters. What is assumed of them is a named predicate (\<open>json_laws\<close>,
    \<open>checkpoint_backend\<close>, \<open>engine_env_keeps\<close> and the like), each shown satisfiable on a concrete instance.

  \<^bold>\<open>Bounds and fuel.\<close> The graph walk follows edges and would not end on a cycle: \<open>execute_graph\<close> takes the
  number of nested walks it may use and returns \<open>None\<close> when they run out. \<open>validated_run_returns\<close> shows
  that more walks than the blueprint is deep always suffice, and \<open>validated_depth_within_limit\<close> that
  the depth is bounded by the limits. Likewise \<open>graph_depth\<close> returns \<open>None\<close> when its recursion is deeper
  than the graph has nodes, which \<open>validation_terminates\<close> excludes where the validator calls it. All
  other recursions are structural or come with a measure. Statements about counters that wrap carry
  the bound below which they hold (\<open>2 ^ 32\<close> entries of a ledger, \<open>2 ^ 64\<close> queue revisions).

  \<^bold>\<open>What is shown.\<close> The ledger: completion is evidenced, history is append-only, writes are atomic and
  published in revision order over all interleavings, no seam fakes evidence. The stall detector acts
  only on evidence and within its budget. Permissions: every approval goes back to consent and lasts as
  long as the answer says. Submission: queue mutations happen at most once, prompts are delivered in
  order. Scheduler: validation is exact for cycles, terminates, and bounds what agents may use; a run of
  a validated blueprint ends, stays within its budget, never runs an undeclared tool, and a failed loop
  restores the workspace. Runtime control: finishing a run retires exactly its subtree, the topology
  shows every rooted record once, a question is settled at most once. Selection: templates have a sound
  shape, generated agents inherit the limits of their base, and whatever is selected has passed the
  validator. Edit tool: a single edit replaces exactly one place, errors mean what they say, and what is
  written is what permission was given for. Sandbox: merging only tightens, a session that is not
  unsandboxed never runs anything natively, the mounts, the environment and the system call filter grant
  what the plan grants and no more, every request is audited and every execution exits once, and a
  session shows exactly its live executions. Runtime state: what is shown is coherent, no session without
  a run is shown running, and a question is shown until its answer has reached who asked. Patch tool: every
  file effect was shown and granted and stays within the workspace or a granted directory; differences
  are minimal scripts; hunks whose changes come first are applied as the format means them (for others
  the finding lemmas show that they are not). Framing: what is written as frames is read back. Sessions:
  a client can rebuild the session list from the published events, a fork takes over exactly the policy
  and the history asked for, marked as imported, and usage counts only what was written in the session.
  Provider guards: the breaker refuses only after enough failures and within its cool-down, a limited
  call returns, and a watched stream ends.

  \<^bold>\<open>Not modelled.\<close> HTTP routes, SSE transport, terminal and web front ends, SQLite storage, provider
  protocols, language servers, MCP, plugin processes and pseudo-terminals are I/O around the parts
  above. Left out although they carry logic of their own: the provider bridge of the agent loop (streams
  to turns) and the rate limiter, whose tokens are floating-point numbers; the configuration merge, a
  record of some hundred optional fields read from files; prompt building and compaction, which make
  text for a model and take their summary from it; \<open>RevertManager\<close>, which no other code calls; the other
  front-end projections, which shape JSON; and the memory and skill stores, which work on a database and
  on directories. Of the sandbox, the process driver, the host probes and the macOS and Windows backends
  are left out.
\<close>

end
